(* ===== verification/Prelude.thy ===== *)
theory Prelude
  imports Main "HOL-Library.Word" "HOL-Library.AList"
begin

text \<open>
  The vocabulary every component of the development shares.

  \<^item> Rust's unsigned integers are words of their width.  The arithmetic of the crates is
    that of a release build: \<open>+\<close>, \<open>-\<close>, \<open>*\<close> and \<open>Iterator::sum\<close> wrap around, which is what
    the operations of HOL's word type do.  \<open>saturating_add\<close>, \<open>saturating_sub\<close> and
    \<open>saturating_mul\<close> are the methods of the same name.  Lengths (\<open>usize\<close>, the result of
    \<open>len()\<close>) are natural numbers.
  \<^item> A \<open>Result<T, E>\<close> is a sum \<open>'e + 'a\<close> with \<open>Inl\<close> for \<open>Err\<close>; an operation behind a lock is a
    function that returns its result and the new state.
  \<^item> A \<open>HashMap\<close> is an association list with distinct keys (\<open>hwf\<close>), so that iteration is
    executable; the locale \<open>hash_map\<close> is the interface the components rely on.
  \<^item> A floating point number that the code only stores is its bit pattern (\<open>f64\<close>, \<open>f32\<close>).
\<close>

section \<open>Names of the model's types\<close>

type_synonym u8 = "8 word"
type_synonym u16 = "16 word"
type_synonym u32 = "32 word"
type_synonym u64 = "64 word"
type_synonym i32 = "32 word"
type_synonym f32 = "32 word"
type_synonym f64 = "64 word"
type_synonym bytes = "u8 list"

text \<open>\<open>std::time::SystemTime::now().duration_since(UNIX_EPOCH)\<close> in whole seconds: \<open>None\<close> when the
  clock stands before the epoch, which is the error case of that call.\<close>

type_synonym clock = "u64 option"

named_theorems u_simps \<open>the natural-number reading of the saturating word operations\<close>
named_theorems hmap_simps \<open>lookup, keys and well-formedness of hash maps after an update\<close>

section \<open>Saturating arithmetic\<close>

definition saturating_add :: "'a::len word \<Rightarrow> 'a word \<Rightarrow> 'a word" where
  "saturating_add a b = (if unat a + unat b < 2 ^ LENGTH('a) then a + b else - 1)"

definition saturating_sub :: "'a::len word \<Rightarrow> 'a word \<Rightarrow> 'a word" where
  "saturating_sub a b = (if b \<le> a then a - b else 0)"

definition saturating_mul :: "'a::len word \<Rightarrow> 'a word \<Rightarrow> 'a word" where
  "saturating_mul a b = (if unat a * unat b < 2 ^ LENGTH('a) then a * b else - 1)"

lemma unat_max_word: "unat (- 1 :: 'a::len word) = 2 ^ LENGTH('a) - 1"
  by (simp add: unsigned_minus_1_eq_mask mask_eq_exp_minus_1)

lemma unat_bound [intro]: "unat (a :: 'a::len word) < 2 ^ LENGTH('a)"
  by (rule unsigned_less)

lemma unat_add_exact [u_simps]:
  "unat a + unat b < 2 ^ LENGTH('a) \<Longrightarrow> unat (a + b :: 'a::len word) = unat a + unat b"
  by (simp add: unat_word_ariths)

lemma unat_mult_exact [u_simps]:
  "unat a * unat b < 2 ^ LENGTH('a) \<Longrightarrow> unat (a * b :: 'a::len word) = unat a * unat b"
  by (simp add: unat_word_ariths)

lemma unat_sub_exact [u_simps]: "b \<le> a \<Longrightarrow> unat (a - b :: 'a::len word) = unat a - unat b"
  by (simp add: unat_sub)

lemma unat_saturating_add [u_simps]:
  "unat (saturating_add a b :: 'a::len word) = min (unat a + unat b) (2 ^ LENGTH('a) - 1)"
  by (auto simp: saturating_add_def unat_add_exact unat_max_word min_def)

lemma unat_saturating_sub [u_simps]:
  "unat (saturating_sub a b :: 'a::len word) = unat a - unat b"
  by (auto simp: saturating_sub_def unat_sub_exact word_le_nat_alt)

lemma unat_saturating_mul [u_simps]:
  "unat (saturating_mul a b :: 'a::len word) = min (unat a * unat b) (2 ^ LENGTH('a) - 1)"
proof (cases "unat a * unat b < 2 ^ LENGTH('a)")
  case True
  then show ?thesis by (simp add: saturating_mul_def unat_mult_exact)
next
  case False
  then show ?thesis by (simp add: saturating_mul_def unat_max_word)
qed

lemma unat_min [u_simps]: "unat (min a b :: 'a::len word) = min (unat a) (unat b)"
  by (auto simp: min_def word_le_nat_alt)

lemma unat_sum_list_exact:
  "sum_list (map unat ws) < 2 ^ LENGTH('a) \<Longrightarrow> unat (sum_list ws :: 'a::len word) = sum_list (map unat ws)"
  by (induction ws) (simp_all add: unat_add_exact)

section \<open>Results\<close>

text \<open>The \<open>?\<close> operator: the first error is the result.\<close>

definition bind_result :: "'e + 'a \<Rightarrow> ('a \<Rightarrow> 'e + 'b) \<Rightarrow> 'e + 'b" where
  "bind_result r f = (case r of Inl e \<Rightarrow> Inl e | Inr a \<Rightarrow> f a)"

definition map_err :: "('e \<Rightarrow> 'f) \<Rightarrow> 'e + 'a \<Rightarrow> 'f + 'a" where
  "map_err f r = (case r of Inl e \<Rightarrow> Inl (f e) | Inr a \<Rightarrow> Inr a)"

definition ok_or :: "'a option \<Rightarrow> 'e \<Rightarrow> 'e + 'a" where
  "ok_or x e = (case x of None \<Rightarrow> Inl e | Some a \<Rightarrow> Inr a)"

definition is_ok :: "'e + 'a \<Rightarrow> bool" where
  "is_ok r = (case r of Inl _ \<Rightarrow> False | Inr _ \<Rightarrow> True)"

lemma bind_result_simps [simp]:
  "bind_result (Inl e) f = Inl e"
  "bind_result (Inr a) f = f a"
  by (simp_all add: bind_result_def)

lemma bind_result_Inr_iff:
  "bind_result r f = Inr b \<longleftrightarrow> (\<exists>a. r = Inr a \<and> f a = Inr b)"
  by (cases r) simp_all

lemma map_err_simps [simp]:
  "map_err f (Inl e) = Inl (f e)"
  "map_err f (Inr a) = Inr a"
  by (simp_all add: map_err_def)

lemma map_err_Inr_iff [simp]: "map_err f r = Inr a \<longleftrightarrow> r = Inr a"
  by (cases r) simp_all

lemma ok_or_simps [simp]:
  "ok_or None e = Inl e"
  "ok_or (Some a) e = Inr a"
  by (simp_all add: ok_or_def)

lemma ok_or_Inr_iff: "ok_or x e = Inr a \<longleftrightarrow> x = Some a"
  by (cases x) simp_all

lemma is_ok_simps [simp]: "\<not> is_ok (Inl e)" "is_ok (Inr a)"
  by (simp_all add: is_ok_def)

section \<open>Hash maps\<close>

text \<open>
  What the components use of \<open>std::collections::HashMap\<close>: \<open>get\<close>, \<open>insert\<close>, \<open>remove\<close>, the
  keys, and iteration over the entries in some order.
\<close>

locale hash_map =
  fixes empty :: "'m"
    and get :: "'m \<Rightarrow> 'k \<Rightarrow> 'v option"
    and insert :: "'m \<Rightarrow> 'k \<Rightarrow> 'v \<Rightarrow> 'm"
    and remove :: "'m \<Rightarrow> 'k \<Rightarrow> 'm"
    and entries :: "'m \<Rightarrow> ('k \<times> 'v) list"
    and wf :: "'m \<Rightarrow> bool"
  assumes get_empty: "get empty k = None"
    and get_insert: "get (insert m k v) k' = (if k' = k then Some v else get m k')"
    and get_remove: "get (remove m k) k' = (if k' = k then None else get m k')"
    and wf_empty: "wf empty"
    and wf_insert: "wf m \<Longrightarrow> wf (insert m k v)"
    and wf_remove: "wf m \<Longrightarrow> wf (remove m k)"
    and distinct_entries: "wf m \<Longrightarrow> distinct (map fst (entries m))"
    and get_entries: "wf m \<Longrightarrow> get m k = map_of (entries m) k"
begin

lemma insert_shadows: "get (insert (insert m k v) k w) = get (insert m k w)"
  by (rule ext) (simp add: get_insert)

lemma insert_commutes:
  "k \<noteq> k' \<Longrightarrow> get (insert (insert m k v) k' w) = get (insert (insert m k' w) k v)"
  by (rule ext) (auto simp: get_insert)

lemma remove_insert_fresh: "get m k = None \<Longrightarrow> get (remove (insert m k v) k) = get m"
  by (rule ext) (auto simp: get_insert get_remove)

lemma entries_iff_get: "wf m \<Longrightarrow> (k, v) \<in> set (entries m) \<longleftrightarrow> get m k = Some v"
  by (simp add: get_entries distinct_entries map_of_eq_Some_iff)

lemma keys_iff_get: "wf m \<Longrightarrow> k \<in> fst ` set (entries m) \<longleftrightarrow> get m k \<noteq> None"
  by (metis get_entries map_of_eq_None_iff)

end

type_synonym ('k, 'v) hmap = "('k \<times> 'v) list"

definition hget :: "('k, 'v) hmap \<Rightarrow> 'k \<Rightarrow> 'v option" where
  "hget m k = map_of m k"

definition hinsert :: "('k, 'v) hmap \<Rightarrow> 'k \<Rightarrow> 'v \<Rightarrow> ('k, 'v) hmap" where
  "hinsert m k v = AList.update k v m"

definition hremove :: "('k, 'v) hmap \<Rightarrow> 'k \<Rightarrow> ('k, 'v) hmap" where
  "hremove m k = AList.delete k m"

definition hkeys :: "('k, 'v) hmap \<Rightarrow> 'k list" where
  "hkeys m = map fst m"

definition hvalues :: "('k, 'v) hmap \<Rightarrow> 'v list" where
  "hvalues m = map snd m"

definition hwf :: "('k, 'v) hmap \<Rightarrow> bool" where
  "hwf m = distinct (map fst m)"

lemmas hmap_defs = hget_def hinsert_def hremove_def hkeys_def hvalues_def hwf_def

interpretation hm: hash_map "[]" hget hinsert hremove "\<lambda>m. m" hwf
  by unfold_locales
    (auto simp: hmap_defs update_conv' delete_conv' distinct_update distinct_delete)

declare hm.get_insert [hmap_simps] hm.get_remove [hmap_simps]
declare hm.get_empty [simp] hm.wf_empty [simp]
declare hm.wf_insert [hmap_simps, intro] hm.wf_remove [hmap_simps, intro]

lemma set_hkeys: "k \<in> set (hkeys m) \<longleftrightarrow> hget m k \<noteq> None"
  by (simp add: hkeys_def hget_def map_of_eq_None_iff)

lemma distinct_hkeys: "hwf m \<Longrightarrow> distinct (hkeys m)"
  by (simp add: hkeys_def hwf_def)

text \<open>The sum of the values whose key satisfies a predicate, as \<open>iter().filter().map().sum()\<close>
  computes it.\<close>

definition hsum :: "('k \<Rightarrow> bool) \<Rightarrow> ('k, 'v::comm_monoid_add) hmap \<Rightarrow> 'v" where
  "hsum P m = sum_list (map snd (filter (\<lambda>kv. P (fst kv)) m))"

definition hget_or :: "'v \<Rightarrow> ('k, 'v) hmap \<Rightarrow> 'k \<Rightarrow> 'v" where
  "hget_or d m k = (case hget m k of None \<Rightarrow> d | Some v \<Rightarrow> v)"

lemma hget_or_insert [hmap_simps]:
  "hget_or d (hinsert m k v) k' = (if k' = k then v else hget_or d m k')"
  by (simp add: hget_or_def hm.get_insert)

lemma hsum_absent:
  assumes "k \<notin> fst ` set m"
  shows "hsum P (AList.update k v m) = hsum P m + (if P k then v else 0)"
  using assms by (induction m) (auto simp: hsum_def ac_simps)

text \<open>Overwriting one entry moves the sum by the difference of the entry's values.\<close>

lemma hsum_hinsert:
  fixes m :: "('k, 'v::ab_group_add) hmap"
  assumes "hwf m"
  shows "hsum P (hinsert m k v) = hsum P m + (if P k then v - hget_or 0 m k else 0)"
  using assms
proof (induction m)
  case Nil
  then show ?case by (simp add: hsum_def hinsert_def hget_or_def)
next
  case (Cons kv m)
  obtain k0 v0 where kv: "kv = (k0, v0)" by (cases kv)
  show ?case
  proof (cases "k0 = k")
    case True
    then show ?thesis
      using kv by (simp add: hsum_def hinsert_def hget_or_def hget_def)
  next
    case False
    have "hsum P (hinsert m k v) = hsum P m + (if P k then v - hget_or 0 m k else 0)"
      using Cons by (simp add: hwf_def)
    then show ?thesis
      using kv False by (simp add: hsum_def hinsert_def hget_or_def hget_def add.assoc)
  qed
qed

section \<open>Strings and bytes\<close>

text \<open>A \<open>String\<close> is the list of the bytes of its UTF-8 encoding, read as characters.\<close>

definition str_bytes :: "string \<Rightarrow> bytes" where
  "str_bytes s = map (\<lambda>c. word_of_nat (of_char c)) s"

definition bytes_str :: "bytes \<Rightarrow> string" where
  "bytes_str bs = map (\<lambda>b. char_of (unat b)) bs"

text \<open>The well-formed byte sequences of UTF-8 (the table of the Unicode standard that
  \<open>core::str::from_utf8\<close> implements).\<close>

definition utf8_cont :: "u8 \<Rightarrow> bool" where
  "utf8_cont b \<longleftrightarrow> 0x80 \<le> b \<and> b \<le> 0xBF"

fun utf8_valid :: "bytes \<Rightarrow> bool" where
  "utf8_valid [] = True"
| "utf8_valid (a # bs) =
     (if a < 0x80 then utf8_valid bs
      else if 0xC2 \<le> a \<and> a \<le> 0xDF then
        (case bs of b # r \<Rightarrow> utf8_cont b \<and> utf8_valid r | _ \<Rightarrow> False)
      else if 0xE0 \<le> a \<and> a \<le> 0xEF then
        (case bs of b # c # r \<Rightarrow>
           utf8_cont b \<and> utf8_cont c \<and> (a = 0xE0 \<longrightarrow> 0xA0 \<le> b) \<and> (a = 0xED \<longrightarrow> b \<le> 0x9F) \<and> utf8_valid r
         | _ \<Rightarrow> False)
      else if 0xF0 \<le> a \<and> a \<le> 0xF4 then
        (case bs of b # c # d # r \<Rightarrow>
           utf8_cont b \<and> utf8_cont c \<and> utf8_cont d \<and> (a = 0xF0 \<longrightarrow> 0x90 \<le> b) \<and>
           (a = 0xF4 \<longrightarrow> b \<le> 0x8F) \<and> utf8_valid r
         | _ \<Rightarrow> False)
      else False)"

definition from_utf8 :: "bytes \<Rightarrow> string option" where
  "from_utf8 bs = (if utf8_valid bs then Some (bytes_str bs) else None)"

text \<open>\<open>str::split\<close> on one character.\<close>

fun split_on :: "char \<Rightarrow> string \<Rightarrow> string list" where
  "split_on c [] = [[]]"
| "split_on c (x # xs) =
     (if x = c then [] # split_on c xs
      else (x # hd (split_on c xs)) # tl (split_on c xs))"

lemma bytes_str_bytes [simp]: "bytes_str (str_bytes s) = s"
proof -
  have "char_of (unat (word_of_nat (of_char c) :: u8)) = c" for c
    by (simp add: unsigned_of_nat take_bit_eq_mod of_char_mod_256)
  then show ?thesis by (simp add: bytes_str_def str_bytes_def o_def)
qed

lemma str_bytes_str [simp]: "str_bytes (bytes_str bs) = bs"
proof -
  have "(word_of_nat (of_char (char_of (unat b) :: char)) :: u8) = b" for b
    using unat_bound [of b] by (simp add: take_bit_eq_mod)
  then show ?thesis by (simp add: bytes_str_def str_bytes_def o_def)
qed

lemma str_bytes_inject [simp]: "str_bytes s = str_bytes s' \<longleftrightarrow> s = s'"
  by (metis bytes_str_bytes)

lemma length_str_bytes [simp]: "length (str_bytes s) = length s"
  by (simp add: str_bytes_def)

lemma split_on_not_Nil [simp]: "split_on c s \<noteq> []"
  by (cases s) simp_all

lemma split_on_fresh: "c \<notin> set s \<Longrightarrow> split_on c s = [s]"
  by (induction s) auto

lemma split_on_append: "split_on c (s @ c # s') = split_on c s @ split_on c s'"
  by (induction s) (auto simp: neq_Nil_conv)

lemma split_on_fresh_append: "c \<notin> set s \<Longrightarrow> split_on c (s @ c # s') = s # split_on c s'"
  by (simp add: split_on_append split_on_fresh)

text \<open>Joining the parts with the separator gives the string back.\<close>

lemma split_on_join: "concat (map (\<lambda>p. p @ [c]) (split_on c s)) = s @ [c]"
proof (induction s)
  case Nil
  then show ?case by simp
next
  case (Cons x s)
  obtain p ps where "split_on c s = p # ps" by (cases "split_on c s") auto
  with Cons show ?case by auto
qed

end
