(* ===== verification/Identity_Index.thy ===== *)
theory Identity_Index
  imports Prelude
begin

text \<open>
  The organisational scope of an identity: \<open>ScopeKey\<close> and \<open>IdentityIndex\<close> of
  \<^verbatim>\<open>crates/common/icn-identity/src/scope_key.rs\<close> and \<^verbatim>\<open>identity_index.rs\<close>.  An index holds three
  maps (identity to cooperative, cooperative to community, community to federation); resolving
  an identity walks them and stops at the widest scope that is registered.
\<close>

type_synonym did = string

datatype ScopeKey =
    Federation string
  | Cooperative string
  | Community string
  | Individual string

record IdentityIndex =
  did_to_coop :: "(did, string) hmap"
  coop_to_community :: "(string, string) hmap"
  community_to_federation :: "(string, string) hmap"

definition IdentityIndex_new :: IdentityIndex where
  "IdentityIndex_new = \<lparr>did_to_coop = [], coop_to_community = [], community_to_federation = []\<rparr>"

definition insert_did_coop :: "IdentityIndex \<Rightarrow> did \<Rightarrow> string \<Rightarrow> IdentityIndex" where
  "insert_did_coop ix d coop_id = ix\<lparr>did_to_coop := hinsert (did_to_coop ix) d coop_id\<rparr>"

definition insert_coop_community :: "IdentityIndex \<Rightarrow> string \<Rightarrow> string \<Rightarrow> IdentityIndex" where
  "insert_coop_community ix coop_id community_id =
     ix\<lparr>coop_to_community := hinsert (coop_to_community ix) coop_id community_id\<rparr>"

definition insert_community_federation :: "IdentityIndex \<Rightarrow> string \<Rightarrow> string \<Rightarrow> IdentityIndex" where
  "insert_community_federation ix community_id federation =
     ix\<lparr>community_to_federation := hinsert (community_to_federation ix) community_id federation\<rparr>"

definition resolve_scope_key :: "IdentityIndex \<Rightarrow> did \<Rightarrow> ScopeKey" where
  "resolve_scope_key ix d =
     (case hget (did_to_coop ix) d of
        Some coop \<Rightarrow>
          (case hget (coop_to_community ix) coop of
             Some comm \<Rightarrow>
               (case hget (community_to_federation ix) comm of
                  Some fid \<Rightarrow> Federation fid
                | None \<Rightarrow> Community comm)
           | None \<Rightarrow> Cooperative coop)
      | None \<Rightarrow> Individual d)"

text \<open>The reading of an index as three partial maps, and the scope an identity has in it.\<close>

inductive scope_of :: "IdentityIndex \<Rightarrow> did \<Rightarrow> ScopeKey \<Rightarrow> bool" for ix where
  scope_individual: "hget (did_to_coop ix) d = None \<Longrightarrow> scope_of ix d (Individual d)"
| scope_coop: "hget (did_to_coop ix) d = Some c \<Longrightarrow> hget (coop_to_community ix) c = None \<Longrightarrow>
    scope_of ix d (Cooperative c)"
| scope_community: "hget (did_to_coop ix) d = Some c \<Longrightarrow> hget (coop_to_community ix) c = Some m \<Longrightarrow>
    hget (community_to_federation ix) m = None \<Longrightarrow> scope_of ix d (Community m)"
| scope_federation: "hget (did_to_coop ix) d = Some c \<Longrightarrow> hget (coop_to_community ix) c = Some m \<Longrightarrow>
    hget (community_to_federation ix) m = Some f \<Longrightarrow> scope_of ix d (Federation f)"

inductive_cases scope_of_individualE [elim!]: "scope_of ix d (Individual x)"
inductive_simps scope_of_simps: "scope_of ix d k"

lemmas index_defs = IdentityIndex_new_def insert_did_coop_def insert_coop_community_def
  insert_community_federation_def resolve_scope_key_def

lemma scope_of_resolve: "scope_of ix d k \<longleftrightarrow> resolve_scope_key ix d = k"
  by (auto simp: scope_of_simps resolve_scope_key_def split: option.splits)

lemma insert_did_coop_frame:
  "d' \<noteq> d \<Longrightarrow> resolve_scope_key (insert_did_coop ix d c) d' = resolve_scope_key ix d'"
  by (simp add: index_defs hmap_simps split: option.split)

text \<open>All members of a cooperative are accounted in one scope, whatever is registered above
  the cooperative.\<close>

lemma resolve_scope_key_shared:
  assumes "hget (did_to_coop ix) d = Some c" and "hget (did_to_coop ix) d' = Some c"
  shows "resolve_scope_key ix d = resolve_scope_key ix d'"
  using assms by (simp add: resolve_scope_key_def)

end
