(* ===== verification/Did_Key.thy ===== *)
theory Did_Key
  imports Identity_Index
begin

text \<open>
  Decentralised identifiers: \<^verbatim>\<open>crates/common/icn-identity/src/did.rs\<close> (\<open>Did\<close>, \<open>to_ed25519\<close>,
  \<open>from_str\<close>) and the older key format of \<^verbatim>\<open>crates/common/icn-types/src/crypto.rs\<close>
  (\<open>key_to_did\<close>, \<open>did_to_key\<close>).

  A verifying key is its 32 bytes.  The multibase and base64 codecs and the curve check
  \<open>VerifyingKey::from_bytes\<close> are library code: they are parameters (\<open>mb_encode\<close>, \<open>mb_decode\<close>,
  \<open>vk_from_bytes\<close>, \<open>b64_encode\<close>, \<open>b64_decode\<close>), and the properties state the laws of these
  codecs they rest on.
\<close>

datatype DidError =
    EmptyInput
  | InvalidPrefix string
  | UnsupportedMethod string
  | MissingMethodSpecificId
  | InvalidMethodSpecificIdEncoding string string
  | EmptyDecodedMethodSpecificId
  | UnsupportedKeyMulticodec u64 u64
  | InvalidKeyLength nat nat
  | InvalidKeyBytes string

definition ED25519_MULTICODEC_PREFIX :: u8 where
  "ED25519_MULTICODEC_PREFIX = 0xed"

definition ED25519_KEY_LENGTH :: nat where
  "ED25519_KEY_LENGTH = 32"

definition new_ed25519 :: "(bytes \<Rightarrow> string) \<Rightarrow> bytes \<Rightarrow> did" where
  "new_ed25519 mb_encode pk = ''did:key:'' @ mb_encode (ED25519_MULTICODEC_PREFIX # pk)"

definition to_ed25519 ::
  "(string \<Rightarrow> string + bytes) \<Rightarrow> (bytes \<Rightarrow> string + bytes) \<Rightarrow> did \<Rightarrow> DidError + bytes" where
  "to_ed25519 mb_decode vk_from_bytes d =
     (if d = [] then Inl EmptyInput
      else let parts = split_on CHR '':'' d in
        if length parts < 1 \<or> parts ! 0 \<noteq> ''did'' then Inl (InvalidPrefix (hd parts))
        else if length parts < 2 \<or> parts ! 1 \<noteq> ''key'' then
          Inl (UnsupportedMethod (if length parts < 2 then [] else parts ! 1))
        else if length parts < 3 \<or> parts ! 2 = [] then Inl MissingMethodSpecificId
        else case mb_decode (parts ! 2) of
            Inl e \<Rightarrow> Inl (InvalidMethodSpecificIdEncoding (parts ! 2) e)
          | Inr [] \<Rightarrow> Inl EmptyDecodedMethodSpecificId
          | Inr (codec # key_bytes) \<Rightarrow>
              if codec = ED25519_MULTICODEC_PREFIX then
                if length key_bytes \<noteq> ED25519_KEY_LENGTH then
                  Inl (InvalidKeyLength ED25519_KEY_LENGTH (length key_bytes))
                else map_err InvalidKeyBytes (vk_from_bytes key_bytes)
              else Inl (UnsupportedKeyMulticodec (ucast ED25519_MULTICODEC_PREFIX) (ucast codec)))"

definition did_from_str ::
  "(string \<Rightarrow> string + bytes) \<Rightarrow> (bytes \<Rightarrow> string + bytes) \<Rightarrow> string \<Rightarrow> DidError + did" where
  "did_from_str mb_decode vk_from_bytes s =
     (if s = [] then Inl EmptyInput
      else bind_result (to_ed25519 mb_decode vk_from_bytes s) (\<lambda>_. Inr s))"

section \<open>The older key format\<close>

datatype CryptoError = KeyFormatGeneric string | KeyFormatBase64 string

definition key_to_did :: "(bytes \<Rightarrow> string) \<Rightarrow> bytes \<Rightarrow> string" where
  "key_to_did b64_encode public_key_bytes =
     ''did:key:z'' @ b64_encode ([0xed, 0x01] @ public_key_bytes)"

text \<open>\<open>&did_string[10..]\<close> panics when the string has fewer than 10 bytes: \<open>None\<close> is that panic.  (It
  would also panic inside a multi-byte character; the ninth byte is the ASCII \<open>z\<close>, so position 9
  is a boundary, and position 10 is one unless the tenth byte starts a longer sequence.)\<close>

definition char_boundary :: "string \<Rightarrow> nat \<Rightarrow> bool" where
  "char_boundary s i \<longleftrightarrow> i = length s \<or> i < length s \<and> \<not> utf8_cont (str_bytes s ! i)"

definition did_to_key :: "(string \<Rightarrow> string + bytes) \<Rightarrow> string \<Rightarrow> (CryptoError + bytes) option" where
  "did_to_key b64_decode did_string =
     (if take 9 did_string \<noteq> ''did:key:z'' then
        Some (Inl (KeyFormatGeneric ''Invalid DID key format: must start with did:key:z''))
      else if \<not> char_boundary did_string 10 then None
      else Some (case b64_decode (drop 10 did_string) of
          Inl e \<Rightarrow> Inl (KeyFormatBase64 e)
        | Inr decoded \<Rightarrow>
            if length decoded < 3 \<or> decoded ! 0 \<noteq> 0xed \<or> decoded ! 1 \<noteq> 0x01 then
              Inl (KeyFormatGeneric ''Invalid multicodec prefix after decoding DID key'')
            else Inr (drop 2 decoded)))"

lemmas did_defs = new_ed25519_def to_ed25519_def did_from_str_def
lemmas did_consts = ED25519_MULTICODEC_PREFIX_def ED25519_KEY_LENGTH_def

section \<open>Lemmas\<close>

lemma split_did_key:
  "split_on CHR '':'' (''did:key:'' @ x) = ''did'' # ''key'' # split_on CHR '':'' x"
  by simp

lemma did_from_str_iff:
  "did_from_str dec vk s = Inr d \<longleftrightarrow> d = s \<and> (\<exists>pk. to_ed25519 dec vk s = Inr pk)"
  by (auto simp: did_from_str_def bind_result_Inr_iff to_ed25519_def)

text \<open>No name of the method \<open>icn\<close> is accepted.\<close>

lemma did_icn_unsupported:
  "did_from_str dec vk (''did:icn:'' @ x) = Inl (UnsupportedMethod ''icn'')"
  by (simp add: did_from_str_def to_ed25519_def Let_def)

text \<open>The shape of every identifier that names a key.\<close>

lemma to_ed25519_cases:
  assumes "to_ed25519 dec vk d = Inr pk"
  obtains x ps raw where "split_on CHR '':'' d = ''did'' # ''key'' # x # ps" and "x \<noteq> []"
    and "dec x = Inr (0xed # raw)" and "length raw = 32" and "vk raw = Inr pk"
proof -
  let ?p = "split_on CHR '':'' d"
  from assms have l: "3 \<le> length ?p" and p: "?p ! 0 = ''did''" "?p ! 1 = ''key''" "?p ! 2 \<noteq> []"
    by (auto simp: to_ed25519_def Let_def split: if_splits)
  from l obtain a b x ps where s: "?p = a # b # x # ps"
    by (metis One_nat_def Suc_le_length_iff numeral_3_eq_3)
  with p have ab: "a = ''did''" "b = ''key''" "x \<noteq> []" by auto
  from assms s ab obtain raw where "dec x = Inr (0xed # raw)" "length raw = 32" "vk raw = Inr pk"
    by (auto simp: to_ed25519_def did_consts Let_def split: if_splits sum.splits list.splits)
  with s ab that show ?thesis by blast
qed

lemma to_ed25519_intro:
  assumes "split_on CHR '':'' d = ''did'' # ''key'' # x # ps" and "x \<noteq> []"
    and "dec x = Inr (0xed # raw)" and "length raw = 32" and "vk raw = Inr pk"
  shows "to_ed25519 dec vk d = Inr pk"
  using assms by (auto simp: to_ed25519_def did_consts Let_def)

lemma to_ed25519_split:
  "split_on CHR '':'' d = ''did'' # ''key'' # x # ps \<Longrightarrow>
   split_on CHR '':'' (d @ CHR '':'' # y) = ''did'' # ''key'' # x # (ps @ split_on CHR '':'' y)"
  by (simp add: split_on_append)

lemma to_ed25519_new:
  assumes "mb_decode (mb_encode (0xed # pk)) = Inr (0xed # pk)"
    and "CHR '':'' \<notin> set (mb_encode (0xed # pk))" and "mb_encode (0xed # pk) \<noteq> []"
    and "length pk = 32" and "vk_from_bytes pk = Inr pk'"
  shows "to_ed25519 mb_decode vk_from_bytes (new_ed25519 mb_encode pk) = Inr pk'"
proof (rule to_ed25519_intro)
  show "split_on CHR '':'' (new_ed25519 mb_encode pk) = ''did'' # ''key'' # mb_encode (0xed # pk) # []"
    unfolding new_ed25519_def split_did_key using assms(2) by (simp add: split_on_fresh did_consts)
qed (use assms in simp_all)

section \<open>Properties\<close>

text \<open>C33: an identifier made from a public key parses, and gives the key back, for a multibase codec
  that decodes what it encodes and whose alphabet has no colon.\<close>

theorem did_key_roundtrip:
  assumes dec: "\<And>bs. mb_decode (mb_encode bs) = Inr bs"
    and alphabet: "\<And>bs. CHR '':'' \<notin> set (mb_encode bs)" "\<And>bs. mb_encode bs \<noteq> []"
    and key: "length pk = 32" "vk_from_bytes pk = Inr pk"
  shows "to_ed25519 mb_decode vk_from_bytes (new_ed25519 mb_encode pk) = Inr pk \<and>
    did_from_str mb_decode vk_from_bytes (new_ed25519 mb_encode pk) = Inr (new_ed25519 mb_encode pk)"
proof -
  have "to_ed25519 mb_decode vk_from_bytes (new_ed25519 mb_encode pk) = Inr pk"
    using assms by (intro to_ed25519_new) simp_all
  then show ?thesis by (simp add: did_from_str_iff)
qed

text \<open>A codec for the witness: every byte as a letter pair, behind the multibase prefix \<open>z\<close>.\<close>

definition demo_encode :: "bytes \<Rightarrow> string" where
  "demo_encode bs = CHR ''z'' #
     concat (map (\<lambda>b. [char_of (97 + unat b div 16), char_of (97 + unat b mod 16)]) bs)"

fun demo_decode_body :: "string \<Rightarrow> bytes" where
  "demo_decode_body (a # b # r) =
     word_of_nat (16 * (of_char a - 97) + (of_char b - 97)) # demo_decode_body r"
| "demo_decode_body _ = []"

definition demo_decode :: "string \<Rightarrow> string + bytes" where
  "demo_decode s = (case s of CHR ''z'' # r \<Rightarrow> Inr (demo_decode_body r) | _ \<Rightarrow> Inl ''unknown base'')"

lemma demo_digits:
  fixes b :: u8
  shows "of_char (char_of (97 + unat b div 16)) = 97 + unat b div 16"
    and "of_char (char_of (97 + unat b mod 16)) = 97 + unat b mod 16"
  using unat_bound [of b] by (simp_all add: take_bit_eq_mod)

lemma demo_roundtrip: "demo_decode (demo_encode bs) = Inr bs"
proof -
  have "demo_decode_body (concat (map (\<lambda>b. [char_of (97 + unat b div 16), char_of (97 + unat b mod 16)]) bs)) = bs"
  proof (induction bs)
    case (Cons b bs)
    have "16 * (unat b div 16) + unat b mod 16 = unat b" by simp
    then have "word_of_nat (16 * (unat b div 16) + unat b mod 16) = b"
      by (simp only: of_nat_unat ucast_id)
    then show ?case using Cons by (simp only: list.map concat.simps append.simps demo_decode_body.simps
        demo_digits add_diff_cancel_left')
  qed simp
  then show ?thesis by (simp add: demo_decode_def demo_encode_def)
qed

lemma demo_alphabet: "CHR '':'' \<notin> set (demo_encode bs)"
proof
  assume "CHR '':'' \<in> set (demo_encode bs)"
  then obtain b :: u8 where "CHR '':'' = char_of (97 + unat b div 16) \<or> CHR '':'' = char_of (97 + unat b mod 16)"
    by (auto simp: demo_encode_def)
  then have "(of_char CHR '':'' :: nat) = 97 + unat b div 16 \<or> (of_char CHR '':'' :: nat) = 97 + unat b mod 16"
    by (metis demo_digits)
  then show False by simp
qed

theorem did_key_roundtrip_witness:
  "to_ed25519 demo_decode Inr (new_ed25519 demo_encode (replicate 32 7)) = Inr (replicate 32 7) \<and>
   did_from_str demo_decode Inr (new_ed25519 demo_encode (replicate 32 7)) = Inr (new_ed25519 demo_encode (replicate 32 7))"
  by (rule did_key_roundtrip)
    (simp_all add: demo_roundtrip demo_alphabet, simp add: demo_encode_def)

text \<open>identifiers are not canonical.  Anything behind a further colon is ignored, so every
  accepted identifier has distinct accepted aliases that name the same key.\<close>

lemma did_alias:
  assumes "to_ed25519 mb_decode vk_from_bytes d = Inr pk"
  shows "to_ed25519 mb_decode vk_from_bytes (d @ CHR '':'' # y) = Inr pk \<and>
    did_from_str mb_decode vk_from_bytes (d @ CHR '':'' # y) = Inr (d @ CHR '':'' # y)"
proof -
  from assms have "to_ed25519 mb_decode vk_from_bytes (d @ CHR '':'' # y) = Inr pk"
    by (elim to_ed25519_cases) (rule to_ed25519_intro [OF to_ed25519_split])
  then show ?thesis by (simp add: did_from_str_iff)
qed

lemma did_alias_witness:
  "to_ed25519 demo_decode Inr (new_ed25519 demo_encode (replicate 32 7) @ '':alias'') = Inr (replicate 32 7)"
proof -
  have "to_ed25519 demo_decode Inr (new_ed25519 demo_encode (replicate 32 7)) = Inr (replicate 32 7)"
    by (rule to_ed25519_new)
      (simp_all add: demo_roundtrip demo_alphabet, simp add: demo_encode_def)
  from did_alias [OF this, of "''alias''"] show ?thesis by simp
qed

text \<open>in the older format no Ed25519 key survives the trip through its identifier: the parser
  skips one character too many of the identifier, what is left has a length no unpadded base64
  text has, and decoding fails.\<close>

lemma did_to_key_always_fails:
  assumes len: "\<And>bs. length (b64_encode bs) = (4 * length bs + 2) div 3"
    and ascii: "\<And>bs c. c \<in> set (b64_encode bs) \<Longrightarrow> of_char c < (128 :: nat)"
    and dec: "\<And>s. length s mod 4 = 1 \<Longrightarrow> \<exists>e. b64_decode s = Inl e"
    and key: "length pk = 32"
  shows "\<exists>e. did_to_key b64_decode (key_to_did b64_encode pk) = Some (Inl (KeyFormatBase64 e))"
proof -
  let ?s = "b64_encode ([0xed, 0x01] @ pk)"
  have l: "length ?s = 46" using key by (simp add: len)
  then obtain a b r where s: "?s = a # b # r" by (auto simp: numeral_eq_Suc length_Suc_conv)
  have "of_char b < (128 :: nat)" using ascii [of b "[0xed, 0x01] @ pk"] s by simp
  then have "\<not> utf8_cont (word_of_nat (of_char b))"
    by (simp add: utf8_cont_def word_le_nat_alt unsigned_of_nat take_bit_eq_mod)
  then have "char_boundary (''did:key:z'' @ ?s) 10"
    using s by (simp add: char_boundary_def str_bytes_def)
  moreover have "drop 10 (''did:key:z'' @ ?s) = b # r" using s by simp
  moreover have "length (b # r) mod 4 = 1" using l s by simp
  ultimately show ?thesis using dec [of "b # r"]
    by (auto simp: did_to_key_def key_to_did_def)
qed

lemma did_to_key_always_fails_witness:
  "\<exists>e. did_to_key (\<lambda>s. if length s mod 4 = 1 then Inl ''length'' else Inr [])
     (key_to_did (\<lambda>bs. replicate ((4 * length bs + 2) div 3) CHR ''A'') (replicate 32 7))
     = Some (Inl (KeyFormatBase64 e))"
  by (rule did_to_key_always_fails) auto

end
