(* ===== verification/Mana_Pool.thy ===== *)
theory Mana_Pool
  imports Identity_Index
begin

text \<open>
  Mana pools and their manager: \<open>ManaPool\<close> and \<open>ManaManager\<close> of
  \<^verbatim>\<open>crates/common/icn-economics/src/mana.rs\<close>.

  A pool regenerates lazily: every operation first credits the time that passed since
  \<open>last_updated\<close>.  The clock is read through \<open>now_secs\<close>; each reading is an argument, in the
  order in which the code takes it.  The metrics hook is a trait object; what the code does
  with it is a sequence of calls \<open>update_balance(scope, balance)\<close>, which every operation
  returns beside its result, and \<open>gauge\<close> is what a hook that stores the last value shows.
\<close>

section \<open>The pool\<close>

datatype ManaError = InsufficientMana (requested: u64) (available_mana: u64)

record ManaPool =
  mp_current :: u64
  mp_max :: u64
  mp_regen_per_sec :: u64
  mp_last_updated :: u64

type_synonym hook_call = "ScopeKey \<times> u64"

definition now_secs :: "clock \<Rightarrow> u64" where
  "now_secs t = (case t of None \<Rightarrow> 0 | Some s \<Rightarrow> s)"

definition ManaPool_new :: "u64 \<Rightarrow> u64 \<Rightarrow> clock \<Rightarrow> ManaPool" where
  "ManaPool_new mx regen t =
     \<lparr>mp_current = mx, mp_max = mx, mp_regen_per_sec = regen, mp_last_updated = now_secs t\<rparr>"

definition apply_regeneration :: "ManaPool \<Rightarrow> clock \<Rightarrow> ManaPool" where
  "apply_regeneration p t =
     (let now = now_secs t in
      if now > mp_last_updated p then
        let elapsed = now - mp_last_updated p;
            regen_amount = elapsed * mp_regen_per_sec p
        in p\<lparr>mp_current := min (mp_current p + regen_amount) (mp_max p), mp_last_updated := now\<rparr>
      else p)"

definition available :: "ManaPool \<Rightarrow> ScopeKey \<Rightarrow> bool \<Rightarrow> clock \<Rightarrow> u64 \<times> ManaPool \<times> hook_call list" where
  "available p scope hook t =
     (let old_balance = mp_current p;
          p' = apply_regeneration p t;
          calls = (if mp_current p' \<noteq> old_balance then
                     if hook then [(scope, mp_current p')] else []
                   else [])
      in (mp_current p', p', calls))"

definition consume ::
  "ManaPool \<Rightarrow> u64 \<Rightarrow> ScopeKey \<Rightarrow> bool \<Rightarrow> clock \<Rightarrow> (ManaError + unit) \<times> ManaPool \<times> hook_call list" where
  "consume p amount scope hook t =
     (case available p scope hook t of (current_available, p', calls) \<Rightarrow>
        if current_available \<ge> amount then
          let p'' = p'\<lparr>mp_current := mp_current p' - amount\<rparr>
          in (Inr (), p'', calls @ (if hook then [(scope, mp_current p'')] else []))
        else (Inl (InsufficientMana amount current_available), p', calls))"

definition credit :: "ManaPool \<Rightarrow> u64 \<Rightarrow> ScopeKey \<Rightarrow> bool \<Rightarrow> clock \<Rightarrow> ManaPool \<times> hook_call list" where
  "credit p amount scope hook t =
     (case available p scope hook t of (_, p', calls) \<Rightarrow>
        let old_balance = mp_current p';
            p'' = p'\<lparr>mp_current := min (mp_current p' + amount) (mp_max p')\<rparr>
        in (p'', calls @ (if mp_current p'' \<noteq> old_balance then
                            if hook then [(scope, mp_current p'')] else []
                          else [])))"

section \<open>The manager\<close>

record ManaManager =
  pools :: "(ScopeKey, ManaPool) hmap"
  metrics_hook :: bool

definition ManaManager_new :: ManaManager where
  "ManaManager_new = \<lparr>pools = [], metrics_hook = False\<rparr>"

definition with_metrics_hook :: ManaManager where
  "with_metrics_hook = \<lparr>pools = [], metrics_hook = True\<rparr>"

text \<open>\<open>ensure_pool\<close> reads the clock once to create a pool (\<open>t_new\<close>) and once in \<open>available\<close>.\<close>

definition ensure_pool ::
  "ManaManager \<Rightarrow> ScopeKey \<Rightarrow> u64 \<Rightarrow> u64 \<Rightarrow> clock \<Rightarrow> clock \<Rightarrow> ManaManager \<times> hook_call list" where
  "ensure_pool m key mx regen t_new t =
     (let hook = metrics_hook m;
          (pool, calls0) =
            (case hget (pools m) key of
               Some p \<Rightarrow> (p, [])
             | None \<Rightarrow> (let np = ManaPool_new mx regen t_new
                       in (np, if hook then [(key, mp_current np)] else [])));
          (current_balance, pool', calls1) = available pool key hook t
      in (m\<lparr>pools := hinsert (pools m) key pool'\<rparr>,
          calls0 @ calls1 @ (if hook then [(key, current_balance)] else [])))"

definition pool_mut :: "ManaManager \<Rightarrow> ScopeKey \<Rightarrow> ManaPool option" where
  "pool_mut m key = hget (pools m) key"

definition balance :: "ManaManager \<Rightarrow> ScopeKey \<Rightarrow> clock \<Rightarrow> u64 option \<times> ManaManager \<times> hook_call list" where
  "balance m key t =
     (case hget (pools m) key of
        Some p \<Rightarrow> (case available p key (metrics_hook m) t of (b, p', calls) \<Rightarrow>
                    (Some b, m\<lparr>pools := hinsert (pools m) key p'\<rparr>, calls))
      | None \<Rightarrow> (None, m, []))"

definition spend ::
  "ManaManager \<Rightarrow> ScopeKey \<Rightarrow> u64 \<Rightarrow> clock \<Rightarrow> (ManaError + unit) \<times> ManaManager \<times> hook_call list" where
  "spend m key amount t =
     (case hget (pools m) key of
        Some p \<Rightarrow> (case consume p amount key (metrics_hook m) t of (r, p', calls) \<Rightarrow>
                    (r, m\<lparr>pools := hinsert (pools m) key p'\<rparr>, calls))
      | None \<Rightarrow> (Inl (InsufficientMana amount 0), m, []))"

text \<open>The clock readings of \<open>transfer\<close>: in \<open>spend\<close>, twice in \<open>ensure_pool\<close>, in \<open>credit\<close>.\<close>

definition transfer ::
  "ManaManager \<Rightarrow> ScopeKey \<Rightarrow> ScopeKey \<Rightarrow> u64 \<Rightarrow> clock \<times> clock \<times> clock \<times> clock
   \<Rightarrow> (ManaError + unit) \<times> ManaManager \<times> hook_call list" where
  "transfer m from to amount ts =
     (case ts of (t1, t2, t3, t4) \<Rightarrow>
      case spend m from amount t1 of
        (Inl e, m1, calls1) \<Rightarrow> (Inl e, m1, calls1)
      | (Inr _, m1, calls1) \<Rightarrow>
          (case ensure_pool m1 to amount 1 t2 t3 of (m2, calls2) \<Rightarrow>
             case hget (pools m2) to of
               Some p \<Rightarrow> (case credit p amount to (metrics_hook m2) t4 of (p', calls3) \<Rightarrow>
                           (Inr (), m2\<lparr>pools := hinsert (pools m2) to p'\<rparr>, calls1 @ calls2 @ calls3))
             | None \<Rightarrow> (Inr (), m2, calls1 @ calls2)))"

section \<open>Specification\<close>

text \<open>The type invariant of a pool, and of a manager.\<close>

definition pool_ok :: "ManaPool \<Rightarrow> bool" where
  "pool_ok p \<longleftrightarrow> mp_current p \<le> mp_max p"

definition manager_ok :: "ManaManager \<Rightarrow> bool" where
  "manager_ok m \<longleftrightarrow> hwf (pools m) \<and> (\<forall>k p. hget (pools m) k = Some p \<longrightarrow> pool_ok p)"

text \<open>What a pool is worth at a time, over unbounded numbers, and the absence of wrap-around in
  the computation of it.\<close>

definition elapsed_secs :: "ManaPool \<Rightarrow> clock \<Rightarrow> nat" where
  "elapsed_secs p t = unat (now_secs t) - unat (mp_last_updated p)"

definition pool_value :: "ManaPool \<Rightarrow> clock \<Rightarrow> nat" where
  "pool_value p t =
     min (unat (mp_max p)) (unat (mp_current p) + elapsed_secs p t * unat (mp_regen_per_sec p))"

definition regen_fits :: "ManaPool \<Rightarrow> clock \<Rightarrow> bool" where
  "regen_fits p t \<longleftrightarrow>
     unat (mp_current p) + elapsed_secs p t * unat (mp_regen_per_sec p) < 2 ^ 64"

text \<open>The pool \<open>ensure_pool\<close> works on.\<close>

definition pool_or_new :: "ManaManager \<Rightarrow> ScopeKey \<Rightarrow> u64 \<Rightarrow> u64 \<Rightarrow> clock \<Rightarrow> ManaPool" where
  "pool_or_new m k mx r t = (case hget (pools m) k of Some p \<Rightarrow> p | None \<Rightarrow> ManaPool_new mx r t)"

text \<open>A metrics hook that keeps the last value reported for every scope.\<close>

definition gauge :: "(ScopeKey \<rightharpoonup> u64) \<Rightarrow> hook_call list \<Rightarrow> (ScopeKey \<rightharpoonup> u64)" where
  "gauge g calls = foldl (\<lambda>g c. g(fst c \<mapsto> snd c)) g calls"

definition gauge_ok :: "ManaManager \<Rightarrow> (ScopeKey \<rightharpoonup> u64) \<Rightarrow> bool" where
  "gauge_ok m g \<longleftrightarrow> (\<forall>k p. hget (pools m) k = Some p \<longrightarrow> g k = Some (mp_current p))"

text \<open>The states a manager reaches through its public operations; \<open>pool_mut\<close> hands out a pool on
  which the caller runs a method of the pool, with a scope and a hook of its own choice.\<close>

inductive mana_step :: "ManaManager \<Rightarrow> ManaManager \<Rightarrow> bool" where
  step_ensure: "mana_step m (fst (ensure_pool m k mx r t t'))"
| step_balance: "mana_step m (fst (snd (balance m k t)))"
| step_spend: "mana_step m (fst (snd (spend m k a t)))"
| step_transfer: "mana_step m (fst (snd (transfer m k k' a ts)))"
| step_pool_consume: "pool_mut m k = Some p \<Longrightarrow>
    mana_step m (m\<lparr>pools := hinsert (pools m) k (fst (snd (consume p a s h t)))\<rparr>)"
| step_pool_credit: "pool_mut m k = Some p \<Longrightarrow>
    mana_step m (m\<lparr>pools := hinsert (pools m) k (fst (credit p a s h t))\<rparr>)"

inductive mana_reachable :: "ManaManager \<Rightarrow> bool" where
  reach_new: "mana_reachable ManaManager_new"
| reach_hook: "mana_reachable with_metrics_hook"
| reach_step: "mana_reachable m \<Longrightarrow> mana_step m m' \<Longrightarrow> mana_reachable m'"

lemmas pool_defs = available_def consume_def credit_def Let_def
lemmas manager_defs = ensure_pool_def balance_def spend_def transfer_def pool_mut_def

section \<open>Pools\<close>

lemma apply_regeneration_fields [simp]:
  "mp_max (apply_regeneration p t) = mp_max p"
  "mp_regen_per_sec (apply_regeneration p t) = mp_regen_per_sec p"
  by (simp_all add: apply_regeneration_def Let_def)

lemma apply_regeneration_last:
  "mp_last_updated (apply_regeneration p t) = max (mp_last_updated p) (now_secs t)"
  by (auto simp: apply_regeneration_def Let_def max_def)

lemma available_simps [simp]:
  "fst (available p s h t) = mp_current (apply_regeneration p t)"
  "fst (snd (available p s h t)) = apply_regeneration p t"
  by (simp_all add: available_def Let_def)

lemma available_split:
  obtains c where
    "available p s h t = (mp_current (apply_regeneration p t), apply_regeneration p t, c)"
  by (simp add: available_def Let_def)

lemma pool_ok_new [intro]: "pool_ok (ManaPool_new mx r t)"
  by (simp add: pool_ok_def ManaPool_new_def)

lemma pool_ok_regeneration [intro]: "pool_ok p \<Longrightarrow> pool_ok (apply_regeneration p t)"
  by (auto simp: pool_ok_def apply_regeneration_def Let_def)

lemma consume_pool:
  "fst (snd (consume p a s h t)) =
     (let p' = apply_regeneration p t
      in if a \<le> mp_current p' then p'\<lparr>mp_current := mp_current p' - a\<rparr> else p')"
  by (simp add: pool_defs)

lemma consume_result:
  "fst (consume p a s h t) =
     (let b = mp_current (apply_regeneration p t)
      in if a \<le> b then Inr () else Inl (InsufficientMana a b))"
  by (simp add: pool_defs)

lemma credit_pool:
  "fst (credit p a s h t) =
     (let p' = apply_regeneration p t
      in p'\<lparr>mp_current := min (mp_current p' + a) (mp_max p')\<rparr>)"
  by (simp add: pool_defs)

lemma pool_ok_consume [intro]: "pool_ok p \<Longrightarrow> pool_ok (fst (snd (consume p a s h t)))"
  using pool_ok_regeneration [of p t]
  by (auto simp: consume_pool Let_def pool_ok_def word_le_nat_alt unat_sub)

lemma pool_ok_credit [intro]: "pool_ok (fst (credit p a s h t))"
  by (simp add: credit_pool Let_def pool_ok_def)

lemma regeneration_value:
  assumes "pool_ok p" and "regen_fits p t"
  shows "unat (mp_current (apply_regeneration p t)) = pool_value p t"
proof (cases "mp_last_updated p < now_secs t")
  case True
  then have "unat (now_secs t - mp_last_updated p) = elapsed_secs p t"
    by (simp add: elapsed_secs_def unat_sub_exact)
  moreover have "elapsed_secs p t * unat (mp_regen_per_sec p) < 2 ^ 64"
    using assms(2) by (simp add: regen_fits_def)
  ultimately have "unat ((now_secs t - mp_last_updated p) * mp_regen_per_sec p)
      = elapsed_secs p t * unat (mp_regen_per_sec p)"
    by (simp add: unat_mult_exact)
  with True assms(2) show ?thesis
    by (simp add: apply_regeneration_def Let_def pool_value_def regen_fits_def unat_min
        unat_add_exact min.commute)
next
  case False
  then have "elapsed_secs p t = 0"
    by (simp add: elapsed_secs_def word_less_nat_alt)
  with False assms(1) show ?thesis
    by (simp add: apply_regeneration_def Let_def pool_value_def pool_ok_def word_le_nat_alt)
qed

lemma elapsed_regeneration:
  assumes "now_secs t \<le> now_secs t'"
  shows "elapsed_secs p t + elapsed_secs (apply_regeneration p t) t' = elapsed_secs p t'"
  using assms
  by (auto simp: elapsed_secs_def apply_regeneration_last max_def word_le_nat_alt)

lemma elapsed_mult:
  assumes "now_secs t \<le> now_secs t'"
  shows "elapsed_secs p t' * r = elapsed_secs p t * r + elapsed_secs (apply_regeneration p t) t' * r"
  using elapsed_regeneration [OF assms, of p] by (metis distrib_right)

lemma regen_fits_mono:
  assumes "now_secs t \<le> now_secs t'" and "regen_fits p t'"
  shows "regen_fits p t"
proof -
  have "elapsed_secs p t \<le> elapsed_secs p t'"
    using assms(1) by (auto simp: elapsed_secs_def word_le_nat_alt)
  then have "elapsed_secs p t * unat (mp_regen_per_sec p) \<le> elapsed_secs p t' * unat (mp_regen_per_sec p)"
    by (rule mult_le_mono1)
  with assms(2) show ?thesis unfolding regen_fits_def by linarith
qed

lemma regen_fits_after:
  assumes "pool_ok p" and "now_secs t \<le> now_secs t'" and "regen_fits p t'"
  shows "regen_fits (apply_regeneration p t) t'"
proof -
  let ?r = "unat (mp_regen_per_sec p)"
  have "unat (mp_current (apply_regeneration p t)) \<le> unat (mp_current p) + elapsed_secs p t * ?r"
    using regeneration_value [OF assms(1) regen_fits_mono [OF assms(2,3)]]
    by (simp add: pool_value_def)
  then show ?thesis
    using assms(3) elapsed_mult [OF assms(2), of p ?r] unfolding regen_fits_def apply_regeneration_fields by linarith
qed

lemma pool_eqI:
  fixes p q :: ManaPool
  assumes "mp_current p = mp_current q" "mp_max p = mp_max q"
    "mp_regen_per_sec p = mp_regen_per_sec q" "mp_last_updated p = mp_last_updated q"
  shows "p = q"
  using assms by simp

lemma regeneration_compose:
  assumes "pool_ok p" and "now_secs t \<le> now_secs t'" and "regen_fits p t'"
  shows "apply_regeneration (apply_regeneration p t) t' = apply_regeneration p t'"
proof (rule pool_eqI)
  let ?q = "apply_regeneration p t" and ?r = "unat (mp_regen_per_sec p)"
  have e: "elapsed_secs p t' * ?r = elapsed_secs p t * ?r + elapsed_secs ?q t' * ?r"
    by (rule elapsed_mult [OF assms(2)])
  have q: "unat (mp_current ?q) = pool_value p t"
    by (rule regeneration_value [OF assms(1) regen_fits_mono [OF assms(2,3)]])
  have "unat (mp_current (apply_regeneration ?q t')) = pool_value ?q t'"
    by (rule regeneration_value [OF pool_ok_regeneration [OF assms(1)] regen_fits_after [OF assms]])
  also have "\<dots> = pool_value p t'"
    unfolding pool_value_def [of ?q] q apply_regeneration_fields pool_value_def e by linarith
  also have "\<dots> = unat (mp_current (apply_regeneration p t'))"
    by (rule regeneration_value [OF assms(1,3), symmetric])
  finally show "mp_current (apply_regeneration ?q t') = mp_current (apply_regeneration p t')"
    by (rule word_unat_eq_iff [THEN iffD2])
  show "mp_last_updated (apply_regeneration ?q t') = mp_last_updated (apply_regeneration p t')"
    using assms(2) by (auto simp: apply_regeneration_last max_def)
qed simp_all

section \<open>Managers\<close>

lemma manager_ok_hinsert [intro]:
  "manager_ok m \<Longrightarrow> pool_ok p \<Longrightarrow> manager_ok (m\<lparr>pools := hinsert (pools m) k p\<rparr>)"
  by (auto simp: manager_ok_def hmap_simps)

lemma manager_ok_lookup [dest]: "manager_ok m \<Longrightarrow> hget (pools m) k = Some p \<Longrightarrow> pool_ok p"
  by (simp add: manager_ok_def)

lemma ensure_pool_state:
  "fst (ensure_pool m k mx r t0 t) =
     m\<lparr>pools := hinsert (pools m) k (apply_regeneration (pool_or_new m k mx r t0) t)\<rparr>"
  by (simp add: ensure_pool_def pool_or_new_def available_def Let_def split: option.split)

lemma balance_state:
  "fst (snd (balance m k t)) =
     (case hget (pools m) k of None \<Rightarrow> m
      | Some p \<Rightarrow> m\<lparr>pools := hinsert (pools m) k (apply_regeneration p t)\<rparr>)"
  by (simp add: balance_def available_def Let_def split: option.split)

lemma spend_state:
  "fst (snd (spend m k a t)) =
     (case hget (pools m) k of None \<Rightarrow> m
      | Some p \<Rightarrow> m\<lparr>pools := hinsert (pools m) k (fst (snd (consume p a k (metrics_hook m) t)))\<rparr>)"
  by (simp add: spend_def split: option.split prod.split)

lemma spend_result:
  "fst (spend m k a t) =
     (case hget (pools m) k of None \<Rightarrow> Inl (InsufficientMana a 0)
      | Some p \<Rightarrow> fst (consume p a k (metrics_hook m) t))"
  by (simp add: spend_def split: option.split prod.split)

lemma transfer_state:
  "fst (snd (transfer m k k' a (t1, t2, t3, t4))) =
     (let m1 = fst (snd (spend m k a t1)) in
      if is_ok (fst (spend m k a t1)) then
        let m2 = fst (ensure_pool m1 k' a 1 t2 t3);
            p = apply_regeneration (pool_or_new m1 k' a 1 t2) t3
        in m2\<lparr>pools := hinsert (pools m2) k' (fst (credit p a k' (metrics_hook m2) t4))\<rparr>
      else m1)"
proof -
  obtain r m1 c1 where s: "spend m k a t1 = (r, m1, c1)" by (metis prod_cases3)
  obtain m2 c2 where e: "ensure_pool m1 k' a 1 t2 t3 = (m2, c2)" by fastforce
  have m2: "m2 = m1\<lparr>pools := hinsert (pools m1) k' (apply_regeneration (pool_or_new m1 k' a 1 t2) t3)\<rparr>"
    using ensure_pool_state [of m1 k' a 1 t2 t3] e by simp
  show ?thesis
    by (cases r) (simp_all add: transfer_def s e m2 Let_def hm.get_insert split: prod.split)
qed

lemma transfer_result: "fst (transfer m k k' a ts) = fst (spend m k a (fst ts))"
  by (cases ts) (auto simp: transfer_def split: sum.split prod.split option.split)

lemma manager_ok_ensure [intro]: "manager_ok m \<Longrightarrow> manager_ok (fst (ensure_pool m k mx r t t'))"
  by (auto simp: ensure_pool_state pool_or_new_def split: option.split)

lemma manager_ok_balance [intro]: "manager_ok m \<Longrightarrow> manager_ok (fst (snd (balance m k t)))"
  by (auto simp: balance_state split: option.split)

lemma manager_ok_spend [intro]: "manager_ok m \<Longrightarrow> manager_ok (fst (snd (spend m k a t)))"
  by (auto simp: spend_state split: option.split)

lemma manager_ok_transfer [intro]: "manager_ok m \<Longrightarrow> manager_ok (fst (snd (transfer m k k' a ts)))"
  by (cases ts) (auto simp: transfer_state Let_def)

lemma mana_step_ok: "mana_step m m' \<Longrightarrow> manager_ok m \<Longrightarrow> manager_ok m'"
  by (induction rule: mana_step.induct) (auto simp: pool_mut_def)

lemma mana_reachable_ok: "mana_reachable m \<Longrightarrow> manager_ok m"
  by (induction rule: mana_reachable.induct)
    (auto simp: manager_ok_def ManaManager_new_def with_metrics_hook_def dest: mana_step_ok)

lemma gauge_append [simp]: "gauge g (xs @ ys) = gauge (gauge g xs) ys"
  by (simp add: gauge_def)

lemma gauge_Nil [simp]: "gauge g [] = g"
  by (simp add: gauge_def)

lemma gauge_Cons [simp]: "gauge g (c # cs) = gauge (g(fst c \<mapsto> snd c)) cs"
  by (simp add: gauge_def)

lemma gauge_available:
  "g k = Some (mp_current p) \<Longrightarrow>
   gauge g (snd (snd (available p k True t))) = g(k \<mapsto> mp_current (apply_regeneration p t))"
  by (auto simp: available_def Let_def fun_upd_idem)

lemma gauge_consume:
  "g k = Some (mp_current p) \<Longrightarrow>
   gauge g (snd (snd (consume p a k True t))) =
     g(k \<mapsto> mp_current (fst (snd (consume p a k True t))))"
  by (rule available_split [of p k True t])
    (use gauge_available [of g k p t] in \<open>simp add: consume_def Let_def\<close>)

lemma gauge_credit:
  "g k = Some (mp_current p) \<Longrightarrow>
   gauge g (snd (credit p a k True t)) = g(k \<mapsto> mp_current (fst (credit p a k True t)))"
  by (rule available_split [of p k True t])
    (use gauge_available [of g k p t] in \<open>simp add: credit_def Let_def fun_upd_idem\<close>)

lemma gauge_ensure_pool:
  assumes "gauge_ok m g" and "metrics_hook m"
  shows "gauge g (snd (ensure_pool m k mx r t0 t)) =
    g(k \<mapsto> mp_current (apply_regeneration (pool_or_new m k mx r t0) t))"
proof (cases "hget (pools m) k")
  case None
  let ?p = "ManaPool_new mx r t0"
  have "gauge (g(k \<mapsto> mp_current ?p)) (snd (snd (available ?p k True t)))
      = g(k \<mapsto> mp_current (apply_regeneration ?p t))"
    by (simp add: gauge_available)
  with None assms(2) show ?thesis
    by (rule_tac available_split [of ?p k True t]) (simp add: ensure_pool_def pool_or_new_def Let_def)
next
  case (Some p)
  with assms have "gauge g (snd (snd (available p k True t))) = g(k \<mapsto> mp_current (apply_regeneration p t))"
    by (simp add: gauge_available gauge_ok_def)
  with Some assms(2) show ?thesis
    by (rule_tac available_split [of p k True t]) (simp add: ensure_pool_def pool_or_new_def Let_def)
qed

lemma gauge_ok_hinsert:
  "gauge_ok m g \<Longrightarrow> gauge_ok (m\<lparr>pools := hinsert (pools m) k p\<rparr>) (g(k \<mapsto> mp_current p))"
  by (auto simp: gauge_ok_def hmap_simps)

lemma gauge_ok_lookup: "gauge_ok m g \<Longrightarrow> hget (pools m) k = Some p \<Longrightarrow> g k = Some (mp_current p)"
  by (simp add: gauge_ok_def)

lemma gauge_ok_ensure:
  "gauge_ok m g \<Longrightarrow> metrics_hook m \<Longrightarrow>
   gauge_ok (fst (ensure_pool m k mx r t0 t)) (gauge g (snd (ensure_pool m k mx r t0 t)))"
  by (simp add: gauge_ensure_pool ensure_pool_state gauge_ok_hinsert)

lemma gauge_ok_spend:
  assumes "gauge_ok m g" and "metrics_hook m"
  shows "gauge_ok (fst (snd (spend m k a t))) (gauge g (snd (snd (spend m k a t))))"
proof (cases "hget (pools m) k")
  case None
  then show ?thesis using assms by (simp add: spend_def)
next
  case (Some p)
  then have "snd (snd (spend m k a t)) = snd (snd (consume p a k True t))"
    using assms(2) by (simp add: spend_def split: prod.split)
  with Some assms show ?thesis
    by (simp add: spend_state gauge_consume gauge_ok_hinsert gauge_ok_lookup)
qed

lemma gauge_ok_balance:
  assumes "gauge_ok m g" and "metrics_hook m"
  shows "gauge_ok (fst (snd (balance m k t))) (gauge g (snd (snd (balance m k t))))"
proof (cases "hget (pools m) k")
  case None
  then show ?thesis using assms by (simp add: balance_def)
next
  case (Some p)
  then have "snd (snd (balance m k t)) = snd (snd (available p k True t))"
    using assms(2) by (simp add: balance_def split: prod.split)
  with Some assms show ?thesis
    by (simp add: balance_state gauge_available gauge_ok_hinsert gauge_ok_lookup)
qed

lemma hook_frame [simp]:
  "metrics_hook (fst (ensure_pool m k mx r t0 t)) = metrics_hook m"
  "metrics_hook (fst (snd (spend m k a t))) = metrics_hook m"
  by (simp_all add: ensure_pool_state spend_state split: option.split)

lemma gauge_ok_transfer:
  assumes "gauge_ok m g" and "metrics_hook m"
  shows "gauge_ok (fst (snd (transfer m k k' a ts))) (gauge g (snd (snd (transfer m k k' a ts))))"
proof -
  obtain t1 t2 t3 t4 where ts: "ts = (t1, t2, t3, t4)" by (metis prod_cases4)
  obtain r m1 c1 where s: "spend m k a t1 = (r, m1, c1)" by (metis prod_cases3)
  obtain m2 c2 where e: "ensure_pool m1 k' a 1 t2 t3 = (m2, c2)" by fastforce
  have g1: "gauge_ok m1 (gauge g c1)" and h1: "metrics_hook m1"
    using gauge_ok_spend [OF assms, of k a t1] hook_frame(2) [of m k a t1] assms(2) s by simp_all
  have g2: "gauge_ok m2 (gauge (gauge g c1) c2)" and h2: "metrics_hook m2"
    using gauge_ok_ensure [OF g1 h1, of k' a 1 t2 t3] hook_frame(1) [of m1 k' a 1 t2 t3] h1 e
    by simp_all
  obtain p where p: "hget (pools m2) k' = Some p"
    using ensure_pool_state [of m1 k' a 1 t2 t3] e by (simp add: hm.get_insert)
  obtain p' c3 where c: "credit p a k' True t4 = (p', c3)" by fastforce
  have "gauge (gauge (gauge g c1) c2) c3 = (gauge (gauge g c1) c2)(k' \<mapsto> mp_current p')"
    using gauge_credit [of "gauge (gauge g c1) c2" k' p a t4] gauge_ok_lookup [OF g2 p] c by simp
  then show ?thesis
    by (cases r) (simp_all add: transfer_def ts s e p h2 c g1 g2 gauge_ok_hinsert)
qed

section \<open>Properties\<close>

text \<open>C1: in every state a manager reaches, through its own operations or through a pool handed
  out by \<open>pool_mut\<close>, no pool holds more than its maximum, even where the arithmetic wraps.\<close>

theorem mana_balance_bounded:
  assumes "mana_reachable m" and "hget (pools m) k = Some p"
  shows "mp_current p \<le> mp_max p"
  using mana_reachable_ok [OF assms(1)] assms(2) by (auto simp: pool_ok_def)

theorem mana_balance_bounded_witness:
  "mana_reachable (fst (ensure_pool with_metrics_hook (Individual ''a'') 100 1 (Some 5) (Some 9))) \<and>
   mp_current (apply_regeneration (ManaPool_new 100 1 (Some 5)) (Some 9)) \<le> (100 :: u64)"
proof -
  let ?m = "fst (ensure_pool with_metrics_hook (Individual ''a'') 100 1 (Some 5) (Some 9))"
  have r: "mana_reachable ?m"
    by (rule reach_step [OF reach_hook step_ensure])
  have g: "hget (pools ?m) (Individual ''a'')
      = Some (apply_regeneration (ManaPool_new 100 1 (Some 5)) (Some 9))"
    by (simp add: ensure_pool_state pool_or_new_def with_metrics_hook_def hm.get_insert)
  show ?thesis
    using mana_balance_bounded [OF r g] r by (simp add: ManaPool_new_def)
qed

text \<open>regeneration is lazy without being observable: reading a pool's balance at some time does
  not change the balance read at a later time, as long as the product of elapsed time and rate
  fits into 64 bits.\<close>

lemma available_path_independent:
  assumes "pool_ok p" and "now_secs t \<le> now_secs t'" and "regen_fits p t'"
  shows "fst (available (fst (snd (available p s h t))) s' h' t') = fst (available p s' h' t') \<and>
    fst (snd (available (fst (snd (available p s h t))) s' h' t')) = fst (snd (available p s' h' t'))"
  using regeneration_compose [OF assms] by simp_all

lemma available_path_independent_witness:
  "fst (available (fst (snd (available
     \<lparr>mp_current = 10, mp_max = 100, mp_regen_per_sec = 2, mp_last_updated = 1000\<rparr>
     (Individual ''a'') True (Some 1010)))) (Individual ''a'') True (Some 1020)) = 50"
proof -
  let ?p = "\<lparr>mp_current = 10, mp_max = 100, mp_regen_per_sec = 2, mp_last_updated = 1000\<rparr>"
  have "pool_ok ?p" "now_secs (Some 1010) \<le> now_secs (Some 1020)" "regen_fits ?p (Some 1020)"
    by (simp_all add: pool_ok_def now_secs_def regen_fits_def elapsed_secs_def)
  from available_path_independent [OF this, of "Individual ''a''" True "Individual ''a''" True]
  show ?thesis by (simp add: apply_regeneration_def now_secs_def)
qed

text \<open>C2: \<open>consume\<close> against the value of the pool over unbounded numbers: it succeeds exactly when
  the amount is covered, takes exactly the amount, and otherwise reports what was requested and
  what was available and leaves the regenerated balance in place.\<close>

theorem consume_spec:
  assumes "pool_ok p" and "regen_fits p t"
  shows "if unat a \<le> pool_value p t
         then fst (consume p a s h t) = Inr () \<and>
              unat (mp_current (fst (snd (consume p a s h t)))) = pool_value p t - unat a
         else fst (consume p a s h t) = Inl (InsufficientMana a (of_nat (pool_value p t))) \<and>
              unat (mp_current (fst (snd (consume p a s h t)))) = pool_value p t"
proof -
  note v = regeneration_value [OF assms]
  have le: "a \<le> mp_current (apply_regeneration p t) \<longleftrightarrow> unat a \<le> pool_value p t"
    by (simp add: word_le_nat_alt v)
  have of: "of_nat (pool_value p t) = mp_current (apply_regeneration p t)"
    by (simp add: v [symmetric])
  show ?thesis
    by (simp add: consume_result consume_pool Let_def le of v unat_sub_exact)
qed

theorem consume_spec_witness:
  "fst (consume \<lparr>mp_current = 10, mp_max = 100, mp_regen_per_sec = 2, mp_last_updated = 1000\<rparr>
     40 (Individual ''a'') True (Some 1010)) = Inl (InsufficientMana 40 30)"
proof -
  let ?p = "\<lparr>mp_current = 10, mp_max = 100, mp_regen_per_sec = 2, mp_last_updated = 1000\<rparr>"
  have h: "pool_ok ?p" "regen_fits ?p (Some 1010)" and v: "pool_value ?p (Some 1010) = 30"
    by (simp_all add: pool_ok_def now_secs_def regen_fits_def elapsed_secs_def pool_value_def)
  from consume_spec [OF h, of 40 "Individual ''a''" True] show ?thesis by (simp add: v)
qed

text \<open>the balances the metrics hook last saw are the balances of the pools, before and after
  every operation of the manager, failed ones included.\<close>

lemma metrics_gauge_consistent:
  assumes "gauge_ok m g" and "metrics_hook m"
  shows "gauge_ok (fst (ensure_pool m k mx r t t')) (gauge g (snd (ensure_pool m k mx r t t'))) \<and>
    gauge_ok (fst (snd (balance m k t))) (gauge g (snd (snd (balance m k t)))) \<and>
    gauge_ok (fst (snd (spend m k a t))) (gauge g (snd (snd (spend m k a t)))) \<and>
    gauge_ok (fst (snd (transfer m k k' a ts))) (gauge g (snd (snd (transfer m k k' a ts))))"
  using gauge_ok_ensure [OF assms] gauge_ok_balance [OF assms]
    gauge_ok_spend [OF assms] gauge_ok_transfer [OF assms] by blast

lemma metrics_gauge_consistent_witness:
  "gauge_ok (fst (ensure_pool with_metrics_hook (Individual ''a'') 100 1 (Some 5) (Some 9)))
     (gauge Map.empty (snd (ensure_pool with_metrics_hook (Individual ''a'') 100 1 (Some 5) (Some 9))))"
  by (rule metrics_gauge_consistent [THEN conjunct1])
    (simp_all add: gauge_ok_def with_metrics_hook_def)

text \<open>What \<open>transfer\<close> leaves in the destination: the credit is cut off at the destination's
  maximum.\<close>

lemma credit_value:
  assumes "pool_ok p" and "now_secs t \<le> now_secs t'" and "regen_fits p t'"
    and "pool_value p t' + unat a < 2 ^ 64"
  shows "unat (mp_current (fst (credit (apply_regeneration p t) a s h t'))) =
    min (unat (mp_max p)) (pool_value p t' + unat a)"
proof -
  have "unat (mp_current (apply_regeneration (apply_regeneration p t) t')) = pool_value p t'"
    unfolding regeneration_compose [OF assms(1-3)] by (rule regeneration_value [OF assms(1,3)])
  with assms(4) show ?thesis
    by (simp add: credit_pool Let_def unat_min unat_add_exact min.commute)
qed

lemma spend_lookup:
  assumes "hget (pools m) k = Some p"
  shows "hget (pools (fst (snd (spend m k a t)))) k' =
    (if k' = k then Some (fst (snd (consume p a k (metrics_hook m) t))) else hget (pools m) k')"
  using assms by (simp add: spend_state hm.get_insert)

lemma transfer_lookup:
  assumes "k \<noteq> k'" and "is_ok (fst (spend m k a t1))" and "hget (pools m) k = Some p"
  shows "hget (pools (fst (snd (transfer m k k' a (t1, t2, t3, t4))))) j =
    (if j = k' then Some (fst (credit (apply_regeneration (pool_or_new m k' a 1 t2) t3) a k' (metrics_hook m) t4))
     else if j = k then Some (fst (snd (consume p a k (metrics_hook m) t1)))
     else hget (pools m) j)"
proof -
  have "pool_or_new (fst (snd (spend m k a t1))) k' a 1 t2 = pool_or_new m k' a 1 t2"
    using assms(1,3) by (simp add: pool_or_new_def spend_lookup)
  with assms show ?thesis
    by (simp add: transfer_state Let_def ensure_pool_state hm.get_insert spend_lookup)
qed

text \<open>A transfer that fails changes nothing but the source pool, which is only regenerated; in
  particular no destination pool comes into being.\<close>

lemma transfer_failure_frame:
  assumes "transfer m k k' a ts = (Inl e, m', c)"
  shows "(\<forall>j. j \<noteq> k \<longrightarrow> hget (pools m') j = hget (pools m) j) \<and>
    hget (pools m') k = map_option (\<lambda>p. apply_regeneration p (fst ts)) (hget (pools m) k)"
proof -
  obtain t1 t2 t3 t4 where ts: "ts = (t1, t2, t3, t4)" by (metis prod_cases4)
  have e: "fst (spend m k a t1) = Inl e"
    using transfer_result [of m k k' a ts] assms ts by simp
  then have m': "m' = fst (snd (spend m k a t1))"
    using transfer_state [of m k k' a t1 t2 t3 t4] assms ts by (simp add: Let_def)
  show ?thesis
    using e by (auto simp: m' ts spend_state spend_result consume_result consume_pool Let_def
        hm.get_insert split: option.splits if_splits)
qed

text \<open>C3: a transfer between two different existing pools of a well-formed manager, where the regeneration of both stays below
  \<open>2 ^ 64\<close> and the clock does not run backwards between the readings for the destination.  If the source covers the amount
  and the destination's value with the amount stays below \<open>2 ^ 64\<close>, the transfer succeeds, takes exactly the amount
  from the source and gives the destination the amount up to its maximum.  If the source does not cover it, the
  transfer is refused with what was requested and what was available, and the source keeps its regenerated
  value.  Every other pool is untouched.\<close>

theorem transfer_spec:
  assumes "manager_ok m" and "k \<noteq> k'"
    and "hget (pools m) k = Some p" and "regen_fits p t1"
    and "hget (pools m) k' = Some q" and "now_secs t3 \<le> now_secs t4" and "regen_fits q t4"
    and "transfer m k k' a (t1, t2, t3, t4) = (r, m', c)"
  shows "(unat a \<le> pool_value p t1 \<and> pool_value q t4 + unat a < 2 ^ 64 \<longrightarrow>
      r = Inr () \<and> (\<exists>p' q'. hget (pools m') k = Some p' \<and> unat (mp_current p') = pool_value p t1 - unat a \<and>
        hget (pools m') k' = Some q' \<and> unat (mp_current q') = min (unat (mp_max q)) (pool_value q t4 + unat a))) \<and>
    (pool_value p t1 < unat a \<longrightarrow> r = Inl (InsufficientMana a (of_nat (pool_value p t1))) \<and>
      hget (pools m') k = Some (apply_regeneration p t1) \<and> unat (mp_current (apply_regeneration p t1)) = pool_value p t1 \<and>
      hget (pools m') k' = Some q) \<and>
    (\<forall>j. j \<notin> {k, k'} \<longrightarrow> hget (pools m') j = hget (pools m) j)"
proof (cases "unat a \<le> pool_value p t1")
  case True
  have ok: "pool_ok p" "pool_ok q" using assms(1,3,5) by auto
  note v = regeneration_value [OF ok(1) assms(4)]
  have "a \<le> mp_current (apply_regeneration p t1)" using True by (simp add: word_le_nat_alt v)
  then have s: "fst (spend m k a t1) = Inr ()"
    and p': "unat (mp_current (fst (snd (consume p a k (metrics_hook m) t1)))) = pool_value p t1 - unat a"
    using assms(3) by (simp_all add: spend_result consume_result consume_pool Let_def unat_sub_exact v)
  have "hget (pools m') j =
    (if j = k' then Some (fst (credit (apply_regeneration q t3) a k' (metrics_hook m) t4))
     else if j = k then Some (fst (snd (consume p a k (metrics_hook m) t1)))
     else hget (pools m) j)" for j
    using transfer_lookup [OF assms(2) _ assms(3), of a t1 t2 t3 t4 j] s assms(5,8)
    by (simp add: pool_or_new_def)
  moreover have "r = Inr ()" using transfer_result [of m k k' a "(t1, t2, t3, t4)"] s assms(8) by simp
  ultimately show ?thesis
    using True p' credit_value [OF ok(2) assms(6,7), of a k' "metrics_hook m"] assms(2) by auto
next
  case False
  have ok: "pool_ok p" using assms(1,3) by auto
  note v = regeneration_value [OF ok assms(4)]
  have "\<not> a \<le> mp_current (apply_regeneration p t1)" using False by (simp add: word_le_nat_alt v)
  then have r: "r = Inl (InsufficientMana a (of_nat (pool_value p t1)))"
    using transfer_result [of m k k' a "(t1, t2, t3, t4)"] assms(3,8)
    by (simp add: spend_result consume_result Let_def v [symmetric])
  from transfer_failure_frame [OF assms(8) [unfolded r]] False r v assms(2,3,5) show ?thesis by auto
qed

theorem transfer_spec_witness:
  "\<exists>m' c p' q'. transfer
     \<lparr>pools = [(Individual ''a'', \<lparr>mp_current = 50, mp_max = 100, mp_regen_per_sec = 0, mp_last_updated = 5\<rparr>),
              (Individual ''b'', \<lparr>mp_current = 90, mp_max = 100, mp_regen_per_sec = 0, mp_last_updated = 5\<rparr>)],
      metrics_hook = True\<rparr>
     (Individual ''a'') (Individual ''b'') 30 (Some 5, Some 5, Some 5, Some 5) = (Inr (), m', c) \<and>
   hget (pools m') (Individual ''a'') = Some p' \<and> unat (mp_current p') = 20 \<and>
   hget (pools m') (Individual ''b'') = Some q' \<and> unat (mp_current q') = 100"
proof -
  let ?p = "\<lparr>mp_current = 50, mp_max = 100, mp_regen_per_sec = 0, mp_last_updated = 5\<rparr>"
  let ?q = "\<lparr>mp_current = 90, mp_max = 100, mp_regen_per_sec = 0, mp_last_updated = 5\<rparr>"
  let ?m = "\<lparr>pools = [(Individual ''a'', ?p), (Individual ''b'', ?q)], metrics_hook = True\<rparr>"
  have h: "manager_ok ?m" "Individual ''a'' \<noteq> Individual ''b''"
    "hget (pools ?m) (Individual ''a'') = Some ?p" "hget (pools ?m) (Individual ''b'') = Some ?q"
    by (auto simp: manager_ok_def pool_ok_def hwf_def hget_def split: if_splits)
  have v: "pool_value ?p (Some 5) = 50" "pool_value ?q (Some 5) = 90"
    "regen_fits ?p (Some 5)" "regen_fits ?q (Some 5)"
    by (simp_all add: now_secs_def regen_fits_def elapsed_secs_def pool_value_def)
  obtain r m' c where tr: "transfer ?m (Individual ''a'') (Individual ''b'') 30 (Some 5, Some 5, Some 5, Some 5) = (r, m', c)"
    by (metis prod_cases3)
  from transfer_spec [OF h(1,2,3) v(3) h(4) _ v(4) tr] v tr show ?thesis by auto
qed

text \<open>without the side condition of C2 and C3 the regenerated balance is wrong: the product of
  elapsed time and rate wraps, and a pool can lose mana by regenerating.\<close>

lemma regeneration_overflow_loses_mana:
  "\<exists>p t. pool_ok p \<and> mp_current (apply_regeneration p t) < mp_current p"
proof -
  let ?p = "\<lparr>mp_current = 10, mp_max = 100, mp_regen_per_sec = 2 ^ 63 - 3, mp_last_updated = 0\<rparr> :: ManaPool"
  have "pool_ok ?p \<and> mp_current (apply_regeneration ?p (Some 2)) < mp_current ?p"
    by (simp add: pool_ok_def apply_regeneration_def now_secs_def)
  then show ?thesis by blast
qed

end
