(* ===== verification/Mana_Ledger.thy ===== *)
theory Mana_Ledger
  imports Did_Key
begin

text \<open>
  Mana ledgers: the trait \<open>ManaLedger\<close>, its in-memory implementation and the regenerator of
  \<^verbatim>\<open>crates/common/icn-economics/src/mana.rs\<close>, the Sled implementation of
  \<^verbatim>\<open>crates/common/icn-economics/src/sled_mana_ledger.rs\<close>, and \<open>ManaState\<close>, \<open>ScopedMana\<close> of
  \<^verbatim>\<open>crates/common/icn-types/src/mana.rs\<close>.

  The trait is the locale \<open>mana_ledger\<close>: a ledger is a state with a read, a write and a listing,
  any of which may fail.  The regenerator is written over the three operations and its effect is
  proved once, in the locale; the in-memory ledger is an interpretation, and the Sled ledger is
  one for every storage engine that keeps the laws \<open>sled_laws\<close>.
\<close>

section \<open>Mana states\<close>

record ManaState =
  current_mana :: u64
  max_mana :: u64
  regen_rate_per_epoch :: f64
  last_updated_epoch :: u64

text \<open>\<open>0x4024000000000000\<close> is the bit pattern of \<open>10.0\<close>.\<close>

definition ManaState_default :: ManaState where
  "ManaState_default = \<lparr>current_mana = 0, max_mana = 1000,
     regen_rate_per_epoch = 0x4024000000000000, last_updated_epoch = 0\<rparr>"

record ScopedMana =
  executor_did :: did
  cooperative_did :: "did option"
  sm_state :: ManaState

definition ScopedMana_new ::
  "did \<Rightarrow> did option \<Rightarrow> u64 \<Rightarrow> u64 \<Rightarrow> f64 \<Rightarrow> u64 \<Rightarrow> ScopedMana" where
  "ScopedMana_new executor coop initial_mana mx regen_rate current_epoch =
     \<lparr>executor_did = executor, cooperative_did = coop,
      sm_state = \<lparr>current_mana = initial_mana, max_mana = mx,
        regen_rate_per_epoch = regen_rate, last_updated_epoch = current_epoch\<rparr>\<rparr>"

section \<open>The regenerator\<close>

datatype RegenerationPolicy = FixedRatePerTick u64

definition policy_to_label :: "RegenerationPolicy \<Rightarrow> string" where
  "policy_to_label p = (case p of FixedRatePerTick _ \<Rightarrow> ''fixed_rate_per_tick'')"

datatype 'e tick_error = UpdateFailed 'e | ReadFailed 'e

record 'e RegenerationTickDetails =
  processed_dids_count :: nat
  regenerated_dids_count :: nat
  tick_errors :: "(did \<times> 'e tick_error) list"

datatype tick_metric =
    ActiveDids nat
  | TicksTotal string
  | ProcessedDidsTotal string nat
  | RegeneratedDidsTotal string nat
  | RegenerationErrorsTotal string string

definition regenerate :: "RegenerationPolicy \<Rightarrow> ManaState \<Rightarrow> ManaState" where
  "regenerate policy st =
     (case policy of FixedRatePerTick regen_amount \<Rightarrow>
        st\<lparr>current_mana := min (current_mana st + regen_amount) (max_mana st)\<rparr>)"

text \<open>One turn of the loop over the listed identities.\<close>

definition tick_one ::
  "('s \<Rightarrow> did \<Rightarrow> 'e + ManaState option) \<Rightarrow> ('s \<Rightarrow> did \<Rightarrow> ManaState \<Rightarrow> ('e + unit) \<times> 's)
   \<Rightarrow> RegenerationPolicy \<Rightarrow> 's \<Rightarrow> did \<Rightarrow> 's \<times> nat \<times> (did \<times> 'e tick_error) list" where
  "tick_one get_mana_state update_mana_state policy s d =
     (case get_mana_state s d of
        Inr (Some st) \<Rightarrow>
          (let original_mana = current_mana st; st' = regenerate policy st in
           if current_mana st' \<noteq> original_mana then
             (case update_mana_state s d st' of
                (Inl e, s') \<Rightarrow> (s', 1, [(d, UpdateFailed e)])
              | (Inr _, s') \<Rightarrow> (s', 1, []))
           else (s, 0, []))
      | Inr None \<Rightarrow> (s, 0, [])
      | Inl e \<Rightarrow> (s, 0, [(d, ReadFailed e)]))"

fun tick_loop ::
  "('s \<Rightarrow> did \<Rightarrow> 'e + ManaState option) \<Rightarrow> ('s \<Rightarrow> did \<Rightarrow> ManaState \<Rightarrow> ('e + unit) \<times> 's)
   \<Rightarrow> RegenerationPolicy \<Rightarrow> 's \<Rightarrow> did list \<Rightarrow> 's \<times> nat \<times> (did \<times> 'e tick_error) list" where
  "tick_loop get upd policy s [] = (s, 0, [])"
| "tick_loop get upd policy s (d # ds) =
     (case tick_one get upd policy s d of (s1, n1, errs1) \<Rightarrow>
      case tick_loop get upd policy s1 ds of (s2, n2, errs2) \<Rightarrow> (s2, n1 + n2, errs1 @ errs2))"

definition error_scope :: "'e tick_error \<Rightarrow> string" where
  "error_scope reason =
     (case reason of ReadFailed _ \<Rightarrow> ''ledger_read'' | UpdateFailed _ \<Rightarrow> ''ledger_update'')"

text \<open>A tick is modelled as one step.  In the source each of its reads and writes is a ledger call of its own, so that another
  task may run between them; the statements below are about a tick during which no other task writes, and
  \<open>write_during_tick_lost\<close> shows what happens to one that does.\<close>

definition tick ::
  "('s \<Rightarrow> did \<Rightarrow> 'e + ManaState option) \<Rightarrow> ('s \<Rightarrow> did \<Rightarrow> ManaState \<Rightarrow> ('e + unit) \<times> 's)
   \<Rightarrow> ('s \<Rightarrow> 'e + did list) \<Rightarrow> RegenerationPolicy \<Rightarrow> 's
   \<Rightarrow> ('e + 'e RegenerationTickDetails) \<times> 's \<times> tick_metric list" where
  "tick get upd all_dids policy s =
     (let label = policy_to_label policy in
      case all_dids s of
        Inl e \<Rightarrow> (Inl e, s, [RegenerationErrorsTotal label ''all_dids_read_failed''])
      | Inr dids \<Rightarrow>
          (case tick_loop get upd policy s dids of (s', n, errs) \<Rightarrow>
             (Inr \<lparr>processed_dids_count = length dids, regenerated_dids_count = n, tick_errors = errs\<rparr>, s',
              [ActiveDids (length dids), TicksTotal label, ProcessedDidsTotal label (length dids),
               RegeneratedDidsTotal label n] @
              map (\<lambda>(_, reason). RegenerationErrorsTotal label (error_scope reason)) errs)))"

section \<open>The in-memory ledger\<close>

type_synonym InMemoryManaLedger = "(did, ManaState) hmap"

definition mem_get_mana_state :: "InMemoryManaLedger \<Rightarrow> did \<Rightarrow> string + ManaState option" where
  "mem_get_mana_state s d = Inr (hget s d)"

definition mem_update_mana_state ::
  "InMemoryManaLedger \<Rightarrow> did \<Rightarrow> ManaState \<Rightarrow> (string + unit) \<times> InMemoryManaLedger" where
  "mem_update_mana_state s d st = (Inr (), hinsert s d st)"

definition mem_all_dids :: "InMemoryManaLedger \<Rightarrow> string + did list" where
  "mem_all_dids s = Inr (hkeys s)"

definition set_initial_state :: "InMemoryManaLedger \<Rightarrow> did \<Rightarrow> ManaState \<Rightarrow> InMemoryManaLedger" where
  "set_initial_state s d st = hinsert s d st"

section \<open>The Sled ledger\<close>

text \<open>What the code uses of the storage engine and of the serialiser; a failed call carries the
  library's message.\<close>

record 'db sled_api =
  open_tree :: "'db \<Rightarrow> string + unit"
  tree_get :: "'db \<Rightarrow> bytes \<Rightarrow> string + bytes option"
  tree_insert :: "'db \<Rightarrow> bytes \<Rightarrow> bytes \<Rightarrow> (string + unit) \<times> 'db"
  tree_iter :: "'db \<Rightarrow> (string + bytes \<times> bytes) list"
  serialize_state :: "ManaState \<Rightarrow> string + bytes"
  deserialize_state :: "bytes \<Rightarrow> string + ManaState"
  parse_did :: "string \<Rightarrow> DidError + did"

datatype LedgerError =
    TreeAccess string
  | DeserializeFailed did string
  | TreeIo did string
  | InsertIo did string
  | SerializeFailed did string
  | IterIo string

datatype ledger_metric = LedgerOperation string string string | LedgerErrorCount string string string

definition get_tree_metrics :: "ledger_metric list" where
  "get_tree_metrics =
     [LedgerOperation ''sled'' ''get_tree'' ''error'', LedgerErrorCount ''sled'' ''get_tree'' ''io'']"

definition sled_get_mana_state ::
  "'db sled_api \<Rightarrow> 'db \<Rightarrow> did \<Rightarrow> (LedgerError + ManaState option) \<times> ledger_metric list" where
  "sled_get_mana_state A db d =
     (case open_tree A db of
        Inl e \<Rightarrow> (Inl (TreeAccess e), get_tree_metrics)
      | Inr _ \<Rightarrow>
          (case tree_get A db (str_bytes d) of
             Inr (Some ivec) \<Rightarrow>
               (case deserialize_state A ivec of
                  Inr st \<Rightarrow> (Inr (Some st), [LedgerOperation ''sled'' ''get'' ''success''])
                | Inl e \<Rightarrow> (Inl (DeserializeFailed d e),
                    [LedgerOperation ''sled'' ''get'' ''error'',
                     LedgerErrorCount ''sled'' ''get'' ''deserialization'']))
           | Inr None \<Rightarrow> (Inr None, [LedgerOperation ''sled'' ''get'' ''success''])
           | Inl e \<Rightarrow> (Inl (TreeIo d e),
               [LedgerOperation ''sled'' ''get'' ''error'', LedgerErrorCount ''sled'' ''get'' ''io''])))"

definition sled_update_mana_state ::
  "'db sled_api \<Rightarrow> 'db \<Rightarrow> did \<Rightarrow> ManaState \<Rightarrow> (LedgerError + unit) \<times> 'db \<times> ledger_metric list" where
  "sled_update_mana_state A db d new_state =
     (case open_tree A db of
        Inl e \<Rightarrow> (Inl (TreeAccess e), db, get_tree_metrics)
      | Inr _ \<Rightarrow>
          (case serialize_state A new_state of
             Inr serialized_state \<Rightarrow>
               (case tree_insert A db (str_bytes d) serialized_state of
                  (Inr _, db') \<Rightarrow> (Inr (), db', [LedgerOperation ''sled'' ''set'' ''success''])
                | (Inl e, db') \<Rightarrow> (Inl (InsertIo d e), db',
                    [LedgerOperation ''sled'' ''set'' ''error'', LedgerErrorCount ''sled'' ''set'' ''io'']))
           | Inl e \<Rightarrow> (Inl (SerializeFailed d e), db,
               [LedgerOperation ''sled'' ''set'' ''error'',
                LedgerErrorCount ''sled'' ''set'' ''deserialization''])))"

text \<open>The loop of \<open>all_dids\<close>: a key that is no UTF-8 text or no identifier is counted and skipped,
  an I/O error ends the listing.\<close>

fun sled_collect ::
  "'db sled_api \<Rightarrow> (string + bytes \<times> bytes) list \<Rightarrow> did list
   \<Rightarrow> (LedgerError + did list) \<times> ledger_metric list" where
  "sled_collect A [] dids = (Inr dids, [])"
| "sled_collect A (Inl e # items) dids =
     (Inl (IterIo e), [LedgerErrorCount ''sled'' ''list_iter_io'' ''io''])"
| "sled_collect A (Inr (key_ivec, _) # items) dids =
     (case from_utf8 key_ivec of
        Some did_str \<Rightarrow>
          (case parse_did A did_str of
             Inr parsed_did \<Rightarrow> sled_collect A items (dids @ [parsed_did])
           | Inl _ \<Rightarrow> (case sled_collect A items dids of (r, ms) \<Rightarrow>
               (r, LedgerErrorCount ''sled'' ''list_parse_key_utf8'' ''deserialization'' # ms)))
      | None \<Rightarrow> (case sled_collect A items dids of (r, ms) \<Rightarrow>
          (r, LedgerErrorCount ''sled'' ''list_parse_key_utf8'' ''deserialization'' # ms)))"

definition sled_all_dids :: "'db sled_api \<Rightarrow> 'db \<Rightarrow> (LedgerError + did list) \<times> ledger_metric list" where
  "sled_all_dids A db =
     (case open_tree A db of
        Inl e \<Rightarrow> (Inl (TreeAccess e), get_tree_metrics)
      | Inr _ \<Rightarrow> sled_collect A (tree_iter A db) [])"

text \<open>What the ledger relies on: inserting stores the value under the key and nothing else, a failed
  insert stores nothing, iteration shows every stored key once or fails, serialised states
  decode, and a parsed identifier is the text it was parsed from.\<close>

definition sled_laws :: "'db sled_api \<Rightarrow> bool" where
  "sled_laws A \<longleftrightarrow>
     (\<forall>db k v db'. tree_insert A db k v = (Inr (), db') \<longrightarrow>
        open_tree A db' = open_tree A db \<and>
        (\<forall>k'. tree_get A db' k' = (if k' = k then Inr (Some v) else tree_get A db k'))) \<and>
     (\<forall>db k v e db'. tree_insert A db k v = (Inl e, db') \<longrightarrow> db' = db) \<and>
     (\<forall>db kvs. tree_iter A db = map Inr kvs \<longrightarrow> distinct (map fst kvs) \<and>
        (\<forall>k. k \<in> fst ` set kvs \<longleftrightarrow> tree_get A db k \<noteq> Inr None)) \<and>
     (\<forall>st b. serialize_state A st = Inr b \<longrightarrow> deserialize_state A b = Inr st) \<and>
     (\<forall>s d. parse_did A s = Inr d \<longrightarrow> d = s)"

section \<open>The interface\<close>

locale mana_ledger =
  fixes get :: "'s \<Rightarrow> did \<Rightarrow> 'e + ManaState option"
    and upd :: "'s \<Rightarrow> did \<Rightarrow> ManaState \<Rightarrow> ('e + unit) \<times> 's"
    and all_dids :: "'s \<Rightarrow> 'e + did list"
    and wf :: "'s \<Rightarrow> bool"
  assumes get_upd: "wf s \<Longrightarrow> upd s d st = (Inr (), s') \<Longrightarrow>
      get s' d' = (if d' = d then Inr (Some st) else get s d')"
    and get_upd_err: "wf s \<Longrightarrow> upd s d st = (Inl e, s') \<Longrightarrow> get s' d' = get s d'"
    and wf_upd: "wf s \<Longrightarrow> wf (snd (upd s d st))"
    and all_distinct: "wf s \<Longrightarrow> all_dids s = Inr ds \<Longrightarrow> distinct ds"
    and all_sound: "wf s \<Longrightarrow> all_dids s = Inr ds \<Longrightarrow> d \<in> set ds \<Longrightarrow> get s d \<noteq> Inr None"

text \<open>What a tick does to the reading of one account.\<close>

definition regen_reading :: "RegenerationPolicy \<Rightarrow> 'e + ManaState option \<Rightarrow> 'e + ManaState option" where
  "regen_reading policy r = map_sum id (map_option (regenerate policy)) r"

definition regen_due :: "RegenerationPolicy \<Rightarrow> 'e + ManaState option \<Rightarrow> bool" where
  "regen_due policy r =
     (case r of Inr (Some st) \<Rightarrow> current_mana (regenerate policy st) \<noteq> current_mana st | _ \<Rightarrow> False)"

lemma regenerate_max [simp]: "max_mana (regenerate policy st) = max_mana st"
  by (cases policy) (simp add: regenerate_def)

lemma regenerate_same:
  "current_mana (regenerate policy st) = current_mana st \<Longrightarrow> regenerate policy st = st"
  by (cases policy) (simp add: regenerate_def)

context mana_ledger
begin

lemma tick_one_get:
  assumes "wf s" and "tick_one get upd policy s d = (s', n, errs)"
  shows "wf s' \<and> n = (if regen_due policy (get s d) then 1 else 0) \<and> fst ` set errs \<subseteq> {d} \<and>
    get s' d' = (if d' = d \<and> errs = [] then regen_reading policy (get s d) else get s d')"
proof (cases "regen_due policy (get s d)")
  case False
  with assms show ?thesis
    by (auto simp: tick_one_def regen_due_def regen_reading_def Let_def regenerate_same
        split: sum.splits option.splits if_splits)
next
  case True
  then obtain st where st: "get s d = Inr (Some st)"
    and ne: "current_mana (regenerate policy st) \<noteq> current_mana st"
    by (auto simp: regen_due_def split: sum.splits option.splits)
  obtain r s1 where u: "upd s d (regenerate policy st) = (r, s1)" by fastforce
  have "wf s1" using wf_upd [OF assms(1), of d "regenerate policy st"] u by simp
  then show ?thesis
    using assms st ne u True get_upd [OF assms(1), of d "regenerate policy st" s1 d']
      get_upd_err [OF assms(1), of d "regenerate policy st" _ s1 d']
    by (cases r) (auto simp: tick_one_def regen_reading_def Let_def)
qed

lemma tick_loop_get:
  assumes "wf s" and "distinct ds" and "tick_loop get upd policy s ds = (s', n, errs)"
  shows "wf s' \<and> n = length (filter (\<lambda>d. regen_due policy (get s d)) ds) \<and> fst ` set errs \<subseteq> set ds \<and>
    (\<forall>d. get s' d = (if d \<in> set ds - fst ` set errs then regen_reading policy (get s d) else get s d))"
  using assms
proof (induction ds arbitrary: s n errs)
  case Nil
  then show ?case by simp
next
  case (Cons d ds)
  obtain s1 n1 e1 where one: "tick_one get upd policy s d = (s1, n1, e1)" by (metis prod_cases3)
  obtain n2 e2 where loop: "tick_loop get upd policy s1 ds = (s', n2, e2)" and n: "n = n1 + n2"
    and e: "errs = e1 @ e2"
    using Cons.prems(3) one by (auto split: prod.splits)
  note o = tick_one_get [OF Cons.prems(1) one]
  have fr: "get s1 x = get s x" if "x \<in> set ds" for x
    using o [of x] that Cons.prems(2) by auto
  have IH: "wf s' \<and> n2 = length (filter (\<lambda>d. regen_due policy (get s1 d)) ds) \<and> fst ` set e2 \<subseteq> set ds \<and>
    (\<forall>d. get s' d = (if d \<in> set ds - fst ` set e2 then regen_reading policy (get s1 d) else get s1 d))"
    using Cons.IH [OF _ _ loop] o Cons.prems(2) by auto
  have c: "filter (\<lambda>d. regen_due policy (get s1 d)) ds = filter (\<lambda>d. regen_due policy (get s d)) ds"
    using fr by (auto intro: filter_cong)
  have d: "d \<in> fst ` set e1 \<longleftrightarrow> e1 \<noteq> []"
    using o [of d] by (cases e1) auto
  have "get s' x = (if x \<in> set (d # ds) - fst ` set errs then regen_reading policy (get s x) else get s x)" for x
    using IH o [of x] fr [of x] Cons.prems(2) d by (auto simp: e)
  then show ?case using IH o c n e by auto
qed

lemma tick_effect:
  assumes "wf s" and "tick get upd all_dids policy s = (Inr det, s', ms)"
  obtains ds where "all_dids s = Inr ds" and "processed_dids_count det = length ds"
    and "regenerated_dids_count det = length (filter (\<lambda>d. regen_due policy (get s d)) ds)"
    and "\<And>d. get s' d = (if d \<in> set ds - fst ` set (tick_errors det)
                         then regen_reading policy (get s d) else get s d)"
    and "wf s'"
proof -
  from assms(2) obtain ds where ds: "all_dids s = Inr ds"
    by (auto simp: tick_def Let_def split: sum.splits)
  obtain n errs where l: "tick_loop get upd policy s ds = (s', n, errs)"
    and det: "det = \<lparr>processed_dids_count = length ds, regenerated_dids_count = n, tick_errors = errs\<rparr>"
    using assms(2) ds by (auto simp: tick_def Let_def split: prod.splits)
  show ?thesis
    using that [OF ds] tick_loop_get [OF assms(1) all_distinct [OF assms(1) ds] l] det by simp
qed

end

section \<open>The implementations keep the contract\<close>

lemmas mem_defs = mem_get_mana_state_def mem_update_mana_state_def mem_all_dids_def

interpretation mem: mana_ledger mem_get_mana_state mem_update_mana_state mem_all_dids hwf
  by unfold_locales (auto simp: mem_defs hmap_simps set_hkeys distinct_hkeys)

text \<open>The Sled ledger as the trait shows it: without the metrics.\<close>

definition sled_get :: "'db sled_api \<Rightarrow> 'db \<Rightarrow> did \<Rightarrow> LedgerError + ManaState option" where
  "sled_get A db d = fst (sled_get_mana_state A db d)"

definition sled_upd :: "'db sled_api \<Rightarrow> 'db \<Rightarrow> did \<Rightarrow> ManaState \<Rightarrow> (LedgerError + unit) \<times> 'db" where
  "sled_upd A db d st =
     (fst (sled_update_mana_state A db d st), fst (snd (sled_update_mana_state A db d st)))"

definition sled_all :: "'db sled_api \<Rightarrow> 'db \<Rightarrow> LedgerError + did list" where
  "sled_all A db = fst (sled_all_dids A db)"

definition key_did :: "'db sled_api \<Rightarrow> bytes \<Rightarrow> did option" where
  "key_did A k = (case from_utf8 k of None \<Rightarrow> None
     | Some s \<Rightarrow> (case parse_did A s of Inl _ \<Rightarrow> None | Inr d \<Rightarrow> Some d))"

lemma sled_collect_step:
  "fst (sled_collect A (Inr (k, v) # items) acc) =
   fst (sled_collect A items (acc @ (case key_did A k of None \<Rightarrow> [] | Some d \<Rightarrow> [d])))"
  by (auto simp: key_did_def split: option.splits sum.splits prod.splits)

lemma sled_collect_Inr:
  assumes "fst (sled_collect A items acc) = Inr ds"
  shows "\<exists>kvs. items = map Inr kvs \<and> ds = acc @ List.map_filter (key_did A \<circ> fst) kvs"
  using assms
proof (induction items arbitrary: acc)
  case (Cons i items)
  then obtain k v where i: "i = Inr (k, v)" by (cases i) auto
  let ?acc = "acc @ (case key_did A k of None \<Rightarrow> [] | Some d \<Rightarrow> [d])"
  from Cons.prems have "fst (sled_collect A items ?acc) = Inr ds"
    unfolding i sled_collect_step .
  from Cons.IH [OF this] obtain kvs
    where "items = map Inr kvs" "ds = ?acc @ List.map_filter (key_did A \<circ> fst) kvs" by blast
  then have "i # items = map Inr ((k, v) # kvs) \<and>
      ds = acc @ List.map_filter (key_did A \<circ> fst) ((k, v) # kvs)"
    using i by (simp add: map_filter_simps split: option.splits)
  then show ?case by (rule exI)
qed (simp add: map_filter_simps)

lemma key_did_Some:
  "sled_laws A \<Longrightarrow> key_did A k = Some d \<Longrightarrow> k = str_bytes d"
  by (simp add: key_did_def from_utf8_def sled_laws_def split: option.splits sum.splits if_splits)
    (metis str_bytes_str)

lemma distinct_map_filter:
  assumes "distinct xs" and "\<And>x y z. f x = Some z \<Longrightarrow> f y = Some z \<Longrightarrow> x = y"
  shows "distinct (List.map_filter f xs)"
  using assms(1)
  by (induction xs) (auto simp: map_filter_simps map_filter_def dest: assms(2) split: option.splits)

lemma sled_all_Inr:
  assumes "sled_laws A" and "sled_all A db = Inr ds"
  shows "distinct ds \<and> (\<forall>d \<in> set ds. sled_get A db d \<noteq> Inr None)"
proof -
  from assms(2) have o: "open_tree A db = Inr ()"
    and c: "fst (sled_collect A (tree_iter A db) []) = Inr ds"
    by (auto simp: sled_all_def sled_all_dids_def split: sum.splits)
  from sled_collect_Inr [OF c] obtain kvs where it: "tree_iter A db = map Inr kvs"
    and ds: "ds = List.map_filter (key_did A) (map fst kvs)"
    by (auto simp: map_filter_def comp_def filter_map)
  from assms(1) it have k: "distinct (map fst kvs)"
    "\<And>k. k \<in> fst ` set kvs \<Longrightarrow> tree_get A db k \<noteq> Inr None"
    by (auto simp: sled_laws_def)
  have "tree_get A db (str_bytes d) \<noteq> Inr None" if "d \<in> set ds" for d
    using that k(2) key_did_Some [OF assms(1)] by (fastforce simp: ds map_filter_def)
  then have "sled_get A db d \<noteq> Inr None" if "d \<in> set ds" for d
    using that by (auto simp: sled_get_def sled_get_mana_state_def o split: sum.splits option.splits)
  then show ?thesis
    using distinct_map_filter [OF k(1), of "key_did A"] key_did_Some [OF assms(1)] ds by metis
qed

lemma sled_upd_Inr:
  assumes "sled_laws A" and "sled_upd A db d st = (Inr (), db')"
  shows "sled_get A db' d' = (if d' = d then Inr (Some st) else sled_get A db d')"
proof -
  from assms(2) obtain b where o: "open_tree A db = Inr ()" and b: "serialize_state A st = Inr b"
    and i: "tree_insert A db (str_bytes d) b = (Inr (), db')"
    by (auto simp: sled_upd_def sled_update_mana_state_def split: sum.splits prod.splits)
  from assms(1) i have "open_tree A db' = Inr ()"
    and "tree_get A db' (str_bytes d') = (if d' = d then Inr (Some b) else tree_get A db (str_bytes d'))"
    using o by (auto simp: sled_laws_def)
  moreover have "deserialize_state A b = Inr st" using assms(1) b by (simp add: sled_laws_def)
  ultimately show ?thesis using o by (simp add: sled_get_def sled_get_mana_state_def)
qed

lemma sled_upd_Inl:
  assumes "sled_laws A" and "sled_upd A db d st = (Inl e, db')"
  shows "db' = db"
  using assms
  by (auto simp: sled_upd_def sled_update_mana_state_def sled_laws_def split: sum.splits prod.splits)

lemma sled_ledger: "sled_laws A \<Longrightarrow> mana_ledger (sled_get A) (sled_upd A) (sled_all A) (\<lambda>_. True)"
  by unfold_locales (auto simp: sled_upd_Inr dest: sled_upd_Inl sled_all_Inr)

section \<open>Properties\<close>

lemma mem_tick_loop_errors:
  "tick_loop mem_get_mana_state mem_update_mana_state policy s ds = (s', n, errs) \<Longrightarrow> errs = []"
proof (induction ds arbitrary: s s' n errs)
  case (Cons d ds)
  have "snd (snd (tick_one mem_get_mana_state mem_update_mana_state policy s d)) = []"
    by (simp add: tick_one_def mem_defs Let_def split: option.split)
  with Cons show ?case by (auto split: prod.splits)
qed simp

text \<open>The effect of a tick over the in-memory ledger.\<close>

lemma mem_tick_effect:
  assumes "hwf s"
  shows "\<exists>det s' ms. tick mem_get_mana_state mem_update_mana_state mem_all_dids policy s = (Inr det, s', ms) \<and>
    hwf s' \<and> (\<forall>d. hget s' d = map_option (regenerate policy) (hget s d)) \<and>
    tick_errors det = [] \<and> processed_dids_count det = length s \<and>
    regenerated_dids_count det =
      length (filter (\<lambda>(d, st). current_mana (regenerate policy st) \<noteq> current_mana st) s)"
proof -
  obtain s' n errs where l:
    "tick_loop mem_get_mana_state mem_update_mana_state policy s (hkeys s) = (s', n, errs)"
    by (metis prod_cases3)
  have e: "errs = []" by (rule mem_tick_loop_errors [OF l])
  let ?det = "\<lparr>processed_dids_count = length s, regenerated_dids_count = n, tick_errors = []\<rparr>"
  obtain ms where t: "tick mem_get_mana_state mem_update_mana_state mem_all_dids policy s = (Inr ?det, s', ms)"
    using l e by (simp add: tick_def mem_all_dids_def Let_def hkeys_def)
  note g = mem.tick_loop_get [OF assms distinct_hkeys [OF assms] l]
  have r: "mem_get_mana_state s' d = (if d \<in> set (hkeys s) then regen_reading policy (mem_get_mana_state s d)
      else mem_get_mana_state s d)" for d
    using g by (simp add: e)
  have "hget s' d = map_option (regenerate policy) (hget s d)" for d
    using r [of d] by (cases "hget s d") (simp_all add: mem_get_mana_state_def regen_reading_def set_hkeys)
  moreover have "filter (\<lambda>(d, st). current_mana (regenerate policy st) \<noteq> current_mana st) s
      = filter (\<lambda>(d, st). regen_due policy (mem_get_mana_state s d)) s"
    using assms by (intro filter_cong)
      (auto simp: mem_get_mana_state_def regen_due_def hm.entries_iff_get)
  then have "n = length (filter (\<lambda>(d, st). current_mana (regenerate policy st) \<noteq> current_mana st) s)"
    using g by (simp add: hkeys_def filter_map comp_def case_prod_unfold)
  ultimately show ?thesis using t g by auto
qed

text \<open>C10: a tick over the in-memory ledger always succeeds, reports no error, counts every account
  and every account it changed, and adds the policy's amount, up to the maximum, to every
  account exactly once.\<close>

theorem mem_tick_spec:
  assumes "hwf s"
  shows "\<exists>det s' ms. tick mem_get_mana_state mem_update_mana_state mem_all_dids (FixedRatePerTick r) s = (Inr det, s', ms) \<and>
    hwf s' \<and>
    (\<forall>d. hget s' d = map_option (\<lambda>st. st\<lparr>current_mana := min (current_mana st + r) (max_mana st)\<rparr>) (hget s d)) \<and>
    tick_errors det = [] \<and> processed_dids_count det = length s \<and>
    regenerated_dids_count det =
      length (filter (\<lambda>(d, st). min (current_mana st + r) (max_mana st) \<noteq> current_mana st) s)"
proof -
  have "regenerate (FixedRatePerTick r) = (\<lambda>st. st\<lparr>current_mana := min (current_mana st + r) (max_mana st)\<rparr>)"
    by (simp add: fun_eq_iff regenerate_def)
  with mem_tick_effect [OF assms, of "FixedRatePerTick r"] show ?thesis by (simp add: regenerate_def)
qed

theorem mem_tick_spec_witness:
  "\<exists>det s' ms. tick mem_get_mana_state mem_update_mana_state mem_all_dids (FixedRatePerTick 15)
       [(''d'', ManaState_default\<lparr>current_mana := 990\<rparr>)] = (Inr det, s', ms) \<and>
     hget s' ''d'' = Some (ManaState_default\<lparr>current_mana := 1000\<rparr>) \<and> regenerated_dids_count det = 1"
proof -
  have "hwf [(''d'', ManaState_default\<lparr>current_mana := 990\<rparr>)]" by (simp add: hwf_def)
  from mem_tick_spec [OF this, of 15] show ?thesis
    by (force simp: hget_def regenerate_def ManaState_default_def)
qed

text \<open>C32: over a storage engine that keeps its laws the Sled ledger is a mana ledger: a successful
  update is what the next read returns and touches no other account, a failed one changes
  nothing, and the listing has no duplicates and lists only accounts that are stored.\<close>

theorem sled_refines_mana_ledger:
  assumes "sled_laws A"
  shows "mana_ledger (sled_get A) (sled_upd A) (sled_all A) (\<lambda>_. True)"
  by (rule sled_ledger [OF assms])

text \<open>An engine for the witnesses: an association list that stores one kind of state.\<close>

definition demo_sled :: "bool \<Rightarrow> (bytes, bytes) hmap sled_api" where
  "demo_sled ok = \<lparr>open_tree = (\<lambda>db. Inr ()), tree_get = (\<lambda>db k. Inr (hget db k)),
     tree_insert = (\<lambda>db k v. if ok \<and> hwf db then (Inr (), hinsert db k v) else (Inl ''disk full'', db)),
     tree_iter = (\<lambda>db. if hwf db then map Inr db else [Inl ''corrupt'']),
     serialize_state = (\<lambda>st. if st = ManaState_default then Inr [0]
       else if st = ManaState_default\<lparr>current_mana := 15\<rparr> then Inr [1] else Inl ''unsupported''),
     deserialize_state = (\<lambda>b. if b = [0] then Inr ManaState_default
       else Inr (ManaState_default\<lparr>current_mana := 15\<rparr>)),
     parse_did = Inr\<rparr>"

lemma demo_sled_laws: "sled_laws (demo_sled ok)"
proof -
  have it: "tree_iter (demo_sled ok) db = map Inr kvs \<Longrightarrow> hwf db \<and> kvs = db" for db kvs
    by (auto simp: demo_sled_def inj_map_eq_map split: if_splits)
  have "k \<in> fst ` set db \<longleftrightarrow> hget db k \<noteq> None" for k and db :: "(bytes, bytes) hmap"
    using set_hkeys [of k db] by (simp add: hkeys_def)
  then have "distinct (map fst kvs) \<and> (\<forall>k. k \<in> fst ` set kvs \<longleftrightarrow> tree_get (demo_sled ok) db k \<noteq> Inr None)"
    if "tree_iter (demo_sled ok) db = map Inr kvs" for db kvs
    using it [OF that] by (simp add: demo_sled_def hwf_def)
  then show ?thesis
    unfolding sled_laws_def
    by (auto simp: demo_sled_def hm.get_insert ManaState_default_def split: if_splits)
qed

theorem sled_refines_mana_ledger_witness:
  "mana_ledger (sled_get (demo_sled True)) (sled_upd (demo_sled True)) (sled_all (demo_sled True)) (\<lambda>_. True)"
  by (rule sled_refines_mana_ledger [OF demo_sled_laws])

text \<open>A write that another task makes between the tick's reading of an account and its update is lost: the account ends as if
  it had not been made.\<close>

lemma write_during_tick_lost:
  assumes "mem_get_mana_state s d = Inr (Some st)" "tick_one mem_get_mana_state mem_update_mana_state policy s d = (s1, 1, errs)"
  shows "mem_get_mana_state (snd (mem_update_mana_state (snd (mem_update_mana_state s d st')) d (regenerate policy st))) d =
    mem_get_mana_state s1 d"
  using assms by (auto simp: tick_one_def mem_defs Let_def hm.get_insert split: if_splits)

text \<open>a tick over the Sled ledger that reports no error has regenerated every listed account
  once and left the others as they were.\<close>

lemma sled_tick_spec:
  assumes "sled_laws A" and "sled_all A db = Inr ds"
    and "tick (sled_get A) (sled_upd A) (sled_all A) policy db = (Inr det, db', ms)"
    and "tick_errors det = []"
  shows "sled_get A db' d = (if d \<in> set ds then regen_reading policy (sled_get A db d) else sled_get A db d)"
proof (rule mana_ledger.tick_effect [OF sled_ledger [OF assms(1)] _ assms(3)])
  fix ds'
  assume "sled_all A db = Inr ds'"
    and "\<And>d. sled_get A db' d = (if d \<in> set ds' - fst ` set (tick_errors det)
        then regen_reading policy (sled_get A db d) else sled_get A db d)"
  then show ?thesis using assms(2,4) by simp
qed simp

lemma sled_tick_spec_witness:
  "sled_get (demo_sled True) [(str_bytes ''d'', [1])] ''d'' =
     regen_reading (FixedRatePerTick 15) (sled_get (demo_sled True) [(str_bytes ''d'', [0])] ''d'')"
proof -
  let ?A = "demo_sled True" and ?db = "[(str_bytes ''d'', [0])]" and ?db' = "[(str_bytes ''d'', [1])]"
  have u: "utf8_valid (str_bytes ''d'')" by (simp add: str_bytes_def)
  have all: "sled_all ?A ?db = Inr [''d'']"
    using u by (simp add: sled_all_def sled_all_dids_def demo_sled_def from_utf8_def hwf_def)
  have g: "sled_get ?A ?db ''d'' = Inr (Some ManaState_default)"
    by (simp add: sled_get_def sled_get_mana_state_def demo_sled_def hget_def)
  have r: "regenerate (FixedRatePerTick 15) ManaState_default = ManaState_default\<lparr>current_mana := 15\<rparr>"
    by (simp add: regenerate_def ManaState_default_def)
  have upd: "sled_upd ?A ?db ''d'' (ManaState_default\<lparr>current_mana := 15\<rparr>) = (Inr (), ?db')"
    by (simp add: sled_upd_def sled_update_mana_state_def demo_sled_def hwf_def hinsert_def ManaState_default_def)
  have "\<exists>det ms. tick (sled_get ?A) (sled_upd ?A) (sled_all ?A) (FixedRatePerTick 15) ?db = (Inr det, ?db', ms)
      \<and> tick_errors det = []"
    by (simp add: tick_def all tick_one_def g r upd Let_def) (simp add: ManaState_default_def)
  then obtain det ms where t:
    "tick (sled_get ?A) (sled_upd ?A) (sled_all ?A) (FixedRatePerTick 15) ?db = (Inr det, ?db', ms)"
    "tick_errors det = []" by blast
  show ?thesis using sled_tick_spec [OF demo_sled_laws all t, of "''d''"] by simp
qed

text \<open>The number of accounts a tick reports as regenerated includes those whose update failed:
  there is an engine and a tick that reports one regenerated account and changes nothing.\<close>

lemma tick_counts_failed_updates:
  "\<exists>(A :: (bytes, bytes) hmap sled_api) db det ms. sled_laws A \<and>
     tick (sled_get A) (sled_upd A) (sled_all A) (FixedRatePerTick 15) db = (Inr det, db, ms) \<and>
     regenerated_dids_count det = 1"
proof -
  let ?A = "demo_sled False" and ?db = "[(str_bytes ''d'', [0])]"
  have u: "utf8_valid (str_bytes ''d'')" by (simp add: str_bytes_def)
  have all: "sled_all ?A ?db = Inr [''d'']"
    using u by (simp add: sled_all_def sled_all_dids_def demo_sled_def from_utf8_def hwf_def)
  have g: "sled_get ?A ?db ''d'' = Inr (Some ManaState_default)"
    by (simp add: sled_get_def sled_get_mana_state_def demo_sled_def hget_def)
  have r: "regenerate (FixedRatePerTick 15) ManaState_default = ManaState_default\<lparr>current_mana := 15\<rparr>"
    by (simp add: regenerate_def ManaState_default_def)
  have upd: "sled_upd ?A ?db ''d'' (ManaState_default\<lparr>current_mana := 15\<rparr>)
      = (Inl (InsertIo ''d'' ''disk full''), ?db)"
    by (simp add: sled_upd_def sled_update_mana_state_def demo_sled_def ManaState_default_def)
  have "\<exists>det ms. tick (sled_get ?A) (sled_upd ?A) (sled_all ?A) (FixedRatePerTick 15) ?db = (Inr det, ?db, ms)
      \<and> regenerated_dids_count det = 1"
    by (simp add: tick_def all tick_one_def g r upd Let_def) (simp add: ManaState_default_def)
  then show ?thesis using demo_sled_laws [of False] by blast
qed

end
