(* ===== verification/Resource_Policy.thy ===== *)
theory Resource_Policy
  imports Mana_Ledger
begin

text \<open>
  Resource authorisation: \<^verbatim>\<open>crates/common/icn-economics/src/lib.rs\<close> (scoped tokens, policies, the
  enforcer, the in-memory usage repository and the adapter that presents a mana ledger as a
  usage repository), with the error type of \<^verbatim>\<open>crates/common/icn-types/src/error.rs\<close>.

  The trait \<open>ResourceRepository\<close> is the locale \<open>resource_repository\<close>; the enforcer is written over
  its operations.  The in-memory repository is an interpretation.  The adapter is not: what it
  reports as usage is the balance (see the properties at the end).
\<close>

section \<open>Data\<close>

record ScopedResourceToken =
  resource_type :: string
  amount :: u64
  scope :: string
  expires_at :: "u64 option"
  issuer :: "string option"

datatype ResourceAuthorization =
    AllowAll
  | Quota u64
  | RateLimit u64 u64
  | PermitList "did list"

datatype EconomicsError =
    QuotaExceeded (quota: u64) (current_usage: u64) (requested_amount: u64) string string
  | RateLimitExceeded (limit_amount: u64) (period_seconds: u64) (usage_in_period: u64) u64 string string
  | AccessDenied did string string
  | TokenExpired u64 u64 string string
  | NoPolicyFound string string
  | SystemTimeError string

record 's ResourcePolicyEnforcer =
  repository :: 's
  policies :: "(string \<times> string, ResourceAuthorization) hmap"

definition enforcer_new :: "'s \<Rightarrow> 's ResourcePolicyEnforcer" where
  "enforcer_new repo = \<lparr>repository = repo, policies = []\<rparr>"

definition set_policy ::
  "'s ResourcePolicyEnforcer \<Rightarrow> string \<Rightarrow> string \<Rightarrow> ResourceAuthorization \<Rightarrow> 's ResourcePolicyEnforcer" where
  "set_policy E rt sc policy = E\<lparr>policies := hinsert (policies E) (rt, sc) policy\<rparr>"

definition get_policy :: "'s ResourcePolicyEnforcer \<Rightarrow> string \<Rightarrow> string \<Rightarrow> ResourceAuthorization option" where
  "get_policy E rt sc = hget (policies E) (rt, sc)"

section \<open>The enforcer\<close>

text \<open>The two readings of the clock (for the expiry and for the rate window) are arguments, and so
  is the rendering \<open>msg\<close> of a repository error.\<close>

definition check_authorization ::
  "('s \<Rightarrow> did \<Rightarrow> string \<Rightarrow> string \<Rightarrow> 'e + u64)
   \<Rightarrow> ('s \<Rightarrow> did \<Rightarrow> string \<Rightarrow> string \<Rightarrow> u64 \<Rightarrow> 'e + (u64 \<times> u64) list) \<Rightarrow> ('e \<Rightarrow> string)
   \<Rightarrow> 's ResourcePolicyEnforcer \<Rightarrow> did \<Rightarrow> ScopedResourceToken \<Rightarrow> clock \<Rightarrow> clock
   \<Rightarrow> EconomicsError + bool" where
  "check_authorization get_usage get_usage_history msg E d token t1 t2 =
     bind_result (ok_or (get_policy E (resource_type token) (scope token))
                    (NoPolicyFound (resource_type token) (scope token))) (\<lambda>policy.
     bind_result
       (case expires_at token of
          None \<Rightarrow> Inr ()
        | Some exp \<Rightarrow>
            bind_result (ok_or t1 (SystemTimeError ''second time provided was later than self'')) (\<lambda>now.
              if now > exp then Inl (TokenExpired exp now (resource_type token) (scope token))
              else Inr ())) (\<lambda>_.
     case policy of
       AllowAll \<Rightarrow> Inr True
     | Quota q \<Rightarrow>
         bind_result (map_err (\<lambda>e. SystemTimeError (''Failed to get usage: '' @ msg e))
                        (get_usage (repository E) d (resource_type token) (scope token))) (\<lambda>usage.
           if usage + amount token \<le> q then Inr True
           else Inl (QuotaExceeded q usage (amount token) (resource_type token) (scope token)))
     | RateLimit limit period_secs \<Rightarrow>
         bind_result (ok_or t2 (SystemTimeError ''second time provided was later than self'')) (\<lambda>now.
         let since = saturating_sub now period_secs in
         bind_result (map_err (\<lambda>e. SystemTimeError (''Failed to get usage history: '' @ msg e))
                        (get_usage_history (repository E) d (resource_type token) (scope token) since))
           (\<lambda>usage_history.
              let total_usage = sum_list (map snd usage_history) in
              if total_usage + amount token \<le> limit then Inr True
              else Inl (RateLimitExceeded limit period_secs total_usage (amount token)
                          (resource_type token) (scope token))))
     | PermitList permits \<Rightarrow>
         if d \<in> set permits then Inr True
         else Inl (AccessDenied d (resource_type token) (scope token))))"

section \<open>The in-memory usage repository\<close>

type_synonym UsageKey = "string \<times> string \<times> string"
type_synonym UsageData = "(u64 \<times> u64) list"
type_synonym InMemoryResourceRepository = "(UsageKey, UsageData) hmap"

definition repo_record_usage ::
  "InMemoryResourceRepository \<Rightarrow> did \<Rightarrow> ScopedResourceToken \<Rightarrow> clock
   \<Rightarrow> (string + unit) \<times> InMemoryResourceRepository" where
  "repo_record_usage s d token t =
     (let key = (d, resource_type token, scope token) in
      case t of
        None \<Rightarrow> (Inl ''Error getting current time'', s)
      | Some now \<Rightarrow> (Inr (), hinsert s key (hget_or [] s key @ [(now, amount token)])))"

definition repo_get_usage :: "InMemoryResourceRepository \<Rightarrow> did \<Rightarrow> string \<Rightarrow> string \<Rightarrow> string + u64" where
  "repo_get_usage s d rt sc =
     Inr (case hget s (d, rt, sc) of None \<Rightarrow> 0 | Some records \<Rightarrow> sum_list (map snd records))"

definition repo_get_usage_history ::
  "InMemoryResourceRepository \<Rightarrow> did \<Rightarrow> string \<Rightarrow> string \<Rightarrow> u64 \<Rightarrow> string + (u64 \<times> u64) list" where
  "repo_get_usage_history s d rt sc since =
     Inr (case hget s (d, rt, sc) of None \<Rightarrow> []
          | Some records \<Rightarrow> filter (\<lambda>(ts, _). ts \<ge> since) records)"

section \<open>The mana adapter\<close>

datatype 'e AdapterError =
    UnsupportedResourceType string
  | StateReadFailed did 'e
  | InsufficientManaFor did u64 u64
  | StateUpdateFailed did 'e

definition adapter_record_usage ::
  "('s \<Rightarrow> did \<Rightarrow> 'e + ManaState option) \<Rightarrow> ('s \<Rightarrow> did \<Rightarrow> ManaState \<Rightarrow> ('e + unit) \<times> 's)
   \<Rightarrow> 's \<Rightarrow> did \<Rightarrow> ScopedResourceToken \<Rightarrow> ('e AdapterError + unit) \<times> 's" where
  "adapter_record_usage get upd s d token =
     (if resource_type token \<noteq> ''mana'' then (Inl (UnsupportedResourceType (resource_type token)), s)
      else case get s d of
          Inl e \<Rightarrow> (Inl (StateReadFailed d e), s)
        | Inr maybe_state \<Rightarrow>
            (let state = (case maybe_state of Some st \<Rightarrow> st
                          | None \<Rightarrow> \<lparr>current_mana = 0, max_mana = 0, regen_rate_per_epoch = 0,
                                    last_updated_epoch = 0\<rparr>) in
             if current_mana state < amount token then
               (Inl (InsufficientManaFor d (current_mana state) (amount token)), s)
             else case upd s d (state\<lparr>current_mana := current_mana state - amount token\<rparr>) of
                 (Inl e, s') \<Rightarrow> (Inl (StateUpdateFailed d e), s')
               | (Inr _, s') \<Rightarrow> (Inr (), s')))"

definition adapter_get_usage ::
  "('s \<Rightarrow> did \<Rightarrow> 'e + ManaState option) \<Rightarrow> 's \<Rightarrow> did \<Rightarrow> string \<Rightarrow> string \<Rightarrow> 'e AdapterError + u64" where
  "adapter_get_usage get s d rt sc =
     (if rt \<noteq> ''mana'' then Inl (UnsupportedResourceType rt)
      else case get s d of
          Inl e \<Rightarrow> Inl (StateReadFailed d e)
        | Inr state \<Rightarrow> Inr (case state of Some st \<Rightarrow> current_mana st | None \<Rightarrow> 0))"

definition adapter_get_usage_history ::
  "'s \<Rightarrow> did \<Rightarrow> string \<Rightarrow> string \<Rightarrow> u64 \<Rightarrow> 'e AdapterError + (u64 \<times> u64) list" where
  "adapter_get_usage_history s d rt sc since =
     (if rt \<noteq> ''mana'' then Inl (UnsupportedResourceType rt) else Inr [])"

section \<open>The interface\<close>

text \<open>What the trait's documentation promises: recording adds the token to the history of that
  identity, resource type and scope and to no other, and the usage is the sum of the history.\<close>

definition usage_total :: "(u64 \<times> u64) list \<Rightarrow> nat" where
  "usage_total h = sum_list (map unat (map snd h))"

locale resource_repository =
  fixes record_usage :: "'s \<Rightarrow> did \<Rightarrow> ScopedResourceToken \<Rightarrow> clock \<Rightarrow> ('e + unit) \<times> 's"
    and get_usage :: "'s \<Rightarrow> did \<Rightarrow> string \<Rightarrow> string \<Rightarrow> 'e + u64"
    and get_usage_history :: "'s \<Rightarrow> did \<Rightarrow> string \<Rightarrow> string \<Rightarrow> u64 \<Rightarrow> 'e + (u64 \<times> u64) list"
  assumes history_record: "record_usage s d tok t = (Inr (), s') \<Longrightarrow>
      get_usage_history s d' rt sc 0 = Inr h \<Longrightarrow>
      \<exists>now. get_usage_history s' d' rt sc 0 =
        Inr (if d' = d \<and> rt = resource_type tok \<and> sc = scope tok then h @ [(now, amount tok)] else h)"
    and record_error: "record_usage s d tok t = (Inl e, s') \<Longrightarrow> s' = s"
    and history_usage: "get_usage_history s d rt sc 0 = Inr h \<Longrightarrow>
      get_usage s d rt sc = Inr (sum_list (map snd h))"
begin

text \<open>The client of an enforcer: check, and record when the check succeeded.\<close>

definition guarded_use where
  "guarded_use msg E d tok t1 t2 t3 =
     (case check_authorization get_usage get_usage_history msg E d tok t1 t2 of
        Inr True \<Rightarrow> E\<lparr>repository := snd (record_usage (repository E) d tok t3)\<rparr>
      | _ \<Rightarrow> E)"

fun guarded_uses where
  "guarded_uses msg E d [] = E"
| "guarded_uses msg E d ((tok, t1, t2, t3) # uses) =
     guarded_uses msg (guarded_use msg E d tok t1 t2 t3) d uses"

lemma guarded_use_policies [simp]: "policies (guarded_use msg E d tok t1 t2 t3) = policies E"
  by (simp add: guarded_use_def split: sum.split bool.split)

lemma check_quota:
  assumes "get_policy E (resource_type tok) (scope tok) = Some (Quota q)"
    and "get_usage_history (repository E) d (resource_type tok) (scope tok) 0 = Inr h"
    and "usage_total h + unat (amount tok) < 2 ^ 64"
    and "check_authorization get_usage get_usage_history msg E d tok t1 t2 = Inr b"
  shows "usage_total h + unat (amount tok) \<le> unat q"
proof -
  have "sum_list (map snd h) + amount tok \<le> q"
    using assms(1,4) history_usage [OF assms(2)]
    by (auto simp: check_authorization_def bind_result_Inr_iff split: if_splits)
  moreover have "unat (sum_list (map snd h)) = usage_total h"
    using assms(3) unat_sum_list_exact [of "map snd h"] by (simp add: usage_total_def)
  ultimately show ?thesis
    using assms(3) by (simp add: word_le_nat_alt unat_add_exact)
qed

lemma guarded_use_quota:
  assumes q: "get_policy E rt sc = Some (Quota q)"
    and h: "get_usage_history (repository E) d rt sc 0 = Inr h" "usage_total h \<le> unat q"
    and fits: "unat q + unat (amount tok) < 2 ^ 64"
  shows "\<exists>h'. get_usage_history (repository (guarded_use msg E d tok t1 t2 t3)) d rt sc 0 = Inr h' \<and>
    usage_total h' \<le> unat q"
proof (cases "check_authorization get_usage get_usage_history msg E d tok t1 t2 = Inr True")
  case False
  then have "guarded_use msg E d tok t1 t2 t3 = E"
    by (simp add: guarded_use_def split: sum.split bool.split)
  with h show ?thesis by simp
next
  case True
  obtain r s' where rec: "record_usage (repository E) d tok t3 = (r, s')" by fastforce
  have E': "repository (guarded_use msg E d tok t1 t2 t3) = s'"
    using True rec by (simp add: guarded_use_def)
  show ?thesis
  proof (cases r)
    case (Inl e)
    with rec have "s' = repository E" by (simp add: record_error)
    with E' h show ?thesis by simp
  next
    case (Inr x)
    then obtain now where s': "get_usage_history s' d rt sc 0 =
        Inr (if rt = resource_type tok \<and> sc = scope tok then h @ [(now, amount tok)] else h)"
      using history_record [of "repository E" d tok t3 s' d rt sc h] rec h by auto
    have "usage_total h + unat (amount tok) \<le> unat q" if "rt = resource_type tok" "sc = scope tok"
      using check_quota [OF _ _ _ True] q h fits that by simp
    with s' E' h(2) show ?thesis by (simp add: usage_total_def)
  qed
qed

lemma guarded_uses_quota:
  assumes "get_policy E rt sc = Some (Quota q)"
    and "get_usage_history (repository E) d rt sc 0 = Inr h" and "usage_total h \<le> unat q"
    and "\<And>tok t. (tok, t) \<in> set uses \<Longrightarrow> unat q + unat (amount tok) < 2 ^ 64"
  shows "\<exists>h'. get_usage_history (repository (guarded_uses msg E d uses)) d rt sc 0 = Inr h' \<and>
    usage_total h' \<le> unat q"
  using assms
proof (induction uses arbitrary: E h)
  case Nil
  then show ?case by simp
next
  case (Cons x uses)
  obtain tok t1 t2 t3 where x: "x = (tok, t1, t2, t3)" by (metis prod_cases4)
  let ?E = "guarded_use msg E d tok t1 t2 t3"
  have "unat q + unat (amount tok) < 2 ^ 64" using Cons.prems(4) [of tok "(t1, t2, t3)"] x by simp
  from guarded_use_quota [OF Cons.prems(1-3) this] obtain h'
    where h': "get_usage_history (repository ?E) d rt sc 0 = Inr h'" "usage_total h' \<le> unat q" by blast
  have p: "get_policy ?E rt sc = Some (Quota q)" using Cons.prems(1) by (simp add: get_policy_def)
  have "unat q + unat (amount tok') < 2 ^ 64" if "(tok', t) \<in> set uses" for tok' t
    using Cons.prems(4) that by (meson list.set_intros(2))
  from Cons.IH [OF p h' this] show ?case by (simp add: x)
qed

end

interpretation repo: resource_repository repo_record_usage repo_get_usage repo_get_usage_history
  by unfold_locales
    (auto simp: repo_record_usage_def repo_get_usage_def repo_get_usage_history_def Let_def
      hmap_simps hget_or_def split: option.splits)

context mana_ledger
begin

lemma adapter_record:
  assumes "wf s" and "adapter_record_usage get upd s d tok = (Inr (), s')"
    and "adapter_get_usage get s d ''mana'' sc = Inr u"
  shows "amount tok \<le> u \<and> adapter_get_usage get s' d ''mana'' sc = Inr (u - amount tok)"
  using assms
  by (auto simp: adapter_record_usage_def adapter_get_usage_def Let_def get_upd not_less
      split: if_splits sum.splits option.splits prod.splits)

end

section \<open>Properties\<close>

text \<open>C5: with a quota in force, any sequence of uses of the in-memory repository that are recorded
  only when the enforcer authorises them keeps the true sum of the recorded amounts within the
  quota, provided no single amount is so large that adding it to the quota exceeds 64 bits.\<close>

theorem quota_enforced:
  assumes "get_policy E rt sc = Some (Quota q)" and "hget (repository E) (d, rt, sc) = None"
    and "\<forall>(tok, _) \<in> set uses. unat q + unat (amount tok) < 2 ^ 64"
  shows "usage_total (hget_or [] (repository (repo.guarded_uses msg E d uses)) (d, rt, sc)) \<le> unat q"
proof -
  let ?s = "repository (repo.guarded_uses msg E d uses)"
  have "repo_get_usage_history (repository E) d rt sc 0 = Inr []" "usage_total [] \<le> unat q"
    using assms(2) by (simp_all add: repo_get_usage_history_def usage_total_def)
  from repo.guarded_uses_quota [OF assms(1) this, of uses msg] assms(3)
  have "\<exists>h'. repo_get_usage_history ?s d rt sc 0 = Inr h' \<and> usage_total h' \<le> unat q" by auto
  moreover have "repo_get_usage_history ?s d rt sc 0 = Inr (hget_or [] ?s (d, rt, sc))"
    by (auto simp: repo_get_usage_history_def hget_or_def split: option.split)
  ultimately show ?thesis by simp
qed

theorem quota_enforced_witness:
  "usage_total (hget_or [] (repository (repo.guarded_uses id
      \<lparr>repository = [], policies = [((''cpu'', ''g''), Quota 10)]\<rparr> ''d''
      [(\<lparr>resource_type = ''cpu'', amount = 6, scope = ''g'', expires_at = None, issuer = None\<rparr>, Some 1, Some 1, Some 1),
       (\<lparr>resource_type = ''cpu'', amount = 6, scope = ''g'', expires_at = None, issuer = None\<rparr>, Some 2, Some 2, Some 2)]))
    (''d'', ''cpu'', ''g'')) \<le> unat (10 :: u64)"
  by (rule quota_enforced) (simp_all add: get_policy_def hget_def)

text \<open>the side condition of the previous property is needed: the enforcer adds in 64 bits, and a request for almost
  all of the number range is authorised under a quota of 10 once anything has been used.\<close>

lemma quota_overflow_bypass:
  "\<exists>E d tok. get_policy E (resource_type tok) (scope tok) = Some (Quota 10) \<and>
     unat (amount tok) = 2 ^ 64 - 1 \<and>
     check_authorization repo_get_usage repo_get_usage_history id E d tok None None = Inr True"
proof -
  let ?E = "\<lparr>repository = [((''d'', ''cpu'', ''g''), [(0, 1)])], policies = [((''cpu'', ''g''), Quota 10)]\<rparr>"
  let ?tok = "\<lparr>resource_type = ''cpu'', amount = - 1, scope = ''g'', expires_at = None, issuer = None\<rparr>"
  have "get_policy ?E (resource_type ?tok) (scope ?tok) = Some (Quota 10) \<and>
     unat (amount ?tok) = 2 ^ 64 - 1 \<and>
     check_authorization repo_get_usage repo_get_usage_history id ?E ''d'' ?tok None None = Inr True"
    by (simp add: get_policy_def hget_def check_authorization_def repo_get_usage_def unat_max_word)
  then show ?thesis by blast
qed

text \<open>the usage the mana adapter reports is the balance: a successful record of an amount through
  the adapter, over any ledger that keeps the contract, lowers the reported usage by that amount
  where the trait promises to raise it.\<close>

lemma adapter_usage_is_balance:
  assumes "mana_ledger get upd all_dids ok" and "ok s"
    and "adapter_record_usage get upd s d tok = (Inr (), s')"
    and "adapter_get_usage get s d ''mana'' sc = Inr u"
  shows "amount tok \<le> u \<and> adapter_get_usage get s' d ''mana'' sc = Inr (u - amount tok)"
  using mana_ledger.adapter_record [OF assms] .

lemma adapter_usage_is_balance_witness:
  "adapter_get_usage mem_get_mana_state [(''d'', ManaState_default\<lparr>current_mana := 5\<rparr>)] ''d'' ''mana'' ''g''
     = Inr (8 - 3)"
proof -
  let ?s = "[(''d'', ManaState_default\<lparr>current_mana := 8\<rparr>)]"
  let ?s' = "[(''d'', ManaState_default\<lparr>current_mana := 5\<rparr>)]"
  let ?tok = "\<lparr>resource_type = ''mana'', amount = 3, scope = ''g'', expires_at = None, issuer = None\<rparr>"
  have r: "adapter_record_usage mem_get_mana_state mem_update_mana_state ?s ''d'' ?tok = (Inr (), ?s')"
    by (simp add: adapter_record_usage_def mem_defs hget_def hinsert_def)
  have u: "adapter_get_usage mem_get_mana_state ?s ''d'' ''mana'' ''g'' = Inr 8"
    by (simp add: adapter_get_usage_def mem_defs hget_def)
  have w: "hwf ?s" by (simp add: hwf_def)
  from adapter_usage_is_balance [OF mem.mana_ledger_axioms w r u] show ?thesis by simp
qed

end
