(* ===== verification/Economics.thy ===== *)
theory Economics
  imports Did_Key
begin

text \<open>
  The token economy of \<open>crates/common/icn-economics/src/economics.rs\<close>, its per-call policy
  (\<open>policy.rs\<close>) and the resource types of \<open>icn-types/src/resource.rs\<close>.

  The ledger is the hash map behind the \<open>RwLock\<close>; an operation takes it and returns its status
  code, read as an \<open>int\<close>, with the new ledger.  A ledger entry is a usage: an identity holds
  \<open>token_max\<close> less its usage in tokens.  Debug output is left out.
\<close>

section \<open>Resource types and the authorisation policy\<close>

datatype ResourceType = Cpu | Memory | Io | Token

definition ResourceType_from :: "u32 \<Rightarrow> ResourceType" where
  "ResourceType_from v = (if v = 1 then Cpu else if v = 2 then Memory else if v = 3 then Io else Token)"

text \<open>The discriminants (\<open>repr(u32)\<close>), as \<open>rt as u32\<close> reads them.\<close>

fun ResourceType_as_u32 :: "ResourceType \<Rightarrow> u32" where
  "ResourceType_as_u32 Cpu = 1"
| "ResourceType_as_u32 Memory = 2"
| "ResourceType_as_u32 Io = 3"
| "ResourceType_as_u32 Token = 4"

record ResourceAuthorizationPolicy =
  max_cpu :: u64
  max_memory :: u64
  token_allowance :: u64

definition ResourceAuthorizationPolicy_default :: ResourceAuthorizationPolicy where
  "ResourceAuthorizationPolicy_default =
     \<lparr>max_cpu = 1000000, max_memory = 512 * 1024 * 1024, token_allowance = 1000\<rparr>"

fun authorized :: "ResourceAuthorizationPolicy \<Rightarrow> ResourceType \<Rightarrow> u64 \<Rightarrow> bool" where
  "authorized p Cpu amt = (amt \<le> max_cpu p)"
| "authorized p Memory amt = (amt \<le> max_memory p)"
| "authorized p Token amt = (amt \<le> token_allowance p)"
| "authorized p Io amt = True"

section \<open>The ledger\<close>

type_synonym CooperativeId = string
type_synonym CommunityId = string

record LedgerKey =
  key_did :: did
  key_coop_id :: "string option"
  key_community_id :: "string option"
  key_resource_type :: ResourceType

type_synonym ledger = "(LedgerKey, u64) hmap"

record TransferArgs =
  sender :: did
  sender_coop_id :: "CooperativeId option"
  sender_community_id :: "CommunityId option"
  recipient :: did
  recipient_coop_id :: "CooperativeId option"
  recipient_community_id :: "CommunityId option"
  args_rt :: ResourceType
  args_amt :: u64

record Economics =
  policy :: ResourceAuthorizationPolicy

definition ledger_key :: "did \<Rightarrow> CooperativeId option \<Rightarrow> CommunityId option \<Rightarrow> ResourceType \<Rightarrow> LedgerKey" where
  "ledger_key d coop comm rt =
     \<lparr>key_did = d, key_coop_id = coop, key_community_id = comm, key_resource_type = rt\<rparr>"

definition token_max :: u64 where
  "token_max = 100"

definition authorize ::
    "Economics \<Rightarrow> did \<Rightarrow> CooperativeId option \<Rightarrow> CommunityId option \<Rightarrow> ResourceType \<Rightarrow> u64 \<Rightarrow> int" where
  "authorize ec caller coop comm rt amt = (if authorized (policy ec) rt amt then 0 else - 1)"

definition econ_record ::
    "Economics \<Rightarrow> did \<Rightarrow> CooperativeId option \<Rightarrow> CommunityId option \<Rightarrow> ResourceType \<Rightarrow> u64 \<Rightarrow> ledger
      \<Rightarrow> int \<times> ledger" where
  "econ_record ec caller coop comm rt amt l =
     (let key = ledger_key caller coop comm rt
      in (0, hinsert l key (hget_or 0 l key + amt)))"

definition mint ::
    "Economics \<Rightarrow> did \<Rightarrow> CooperativeId option \<Rightarrow> CommunityId option \<Rightarrow> ResourceType \<Rightarrow> u64 \<Rightarrow> ledger
      \<Rightarrow> int \<times> ledger" where
  "mint ec recip coop comm rt amt l =
     (if rt \<noteq> Token then (- 3, l)
      else
        let key = ledger_key recip coop comm rt;
            current = hget_or 0 l key
        in (0, hinsert l key (if current < amt then 0 else current - amt)))"

definition sender_key :: "TransferArgs \<Rightarrow> LedgerKey" where
  "sender_key a = ledger_key (sender a) (sender_coop_id a) (sender_community_id a) (args_rt a)"

definition recipient_key :: "TransferArgs \<Rightarrow> LedgerKey" where
  "recipient_key a = ledger_key (recipient a) (recipient_coop_id a) (recipient_community_id a) (args_rt a)"

definition econ_transfer :: "Economics \<Rightarrow> TransferArgs \<Rightarrow> ledger \<Rightarrow> int \<times> ledger" where
  "econ_transfer ec args l =
     (if args_rt args \<noteq> Token then (- 3, l)
      else
        let sender_usage = hget_or 0 l (sender_key args);
            available_tokens = saturating_sub token_max sender_usage
        in if available_tokens < args_amt args then (- 1, l)
           else
             let l = hinsert l (sender_key args) (sender_usage + args_amt args);
                 recipient_usage = hget_or 0 l (recipient_key args);
                 new_recipient_usage = saturating_sub recipient_usage (args_amt args)
             in (0, hinsert l (recipient_key args) new_recipient_usage))"

definition econ_get_usage ::
    "Economics \<Rightarrow> did \<Rightarrow> CooperativeId option \<Rightarrow> CommunityId option \<Rightarrow> ResourceType \<Rightarrow> ledger \<Rightarrow> u64" where
  "econ_get_usage ec caller coop comm rt l = hget_or 0 l (ledger_key caller coop comm rt)"

definition get_total_usage :: "Economics \<Rightarrow> ResourceType \<Rightarrow> ledger \<Rightarrow> u64" where
  "get_total_usage ec rt l = hsum (\<lambda>k. key_resource_type k = rt) l"

definition get_cooperative_usage :: "Economics \<Rightarrow> CooperativeId \<Rightarrow> ResourceType \<Rightarrow> ledger \<Rightarrow> u64" where
  "get_cooperative_usage ec coop rt l =
     hsum (\<lambda>k. key_resource_type k = rt \<and> key_coop_id k = Some coop) l"

definition get_community_usage :: "Economics \<Rightarrow> CommunityId \<Rightarrow> ResourceType \<Rightarrow> ledger \<Rightarrow> u64" where
  "get_community_usage ec comm rt l =
     hsum (\<lambda>k. key_resource_type k = rt \<and> key_community_id k = Some comm) l"

section \<open>Histories of a ledger\<close>

text \<open>One call of a state-changing operation, with whatever arguments; \<open>token_only\<close> histories
  do without \<open>record\<close>.\<close>

inductive econ_step :: "Economics \<Rightarrow> bool \<Rightarrow> ledger \<Rightarrow> ledger \<Rightarrow> bool" for ec where
  step_transfer: "econ_transfer ec a l = (r, l') \<Longrightarrow> econ_step ec token_only l l'"
| step_mint: "mint ec d coop comm rt amt l = (r, l') \<Longrightarrow> econ_step ec token_only l l'"
| step_record: "econ_record ec d coop comm rt amt l = (r, l') \<Longrightarrow> econ_step ec False l l'"

definition usage_bounded :: "ledger \<Rightarrow> bool" where
  "usage_bounded l = (\<forall>k. key_resource_type k = Token \<longrightarrow> hget_or 0 l k \<le> token_max)"

text \<open>The balance an entry stands for.\<close>

definition tokens :: "ledger \<Rightarrow> LedgerKey \<Rightarrow> nat" where
  "tokens l k = 100 - unat (hget_or 0 l k)"

inductive_cases econ_stepE: "econ_step ec b l l'"

lemma unat_token_max [simp]: "unat token_max = 100"
  by (simp add: token_max_def)

lemma ledger_key_sel [simp]:
  "key_resource_type (ledger_key d coop comm rt) = rt"
  "key_coop_id (ledger_key d coop comm rt) = coop"
  "key_community_id (ledger_key d coop comm rt) = comm"
  by (simp_all add: ledger_key_def)

lemma key_types [simp]:
  "key_resource_type (sender_key a) = args_rt a" "key_resource_type (recipient_key a) = args_rt a"
  by (simp_all add: sender_key_def recipient_key_def)

text \<open>A call of \<open>transfer\<close> succeeds exactly when the resource is the token and the sender can
  pay.\<close>

lemma econ_transfer_code:
  "fst (econ_transfer ec a l) =
     (if args_rt a \<noteq> Token then - 3
      else if unat (args_amt a) \<le> tokens l (sender_key a) then 0 else - 1)"
  by (simp add: econ_transfer_def Let_def tokens_def word_less_nat_alt unat_saturating_sub not_less)

lemma econ_transfer_failure: "fst (econ_transfer ec a l) \<noteq> 0 \<Longrightarrow> snd (econ_transfer ec a l) = l"
  by (simp add: econ_transfer_def Let_def split: if_splits)

lemma econ_transfer_success:
  assumes "econ_transfer ec a l = (0, l')"
  shows "args_rt a = Token"
    and "l' = hinsert (hinsert l (sender_key a) (hget_or 0 l (sender_key a) + args_amt a)) (recipient_key a)
      (saturating_sub
        (if recipient_key a = sender_key a then hget_or 0 l (sender_key a) + args_amt a
         else hget_or 0 l (recipient_key a)) (args_amt a))"
    and "unat (args_amt a) \<le> 100 - unat (hget_or 0 l (sender_key a))"
  using assms
  by (auto simp: econ_transfer_def Let_def hmap_simps not_less word_le_nat_alt unat_saturating_sub
      split: if_splits)

text \<open>The sum the code stores for the sender does not wrap.\<close>

lemma econ_transfer_no_wrap:
  assumes "econ_transfer ec a l = (0, l')"
  shows "unat (hget_or 0 l (sender_key a) + args_amt a) =
    unat (hget_or 0 l (sender_key a)) + unat (args_amt a)"
proof (cases "args_amt a = 0")
  case False
  then have "0 < unat (args_amt a)" by (simp add: unat_gt_0)
  then have "unat (hget_or 0 l (sender_key a)) + unat (args_amt a) < 2 ^ 64"
    using econ_transfer_success(3) [OF assms] by simp
  then show ?thesis by (intro unat_add_exact) simp
qed simp

lemma econ_transfer_self:
  assumes t: "econ_transfer ec a l = (0, l')" and "recipient_key a = sender_key a"
  shows "hget_or 0 l' k = hget_or 0 l k"
proof -
  have "saturating_sub (hget_or 0 l (sender_key a) + args_amt a) (args_amt a) = hget_or 0 l (sender_key a)"
    using econ_transfer_no_wrap [OF t] by (simp add: word_unat_eq_iff unat_saturating_sub)
  then show ?thesis
    using econ_transfer_success(2) [OF t] assms(2) by (simp add: hmap_simps)
qed

lemma usage_bounded_insert:
  "usage_bounded l \<Longrightarrow> (key_resource_type k = Token \<Longrightarrow> v \<le> token_max) \<Longrightarrow> usage_bounded (hinsert l k v)"
  by (simp add: usage_bounded_def hmap_simps)

lemma mint_bounded:
  assumes "usage_bounded l"
  shows "usage_bounded (snd (mint ec d coop comm rt amt l))"
proof (cases "rt = Token")
  case True
  let ?u = "hget_or 0 l (ledger_key d coop comm Token)"
  have "?u \<le> token_max" using assms by (simp add: usage_bounded_def)
  moreover have "?u - amt \<le> ?u" if "\<not> ?u < amt" using that by (simp add: word_sub_le)
  ultimately have "(if ?u < amt then 0 else ?u - amt) \<le> token_max" by (auto intro: order_trans)
  then show ?thesis
    using True assms by (simp add: mint_def Let_def usage_bounded_insert)
qed (simp add: mint_def assms)

lemma transfer_bounded:
  assumes "usage_bounded l"
  shows "usage_bounded (snd (econ_transfer ec a l))"
proof (cases "fst (econ_transfer ec a l) = 0")
  case False
  then show ?thesis using assms by (simp add: econ_transfer_failure)
next
  case True
  then obtain l' where t: "econ_transfer ec a l = (0, l')" by (cases "econ_transfer ec a l") simp
  note s = econ_transfer_success [OF t]
  have le: "unat (hget_or 0 l k) \<le> 100" if "key_resource_type k = Token" for k
    using assms that by (simp add: usage_bounded_def word_le_nat_alt)
  have 1: "hget_or 0 l (sender_key a) + args_amt a \<le> token_max"
    using s(3) le [of "sender_key a"] s(1) econ_transfer_no_wrap [OF t] by (auto simp: word_le_nat_alt)
  have "saturating_sub (hget_or 0 l (recipient_key a)) (args_amt a) \<le> token_max"
    using le [of "recipient_key a"] s(1) by (simp add: word_le_nat_alt unat_saturating_sub)
  moreover have "saturating_sub (hget_or 0 l (sender_key a) + args_amt a) (args_amt a) \<le> token_max"
    using 1 by (simp add: word_le_nat_alt unat_saturating_sub)
  ultimately show ?thesis
    using t s(2) 1 assms by (simp add: usage_bounded_insert)
qed

lemma econ_step_hwf: "econ_step ec b l l' \<Longrightarrow> hwf l \<Longrightarrow> hwf l'"
  by (induction rule: econ_step.induct)
    (auto simp: econ_transfer_def mint_def econ_record_def Let_def split: if_splits)

lemma econ_step_bounded: "econ_step ec True l l' \<Longrightarrow> usage_bounded l \<Longrightarrow> usage_bounded l'"
  by (erule econ_stepE) (metis snd_conv transfer_bounded mint_bounded)+

lemma econ_history_hwf: "(econ_step ec b)\<^sup>*\<^sup>* l l' \<Longrightarrow> hwf l \<Longrightarrow> hwf l'"
  by (induction rule: rtranclp_induct) (auto intro: econ_step_hwf)

lemma econ_history_bounded: "(econ_step ec True)\<^sup>*\<^sup>* l l' \<Longrightarrow> usage_bounded l \<Longrightarrow> usage_bounded l'"
  by (induction rule: rtranclp_induct) (auto intro: econ_step_bounded)

text \<open>What one call of \<open>record\<close> adds to any of the three aggregates.\<close>

lemma hsum_record:
  "hwf l \<Longrightarrow> hsum P (snd (econ_record ec d coop comm rt amt l)) =
     hsum P l + (if P (ledger_key d coop comm rt) then amt else 0)"
  by (simp add: econ_record_def Let_def hsum_hinsert)

lemma hsum_transfer:
  assumes "hwf l" and t: "econ_transfer ec a l = (0, l')" and "recipient_key a \<noteq> sender_key a"
  shows "hsum P l' = hsum P l + (if P (sender_key a) then args_amt a else 0)
    - (if P (recipient_key a) then min (args_amt a) (hget_or 0 l (recipient_key a)) else 0)"
proof -
  have m: "saturating_sub x y - x = - min y x" for x y :: u64
    by (auto simp: saturating_sub_def min_def)
  show ?thesis
    using econ_transfer_success(2) [OF t] assms m [of "hget_or 0 l (recipient_key a)" "args_amt a"]
    by (auto simp: hsum_hinsert hm.wf_insert hmap_simps)
qed

section \<open>Properties\<close>

text \<open>C6: in terms of balances (100 less the usage) a token transfer between two accounts is refused
  with -1 and no effect when the sender's balance is below the amount; otherwise it returns 0, debits
  the sender by exactly the amount, credits the recipient, whose balance is capped at 100, and leaves
  every other entry alone.  Any other resource type is refused with -3.\<close>

theorem econ_transfer_spec:
  assumes "recipient_key a \<noteq> sender_key a"
  shows "case econ_transfer ec a l of (r, l') \<Rightarrow>
    if args_rt a \<noteq> Token then r = - 3 \<and> l' = l
    else if tokens l (sender_key a) < unat (args_amt a) then r = - 1 \<and> l' = l
    else r = 0 \<and>
      tokens l' (sender_key a) = tokens l (sender_key a) - unat (args_amt a) \<and>
      tokens l' (recipient_key a) = 100 - (unat (hget_or 0 l (recipient_key a)) - unat (args_amt a)) \<and>
      (\<forall>k. k \<noteq> sender_key a \<and> k \<noteq> recipient_key a \<longrightarrow> hget l' k = hget l k)"
proof -
  obtain r l' where rl: "econ_transfer ec a l = (r, l')" by fastforce
  note c = econ_transfer_code [of ec a l] econ_transfer_failure [of ec a l]
  show ?thesis
  proof (cases "r = 0")
    case False
    then show ?thesis using rl c by (auto split: if_splits)
  next
    case True
    note t = rl [unfolded True]
    note s = econ_transfer_success [OF t]
    have "unat (args_amt a) \<le> tokens l (sender_key a)" "args_rt a = Token"
      using c(1) rl True by (auto split: if_splits)
    moreover have "tokens l' (sender_key a) = tokens l (sender_key a) - unat (args_amt a)"
      using s(2) assms econ_transfer_no_wrap [OF t] by (simp add: tokens_def hmap_simps)
    moreover have "tokens l' (recipient_key a) = 100 - (unat (hget_or 0 l (recipient_key a)) - unat (args_amt a))"
      using s(2) assms by (simp add: tokens_def hmap_simps unat_saturating_sub)
    moreover have "hget l' k = hget l k" if "k \<noteq> sender_key a" "k \<noteq> recipient_key a" for k
      using s(2) that by (simp add: hmap_simps)
    ultimately show ?thesis using rl True by simp
  qed
qed

definition demo_args :: "did \<Rightarrow> did \<Rightarrow> u64 \<Rightarrow> TransferArgs" where
  "demo_args s r n =
     \<lparr>sender = s, sender_coop_id = None, sender_community_id = None, recipient = r,
      recipient_coop_id = None, recipient_community_id = None, args_rt = Token, args_amt = n\<rparr>"

lemma demo_keys [simp]:
  "sender_key (demo_args s r n) = ledger_key s None None Token"
  "recipient_key (demo_args s r n) = ledger_key r None None Token"
  "args_rt (demo_args s r n) = Token" "args_amt (demo_args s r n) = n"
  by (simp_all add: demo_args_def sender_key_def recipient_key_def)

lemma ledger_key_eq [simp]: "ledger_key d None None rt = ledger_key d' None None rt' \<longleftrightarrow> d = d' \<and> rt = rt'"
  by (simp add: ledger_key_def)

theorem econ_transfer_spec_witness:
  "\<exists>l'. econ_transfer \<lparr>policy = ResourceAuthorizationPolicy_default\<rparr> (demo_args ''a'' ''b'' 30)
      [(ledger_key ''b'' None None Token, 50)] = (0, l') \<and>
     tokens l' (ledger_key ''a'' None None Token) = 70 \<and> tokens l' (ledger_key ''b'' None None Token) = 80"
  using econ_transfer_spec [of "demo_args ''a'' ''b'' 30"
      "[(ledger_key ''b'' None None Token, 50)]" "\<lparr>policy = ResourceAuthorizationPolicy_default\<rparr>"]
  by (simp add: tokens_def hget_or_def hget_def split: prod.splits)

text \<open>the token usage summed over all accounts (modulo \<open>2 ^ 64\<close>, as \<open>get_total_usage\<close> sums) after a
  successful transfer between two accounts is the old sum plus the part of the amount that exceeds the
  recipient's usage: transfers conserve tokens exactly when the recipient had used at least the amount,
  and destroy the excess otherwise.  A transfer of an account to itself changes no usage.\<close>

lemma econ_transfer_total:
  assumes "hwf l" and "econ_transfer ec a l = (0, l')"
  shows "get_total_usage ec Token l' =
    (if recipient_key a = sender_key a then get_total_usage ec Token l
     else get_total_usage ec Token l + (args_amt a - min (args_amt a) (hget_or 0 l (recipient_key a))))"
proof (cases "recipient_key a = sender_key a")
  case False
  then show ?thesis
    using hsum_transfer [OF assms False] econ_transfer_success(1) [OF assms(2)]
    by (simp add: get_total_usage_def)
next
  case True
  note s = econ_transfer_success [OF assms(2)]
  let ?k = "sender_key a"
  have "hsum P l' = hsum P l" for P
    using s(2) True assms(1) econ_transfer_self [OF assms(2) True, of ?k]
    by (simp add: hsum_hinsert hm.wf_insert hmap_simps)
  with True show ?thesis by (simp add: get_total_usage_def)
qed

lemma econ_transfer_total_witness:
  "get_total_usage \<lparr>policy = ResourceAuthorizationPolicy_default\<rparr> Token
     (snd (econ_transfer \<lparr>policy = ResourceAuthorizationPolicy_default\<rparr> (demo_args ''a'' ''b'' 30)
        [(ledger_key ''b'' None None Token, 10)])) = 30"
proof -
  let ?ec = "\<lparr>policy = ResourceAuthorizationPolicy_default\<rparr>"
  let ?l = "[(ledger_key ''b'' None None Token, 10)] :: ledger"
  have "fst (econ_transfer ?ec (demo_args ''a'' ''b'' 30) ?l) = 0"
    by (simp add: econ_transfer_code tokens_def hget_or_def hget_def)
  then have t: "econ_transfer ?ec (demo_args ''a'' ''b'' 30) ?l = (0, snd (econ_transfer ?ec (demo_args ''a'' ''b'' 30) ?l))"
    by (metis prod.collapse)
  from econ_transfer_total [OF _ t] show ?thesis
    by (simp add: hwf_def get_total_usage_def hsum_def hget_or_def hget_def min_def)
qed

text \<open>whatever sequence of mints and transfers a ledger goes through from the empty one, no account's
  token usage ever exceeds 100, so no balance is ever negative.\<close>

lemma token_usage_bounded:
  assumes "(econ_step ec True)\<^sup>*\<^sup>* [] l" and "key_resource_type k = Token"
  shows "hget_or 0 l k \<le> token_max"
proof -
  have "usage_bounded []" by (simp add: usage_bounded_def hget_or_def)
  with assms(1) have "usage_bounded l" by (rule econ_history_bounded)
  with assms(2) show ?thesis by (simp add: usage_bounded_def)
qed

lemma token_usage_bounded_witness:
  "\<exists>l. hget_or 0 l (ledger_key ''a'' None None Token) = 100 \<and>
     hget_or 0 l (ledger_key ''a'' None None Token) \<le> token_max"
proof -
  let ?ec = "\<lparr>policy = ResourceAuthorizationPolicy_default\<rparr>"
  obtain r l where t: "econ_transfer ?ec (demo_args ''a'' ''b'' 100) [] = (r, l)" by fastforce
  then have "(econ_step ?ec True)\<^sup>*\<^sup>* [] l" by (blast intro: step_transfer)
  from token_usage_bounded [OF this, of "ledger_key ''a'' None None Token"] t show ?thesis
    by (intro exI [of _ l])
      (auto simp: econ_transfer_def Let_def hmap_simps hget_or_def token_max_def saturating_sub_def)
qed

text \<open>One call of \<open>record\<close> raises the usage of its own account by the amount and the totals of its
  resource type, its cooperative and its community by the same amount, and no other total (all modulo
  \<open>2 ^ 64\<close>): the aggregates and the entries never drift apart.\<close>

lemma econ_record_aggregates:
  assumes "hwf l" and "econ_record ec d coop comm rt amt l = (r, l')"
  shows "r = 0 \<and>
    econ_get_usage ec d coop comm rt l' = econ_get_usage ec d coop comm rt l + amt \<and>
    get_total_usage ec rt' l' = get_total_usage ec rt' l + (if rt' = rt then amt else 0) \<and>
    get_cooperative_usage ec c rt' l' =
      get_cooperative_usage ec c rt' l + (if rt' = rt \<and> coop = Some c then amt else 0) \<and>
    get_community_usage ec m rt' l' =
      get_community_usage ec m rt' l + (if rt' = rt \<and> comm = Some m then amt else 0)"
proof -
  have l': "l' = snd (econ_record ec d coop comm rt amt l)" using assms(2) by simp
  have "r = 0" using assms(2) by (simp add: econ_record_def Let_def)
  moreover have "econ_get_usage ec d coop comm rt l' = econ_get_usage ec d coop comm rt l + amt"
    by (simp add: l' econ_get_usage_def econ_record_def Let_def hmap_simps)
  ultimately show ?thesis
    unfolding get_total_usage_def get_cooperative_usage_def get_community_usage_def l'
      hsum_record [OF assms(1)]
    by (auto simp: l')
qed

text \<open>The three named discriminants and the token's survive the trip through \<open>u32\<close>, and every other
  number reads as \<open>Token\<close>: the conversion is total and an unknown resource type is accounted as
  tokens.\<close>

lemma ResourceType_from_u32:
  "ResourceType_from (ResourceType_as_u32 rt) = rt \<and>
   (v \<notin> {1, 2, 3} \<longleftrightarrow> ResourceType_from v = Token)"
  by (cases rt) (auto simp: ResourceType_from_def)

end
