(* ===== verification/Dag_Store.thy ===== *)
theory Dag_Store
  imports Prelude "HOL-Library.Multiset"
begin

text \<open>
  The event graph: node data, the node builder and the CID text conversions of
  \<open>crates/common/icn-types/src/dag/mod.rs\<close> and \<open>dag/mesh.rs\<close>, and the in-memory transactional store
  of \<open>dag_store.rs\<close>.

  A CID is a value of the \<open>cid\<close> crate: its type \<open>'cid\<close>, its text form (\<open>cid_str\<close>) and its parser
  (\<open>cid_of_str\<close>) are parameters.  The store's operations take the node's \<open>cid\<close> method as an argument,
  \<open>node_cid\<close>, so that what they promise can be stated for any such method and also for the one the
  crate has today, \<open>DagNode_cid\<close>, which always fails.
\<close>

section \<open>Nodes\<close>

datatype DagEventType = Genesis | Proposal | Vote | Execution | Attestation | Receipt | Anchor

record 'cid DagNode =
  content :: string
  parent :: "'cid option"
  event_type :: DagEventType
  timestamp :: u64
  scope_id :: string

datatype QuorumMethod = MethodMajority | MethodThreshold u8 | MethodWeighted

record 'cid LineageAttestation =
  event_cid :: 'cid
  previous_attestations :: "'cid list"
  attestation_signatures :: "string list"
  quorum_method :: QuorumMethod

record 'cid ExecutionReceipt =
  execution_cid :: 'cid
  success :: bool
  exec_output :: string
  resources_consumed :: u64
  completed_at :: u64

record 'cid AnchorCredential =
  dag_root :: 'cid
  epoch :: u64
  anchored_at :: u64
  anchor_signatures :: "string list"

record 'cid ReceiptNode =
  receipt_cid :: 'cid
  receipt_cbor :: bytes
  anchor_timestamp :: u64
  federation_id :: string

text \<open>\<open>None\<close> is the panic of \<open>expect("Time went backwards")\<close>.\<close>

definition ReceiptNode_new :: "'cid \<Rightarrow> bytes \<Rightarrow> string \<Rightarrow> clock \<Rightarrow> 'cid ReceiptNode option" where
  "ReceiptNode_new c cbor fed now =
     map_option (\<lambda>t. \<lparr>receipt_cid = c, receipt_cbor = cbor, anchor_timestamp = t, federation_id = fed\<rparr>) now"

text \<open>The error of \<open>error.rs\<close>; the payloads of the variants that wrap a library error are its
  message.\<close>

datatype 'cid DagError =
    MalformedCid string
  | IpldEncode string
  | IpldDecode string
  | Cbor string
  | LinkNotFound 'cid
  | LinkInvalidInNode string "'cid option" string
  | NodeValidation string "'cid option"
  | Integrity 'cid string
  | CycleDetected string
  | TraversalFailure string
  | Unspecified string

definition DagNode_cid :: "'cid DagNode \<Rightarrow> 'cid DagError + 'cid" where
  "DagNode_cid n =
     Inl (NodeValidation ''CID generation temporarily disabled due to multihash::Code import issue'' None)"

section \<open>CIDs in serialised nodes\<close>

definition serialize_cid_option :: "('cid \<Rightarrow> string) \<Rightarrow> 'cid option \<Rightarrow> string option" where
  "serialize_cid_option cid_str c = map_option cid_str c"

definition deserialize_cid :: "(string \<Rightarrow> string + 'cid) \<Rightarrow> string \<Rightarrow> string + 'cid" where
  "deserialize_cid cid_of_str s = map_err (\<lambda>e. ''Invalid CID: '' @ e) (cid_of_str s)"

definition deserialize_cid_option ::
    "(string \<Rightarrow> string + 'cid) \<Rightarrow> string option \<Rightarrow> string + 'cid option" where
  "deserialize_cid_option cid_of_str x =
     (case x of
        Some s \<Rightarrow> bind_result (map_err (\<lambda>e. ''Invalid CID: '' @ e) (cid_of_str s)) (\<lambda>c. Inr (Some c))
      | None \<Rightarrow> Inr None)"

definition serialize_cid_vec :: "('cid \<Rightarrow> string) \<Rightarrow> 'cid list \<Rightarrow> string list" where
  "serialize_cid_vec cid_str cs = map cid_str cs"

fun deserialize_cid_vec :: "(string \<Rightarrow> string + 'cid) \<Rightarrow> string list \<Rightarrow> string + 'cid list" where
  "deserialize_cid_vec cid_of_str [] = Inr []"
| "deserialize_cid_vec cid_of_str (s # ss) =
     bind_result (map_err (\<lambda>e. ''Invalid CID: '' @ e) (cid_of_str s))
       (\<lambda>c. bind_result (deserialize_cid_vec cid_of_str ss) (\<lambda>cs. Inr (c # cs)))"

lemma deserialize_cid_vec_iff:
  "deserialize_cid_vec p ss = Inr cs \<longleftrightarrow> list_all2 (\<lambda>s c. p s = Inr c) ss cs"
  by (induction ss arbitrary: cs) (auto simp: bind_result_Inr_iff list_all2_Cons1)

section \<open>The builder\<close>

record 'cid DagNodeBuilder =
  b_content :: "string option"
  b_parent :: "'cid option"
  b_event_type :: "DagEventType option"
  b_timestamp :: "u64 option"
  b_scope_id :: "string option"

definition DagNodeBuilder_new :: "'cid DagNodeBuilder" where
  "DagNodeBuilder_new =
     \<lparr>b_content = None, b_parent = None, b_event_type = None, b_timestamp = None, b_scope_id = None\<rparr>"

definition set_content :: "string \<Rightarrow> 'cid DagNodeBuilder \<Rightarrow> 'cid DagNodeBuilder" where
  "set_content x b = b\<lparr>b_content := Some x\<rparr>"

definition set_parent :: "'cid \<Rightarrow> 'cid DagNodeBuilder \<Rightarrow> 'cid DagNodeBuilder" where
  "set_parent x b = b\<lparr>b_parent := Some x\<rparr>"

definition set_event_type :: "DagEventType \<Rightarrow> 'cid DagNodeBuilder \<Rightarrow> 'cid DagNodeBuilder" where
  "set_event_type x b = b\<lparr>b_event_type := Some x\<rparr>"

definition set_timestamp :: "u64 \<Rightarrow> 'cid DagNodeBuilder \<Rightarrow> 'cid DagNodeBuilder" where
  "set_timestamp x b = b\<lparr>b_timestamp := Some x\<rparr>"

definition set_scope_id :: "string \<Rightarrow> 'cid DagNodeBuilder \<Rightarrow> 'cid DagNodeBuilder" where
  "set_scope_id x b = b\<lparr>b_scope_id := Some x\<rparr>"

definition build_node :: "'cid DagNodeBuilder \<Rightarrow> 'cid DagError + 'cid DagNode" where
  "build_node b =
     bind_result (ok_or (b_content b) (NodeValidation ''Content is required for DagNode'' None)) (\<lambda>c.
     bind_result (ok_or (b_event_type b) (NodeValidation ''Event type is required for DagNode'' None)) (\<lambda>e.
     bind_result (ok_or (b_timestamp b) (NodeValidation ''Timestamp is required for DagNode'' None)) (\<lambda>t.
     bind_result (ok_or (b_scope_id b) (NodeValidation ''Scope ID is required for DagNode'' None)) (\<lambda>s.
       Inr \<lparr>content = c, parent = b_parent b, event_type = e, timestamp = t, scope_id = s\<rparr>))))"

definition DagNode_builder :: "'cid DagNode \<Rightarrow> 'cid DagNodeBuilder" where
  "DagNode_builder n =
     \<lparr>b_content = Some (content n), b_parent = parent n, b_event_type = Some (event_type n),
      b_timestamp = Some (timestamp n), b_scope_id = Some (scope_id n)\<rparr>"

lemmas builder_defs = DagNodeBuilder_new_def set_content_def set_parent_def set_event_type_def
  set_timestamp_def set_scope_id_def build_node_def DagNode_builder_def

section \<open>The store and its batches\<close>

type_synonym 'cid SharedDagStore = "(string, 'cid DagNode) hmap"

definition SharedDagStore_new :: "'cid SharedDagStore" where
  "SharedDagStore_new = []"

definition dag_get :: "'cid SharedDagStore \<Rightarrow> string \<Rightarrow> 'cid DagError + 'cid DagNode option" where
  "dag_get m i = Inr (hget m i)"

definition dag_insert ::
    "('cid DagNode \<Rightarrow> 'cid DagError + 'cid) \<Rightarrow> ('cid \<Rightarrow> string) \<Rightarrow> 'cid SharedDagStore \<Rightarrow> 'cid DagNode
      \<Rightarrow> ('cid DagError + unit) \<times> 'cid SharedDagStore" where
  "dag_insert node_cid cid_str m n =
     (case node_cid n of
        Inl e \<Rightarrow> (Inl e, m)
      | Inr c \<Rightarrow> (Inr (), hinsert m (cid_str c) n))"

definition dag_remove :: "'cid SharedDagStore \<Rightarrow> string \<Rightarrow> ('cid DagError + unit) \<times> 'cid SharedDagStore" where
  "dag_remove m i = (Inr (), hremove m i)"

definition dag_list :: "'cid SharedDagStore \<Rightarrow> 'cid DagError + 'cid DagNode list" where
  "dag_list m = Inr (hvalues m)"

text \<open>A batch has its staged operations and the committed flag; its handle on the store is the
  store its operations are applied to.\<close>

record 'cid DagStoreBatch =
  staged :: "(string, 'cid DagNode option) hmap"
  committed :: bool

definition begin_batch :: "'cid DagStoreBatch" where
  "begin_batch = \<lparr>staged = [], committed = False\<rparr>"

definition batch_insert ::
    "('cid DagNode \<Rightarrow> 'cid DagError + 'cid) \<Rightarrow> ('cid \<Rightarrow> string) \<Rightarrow> 'cid DagStoreBatch \<Rightarrow> 'cid DagNode
      \<Rightarrow> ('cid DagError + unit) \<times> 'cid DagStoreBatch" where
  "batch_insert node_cid cid_str b n =
     (case node_cid n of
        Inl e \<Rightarrow> (Inl e, b)
      | Inr c \<Rightarrow> (Inr (), b\<lparr>staged := hinsert (staged b) (cid_str c) (Some n)\<rparr>))"

definition batch_remove :: "'cid DagStoreBatch \<Rightarrow> string \<Rightarrow> ('cid DagError + unit) \<times> 'cid DagStoreBatch" where
  "batch_remove b i = (Inr (), b\<lparr>staged := hinsert (staged b) i None\<rparr>)"

text \<open>One turn of the loop over the drained operations.\<close>

definition apply_staged :: "'cid SharedDagStore \<Rightarrow> string \<times> 'cid DagNode option \<Rightarrow> 'cid SharedDagStore" where
  "apply_staged m x = (case x of (i, Some n) \<Rightarrow> hinsert m i n | (i, None) \<Rightarrow> hremove m i)"

definition batch_commit ::
    "'cid DagStoreBatch \<Rightarrow> 'cid SharedDagStore
      \<Rightarrow> ('cid DagError + unit) \<times> 'cid SharedDagStore \<times> 'cid DagStoreBatch" where
  "batch_commit b m = (Inr (), foldl apply_staged m (staged b), b\<lparr>staged := [], committed := True\<rparr>)"

definition batch_rollback :: "'cid DagStoreBatch \<Rightarrow> 'cid DagStoreBatch" where
  "batch_rollback b = b\<lparr>staged := [], committed := True\<rparr>"

definition batch_drop :: "'cid DagStoreBatch \<Rightarrow> 'cid DagStoreBatch" where
  "batch_drop b = (if \<not> committed b then b\<lparr>staged := []\<rparr> else b)"

section \<open>The contract of a DAG store\<close>

locale dag_store =
  fixes get :: "'s \<Rightarrow> string \<Rightarrow> 'e + 'n option"
    and insert :: "'s \<Rightarrow> 'n \<Rightarrow> ('e + unit) \<times> 's"
    and remove :: "'s \<Rightarrow> string \<Rightarrow> ('e + unit) \<times> 's"
    and list :: "'s \<Rightarrow> 'e + 'n list"
    and id_of :: "'n \<Rightarrow> string option"
    and ok :: "'s \<Rightarrow> bool"
  assumes get_total: "\<exists>x. get s i = Inr x"
    and insert_ok: "insert s n = (Inr (), s') \<Longrightarrow>
      \<exists>j. id_of n = Some j \<and> (\<forall>i. get s' i = (if i = j then Inr (Some n) else get s i))"
    and insert_err: "insert s n = (Inl e, s') \<Longrightarrow> s' = s \<and> id_of n = None"
    and remove_ok: "remove s i = (r, s') \<Longrightarrow> r = Inr () \<and> get s' i = Inr None \<and> (\<forall>j. j \<noteq> i \<longrightarrow> get s' j = get s j)"
    and list_ok: "ok s \<Longrightarrow> \<exists>ns. list s = Inr ns \<and> set ns = {n. \<exists>i. get s i = Inr (Some n)}"
    and ok_insert: "ok s \<Longrightarrow> ok (snd (insert s n))"
    and ok_remove: "ok s \<Longrightarrow> ok (snd (remove s i))"
begin

text \<open>Content addressing: every node is stored under its own identifier.\<close>

definition addressed where
  "addressed s \<longleftrightarrow> (\<forall>i n. get s i = Inr (Some n) \<longrightarrow> id_of n = Some i)"

lemma insert_addressed: "addressed s \<Longrightarrow> addressed (snd (insert s n))"
proof -
  assume a: "addressed s"
  obtain r s' where r: "insert s n = (r, s')" by fastforce
  show ?thesis
  proof (cases r)
    case (Inl e)
    with r a show ?thesis by (auto dest: insert_err)
  next
    case (Inr u)
    with r insert_ok [of s n s'] obtain j where "id_of n = Some j"
      "\<forall>i. get s' i = (if i = j then Inr (Some n) else get s i)" by auto
    with a r show ?thesis by (auto simp: addressed_def split: if_splits)
  qed
qed

lemma remove_addressed: "addressed s \<Longrightarrow> addressed (snd (remove s i))"
  using remove_ok [of s i] by (cases "remove s i") (auto simp: addressed_def, metis Inr_inject option.distinct(1))

text \<open>In a content-addressed store a node can be read back exactly where its identifier says.\<close>

lemma list_addressed:
  assumes "ok s" "addressed s" "list s = Inr ns"
  shows "n \<in> set ns \<longleftrightarrow> (\<exists>i. id_of n = Some i \<and> get s i = Inr (Some n))"
  using list_ok [OF assms(1)] assms(2,3) by (auto simp: addressed_def)

end

definition id_by :: "('cid DagNode \<Rightarrow> 'cid DagError + 'cid) \<Rightarrow> ('cid \<Rightarrow> string) \<Rightarrow> 'cid DagNode \<Rightarrow> string option" where
  "id_by node_cid cid_str n = (case node_cid n of Inl _ \<Rightarrow> None | Inr c \<Rightarrow> Some (cid_str c))"

lemma set_hvalues: "hwf m \<Longrightarrow> set (hvalues m) = {v. \<exists>k. hget m k = Some v}"
  by (auto simp: hvalues_def image_iff hm.entries_iff_get) (metis hm.entries_iff_get snd_conv)

interpretation shared: dag_store dag_get "dag_insert node_cid cid_str" dag_remove dag_list "id_by node_cid cid_str" hwf
  for node_cid cid_str
  by unfold_locales
    (auto simp: dag_get_def dag_insert_def dag_remove_def dag_list_def id_by_def hmap_simps set_hvalues
      split: sum.splits if_splits)

section \<open>Committing a batch\<close>

lemma hget_foldl_staged:
  assumes "hwf st"
  shows "hget (foldl apply_staged m st) i = (case hget st i of None \<Rightarrow> hget m i | Some x \<Rightarrow> x)"
  using assms
proof (induction st arbitrary: m)
  case Nil
  then show ?case by (simp add: hget_def)
next
  case (Cons x st)
  obtain j op where x: "x = (j, op)" by (cases x)
  have j: "hget st j = None" "hwf st"
    using Cons.prems x by (simp_all add: hwf_def hget_def map_of_eq_None_iff)
  have "hget (apply_staged m x) k = (if k = j then op else hget m k)" for k
    by (cases op) (simp_all add: x apply_staged_def hmap_simps)
  moreover have "hget (x # st) i = (if i = j then Some op else hget st i)" by (simp add: x hget_def)
  ultimately show ?case using Cons.IH [OF j(2), of "apply_staged m x"] j(1) by (auto split: option.split)
qed

lemma hwf_foldl_staged: "hwf m \<Longrightarrow> hwf (foldl apply_staged m st)"
  by (induction st arbitrary: m) (auto simp: apply_staged_def split: prod.split option.split)

text \<open>The order in which \<open>drain\<close> yields the staged operations does not matter.\<close>

lemma drain_order:
  assumes "hwf st" "mset st' = mset st"
  shows "hget (foldl apply_staged m st') i = hget (foldl apply_staged m st) i"
proof -
  have "mset (map fst st') = mset (map fst st)" using assms(2) by simp
  then have w: "hwf st'"
    using assms(1) mset_eq_imp_distinct_iff unfolding hwf_def by blast
  moreover have "set st' = set st" using assms(2) by (rule mset_eq_setD)
  ultimately have "hget st' i = hget st i"
    using assms(1) by (metis hm.entries_iff_get option.exhaust)
  with w assms(1) show ?thesis by (simp add: hget_foldl_staged)
qed

text \<open>A client's operations, staged in a batch or applied at once.\<close>

datatype 'cid dag_op = OpInsert "'cid DagNode" | OpRemove string

fun stage_op where
  "stage_op node_cid cid_str b (OpInsert n) = batch_insert node_cid cid_str b n"
| "stage_op node_cid cid_str b (OpRemove i) = batch_remove b i"

fun direct_op where
  "direct_op node_cid cid_str m (OpInsert n) = dag_insert node_cid cid_str m n"
| "direct_op node_cid cid_str m (OpRemove i) = dag_remove m i"

definition stage_ops where
  "stage_ops node_cid cid_str b ops = foldl (\<lambda>b x. snd (stage_op node_cid cid_str b x)) b ops"

definition direct_ops where
  "direct_ops node_cid cid_str m ops = foldl (\<lambda>m x. snd (direct_op node_cid cid_str m x)) m ops"

lemma stage_op_hwf: "hwf (staged b) \<Longrightarrow> hwf (staged (snd (stage_op node_cid cid_str b x)))"
  by (cases x) (auto simp: batch_insert_def batch_remove_def split: sum.split)

lemma stage_direct_result: "fst (stage_op node_cid cid_str b x) = fst (direct_op node_cid cid_str m x)"
  by (cases x) (auto simp: batch_insert_def dag_insert_def batch_remove_def dag_remove_def split: sum.split)

lemma stage_direct_get:
  assumes "\<And>i. hget m' i = (case hget (staged b) i of None \<Rightarrow> hget m i | Some x \<Rightarrow> x)"
  shows "hget (snd (direct_op node_cid cid_str m' x)) i =
    (case hget (staged (snd (stage_op node_cid cid_str b x))) i of None \<Rightarrow> hget m i | Some x \<Rightarrow> x)"
  using assms
  by (cases x) (auto simp: batch_insert_def batch_remove_def dag_insert_def dag_remove_def hmap_simps
      split: sum.split)

lemma stage_direct_ops:
  assumes "hwf (staged b)" "\<And>i. hget m' i = (case hget (staged b) i of None \<Rightarrow> hget m i | Some x \<Rightarrow> x)"
  shows "hwf (staged (stage_ops node_cid cid_str b ops)) \<and>
    hget (direct_ops node_cid cid_str m' ops) i =
      (case hget (staged (stage_ops node_cid cid_str b ops)) i of None \<Rightarrow> hget m i | Some x \<Rightarrow> x)"
  using assms
proof (induction ops arbitrary: b m')
  case Nil
  then show ?case by (simp add: stage_ops_def direct_ops_def)
next
  case (Cons x ops)
  from Cons.IH [OF stage_op_hwf [OF Cons.prems(1)] stage_direct_get [OF Cons.prems(2)]]
  show ?case by (simp add: stage_ops_def direct_ops_def)
qed

section \<open>Clients of one store\<close>

text \<open>The store and the batches its clients hold open; a step is one call of one client, so every
  interleaving of the clients' calls is a sequence of steps.\<close>

type_synonym 'cid dag_system = "'cid SharedDagStore \<times> 'cid DagStoreBatch list"

inductive dag_step ::
    "('cid DagNode \<Rightarrow> 'cid DagError + 'cid) \<Rightarrow> ('cid \<Rightarrow> string) \<Rightarrow> 'cid dag_system \<Rightarrow> 'cid dag_system \<Rightarrow> bool"
  for node_cid cid_str where
  step_direct: "dag_step node_cid cid_str (m, bs) (snd (direct_op node_cid cid_str m x), bs)"
| step_begin: "dag_step node_cid cid_str (m, bs) (m, bs @ [begin_batch])"
| step_stage: "j < length bs \<Longrightarrow>
    dag_step node_cid cid_str (m, bs) (m, bs[j := snd (stage_op node_cid cid_str (bs ! j) x)])"
| step_commit: "j < length bs \<Longrightarrow> batch_commit (bs ! j) m = (r, m', b) \<Longrightarrow>
    dag_step node_cid cid_str (m, bs) (m', bs[j := batch_drop b])"
| step_rollback: "j < length bs \<Longrightarrow>
    dag_step node_cid cid_str (m, bs) (m, bs[j := batch_drop (batch_rollback (bs ! j))])"
| step_drop: "j < length bs \<Longrightarrow> dag_step node_cid cid_str (m, bs) (m, bs[j := batch_drop (bs ! j)])"

definition staged_addressed where
  "staged_addressed node_cid cid_str b \<longleftrightarrow>
     hwf (staged b) \<and> (\<forall>i n. hget (staged b) i = Some (Some n) \<longrightarrow> id_by node_cid cid_str n = Some i)"

definition system_ok where
  "system_ok node_cid cid_str s \<longleftrightarrow>
     hwf (fst s) \<and> (\<forall>i n. hget (fst s) i = Some n \<longrightarrow> id_by node_cid cid_str n = Some i) \<and>
     (\<forall>b \<in> set (snd s). staged_addressed node_cid cid_str b)"

lemma staged_addressed_empty [simp]: "staged b = [] \<Longrightarrow> staged_addressed node_cid cid_str b"
  by (simp add: staged_addressed_def)

lemma stage_op_addressed:
  "staged_addressed node_cid cid_str b \<Longrightarrow> staged_addressed node_cid cid_str (snd (stage_op node_cid cid_str b x))"
  by (cases x)
    (auto simp: staged_addressed_def batch_insert_def batch_remove_def id_by_def hmap_simps
      split: sum.splits if_splits)

lemma batch_drop_staged: "staged (batch_drop b) = staged b \<or> staged (batch_drop b) = []"
  by (simp add: batch_drop_def)

lemma batch_drop_addressed: "staged_addressed node_cid cid_str b \<Longrightarrow> staged_addressed node_cid cid_str (batch_drop b)"
  using batch_drop_staged [of b] by (auto simp: staged_addressed_def)

lemma direct_op_ok:
  assumes "system_ok node_cid cid_str (m, bs)"
  shows "system_ok node_cid cid_str (snd (direct_op node_cid cid_str m x), bs)"
  using assms
  by (cases x)
    (auto simp: system_ok_def dag_insert_def dag_remove_def id_by_def hmap_simps split: sum.splits if_splits)

lemma update_batch_ok:
  "system_ok node_cid cid_str (m, bs) \<Longrightarrow> staged_addressed node_cid cid_str b \<Longrightarrow>
   system_ok node_cid cid_str (m, bs[j := b])"
  by (auto simp: system_ok_def dest: set_update_subset_insert [THEN subsetD])

lemma commit_ok:
  assumes "system_ok node_cid cid_str (m, bs)" "b \<in> set bs" "batch_commit b m = (r, m', b')"
  shows "system_ok node_cid cid_str (m', bs)"
proof -
  have b: "staged_addressed node_cid cid_str b" using assms(1,2) by (simp add: system_ok_def)
  have m': "m' = foldl apply_staged m (staged b)" using assms(3) by (simp add: batch_commit_def)
  have "hwf m'" using assms(1) by (simp add: m' hwf_foldl_staged system_ok_def)
  moreover have "id_by node_cid cid_str n = Some i" if "hget m' i = Some n" for i n
    using that b assms(1)
    by (auto simp: m' hget_foldl_staged staged_addressed_def system_ok_def split: option.splits)
  ultimately show ?thesis using assms(1) by (simp add: system_ok_def)
qed

lemma dag_step_ok: "dag_step node_cid cid_str s s' \<Longrightarrow> system_ok node_cid cid_str s \<Longrightarrow> system_ok node_cid cid_str s'"
proof (induction rule: dag_step.induct)
  case (step_direct m bs x)
  then show ?case by (rule direct_op_ok)
next
  case (step_begin m bs)
  then show ?case by (auto simp: system_ok_def begin_batch_def)
next
  case (step_stage j bs m x)
  then show ?case
    by (intro update_batch_ok stage_op_addressed) (auto simp: system_ok_def)
next
  case (step_commit j bs m r m' b)
  moreover have "staged (batch_drop b) = []"
    using step_commit.hyps(2) batch_drop_staged [of b] by (auto simp: batch_commit_def)
  ultimately show ?case
    using commit_ok [of node_cid cid_str m bs "bs ! j" r m' b] by (simp add: update_batch_ok)
next
  case (step_rollback j bs m)
  moreover have "staged (batch_drop (batch_rollback (bs ! j))) = []"
    using batch_drop_staged [of "batch_rollback (bs ! j)"] by (auto simp: batch_rollback_def)
  ultimately show ?case by (intro update_batch_ok) auto
next
  case (step_drop j bs m)
  then show ?case by (intro update_batch_ok batch_drop_addressed) (auto simp: system_ok_def)
qed

lemma dag_reachable_ok:
  assumes "(dag_step node_cid cid_str)\<^sup>*\<^sup>* (SharedDagStore_new, []) s"
  shows "system_ok node_cid cid_str s"
  using assms
proof (induction rule: rtranclp_induct)
  case base
  then show ?case by (simp add: system_ok_def SharedDagStore_new_def)
next
  case (step s s')
  then show ?case by (blast intro: dag_step_ok)
qed

section \<open>Properties\<close>

text \<open>C8: committing a batch in which a sequence of operations was staged has the effect of calling the
  same operations on the store one after the other at the moment of the commit, with the same result
  for each call, in whatever order the drained operations come.\<close>

theorem batch_commit_sequential:
  assumes "mset drained = mset (staged (stage_ops node_cid cid_str begin_batch ops))"
  shows "hget (fst (snd (batch_commit \<lparr>staged = drained, committed = False\<rparr> m))) i =
      hget (direct_ops node_cid cid_str m ops) i \<and>
    fst (stage_op node_cid cid_str b x) = fst (direct_op node_cid cid_str m x)"
proof -
  have "hwf (staged begin_batch)" by (simp add: begin_batch_def)
  moreover have "hget m i = (case hget (staged begin_batch) i of None \<Rightarrow> hget m i | Some x \<Rightarrow> x)" for i
    by (simp add: begin_batch_def)
  ultimately have *: "hwf (staged (stage_ops node_cid cid_str begin_batch ops)) \<and>
    hget (direct_ops node_cid cid_str m ops) i =
      (case hget (staged (stage_ops node_cid cid_str begin_batch ops)) i of None \<Rightarrow> hget m i | Some x \<Rightarrow> x)"
    by (rule stage_direct_ops)
  then show ?thesis
    using drain_order [OF _ assms] by (simp add: batch_commit_def hget_foldl_staged stage_direct_result)
qed

definition demo_node :: "string \<Rightarrow> string DagNode" where
  "demo_node c = \<lparr>content = c, parent = None, event_type = Genesis, timestamp = 0, scope_id = ''s''\<rparr>"

theorem batch_commit_sequential_witness:
  "hget (fst (snd (batch_commit
       \<lparr>staged = [(''b'', Some (demo_node ''b'')), (''a'', None)], committed = False\<rparr> [(''a'', demo_node ''a'')]))) ''a'' = None"
proof -
  let ?c = "\<lambda>n. Inr (content n) :: string DagError + string"
  let ?ops = "[OpInsert (demo_node ''a''), OpRemove ''a'', OpInsert (demo_node ''b'')]"
  have "mset [(''b'', Some (demo_node ''b'')), (''a'', None)] = mset (staged (stage_ops ?c id begin_batch ?ops))"
    by (simp add: stage_ops_def begin_batch_def batch_insert_def batch_remove_def hinsert_def demo_node_def)
  from batch_commit_sequential [OF this, of "[(''a'', demo_node ''a'')]" "''a''" begin_batch "OpRemove ''a''"]
  show ?thesis
    by (simp add: direct_ops_def dag_insert_def dag_remove_def demo_node_def hmap_simps)
qed

text \<open>under every interleaving of the calls of any number of clients and batches, a node in the store
  is stored under the text of its own CID, and listing the store yields exactly the nodes that can be
  read back there.\<close>

lemma dag_store_content_addressed:
  assumes "(dag_step node_cid cid_str)\<^sup>*\<^sup>* (SharedDagStore_new, []) (m, bs)"
  shows "(dag_get m i = Inr (Some n) \<longrightarrow> id_by node_cid cid_str n = Some i) \<and>
    (\<exists>ns. dag_list m = Inr ns \<and>
      (n \<in> set ns \<longleftrightarrow> (\<exists>j. id_by node_cid cid_str n = Some j \<and> dag_get m j = Inr (Some n))))"
proof -
  from dag_reachable_ok [OF assms] have ok: "hwf m"
    "\<And>i n. hget m i = Some n \<Longrightarrow> id_by node_cid cid_str n = Some i"
    by (simp_all add: system_ok_def)
  then have a: "shared.addressed node_cid cid_str m"
    by (simp add: shared.addressed_def dag_get_def)
  from shared.list_addressed [OF ok(1) a] ok(2) show ?thesis
    by (simp add: dag_get_def dag_list_def)
qed

lemma dag_store_content_addressed_witness:
  "\<exists>ns. dag_list [(''a'', demo_node ''a'')] = Inr ns \<and> demo_node ''a'' \<in> set ns"
proof -
  let ?c = "\<lambda>n. Inr (content n) :: string DagError + string"
  have "dag_step ?c id (SharedDagStore_new, [])
      (snd (direct_op ?c id SharedDagStore_new (OpInsert (demo_node ''a''))), [])"
    by (rule step_direct)
  then have "(dag_step ?c id)\<^sup>*\<^sup>* (SharedDagStore_new, []) ([(''a'', demo_node ''a'')], [])"
    by (simp add: SharedDagStore_new_def dag_insert_def demo_node_def hinsert_def)
  from dag_store_content_addressed [OF this, of "''a''" "demo_node ''a''"] show ?thesis
    by (auto simp: id_by_def dag_get_def hget_def demo_node_def)
qed

text \<open>with the \<open>cid\<close> method the crate has today, no sequence of calls puts a node into the store:
  every insertion, direct or staged, fails and every reachable store is empty.\<close>

lemma dag_store_never_filled:
  assumes "(dag_step DagNode_cid cid_str)\<^sup>*\<^sup>* (SharedDagStore_new, []) (m, bs)"
  shows "dag_list m = Inr [] \<and> \<not> is_ok (fst (dag_insert DagNode_cid cid_str m n)) \<and>
    \<not> is_ok (fst (batch_insert DagNode_cid cid_str b n))"
proof -
  from dag_reachable_ok [OF assms] have "hget m i = None" for i
    by (cases "hget m i") (auto simp: system_ok_def id_by_def DagNode_cid_def)
  then have "m = []" by (metis fst_conv list.exhaust list.set_intros(1) hkeys_def image_eqI list.set_map set_hkeys)
  then show ?thesis
    by (simp add: dag_list_def hvalues_def dag_insert_def batch_insert_def DagNode_cid_def)
qed

lemma dag_store_never_filled_witness:
  "dag_list (snd (dag_insert DagNode_cid id SharedDagStore_new (demo_node ''a''))) = Inr []"
proof -
  have "dag_step DagNode_cid id (SharedDagStore_new, [])
      (snd (direct_op DagNode_cid id SharedDagStore_new (OpInsert (demo_node ''a''))), [])"
    by (rule step_direct)
  then have "(dag_step DagNode_cid id)\<^sup>*\<^sup>* (SharedDagStore_new, [])
      (snd (dag_insert DagNode_cid id SharedDagStore_new (demo_node ''a'')), [])" by simp
  from dag_store_never_filled [OF this] show ?thesis by simp
qed

text \<open>The builder taken from a node rebuilds that node; a build succeeds exactly when content, event
  type, timestamp and scope are set, in whatever order they were, and the node then has exactly the
  values set.\<close>

lemma dag_builder_roundtrip:
  "build_node (DagNode_builder n) = Inr n \<and>
   (build_node b = Inr n \<longleftrightarrow> b = DagNode_builder n) \<and>
   build_node (set_scope_id (scope_id n) (set_timestamp (timestamp n) (set_event_type (event_type n)
     (set_content (content n) (DagNodeBuilder_new\<lparr>b_parent := parent n\<rparr>))))) = Inr n"
  by (cases n, cases b) (auto simp: builder_defs bind_result_Inr_iff ok_or_Inr_iff)

end
