(* ===== verification/Quorum.thy ===== *)
theory Quorum
  imports Did_Key
begin

text \<open>
  Quorum proofs, trust bundles and the trust validator of \<open>crates/common/icn-identity/src\<close>:
  \<open>quorum.rs\<close>, \<open>trust_bundle.rs\<close> and \<open>trust_validator.rs\<close>.

  Ed25519 verification (\<open>vs key message signature\<close>), the JSON encoder of a bundle (\<open>to_vec\<close>), the
  hex codec and the CID parser are parameters.  A verifying key is a value of the type \<open>'pk\<close>, a
  signature its 64 bytes.  Sums of weights are sums of 16-bit words, which wrap around.  A poisoned
  lock is a flag of the validator's state.
\<close>

section \<open>Weighted majorities\<close>

text \<open>What a majority rule promises its users, for any weights of the members of a group: two
  majorities share a member, and a larger set of signers is still a majority.\<close>

locale weighted_majority =
  fixes members :: "'d set" and weight :: "'d \<Rightarrow> nat"
  assumes finite_members: "finite members"
begin

definition majority :: "'d set \<Rightarrow> bool" where
  "majority A \<longleftrightarrow> A \<subseteq> members \<and> sum weight members < 2 * sum weight A"

lemma majority_intersect:
  assumes "majority A" "majority B"
  shows "A \<inter> B \<noteq> {}"
proof
  assume "A \<inter> B = {}"
  moreover have "finite A" "finite B" "A \<union> B \<subseteq> members"
    using assms finite_members by (auto simp: majority_def intro: finite_subset)
  ultimately have "sum weight A + sum weight B \<le> sum weight members"
    using sum.union_disjoint [of A B weight] sum_mono2 [OF finite_members, of "A \<union> B" weight] by simp
  with assms show False by (simp add: majority_def)
qed

lemma majority_mono: "majority A \<Longrightarrow> A \<subseteq> B \<Longrightarrow> B \<subseteq> members \<Longrightarrow> majority B"
  using sum_mono2 [of B A weight] finite_subset [OF _ finite_members, of B] by (auto simp: majority_def)

lemma majority_nonempty: "majority A \<Longrightarrow> A \<noteq> {}"
  by (auto simp: majority_def)

end

interpretation heads: weighted_majority "set ds" "\<lambda>_. Suc 0" for ds :: "did list"
  by unfold_locales simp

section \<open>Quorum proofs\<close>

datatype QuorumType = Majority | Threshold u8 | Weighted "(did, u16) hmap"

datatype QuorumError =
    InsufficientSigners
  | DuplicateSigner
  | UnauthorizedSigner did
  | ThresholdTooHigh u8 nat
  | SignerNotInWeightMap did

record QuorumProof =
  quorum_type :: QuorumType
  signatures :: "(did \<times> bytes) list"

definition QuorumProof_new :: "QuorumType \<Rightarrow> (did \<times> bytes) list \<Rightarrow> QuorumProof" where
  "QuorumProof_new q sigs = \<lparr>quorum_type = q, signatures = sigs\<rparr>"

definition add_signature :: "QuorumProof \<Rightarrow> did \<Rightarrow> bytes \<Rightarrow> (QuorumError + unit) \<times> QuorumProof" where
  "add_signature p d s =
     (if list_ex (\<lambda>(e, _). e = d) (signatures p) then (Inl DuplicateSigner, p)
      else (Inr (), p\<lparr>signatures := signatures p @ [(d, s)]\<rparr>))"

text \<open>The loop that fills \<open>seen_signers\<close>.\<close>

fun has_duplicate :: "did list \<Rightarrow> (did \<times> bytes) list \<Rightarrow> bool" where
  "has_duplicate seen [] = False"
| "has_duplicate seen ((d, _) # sigs) = (if d \<in> set seen then True else has_duplicate (d # seen) sigs)"

definition valid_signatures ::
    "('pk \<Rightarrow> bytes \<Rightarrow> bytes \<Rightarrow> bool) \<Rightarrow> QuorumProof \<Rightarrow> bytes \<Rightarrow> (did, 'pk) hmap \<Rightarrow> did list" where
  "valid_signatures vs p message allowed_signers =
     List.map_filter (\<lambda>(d, s).
       case hget allowed_signers d of
         Some pk \<Rightarrow> if vs pk message s then Some d else None
       | None \<Rightarrow> None) (signatures p)"

text \<open>The loop over the valid signers of a weighted proof.\<close>

fun add_weights :: "(did, u16) hmap \<Rightarrow> u16 \<Rightarrow> did list \<Rightarrow> QuorumError + u16" where
  "add_weights weights valid_weight [] = Inr valid_weight"
| "add_weights weights valid_weight (d # ds) =
     (case hget weights d of
        Some w \<Rightarrow> add_weights weights (valid_weight + w) ds
      | None \<Rightarrow> Inl (SignerNotInWeightMap d))"

definition proof_verify ::
    "('pk \<Rightarrow> bytes \<Rightarrow> bytes \<Rightarrow> bool) \<Rightarrow> QuorumProof \<Rightarrow> bytes \<Rightarrow> (did, 'pk) hmap \<Rightarrow> QuorumError + unit" where
  "proof_verify vs p message allowed_signers =
     (if has_duplicate [] (signatures p) then Inl DuplicateSigner
      else
        let valid = valid_signatures vs p message allowed_signers
        in case quorum_type p of
             Majority \<Rightarrow>
               if length valid * 2 > length allowed_signers then Inr () else Inl InsufficientSigners
           | Threshold k \<Rightarrow>
               if unat k > length allowed_signers then Inl (ThresholdTooHigh k (length allowed_signers))
               else if length valid \<ge> unat k then Inr () else Inl InsufficientSigners
           | Weighted weights \<Rightarrow>
               let total_weight = sum_list (hvalues weights)
               in bind_result (add_weights weights 0 valid) (\<lambda>valid_weight.
                    if valid_weight * 2 > total_weight then Inr () else Inl InsufficientSigners))"

section \<open>Serialised quorum proofs\<close>

text \<open>A self-describing document as serde hands it to the visitor: the fields in order, each with a
  value of one of the two types the struct has.  A value of the other type is the format's own
  error.\<close>

datatype proof_value = QuorumTypeValue QuorumType | SignaturesValue "(did \<times> string) list"

datatype de_error =
    UnknownField string
  | DuplicateField string
  | MissingProofField string
  | CustomError string
  | InvalidType string

definition serialize_proof :: "(bytes \<Rightarrow> string) \<Rightarrow> QuorumProof \<Rightarrow> (string \<times> proof_value) list" where
  "serialize_proof hex_encode p =
     [(''quorum_type'', QuorumTypeValue (quorum_type p)),
      (''signatures'', SignaturesValue (map (\<lambda>(d, s). (d, hex_encode s)) (signatures p)))]"

fun visit_fields ::
    "QuorumType option \<Rightarrow> (did \<times> string) list option \<Rightarrow> (string \<times> proof_value) list
      \<Rightarrow> de_error + QuorumType option \<times> (did \<times> string) list option" where
  "visit_fields q sigs [] = Inr (q, sigs)"
| "visit_fields q sigs ((key, v) # doc) =
     (if key = ''quorum_type'' then
        (if q \<noteq> None then Inl (DuplicateField key)
         else case v of QuorumTypeValue x \<Rightarrow> visit_fields (Some x) sigs doc | _ \<Rightarrow> Inl (InvalidType key))
      else if key = ''signatures'' then
        (if sigs \<noteq> None then Inl (DuplicateField key)
         else case v of SignaturesValue x \<Rightarrow> visit_fields q (Some x) doc | _ \<Rightarrow> Inl (InvalidType key))
      else Inl (UnknownField key))"

fun decode_signatures :: "(string \<Rightarrow> string + bytes) \<Rightarrow> (did \<times> string) list \<Rightarrow> de_error + (did \<times> bytes) list" where
  "decode_signatures hex_decode [] = Inr []"
| "decode_signatures hex_decode ((d, h) # rest) =
     bind_result (map_err (\<lambda>e. CustomError (''Invalid signature hex: '' @ e)) (hex_decode h)) (\<lambda>bs.
       if length bs \<noteq> 64 then Inl (CustomError ''Invalid signature length'')
       else bind_result (decode_signatures hex_decode rest) (\<lambda>sigs. Inr ((d, bs) # sigs)))"

definition deserialize_proof ::
    "(string \<Rightarrow> string + bytes) \<Rightarrow> (string \<times> proof_value) list \<Rightarrow> de_error + QuorumProof" where
  "deserialize_proof hex_decode doc =
     bind_result (visit_fields None None doc) (\<lambda>(q, sigs).
     bind_result (ok_or q (MissingProofField ''quorum_type'')) (\<lambda>q.
     bind_result (ok_or sigs (MissingProofField ''signatures'')) (\<lambda>sigs.
     bind_result (decode_signatures hex_decode sigs) (\<lambda>sigs.
       Inr \<lparr>quorum_type = q, signatures = sigs\<rparr>))))"

section \<open>Trust bundles\<close>

datatype TrustBundleError =
    QuorumFailure QuorumError
  | SerializationError string
  | CidProcessing string
  | MissingField string

record 'v FederationMetadata =
  name :: string
  description :: "string option"
  version :: string
  additional :: "(string, 'v) hmap"

record 'v TrustBundle =
  root_dag_cid :: string
  federation_metadata :: "'v FederationMetadata"
  quorum_proof :: "QuorumProof option"

definition TrustBundle_new :: "string \<Rightarrow> 'v FederationMetadata \<Rightarrow> 'v TrustBundle" where
  "TrustBundle_new c md = \<lparr>root_dag_cid = c, federation_metadata = md, quorum_proof = None\<rparr>"

definition parse_cid :: "(string \<Rightarrow> string + 'cid) \<Rightarrow> 'v TrustBundle \<Rightarrow> TrustBundleError + 'cid" where
  "parse_cid cid_of_str b = map_err CidProcessing (cid_of_str (root_dag_cid b))"

definition calculate_hash :: "('v TrustBundle \<Rightarrow> string + bytes) \<Rightarrow> 'v TrustBundle \<Rightarrow> TrustBundleError + bytes" where
  "calculate_hash to_vec b =
     map_err SerializationError
       (to_vec \<lparr>root_dag_cid = root_dag_cid b, federation_metadata = federation_metadata b, quorum_proof = None\<rparr>)"

definition add_quorum_proof :: "'v TrustBundle \<Rightarrow> QuorumProof \<Rightarrow> 'v TrustBundle" where
  "add_quorum_proof b p = b\<lparr>quorum_proof := Some p\<rparr>"

definition bundle_verify ::
    "('pk \<Rightarrow> bytes \<Rightarrow> bytes \<Rightarrow> bool) \<Rightarrow> ('v TrustBundle \<Rightarrow> string + bytes) \<Rightarrow> 'v TrustBundle \<Rightarrow> (did, 'pk) hmap
      \<Rightarrow> TrustBundleError + unit" where
  "bundle_verify vs to_vec b allowed_signers =
     bind_result (ok_or (quorum_proof b) (MissingField ''quorum_proof'')) (\<lambda>p.
     bind_result (calculate_hash to_vec b) (\<lambda>h.
       map_err QuorumFailure (proof_verify vs p h allowed_signers)))"

definition bundle_cid :: "'v TrustBundle \<Rightarrow> string" where
  "bundle_cid b = root_dag_cid b"

section \<open>The trust validator\<close>

datatype TrustValidationError = BundleError TrustBundleError | NoBundleConfigured | BundleAccessError

record ('v, 'pk) TrustValidator =
  trust_bundle :: "'v TrustBundle option"
  trusted_keys :: "(did, 'pk) hmap"
  bundle_poisoned :: bool
  keys_poisoned :: bool

definition TrustValidator_new :: "('v, 'pk) TrustValidator" where
  "TrustValidator_new = \<lparr>trust_bundle = None, trusted_keys = [], bundle_poisoned = False, keys_poisoned = False\<rparr>"

text \<open>\<open>None\<close> is the panic of \<open>write().unwrap()\<close> on a poisoned lock.\<close>

definition register_signer :: "('v, 'pk) TrustValidator \<Rightarrow> did \<Rightarrow> 'pk \<Rightarrow> ('v, 'pk) TrustValidator option" where
  "register_signer v d k =
     (if keys_poisoned v then None else Some (v\<lparr>trusted_keys := hinsert (trusted_keys v) d k\<rparr>))"

definition set_trust_bundle ::
    "('pk \<Rightarrow> bytes \<Rightarrow> bytes \<Rightarrow> bool) \<Rightarrow> ('v TrustBundle \<Rightarrow> string + bytes) \<Rightarrow> ('v, 'pk) TrustValidator \<Rightarrow> 'v TrustBundle
      \<Rightarrow> (TrustValidationError + unit) \<times> ('v, 'pk) TrustValidator" where
  "set_trust_bundle vs to_vec v b =
     (if keys_poisoned v then (Inl BundleAccessError, v)
      else case bundle_verify vs to_vec b (trusted_keys v) of
        Inl e \<Rightarrow> (Inl (BundleError e), v)
      | Inr _ \<Rightarrow>
          if bundle_poisoned v then (Inl BundleAccessError, v)
          else (Inr (), v\<lparr>trust_bundle := Some b\<rparr>))"

definition get_trust_bundle :: "('v, 'pk) TrustValidator \<Rightarrow> TrustValidationError + 'v TrustBundle option" where
  "get_trust_bundle v = (if bundle_poisoned v then Inl BundleAccessError else Inr (trust_bundle v))"

definition is_authorized_signer :: "('v, 'pk) TrustValidator \<Rightarrow> did \<Rightarrow> TrustValidationError + bool" where
  "is_authorized_signer v d =
     bind_result (get_trust_bundle v) (\<lambda>b.
     bind_result (ok_or b NoBundleConfigured) (\<lambda>_.
       if keys_poisoned v then Inl BundleAccessError else Inr (hget (trusted_keys v) d \<noteq> None)))"

section \<open>What an accepted proof means\<close>

lemma has_duplicate_iff:
  "has_duplicate seen sigs \<longleftrightarrow> \<not> (distinct (map fst sigs) \<and> set seen \<inter> fst ` set sigs = {})"
  by (induction seen sigs rule: has_duplicate.induct) auto

lemma valid_signatures_iff:
  "d \<in> set (valid_signatures vs p m ks) \<longleftrightarrow> (\<exists>s pk. (d, s) \<in> set (signatures p) \<and> hget ks d = Some pk \<and> vs pk m s)"
  by (auto simp: valid_signatures_def map_filter_def image_iff split: option.splits if_splits) force

lemma valid_signatures_filter:
  "valid_signatures vs p m ks =
     map fst (filter (\<lambda>(d, s). case hget ks d of Some pk \<Rightarrow> vs pk m s | None \<Rightarrow> False) (signatures p))"
proof -
  have "List.map_filter (\<lambda>(d, s). case hget ks d of Some pk \<Rightarrow> if vs pk m s then Some d else None | None \<Rightarrow> None) xs =
      map fst (filter (\<lambda>(d, s). case hget ks d of Some pk \<Rightarrow> vs pk m s | None \<Rightarrow> False) xs)" for xs :: "(did \<times> bytes) list"
    by (induction xs) (auto split: option.splits if_splits)
  then show ?thesis by (simp add: valid_signatures_def)
qed

lemma distinct_valid_signatures: "distinct (map fst (signatures p)) \<Longrightarrow> distinct (valid_signatures vs p m ks)"
  by (simp add: valid_signatures_filter distinct_map_filter)

lemma valid_signatures_allowed: "set (valid_signatures vs p m ks) \<subseteq> set (hkeys ks)"
  by (auto simp: valid_signatures_iff set_hkeys)

text \<open>The 16-bit sums are exact when twice the total weight fits.\<close>

definition weight_of :: "(did, u16) hmap \<Rightarrow> did \<Rightarrow> nat" where
  "weight_of w d = unat (hget_or 0 w d)"

definition total_of :: "(did, u16) hmap \<Rightarrow> nat" where
  "total_of w = sum_list (map unat (hvalues w))"

lemma total_of_sum: "hwf w \<Longrightarrow> total_of w = sum (weight_of w) (set (hkeys w))"
proof -
  assume w: "hwf w"
  have "map unat (hvalues w) = map (weight_of w) (hkeys w)"
    using w by (auto simp: hvalues_def hkeys_def weight_of_def hget_or_def hget_def hwf_def)
  then show ?thesis
    using w by (simp add: total_of_def sum_list_distinct_conv_sum_set distinct_hkeys)
qed

lemma add_weights_iff:
  assumes "unat acc + sum_list (map (weight_of w) ds) < 2 ^ 16"
  shows "add_weights w acc ds = Inr x \<longleftrightarrow>
    set ds \<subseteq> set (hkeys w) \<and> unat x = unat acc + sum_list (map (weight_of w) ds)"
  using assms
proof (induction ds arbitrary: acc)
  case Nil
  then show ?case by (auto simp: word_unat_eq_iff)
next
  case (Cons d ds)
  show ?case
  proof (cases "hget w d")
    case None
    then show ?thesis by (simp add: set_hkeys)
  next
    case (Some v)
    then have "weight_of w d = unat v" by (simp add: weight_of_def hget_or_def)
    moreover from this have "unat (acc + v) = unat acc + unat v"
      using Cons.prems by (intro unat_add_exact) simp
    ultimately show ?thesis using Cons Some by (simp add: set_hkeys add.assoc)
  qed
qed

interpretation weights: weighted_majority "set (hkeys w)" "weight_of w" for w
  by unfold_locales simp

text \<open>What the three rules ask of the set of valid signers.\<close>

definition quorum_met :: "QuorumType \<Rightarrow> (did, 'pk) hmap \<Rightarrow> did set \<Rightarrow> bool" where
  "quorum_met q ks A =
     (case q of
        Majority \<Rightarrow> heads.majority (hkeys ks) A
      | Threshold k \<Rightarrow> unat k \<le> length ks \<and> unat k \<le> card A
      | Weighted w \<Rightarrow> weights.majority w A)"

definition weights_fit :: "QuorumType \<Rightarrow> bool" where
  "weights_fit q = (case q of Weighted w \<Rightarrow> hwf w \<and> 2 * total_of w < 2 ^ 16 | _ \<Rightarrow> True)"

lemma weighted_rule:
  assumes w: "hwf w" "2 * total_of w < 2 ^ 16" and "distinct ds"
  shows "bind_result (add_weights w 0 ds) (\<lambda>v. if sum_list (hvalues w) < v * 2 then Inr () else Inl e) = Inr ()
    \<longleftrightarrow> weights.majority w (set ds)"
proof -
  have le: "sum_list (map (weight_of w) ds) \<le> total_of w" if "set ds \<subseteq> set (hkeys w)"
    using that assms(3) w(1)
    by (simp add: total_of_sum sum_list_distinct_conv_sum_set sum_mono2)
  have tot: "unat (sum_list (hvalues w)) = total_of w"
    using w(2) unat_sum_list_exact [of "hvalues w"] by (simp add: total_of_def)
  show ?thesis
  proof (cases "set ds \<subseteq> set (hkeys w)")
    case True
    have b: "unat (0 :: u16) + sum_list (map (weight_of w) ds) < 2 ^ 16" using le [OF True] w(2) by simp
    let ?x = "word_of_nat (sum_list (map (weight_of w) ds)) :: u16"
    have x: "unat ?x = sum_list (map (weight_of w) ds)" using b by (simp add: unsigned_of_nat take_bit_eq_mod)
    then have "add_weights w 0 ds = Inr ?x" using add_weights_iff [OF b] True by simp
    moreover have "unat (?x * 2) = 2 * sum_list (map (weight_of w) ds)"
      using le [OF True] w(2) x unat_mult_exact [of ?x 2] by simp
    ultimately show ?thesis
      using True tot assms(3) w(1)
      by (simp add: weights.majority_def word_less_nat_alt total_of_sum sum_list_distinct_conv_sum_set)
  next
    case False
    have "\<exists>d. add_weights w acc ds = Inl (SignerNotInWeightMap d)" for acc
      using False
    proof (induction ds arbitrary: acc)
      case Nil
      then show ?case by simp
    next
      case (Cons d ds)
      then show ?case by (cases "hget w d") (auto simp: set_hkeys)
    qed
    then obtain d where "add_weights w 0 ds = Inl (SignerNotInWeightMap d)" by blast
    with False show ?thesis by (simp add: weights.majority_def)
  qed
qed

text \<open>What two accepted proofs under the same majority rule have in common.\<close>

lemma quorum_met_intersect:
  assumes "quorum_met q ks A" "quorum_met q ks B" "\<And>k. q \<noteq> Threshold k"
  shows "A \<inter> B \<noteq> {}"
  using assms heads.majority_intersect [of "hkeys ks" A B] weights.majority_intersect [of _ A B]
  by (cases q) (auto simp: quorum_met_def)

lemma proof_verify_iff:
  assumes "hwf ks" "weights_fit (quorum_type p)"
  shows "proof_verify vs p m ks = Inr () \<longleftrightarrow>
    distinct (map fst (signatures p)) \<and> quorum_met (quorum_type p) ks (set (valid_signatures vs p m ks))"
proof (cases "distinct (map fst (signatures p))")
  case False
  then show ?thesis by (simp add: proof_verify_def has_duplicate_iff)
next
  case True
  let ?ds = "valid_signatures vs p m ks"
  have d: "distinct ?ds" using True by (rule distinct_valid_signatures)
  then have c: "card (set ?ds) = length ?ds" by (rule distinct_card)
  have l: "card (set (hkeys ks)) = length ks"
    using distinct_card [OF distinct_hkeys [OF assms(1)]] by (simp add: hkeys_def)
  show ?thesis
  proof (cases "quorum_type p")
    case Majority
    then show ?thesis
      using True c l valid_signatures_allowed [of vs p m ks]
      by (simp add: proof_verify_def has_duplicate_iff quorum_met_def heads.majority_def)
  next
    case (Threshold k)
    then show ?thesis using True c by (auto simp: proof_verify_def has_duplicate_iff quorum_met_def)
  next
    case (Weighted w)
    then have "hwf w" "2 * total_of w < 2 ^ 16" using assms(2) by (simp_all add: weights_fit_def)
    from weighted_rule [OF this d] Weighted True show ?thesis
      by (simp add: proof_verify_def has_duplicate_iff quorum_met_def Let_def)
  qed
qed

section \<open>Serialisation\<close>

lemma decode_signatures_length: "decode_signatures h xs = Inr sigs \<Longrightarrow> \<forall>(d, s) \<in> set sigs. length s = 64"
  by (induction xs arbitrary: sigs) (fastforce simp: bind_result_Inr_iff split: if_splits)+

lemma decode_encode_signatures:
  "\<forall>(d, s) \<in> set sigs. length s = 64 \<and> hex_decode (hex_encode s) = Inr s \<Longrightarrow>
   decode_signatures hex_decode (map (\<lambda>(d, s). (d, hex_encode s)) sigs) = Inr sigs"
  by (induction sigs) auto

section \<open>Histories of a validator\<close>

inductive validator_step ::
    "('pk \<Rightarrow> bytes \<Rightarrow> bytes \<Rightarrow> bool) \<Rightarrow> ('v TrustBundle \<Rightarrow> string + bytes)
      \<Rightarrow> ('v, 'pk) TrustValidator \<Rightarrow> ('v, 'pk) TrustValidator \<Rightarrow> bool" for vs to_vec where
  step_register: "register_signer v d k = Some v' \<Longrightarrow> validator_step vs to_vec v v'"
| step_set_bundle: "set_trust_bundle vs to_vec v b = (r, v') \<Longrightarrow> validator_step vs to_vec v v'"

definition validator_ok where
  "validator_ok vs to_vec v \<longleftrightarrow> hwf (trusted_keys v) \<and>
     (\<forall>b. trust_bundle v = Some b \<longrightarrow>
       (\<exists>ks. hwf ks \<and> bundle_verify vs to_vec b ks = Inr () \<and> set (hkeys ks) \<subseteq> set (hkeys (trusted_keys v))))"

lemma set_trust_bundle_cases:
  "set_trust_bundle vs to_vec v b = (r, v') \<Longrightarrow>
   (\<not> is_ok r \<and> v' = v) \<or>
   (r = Inr () \<and> v' = v\<lparr>trust_bundle := Some b\<rparr> \<and> bundle_verify vs to_vec b (trusted_keys v) = Inr ())"
  by (auto simp: set_trust_bundle_def split: if_splits sum.splits)

lemma validator_step_ok: "validator_step vs to_vec v v' \<Longrightarrow> validator_ok vs to_vec v \<Longrightarrow> validator_ok vs to_vec v'"
proof (induction rule: validator_step.induct)
  case (step_register v d k v')
  then have v': "v' = v\<lparr>trusted_keys := hinsert (trusted_keys v) d k\<rparr>"
    by (simp add: register_signer_def split: if_splits)
  have "set (hkeys (trusted_keys v)) \<subseteq> set (hkeys (hinsert (trusted_keys v) d k))"
    by (auto simp: set_hkeys hmap_simps)
  with step_register.prems show ?case by (auto simp: v' validator_ok_def hmap_simps) blast
next
  case (step_set_bundle v b r v')
  from set_trust_bundle_cases [OF this(1)] this(2) show ?case by (auto simp: validator_ok_def)
qed

lemma validator_reachable_ok:
  assumes "(validator_step vs to_vec)\<^sup>*\<^sup>* TrustValidator_new v"
  shows "validator_ok vs to_vec v"
  using assms
proof (induction rule: rtranclp_induct)
  case base
  then show ?case by (simp add: validator_ok_def TrustValidator_new_def)
next
  case (step v v')
  then show ?case by (blast intro: validator_step_ok)
qed

lemma bundle_verify_Inr_iff:
  "bundle_verify vs to_vec b ks = Inr () \<longleftrightarrow>
     (\<exists>p h. quorum_proof b = Some p \<and> calculate_hash to_vec b = Inr h \<and> proof_verify vs p h ks = Inr ())"
  by (auto simp: bundle_verify_def bind_result_Inr_iff ok_or_Inr_iff)

section \<open>Properties\<close>

text \<open>C4: a quorum proof verifies exactly when no signer occurs twice and the set of allowed signers with
  a valid signature of the message meets the proof's rule: more than half of the allowed signers, at
  least the threshold, or more than half of the total weight, all valid signers having one.  For weighted proofs
  twice the total weight must fit 16 bits.\<close>

theorem quorum_verify_spec:
  assumes "hwf ks" "weights_fit (quorum_type p)"
  shows "proof_verify vs p m ks = Inr () \<longleftrightarrow>
    distinct (map fst (signatures p)) \<and>
    quorum_met (quorum_type p) ks {d. \<exists>s pk. (d, s) \<in> set (signatures p) \<and> hget ks d = Some pk \<and> vs pk m s}"
proof -
  have "{d. \<exists>s pk. (d, s) \<in> set (signatures p) \<and> hget ks d = Some pk \<and> vs pk m s} = set (valid_signatures vs p m ks)"
    by (auto simp: valid_signatures_iff)
  with proof_verify_iff [OF assms] show ?thesis by simp
qed

theorem quorum_verify_spec_witness:
  "proof_verify (\<lambda>pk m s. s = pk @ m) \<lparr>quorum_type = Weighted [(''a'', 3), (''b'', 2)], signatures = [(''a'', [7, 1])]\<rparr>
     [1] [(''a'', [7]), (''b'', [8])] = Inr ()"
proof -
  let ?p = "\<lparr>quorum_type = Weighted [(''a'', 3), (''b'', 2)], signatures = [(''a'', [7, 1])]\<rparr>"
  let ?ks = "[(''a'', [7]), (''b'', [8])] :: (did, bytes) hmap"
  have h: "hwf ?ks" "weights_fit (quorum_type ?p)"
    by (simp_all add: hwf_def weights_fit_def total_of_def hvalues_def)
  have "{d. \<exists>s pk. (d, s) \<in> set (signatures ?p) \<and> hget ?ks d = Some pk \<and> s = pk @ [1]} = {''a''}"
    by (auto simp: hget_def)
  moreover have "weights.majority [(''a'', 3), (''b'', 2)] {''a''}"
    by (simp add: weights.majority_def) (simp add: hkeys_def weight_of_def hget_or_def hget_def)
  ultimately show ?thesis
    using quorum_verify_spec [OF h, of "\<lambda>pk m s. s = pk @ m" "[1]"] by (simp add: quorum_met_def)
qed

text \<open>C30: two messages that are both certified under the same majority rule, or under the same weighted rule in which
  twice the total weight stays below \<open>2 ^ 16\<close>, over the same allowed signers, have an allowed signer in common who
  validly signed both; so conflicting messages are certified only if somebody signed both.\<close>

theorem quorum_intersection:
  assumes "hwf ks" "weights_fit q" "q = Majority \<or> q = Weighted w"
    and "quorum_type p1 = q" "quorum_type p2 = q"
    and "proof_verify vs p1 m1 ks = Inr ()" "proof_verify vs p2 m2 ks = Inr ()"
  shows "\<exists>d pk s1 s2. hget ks d = Some pk \<and> (d, s1) \<in> set (signatures p1) \<and> vs pk m1 s1 \<and>
    (d, s2) \<in> set (signatures p2) \<and> vs pk m2 s2"
proof -
  have "quorum_met q ks (set (valid_signatures vs p1 m1 ks))" "quorum_met q ks (set (valid_signatures vs p2 m2 ks))"
    using assms proof_verify_iff [OF assms(1), of p1 vs m1] proof_verify_iff [OF assms(1), of p2 vs m2] by simp_all
  from quorum_met_intersect [OF this] assms(3)
  obtain d where "d \<in> set (valid_signatures vs p1 m1 ks)" "d \<in> set (valid_signatures vs p2 m2 ks)" by auto
  then obtain s1 s2 pk where "hget ks d = Some pk" "(d, s1) \<in> set (signatures p1)" "vs pk m1 s1"
    "(d, s2) \<in> set (signatures p2)" "vs pk m2 s2" by (auto simp: valid_signatures_iff)
  then show ?thesis by blast
qed

theorem quorum_intersection_witness:
  "\<exists>d. d \<in> fst ` set [(''a'', [7, 1]), (''b'', [8, 1 :: u8])] \<and> d \<in> fst ` set [(''b'', [8, 2]), (''c'', [9, 2 :: u8])]"
proof -
  let ?vs = "\<lambda>pk m s. s = pk @ (m :: bytes)"
  let ?ks = "[(''a'', [7]), (''b'', [8]), (''c'', [9])] :: (did, bytes) hmap"
  let ?p1 = "\<lparr>quorum_type = Majority, signatures = [(''a'', [7, 1]), (''b'', [8, 1])]\<rparr>"
  let ?p2 = "\<lparr>quorum_type = Majority, signatures = [(''b'', [8, 2]), (''c'', [9, 2])]\<rparr>"
  have "proof_verify ?vs ?p1 [1] ?ks = Inr ()" "proof_verify ?vs ?p2 [2] ?ks = Inr ()"
    by (simp_all add: proof_verify_def valid_signatures_def map_filter_def hget_def)
  then have "\<exists>d pk s1 s2. hget ?ks d = Some pk \<and> (d, s1) \<in> set (signatures ?p1) \<and> ?vs pk [1] s1 \<and>
      (d, s2) \<in> set (signatures ?p2) \<and> ?vs pk [2] s2"
    by (intro quorum_intersection [where q = Majority]) (simp_all add: hwf_def weights_fit_def)
  then show ?thesis by force
qed

text \<open>the weights are added in 16 bits: with weights 40000, 40000 and 15000 a valid signature of the
  third signer alone, less than a sixth of the weight, is accepted as a weighted majority.\<close>

lemma weighted_quorum_overflow:
  "proof_verify vs
     \<lparr>quorum_type = Weighted [(''a'', 40000), (''b'', 40000), (''c'', 15000)], signatures = [(''c'', s)]\<rparr>
     m [(''a'', ka), (''b'', kb), (''c'', kc)] =
   (if vs kc m s then Inr () else Inl InsufficientSigners)"
  by (simp add: proof_verify_def valid_signatures_def map_filter_def hget_def hvalues_def Let_def)

text \<open>the rule comes with the proof and is not part of what is signed, so a bundle with any content
  whatsoever is accepted by every validator whose locks are intact once it carries the rule
  \<open>Threshold(0)\<close> and no signature at all.\<close>

lemma trust_bundle_zero_threshold:
  assumes "calculate_hash to_vec b = Inr h" "\<not> keys_poisoned v" "\<not> bundle_poisoned v"
  shows "fst (set_trust_bundle vs to_vec v (add_quorum_proof b (QuorumProof_new (Threshold 0) []))) = Inr ()"
proof -
  let ?b = "add_quorum_proof b (QuorumProof_new (Threshold 0) [])"
  have "calculate_hash to_vec ?b = Inr h"
    using assms(1) by (simp add: calculate_hash_def add_quorum_proof_def)
  moreover have "proof_verify vs (QuorumProof_new (Threshold 0) []) h ks = Inr ()" for ks
    by (simp add: proof_verify_def QuorumProof_new_def Let_def)
  ultimately have "bundle_verify vs to_vec ?b (trusted_keys v) = Inr ()"
    by (simp add: bundle_verify_def add_quorum_proof_def)
  then show ?thesis using assms(2,3) by (simp add: set_trust_bundle_def)
qed

lemma trust_bundle_zero_threshold_witness:
  "fst (set_trust_bundle (\<lambda>(pk :: unit) m s. False) (\<lambda>_. Inr []) TrustValidator_new
     (add_quorum_proof (TrustBundle_new ''forged'' \<lparr>name = ''f'', description = None, version = ''1'', additional = []\<rparr>)
       (QuorumProof_new (Threshold 0) []))) = Inr ()"
  by (rule trust_bundle_zero_threshold) (simp_all add: calculate_hash_def TrustValidator_new_def)

text \<open>C31: in every state a validator can reach, with no lock poisoned, the configured bundle carries a proof without a
  repeated signer, over a set of keys all of whose owners are still registered.  If the proof's rule is not weighted, or
  twice its total weight stays below \<open>2 ^ 16\<close>, the proof met its rule by valid signatures of the bundle's CID
  and metadata (the proof itself excluded).  A rejected bundle never replaces the configured one, and while a bundle is
  configured a signer is authorised exactly when registered.\<close>

theorem validator_bundle_verified:
  assumes "(validator_step vs to_vec)\<^sup>*\<^sup>* TrustValidator_new v" "trust_bundle v = Some b"
    and "\<not> keys_poisoned v" "\<not> bundle_poisoned v"
  shows "(\<exists>ks p h. hwf ks \<and> set (hkeys ks) \<subseteq> set (hkeys (trusted_keys v)) \<and>
      quorum_proof b = Some p \<and> calculate_hash to_vec (b\<lparr>quorum_proof := None\<rparr>) = Inr h \<and>
      distinct (map fst (signatures p)) \<and>
      (weights_fit (quorum_type p) \<longrightarrow> quorum_met (quorum_type p) ks (set (valid_signatures vs p h ks)))) \<and>
    (\<not> is_ok (fst (set_trust_bundle vs to_vec v b')) \<longrightarrow> snd (set_trust_bundle vs to_vec v b') = v) \<and>
    is_authorized_signer v d = Inr (d \<in> set (hkeys (trusted_keys v)))"
proof -
  from validator_reachable_ok [OF assms(1)] assms(2) obtain ks
    where ks: "hwf ks" "bundle_verify vs to_vec b ks = Inr ()" "set (hkeys ks) \<subseteq> set (hkeys (trusted_keys v))"
    by (auto simp: validator_ok_def)
  from ks(2) obtain p h where p: "quorum_proof b = Some p" "calculate_hash to_vec b = Inr h" "proof_verify vs p h ks = Inr ()"
    by (auto simp: bundle_verify_Inr_iff)
  have "distinct (map fst (signatures p))"
    using p(3) by (simp add: proof_verify_def has_duplicate_iff split: if_splits)
  moreover have "weights_fit (quorum_type p) \<longrightarrow> quorum_met (quorum_type p) ks (set (valid_signatures vs p h ks))"
    using p(3) proof_verify_iff [OF ks(1), of p vs h] by simp
  moreover have "calculate_hash to_vec (b\<lparr>quorum_proof := None\<rparr>) = Inr h"
    using p(2) by (simp add: calculate_hash_def)
  moreover have "snd (set_trust_bundle vs to_vec v b') = v" if "\<not> is_ok (fst (set_trust_bundle vs to_vec v b'))"
    using set_trust_bundle_cases [of vs to_vec v b'] that by (cases "set_trust_bundle vs to_vec v b'") auto
  moreover have "is_authorized_signer v d = Inr (d \<in> set (hkeys (trusted_keys v)))"
    using assms(2-4) by (simp add: is_authorized_signer_def get_trust_bundle_def set_hkeys)
  ultimately show ?thesis using ks p(1) by blast
qed

definition demo_bundle :: "unit TrustBundle" where
  "demo_bundle = add_quorum_proof
     (TrustBundle_new ''root'' \<lparr>name = ''f'', description = None, version = ''1'', additional = []\<rparr>)
     (QuorumProof_new Majority [(''a'', [7, 1])])"

theorem validator_bundle_verified_witness:
  "is_authorized_signer \<lparr>trust_bundle = Some demo_bundle, trusted_keys = [(''a'', [7 :: u8])],
      bundle_poisoned = False, keys_poisoned = False\<rparr> ''b'' = Inr False"
proof -
  let ?vs = "\<lambda>pk m s. s = pk @ (m :: bytes)" and ?tv = "\<lambda>_. Inr [1] :: string + bytes"
  let ?v0 = "TrustValidator_new :: (unit, bytes) TrustValidator"
  let ?v1 = "?v0\<lparr>trusted_keys := [(''a'', [7])]\<rparr>"
  let ?v2 = "?v1\<lparr>trust_bundle := Some demo_bundle\<rparr>"
  have "validator_step ?vs ?tv ?v0 ?v1"
    by (rule step_register [of _ "''a''" "[7]"]) (simp add: register_signer_def TrustValidator_new_def hinsert_def)
  moreover have "set_trust_bundle ?vs ?tv ?v1 demo_bundle = (Inr (), ?v2)"
    by (simp add: set_trust_bundle_def TrustValidator_new_def bundle_verify_def demo_bundle_def add_quorum_proof_def
        QuorumProof_new_def calculate_hash_def proof_verify_def valid_signatures_def map_filter_def hget_def)
  then have "validator_step ?vs ?tv ?v1 ?v2" by (rule step_set_bundle)
  ultimately have r: "(validator_step ?vs ?tv)\<^sup>*\<^sup>* ?v0 ?v2" by simp
  have "is_authorized_signer ?v2 ''b'' = Inr (''b'' \<in> set (hkeys (trusted_keys ?v2)))"
    using validator_bundle_verified [OF r, of demo_bundle undefined "''b''"] by (simp add: TrustValidator_new_def)
  then show ?thesis by (simp add: hkeys_def TrustValidator_new_def)
qed

text \<open>A proof whose signatures have 64 bytes survives serialisation, for any hex codec that decodes what
  it encodes; and whatever document is accepted, every signature read from it has 64 bytes.\<close>

lemma quorum_proof_roundtrip:
  assumes "\<And>bs. hex_decode (hex_encode bs) = Inr bs"
  shows "((\<forall>(d, s) \<in> set (signatures p). length s = 64) \<longrightarrow>
      deserialize_proof hex_decode (serialize_proof hex_encode p) = Inr p) \<and>
    (deserialize_proof hex_decode doc = Inr p' \<longrightarrow> (\<forall>(d, s) \<in> set (signatures p'). length s = 64))"
proof -
  have "deserialize_proof hex_decode (serialize_proof hex_encode p) = Inr p"
    if "\<forall>(d, s) \<in> set (signatures p). length s = 64"
    using that decode_encode_signatures [of "signatures p" hex_decode hex_encode] assms
    by (auto simp: deserialize_proof_def serialize_proof_def)
  moreover have "\<forall>(d, s) \<in> set (signatures p'). length s = 64" if "deserialize_proof hex_decode doc = Inr p'"
    using that by (auto simp: deserialize_proof_def bind_result_Inr_iff dest!: decode_signatures_length)
  ultimately show ?thesis by blast
qed

end
