(* ===== verification/Json.thy ===== *)
theory Json
  imports Prelude "HOL-Library.List_Lexorder" "HOL-Library.Char_ord" "HOL-Library.Multiset"
begin

text \<open>
  JSON values as \<open>serde_json\<close> represents them and the canonical ordering of
  \<open>crates/common/icn-types/src/identity.rs\<close> (\<open>sort_json_object\<close>, \<open>sort_json_array\<close>).

  The library's \<open>Map\<close> is its default, a \<open>BTreeMap\<close>: iteration is by ascending key, strings being
  compared byte by byte, and an insertion replaces the value of a present key.
\<close>

datatype json_number = PosInt u64 | NegInt u64 | Float f64

datatype Value =
    Null
  | Bool bool
  | Number json_number
  | String string
  | Array "Value list"
  | Object "(string \<times> Value) list"

fun map_insert :: "(string \<times> Value) list \<Rightarrow> string \<Rightarrow> Value \<Rightarrow> (string \<times> Value) list" where
  "map_insert [] k v = [(k, v)]"
| "map_insert ((k', v') # m) k v =
     (if k < k' then (k, v) # (k', v') # m
      else if k = k' then (k, v) # m
      else (k', v') # map_insert m k v)"

definition map_remove :: "(string \<times> Value) list \<Rightarrow> string \<Rightarrow> (string \<times> Value) list" where
  "map_remove m k = filter (\<lambda>(k', _). k' \<noteq> k) m"

text \<open>A map filled by inserting the entries in the order given.\<close>

definition map_of_entries :: "(string \<times> Value) list \<Rightarrow> (string \<times> Value) list" where
  "map_of_entries xs = foldl (\<lambda>m (k, v). map_insert m k v) [] xs"

text \<open>The keys of an object are distinct, so visiting the sorted keys and indexing the object is
  visiting its entries sorted by key.\<close>

fun sort_json :: "Value \<Rightarrow> Value" where
  "sort_json (Object m) = Object (map_of_entries (sort_key fst (map (\<lambda>(k, v). (k, sort_json v)) m)))"
| "sort_json (Array xs) = Array (map sort_json xs)"
| "sort_json v = v"

definition sort_json_object :: "(string \<times> Value) list \<Rightarrow> Value" where
  "sort_json_object m = sort_json (Object m)"

definition sort_json_array :: "Value list \<Rightarrow> Value" where
  "sort_json_array xs = sort_json (Array xs)"

section \<open>Maps with ordered keys\<close>

definition map_ok :: "(string \<times> Value) list \<Rightarrow> bool" where
  "map_ok m \<longleftrightarrow> sorted (map fst m) \<and> distinct (map fst m)"

lemma set_map_insert: "fst ` set (map_insert m k v) = insert k (fst ` set m)"
  by (induction m k v rule: map_insert.induct) (simp_all add: insert_commute)

lemma map_insert_ok: "map_ok m \<Longrightarrow> map_ok (map_insert m k v)"
proof (induction m)
  case Nil
  then show ?case by (simp add: map_ok_def)
next
  case (Cons x m)
  obtain k' v' where x: "x = (k', v')" by (cases x)
  have m: "map_ok m" "\<forall>y \<in> fst ` set m. k' < y"
    using Cons.prems by (auto simp: map_ok_def x order_less_le)
  show ?case
  proof (cases k k' rule: linorder_cases)
    case greater
    have "\<forall>y \<in> fst ` set (map_insert m k v). k' < y" using m(2) greater by (simp add: set_map_insert)
    then show ?thesis
      using Cons.IH [OF m(1)] greater by (auto simp: x map_ok_def order_less_imp_le)
  qed (use m in \<open>auto simp: x map_ok_def order_less_imp_le\<close>)
qed

lemma map_of_map_insert: "map_of (map_insert m k v) = (map_of m)(k \<mapsto> v)"
  by (induction m) (auto simp: fun_eq_iff)

text \<open>Ordered maps with the same entries are equal.\<close>

lemma map_ok_unique:
  assumes "map_ok m" "map_ok m'" "map_of m = map_of m'"
  shows "m = m'"
proof -
  have "set m = set m'" using assms by (metis map_ok_def map_of_inject_set)
  then show ?thesis
    using assms(1,2) map_sorted_distinct_set_unique [of fst m m']
    by (simp add: map_ok_def distinct_map)
qed

lemma map_of_entries_ok: "map_ok (map_of_entries xs)"
proof -
  have "map_ok m \<Longrightarrow> map_ok (foldl (\<lambda>m (k, v). map_insert m k v) m xs)" for m
    by (induction xs arbitrary: m) (auto simp: map_insert_ok)
  then show ?thesis by (simp add: map_of_entries_def map_ok_def)
qed

lemma map_of_foldl_insert:
  "distinct (map fst xs) \<Longrightarrow> fst ` set m \<inter> fst ` set xs = {} \<Longrightarrow>
   map_of (foldl (\<lambda>m (k, v). map_insert m k v) m xs) = map_of m ++ map_of xs"
proof (induction xs arbitrary: m)
  case Nil
  then show ?case by simp
next
  case (Cons x xs)
  obtain k v where x: "x = (k, v)" by (cases x)
  have "map_of (foldl (\<lambda>m (k, v). map_insert m k v) (map_insert m k v) xs) =
      map_of (map_insert m k v) ++ map_of xs"
    using Cons.prems by (intro Cons.IH) (auto simp: x set_map_insert)
  moreover have "map_of xs k = None" using Cons.prems by (simp add: x map_of_eq_None_iff)
  ultimately show ?case by (auto simp: x map_of_map_insert fun_eq_iff map_add_def split: option.split)
qed

lemma map_of_map_of_entries: "distinct (map fst xs) \<Longrightarrow> map_of (map_of_entries xs) = map_of xs"
  using map_of_foldl_insert [of xs "[]"] by (simp add: map_of_entries_def)

lemma map_of_entries_id: "map_ok m \<Longrightarrow> map_of_entries m = m"
  by (intro map_ok_unique map_of_entries_ok map_of_map_of_entries) (simp_all add: map_ok_def)

text \<open>The order of the insertions does not matter.\<close>

lemma map_of_entries_perm:
  assumes "mset xs = mset ys" "distinct (map fst xs)"
  shows "map_of_entries xs = map_of_entries ys"
proof -
  have "mset (map fst xs) = mset (map fst ys)" using assms(1) by simp
  then have d: "distinct (map fst ys)" using assms(2) mset_eq_imp_distinct_iff by blast
  have "map_of xs = map_of ys"
    using assms d by (metis map_of_inject_set mset_eq_setD)
  then show ?thesis
    using assms(2) d by (intro map_ok_unique map_of_entries_ok) (simp add: map_of_map_of_entries)
qed

section \<open>Canonical values\<close>

fun json_ok :: "Value \<Rightarrow> bool" where
  "json_ok (Object m) \<longleftrightarrow> distinct (map fst m) \<and> (\<forall>(k, v) \<in> set m. json_ok v)"
| "json_ok (Array xs) \<longleftrightarrow> (\<forall>v \<in> set xs. json_ok v)"
| "json_ok v \<longleftrightarrow> True"

fun canonical :: "Value \<Rightarrow> bool" where
  "canonical (Object m) \<longleftrightarrow> map_ok m \<and> (\<forall>(k, v) \<in> set m. canonical v)"
| "canonical (Array xs) \<longleftrightarrow> (\<forall>v \<in> set xs. canonical v)"
| "canonical v \<longleftrightarrow> True"

text \<open>Equality up to the order of object entries.\<close>

inductive json_eqv :: "Value \<Rightarrow> Value \<Rightarrow> bool" where
  eqv_refl: "json_eqv v v"
| eqv_array: "list_all2 json_eqv xs ys \<Longrightarrow> json_eqv (Array xs) (Array ys)"
| eqv_object: "list_all2 (rel_prod (=) json_eqv) m m' \<Longrightarrow> mset m' = mset m'' \<Longrightarrow>
    json_eqv (Object m) (Object m'')"

lemma sort_key_ok: "distinct (map fst m) \<Longrightarrow> map_ok (sort_key fst m)"
proof -
  assume d: "distinct (map fst m)"
  have "mset (map fst (sort_key fst m)) = mset (map fst m)" by simp
  with d have "distinct (map fst (sort_key fst m))" using mset_eq_imp_distinct_iff by blast
  then show ?thesis by (simp add: map_ok_def)
qed

lemma sort_json_entries:
  assumes "distinct (map fst m)"
  shows "sort_json (Object m) = Object (map_of_entries (map (\<lambda>(k, v). (k, sort_json v)) m))"
proof -
  have "map fst (map (\<lambda>(k, v). (k, sort_json v)) m) = map fst m" by auto
  with assms have "distinct (map fst (sort_key fst (map (\<lambda>(k, v). (k, sort_json v)) m)))"
    using sort_key_ok unfolding map_ok_def by metis
  then show ?thesis by (simp add: map_of_entries_perm)
qed

lemma map_fst_sorted_values [simp]:
  "map fst (map (\<lambda>(k, v). (k, f v)) m) = map fst m" "map (fst \<circ> (\<lambda>(k, v). (k, f v))) m = map fst m"
  by auto

lemma eqv_entries_sort:
  assumes "list_all2 (rel_prod (=) (\<lambda>v w. json_eqv v w \<and> (json_ok v \<longrightarrow> sort_json v = sort_json w))) m m'"
    and "\<forall>(k, v) \<in> set m. json_ok v"
  shows "map (\<lambda>(k, v). (k, sort_json v)) m = map (\<lambda>(k, v). (k, sort_json v)) m'"
  using assms by (induction rule: list_all2_induct) auto

lemma map_of_entries_set: "distinct (map fst xs) \<Longrightarrow> set (map_of_entries xs) = set xs"
  using map_of_entries_ok [of xs] map_of_map_of_entries [of xs]
  by (simp add: map_ok_def map_of_inject_set)

lemma sort_json_canonical: "json_ok v \<Longrightarrow> canonical (sort_json v)"
proof (induction v rule: sort_json.induct)
  case (1 m)
  have "distinct (map fst m)" using 1 by simp
  then have "set (map_of_entries (map (\<lambda>(k, v). (k, sort_json v)) m)) = set (map (\<lambda>(k, v). (k, sort_json v)) m)"
    by (intro map_of_entries_set) simp
  with 1 show ?case by (auto simp: sort_json_entries map_of_entries_ok simp del: sort_json.simps(1))
qed auto

lemma sort_json_fixpoint: "canonical v \<Longrightarrow> sort_json v = v"
proof (induction v rule: sort_json.induct)
  case (1 m)
  have "map (\<lambda>(k, v). (k, sort_json v)) m = m"
    using 1 by (intro map_idI) auto
  with 1 show ?case by (simp add: sort_json_entries map_ok_def map_of_entries_id del: sort_json.simps(1))
next
  case (2 xs)
  then show ?case by (simp add: map_idI)
qed simp_all

lemma json_eqv_sort: "json_eqv v w \<Longrightarrow> json_ok v \<Longrightarrow> sort_json v = sort_json w"
proof (induction rule: json_eqv.induct)
  case (eqv_refl v)
  then show ?case by simp
next
  case (eqv_array xs ys)
  then have "list_all2 (\<lambda>x y. sort_json x = sort_json y) xs ys"
    by (auto simp: list_all2_conv_all_nth)
  then show ?case by (simp add: list_all2_conv_all_nth list_eq_iff_nth_eq)
next
  case (eqv_object m m' m'')
  have d: "distinct (map fst m)" using eqv_object.prems by simp
  have "map (\<lambda>(k, v). (k, sort_json v)) m = map (\<lambda>(k, v). (k, sort_json v)) m'"
    using eqv_object.IH eqv_object.prems by (intro eqv_entries_sort) simp_all
  moreover have "map fst m' = map fst m" using calculation map_fst_sorted_values(1) by metis
  moreover have "mset (map fst m'') = mset (map fst m')" using eqv_object.hyps by simp
  moreover from calculation d have "distinct (map fst m'')" using mset_eq_imp_distinct_iff by metis
  moreover have "map_of_entries (map (\<lambda>(k, v). (k, sort_json v)) m') = map_of_entries (map (\<lambda>(k, v). (k, sort_json v)) m'')"
    using eqv_object.hyps calculation d by (intro map_of_entries_perm) (simp_all add: mset_map)
  ultimately show ?case using d by (simp add: sort_json_entries del: sort_json.simps(1))
qed

lemma json_ok_canonical: "canonical v \<Longrightarrow> json_ok v"
  by (induction v rule: json_ok.induct) (auto simp: map_ok_def)

lemma map_remove_ok: "map_ok m \<Longrightarrow> map_ok (map_remove m k)"
  by (simp add: map_ok_def map_remove_def distinct_map_filter sorted_filter)

lemma map_of_map_remove: "map_of (map_remove m k) = (map_of m)(k := None)"
  by (induction m) (auto simp: map_remove_def fun_eq_iff)

end
