(* ===== verification/Jws.thy ===== *)
theory Jws
  imports Did_Key
begin

text \<open>
  Signatures over credentials: the detached JWS of \<open>crates/common/icn-crypto/src/jws.rs\<close>, the key
  pair of \<open>icn-identity/src/keypair.rs\<close> and the generic signed credential of \<open>icn-identity/src/vc.rs\<close>.

  Ed25519, base64url and the JSON encoder are library code and are the fields of the record
  \<open>crypto_env\<close>; \<open>b64_laws\<close> and \<open>key_pair\<close> are the documented behaviour the properties rest on.
\<close>

section \<open>Detached JWS\<close>

datatype JwsError =
    JwsSerialization string
  | JwsBase64 string
  | IncorrectJwsPartsCount nat
  | PayloadPresentInDetachedJws
  | InvalidSignatureLength nat nat
  | CryptoVerification string

record JwsHeader =
  jws_alg :: string
  jws_typ :: string

record ('sk, 'pk) crypto_env =
  header_json :: "JwsHeader \<Rightarrow> string + bytes"
  b64_enc :: "bytes \<Rightarrow> string"
  b64_dec :: "string \<Rightarrow> string + bytes"
  ed_sign :: "'sk \<Rightarrow> bytes \<Rightarrow> bytes"
  ed_verify :: "'pk \<Rightarrow> bytes \<Rightarrow> bytes \<Rightarrow> string + unit"

definition sign_detached_jws :: "('sk, 'pk) crypto_env \<Rightarrow> bytes \<Rightarrow> 'sk \<Rightarrow> JwsError + string" where
  "sign_detached_jws env payload keypair =
     bind_result (map_err JwsSerialization (header_json env \<lparr>jws_alg = ''EdDSA'', jws_typ = ''JWT''\<rparr>)) (\<lambda>header.
       let header_b64 = b64_enc env header;
           payload_b64 = b64_enc env payload;
           signing_input = header_b64 @ ''.'' @ payload_b64;
           signature = ed_sign env keypair (str_bytes signing_input);
           signature_b64 = b64_enc env signature
       in Inr (header_b64 @ ''..'' @ signature_b64))"

definition verify_detached_jws :: "('sk, 'pk) crypto_env \<Rightarrow> bytes \<Rightarrow> string \<Rightarrow> 'pk \<Rightarrow> JwsError + unit" where
  "verify_detached_jws env payload detached_jws public_key =
     (let parts = split_on CHR ''.'' detached_jws in
      if length parts \<noteq> 3 then Inl (IncorrectJwsPartsCount (length parts))
      else if parts ! 1 \<noteq> [] then Inl PayloadPresentInDetachedJws
      else
        let header_b64 = parts ! 0; signature_b64 = parts ! 2
        in bind_result (map_err JwsBase64 (b64_dec env signature_b64)) (\<lambda>signature_bytes.
             if length signature_bytes \<noteq> 64 then Inl (InvalidSignatureLength 64 (length signature_bytes))
             else
               let payload_b64 = b64_enc env payload;
                   signing_input = header_b64 @ ''.'' @ payload_b64
               in map_err CryptoVerification (ed_verify env public_key (str_bytes signing_input) signature_bytes)))"

section \<open>Key pairs and generic credentials\<close>

record ('sk, 'pk) KeyPair =
  kp_did :: did
  kp_pk :: 'pk
  kp_sk :: 'sk

definition kp_sign :: "('sk, 'pk) crypto_env \<Rightarrow> ('sk, 'pk) KeyPair \<Rightarrow> bytes \<Rightarrow> bytes" where
  "kp_sign env kp msg = ed_sign env (kp_sk kp) msg"

definition kp_verify :: "('sk, 'pk) crypto_env \<Rightarrow> ('sk, 'pk) KeyPair \<Rightarrow> bytes \<Rightarrow> bytes \<Rightarrow> bool" where
  "kp_verify env kp msg sig = is_ok (ed_verify env (kp_pk kp) msg sig)"

record Proof =
  proof_type :: string
  proof_created :: u64
  proof_verification_method :: string
  proof_purpose_of :: string
  signature_value_hex :: string

record 't GenericCredential =
  gc_context :: "string list"
  gc_types :: "string list"
  gc_issuer :: did
  gc_issuance_date :: u64
  gc_credential_subject :: 't
  gc_proof :: "Proof option"

datatype CredentialError = AlreadySigned | CredentialCryptoVerification string | Ser string

record 't SignedCredential =
  sc_vc :: "'t GenericCredential"
  sc_signature :: bytes

text \<open>\<open>to_json\<close> is \<open>serde_json::to_value\<close> followed by \<open>to_vec\<close>.\<close>

definition gc_canonical_bytes :: "('t GenericCredential \<Rightarrow> string + bytes) \<Rightarrow> 't GenericCredential \<Rightarrow> CredentialError + bytes" where
  "gc_canonical_bytes to_json vc = map_err Ser (to_json (vc\<lparr>gc_proof := None\<rparr>))"

definition gc_sign ::
    "('sk, 'pk) crypto_env \<Rightarrow> ('t GenericCredential \<Rightarrow> string + bytes) \<Rightarrow> (bytes \<Rightarrow> string) \<Rightarrow> u64
      \<Rightarrow> 't GenericCredential \<Rightarrow> ('sk, 'pk) KeyPair \<Rightarrow> CredentialError + 't SignedCredential" where
  "gc_sign env to_json hex_encode now vc kp =
     (if gc_proof vc \<noteq> None then Inl AlreadySigned
      else bind_result (gc_canonical_bytes to_json vc) (\<lambda>bs.
        let sig = kp_sign env kp bs
        in Inr \<lparr>sc_vc = vc\<lparr>gc_proof := Some
                  \<lparr>proof_type = ''Ed25519Signature2020'', proof_created = now,
                   proof_verification_method = kp_did kp, proof_purpose_of = ''assertionMethod'',
                   signature_value_hex = hex_encode sig\<rparr>\<rparr>,
                sc_signature = sig\<rparr>))"

definition sc_verify ::
    "('sk, 'pk) crypto_env \<Rightarrow> ('t GenericCredential \<Rightarrow> string + bytes) \<Rightarrow> 't SignedCredential \<Rightarrow> 'pk
      \<Rightarrow> CredentialError + unit" where
  "sc_verify env to_json sc pk =
     bind_result (gc_canonical_bytes to_json (sc_vc sc)) (\<lambda>bs.
       map_err CredentialCryptoVerification (ed_verify env pk bs (sc_signature sc)))"

section \<open>Laws of the libraries\<close>

text \<open>Base64url decodes what it encodes and its alphabet has no dot; a signature has 64 bytes and
  verifies under the public key of the signing key.\<close>

definition b64_laws :: "('sk, 'pk) crypto_env \<Rightarrow> bool" where
  "b64_laws env \<longleftrightarrow> (\<forall>bs. b64_dec env (b64_enc env bs) = Inr bs \<and> CHR ''.'' \<notin> set (b64_enc env bs))"

definition key_pair :: "('sk, 'pk) crypto_env \<Rightarrow> 'sk \<Rightarrow> 'pk \<Rightarrow> bool" where
  "key_pair env sk pk \<longleftrightarrow>
     (\<forall>m. length (ed_sign env sk m) = 64 \<and> ed_verify env pk m (ed_sign env sk m) = Inr ())"

lemma b64_enc_inject: "b64_laws env \<Longrightarrow> b64_enc env x = b64_enc env y \<longleftrightarrow> x = y"
  unfolding b64_laws_def by (metis sum.inject(2))

lemma split_on_parts: "p \<in> set (split_on c s) \<Longrightarrow> c \<notin> set p"
proof (induction s arbitrary: p)
  case Nil
  then show ?case by simp
next
  case (Cons x s)
  obtain q qs where q: "split_on c s = q # qs" by (cases "split_on c s") auto
  with Cons show ?case by (auto split: if_splits)
qed

lemma split_on_three:
  "split_on c s = [x, y, z] \<longleftrightarrow> s = x @ c # y @ c # z \<and> c \<notin> set x \<and> c \<notin> set y \<and> c \<notin> set z"
proof
  assume l: "split_on c s = [x, y, z]"
  then have "c \<notin> set x" "c \<notin> set y" "c \<notin> set z" using split_on_parts [of _ c s] by simp_all
  moreover have "s @ [c] = (x @ c # y @ c # z) @ [c]" using split_on_join [of c s] l by simp
  then have "s = x @ c # y @ c # z" by blast
  ultimately show "s = x @ c # y @ c # z \<and> c \<notin> set x \<and> c \<notin> set y \<and> c \<notin> set z" by blast
qed (auto simp: split_on_fresh_append split_on_fresh)

lemma length3: "length xs = 3 \<longleftrightarrow> (\<exists>a b c. xs = [a, b, c])"
  by (auto simp: numeral_3_eq_3 length_Suc_conv)

text \<open>Exactly what the verifier accepts.\<close>

lemma verify_detached_jws_iff:
  "verify_detached_jws env payload jws pk = Inr () \<longleftrightarrow>
     (\<exists>h s sig. jws = h @ ''..'' @ s \<and> CHR ''.'' \<notin> set h \<and> CHR ''.'' \<notin> set s \<and>
        b64_dec env s = Inr sig \<and> length sig = 64 \<and>
        ed_verify env pk (str_bytes (h @ ''.'' @ b64_enc env payload)) sig = Inr ())"
  (is "?l \<longleftrightarrow> ?r")
proof
  assume ?l
  then have "length (split_on CHR ''.'' jws) = 3"
    by (auto simp: verify_detached_jws_def Let_def split: if_splits)
  then obtain h y s where p: "split_on CHR ''.'' jws = [h, y, s]" by (auto simp: length3)
  with \<open>?l\<close> have "y = []"
    by (auto simp: verify_detached_jws_def Let_def split: if_splits)
  with p have "jws = h @ ''..'' @ s \<and> CHR ''.'' \<notin> set h \<and> CHR ''.'' \<notin> set s"
    by (simp add: split_on_three)
  moreover from \<open>?l\<close> p \<open>y = []\<close> obtain sig where "b64_dec env s = Inr sig" "length sig = 64"
    "ed_verify env pk (str_bytes (h @ ''.'' @ b64_enc env payload)) sig = Inr ()"
    by (auto simp: verify_detached_jws_def Let_def bind_result_Inr_iff split: if_splits)
  ultimately show ?r by blast
next
  assume ?r
  then obtain h s sig where r: "jws = h @ CHR ''.'' # [] @ CHR ''.'' # s" "CHR ''.'' \<notin> set h" "CHR ''.'' \<notin> set s"
    "b64_dec env s = Inr sig" "length sig = 64"
    "ed_verify env pk (str_bytes (h @ ''.'' @ b64_enc env payload)) sig = Inr ()" by auto
  then have "split_on CHR ''.'' jws = [h, [], s]" by (simp add: split_on_three)
  with r show ?l by (simp add: verify_detached_jws_def)
qed

lemma sign_verify_jws:
  assumes "b64_laws env" "key_pair env sk pk" "sign_detached_jws env payload sk = Inr jws"
  shows "verify_detached_jws env payload jws pk = Inr ()"
proof -
  from assms(3) obtain hj where "jws = b64_enc env hj @ ''..'' @
      b64_enc env (ed_sign env sk (str_bytes (b64_enc env hj @ ''.'' @ b64_enc env payload)))"
    by (auto simp: sign_detached_jws_def bind_result_Inr_iff Let_def)
  with assms(1,2) show ?thesis
    unfolding verify_detached_jws_iff b64_laws_def key_pair_def by blast
qed

section \<open>Properties\<close>

text \<open>A detached JWS made with a signing key verifies under its public key for the same payload; and
  when one and the same text verifies for two different payloads, one signature is valid for two
  different signing inputs, so the text binds the payload as strongly as Ed25519 binds a message.\<close>

lemma jws_sign_verify:
  assumes "b64_laws env" "key_pair env sk pk" "sign_detached_jws env payload sk = Inr jws"
  shows "verify_detached_jws env payload jws pk = Inr () \<and>
    (verify_detached_jws env payload' jws pk' = Inr () \<and> payload' \<noteq> payload \<longrightarrow>
      (\<exists>m m' sig. m \<noteq> m' \<and> ed_verify env pk m sig = Inr () \<and> ed_verify env pk' m' sig = Inr ()))"
proof -
  have v: "verify_detached_jws env payload jws pk = Inr ()" using sign_verify_jws [OF assms] .
  have "\<exists>m m' sig. m \<noteq> m' \<and> ed_verify env pk m sig = Inr () \<and> ed_verify env pk' m' sig = Inr ()"
    if "verify_detached_jws env payload' jws pk' = Inr ()" "payload' \<noteq> payload"
  proof -
    from v obtain h s sig where a: "jws = h @ ''..'' @ s" "CHR ''.'' \<notin> set h" "CHR ''.'' \<notin> set s" "b64_dec env s = Inr sig"
      "ed_verify env pk (str_bytes (h @ ''.'' @ b64_enc env payload)) sig = Inr ()"
      unfolding verify_detached_jws_iff by blast
    from that(1) obtain h' s' sig' where b: "jws = h' @ ''..'' @ s'" "CHR ''.'' \<notin> set h'" "CHR ''.'' \<notin> set s'"
      "b64_dec env s' = Inr sig'" "ed_verify env pk' (str_bytes (h' @ ''.'' @ b64_enc env payload')) sig' = Inr ()"
      unfolding verify_detached_jws_iff by blast
    have "[h, [], s] = [h', [], s']"
      using split_on_three [of "CHR ''.''" jws h "[]" s] split_on_three [of "CHR ''.''" jws h' "[]" s'] a b by simp
    with a b have "sig' = sig" "h' = h" by simp_all
    moreover have "str_bytes (h @ ''.'' @ b64_enc env payload) \<noteq> str_bytes (h @ ''.'' @ b64_enc env payload')"
      using that(2) by (simp add: b64_enc_inject [OF assms(1)])
    ultimately show ?thesis using a(5) b(5) by blast
  qed
  with v show ?thesis by blast
qed

text \<open>A concrete instance of the laws: two letters per byte, and a checksum as the signature.\<close>

definition demo_pair :: "u8 \<Rightarrow> string" where
  "demo_pair b = [char_of (97 + unat (b div 16)), char_of (97 + unat (b mod 16))]"

fun demo_unpair :: "string \<Rightarrow> string + bytes" where
  "demo_unpair [] = Inr []"
| "demo_unpair [_] = Inl ''odd length''"
| "demo_unpair (x # y # r) =
     bind_result (demo_unpair r)
       (\<lambda>bs. Inr (word_of_nat ((of_char x - 97) * 16 + (of_char y - 97)) # bs))"

definition demo_env :: "(u8, u8) crypto_env" where
  "demo_env =
     \<lparr>header_json = (\<lambda>h. Inr (str_bytes (jws_alg h))), b64_enc = (\<lambda>bs. concat (map demo_pair bs)), b64_dec = demo_unpair,
      ed_sign = (\<lambda>sk m. replicate 64 (sk + sum_list m)),
      ed_verify = (\<lambda>pk m s. if s = replicate 64 (pk + sum_list m) then Inr () else Inl ''bad'')\<rparr>"

lemma demo_pair_code:
  "demo_unpair (demo_pair b @ r) = bind_result (demo_unpair r) (\<lambda>bs. Inr (b # bs))"
  "CHR ''.'' \<notin> set (demo_pair b)"
proof -
  have bound: "unat (b div 16) < 16" "unat (b mod 16) < 16"
    using unat_bound [of b] by (simp_all add: unat_div unat_mod less_mult_imp_div_less)
  have c: "of_char (char_of (97 + n) :: char) = (97 + n :: nat)" if "n < 16" for n
    using that by (simp add: of_char_of take_bit_eq_mod)
  have "unat (b div 16) * 16 + unat (b mod 16) = unat b" by (simp add: unat_div unat_mod)
  then have "(word_of_nat (unat (b div 16) * 16 + unat (b mod 16)) :: u8) = b" by simp
  then show "demo_unpair (demo_pair b @ r) = bind_result (demo_unpair r) (\<lambda>bs. Inr (b # bs))"
    using bound by (cases "demo_unpair r") (simp_all add: demo_pair_def c)
  have "char_of (97 + n) \<noteq> CHR ''.''" if "n < 16" for n :: nat
  proof
    assume "char_of (97 + n) = CHR ''.''"
    then have "of_char (char_of (97 + n) :: char) = (of_char CHR ''.'' :: nat)" by simp
    with c [OF that] show False by simp
  qed
  from this [OF bound(1)] this [OF bound(2)] show "CHR ''.'' \<notin> set (demo_pair b)"
    by (simp add: demo_pair_def)
qed

lemma demo_env_laws: "b64_laws demo_env" "key_pair demo_env k k"
proof -
  have "demo_unpair (concat (map demo_pair bs)) = Inr bs \<and> CHR ''.'' \<notin> set (concat (map demo_pair bs))" for bs
    by (induction bs) (simp_all add: demo_pair_code)
  then show "b64_laws demo_env" by (simp add: b64_laws_def demo_env_def)
  show "key_pair demo_env k k" by (simp add: key_pair_def demo_env_def)
qed

text \<open>Signing an unsigned generic credential yields one that verifies under the signer's key, and the
  verification covers every field but the proof: credentials with the same signature and the same
  remaining fields verify alike whatever their proofs say.  A credential that already has a proof is
  refused.\<close>

lemma signed_credential_verifies:
  assumes "key_pair env (kp_sk kp) (kp_pk kp)"
  shows "(case gc_sign env to_json hex_encode now vc kp of
      Inr sc \<Rightarrow> gc_proof vc = None \<and> sc_verify env to_json sc (kp_pk kp) = Inr () \<and> (sc_vc sc)\<lparr>gc_proof := None\<rparr> = vc \<and>
        sc_verify env to_json (sc\<lparr>sc_vc := (sc_vc sc)\<lparr>gc_proof := pr\<rparr>\<rparr>) pk = sc_verify env to_json sc pk
    | Inl e \<Rightarrow> e = AlreadySigned \<longleftrightarrow> gc_proof vc \<noteq> None)"
  using assms
  by (cases vc)
    (auto simp: gc_sign_def sc_verify_def gc_canonical_bytes_def kp_sign_def key_pair_def Let_def map_err_def
      bind_result_def split: sum.splits)

end
