(* ===== verification/Credentials.thy ===== *)
theory Credentials
  imports Quorum Jws Json
begin

text \<open>
  Verifiable credentials, credential bundles and quorum configurations of \<open>crates/common/icn-types/src\<close>:
  \<open>identity.rs\<close>, \<open>trust.rs\<close> and their error types (\<open>error.rs\<close>).

  The derived JSON representation of a credential is written out (\<open>to_value\<close>); the printer \<open>to_vec\<close> and the JSON text of a
  quorum rule are parameters.  Clock readings are the RFC 3339 texts they are stored as.  A panic
  (the division by the number of authorised identities) is the result \<open>None\<close>.
\<close>

section \<open>Errors\<close>

datatype VcError =
    VcSerialization string
  | VcSigning JwsError
  | InvalidStructure
  | VcMissingField string

datatype IdentityError =
    LocalVc VcError
  | ExternalCredentialProcessing CredentialError
  | DidProcessing DidError
  | JwsProcessing JwsError
  | IdentityQuorumProcessing QuorumError
  | TrustBundleProcessing TrustBundleError
  | Deserialization string

datatype TrustError =
    BundleProcessing TrustBundleError
  | LocalCredentialInBundle VcError
  | ExternalCredentialInBundle CredentialError
  | QuorumProcessing QuorumError
  | JwsVerification JwsError
  | Identity IdentityError
  | Crypto CryptoError
  | WeightedThresholdUnachievable u32 u32

section \<open>Quorum configurations\<close>

datatype QuorumRule = RuleMajority | RuleThreshold u8 | RuleWeighted "(string, u32) hmap" u32

definition QuorumRule_default :: QuorumRule where
  "QuorumRule_default = RuleMajority"

record QuorumConfig =
  rule :: QuorumRule
  authorized_dids :: "string list"

record RuleQuorumProof =
  proof_signers :: "string list"
  proof_rule :: QuorumRule
  proof_timestamp :: string

definition new_majority :: "string list \<Rightarrow> QuorumConfig" where
  "new_majority dids = \<lparr>rule = RuleMajority, authorized_dids = dids\<rparr>"

definition new_threshold :: "string list \<Rightarrow> u8 \<Rightarrow> TrustError + QuorumConfig" where
  "new_threshold dids threshold =
     (if threshold > 100 then Inl (QuorumProcessing (ThresholdTooHigh threshold (length dids)))
      else Inr \<lparr>rule = RuleThreshold threshold, authorized_dids = dids\<rparr>)"

definition new_weighted :: "(string, u32) hmap \<Rightarrow> u32 \<Rightarrow> TrustError + QuorumConfig" where
  "new_weighted weights threshold =
     (let total_weight = sum_list (hvalues weights)
      in if threshold > total_weight then Inl (WeightedThresholdUnachievable threshold total_weight)
         else Inr \<lparr>rule = RuleWeighted weights threshold, authorized_dids = hkeys weights\<rparr>)"

definition validate_quorum ::
    "(string \<Rightarrow> DidError + did) \<Rightarrow> QuorumConfig \<Rightarrow> string list \<Rightarrow> (TrustError + bool) option" where
  "validate_quorum parse_did c signers =
     (case find (\<lambda>s. s \<notin> set (authorized_dids c)) signers of
        Some s \<Rightarrow> Some (bind_result (map_err (\<lambda>e. Identity (DidProcessing e)) (parse_did s))
                    (\<lambda>d. Inl (QuorumProcessing (UnauthorizedSigner d))))
      | None \<Rightarrow>
          if card (set signers) \<noteq> length signers then Some (Inl (QuorumProcessing DuplicateSigner))
          else case rule c of
            RuleMajority \<Rightarrow> Some (Inr (length signers \<ge> length (authorized_dids c) div 2 + 1))
          | RuleThreshold threshold \<Rightarrow>
              if length (authorized_dids c) = 0 then None
              else Some (Inr ((length signers * 100) div length (authorized_dids c) \<ge> unat threshold))
          | RuleWeighted weights threshold \<Rightarrow>
              Some (Inr (foldl (\<lambda>total s. case hget weights s of Some w \<Rightarrow> total + w | None \<Rightarrow> total) 0 signers
                \<ge> threshold)))"

section \<open>Credentials\<close>

record CredentialSubject =
  subject_id :: string
  claims :: "(string, Value) hmap"

record CredentialProof =
  cp_type :: string
  created :: string
  verification_method :: string
  proof_purpose :: string
  jws :: string

record VerifiableCredential =
  context_of :: "string list"
  vc_id :: string
  type_of :: "string list"
  issuer :: string
  issuance_date :: string
  expiration_date :: "string option"
  credential_subject :: CredentialSubject
  vc_proof :: CredentialProof

record ExecutionReceiptCredential =
  erc_credential :: VerifiableCredential
  erc_execution_cid :: "string option"
  erc_success :: bool
  erc_output :: string
  erc_resources_consumed :: u64

record VcAnchorCredential =
  ac_credential :: VerifiableCredential
  ac_dag_root :: string
  ac_epoch :: u64

text \<open>What \<open>#[derive(Serialize)]\<close> and its attributes make of a credential.\<close>

definition subject_value :: "CredentialSubject \<Rightarrow> Value" where
  "subject_value s = Object (map_of_entries
     ((''id'', String (subject_id s)) #
      (if claims s = [] then [] else [(''claims'', Object (map_of_entries (claims s)))])))"

definition credential_proof_value :: "CredentialProof \<Rightarrow> Value" where
  "credential_proof_value p = Object (map_of_entries
     [(''type'', String (cp_type p)), (''created'', String (created p)),
      (''verification_method'', String (verification_method p)), (''proof_purpose'', String (proof_purpose p)),
      (''jws'', String (jws p))])"

definition signed_fields :: "VerifiableCredential \<Rightarrow> (string \<times> Value) list" where
  "signed_fields vc =
     [(''@context'', Array (map String (context_of vc))), (''id'', String (vc_id vc)),
      (''type'', Array (map String (type_of vc))), (''issuer'', String (issuer vc)),
      (''issuance_date'', String (issuance_date vc))] @
     (case expiration_date vc of None \<Rightarrow> [] | Some e \<Rightarrow> [(''expiration_date'', String e)]) @
     [(''credential_subject'', subject_value (credential_subject vc))]"

definition to_value :: "VerifiableCredential \<Rightarrow> Value" where
  "to_value vc = Object (map_of_entries (signed_fields vc @ [(''proof'', credential_proof_value (vc_proof vc))]))"

definition canonical_bytes :: "(Value \<Rightarrow> string + bytes) \<Rightarrow> VerifiableCredential \<Rightarrow> VcError + bytes" where
  "canonical_bytes to_vec vc =
     (case to_value vc of
        Object m \<Rightarrow> map_err VcSerialization (to_vec (sort_json_object (map_remove m ''proof'')))
      | _ \<Rightarrow> Inl InvalidStructure)"

definition vc_sign ::
    "('sk, 'pk) crypto_env \<Rightarrow> (Value \<Rightarrow> string + bytes) \<Rightarrow> VerifiableCredential \<Rightarrow> 'sk \<Rightarrow> VcError + string" where
  "vc_sign env to_vec vc keypair =
     bind_result (canonical_bytes to_vec vc) (\<lambda>c. map_err VcSigning (sign_detached_jws env c keypair))"

definition vc_verify ::
    "('sk, 'pk) crypto_env \<Rightarrow> (Value \<Rightarrow> string + bytes) \<Rightarrow> VerifiableCredential \<Rightarrow> 'pk \<Rightarrow> VcError + unit" where
  "vc_verify env to_vec vc public_key =
     bind_result (canonical_bytes to_vec vc) (\<lambda>c.
       map_err VcSigning (verify_detached_jws env c (jws (vc_proof vc)) public_key))"

definition with_signature ::
    "('sk, 'pk) crypto_env \<Rightarrow> (Value \<Rightarrow> string + bytes) \<Rightarrow> string \<Rightarrow> VerifiableCredential \<Rightarrow> 'sk \<Rightarrow> string
      \<Rightarrow> VcError + VerifiableCredential" where
  "with_signature env to_vec now vc keypair vm =
     bind_result (canonical_bytes to_vec vc) (\<lambda>c.
     bind_result (map_err VcSigning (sign_detached_jws env c keypair)) (\<lambda>j.
       Inr (vc\<lparr>vc_proof := \<lparr>cp_type = ''Ed25519Signature2020'', created = now, verification_method = vm,
                  proof_purpose = ''assertionMethod'', jws = j\<rparr>\<rparr>)))"

section \<open>The credential builder\<close>

record VerifiableCredentialBuilder =
  vb_context :: "string list"
  vb_id :: "string option"
  vb_type :: "string list"
  vb_issuer :: "string option"
  vb_issuance_date :: "string option"
  vb_expiration_date :: "string option"
  vb_subject_id :: "string option"
  vb_claims :: "(string, Value) hmap"
  vb_proof :: "CredentialProof option"

definition VerifiableCredentialBuilder_new :: VerifiableCredentialBuilder where
  "VerifiableCredentialBuilder_new =
     \<lparr>vb_context = [''https://www.w3.org/2018/credentials/v1''], vb_id = None, vb_type = [''VerifiableCredential''],
      vb_issuer = None, vb_issuance_date = None, vb_expiration_date = None, vb_subject_id = None, vb_claims = [],
      vb_proof = None\<rparr>"

definition vb_set_id where "vb_set_id b (x :: string) = b\<lparr>vb_id := Some x\<rparr>"
definition vb_add_type where "vb_add_type b (x :: string) = b\<lparr>vb_type := vb_type b @ [x]\<rparr>"
definition vb_set_issuer where "vb_set_issuer b (x :: string) = b\<lparr>vb_issuer := Some x\<rparr>"
definition vb_set_issuance_date where "vb_set_issuance_date b (x :: string) = b\<lparr>vb_issuance_date := Some x\<rparr>"
definition vb_set_expiration_date where "vb_set_expiration_date b (x :: string) = b\<lparr>vb_expiration_date := Some x\<rparr>"
definition vb_set_subject_id where "vb_set_subject_id b (x :: string) = b\<lparr>vb_subject_id := Some x\<rparr>"
definition vb_add_claim where "vb_add_claim b (k :: string) v = b\<lparr>vb_claims := hinsert (vb_claims b) k v\<rparr>"
definition vb_set_proof where "vb_set_proof b p = b\<lparr>vb_proof := Some p\<rparr>"

definition build_credential :: "VerifiableCredentialBuilder \<Rightarrow> IdentityError + VerifiableCredential" where
  "build_credential b =
     bind_result (ok_or (vb_id b) (LocalVc (VcMissingField ''ID is required''))) (\<lambda>i.
     bind_result (ok_or (vb_issuer b) (LocalVc (VcMissingField ''Issuer is required''))) (\<lambda>iss.
     bind_result (ok_or (vb_issuance_date b) (LocalVc (VcMissingField ''Issuance date is required''))) (\<lambda>dat.
     bind_result (ok_or (vb_subject_id b) (LocalVc (VcMissingField ''Subject ID is required''))) (\<lambda>sid.
     bind_result (ok_or (vb_proof b) (LocalVc (VcMissingField ''Proof is required''))) (\<lambda>p.
       Inr \<lparr>context_of = vb_context b, vc_id = i, type_of = vb_type b, issuer = iss, issuance_date = dat,
            expiration_date = vb_expiration_date b,
            credential_subject = \<lparr>subject_id = sid, claims = vb_claims b\<rparr>, vc_proof = p\<rparr>)))))"

section \<open>Bundles of credentials\<close>

record CredentialBundle =
  bundle_id :: string
  credentials :: "VerifiableCredential list"
  quorum_rule :: string
  bundle_created :: string
  expires :: "string option"

text \<open>The loop that collects the issuers; \<open>None\<close> is the return on a repeated credential id.\<close>

fun collect_signers :: "string list \<Rightarrow> string list \<Rightarrow> VerifiableCredential list \<Rightarrow> string list option" where
  "collect_signers unique_ids signers [] = Some signers"
| "collect_signers unique_ids signers (c # cs) =
     (if vc_id c \<in> set unique_ids then None
      else collect_signers (vc_id c # unique_ids) (signers @ [issuer c]) cs)"

definition credential_bundle_verify ::
    "(string \<Rightarrow> DidError + did) \<Rightarrow> CredentialBundle \<Rightarrow> QuorumConfig \<Rightarrow> (TrustError + bool) option" where
  "credential_bundle_verify parse_did b config =
     (case collect_signers [] [] (credentials b) of
        None \<Rightarrow> Some (Inl (LocalCredentialInBundle InvalidStructure))
      | Some signers \<Rightarrow>
          if card (set signers) \<noteq> length signers then Some (Inl (QuorumProcessing DuplicateSigner))
          else validate_quorum parse_did config signers)"

definition new_with_proof ::
    "(QuorumRule \<Rightarrow> string + string) \<Rightarrow> string \<Rightarrow> string \<Rightarrow> VerifiableCredential list \<Rightarrow> QuorumRule \<Rightarrow> CredentialBundle" where
  "new_with_proof rule_str now i cs r =
     \<lparr>bundle_id = i, credentials = cs, quorum_rule = (case rule_str r of Inr s \<Rightarrow> s | Inl _ \<Rightarrow> []),
      bundle_created = now, expires = None\<rparr>"

definition with_expiration :: "CredentialBundle \<Rightarrow> string \<Rightarrow> CredentialBundle" where
  "with_expiration b e = b\<lparr>expires := Some e\<rparr>"

definition extract_signers :: "CredentialBundle \<Rightarrow> string list" where
  "extract_signers b = map issuer (credentials b)"

definition bundle_validate_quorum ::
    "(string \<Rightarrow> DidError + did) \<Rightarrow> (string \<Rightarrow> string + QuorumRule) \<Rightarrow> CredentialBundle \<Rightarrow> string list
      \<Rightarrow> (TrustError + bool) option" where
  "bundle_validate_quorum parse_did rule_of_str b dids =
     (case rule_of_str (quorum_rule b) of
        Inl e \<Rightarrow> Some (Inl (Identity (Deserialization e)))
      | Inr r \<Rightarrow> validate_quorum parse_did \<lparr>rule = r, authorized_dids = dids\<rparr> (extract_signers b))"

section \<open>What is signed\<close>

text \<open>The value whose bytes are signed.\<close>

definition canonical_value :: "VerifiableCredential \<Rightarrow> Value" where
  "canonical_value vc = Object (map_of_entries (map (\<lambda>(k, v). (k, sort_json v)) (signed_fields vc)))"

lemma signed_fields_distinct: "distinct (map fst (signed_fields vc @ [(''proof'', p)]))"
  by (simp add: signed_fields_def split: option.split)

lemma mset_map_of_entries: "distinct (map fst xs) \<Longrightarrow> mset (map_of_entries xs) = mset xs"
proof -
  assume d: "distinct (map fst xs)"
  then have "distinct xs" by (simp add: distinct_map)
  moreover have "distinct (map_of_entries xs)"
    using map_of_entries_ok [of xs] by (simp add: map_ok_def distinct_map)
  ultimately show ?thesis
    using map_of_entries_set [OF d] by (simp add: set_eq_iff_mset_eq_distinct)
qed

lemma sort_json_perm:
  assumes "distinct (map fst xs)" "mset ys = mset xs"
  shows "sort_json (Object ys) = sort_json (Object xs)"
proof -
  have "mset (map fst ys) = mset (map fst xs)" using assms(2) by simp
  then have d: "distinct (map fst ys)" using assms(1) mset_eq_imp_distinct_iff by blast
  have "map_of_entries (map (\<lambda>(k, v). (k, sort_json v)) ys) = map_of_entries (map (\<lambda>(k, v). (k, sort_json v)) xs)"
    using assms(2) d by (intro map_of_entries_perm) simp_all
  with d assms(1) show ?thesis by (simp add: sort_json_entries del: sort_json.simps(1))
qed

lemma sort_json_map_of_entries:
  "distinct (map fst xs) \<Longrightarrow>
   sort_json (Object (map_of_entries xs)) = Object (map_of_entries (map (\<lambda>(k, v). (k, sort_json v)) xs))"
  using sort_json_perm [OF _ mset_map_of_entries] by (metis sort_json_entries)

lemma remove_proof:
  "map_remove (map_of_entries (signed_fields vc @ [(''proof'', p)])) ''proof'' = map_of_entries (signed_fields vc)"
proof -
  have f: "map_of (signed_fields vc) ''proof'' = None"
    using signed_fields_distinct [of vc p] by (simp add: map_of_eq_None_iff)
  have d: "distinct (map fst (signed_fields vc))" using signed_fields_distinct [of vc p] by simp
  show ?thesis
    using f by (intro map_ok_unique map_remove_ok map_of_entries_ok)
      (auto simp: map_of_map_remove map_of_map_of_entries [OF signed_fields_distinct] map_of_map_of_entries [OF d]
        fun_eq_iff map_add_def split: option.splits)
qed

lemma canonical_bytes_value: "canonical_bytes to_vec vc = map_err VcSerialization (to_vec (canonical_value vc))"
proof -
  have "distinct (map fst (signed_fields vc))" using signed_fields_distinct [of vc undefined] by simp
  then show ?thesis
    by (simp add: canonical_bytes_def to_value_def remove_proof sort_json_object_def sort_json_map_of_entries
        canonical_value_def del: sort_json.simps(1))
qed

lemma canonical_value_proof [simp]: "canonical_value (vc\<lparr>vc_proof := p\<rparr>) = canonical_value vc"
  by (simp add: canonical_value_def signed_fields_def)

text \<open>The claims of a credential as a map, and its other signed fields.\<close>

definition same_signed_data :: "VerifiableCredential \<Rightarrow> VerifiableCredential \<Rightarrow> bool" where
  "same_signed_data vc vc' \<longleftrightarrow>
     context_of vc = context_of vc' \<and> vc_id vc = vc_id vc' \<and> type_of vc = type_of vc' \<and> issuer vc = issuer vc' \<and>
     issuance_date vc = issuance_date vc' \<and> expiration_date vc = expiration_date vc' \<and>
     subject_id (credential_subject vc) = subject_id (credential_subject vc') \<and>
     map_of (claims (credential_subject vc)) = map_of (claims (credential_subject vc'))"

definition claims_ok :: "VerifiableCredential \<Rightarrow> bool" where
  "claims_ok vc \<longleftrightarrow> hwf (claims (credential_subject vc)) \<and>
     (\<forall>(k, v) \<in> set (claims (credential_subject vc)). canonical v)"

lemma sort_entries_id: "\<forall>(k, v) \<in> set m. canonical v \<Longrightarrow> map (\<lambda>(k, v). (k, sort_json v)) m = m"
  by (intro map_idI) (auto simp: sort_json_fixpoint)

lemma sort_subject:
  assumes "hwf (claims s)" "\<forall>(k, v) \<in> set (claims s). canonical v"
  shows "sort_json (subject_value s) = Object (map_of_entries
    ((''id'', String (subject_id s)) # (if claims s = [] then [] else [(''claims'', Object (map_of_entries (claims s)))])))"
proof -
  have "sort_json (Object (map_of_entries (claims s))) = Object (map_of_entries (claims s))"
    using assms by (simp add: sort_json_map_of_entries sort_entries_id hwf_def del: sort_json.simps(1))
  then show ?thesis
    by (simp add: subject_value_def sort_json_map_of_entries del: sort_json.simps(1))
qed

lemma map_of_entries_eq_iff:
  "distinct (map fst xs) \<Longrightarrow> distinct (map fst ys) \<Longrightarrow> map_of_entries xs = map_of_entries ys \<longleftrightarrow> map_of xs = map_of ys"
  by (metis map_ok_unique map_of_entries_ok map_of_map_of_entries)

lemma sort_subject_eq:
  assumes "hwf (claims s)" "\<forall>(k, v) \<in> set (claims s). canonical v"
    and "hwf (claims s')" "\<forall>(k, v) \<in> set (claims s'). canonical v"
  shows "sort_json (subject_value s) = sort_json (subject_value s') \<longleftrightarrow>
    subject_id s = subject_id s' \<and> map_of (claims s) = map_of (claims s')"
proof -
  let ?xs = "\<lambda>s. (''id'', String (subject_id s)) #
    (if claims s = [] then [] else [(''claims'', Object (map_of_entries (claims s)))])"
  have d: "distinct (map fst (?xs s))" for s by simp
  have e: "map_of (claims s) = Map.empty \<longleftrightarrow> claims s = []" for s by simp
  have "map_of (?xs s) = map_of (?xs s') \<longleftrightarrow>
      map_of (?xs s) ''id'' = map_of (?xs s') ''id'' \<and> map_of (?xs s) ''claims'' = map_of (?xs s') ''claims''"
    by (auto simp: fun_eq_iff)
  also have "\<dots> \<longleftrightarrow> subject_id s = subject_id s' \<and> map_of (claims s) = map_of (claims s')"
    using map_of_entries_eq_iff [of "claims s" "claims s'"] assms(1,3) e [of s] e [of s'] by (auto simp: hwf_def)
  finally show ?thesis
    by (simp only: sort_subject [OF assms(1,2)] sort_subject [OF assms(3,4)] Value.inject map_of_entries_eq_iff [OF d d])
qed

lemma sort_json_strings [simp]: "sort_json (Array (map String xs)) = Array (map String xs)"
  by simp

lemma map_of_signed:
  "map_of (map (\<lambda>(k, v). (k, sort_json v)) (signed_fields vc)) = (\<lambda>k.
     if k = ''@context'' then Some (Array (map String (context_of vc)))
     else if k = ''id'' then Some (String (vc_id vc))
     else if k = ''type'' then Some (Array (map String (type_of vc)))
     else if k = ''issuer'' then Some (String (issuer vc))
     else if k = ''issuance_date'' then Some (String (issuance_date vc))
     else if k = ''expiration_date'' then map_option String (expiration_date vc)
     else if k = ''credential_subject'' then Some (sort_json (subject_value (credential_subject vc)))
     else None)"
  by (cases "expiration_date vc") (auto simp: signed_fields_def fun_eq_iff simp del: sort_json.simps(1))

lemma map_String_inject [simp]: "map String xs = map String ys \<longleftrightarrow> xs = ys"
  by (auto simp: list_eq_iff_nth_eq)

lemma map_option_String_inject [simp]: "map_option String x = map_option String y \<longleftrightarrow> x = y"
  by (cases x; cases y) auto

lemma signed_map_eq_iff:
  "map_of (map (\<lambda>(k, v). (k, sort_json v)) (signed_fields vc)) =
     map_of (map (\<lambda>(k, v). (k, sort_json v)) (signed_fields vc')) \<longleftrightarrow>
   context_of vc = context_of vc' \<and> vc_id vc = vc_id vc' \<and> type_of vc = type_of vc' \<and> issuer vc = issuer vc' \<and>
   issuance_date vc = issuance_date vc' \<and> expiration_date vc = expiration_date vc' \<and>
   sort_json (subject_value (credential_subject vc)) = sort_json (subject_value (credential_subject vc'))"
  (is "?f vc = ?f vc' \<longleftrightarrow> ?r")
proof
  assume e: "?f vc = ?f vc'"
  have "?f vc k = ?f vc' k" for k using e by simp
  from this [of "''@context''"] this [of "''id''"] this [of "''type''"] this [of "''issuer''"]
    this [of "''issuance_date''"] this [of "''expiration_date''"] this [of "''credential_subject''"]
  show ?r unfolding map_of_signed by simp
next
  assume ?r
  then show "?f vc = ?f vc'" unfolding map_of_signed by (simp only:)
qed

lemma canonical_value_iff:
  assumes "claims_ok vc" "claims_ok vc'"
  shows "canonical_value vc = canonical_value vc' \<longleftrightarrow> same_signed_data vc vc'"
proof -
  have d: "distinct (map fst (map (\<lambda>(k, v). (k, sort_json v)) (signed_fields vc)))" for vc
    using signed_fields_distinct [of vc undefined] by simp
  show ?thesis
    using sort_subject_eq [of "credential_subject vc" "credential_subject vc'"] assms
    unfolding canonical_value_def Value.inject map_of_entries_eq_iff [OF d d] signed_map_eq_iff same_signed_data_def
      claims_ok_def
    by blast
qed

lemma with_signature_verifies:
  assumes "b64_laws env" "key_pair env sk pk" "with_signature env to_vec now vc sk vm = Inr vc'"
  shows "vc_verify env to_vec vc' pk = Inr () \<and> vc'\<lparr>vc_proof := vc_proof vc\<rparr> = vc"
proof -
  from assms(3) obtain c j where c: "canonical_bytes to_vec vc = Inr c" "sign_detached_jws env c sk = Inr j"
    "vc' = vc\<lparr>vc_proof := \<lparr>cp_type = ''Ed25519Signature2020'', created = now, verification_method = vm,
       proof_purpose = ''assertionMethod'', jws = j\<rparr>\<rparr>"
    by (auto simp: with_signature_def bind_result_Inr_iff)
  have "canonical_bytes to_vec vc' = Inr c" using c(1,3) by (simp add: canonical_bytes_value)
  with sign_verify_jws [OF assms(1,2) c(2)] c(3) show ?thesis by (simp add: vc_verify_def)
qed

section \<open>Quorum configurations\<close>

lemma find_unauthorized: "find (\<lambda>s. s \<notin> A) xs = None \<longleftrightarrow> set xs \<subseteq> A"
  by (auto simp: find_None_iff)

definition rule_weight :: "(string, u32) hmap \<Rightarrow> string \<Rightarrow> nat" where
  "rule_weight w s = unat (hget_or 0 w s)"

lemma rule_weights_exact:
  "unat acc + sum_list (map (rule_weight w) ss) < 2 ^ 32 \<Longrightarrow>
   unat (foldl (\<lambda>total s. case hget w s of Some x \<Rightarrow> total + x | None \<Rightarrow> total) acc ss) =
     unat acc + sum_list (map (rule_weight w) ss)"
proof (induction ss arbitrary: acc)
  case Nil
  then show ?case by simp
next
  case (Cons s ss)
  show ?case
  proof (cases "hget w s")
    case None
    then show ?thesis using Cons by (simp add: rule_weight_def hget_or_def)
  next
    case (Some x)
    then have "rule_weight w s = unat x" by (simp add: rule_weight_def hget_or_def)
    moreover from this have "unat (acc + x) = unat acc + unat x"
      using Cons.prems by (intro unat_add_exact) simp
    ultimately show ?thesis using Cons.IH [of "acc + x"] Cons.prems Some by simp
  qed
qed

text \<open>What a configuration asks of the signers.\<close>

definition config_met :: "QuorumConfig \<Rightarrow> string list \<Rightarrow> bool" where
  "config_met c ss =
     (case rule c of
        RuleMajority \<Rightarrow> length (authorized_dids c) < 2 * length ss
      | RuleThreshold t \<Rightarrow> unat t * length (authorized_dids c) \<le> 100 * length ss
      | RuleWeighted w t \<Rightarrow> unat t \<le> sum_list (map (rule_weight w) ss))"

definition config_fits :: "QuorumConfig \<Rightarrow> string list \<Rightarrow> bool" where
  "config_fits c ss = (case rule c of RuleWeighted w t \<Rightarrow> sum_list (map (rule_weight w) ss) < 2 ^ 32 | _ \<Rightarrow> True)"

lemma majority_count: "n div 2 + 1 \<le> k \<longleftrightarrow> n < 2 * k" for n k :: nat
  by linarith

lemma percentage_count: "0 < n \<Longrightarrow> t \<le> k * 100 div n \<longleftrightarrow> t * n \<le> 100 * k" for n k t :: nat
  by (simp add: less_eq_div_iff_mult_less_eq mult.commute)

text \<open>The answer of \<open>validate_quorum\<close> on every input.\<close>

lemma validate_quorum_cases:
  assumes "config_fits c ss"
  shows "validate_quorum parse_did c ss =
    (case find (\<lambda>s. s \<notin> set (authorized_dids c)) ss of
       Some s \<Rightarrow> Some (Inl (case parse_did s of Inl e \<Rightarrow> Identity (DidProcessing e) | Inr d \<Rightarrow> QuorumProcessing (UnauthorizedSigner d)))
     | None \<Rightarrow>
         if \<not> distinct ss then Some (Inl (QuorumProcessing DuplicateSigner))
         else if authorized_dids c = [] \<and> (\<exists>t. rule c = RuleThreshold t) then None
         else Some (Inr (config_met c ss)))"
proof (cases "find (\<lambda>s. s \<notin> set (authorized_dids c)) ss")
  case (Some s)
  then show ?thesis by (cases "parse_did s") (simp_all add: validate_quorum_def)
next
  case None
  have d: "card (set ss) = length ss \<longleftrightarrow> distinct ss" using card_distinct distinct_card by blast
  show ?thesis
  proof (cases "rule c")
    case (RuleWeighted w t)
    then have "unat (foldl (\<lambda>total s. case hget w s of Some x \<Rightarrow> total + x | None \<Rightarrow> total) 0 ss) = sum_list (map (rule_weight w) ss)"
      using assms rule_weights_exact [of 0 w ss] by (simp add: config_fits_def)
    with None RuleWeighted d show ?thesis
      by (simp add: validate_quorum_def config_met_def word_le_nat_alt)
  qed (use None d in \<open>auto simp: validate_quorum_def config_met_def majority_count percentage_count\<close>)
qed

section \<open>Bundles\<close>

lemma collect_signers_iff:
  "collect_signers ids acc cs =
     (if distinct (map vc_id cs) \<and> set ids \<inter> vc_id ` set cs = {} then Some (acc @ map issuer cs) else None)"
  by (induction ids acc cs rule: collect_signers.induct) auto

lemma credential_bundle_verify_cases:
  "credential_bundle_verify parse_did b c =
     (if \<not> distinct (map vc_id (credentials b)) then Some (Inl (LocalCredentialInBundle InvalidStructure))
      else if \<not> distinct (extract_signers b) then Some (Inl (QuorumProcessing DuplicateSigner))
      else validate_quorum parse_did c (extract_signers b))"
proof -
  have "card (set ss) = length ss \<longleftrightarrow> distinct ss" for ss :: "string list" using card_distinct distinct_card by blast
  from this [of "extract_signers b"] show ?thesis
    by (simp add: credential_bundle_verify_def collect_signers_iff extract_signers_def)
qed

section \<open>Properties\<close>

text \<open>a credential signed by \<open>with_signature\<close> verifies under the signer's public key and differs from the
  unsigned one in its proof only.\<close>

lemma credential_sign_verify:
  assumes "b64_laws env" "key_pair env sk pk" "with_signature env to_vec now vc sk vm = Inr vc'"
  shows "vc_verify env to_vec vc' pk = Inr () \<and> vc'\<lparr>vc_proof := vc_proof vc\<rparr> = vc"
  using with_signature_verifies [OF assms] .

definition demo_credential :: "(string, Value) hmap \<Rightarrow> VerifiableCredential" where
  "demo_credential cl =
     \<lparr>context_of = [''c''], vc_id = ''i'', type_of = [''t''], issuer = ''d'', issuance_date = ''now'', expiration_date = None,
      credential_subject = \<lparr>subject_id = ''s'', claims = cl\<rparr>,
      vc_proof = \<lparr>cp_type = ''x'', created = ''now'', verification_method = ''v'', proof_purpose = ''p'', jws = ''j''\<rparr>\<rparr>"

lemma credential_sign_verify_witness:
  "\<exists>vc'. with_signature demo_env (\<lambda>_. Inr [3]) ''now'' (demo_credential [(''k'', Null)]) 5 ''vm'' = Inr vc' \<and>
     vc_verify demo_env (\<lambda>_. Inr [3]) vc' 5 = Inr ()"
proof -
  obtain vc' where w: "with_signature demo_env (\<lambda>_. Inr [3]) ''now'' (demo_credential [(''k'', Null)]) 5 ''vm'' = Inr vc'"
    by (simp add: with_signature_def canonical_bytes_value sign_detached_jws_def demo_env_def Let_def)
  from credential_sign_verify [OF demo_env_laws w] w show ?thesis by blast
qed

text \<open>A printer that prints every value and no two values alike, to show that the condition on the printer can hold: numbers
  and characters in unary, lists with a mark before each element and one at the end, values with a tag for their form.
  Each code is a prefix code, so that what follows it can be told from it.\<close>

definition print_nat :: "nat \<Rightarrow> bytes" where
  "print_nat n = replicate n 1 @ [0]"

definition print_text :: "string \<Rightarrow> bytes" where
  "print_text s = concat (map (\<lambda>c. 1 # print_nat (of_char c)) s) @ [0]"

fun print_value :: "Value \<Rightarrow> bytes" where
  "print_value Null = print_nat 0"
| "print_value (Bool False) = print_nat 1"
| "print_value (Bool True) = print_nat 2"
| "print_value (Number (PosInt n)) = print_nat 3 @ print_nat (unat n)"
| "print_value (Number (NegInt n)) = print_nat 4 @ print_nat (unat n)"
| "print_value (Number (Float n)) = print_nat 5 @ print_nat (unat n)"
| "print_value (String s) = print_nat 6 @ print_text s"
| "print_value (Array vs) = print_nat 7 @ concat (map (\<lambda>v. 1 # print_value v) vs) @ [0]"
| "print_value (Object kvs) = print_nat 8 @ concat (map (\<lambda>(k, v). 1 # print_text k @ print_value v) kvs) @ [0]"

lemma print_nat_prefix: "print_nat m @ xs = print_nat n @ ys \<longleftrightarrow> m = n \<and> xs = ys"
proof (induction m arbitrary: n)
  case 0
  then show ?case by (cases n) (auto simp: print_nat_def)
next
  case (Suc m)
  then show ?case by (cases n) (auto simp: print_nat_def)
qed

definition prefix_code :: "('a \<Rightarrow> bytes) \<Rightarrow> 'a \<Rightarrow> bool" where
  "prefix_code f v \<longleftrightarrow> (\<forall>w xs ys. f v @ xs = f w @ ys \<longrightarrow> v = w \<and> xs = ys)"

lemma prefix_codeI: "(\<And>w xs ys. f v @ xs = f w @ ys \<Longrightarrow> v = w \<and> xs = ys) \<Longrightarrow> prefix_code f v"
  by (simp add: prefix_code_def)

lemma prefix_code_list:
  assumes "\<And>v. v \<in> set vs \<Longrightarrow> prefix_code f v"
  shows "concat (map (\<lambda>v. 1 # f v) vs) @ 0 # xs = concat (map (\<lambda>v. 1 # f v) ws) @ 0 # ys \<Longrightarrow> vs = ws \<and> xs = ys"
  using assms
proof (induction vs arbitrary: ws)
  case Nil
  then show ?case by (cases ws) auto
next
  case (Cons v vs)
  then obtain w ws' where ws: "ws = w # ws'" by (cases ws) auto
  have "v = w \<and> concat (map (\<lambda>v. 1 # f v) vs) @ 0 # xs = concat (map (\<lambda>v. 1 # f v) ws') @ 0 # ys"
    using Cons.prems(1) Cons.prems(2) [of v] unfolding prefix_code_def ws by simp
  with Cons.IH [of ws'] Cons.prems(2) show ?case by (simp add: ws)
qed

lemma print_text_prefix: "print_text s @ xs = print_text t @ ys \<Longrightarrow> s = t \<and> xs = ys"
  using prefix_code_list [of s "\<lambda>c. print_nat (of_char c)" xs t ys]
  by (simp add: print_text_def prefix_code_def print_nat_prefix)

lemma print_value_prefix: "prefix_code print_value v"
proof (induction v rule: print_value.induct)
  case (8 vs)
  then show ?case
  proof (intro prefix_codeI)
    fix w xs ys
    assume "print_value (Array vs) @ xs = print_value w @ ys"
    then show "Array vs = w \<and> xs = ys"
      using prefix_code_list [of vs print_value xs _ ys] 8
      by (cases w rule: print_value.cases) (auto simp: print_nat_prefix)
  qed
next
  case (9 kvs)
  have kv: "prefix_code (\<lambda>(k, v). print_text k @ print_value v) kv" if "kv \<in> set kvs" for kv
    using 9 [OF that] by (cases kv) (auto simp: prefix_code_def dest!: print_text_prefix)
  have cong: "(\<lambda>(k, v). 1 # print_text k @ print_value v) = (\<lambda>kv. 1 # (\<lambda>(k, v). print_text k @ print_value v) kv)"
    by (simp add: fun_eq_iff)
  show ?case
  proof (rule prefix_codeI)
    fix w xs ys
    assume "print_value (Object kvs) @ xs = print_value w @ ys"
    then show "Object kvs = w \<and> xs = ys"
      using prefix_code_list [where vs = kvs and xs = xs and ys = ys, OF kv]
      by (cases w rule: print_value.cases) (auto simp: print_nat_prefix cong)
  qed
qed (rule prefix_codeI, case_tac w rule: print_value.cases;
    auto simp: print_nat_prefix word_unat_eq_iff [symmetric] dest!: print_text_prefix)+

lemma print_value_inj: "print_value v = print_value w \<Longrightarrow> v = w"
  using print_value_prefix [of v] unfolding prefix_code_def by blast

text \<open>C9: the signed bytes determine and are determined by the credential's data.  For credentials whose claims have distinct
  names and canonical values, and a JSON printer that prints different values differently: two
  credentials that differ only in their proofs and in the iteration order of their claims have the same canonical
  bytes, and credentials with the same canonical bytes agree in every field but the proof.\<close>

theorem canonical_bytes_exact:
  assumes "claims_ok vc" "claims_ok vc'"
    and "\<And>v w bs. to_vec v = Inr bs \<Longrightarrow> to_vec w = Inr bs \<Longrightarrow> v = w"
  shows "(same_signed_data vc vc' \<longrightarrow> canonical_bytes to_vec vc = canonical_bytes to_vec vc') \<and>
    (canonical_bytes to_vec vc = Inr bs \<and> canonical_bytes to_vec vc' = Inr bs \<longrightarrow> same_signed_data vc vc')"
proof -
  have "canonical_bytes to_vec vc = canonical_bytes to_vec vc'" if "same_signed_data vc vc'"
    using that canonical_value_iff [OF assms(1,2)] by (simp add: canonical_bytes_value)
  moreover have "same_signed_data vc vc'"
    if "canonical_bytes to_vec vc = Inr bs" "canonical_bytes to_vec vc' = Inr bs"
    using that assms(3) [of "canonical_value vc" bs "canonical_value vc'"] canonical_value_iff [OF assms(1,2)]
    by (simp add: canonical_bytes_value)
  ultimately show ?thesis by blast
qed

theorem canonical_bytes_exact_witness:
  "\<exists>bs bs'. canonical_bytes (\<lambda>v. Inr (print_value v)) (demo_credential [(''a'', Null), (''b'', Bool True)]) = Inr bs \<and>
     canonical_bytes (\<lambda>v. Inr (print_value v)) (demo_credential [(''b'', Bool True), (''a'', Null)]) = Inr bs \<and>
     canonical_bytes (\<lambda>v. Inr (print_value v)) (demo_credential [(''b'', Bool False), (''a'', Null)]) = Inr bs' \<and> bs \<noteq> bs'"
proof -
  let ?f = "\<lambda>v. Inr (print_value v) :: string + bytes"
  let ?c = "demo_credential [(''a'', Null), (''b'', Bool True)]" and ?d = "demo_credential [(''b'', Bool True), (''a'', Null)]"
    and ?e = "demo_credential [(''b'', Bool False), (''a'', Null)]"
  have ok: "claims_ok ?c" "claims_ok ?d" "claims_ok ?e"
    by (simp_all add: claims_ok_def demo_credential_def hwf_def)
  have exact: "(same_signed_data x y \<longrightarrow> canonical_bytes ?f x = canonical_bytes ?f y) \<and>
      (canonical_bytes ?f x = Inr bs \<and> canonical_bytes ?f y = Inr bs \<longrightarrow> same_signed_data x y)"
    if "claims_ok x" "claims_ok y" for x y bs
    using that by (rule canonical_bytes_exact) (auto intro: print_value_inj)
  have "same_signed_data ?c ?d" by (simp add: same_signed_data_def demo_credential_def fun_upd_twist)
  with exact [OF ok(1,2)] have same: "canonical_bytes ?f ?c = canonical_bytes ?f ?d" by blast
  have "\<not> same_signed_data ?d ?e" by (auto simp: same_signed_data_def demo_credential_def fun_eq_iff)
  with exact [OF ok(2,3)] have "\<not> (canonical_bytes ?f ?d = Inr bs \<and> canonical_bytes ?f ?e = Inr bs)" for bs
    by blast
  with same show ?thesis by (auto simp: canonical_bytes_value)
qed

text \<open>verifying a bundle of credentials looks at ids and issuers only: replacing the proofs of all
  credentials by arbitrary ones never changes the answer, so unsigned credentials that name enough
  authorised issuers pass.\<close>

lemma bundle_verify_ignores_proofs:
  "credential_bundle_verify parse_did (b\<lparr>credentials := map (\<lambda>c. c\<lparr>vc_proof := forge c\<rparr>) (credentials b)\<rparr>) config =
   credential_bundle_verify parse_did b config"
  by (simp add: credential_bundle_verify_cases extract_signers_def o_def)

text \<open>a configuration accepts a list of signers exactly when they are distinct authorised identities and
  are more than half of them, reach the percentage, or reach the weight threshold (weights summing
  within 32 bits); the only input on which it answers nothing is the empty list under a percentage rule
  with no authorised identities, where the code divides by zero.\<close>

lemma validate_quorum_spec:
  assumes "config_fits c ss"
  shows "(validate_quorum parse_did c ss = Some (Inr True) \<longleftrightarrow>
      set ss \<subseteq> set (authorized_dids c) \<and> distinct ss \<and> config_met c ss \<and>
      \<not> (authorized_dids c = [] \<and> (\<exists>t. rule c = RuleThreshold t))) \<and>
    (validate_quorum parse_did c ss = None \<longleftrightarrow> ss = [] \<and> authorized_dids c = [] \<and> (\<exists>t. rule c = RuleThreshold t))"
proof (cases "find (\<lambda>s. s \<notin> set (authorized_dids c)) ss")
  case (Some s)
  then have "\<not> set ss \<subseteq> set (authorized_dids c)" by (metis find_unauthorized option.distinct(1))
  moreover have "ss \<noteq> []" using Some by auto
  ultimately show ?thesis by (simp add: validate_quorum_cases [OF assms] Some)
next
  case None
  then have a: "set ss \<subseteq> set (authorized_dids c)" by (simp only: find_unauthorized)
  then have e: "ss = [] \<and> authorized_dids c = [] \<longleftrightarrow> authorized_dids c = []" by auto
  let ?p = "authorized_dids c = [] \<and> (\<exists>t. rule c = RuleThreshold t)"
  have v: "validate_quorum parse_did c ss =
      (if \<not> distinct ss then Some (Inl (QuorumProcessing DuplicateSigner)) else if ?p then None else Some (Inr (config_met c ss)))"
    using validate_quorum_cases [OF assms] None by simp
  have "?p \<Longrightarrow> distinct ss" using e by auto
  then show ?thesis unfolding v using a e by (simp split: if_split) blast
qed

lemma validate_quorum_spec_witness:
  "validate_quorum (\<lambda>s. Inr s) (new_majority [''a'', ''b'', ''c'']) [''c'', ''a''] = Some (Inr True) \<and>
   validate_quorum (\<lambda>s. Inr s) \<lparr>rule = RuleThreshold 50, authorized_dids = []\<rparr> [] = None"
  using validate_quorum_spec [of "new_majority [''a'', ''b'', ''c'']" "[''c'', ''a'']" "\<lambda>s. Inr s"]
    validate_quorum_spec [of "\<lparr>rule = RuleThreshold 50, authorized_dids = []\<rparr>" "[]" "\<lambda>s. Inr s"]
  by (simp add: config_fits_def config_met_def new_majority_def)

end
