(* ===== verification/Receipts.thy ===== *)
theory Receipts
  imports Jws Economics
begin

text \<open>
  Execution receipts: the verification trait of \<open>crates/common/icn-types/src/receipt_verification.rs\<close>, the
  runtime's receipt (\<open>runtime_receipt.rs\<close>), and the mesh receipt with its embedded signature
  (\<open>crates/common/icn-mesh-receipts/src/lib.rs\<close>, \<open>sign.rs\<close>).

  A verifying key is its 32 bytes, obtained from a DID by \<open>to_ed25519\<close>.  The binary encoders
  (\<open>bincode\<close>, \<open>to_cbor\<close>) and the two Ed25519 checks (\<open>verify_strict\<close>, and \<open>ed_verify\<close> of the crypto record) are parameters.
  The trait is the locale \<open>verifiable_receipt\<close>, interpreted on both receipts.
\<close>

section \<open>Verifiable receipts\<close>

record ExecutionReceiptPayload =
  pl_id :: string
  pl_issuer :: string
  pl_proposal_id :: "string option"
  pl_wasm_cid :: "string option"
  pl_ccl_cid :: "string option"
  pl_timestamp :: u64

text \<open>The errors of \<open>verify_signature\<close>, in the order in which the code can raise them.\<close>

datatype receipt_error =
    SignatureMissing
  | IssuerEmpty
  | InvalidIssuer DidError
  | NoVerifyingKey DidError
  | PayloadSerialization string
  | SignatureFormat nat
  | SignatureRejected string

record receipt_env =
  mb_dec :: "string \<Rightarrow> string + bytes"
  vk_of_bytes :: "bytes \<Rightarrow> string + bytes"
  bincode :: "ExecutionReceiptPayload \<Rightarrow> string + bytes"
  verify_strict :: "bytes \<Rightarrow> bytes \<Rightarrow> bytes \<Rightarrow> string + unit"

definition verify_signature ::
    "receipt_env \<Rightarrow> ExecutionReceiptPayload \<Rightarrow> bytes option \<Rightarrow> string \<Rightarrow> receipt_error + unit" where
  "verify_signature env payload sig issuer_did_str =
     bind_result (ok_or sig SignatureMissing) (\<lambda>sig_bytes.
     if issuer_did_str = [] then Inl IssuerEmpty
     else
       bind_result (map_err InvalidIssuer (did_from_str (mb_dec env) (vk_of_bytes env) issuer_did_str)) (\<lambda>issuer_did.
       bind_result (map_err NoVerifyingKey (to_ed25519 (mb_dec env) (vk_of_bytes env) issuer_did)) (\<lambda>verifying_key.
       bind_result (map_err PayloadSerialization (bincode env payload)) (\<lambda>serialized_payload.
       if length sig_bytes \<noteq> 64 then Inl (SignatureFormat (length sig_bytes))
       else map_err SignatureRejected (verify_strict env verifying_key serialized_payload sig_bytes)))))"

section \<open>The runtime's receipt\<close>

record RuntimeExecutionMetrics =
  host_calls :: u64
  io_bytes :: u64
  mana_cost :: "u64 option"

record RuntimeExecutionReceipt =
  rr_id :: string
  rr_issuer :: string
  rr_proposal_id :: string
  rr_wasm_cid :: string
  rr_ccl_cid :: string
  rr_metrics :: RuntimeExecutionMetrics
  rr_anchored_cids :: "string list"
  rr_resource_usage :: "(string \<times> u64) list"
  rr_timestamp :: u64
  rr_dag_epoch :: "u64 option"
  rr_receipt_cid :: "string option"
  rr_signature :: "bytes option"

datatype ReceiptCidError = ReceiptSerialization string

definition runtime_receipt_cid :: "RuntimeExecutionReceipt \<Rightarrow> ReceiptCidError + 'cid" where
  "runtime_receipt_cid r =
     Inl (ReceiptSerialization ''CID generation temporarily disabled due to multihash::Code import issue'')"

definition runtime_payload :: "RuntimeExecutionReceipt \<Rightarrow> ExecutionReceiptPayload" where
  "runtime_payload r =
     \<lparr>pl_id = rr_id r, pl_issuer = rr_issuer r, pl_proposal_id = Some (rr_proposal_id r),
      pl_wasm_cid = Some (rr_wasm_cid r), pl_ccl_cid = Some (rr_ccl_cid r), pl_timestamp = rr_timestamp r\<rparr>"

definition runtime_verify :: "receipt_env \<Rightarrow> RuntimeExecutionReceipt \<Rightarrow> receipt_error + unit" where
  "runtime_verify env r = verify_signature env (runtime_payload r) (rr_signature r) (rr_issuer r)"

section \<open>The mesh receipt\<close>

datatype MeshJobStatus = MeshInProgress | MeshCompleted | MeshFailed | MeshCancelled

datatype SignError =
    SignSerialization string
  | ExecutorMismatch string string
  | MissingSignature
  | InvalidSignatureFormat nat
  | VerificationFailed
  | DidProcessingError DidError

record MeshExecutionReceipt =
  mr_job_id :: string
  mr_executor :: did
  mr_status :: MeshJobStatus
  mr_result_data_cid :: "string option"
  mr_logs_cid :: "string option"
  mr_resource_usage :: "(ResourceType, u64) hmap"
  mr_mana_cost :: "u64 option"
  mr_execution_start_time :: u64
  mr_execution_end_time :: u64
  mr_execution_end_time_dt :: u64
  mr_signature :: bytes
  mr_coop_id :: "CooperativeId option"
  mr_community_id :: "CommunityId option"

definition mesh_payload :: "MeshExecutionReceipt \<Rightarrow> ExecutionReceiptPayload" where
  "mesh_payload r =
     \<lparr>pl_id = mr_job_id r, pl_issuer = mr_executor r, pl_proposal_id = None, pl_wasm_cid = None, pl_ccl_cid = None,
      pl_timestamp = mr_execution_end_time r\<rparr>"

definition mesh_verify :: "receipt_env \<Rightarrow> MeshExecutionReceipt \<Rightarrow> receipt_error + unit" where
  "mesh_verify env r = verify_signature env (mesh_payload r) (Some (mr_signature r)) (mr_executor r)"

definition get_receipt_signing_payload ::
    "(MeshExecutionReceipt \<Rightarrow> string + bytes) \<Rightarrow> MeshExecutionReceipt \<Rightarrow> SignError + bytes" where
  "get_receipt_signing_payload to_cbor r = map_err SignSerialization (to_cbor (r\<lparr>mr_signature := []\<rparr>))"

definition sign_receipt_in_place ::
    "('sk, bytes) crypto_env \<Rightarrow> (MeshExecutionReceipt \<Rightarrow> string + bytes) \<Rightarrow> MeshExecutionReceipt \<Rightarrow> ('sk, bytes) KeyPair
      \<Rightarrow> (SignError + unit) \<times> MeshExecutionReceipt" where
  "sign_receipt_in_place env to_cbor r kp =
     (if mr_executor r \<noteq> kp_did kp then (Inl (ExecutorMismatch (kp_did kp) (mr_executor r)), r)
      else case get_receipt_signing_payload to_cbor r of
        Inl e \<Rightarrow> (Inl e, r)
      | Inr payload_bytes \<Rightarrow> (Inr (), r\<lparr>mr_signature := kp_sign env kp payload_bytes\<rparr>))"

definition verify_embedded_signature ::
    "('sk, bytes) crypto_env \<Rightarrow> receipt_env \<Rightarrow> (MeshExecutionReceipt \<Rightarrow> string + bytes) \<Rightarrow> MeshExecutionReceipt
      \<Rightarrow> SignError + bool" where
  "verify_embedded_signature env renv to_cbor r =
     (if mr_signature r = [] then Inl MissingSignature
      else
        bind_result (get_receipt_signing_payload to_cbor r) (\<lambda>payload_bytes.
        if length (mr_signature r) \<noteq> 64 then Inl (InvalidSignatureFormat (length (mr_signature r)))
        else
          bind_result (map_err DidProcessingError (to_ed25519 (mb_dec renv) (vk_of_bytes renv) (mr_executor r))) (\<lambda>verifying_key.
          if is_ok (ed_verify env verifying_key payload_bytes (mr_signature r)) then Inr True else Inl VerificationFailed)))"

section \<open>The trait\<close>

text \<open>Exactly when the default \<open>verify_signature\<close> accepts.\<close>

lemma verify_signature_iff:
  "verify_signature env payload sig d = Inr () \<longleftrightarrow>
     (\<exists>s pk bs. sig = Some s \<and> length s = 64 \<and> to_ed25519 (mb_dec env) (vk_of_bytes env) d = Inr pk \<and>
        bincode env payload = Inr bs \<and> verify_strict env pk bs s = Inr ())"
  by (auto simp: verify_signature_def bind_result_Inr_iff ok_or_Inr_iff did_from_str_def to_ed25519_def split: if_splits)

locale verifiable_receipt =
  fixes get_payload_for_signing :: "'r \<Rightarrow> ExecutionReceiptPayload"
    and get_signature_bytes :: "'r \<Rightarrow> bytes option"
    and get_issuer_did_str :: "'r \<Rightarrow> string"
  assumes payload_issuer: "pl_issuer (get_payload_for_signing r) = get_issuer_did_str r"
begin

definition verified where
  "verified env r \<longleftrightarrow> verify_signature env (get_payload_for_signing r) (get_signature_bytes r) (get_issuer_did_str r) = Inr ()"

text \<open>An accepted receipt is signed by the issuer it names.\<close>

lemma verified_signed_by_issuer:
  "verified env r \<longleftrightarrow>
     (\<exists>s pk bs. get_signature_bytes r = Some s \<and> length s = 64 \<and>
        to_ed25519 (mb_dec env) (vk_of_bytes env) (pl_issuer (get_payload_for_signing r)) = Inr pk \<and>
        bincode env (get_payload_for_signing r) = Inr bs \<and> verify_strict env pk bs s = Inr ())"
  by (simp add: verified_def verify_signature_iff payload_issuer)

text \<open>Receipts with the same payload and the same signature are accepted alike.\<close>

lemma verified_payload_only:
  "get_payload_for_signing r' = get_payload_for_signing r \<Longrightarrow> get_signature_bytes r' = get_signature_bytes r \<Longrightarrow>
   verified env r' = verified env r"
  by (simp add: verified_signed_by_issuer)

end

interpretation runtime: verifiable_receipt runtime_payload rr_signature rr_issuer
  by unfold_locales (simp add: runtime_payload_def)

interpretation mesh: verifiable_receipt mesh_payload "\<lambda>r. Some (mr_signature r)" mr_executor
  by unfold_locales (simp add: mesh_payload_def)

lemma runtime_verified: "runtime.verified env r \<longleftrightarrow> runtime_verify env r = Inr ()"
  by (simp add: runtime.verified_def runtime_verify_def)

lemma mesh_verified: "mesh.verified env r \<longleftrightarrow> mesh_verify env r = Inr ()"
  by (simp add: mesh.verified_def mesh_verify_def)

lemma verify_embedded_iff:
  "verify_embedded_signature env renv to_cbor r = Inr b \<longleftrightarrow>
     b \<and> (\<exists>pk bs. length (mr_signature r) = 64 \<and> to_cbor (r\<lparr>mr_signature := []\<rparr>) = Inr bs \<and>
        to_ed25519 (mb_dec renv) (vk_of_bytes renv) (mr_executor r) = Inr pk \<and> ed_verify env pk bs (mr_signature r) = Inr ())"
proof -
  have ok: "is_ok x \<longleftrightarrow> x = Inr ()" for x :: "string + unit" by (cases x) simp_all
  show ?thesis
    by (auto simp: verify_embedded_signature_def get_receipt_signing_payload_def bind_result_Inr_iff ok split: if_splits)
qed

lemma sign_receipt_cases:
  "sign_receipt_in_place env to_cbor r kp = (Inr (), r') \<longleftrightarrow>
     mr_executor r = kp_did kp \<and>
     (\<exists>bs. to_cbor (r\<lparr>mr_signature := []\<rparr>) = Inr bs \<and> r' = r\<lparr>mr_signature := ed_sign env (kp_sk kp) bs\<rparr>)"
  by (auto simp: sign_receipt_in_place_def get_receipt_signing_payload_def kp_sign_def map_err_def split: sum.splits)

section \<open>Properties\<close>

text \<open>a mesh receipt signed in place by its executor verifies, for a key pair whose DID yields its public
  key; and if a receipt with the same signature but other contents verifies too, then one Ed25519 signature
  is valid for two different messages (with an encoder that encodes different receipts differently), so
  the embedded signature covers every field.\<close>

lemma mesh_receipt_sign_verify:
  assumes "key_pair env (kp_sk kp) (kp_pk kp)"
    and "to_ed25519 (mb_dec renv) (vk_of_bytes renv) (kp_did kp) = Inr (kp_pk kp)"
    and "sign_receipt_in_place env to_cbor r kp = (Inr (), r')"
    and "\<forall>x y bs. to_cbor x = Inr bs \<and> to_cbor y = Inr bs \<longrightarrow> x = y"
  shows "verify_embedded_signature env renv to_cbor r' = Inr True \<and>
    (verify_embedded_signature env renv to_cbor t = Inr True \<and> mr_signature t = mr_signature r' \<and> t \<noteq> r' \<longrightarrow>
      (\<exists>pk' m m'. m \<noteq> m' \<and> ed_verify env (kp_pk kp) m (mr_signature r') = Inr () \<and>
        ed_verify env pk' m' (mr_signature r') = Inr ()))"
proof -
  from assms(3) obtain bs where bs: "mr_executor r = kp_did kp" "to_cbor (r\<lparr>mr_signature := []\<rparr>) = Inr bs"
    "r' = r\<lparr>mr_signature := ed_sign env (kp_sk kp) bs\<rparr>" unfolding sign_receipt_cases by blast
  have s: "length (mr_signature r') = 64" "ed_verify env (kp_pk kp) bs (mr_signature r') = Inr ()"
    using assms(1) bs(3) by (simp_all add: key_pair_def)
  have "verify_embedded_signature env renv to_cbor r' = Inr True"
    using bs s assms(2) by (simp add: verify_embedded_iff)
  moreover have "\<exists>pk' m m'. m \<noteq> m' \<and> ed_verify env (kp_pk kp) m (mr_signature r') = Inr () \<and>
      ed_verify env pk' m' (mr_signature r') = Inr ()"
    if t: "verify_embedded_signature env renv to_cbor t = Inr True" "mr_signature t = mr_signature r'" "t \<noteq> r'"
  proof -
    from t(1,2) obtain pk' bs' where v: "to_cbor (t\<lparr>mr_signature := []\<rparr>) = Inr bs'"
      "ed_verify env pk' bs' (mr_signature r') = Inr ()" by (auto simp: verify_embedded_iff)
    have "bs' \<noteq> bs"
    proof
      assume "bs' = bs"
      with v(1) bs(2) have "t\<lparr>mr_signature := []\<rparr> = r\<lparr>mr_signature := []\<rparr>"
        using assms(4) [rule_format, of "t\<lparr>mr_signature := []\<rparr>" bs "r\<lparr>mr_signature := []\<rparr>"] by simp
      then have "(t\<lparr>mr_signature := []\<rparr>)\<lparr>mr_signature := mr_signature r'\<rparr> = (r\<lparr>mr_signature := []\<rparr>)\<lparr>mr_signature := mr_signature r'\<rparr>"
        by simp
      moreover have "t\<lparr>mr_signature := mr_signature r'\<rparr> = t" using t(2) by (cases t) simp
      ultimately show False using t(3) bs(3) by simp
    qed
    with v(2) s(2) show ?thesis by (intro exI [of _ pk'] exI [of _ bs] exI [of _ bs']) simp
  qed
  ultimately show ?thesis by blast
qed

definition demo_mesh_receipt :: MeshExecutionReceipt where
  "demo_mesh_receipt =
     \<lparr>mr_job_id = ''j'', mr_executor = ''did:key:z'', mr_status = MeshCompleted, mr_result_data_cid = None, mr_logs_cid = None,
      mr_resource_usage = [], mr_mana_cost = None, mr_execution_start_time = 0, mr_execution_end_time = 1,
      mr_execution_end_time_dt = 1, mr_signature = [], mr_coop_id = None, mr_community_id = None\<rparr>"

definition demo_receipt_env :: receipt_env where
  "demo_receipt_env =
     \<lparr>mb_dec = (\<lambda>_. Inr (0xed # replicate 32 0)), vk_of_bytes = Inr, bincode = (\<lambda>_. Inr [1]),
      verify_strict = (\<lambda>pk m s. if s = replicate 64 (sum_list pk + sum_list m) then Inr () else Inl ''bad'')\<rparr>"

definition demo_sign_env :: "(bytes, bytes) crypto_env" where
  "demo_sign_env =
     \<lparr>header_json = (\<lambda>h. Inr []), b64_enc = bytes_str, b64_dec = (\<lambda>s. Inr (str_bytes s)),
      ed_sign = (\<lambda>sk m. replicate 64 (sum_list sk + sum_list m)),
      ed_verify = (\<lambda>pk m s. if s = replicate 64 (sum_list pk + sum_list m) then Inr () else Inl ''bad'')\<rparr>"

lemma demo_executor_key:
  "to_ed25519 (mb_dec demo_receipt_env) (vk_of_bytes demo_receipt_env) ''did:key:z'' = Inr (replicate 32 0)"
  by (simp add: to_ed25519_def demo_receipt_env_def ED25519_MULTICODEC_PREFIX_def ED25519_KEY_LENGTH_def)

lemma mesh_receipt_sign_verify_witness:
  "verify_embedded_signature demo_sign_env demo_receipt_env (\<lambda>x. if x = demo_mesh_receipt then Inr [1] else Inl ''no'')
     (demo_mesh_receipt\<lparr>mr_signature := replicate 64 1\<rparr>) = Inr True"
proof -
  let ?kp = "\<lparr>kp_did = ''did:key:z'', kp_pk = replicate 32 0, kp_sk = replicate 32 0\<rparr> :: (bytes, bytes) KeyPair"
  let ?cbor = "\<lambda>x. if x = demo_mesh_receipt then Inr [1] else Inl ''no'' :: string + bytes"
  have k: "key_pair demo_sign_env (kp_sk ?kp) (kp_pk ?kp)" by (simp add: key_pair_def demo_sign_env_def)
  have e: "demo_mesh_receipt\<lparr>mr_signature := []\<rparr> = demo_mesh_receipt" by (simp add: demo_mesh_receipt_def)
  have s: "sign_receipt_in_place demo_sign_env ?cbor demo_mesh_receipt ?kp =
      (Inr (), demo_mesh_receipt\<lparr>mr_signature := replicate 64 1\<rparr>)"
    unfolding sign_receipt_cases using e by (simp add: demo_mesh_receipt_def demo_sign_env_def sum_list_replicate)
  have k2: "to_ed25519 (mb_dec demo_receipt_env) (vk_of_bytes demo_receipt_env) (kp_did ?kp) = Inr (kp_pk ?kp)"
    using demo_executor_key by simp
  have inj: "\<forall>x y bs. ?cbor x = Inr bs \<and> ?cbor y = Inr bs \<longrightarrow> x = y"
    by simp
  from mesh_receipt_sign_verify [OF k k2 s inj] show ?thesis by blast
qed

text \<open>what the trait's verification accepts is signed, over identifier, issuer, proposal, module CIDs and
  timestamp, by the key of the issuer that the payload names; and it covers nothing else: metrics, mana cost,
  anchored CIDs, resource usage, epoch and receipt CID of an accepted runtime receipt can be replaced by
  anything and the receipt is still accepted.\<close>

lemma runtime_receipt_coverage:
  "(runtime_verify env r = Inr () \<longleftrightarrow>
      (\<exists>s pk bs. rr_signature r = Some s \<and> length s = 64 \<and>
         to_ed25519 (mb_dec env) (vk_of_bytes env) (pl_issuer (runtime_payload r)) = Inr pk \<and>
         bincode env (runtime_payload r) = Inr bs \<and> verify_strict env pk bs s = Inr ())) \<and>
   (runtime_verify env (r\<lparr>rr_metrics := m, rr_anchored_cids := cs, rr_resource_usage := u, rr_dag_epoch := e, rr_receipt_cid := c\<rparr>)
      = Inr () \<longleftrightarrow> runtime_verify env r = Inr ())"
  using runtime.verified_signed_by_issuer [of env r]
    runtime.verified_payload_only [of "r\<lparr>rr_metrics := m, rr_anchored_cids := cs, rr_resource_usage := u, rr_dag_epoch := e, rr_receipt_cid := c\<rparr>" r env]
  by (simp add: runtime_verified runtime_payload_def)

text \<open>The two signatures of a mesh receipt are over different bytes: a receipt signed in place is accepted
  by the trait's verification only if the same 64 bytes are a signature of the CBOR encoding of the whole
  receipt and also of the bincode encoding of the short payload.\<close>

lemma mesh_signature_schemes_differ:
  assumes "key_pair env (kp_sk kp) (kp_pk kp)"
    and "sign_receipt_in_place env to_cbor r kp = (Inr (), r')" and "mesh_verify renv r' = Inr ()"
  shows "\<exists>pk whole short. to_cbor (r\<lparr>mr_signature := []\<rparr>) = Inr whole \<and> bincode renv (mesh_payload r) = Inr short \<and>
    to_ed25519 (mb_dec renv) (vk_of_bytes renv) (kp_did kp) = Inr pk \<and>
    ed_verify env (kp_pk kp) whole (mr_signature r') = Inr () \<and> verify_strict renv pk short (mr_signature r') = Inr ()"
proof -
  from assms(2) obtain bs where bs: "mr_executor r = kp_did kp" "to_cbor (r\<lparr>mr_signature := []\<rparr>) = Inr bs"
    "r' = r\<lparr>mr_signature := ed_sign env (kp_sk kp) bs\<rparr>" unfolding sign_receipt_cases by blast
  have p: "mesh_payload r' = mesh_payload r" "mr_executor r' = kp_did kp" using bs(1,3) by (simp_all add: mesh_payload_def)
  have "ed_verify env (kp_pk kp) bs (mr_signature r') = Inr ()"
    using assms(1) bs(3) by (simp add: key_pair_def)
  with assms(3) bs(2) show ?thesis
    unfolding mesh_verify_def verify_signature_iff p by auto
qed

end
