(* ===== verification/Jobs.thy ===== *)
theory Jobs
  imports Did_Key
begin

text \<open>
  The status of a mesh job and its representation in database columns
  (\<open>crates/common/icn-types/src/jobs/mod.rs\<close>, \<open>JobFailureReason\<close> of \<open>error.rs\<close>) and the execution policy of
  \<open>jobs/policy.rs\<close>.  The JSON text of a failure reason (\<open>reason_str\<close>, \<open>reason_of_str\<close>) and the text of a parse
  error (\<open>err_str\<close>) are parameters; the identity parser is \<open>did_from_str\<close>.
\<close>

type_synonym TokenAmount = u64

datatype JobFailureReason =
    InternalError
  | ResourceLimitExceeded
  | ExecutionError string
  | PermissionDenied
  | InvalidInput
  | Timeout
  | ManuallyCancelled
  | DependencyFailed
  | NotFound
  | NetworkError
  | OutputError
  | ServiceProviderError
  | Unknown string

datatype JobStatus =
    Pending
  | Bidding
  | Assigned did
  | Running did
  | Completed
  | Failed JobFailureReason
  | Cancelled
  | BiddingExpired

record ExecutionPolicy =
  rep_weight :: f64
  price_weight :: f64
  region_filter :: "string option"
  min_reputation :: "f64 option"
  max_price :: "TokenAmount option"

type_synonym db_fields = "string \<times> string option \<times> string option \<times> string option \<times> string option"

fun to_db_fields :: "(JobFailureReason \<Rightarrow> string + string) \<Rightarrow> JobStatus \<Rightarrow> db_fields" where
  "to_db_fields reason_str Pending = (''Pending'', None, None, None, None)"
| "to_db_fields reason_str Bidding = (''Bidding'', None, None, None, None)"
| "to_db_fields reason_str (Assigned d) = (''Assigned'', Some d, None, None, None)"
| "to_db_fields reason_str (Running d) = (''Running'', Some d, None, None, None)"
| "to_db_fields reason_str Completed = (''Completed'', None, None, None, None)"
| "to_db_fields reason_str (Failed r) =
     (''Failed'', None, None, None, (case reason_str r of Inr s \<Rightarrow> Some s | Inl _ \<Rightarrow> None))"
| "to_db_fields reason_str Cancelled = (''Cancelled'', None, None, None, None)"
| "to_db_fields reason_str BiddingExpired =
     (''BiddingExpired'', None, None, None, Some ''Bidding expired without assignment'')"

definition parse_db_did ::
    "(string \<Rightarrow> DidError + did) \<Rightarrow> (DidError \<Rightarrow> string) \<Rightarrow> string \<Rightarrow> string \<Rightarrow> string option \<Rightarrow> string + did" where
  "parse_db_did parse_did err_str missing invalid d =
     bind_result (ok_or d missing) (\<lambda>s.
       map_err (\<lambda>e. invalid @ (case d of Some s \<Rightarrow> s | None \<Rightarrow> ''None'') @ '' ('' @ err_str e @ '')'') (parse_did s))"

definition from_db_fields ::
    "(string \<Rightarrow> DidError + did) \<Rightarrow> (DidError \<Rightarrow> string) \<Rightarrow> (string \<Rightarrow> string + JobFailureReason)
      \<Rightarrow> db_fields \<Rightarrow> string + JobStatus" where
  "from_db_fields parse_did err_str reason_of_str fs =
     (case fs of (status_type, bidder_did_str, _, _, error_message_str) \<Rightarrow>
       if status_type = ''Pending'' then Inr Pending
       else if status_type = ''Bidding'' then Inr Bidding
       else if status_type = ''Assigned'' then
         bind_result (parse_db_did parse_did err_str ''Missing bidder_did for Assigned status''
           ''Invalid DID for Assigned status: '' bidder_did_str) (\<lambda>d. Inr (Assigned d))
       else if status_type = ''Running'' then
         bind_result (parse_db_did parse_did err_str ''Missing runner_did for Running status''
           ''Invalid DID for Running status: '' bidder_did_str) (\<lambda>d. Inr (Running d))
       else if status_type = ''Completed'' then Inr Completed
       else if status_type = ''Failed'' then
         Inr (Failed (case error_message_str of
             Some msg \<Rightarrow>
               (case reason_of_str msg of
                  Inr r \<Rightarrow> r
                | Inl _ \<Rightarrow> Unknown (''Unparsable failure reason from DB: '' @ msg))
           | None \<Rightarrow> Unknown ''No failure reason provided''))
       else if status_type = ''Cancelled'' then Inr Cancelled
       else if status_type = ''BiddingExpired'' then Inr BiddingExpired
       else Inl (''Unknown job status type from DB: '' @ status_type))"

text \<open>The identity a status refers to, if it refers to one.\<close>

fun status_did :: "JobStatus \<Rightarrow> did option" where
  "status_did (Assigned d) = Some d"
| "status_did (Running d) = Some d"
| "status_did _ = None"

section \<open>Properties\<close>

text \<open>a status whose identity, if any, is accepted by the identity parser, and whose failure reason, if
  any, survives JSON, is read back from the database columns exactly as it was written; conversely the
  reader never invents an identity: whatever columns it accepts, the identity of the status is one the
  parser accepts.\<close>

lemma job_status_db_roundtrip:
  assumes "\<And>r. \<exists>s. reason_str r = Inr s \<and> reason_of_str s = Inr r"
  shows "((\<forall>d. status_did st = Some d \<longrightarrow> did_from_str mb vk d = Inr d) \<longrightarrow>
      from_db_fields (did_from_str mb vk) err_str reason_of_str (to_db_fields reason_str st) = Inr st) \<and>
    (from_db_fields (did_from_str mb vk) err_str reason_of_str fs = Inr st \<and> status_did st = Some d \<longrightarrow>
      did_from_str mb vk d = Inr d)"
proof -
  have "from_db_fields (did_from_str mb vk) err_str reason_of_str (to_db_fields reason_str st) = Inr st"
    if "\<forall>d. status_did st = Some d \<longrightarrow> did_from_str mb vk d = Inr d"
    using that
  proof (cases st)
    case (Failed r)
    from assms [of r] obtain s where "reason_str r = Inr s" "reason_of_str s = Inr r" by blast
    with Failed show ?thesis by (simp add: from_db_fields_def)
  qed (simp_all add: from_db_fields_def parse_db_did_def)
  moreover have "did_from_str mb vk d = Inr d"
    if "from_db_fields (did_from_str mb vk) err_str reason_of_str fs = Inr st" "status_did st = Some d"
  proof -
    have "\<exists>d'. did_from_str mb vk d' = Inr d"
      using that
      by (cases fs) (auto simp: from_db_fields_def parse_db_did_def bind_result_Inr_iff ok_or_Inr_iff
          split: if_splits)
    then obtain d' where d': "did_from_str mb vk d' = Inr d" ..
    moreover from d' have "d' = d" by (auto simp: did_from_str_def bind_result_Inr_iff split: if_splits)
    ultimately show ?thesis by simp
  qed
  ultimately show ?thesis by blast
qed

definition demo_reason_str :: "JobFailureReason \<Rightarrow> string + string" where
  "demo_reason_str r = Inr (case r of
     ExecutionError s \<Rightarrow> CHR ''e'' # s | Unknown s \<Rightarrow> CHR ''u'' # s | InternalError \<Rightarrow> ''i'' | ResourceLimitExceeded \<Rightarrow> ''r''
   | PermissionDenied \<Rightarrow> ''p'' | InvalidInput \<Rightarrow> ''v'' | Timeout \<Rightarrow> ''t'' | ManuallyCancelled \<Rightarrow> ''m'' | DependencyFailed \<Rightarrow> ''d''
   | NotFound \<Rightarrow> ''n'' | NetworkError \<Rightarrow> ''w'' | OutputError \<Rightarrow> ''o'' | ServiceProviderError \<Rightarrow> ''s'')"

definition demo_reason_of_str :: "string \<Rightarrow> string + JobFailureReason" where
  "demo_reason_of_str s = (case s of [] \<Rightarrow> Inl ''empty'' | c # cs \<Rightarrow>
     if c = CHR ''e'' then Inr (ExecutionError cs) else if c = CHR ''u'' then Inr (Unknown cs)
     else if c = CHR ''i'' then Inr InternalError else if c = CHR ''r'' then Inr ResourceLimitExceeded
     else if c = CHR ''p'' then Inr PermissionDenied else if c = CHR ''v'' then Inr InvalidInput
     else if c = CHR ''t'' then Inr Timeout else if c = CHR ''m'' then Inr ManuallyCancelled
     else if c = CHR ''d'' then Inr DependencyFailed else if c = CHR ''n'' then Inr NotFound
     else if c = CHR ''w'' then Inr NetworkError else if c = CHR ''o'' then Inr OutputError
     else if c = CHR ''s'' then Inr ServiceProviderError else Inl ''unknown'')"

lemma job_status_db_roundtrip_witness:
  "from_db_fields (did_from_str demo_decode Inr) (\<lambda>_. ''e'') demo_reason_of_str
     (to_db_fields demo_reason_str (Failed (ExecutionError ''boom''))) = Inr (Failed (ExecutionError ''boom''))"
proof -
  have "\<exists>s. demo_reason_str r = Inr s \<and> demo_reason_of_str s = Inr r" for r
    by (cases r) (simp_all add: demo_reason_str_def demo_reason_of_str_def)
  from job_status_db_roundtrip [OF this, of "Failed (ExecutionError ''boom'')"] show ?thesis by simp
qed

end
