(* ===== verification/Reputation.thy ===== *)
theory Reputation
  imports Complex_Main Mana_Ledger
begin

text \<open>
  Reputation profiles (\<open>crates/common/icn-types/src/reputation.rs\<close>): the event-driven update of a profile and
  the score computed from it.

  Floating point numbers are the reals they denote; \<open>fl32\<close> and \<open>fl\<close> round the exact result of an operation to
  \<open>f32\<close> and \<open>f64\<close>, and \<open>ln_f\<close> is the library's logarithm.  They are parameters: the properties use only that
  rounding is monotone.  (The values involved are finite; NaN inputs are outside the model.)  Times are
  numbers, CIDs a type parameter.
\<close>

section \<open>Data\<close>

record 'cid ReputationProfile =
  node_id :: did
  last_updated :: u64
  total_jobs :: u64
  successful_jobs :: u64
  failed_jobs :: u64
  jobs_on_time :: u64
  jobs_late :: u64
  average_execution_ms :: "u32 option"
  average_bid_accuracy :: "real option"
  dishonesty_events :: u32
  endorsements :: "did list"
  current_stake :: "u64 option"
  computed_score :: real
  latest_anchor_cid :: "'cid option"
  mana_state :: "ScopedMana option"

datatype 'cid ReputationUpdateEvent =
    JobCompletedSuccessfully 'cid u32 real bool "'cid option" "u64 option" bool
  | JobFailed 'cid string "'cid option" bool
  | DishonestyPenalty "'cid option" string "u64 option"
  | StakeIncreased u64 u64
  | StakeDecreased u64 u64
  | EndorsementReceived did "string option"
  | EndorsementRevoked did "string option"
  | ProfileScoreManuallyAdjusted real real string

record ReputationRecord =
  rec_subject :: string
  rec_anchor :: string
  rec_score_delta :: real
  rec_success :: bool
  rec_mana_cost :: "u64 option"
  rec_timestamp :: u64

section \<open>Updating a profile\<close>

definition average_u32 :: "u32 option \<Rightarrow> u32 \<Rightarrow> u64 \<Rightarrow> u32" where
  "average_u32 prev new_val count =
     (if count = 0 then new_val
      else case prev of
        Some old_avg \<Rightarrow>
          ucast (saturating_add (saturating_mul (ucast old_avg) (saturating_sub count 1)) (ucast new_val) div count)
      | None \<Rightarrow> new_val)"

definition average_f32 :: "(real \<Rightarrow> real) \<Rightarrow> real option \<Rightarrow> real \<Rightarrow> u64 \<Rightarrow> real" where
  "average_f32 fl32 prev new_val count =
     (if count = 0 then new_val
      else case prev of
        Some old_avg \<Rightarrow>
          fl32 (fl32 (fl32 (old_avg * fl32 (real (unat (saturating_sub count 1)))) + new_val) / fl32 (real (unat count)))
      | None \<Rightarrow> new_val)"

definition apply_event ::
    "(real \<Rightarrow> real) \<Rightarrow> u64 \<Rightarrow> 'cid ReputationProfile \<Rightarrow> 'cid ReputationUpdateEvent \<Rightarrow> 'cid ReputationProfile" where
  "apply_event fl32 now p event =
     (case event of
        JobCompletedSuccessfully _ execution_duration_ms bid_accuracy on_time _ _ _ \<Rightarrow>
          let p = p\<lparr>successful_jobs := saturating_add (successful_jobs p) 1\<rparr>;
              p = (if on_time then p\<lparr>jobs_on_time := saturating_add (jobs_on_time p) 1\<rparr>
                   else p\<lparr>jobs_late := saturating_add (jobs_late p) 1\<rparr>);
              p = p\<lparr>average_execution_ms :=
                     Some (average_u32 (average_execution_ms p) execution_duration_ms (successful_jobs p))\<rparr>;
              p = p\<lparr>average_bid_accuracy :=
                     Some (average_f32 fl32 (average_bid_accuracy p) bid_accuracy (successful_jobs p))\<rparr>
          in p\<lparr>total_jobs := saturating_add (total_jobs p) 1\<rparr>
      | JobFailed _ _ _ _ \<Rightarrow>
          p\<lparr>failed_jobs := saturating_add (failed_jobs p) 1, total_jobs := saturating_add (total_jobs p) 1\<rparr>
      | DishonestyPenalty _ _ _ \<Rightarrow> p\<lparr>dishonesty_events := saturating_add (dishonesty_events p) 1\<rparr>
      | StakeIncreased _ new_total_stake \<Rightarrow> p\<lparr>current_stake := Some new_total_stake\<rparr>
      | StakeDecreased _ new_total_stake \<Rightarrow> p\<lparr>current_stake := Some new_total_stake\<rparr>
      | EndorsementReceived d _ \<Rightarrow>
          if d \<notin> set (endorsements p) then p\<lparr>endorsements := endorsements p @ [d]\<rparr> else p
      | EndorsementRevoked d _ \<Rightarrow> p\<lparr>endorsements := filter (\<lambda>e. e \<noteq> d) (endorsements p)\<rparr>
      | ProfileScoreManuallyAdjusted new_score _ _ \<Rightarrow> p\<lparr>computed_score := new_score\<rparr>)
     \<lparr>last_updated := now\<rparr>"

section \<open>The score\<close>

definition score_gains :: "(real \<Rightarrow> real) \<Rightarrow> (real \<Rightarrow> real) \<Rightarrow> 'cid ReputationProfile \<Rightarrow> real" where
  "score_gains fl ln_f p =
     (let total_f = max (fl (real (unat (total_jobs p)))) 1;
          success_rate = fl (fl (real (unat (successful_jobs p))) / total_f);
          successful_jobs_total = max (fl (real (unat (successful_jobs p)))) 1;
          on_time_rate = fl (fl (real (unat (jobs_on_time p))) / successful_jobs_total);
          avg_accuracy = (case average_bid_accuracy p of Some a \<Rightarrow> a | None \<Rightarrow> 1 / 2);
          stake_log = (case current_stake p of Some s \<Rightarrow> ln_f (fl (fl (real (unat s)) + 1)) | None \<Rightarrow> 0)
      in fl (fl (fl (fl (1 / 2 + fl (2 * success_rate)) + fl (1 * on_time_rate)) + fl (3 / 2 * avg_accuracy))
           + fl (fl (3 / 10) * stake_log)))"

definition compute_score :: "(real \<Rightarrow> real) \<Rightarrow> (real \<Rightarrow> real) \<Rightarrow> 'cid ReputationProfile \<Rightarrow> real" where
  "compute_score fl ln_f p =
     (let dishonesty_events_count = real (unat (dishonesty_events p));
          raw_score = fl (score_gains fl ln_f p - fl (fl (7 / 10) * dishonesty_events_count))
      in max 0 (min 10 raw_score))"

lemma score_gains_dishonesty [simp]: "score_gains fl ln_f (p\<lparr>dishonesty_events := n\<rparr>) = score_gains fl ln_f p"
  by (simp add: score_gains_def)

section \<open>Histories\<close>

type_synonym 'cid history = "('cid ReputationUpdateEvent \<times> u64) list"

definition apply_events :: "(real \<Rightarrow> real) \<Rightarrow> 'cid ReputationProfile \<Rightarrow> 'cid history \<Rightarrow> 'cid ReputationProfile" where
  "apply_events fl32 p h = foldl (\<lambda>p (e, now). apply_event fl32 now p e) p h"

fun completed :: "'cid ReputationUpdateEvent \<Rightarrow> u32 option" where
  "completed (JobCompletedSuccessfully _ d _ _ _ _ _) = Some d"
| "completed _ = None"

fun completed_on_time :: "'cid ReputationUpdateEvent \<Rightarrow> bool" where
  "completed_on_time (JobCompletedSuccessfully _ _ _ b _ _ _) = b"
| "completed_on_time _ = False"

fun is_failure :: "'cid ReputationUpdateEvent \<Rightarrow> bool" where
  "is_failure (JobFailed _ _ _ _) = True"
| "is_failure _ = False"

text \<open>The endorsers left by a history: endorsed and not revoked since.\<close>

fun endorsers :: "did set \<Rightarrow> 'cid history \<Rightarrow> did set" where
  "endorsers A [] = A"
| "endorsers A ((EndorsementReceived d _, _) # h) = endorsers (insert d A) h"
| "endorsers A ((EndorsementRevoked d _, _) # h) = endorsers (A - {d}) h"
| "endorsers A (_ # h) = endorsers A h"

definition count_events :: "('cid ReputationUpdateEvent \<Rightarrow> bool) \<Rightarrow> 'cid history \<Rightarrow> nat" where
  "count_events P h = length (filter (\<lambda>(e, _). P e) h)"

definition fresh_profile :: "'cid ReputationProfile \<Rightarrow> bool" where
  "fresh_profile p \<longleftrightarrow> total_jobs p = 0 \<and> successful_jobs p = 0 \<and> failed_jobs p = 0 \<and> jobs_on_time p = 0 \<and>
     jobs_late p = 0 \<and> average_execution_ms p = None \<and> endorsements p = []"

lemma apply_events_simps [simp]:
  "apply_events fl32 p [] = p"
  "apply_events fl32 p ((e, now) # h) = apply_events fl32 (apply_event fl32 now p e) h"
  by (simp_all add: apply_events_def)

lemma count_events_simps [simp]:
  "count_events P [] = 0"
  "count_events P ((e, t) # h) = (if P e then Suc (count_events P h) else count_events P h)"
  by (simp_all add: count_events_def)

lemma unat_sat_Suc: "unat (x :: u64) + 1 < 2 ^ 64 \<Longrightarrow> unat (saturating_add x 1) = Suc (unat x)"
  by (simp add: unat_saturating_add)

text \<open>The counters of a profile fit together.\<close>

definition counters_ok :: "'cid ReputationProfile \<Rightarrow> bool" where
  "counters_ok p \<longleftrightarrow> unat (successful_jobs p) + unat (failed_jobs p) = unat (total_jobs p) \<and>
     unat (jobs_on_time p) + unat (jobs_late p) = unat (successful_jobs p)"

definition job_event :: "'cid ReputationUpdateEvent \<Rightarrow> bool" where
  "job_event e \<longleftrightarrow> completed e \<noteq> None \<or> is_failure e"

lemma apply_event_counters:
  assumes "counters_ok p" "unat (total_jobs p) + 1 < 2 ^ 64"
  shows "counters_ok (apply_event fl32 now p e) \<and>
    unat (total_jobs (apply_event fl32 now p e)) = unat (total_jobs p) + (if job_event e then 1 else 0) \<and>
    unat (successful_jobs (apply_event fl32 now p e)) = unat (successful_jobs p) + (if completed e \<noteq> None then 1 else 0) \<and>
    unat (failed_jobs (apply_event fl32 now p e)) = unat (failed_jobs p) + (if is_failure e then 1 else 0) \<and>
    unat (jobs_on_time (apply_event fl32 now p e)) = unat (jobs_on_time p) + (if completed_on_time e then 1 else 0)"
proof -
  have b: "unat (successful_jobs p) + 1 < 2 ^ 64" "unat (failed_jobs p) + 1 < 2 ^ 64"
    "unat (jobs_on_time p) + 1 < 2 ^ 64" "unat (jobs_late p) + 1 < 2 ^ 64"
    using assms by (simp_all add: counters_ok_def)
  note u = b [THEN unat_sat_Suc] assms(2) [THEN unat_sat_Suc]
  show ?thesis
    using assms(1) by (cases e) (simp_all add: apply_event_def counters_ok_def job_event_def u Let_def)
qed

lemma apply_events_counters:
  assumes "counters_ok p" "unat (total_jobs p) + length h < 2 ^ 64"
  shows "counters_ok (apply_events fl32 p h) \<and>
    unat (total_jobs (apply_events fl32 p h)) = unat (total_jobs p) + count_events job_event h \<and>
    unat (successful_jobs (apply_events fl32 p h)) = unat (successful_jobs p) + count_events (\<lambda>e. completed e \<noteq> None) h \<and>
    unat (failed_jobs (apply_events fl32 p h)) = unat (failed_jobs p) + count_events is_failure h \<and>
    unat (jobs_on_time (apply_events fl32 p h)) = unat (jobs_on_time p) + count_events completed_on_time h"
  using assms
proof (induction h arbitrary: p)
  case Nil
  then show ?case by simp
next
  case (Cons x h)
  obtain e now where x: "x = (e, now)" by (cases x)
  have "unat (total_jobs p) + 1 < 2 ^ 64" using Cons.prems(2) by simp
  note step = apply_event_counters [OF Cons.prems(1) this, of fl32 now e]
  have "unat (total_jobs (apply_event fl32 now p e)) + length h < 2 ^ 64"
    using step Cons.prems(2) by (auto split: if_splits)
  from Cons.IH [OF _ this] step show ?case by (simp add: x)
qed

lemma endorsements_apply_event:
  "distinct (endorsements p) \<Longrightarrow> distinct (endorsements (apply_event fl32 now p e)) \<and>
   endorsers (set (endorsements (apply_event fl32 now p e))) h = endorsers (set (endorsements p)) ((e, now) # h)"
  by (cases e) (auto simp: apply_event_def Let_def insert_absorb set_diff_eq Collect_conj_eq Int_commute)

lemma endorsements_apply_events:
  "distinct (endorsements p) \<Longrightarrow> distinct (endorsements (apply_events fl32 p h)) \<and>
   set (endorsements (apply_events fl32 p h)) = endorsers (set (endorsements p)) h"
proof (induction h arbitrary: p)
  case Nil
  then show ?case by simp
next
  case (Cons x h)
  obtain e now where x: "x = (e, now)" by (cases x)
  from endorsements_apply_event [OF Cons.prems, of fl32 now e h] Cons.IH [of "apply_event fl32 now p e"]
  show ?case by (simp add: x)
qed

section \<open>The running average\<close>

lemma unat_ucast_64: "unat (ucast (a :: u32) :: u64) = unat a"
  using unat_bound [of a] by (simp add: unsigned_ucast_eq take_bit_nat_eq_self)

lemma average_u32_nat:
  assumes "0 < unat c" "unat c \<le> 2 ^ 32"
  shows "unat (average_u32 (Some a) v c) = (unat a * (unat c - 1) + unat v) div unat c"
proof -
  let ?n = "unat a * (unat c - 1) + unat v"
  have a: "unat a \<le> 2 ^ 32 - 1" "unat v \<le> 2 ^ 32 - 1" using unat_bound [of a] unat_bound [of v] by simp_all
  have "unat a * (unat c - 1) \<le> (2 ^ 32 - 1) * (2 ^ 32 - 1)"
    using a assms(2) by (intro mult_mono) simp_all
  with a have n: "?n < 2 ^ 64" by simp
  have "c \<noteq> 0" using assms(1) by auto
  moreover have "unat (saturating_add (saturating_mul (ucast a) (saturating_sub c 1)) (ucast v) :: u64) = ?n"
    using n by (simp add: unat_saturating_add unat_saturating_mul unat_saturating_sub unat_ucast_64)
  moreover have "?n div unat c < 2 ^ 32"
  proof -
    have "?n \<le> (2 ^ 32 - 1) * (unat c - 1) + (2 ^ 32 - 1)" using a by (intro add_mono mult_mono) simp_all
    also have "\<dots> = (2 ^ 32 - 1) * unat c" using assms(1) by (simp add: diff_mult_distrib2)
    also have "\<dots> < 2 ^ 32 * unat c" using assms(1) by simp
    finally show ?thesis using assms(1) by (simp add: div_less_iff_less_mult)
  qed
  ultimately show ?thesis
    by (simp add: average_u32_def unat_div unsigned_ucast_eq take_bit_eq_mod)
qed

lemma average_u32_between:
  assumes "0 < unat c" "unat c \<le> 2 ^ 32" "lo \<le> a" "a \<le> hi" "lo \<le> v" "v \<le> hi"
  shows "lo \<le> average_u32 (Some a) v c \<and> average_u32 (Some a) v c \<le> hi"
proof -
  have m: "unat lo * unat c \<le> unat a * (unat c - 1) + unat v" "unat a * (unat c - 1) + unat v \<le> unat hi * unat c"
  proof -
    have s: "x * unat c = x * (unat c - 1) + x" for x :: nat using assms(1) by (cases "unat c") simp_all
    show "unat lo * unat c \<le> unat a * (unat c - 1) + unat v"
      unfolding s using assms(3,5) by (intro add_mono mult_right_mono) (simp_all add: word_le_nat_alt)
    show "unat a * (unat c - 1) + unat v \<le> unat hi * unat c"
      unfolding s using assms(4,6) by (intro add_mono mult_right_mono) (simp_all add: word_le_nat_alt)
  qed
  have "unat lo \<le> (unat a * (unat c - 1) + unat v) div unat c"
    using m(1) assms(1) by (simp add: less_eq_div_iff_mult_less_eq)
  moreover have "(unat a * (unat c - 1) + unat v) div unat c \<le> unat hi"
    using m(2) assms(1) by (metis div_le_mono nonzero_mult_div_cancel_right not_gr_zero)
  ultimately show ?thesis by (simp add: word_le_nat_alt average_u32_nat [OF assms(1,2)])
qed

definition durations_within :: "u32 \<Rightarrow> u32 \<Rightarrow> 'cid history \<Rightarrow> bool" where
  "durations_within lo hi h \<longleftrightarrow> (\<forall>(e, _) \<in> set h. \<forall>d. completed e = Some d \<longrightarrow> lo \<le> d \<and> d \<le> hi)"

definition average_within :: "u32 \<Rightarrow> u32 \<Rightarrow> 'cid ReputationProfile \<Rightarrow> bool" where
  "average_within lo hi p \<longleftrightarrow> (\<forall>a. average_execution_ms p = Some a \<longrightarrow> lo \<le> a \<and> a \<le> hi)"

lemma apply_event_average:
  assumes "average_within lo hi p" "unat (successful_jobs p) + 1 < 2 ^ 32"
    and "\<And>d. completed e = Some d \<Longrightarrow> lo \<le> d \<and> d \<le> hi"
  shows "average_within lo hi (apply_event fl32 now p e)"
proof (cases e)
  case (JobCompletedSuccessfully j d acc ot anchor mana passed)
  let ?c = "saturating_add (successful_jobs p) 1"
  have c: "0 < unat ?c" "unat ?c \<le> 2 ^ 32" using assms(2) by (simp_all add: unat_saturating_add)
  have d: "lo \<le> d" "d \<le> hi" using assms(3) [of d] JobCompletedSuccessfully by simp_all
  have "lo \<le> average_u32 (average_execution_ms p) d ?c \<and> average_u32 (average_execution_ms p) d ?c \<le> hi"
  proof (cases "average_execution_ms p")
    case None
    then show ?thesis using d by (simp add: average_u32_def)
  next
    case (Some a)
    then show ?thesis using average_u32_between [OF c _ _ d] assms(1) by (simp add: average_within_def)
  qed
  then show ?thesis using JobCompletedSuccessfully by (simp add: average_within_def apply_event_def Let_def)
qed (use assms(1) in \<open>simp_all add: average_within_def apply_event_def\<close>)

lemma apply_events_average:
  assumes "counters_ok p" "unat (total_jobs p) + length h < 2 ^ 32"
    and "average_within lo hi p" "durations_within lo hi h"
  shows "average_within lo hi (apply_events fl32 p h)"
  using assms
proof (induction h arbitrary: p)
  case Nil
  then show ?case by simp
next
  case (Cons x h)
  obtain e now where x: "x = (e, now)" by (cases x)
  have t: "unat (total_jobs p) + 1 < 2 ^ 64" using Cons.prems(2) by simp
  note step = apply_event_counters [OF Cons.prems(1) t, of fl32 now e]
  have "unat (total_jobs (apply_event fl32 now p e)) + length h < 2 ^ 32"
    using step Cons.prems(2) by (auto split: if_splits)
  moreover have "average_within lo hi (apply_event fl32 now p e)"
  proof (rule apply_event_average [OF Cons.prems(3)])
    show "unat (successful_jobs p) + 1 < 2 ^ 32" using Cons.prems(1,2) by (simp add: counters_ok_def)
    show "\<And>d. completed e = Some d \<Longrightarrow> lo \<le> d \<and> d \<le> hi"
      using Cons.prems(4) by (simp add: x durations_within_def)
  qed
  moreover have "durations_within lo hi h" using Cons.prems(4) by (simp add: durations_within_def)
  ultimately show ?case using Cons.IH step by (simp add: x)
qed

section \<open>Properties\<close>

text \<open>C29: after any history of fewer than \<open>2 ^ 64\<close> events on a fresh profile the counters are exact: total,
  successful, failed and on-time jobs are the numbers of the corresponding events, every job is counted
  once as successful or failed, every success once as on time or late, and the endorsement list holds,
  without repetition, exactly the identities that endorsed and did not revoke since.\<close>

theorem profile_counters_exact:
  assumes "fresh_profile p" "length h < 2 ^ 64" "p' = apply_events fl32 p h"
  shows "unat (total_jobs p') = count_events job_event h \<and>
    unat (successful_jobs p') = count_events (\<lambda>e. completed e \<noteq> None) h \<and>
    unat (failed_jobs p') = count_events is_failure h \<and>
    unat (jobs_on_time p') = count_events completed_on_time h \<and>
    unat (successful_jobs p') + unat (failed_jobs p') = unat (total_jobs p') \<and>
    unat (jobs_on_time p') + unat (jobs_late p') = unat (successful_jobs p') \<and>
    distinct (endorsements p') \<and> set (endorsements p') = endorsers {} h"
proof -
  have "counters_ok p" "unat (total_jobs p) + length h < 2 ^ 64" "distinct (endorsements p)"
    using assms(1,2) by (simp_all add: fresh_profile_def counters_ok_def)
  from apply_events_counters [OF this(1,2), of fl32] endorsements_apply_events [OF this(3), of fl32 h] assms(1)
  show ?thesis by (simp add: assms(3) fresh_profile_def counters_ok_def)
qed

definition demo_profile :: "unit ReputationProfile" where
  "demo_profile =
     \<lparr>node_id = ''n'', last_updated = 0, total_jobs = 0, successful_jobs = 0, failed_jobs = 0, jobs_on_time = 0, jobs_late = 0,
      average_execution_ms = None, average_bid_accuracy = None, dishonesty_events = 0, endorsements = [], current_stake = None,
      computed_score = 0, latest_anchor_cid = None, mana_state = None\<rparr>"

definition demo_history :: "unit history" where
  "demo_history =
     [(JobCompletedSuccessfully () 10 1 True None None True, 1), (EndorsementReceived ''a'' None, 2),
      (JobFailed () ''f'' None False, 3), (EndorsementReceived ''b'' None, 4), (EndorsementRevoked ''a'' None, 5),
      (JobCompletedSuccessfully () 21 1 False None None True, 6)]"

lemma demo_fresh: "fresh_profile demo_profile"
  by (simp add: fresh_profile_def demo_profile_def)

theorem profile_counters_exact_witness:
  "unat (total_jobs (apply_events id demo_profile demo_history)) = 3 \<and>
   set (endorsements (apply_events id demo_profile demo_history)) = {''b''}"
  using profile_counters_exact [OF demo_fresh _ refl, of demo_history id]
  by (simp add: demo_history_def job_event_def insert_Diff_if)

text \<open>the running average of the execution times, although truncated at every step, never leaves the
  interval of the reported times: after any history of fewer than \<open>2 ^ 32\<close> events on a fresh profile the
  average, if there is one, lies between the smallest and the largest reported time.\<close>

lemma average_execution_bounded:
  assumes "fresh_profile p" "length h < 2 ^ 32" "durations_within lo hi h"
    and "average_execution_ms (apply_events fl32 p h) = Some a"
  shows "lo \<le> a \<and> a \<le> hi"
proof -
  have "counters_ok p" "unat (total_jobs p) + length h < 2 ^ 32" "average_within lo hi p"
    using assms(1,2) by (simp_all add: fresh_profile_def counters_ok_def average_within_def)
  from apply_events_average [OF this assms(3), of fl32] assms(4) show ?thesis by (simp add: average_within_def)
qed

lemma average_execution_bounded_witness:
  "\<exists>a. average_execution_ms (apply_events id demo_profile demo_history) = Some a \<and> 10 \<le> a \<and> a \<le> 21"
proof -
  have w: "durations_within 10 21 demo_history" by (simp add: durations_within_def demo_history_def)
  obtain a where a: "average_execution_ms (apply_events id demo_profile demo_history) = Some a"
    by (simp add: demo_history_def apply_event_def Let_def)
  from average_execution_bounded [OF demo_fresh _ w a] a show ?thesis by (simp add: demo_history_def)
qed

text \<open>whatever the profile, the score lies between 0 and 10, and with monotone rounding a profile that
  differs only by more dishonesty events never scores higher.\<close>

lemma score_bounded_antitone:
  assumes "mono fl" "0 \<le> fl (7 / 10)" "dishonesty_events p \<le> n"
  shows "0 \<le> compute_score fl ln_f p \<and> compute_score fl ln_f p \<le> 10 \<and>
    compute_score fl ln_f (p\<lparr>dishonesty_events := n\<rparr>) \<le> compute_score fl ln_f p"
proof -
  have "fl (fl (7 / 10) * real (unat (dishonesty_events p))) \<le> fl (fl (7 / 10) * real (unat n))"
  proof -
    have "real (unat (dishonesty_events p)) \<le> real (unat n)"
      using assms(3) by (simp only: of_nat_le_iff word_le_nat_alt)
    then show ?thesis using assms(2) by (intro monoD [OF assms(1)] mult_left_mono)
  qed
  then have le: "fl (x - fl (fl (7 / 10) * real (unat n))) \<le> fl (x - fl (fl (7 / 10) * real (unat (dishonesty_events p))))" for x
    by (intro monoD [OF assms(1)]) simp
  have "compute_score fl ln_f (p\<lparr>dishonesty_events := n\<rparr>) \<le> compute_score fl ln_f p"
    using le [of "score_gains fl ln_f p"] unfolding compute_score_def Let_def
    by (intro max.mono min.mono order_refl) simp
  moreover have "0 \<le> compute_score fl ln_f p" "compute_score fl ln_f p \<le> 10"
    by (simp_all add: compute_score_def Let_def)
  ultimately show ?thesis by blast
qed

lemma score_bounded_antitone_witness:
  "compute_score id ln (demo_profile\<lparr>dishonesty_events := 3\<rparr>) \<le> compute_score id ln demo_profile"
proof -
  have "mono (id :: real \<Rightarrow> real)" by (simp add: mono_def)
  from score_bounded_antitone [OF this, of demo_profile 3 ln] show ?thesis by (simp add: demo_profile_def)
qed

end
