(* ===== verification/Core_VM.thy ===== *)
theory Core_VM
  imports Economics
begin

text \<open>
  The cooperative virtual machine of \<open>crates/runtime/icn-core-vm/src/lib.rs\<close>: its host context, its five host
  functions and one execution of a module.

  The WebAssembly engine is a library.  For a host function it supplies the guest's exported memory, or none;
  for an execution it is a parameter that compiles and instantiates the bytes and, given the fuel, yields the
  guest's host calls in order, each with the memory at that moment, and how the guest ends.  The host
  functions return nothing or the constant 1, so the guest's calls do not depend on their results; the first
  host call that fails traps.  Addresses and lengths are the guest's \<open>i32\<close>, converted as the code converts them.
\<close>

section \<open>Data\<close>

datatype CoVmError =
    ExecutionError string
  | ResourceLimitExceeded string
  | HostFunctionError string
  | InvalidEntrypoint string
  | FuelExhausted

record ExecutionMetrics =
  host_calls :: u64
  io_bytes :: u64
  anchored_cids_count :: nat
  job_submissions_count :: nat
  mana_cost :: "u64 option"

record ResourceLimits =
  max_fuel :: u64
  max_host_calls :: u32
  max_io_bytes :: u64
  max_anchored_cids :: nat
  max_job_submissions :: nat

definition ResourceLimits_default :: ResourceLimits where
  "ResourceLimits_default =
     \<lparr>max_fuel = 10000000, max_host_calls = 1000, max_io_bytes = 10000000, max_anchored_cids = 1000,
      max_job_submissions = 1000\<rparr>"

record JobSubmission =
  wasm_cid :: string
  job_description :: string
  job_resource_type :: string
  resource_amount :: u64
  priority :: string

record HostContext =
  metrics :: ExecutionMetrics
  logs :: "string list"
  anchored_cids :: "string list"
  resource_usage :: "(string \<times> u64) list"
  job_submissions :: "JobSubmission list"
  ctx_coop_id :: "CooperativeId option"
  ctx_community_id :: "CommunityId option"

definition HostContext_default :: HostContext where
  "HostContext_default =
     \<lparr>metrics = \<lparr>host_calls = 0, io_bytes = 0, anchored_cids_count = 0, job_submissions_count = 0, mana_cost = None\<rparr>,
      logs = [], anchored_cids = [], resource_usage = [], job_submissions = [], ctx_coop_id = None, ctx_community_id = None\<rparr>"

definition with_organization :: "HostContext \<Rightarrow> CooperativeId option \<Rightarrow> CommunityId option \<Rightarrow> HostContext" where
  "with_organization ctx coop comm = ctx\<lparr>ctx_coop_id := coop, ctx_community_id := comm\<rparr>"

section \<open>Host functions\<close>

text \<open>\<open>memory.data().get(ptr as u32 as usize..(ptr as u32 + len as u32) as usize)\<close>: the end of the range is
  computed in 32 bits, and \<open>get\<close> yields nothing when the range is reversed or leaves the memory.\<close>

definition read_slice :: "bytes \<Rightarrow> i32 \<Rightarrow> i32 \<Rightarrow> bytes option" where
  "read_slice mem ptr len =
     (let start = unat ptr; stop = unat (ptr + len)
      in if start \<le> stop \<and> stop \<le> length mem then Some (take (stop - start) (drop start mem)) else None)"

definition read_string :: "bytes \<Rightarrow> i32 \<Rightarrow> i32 \<Rightarrow> string \<Rightarrow> string \<Rightarrow> string + string" where
  "read_string mem ptr len bad_access bad_utf8 =
     bind_result (ok_or (read_slice mem ptr len) bad_access) (\<lambda>data. ok_or (from_utf8 data) bad_utf8)"

text \<open>\<open>len as u64\<close> for an \<open>i32\<close> extends the sign.\<close>

definition i32_as_u64 :: "i32 \<Rightarrow> u64" where
  "i32_as_u64 n = scast n"

definition count_call :: "HostContext \<Rightarrow> HostContext" where
  "count_call ctx = ctx\<lparr>metrics := (metrics ctx)\<lparr>host_calls := host_calls (metrics ctx) + 1\<rparr>\<rparr>"

definition count_io :: "HostContext \<Rightarrow> u64 \<Rightarrow> HostContext" where
  "count_io ctx n = ctx\<lparr>metrics := (metrics ctx)\<lparr>io_bytes := io_bytes (metrics ctx) + n\<rparr>\<rparr>"

definition get_memory :: "bytes option \<Rightarrow> string + bytes" where
  "get_memory m = ok_or m ''Failed to find memory export''"

definition host_log :: "bytes option \<Rightarrow> HostContext \<Rightarrow> i32 \<Rightarrow> i32 \<Rightarrow> (string + unit) \<times> HostContext" where
  "host_log m ctx ptr len =
     (let ctx = count_call ctx in
      case bind_result (get_memory m) (\<lambda>mem.
             read_string mem ptr len ''Invalid memory access'' ''Invalid UTF-8 in log message'') of
        Inl e \<Rightarrow> (Inl e, ctx)
      | Inr s \<Rightarrow> (Inr (), count_io (ctx\<lparr>logs := logs ctx @ [s]\<rparr>) (i32_as_u64 len)))"

definition host_anchor :: "bytes option \<Rightarrow> HostContext \<Rightarrow> i32 \<Rightarrow> i32 \<Rightarrow> (string + unit) \<times> HostContext" where
  "host_anchor m ctx ptr len =
     (let ctx = count_call ctx in
      case bind_result (get_memory m) (\<lambda>mem.
             read_string mem ptr len ''Invalid memory access'' ''Invalid UTF-8 in CID'') of
        Inl e \<Rightarrow> (Inl e, ctx)
      | Inr s \<Rightarrow> (Inr (), count_io (ctx\<lparr>anchored_cids := anchored_cids ctx @ [s]\<rparr>) (i32_as_u64 len)))"

definition host_check_auth ::
    "bytes option \<Rightarrow> HostContext \<Rightarrow> i32 \<Rightarrow> i32 \<Rightarrow> u64 \<Rightarrow> (string + i32) \<times> HostContext" where
  "host_check_auth m ctx type_ptr type_len amount =
     (let ctx = count_call ctx in
      case bind_result (get_memory m) (\<lambda>mem.
             read_string mem type_ptr type_len ''Invalid memory access'' ''Invalid UTF-8 in resource type'') of
        Inl e \<Rightarrow> (Inl e, ctx)
      | Inr s \<Rightarrow> (Inr 1, ctx))"

definition host_record_usage ::
    "bytes option \<Rightarrow> HostContext \<Rightarrow> i32 \<Rightarrow> i32 \<Rightarrow> u64 \<Rightarrow> (string + unit) \<times> HostContext" where
  "host_record_usage m ctx type_ptr type_len amount =
     (let ctx = count_call ctx in
      case bind_result (get_memory m) (\<lambda>mem.
             read_string mem type_ptr type_len ''Invalid memory access'' ''Invalid UTF-8 in resource type'') of
        Inl e \<Rightarrow> (Inl e, ctx)
      | Inr s \<Rightarrow>
          (Inr (), count_io (ctx\<lparr>resource_usage := resource_usage ctx @ [(s, amount)]\<rparr>) (i32_as_u64 type_len)))"

record submit_args =
  wasm_cid_ptr :: i32
  wasm_cid_len :: i32
  desc_ptr :: i32
  desc_len :: i32
  rsrc_type_ptr :: i32
  rsrc_type_len :: i32
  rsrc_amount :: u64
  priority_ptr :: i32
  priority_len :: i32

definition read_job :: "bytes \<Rightarrow> submit_args \<Rightarrow> string + JobSubmission" where
  "read_job mem a =
     bind_result (read_string mem (wasm_cid_ptr a) (wasm_cid_len a)
       ''Invalid memory access for WASM CID'' ''Invalid UTF-8 in WASM CID'') (\<lambda>c.
     bind_result (read_string mem (desc_ptr a) (desc_len a)
       ''Invalid memory access for description'' ''Invalid UTF-8 in job description'') (\<lambda>d.
     bind_result (read_string mem (rsrc_type_ptr a) (rsrc_type_len a)
       ''Invalid memory access for resource type'' ''Invalid UTF-8 in resource type'') (\<lambda>r.
     bind_result (read_string mem (priority_ptr a) (priority_len a)
       ''Invalid memory access for priority'' ''Invalid UTF-8 in job priority'') (\<lambda>p.
       Inr \<lparr>wasm_cid = c, job_description = d, job_resource_type = r, resource_amount = rsrc_amount a, priority = p\<rparr>))))"

definition host_submit_job :: "bytes option \<Rightarrow> HostContext \<Rightarrow> submit_args \<Rightarrow> (string + i32) \<times> HostContext" where
  "host_submit_job m ctx a =
     (let ctx = count_call ctx in
      case bind_result (get_memory m) (\<lambda>mem. read_job mem a) of
        Inl e \<Rightarrow> (Inl e, ctx)
      | Inr job \<Rightarrow>
          (Inr 1, count_io (ctx\<lparr>job_submissions := job_submissions ctx @ [job]\<rparr>)
             (i32_as_u64 (wasm_cid_len a + desc_len a + rsrc_type_len a + priority_len a))))"

section \<open>One execution\<close>

datatype host_call =
    CallLog i32 i32
  | CallAnchor i32 i32
  | CallCheckAuth i32 i32 u64
  | CallRecordUsage i32 i32 u64
  | CallSubmitJob submit_args

fun host_dispatch :: "bytes option \<Rightarrow> HostContext \<Rightarrow> host_call \<Rightarrow> (string + i32 list) \<times> HostContext" where
  "host_dispatch m ctx (CallLog ptr len) = apfst (map_sum id (\<lambda>_. [])) (host_log m ctx ptr len)"
| "host_dispatch m ctx (CallAnchor ptr len) = apfst (map_sum id (\<lambda>_. [])) (host_anchor m ctx ptr len)"
| "host_dispatch m ctx (CallCheckAuth ptr len amt) = apfst (map_sum id (\<lambda>r. [r])) (host_check_auth m ctx ptr len amt)"
| "host_dispatch m ctx (CallRecordUsage ptr len amt) = apfst (map_sum id (\<lambda>_. [])) (host_record_usage m ctx ptr len amt)"
| "host_dispatch m ctx (CallSubmitJob a) = apfst (map_sum id (\<lambda>r. [r])) (host_submit_job m ctx a)"

text \<open>What the engine makes of the bytes under a given amount of fuel: an error of compilation, or a module.
  Instantiating it runs its start function, which may call the host; then \<open>_start\<close> is looked up and called.
  Each of the two runs is the list of its host calls and its end, which is a return or the text of an
  error.\<close>

datatype entrypoint =
    NoEntrypoint string
  | Entry "(host_call \<times> bytes option) list" "string + unit"

datatype guest =
    CompileError string
  | WasmModule "(host_call \<times> bytes option) list" "string + unit" entrypoint

datatype vm_error =
    CompileFailed string
  | InstantiateFailed string
  | EntrypointFailed string
  | VmTyped CoVmError
  | Trapped string

fun run_guest :: "HostContext \<Rightarrow> (host_call \<times> bytes option) list \<Rightarrow> string + unit \<Rightarrow> (string + unit) \<times> HostContext" where
  "run_guest ctx [] outcome = (outcome, ctx)"
| "run_guest ctx ((c, m) # calls) outcome =
     (case host_dispatch m ctx c of
        (Inl e, ctx) \<Rightarrow> (Inl e, ctx)
      | (Inr _, ctx) \<Rightarrow> run_guest ctx calls outcome)"

definition str_contains :: "string \<Rightarrow> string \<Rightarrow> bool" where
  "str_contains s t = list_ex (\<lambda>i. take (length t) (drop i s) = t) [0..<Suc (length s)]"

definition call_entrypoint ::
    "HostContext \<Rightarrow> (host_call \<times> bytes option) list \<Rightarrow> string + unit \<Rightarrow> (vm_error + unit) \<times> HostContext" where
  "call_entrypoint ctx calls outcome =
     (case run_guest ctx calls outcome of (r, ctx) \<Rightarrow>
        (map_err (\<lambda>e. if str_contains e ''all fuel consumed'' then VmTyped FuelExhausted else Trapped e) r, ctx))"

text \<open>The second component is the state behind the context's shared locks afterwards, which the caller's
  clones of the context also see.\<close>

definition execute ::
    "(u64 \<Rightarrow> bytes \<Rightarrow> guest) \<Rightarrow> ResourceLimits \<Rightarrow> bytes \<Rightarrow> HostContext \<Rightarrow> (vm_error + HostContext) \<times> HostContext" where
  "execute engine limits wasm_bytes ctx =
     (case engine (max_fuel limits) wasm_bytes of
        CompileError e \<Rightarrow> (Inl (CompileFailed e), ctx)
      | WasmModule start_calls start_outcome entry \<Rightarrow>
          (case run_guest ctx start_calls start_outcome of
             (Inl e, ctx) \<Rightarrow> (Inl (InstantiateFailed e), ctx)
           | (Inr _, ctx) \<Rightarrow>
               let (execution_result, ctx) = (case entry of
                     Entry calls outcome \<Rightarrow> call_entrypoint ctx calls outcome
                   | NoEntrypoint e \<Rightarrow> (Inl (EntrypointFailed e), ctx));
                   ctx = ctx\<lparr>metrics := (metrics ctx)\<lparr>anchored_cids_count := length (anchored_cids ctx),
                               job_submissions_count := length (job_submissions ctx)\<rparr>\<rparr>
               in (bind_result execution_result (\<lambda>_. Inr ctx), ctx)))"

section \<open>Reading guest memory\<close>

lemma unat_add_wrapped:
  "2 ^ LENGTH('a) \<le> unat a + unat b \<Longrightarrow> unat (a + b :: 'a::len word) < unat a"
proof -
  assume w: "2 ^ LENGTH('a) \<le> unat a + unat b"
  have "unat (a + b) = (unat a + unat b) mod 2 ^ LENGTH('a)" by (simp add: unat_word_ariths)
  also have "\<dots> = unat a + unat b - 2 ^ LENGTH('a)"
  proof -
    have "unat a + unat b - 2 ^ LENGTH('a) < 2 ^ LENGTH('a)"
      using w unat_bound [of a] unat_bound [of b] by linarith
    with w show ?thesis by (simp add: le_mod_geq)
  qed
  finally show ?thesis using w unat_bound [of b] by linarith
qed

lemma read_slice_iff:
  "read_slice mem ptr len = Some d \<longleftrightarrow>
     unat ptr + unat len < 2 ^ 32 \<and> unat ptr + unat len \<le> length mem \<and> d = take (unat len) (drop (unat ptr) mem)"
proof (cases "unat ptr + unat len < 2 ^ 32")
  case True
  then have "unat (ptr + len) = unat ptr + unat len" by (intro unat_add_exact) simp
  with True show ?thesis by (auto simp: read_slice_def Let_def)
next
  case False
  then have "unat (ptr + len) < unat ptr" by (intro unat_add_wrapped) simp
  with False show ?thesis by (simp add: read_slice_def Let_def)
qed

lemma i32_as_u64_cases:
  "i32_as_u64 n = (if unat n < 2 ^ 31 then word_of_nat (unat n) else word_of_nat (unat n) - 2 ^ 32)"
proof -
  have b: "0 \<le> uint n" "uint n < 2 ^ 32" using uint_lt2p [of n] by simp_all
  have s: "sint n = (uint n + 2 ^ 31) mod 2 ^ 32 - 2 ^ 31"
    using int_word_sint [of "uint n", where 'a = 32] by simp
  have aux: "(x + 2 ^ 31) mod 2 ^ 32 - 2 ^ 31 = (if x < 2 ^ 31 then x else x - 2 ^ 32)"
    if "0 \<le> x" "x < 2 ^ 32" for x :: int
  proof (cases "x < 2 ^ 31")
    case False
    have "(x + 2 ^ 31) mod 2 ^ 32 = (x - 2 ^ 31) mod 2 ^ 32"
      using mod_add_self2 [of "x - 2 ^ 31" "2 ^ 32"] by (simp add: add.commute)
    also have "\<dots> = x - 2 ^ 31" using that False by (intro mod_pos_pos_trivial) auto
    finally show ?thesis using False by simp
  qed (use that in simp)
  have "sint n = (if uint n < 2 ^ 31 then uint n else uint n - 2 ^ 32)"
    unfolding s using aux [OF b] .
  moreover have "unat n < 2 ^ 31 \<longleftrightarrow> uint n < 2 ^ 31"
    using of_nat_less_iff [of "unat n" "2 ^ 31", where 'a = int] by simp
  moreover have "(word_of_int (uint n) :: u64) = word_of_nat (unat n)"
    using of_int_of_nat_eq [of "unat n", where 'a = u64] by simp
  ultimately show ?thesis by (simp add: i32_as_u64_def scast_eq)
qed

section \<open>What a sequence of host calls does\<close>

text \<open>The text a call reads, when memory, range and encoding are in order, and what each call contributes to
  the context.\<close>

definition guest_text :: "bytes option \<Rightarrow> i32 \<Rightarrow> i32 \<Rightarrow> string option" where
  "guest_text m ptr len =
     (case m of None \<Rightarrow> None | Some mem \<Rightarrow>
        if unat ptr + unat len < 2 ^ 32 \<and> unat ptr + unat len \<le> length mem
        then from_utf8 (take (unat len) (drop (unat ptr) mem)) else None)"

definition list_of :: "'a option \<Rightarrow> 'a list" where
  "list_of x = (case x of None \<Rightarrow> [] | Some a \<Rightarrow> [a])"

definition job_of :: "bytes option \<Rightarrow> submit_args \<Rightarrow> JobSubmission option" where
  "job_of m a =
     (case (guest_text m (wasm_cid_ptr a) (wasm_cid_len a), guest_text m (desc_ptr a) (desc_len a),
            guest_text m (rsrc_type_ptr a) (rsrc_type_len a), guest_text m (priority_ptr a) (priority_len a)) of
        (Some c, Some d, Some r, Some p) \<Rightarrow>
          Some \<lparr>wasm_cid = c, job_description = d, job_resource_type = r, resource_amount = rsrc_amount a, priority = p\<rparr>
      | _ \<Rightarrow> None)"

fun call_logs where
  "call_logs (CallLog ptr len, m) = list_of (guest_text m ptr len)" | "call_logs _ = []"

fun call_anchors where
  "call_anchors (CallAnchor ptr len, m) = list_of (guest_text m ptr len)" | "call_anchors _ = []"

fun call_usage where
  "call_usage (CallRecordUsage ptr len amt, m) = map (\<lambda>s. (s, amt)) (list_of (guest_text m ptr len))" | "call_usage _ = []"

fun call_jobs where
  "call_jobs (CallSubmitJob a, m) = list_of (job_of m a)" | "call_jobs _ = []"

text \<open>Whether a call succeeds.\<close>

fun call_ok where
  "call_ok (CallLog ptr len, m) = (guest_text m ptr len \<noteq> None)"
| "call_ok (CallAnchor ptr len, m) = (guest_text m ptr len \<noteq> None)"
| "call_ok (CallCheckAuth ptr len amt, m) = (guest_text m ptr len \<noteq> None)"
| "call_ok (CallRecordUsage ptr len amt, m) = (guest_text m ptr len \<noteq> None)"
| "call_ok (CallSubmitJob a, m) = (job_of m a \<noteq> None)"

lemma read_string_text:
  "bind_result (get_memory m) (\<lambda>mem. read_string mem ptr len e e') =
     (case guest_text m ptr len of Some s \<Rightarrow> Inr s
      | None \<Rightarrow> Inl (if m = None then ''Failed to find memory export''
                     else if read_slice (the m) ptr len = None then e else e'))"
proof (cases m)
  case None
  then show ?thesis by (simp add: get_memory_def guest_text_def)
next
  case (Some mem)
  show ?thesis
  proof (cases "unat ptr + unat len < 2 ^ 32 \<and> unat ptr + unat len \<le> length mem")
    case True
    then have r: "read_slice mem ptr len = Some (take (unat len) (drop (unat ptr) mem))"
      using read_slice_iff by blast
    have g: "guest_text m ptr len = from_utf8 (take (unat len) (drop (unat ptr) mem))"
      using True Some by (simp add: guest_text_def)
    show ?thesis
      unfolding g using Some r
      by (cases "from_utf8 (take (unat len) (drop (unat ptr) mem))") (simp_all add: get_memory_def read_string_def)
  next
    case False
    then have r: "read_slice mem ptr len = None" using read_slice_iff [of mem ptr len] by (cases "read_slice mem ptr len") auto
    with False Some show ?thesis by (auto simp: get_memory_def guest_text_def read_string_def)
  qed
qed

lemma read_job_text:
  "(\<exists>e. bind_result (get_memory m) (\<lambda>mem. read_job mem a) = Inl e) \<and> job_of m a = None \<or>
   (\<exists>j. bind_result (get_memory m) (\<lambda>mem. read_job mem a) = Inr j \<and> job_of m a = Some j)"
proof (cases m)
  case None
  then show ?thesis by (simp add: get_memory_def job_of_def guest_text_def)
next
  case (Some mem)
  have "read_string mem ptr len e e' = (case guest_text m ptr len of Some s \<Rightarrow> Inr s
      | None \<Rightarrow> Inl (if read_slice mem ptr len = None then e else e'))" for ptr len e e'
    using read_string_text [of "Some mem" ptr len e e']
    by (cases "read_slice mem ptr len") (simp_all add: get_memory_def Some)
  then show ?thesis
    using Some by (auto simp: get_memory_def read_job_def job_of_def split: option.split)
qed

lemmas host_defs = host_log_def host_anchor_def host_check_auth_def host_record_usage_def host_submit_job_def
  count_call_def count_io_def

text \<open>One call: it is counted, contributes exactly its effect, and fails exactly when its memory reads
  do.\<close>

lemma host_dispatch_effect:
  assumes "host_dispatch m ctx c = (r, ctx')"
  shows "is_ok r = call_ok (c, m)"
    and "logs ctx' = logs ctx @ call_logs (c, m)"
    and "anchored_cids ctx' = anchored_cids ctx @ call_anchors (c, m)"
    and "resource_usage ctx' = resource_usage ctx @ call_usage (c, m)"
    and "job_submissions ctx' = job_submissions ctx @ call_jobs (c, m)"
    and "host_calls (metrics ctx') = host_calls (metrics ctx) + 1"
proof -
  have "is_ok r = call_ok (c, m) \<and> logs ctx' = logs ctx @ call_logs (c, m) \<and>
    anchored_cids ctx' = anchored_cids ctx @ call_anchors (c, m) \<and>
    resource_usage ctx' = resource_usage ctx @ call_usage (c, m) \<and>
    job_submissions ctx' = job_submissions ctx @ call_jobs (c, m) \<and> host_calls (metrics ctx') = host_calls (metrics ctx) + 1"
  proof (cases c)
    case (CallSubmitJob a)
    with assms read_job_text [of m a] show ?thesis
      by (auto simp: host_defs list_of_def)
  qed (use assms in \<open>auto simp: host_defs read_string_text list_of_def split: option.splits\<close>)
  then show "is_ok r = call_ok (c, m)" "logs ctx' = logs ctx @ call_logs (c, m)"
    "anchored_cids ctx' = anchored_cids ctx @ call_anchors (c, m)"
    "resource_usage ctx' = resource_usage ctx @ call_usage (c, m)"
    "job_submissions ctx' = job_submissions ctx @ call_jobs (c, m)"
    "host_calls (metrics ctx') = host_calls (metrics ctx) + 1" by simp_all
qed

text \<open>The calls a guest gets to make: up to and including the first that fails.\<close>

fun calls_made where
  "calls_made [] = []"
| "calls_made (x # xs) = x # (if call_ok x then calls_made xs else [])"

lemma run_guest_effect:
  assumes "run_guest ctx calls outcome = (r, ctx')"
  shows "logs ctx' = logs ctx @ concat (map call_logs (calls_made calls)) \<and>
    anchored_cids ctx' = anchored_cids ctx @ concat (map call_anchors (calls_made calls)) \<and>
    resource_usage ctx' = resource_usage ctx @ concat (map call_usage (calls_made calls)) \<and>
    job_submissions ctx' = job_submissions ctx @ concat (map call_jobs (calls_made calls)) \<and>
    host_calls (metrics ctx') = host_calls (metrics ctx) + word_of_nat (length (calls_made calls)) \<and>
    (is_ok r \<longleftrightarrow> is_ok outcome \<and> list_all call_ok calls)"
  using assms
proof (induction ctx calls outcome rule: run_guest.induct)
  case (1 ctx outcome)
  then show ?case by auto
next
  case (2 ctx c m calls outcome)
  obtain r1 ctx1 where d: "host_dispatch m ctx c = (r1, ctx1)" by fastforce
  note e = host_dispatch_effect [OF d]
  show ?case
  proof (cases r1)
    case (Inl x)
    with 2(2) d have "r = Inl x" "ctx' = ctx1" by simp_all
    with e Inl show ?thesis by simp
  next
    case (Inr x)
    with 2(2) d have "run_guest ctx1 calls outcome = (r, ctx')" by simp
    from 2(1) [OF d [symmetric] _ this] Inr e show ?thesis by simp
  qed
qed

lemma calls_made_append:
  "calls_made (xs @ ys) = (if list_all call_ok xs then xs @ calls_made ys else calls_made xs)"
  by (induction xs) auto

lemma calls_made_all: "list_all call_ok xs \<Longrightarrow> calls_made xs = xs"
  by (induction xs) auto

lemma execute_effect_aux:
  assumes "engine (max_fuel limits) code = WasmModule start_calls (Inr ()) (Entry calls outcome)"
    and "list_all call_ok start_calls" and "execute engine limits code ctx = (r, ctx')" and "made = calls_made (start_calls @ calls)"
  shows "logs ctx' = logs ctx @ concat (map call_logs made) \<and>
    anchored_cids ctx' = anchored_cids ctx @ concat (map call_anchors made) \<and>
    resource_usage ctx' = resource_usage ctx @ concat (map call_usage made) \<and>
    job_submissions ctx' = job_submissions ctx @ concat (map call_jobs made) \<and>
    host_calls (metrics ctx') = host_calls (metrics ctx) + word_of_nat (length made) \<and>
    anchored_cids_count (metrics ctx') = length (anchored_cids ctx') \<and>
    job_submissions_count (metrics ctx') = length (job_submissions ctx') \<and>
    (is_ok r \<longleftrightarrow> is_ok outcome \<and> list_all call_ok calls) \<and> (is_ok r \<longrightarrow> r = Inr ctx')"
proof -
  obtain r0 ctx0 where g0: "run_guest ctx start_calls (Inr ()) = (r0, ctx0)" by fastforce
  note e0 = run_guest_effect [OF g0]
  then obtain u where r0: "r0 = Inr u" using assms(2) by (cases r0) simp_all
  obtain r1 ctx1 where g: "run_guest ctx0 calls outcome = (r1, ctx1)" by fastforce
  have ctx': "ctx' = ctx1\<lparr>metrics := (metrics ctx1)\<lparr>anchored_cids_count := length (anchored_cids ctx1),
      job_submissions_count := length (job_submissions ctx1)\<rparr>\<rparr>"
    and r: "is_ok r \<longleftrightarrow> is_ok r1" "is_ok r \<longrightarrow> r = Inr ctx'"
    using assms(1,3) g0 g r0 by (cases r1; auto simp: execute_def call_entrypoint_def Let_def)+
  have made: "made = start_calls @ calls_made calls" using assms(2,4) by (simp add: calls_made_append)
  from run_guest_effect [OF g] e0 show ?thesis
    unfolding r(1) made using r(2) assms(2) by (auto simp: ctx' r(1) calls_made_all)
qed

section \<open>Properties\<close>

text \<open>a host function reads exactly the bytes the guest names or nothing: the range read lies inside the
  guest's memory and has the length asked for, and a range whose end exceeds 32 bits is refused although
  its end is computed with wrap-around.\<close>

lemma read_slice_exact:
  "read_slice mem ptr len = Some d \<longleftrightarrow>
     unat ptr + unat len < 2 ^ 32 \<and> unat ptr + unat len \<le> length mem \<and> d = take (unat len) (drop (unat ptr) mem)"
  by (rule read_slice_iff)

text \<open>C7: the effect of an execution of a module that instantiates is exactly that of its host calls, those of its
  start function and then those of its entry point, in order, up to and including the first that fails: logs, anchored CIDs, usage records and job submissions are appended and nothing
  else, every call is counted, and the two counts match the lists; the execution succeeds exactly when
  the guest returns and no host call failed, and then the result is the context.\<close>

theorem execute_effect:
  assumes "engine (max_fuel limits) code = WasmModule start_calls (Inr ()) (Entry calls outcome)"
    and "list_all call_ok start_calls" and "execute engine limits code ctx = (r, ctx')" and "made = calls_made (start_calls @ calls)"
  shows "logs ctx' = logs ctx @ concat (map call_logs made) \<and>
    anchored_cids ctx' = anchored_cids ctx @ concat (map call_anchors made) \<and>
    resource_usage ctx' = resource_usage ctx @ concat (map call_usage made) \<and>
    job_submissions ctx' = job_submissions ctx @ concat (map call_jobs made) \<and>
    host_calls (metrics ctx') = host_calls (metrics ctx) + word_of_nat (length made) \<and>
    anchored_cids_count (metrics ctx') = length (anchored_cids ctx') \<and>
    job_submissions_count (metrics ctx') = length (job_submissions ctx') \<and>
    (is_ok r \<longleftrightarrow> is_ok outcome \<and> list_all call_ok calls) \<and> (is_ok r \<longrightarrow> r = Inr ctx')"
  using execute_effect_aux [OF assms] .

definition demo_calls :: "(host_call \<times> bytes option) list" where
  "demo_calls = [(CallLog 0 2, Some (str_bytes ''hi'')), (CallAnchor 0 1, Some (str_bytes ''c'')), (CallLog 1 9, Some (str_bytes ''hi''))]"

theorem execute_effect_witness:
  "logs (snd (execute (\<lambda>_ _. WasmModule [] (Inr ()) (Entry demo_calls (Inr ()))) ResourceLimits_default [] HostContext_default)) = [''hi'']"
proof -
  let ?e = "\<lambda>(_ :: u64) (_ :: bytes). WasmModule [] (Inr ()) (Entry demo_calls (Inr ()))"
  let ?x = "execute ?e ResourceLimits_default [] HostContext_default"
  have g: "?e (max_fuel ResourceLimits_default) [] = WasmModule [] (Inr ()) (Entry demo_calls (Inr ()))" by simp
  have "utf8_valid (str_bytes ''hi'')" "utf8_valid (str_bytes ''c'')" by (simp_all add: str_bytes_def)
  then have "guest_text (Some (str_bytes ''hi'')) 0 2 = Some ''hi''" "guest_text (Some (str_bytes ''c'')) 0 1 = Some ''c''"
    by (simp_all add: guest_text_def from_utf8_def)
  moreover have "guest_text (Some (str_bytes ''hi'')) 1 9 = None" by (simp add: guest_text_def)
  ultimately have l: "concat (map call_logs (calls_made ([] @ demo_calls))) = [''hi'']"
    by (simp add: list_of_def demo_calls_def)
  have n: "list_all call_ok []" by simp
  have "?x = (fst ?x, snd ?x)" by simp
  from execute_effect [OF g n this refl] l show ?thesis by (simp only:) (simp add: HostContext_default_def)
qed

text \<open>of the resource limits only the fuel has an effect: the limits on host calls, bytes, anchored CIDs
  and job submissions can be changed at will without changing any execution, and under every limit, zero
  included, a guest can anchor any number of CIDs.\<close>

lemma limits_not_enforced:
  "execute engine (limits\<lparr>max_host_calls := a, max_io_bytes := b, max_anchored_cids := c, max_job_submissions := d\<rparr>) code ctx
     = execute engine limits code ctx \<and>
   (\<exists>ctx'. execute (\<lambda>_ _. WasmModule [] (Inr ()) (Entry (replicate n (CallAnchor 0 0, Some [])) (Inr ()))) limits code ctx = (Inr ctx', ctx') \<and>
      length (anchored_cids ctx') = length (anchored_cids ctx) + n)"
proof -
  let ?calls = "replicate n (CallAnchor 0 0, Some ([] :: bytes))"
  let ?x = "execute (\<lambda>_ _. WasmModule [] (Inr ()) (Entry ?calls (Inr ()))) limits code ctx"
  have t: "guest_text (Some []) 0 0 = Some []" by (simp add: guest_text_def from_utf8_def bytes_str_def)
  have ok: "list_all call_ok ?calls" by (simp add: list_all_iff t)
  have made: "calls_made ?calls = ?calls" by (induction n) (simp_all add: t)
  have "list_all call_ok []" "?x = (fst ?x, snd ?x)" by simp_all
  note e = execute_effect_aux [OF refl this refl, unfolded append_Nil made]
  from e ok have "fst ?x = Inr (snd ?x)" by (metis is_ok_simps(2))
  moreover from e have "length (anchored_cids (snd ?x)) = length (anchored_cids ctx) + n"
    by (simp add: map_replicate t list_of_def)
  ultimately show ?thesis by (intro conjI exI [of _ "snd ?x"]) (simp add: execute_def, metis prod.collapse, simp)
qed

text \<open>the byte counter takes the guest's length as a signed number: a successful log of fewer than
  \<open>2 ^ 31\<close> bytes adds its length, and one of \<open>2 ^ 31\<close> bytes or more lowers the counter (modulo
  \<open>2 ^ 64\<close>) by \<open>2 ^ 32\<close> less the length.\<close>

lemma log_io_accounting:
  assumes "host_log m ctx ptr len = (Inr (), ctx')"
  shows "io_bytes (metrics ctx') =
    (if unat len < 2 ^ 31 then io_bytes (metrics ctx) + word_of_nat (unat len)
     else io_bytes (metrics ctx) - (2 ^ 32 - word_of_nat (unat len)))"
  using assms
  by (auto simp: host_log_def read_string_text count_call_def count_io_def i32_as_u64_cases Let_def split: option.splits)

lemma log_io_accounting_witness:
  "io_bytes (metrics (snd (host_log (Some (str_bytes ''hi'')) HostContext_default 0 2))) = 2"
proof -
  let ?x = "host_log (Some (str_bytes ''hi'')) HostContext_default 0 2"
  have "?x = (Inr (), snd ?x)"
    by (simp add: prod_eq_iff host_log_def read_string_text guest_text_def from_utf8_def str_bytes_def Let_def)
  from log_io_accounting [OF this] show ?thesis by (simp add: HostContext_default_def)
qed

end
