(* ===== verification/Mesh_Types.thy ===== *)
theory Mesh_Types
  imports Jobs Economics
begin

text \<open>
  The data of mesh jobs shared by the runtime, the mesh services and the contract compiler:
  \<open>crates/common/icn-types/src/mesh.rs\<close>, and the messages about them.
\<close>

datatype QoSProfile = BestEffort | LowLatency | CostOptimized | GuaranteedCompletion

datatype StageInputSource = JobInput string | PreviousStageOutput string string | NoInput

datatype WorkflowType = SingleWasmModule | SequentialPipeline | DagWorkflow

record StageDefinition =
  stage_id :: string
  stage_description :: string
  stage_wasm_cid :: string
  stage_input_source :: StageInputSource
  stage_resources :: "(ResourceType \<times> u64) list option"
  stage_deadline :: "u64 option"

record MeshJobParams =
  mj_wasm_cid :: string
  mj_description :: string
  mj_resources_required :: "(ResourceType \<times> u64) list"
  mj_qos_profile :: QoSProfile
  mj_deadline :: "u64 option"
  mj_input_data_cid :: "string option"
  mj_max_acceptable_bid_tokens :: "u64 option"
  mj_explicit_mana_cost :: "u64 option"
  mj_workflow_type :: WorkflowType
  mj_stages :: "StageDefinition list option"
  mj_is_interactive :: bool
  mj_expected_output_schema_cid :: "string option"
  mj_execution_policy :: "ExecutionPolicy option"

definition MeshJobParams_default :: MeshJobParams where
  "MeshJobParams_default =
     \<lparr>mj_wasm_cid = [], mj_description = [], mj_resources_required = [], mj_qos_profile = BestEffort,
      mj_deadline = None, mj_input_data_cid = None, mj_max_acceptable_bid_tokens = None,
      mj_explicit_mana_cost = None, mj_workflow_type = SingleWasmModule, mj_stages = None,
      mj_is_interactive = False, mj_expected_output_schema_cid = None, mj_execution_policy = None\<rparr>"

record OrgScopeIdentifier =
  org_coop_id :: "CooperativeId option"
  org_community_id :: "CommunityId option"

record MeshJob =
  mesh_job_id :: string
  mesh_params :: MeshJobParams
  mesh_originator_did :: did
  mesh_originator_org_scope :: "OrgScopeIdentifier option"
  mesh_submission_timestamp :: u64

section \<open>Protocol messages\<close>

text \<open>\<open>crates/common/icn-mesh-protocol/src/lib.rs\<close>: what nodes report about a running job.\<close>

datatype P2PJobStatus =
    P2PRunning (p2p_node: did) "u32 option" "string option" "u8 option" "string option"
  | P2PPendingUserInput (p2p_node: did) "u32 option" "string option" "string option"
  | P2PCompleted (p2p_node: did) string
  | P2PFailed (p2p_node: did) JobFailureReason

record JobInteractiveInputV1 =
  in_sequence_num :: u64
  in_data :: bytes
  in_input_key :: string
  in_is_final_chunk :: bool

record JobInteractiveOutputV1 =
  out_sequence_num :: u64
  out_data :: bytes
  out_output_key :: string
  out_is_final_chunk :: bool

datatype MeshProtocolMessage =
    InteractiveOutput JobInteractiveOutputV1
  | JobStatusUpdate string P2PJobStatus

definition INLINE_PAYLOAD_MAX_SIZE :: nat where
  "INLINE_PAYLOAD_MAX_SIZE = 1024 * 1024"

definition MAX_INTERACTIVE_INPUT_BUFFER_PEEK :: nat where
  "MAX_INTERACTIVE_INPUT_BUFFER_PEEK = 1024 * 1024"

end
