(* ===== verification/Ccl_Dsl.thy ===== *)
theory Ccl_Dsl
  imports Economics
begin

text \<open>
  The abstract syntax the contract compiler passes between its stages, \<open>crates/ccl/icn-ccl-dsl/src/lib.rs\<close>:
  modules, rules and their values, action handlers and their steps.

  Numbers of a contract are \<open>f64\<close> values, kept as their bit patterns; \<open>f64_as_u64\<close> is Rust's \<open>as u64\<close> on a
  bit pattern (it truncates towards zero, saturates, and sends NaN to 0).
\<close>

section \<open>Rules\<close>

datatype RuleValue =
    RvString string
  | RvNumber f64
  | RvBoolean bool
  | RvList "RuleValue list"
  | RvMap "DslRule list"
  | RvRange RangeRule
  | RvIf IfExpr
and DslRule = DslRule (rule_key: string) (rule_value: RuleValue)
and RangeRule = RangeRule (range_start: f64) (range_end: f64) (range_rules: "DslRule list")
and IfExpr = IfExpr (condition_raw: string) (then_rules: "DslRule list") (else_rules: "DslRule list option")

section \<open>Modules\<close>

type_synonym uuid = "128 word"

record GenericSection =
  sec_kind :: string
  sec_title :: "string option"
  sec_rules :: "DslRule list"

record Proposal =
  prop_id :: uuid
  prop_title :: string
  prop_version :: string
  prop_body :: string
  prop_author :: string
  prop_created_at :: "64 word"
  prop_rules :: "DslRule list"

datatype VoteStance = Yes | No | Abstain

record Vote =
  vote_proposal_id :: uuid
  voter :: string
  stance :: VoteStance
  rationale :: "string option"
  signed_at :: "64 word"

record Anchor =
  data_reference :: string
  anchor_path :: "string option"

record MeteredAction =
  metered_resource_type :: string
  metered_amount :: u64
  metered_recipient :: "string option"
  metered_data :: "DslRule list option"

record DslRole =
  role_name :: string
  role_description :: "string option"
  role_attributes :: "DslRule list"

datatype ActionStep =
    Metered MeteredAction
  | AnchorStep Anchor
  | PerformMeteredAction string ResourceType u64
  | TransferTokenStep string u64 string string

record ActionHandler =
  handler_event :: string
  handler_steps :: "ActionStep list"

datatype DslModule =
    ProposalModule Proposal
  | VoteModule Vote
  | AnchorModule Anchor
  | MeteredActionModule MeteredAction
  | RoleModule DslRole
  | ActionHandlerModule ActionHandler
  | SectionModule GenericSection

section \<open>Numbers\<close>

text \<open>The fields of an IEEE 754 double.\<close>

definition f64_negative :: "f64 \<Rightarrow> bool" where
  "f64_negative x \<longleftrightarrow> 2 ^ 63 \<le> unat x"

definition f64_exponent :: "f64 \<Rightarrow> nat" where
  "f64_exponent x = unat x div 2 ^ 52 mod 2 ^ 11"

definition f64_mantissa :: "f64 \<Rightarrow> nat" where
  "f64_mantissa x = unat x mod 2 ^ 52"

definition f64_as_u64 :: "f64 \<Rightarrow> u64" where
  "f64_as_u64 x =
     (if f64_exponent x = 2047 \<and> f64_mantissa x \<noteq> 0 then 0
      else if f64_negative x then 0
      else if f64_exponent x < 1023 then 0
      else if 1023 + 64 \<le> f64_exponent x then - 1
      else word_of_nat (if f64_exponent x \<le> 1075
                        then (2 ^ 52 + f64_mantissa x) div 2 ^ (1075 - f64_exponent x)
                        else (2 ^ 52 + f64_mantissa x) * 2 ^ (f64_exponent x - 1075)))"

lemma unat_of_nat_len: "n < 2 ^ LENGTH('a) \<Longrightarrow> unat (word_of_nat n :: 'a::len word) = n"
  by (simp add: unsigned_of_nat take_bit_nat_eq_self)

text \<open>A double that is a whole number below \<open>2 ^ 64\<close> is converted exactly: the largest mantissa shifted by
  the largest admitted exponent still fits.\<close>

lemma f64_as_u64_in_range:
  assumes "1075 < f64_exponent x" "f64_exponent x < 1023 + 64" "\<not> f64_negative x"
  shows "unat (f64_as_u64 x) = (2 ^ 52 + f64_mantissa x) * 2 ^ (f64_exponent x - 1075)"
proof -
  have m: "2 ^ 52 + f64_mantissa x < 2 ^ 53" by (simp add: f64_mantissa_def)
  have "(2 ^ 52 + f64_mantissa x) * 2 ^ (f64_exponent x - 1075) < 2 ^ 53 * 2 ^ (f64_exponent x - 1075)"
    using m by simp
  also have "\<dots> \<le> 2 ^ 53 * 2 ^ 11" using assms(2) by (intro mult_le_mono power_increasing) simp_all
  finally have "(2 ^ 52 + f64_mantissa x) * 2 ^ (f64_exponent x - 1075) < 2 ^ LENGTH(64)" by simp
  then have "unat (word_of_nat ((2 ^ 52 + f64_mantissa x) * 2 ^ (f64_exponent x - 1075)) :: u64) =
      (2 ^ 52 + f64_mantissa x) * 2 ^ (f64_exponent x - 1075)"
    by (rule unat_of_nat_len)
  then show ?thesis using assms
    by (simp add: f64_as_u64_def del: of_nat_mult of_nat_add)
qed

text \<open>\<open>str::parse::<u64>\<close>: an optional plus sign and decimal digits, with the errors of \<open>ParseIntError\<close>.\<close>

definition digit_value :: "char \<Rightarrow> nat option" where
  "digit_value c = (if (48 :: nat) \<le> of_char c \<and> of_char c \<le> (57 :: nat) then Some (of_char c - 48) else None)"

fun parse_digits :: "nat \<Rightarrow> string \<Rightarrow> string + nat" where
  "parse_digits acc [] = Inr acc"
| "parse_digits acc (c # cs) =
     (case digit_value c of
        None \<Rightarrow> Inl ''invalid digit found in string''
      | Some d \<Rightarrow>
          (if acc * 10 + d < 2 ^ 64 then parse_digits (acc * 10 + d) cs
           else Inl ''number too large to fit in target type''))"

definition parse_u64 :: "string \<Rightarrow> string + u64" where
  "parse_u64 s =
     (case s of
        [] \<Rightarrow> Inl ''cannot parse integer from empty string''
      | c # cs \<Rightarrow>
          (if c = CHR ''+'' \<and> cs \<noteq> [] then bind_result (parse_digits 0 cs) (\<lambda>n. Inr (word_of_nat n))
           else bind_result (parse_digits 0 s) (\<lambda>n. Inr (word_of_nat n))))"

lemma parse_digits_bound: "acc < 2 ^ 64 \<Longrightarrow> parse_digits acc s = Inr n \<Longrightarrow> n < 2 ^ 64"
  by (induction acc s rule: parse_digits.induct) (auto split: option.splits if_splits)

lemma parse_digits_chars:
  "parse_digits acc s = Inr n \<Longrightarrow> list_all (\<lambda>c. digit_value c \<noteq> None) s"
  by (induction acc s rule: parse_digits.induct) (auto split: option.splits if_splits)

section \<open>Text\<close>

text \<open>\<open>str::trim_matches\<close> with a character, \<open>to_lowercase\<close> on ASCII text and \<open>replace\<close> of a substring by
  nothing.\<close>

definition trim_matches :: "char \<Rightarrow> string \<Rightarrow> string" where
  "trim_matches c s = rev (dropWhile (\<lambda>x. x = c) (rev (dropWhile (\<lambda>x. x = c) s)))"

definition ascii_lower :: "char \<Rightarrow> char" where
  "ascii_lower c = (if (65 :: nat) \<le> of_char c \<and> of_char c \<le> (90 :: nat) then char_of (of_char c + 32 :: nat) else c)"

definition to_lowercase :: "string \<Rightarrow> string" where
  "to_lowercase s = map ascii_lower s"

function remove_all :: "string \<Rightarrow> string \<Rightarrow> string" where
  "remove_all p s =
     (if s = [] \<or> p = [] then s
      else if take (length p) s = p then remove_all p (drop (length p) s)
      else hd s # remove_all p (tl s))"
  by pat_completeness auto

termination by (relation "measure (\<lambda>(p, s). length s)") (auto simp: neq_Nil_conv)

declare remove_all.simps [simp del]

definition quoted :: "string \<Rightarrow> string" where
  "quoted s = CHR 0x22 # s @ [CHR 0x22]"

text \<open>\<open>trim_matches\<close> undoes the quotation of a text that neither begins nor ends with a quote.\<close>

lemma dropWhile_fresh: "s = [] \<or> hd s \<noteq> c \<Longrightarrow> dropWhile (\<lambda>x. x = c) s = s"
  by (cases s) auto

lemma trim_matches_fresh:
  "s = [] \<or> hd s \<noteq> c \<and> last s \<noteq> c \<Longrightarrow> trim_matches c s = s"
  by (auto simp: trim_matches_def dropWhile_fresh hd_rev)

lemma trim_quoted:
  assumes "s = [] \<or> hd s \<noteq> CHR 0x22 \<and> last s \<noteq> CHR 0x22"
  shows "trim_matches (CHR 0x22) (quoted s) = s"
proof (cases "s = []")
  case True
  then show ?thesis by (simp add: trim_matches_def quoted_def)
next
  case False
  have "dropWhile (\<lambda>x. x = CHR 0x22) (quoted s) = s @ [CHR 0x22]"
    using assms False by (cases s) (auto simp: quoted_def)
  then show ?thesis using assms False
    by (simp add: trim_matches_def dropWhile_fresh hd_rev)
qed

end
