(* ===== verification/Ccl_Lower.thy ===== *)
theory Ccl_Lower
  imports Ccl_Dsl
begin

text \<open>
  The lowering of contracts, \<open>crates/ccl/icn-ccl-compiler/src/lower.rs\<close>: parse trees of the contract language
  become the modules of \<open>Ccl_Dsl\<close>.

  The parser is generated by the pest library from \<open>ccl.pest\<close>; it is the parameter of \<open>lower_str\<close>.  What the
  lowering sees of it is its \<open>Pair\<close>: a rule, the matched text, its span and the inner pairs.  The constructors
  of \<open>rule\<close> are the rules of the grammar.  A span is kept as the line and column of its start and of its end.
  The conversion between text and \<open>f64\<close> and the JSON text of a value are library code: the fields of
  \<open>text_lib\<close>.  The identifiers drawn from \<open>Uuid::new_v4\<close> are a function of the number of modules lowered before.
  The Rust code threads a vector of modules; an error discards it.
\<close>

section \<open>Parse trees\<close>

datatype rule =
    R_COMMENT | R_WHITESPACE | R_identifier | R_string_literal | R_inner_string | R_number | R_boolean
  | R_duration | R_path_identifier | R_general_identifier | R_function_call_args | R_function_call
  | R_value | R_array | R_object | R_object_pair | R_block | R_comparison_operand
  | R_comparison_operator | R_comparison_expression | R_if_statement | R_function_call_statement
  | R_statement | R_any_statement | R_organization_def | R_roles_def | R_role_def | R_governance_def
  | R_proposal_def | R_membership_def | R_actions_def | R_action_def | R_mint_token | R_anchor_data
  | R_perform_metered_action | R_budget_def | R_bylaws_def | R_allocations_def | R_category_def
  | R_spending_rules_def | R_reporting_def | R_election_def | R_process_def | R_vacancies_def
  | R_scenario_def | R_named_construct_statement | R_range_statement | R_range_value | R_ccl | R_EOI

type_synonym span = "(nat \<times> nat) \<times> (nat \<times> nat)"

datatype pair = Pair (as_rule: rule) (as_str: string) (as_span: span) (into_inner: "pair list")

text \<open>The derived \<open>Debug\<close> text of a rule is its name.\<close>

fun rule_debug :: "rule \<Rightarrow> string" where
  "rule_debug R_COMMENT = ''COMMENT''"
| "rule_debug R_WHITESPACE = ''WHITESPACE''"
| "rule_debug R_identifier = ''identifier''"
| "rule_debug R_string_literal = ''string_literal''"
| "rule_debug R_inner_string = ''inner_string''"
| "rule_debug R_number = ''number''"
| "rule_debug R_boolean = ''boolean''"
| "rule_debug R_duration = ''duration''"
| "rule_debug R_path_identifier = ''path_identifier''"
| "rule_debug R_general_identifier = ''general_identifier''"
| "rule_debug R_function_call_args = ''function_call_args''"
| "rule_debug R_function_call = ''function_call''"
| "rule_debug R_value = ''value''"
| "rule_debug R_array = ''array''"
| "rule_debug R_object = ''object''"
| "rule_debug R_object_pair = ''object_pair''"
| "rule_debug R_block = ''block''"
| "rule_debug R_comparison_operand = ''comparison_operand''"
| "rule_debug R_comparison_operator = ''comparison_operator''"
| "rule_debug R_comparison_expression = ''comparison_expression''"
| "rule_debug R_if_statement = ''if_statement''"
| "rule_debug R_function_call_statement = ''function_call_statement''"
| "rule_debug R_statement = ''statement''"
| "rule_debug R_any_statement = ''any_statement''"
| "rule_debug R_organization_def = ''organization_def''"
| "rule_debug R_roles_def = ''roles_def''"
| "rule_debug R_role_def = ''role_def''"
| "rule_debug R_governance_def = ''governance_def''"
| "rule_debug R_proposal_def = ''proposal_def''"
| "rule_debug R_membership_def = ''membership_def''"
| "rule_debug R_actions_def = ''actions_def''"
| "rule_debug R_action_def = ''action_def''"
| "rule_debug R_mint_token = ''mint_token''"
| "rule_debug R_anchor_data = ''anchor_data''"
| "rule_debug R_perform_metered_action = ''perform_metered_action''"
| "rule_debug R_budget_def = ''budget_def''"
| "rule_debug R_bylaws_def = ''bylaws_def''"
| "rule_debug R_allocations_def = ''allocations_def''"
| "rule_debug R_category_def = ''category_def''"
| "rule_debug R_spending_rules_def = ''spending_rules_def''"
| "rule_debug R_reporting_def = ''reporting_def''"
| "rule_debug R_election_def = ''election_def''"
| "rule_debug R_process_def = ''process_def''"
| "rule_debug R_vacancies_def = ''vacancies_def''"
| "rule_debug R_scenario_def = ''scenario_def''"
| "rule_debug R_named_construct_statement = ''named_construct_statement''"
| "rule_debug R_range_statement = ''range_statement''"
| "rule_debug R_range_value = ''range_value''"
| "rule_debug R_ccl = ''ccl''"
| "rule_debug R_EOI = ''EOI''"

record text_lib =
  parse_f64 :: "string \<Rightarrow> string + f64"
  fmt_f64 :: "f64 \<Rightarrow> string"
  json_value :: "RuleValue \<Rightarrow> string option"

section \<open>Errors\<close>

record UnhandledRuleInfo =
  unhandled_rule :: rule
  unhandled_content :: string
  unhandled_line :: nat
  unhandled_column :: nat

datatype pest_error = CustomError string span | ParsingError string

datatype LowerError = Parse pest_error | Unhandled UnhandledRuleInfo

definition custom :: "string \<Rightarrow> span \<Rightarrow> LowerError" where
  "custom msg sp = Parse (CustomError msg sp)"

text \<open>Decimal text of a natural number, as \<open>format!\<close> prints a \<open>usize\<close>.\<close>

fun dec_str :: "nat \<Rightarrow> string" where
  "dec_str n = (if n < 10 then [char_of (48 + n)] else dec_str (n div 10) @ [char_of (48 + n mod 10)])"

declare dec_str.simps [simp del]

definition sq :: "string \<Rightarrow> string" where
  "sq s = [CHR 0x27] @ s @ [CHR 0x27]"

definition unquote :: "pair \<Rightarrow> string" where
  "unquote p = trim_matches (CHR 0x22) (as_str p)"

section \<open>Values, blocks, ranges and conditionals\<close>

definition parse_bool :: "string \<Rightarrow> string + bool" where
  "parse_bool s =
     (if s = ''true'' then Inr True else if s = ''false'' then Inr False
      else Inl ''provided string was not `true` or `false`'')"

lemma bind_result_cong [fundef_cong]:
  "r = r' \<Longrightarrow> (\<And>a. r' = Inr a \<Longrightarrow> f a = g a) \<Longrightarrow> bind_result r f = bind_result r' g"
  by (cases r') simp_all

lemma size_inner: "size_list size (into_inner p) < size p"
  by (cases p) simp

lemma size_inner_eq: "into_inner p = ps \<Longrightarrow> size_list size ps < size p"
  using size_inner [of p] by simp

lemma size_inner_twice: "2 * size_list size (into_inner p) < Suc (2 * size p)"
  using size_inner [of p] by simp

lemma size_inner_args: "into_inner p = x # a # xs \<Longrightarrow> 2 * size_list size (into_inner a) < Suc (2 * size p)"
  using size_inner [of p] size_inner [of a] by simp

function (sequential) lower_block_common_fields :: "text_lib \<Rightarrow> pair \<Rightarrow> LowerError + string \<times> DslRule list"
  and lower_fields :: "text_lib \<Rightarrow> string \<Rightarrow> DslRule list \<Rightarrow> pair list \<Rightarrow> LowerError + string \<times> DslRule list"
  and lower_field :: "text_lib \<Rightarrow> string \<Rightarrow> DslRule list \<Rightarrow> pair \<Rightarrow> LowerError + string \<times> DslRule list"
  and lower_value_rule :: "text_lib \<Rightarrow> pair \<Rightarrow> LowerError + RuleValue"
  and lower_elements :: "text_lib \<Rightarrow> pair list \<Rightarrow> LowerError + RuleValue list"
  and lower_object_pairs :: "text_lib \<Rightarrow> pair list \<Rightarrow> LowerError + DslRule list"
  and lower_range_statement :: "text_lib \<Rightarrow> pair \<Rightarrow> LowerError + RangeRule"
  and lower_if_statement :: "text_lib \<Rightarrow> pair \<Rightarrow> LowerError + IfExpr"
where
  "lower_block_common_fields L p =
     (if as_rule p = R_block then lower_fields L [] [] (into_inner p) else Inr ([], []))"

| "lower_fields L desc rules [] = Inr (desc, rules)"
| "lower_fields L desc rules (st # sts) =
     bind_result
       (if as_rule st = R_statement
        then (case into_inner st of [] \<Rightarrow> Inr (desc, rules) | d # _ \<Rightarrow> lower_field L desc rules d)
        else Inr (desc, rules))
       (\<lambda>dr. lower_fields L (fst dr) (snd dr) sts)"

| "lower_field L desc rules d =
     (if as_rule d = R_any_statement then
        (case into_inner d of
           [] \<Rightarrow> Inr (desc, rules)
         | [k] \<Rightarrow> Inr (desc, rules @ [DslRule (unquote k) (RvBoolean True)])
         | k # v # _ \<Rightarrow>
             if as_rule v = R_value then
               (case into_inner v of
                  [] \<Rightarrow> Inr (desc, rules)
                | w # _ \<Rightarrow>
                    bind_result (lower_value_rule L w) (\<lambda>dsl_val.
                      Inr (if unquote k = ''description''
                           then ((case dsl_val of RvString s \<Rightarrow> s | _ \<Rightarrow> desc), rules)
                           else (desc, rules @ [DslRule (unquote k) dsl_val]))))
             else if as_rule v = R_block then
               bind_result (lower_block_common_fields L v) (\<lambda>nested.
                 Inr (desc, rules @ [DslRule (unquote k) (RvMap (snd nested))]))
             else if as_rule v = R_general_identifier then
               Inr (desc, rules @ [DslRule (unquote k) (RvString (as_str v))])
             else Inr (desc, rules))
      else if as_rule d = R_range_statement then
        bind_result (lower_range_statement L d) (\<lambda>range.
          Inr (desc, rules @ [DslRule
                 (''range_'' @ fmt_f64 L (range_start range) @ ''_'' @ fmt_f64 L (range_end range))
                 (RvRange range)]))
      else if as_rule d = R_if_statement then
        bind_result (lower_if_statement L d) (\<lambda>if_expr.
          Inr (desc, rules @ [DslRule (''if_condition_'' @ dec_str (length rules)) (RvIf if_expr)]))
      else if as_rule d = R_function_call_statement then
        (case into_inner d of
           [] \<Rightarrow> Inr (desc, rules)
         | fc # _ \<Rightarrow>
             if as_rule fc = R_function_call then
               bind_result (lower_value_rule L fc) (\<lambda>dsl_val.
                 Inr (desc, rules @ [DslRule
                   (case into_inner fc of [] \<Rightarrow> ''unknown_function_call'' | p # _ \<Rightarrow> as_str p) dsl_val]))
             else Inr (desc, rules))
      else Inr (desc, rules))"

| "lower_value_rule L p =
     (if as_rule p = R_string_literal then Inr (RvString (unquote p))
      else if as_rule p = R_number then
        bind_result (map_err (\<lambda>e. custom (''Invalid number: '' @ e) (as_span p)) (parse_f64 L (as_str p)))
          (\<lambda>n. Inr (RvNumber n))
      else if as_rule p = R_boolean then
        bind_result (map_err (\<lambda>e. custom (''Invalid boolean: '' @ e) (as_span p)) (parse_bool (as_str p)))
          (\<lambda>b. Inr (RvBoolean b))
      else if as_rule p = R_duration then Inr (RvString (as_str p))
      else if as_rule p = R_array then
        bind_result (lower_elements L (into_inner p)) (\<lambda>elements. Inr (RvList elements))
      else if as_rule p = R_general_identifier then Inr (RvString (as_str p))
      else if as_rule p = R_object then
        bind_result (lower_object_pairs L (into_inner p)) (\<lambda>dsl_rules. Inr (RvMap dsl_rules))
      else if as_rule p = R_function_call then
        (case into_inner p of
           [] \<Rightarrow> Inl (custom ''Invalid function call structure: missing function name'' (as_span p))
         | name # rest \<Rightarrow>
             bind_result
               (case rest of [] \<Rightarrow> Inr [] | args # _ \<Rightarrow> lower_object_pairs L (into_inner args))
               (\<lambda>named_args.
                 Inr (RvMap [DslRule ''function_name'' (RvString (as_str name)),
                             DslRule ''args'' (RvMap named_args)])))
      else if as_rule p = R_range_value then
        bind_result (lower_range_statement L p) (\<lambda>range. Inr (RvRange range))
      else
        Inl (custom (''Unhandled rule type '' @ sq (rule_debug (as_rule p)) @
               '' encountered when expecting a value.'') (as_span p)))"

| "lower_elements L [] = Inr []"
| "lower_elements L (e # es) =
     bind_result
       (case into_inner e of
          [] \<Rightarrow> Inr []
        | x # _ \<Rightarrow> bind_result (lower_value_rule L x) (\<lambda>v. Inr [v]))
       (\<lambda>vs. bind_result (lower_elements L es) (\<lambda>vs'. Inr (vs @ vs')))"

| "lower_object_pairs L [] = Inr []"
| "lower_object_pairs L (kv # kvs) =
     bind_result
       (if as_rule kv = R_object_pair then
          (case into_inner kv of
             k # v # _ \<Rightarrow>
               (case into_inner v of
                  [] \<Rightarrow> Inr []
                | x # _ \<Rightarrow> bind_result (lower_value_rule L x) (\<lambda>y. Inr [DslRule (unquote k) y]))
           | _ \<Rightarrow> Inr [])
        else Inr [])
       (\<lambda>rs. bind_result (lower_object_pairs L kvs) (\<lambda>rs'. Inr (rs @ rs')))"

| "lower_range_statement L p =
     (case into_inner p of
        [] \<Rightarrow> Inl (custom ''Range statement missing start number'' (as_span p))
      | start # ps \<Rightarrow>
          bind_result (map_err (\<lambda>e. custom (''Invalid start number for range: '' @ e) (as_span start))
                         (parse_f64 L (as_str start))) (\<lambda>start_val.
          (case ps of
             [] \<Rightarrow> Inl (custom ''Range statement missing end number'' (as_span p))
           | fin # ps' \<Rightarrow>
               bind_result (map_err (\<lambda>e. custom (''Invalid end number for range: '' @ e) (as_span fin))
                              (parse_f64 L (as_str fin))) (\<lambda>end_val.
               (case ps' of
                  [] \<Rightarrow> Inl (custom ''Range statement missing block'' (as_span p))
                | b # _ \<Rightarrow>
                    if as_rule b \<noteq> R_block then
                      Inl (custom (''Expected block in range statement, found '' @ rule_debug (as_rule b))
                             (as_span b))
                    else
                      bind_result (lower_block_common_fields L b) (\<lambda>dr.
                        Inr (RangeRule start_val end_val (snd dr))))))))"

| "lower_if_statement L p =
     (case into_inner p of
        [] \<Rightarrow> Inl (custom ''If statement missing condition'' (as_span p))
      | cond # ps \<Rightarrow>
          (case ps of
             [] \<Rightarrow> Inl (custom (''If statement missing '' @ sq ''then'' @ '' block'')
                          (as_span p))
           | tb # ps' \<Rightarrow>
               if as_rule tb \<noteq> R_block then
                 Inl (custom (''Expected block for '' @ sq ''then'' @ '' branch, found '' @
                        rule_debug (as_rule tb)) (as_span tb))
               else
                 bind_result (lower_block_common_fields L tb) (\<lambda>dt.
                 bind_result
                   (case ps' of
                      [] \<Rightarrow> Inr None
                    | eb # _ \<Rightarrow>
                        if as_rule eb = R_block
                        then bind_result (lower_block_common_fields L eb) (\<lambda>de. Inr (Some (snd de)))
                        else Inl (custom (''Expected block for '' @ sq ''else'' @
                                    '' branch, found '' @ rule_debug (as_rule eb)) (as_span eb)))
                   (\<lambda>else_rs.
                     if 1 < length ps'
                     then Inl (custom (''Unexpected tokens after if-statement'' @ [CHR 0x27] @ ''s else block'')
                                 (as_span p))
                     else Inr (IfExpr (as_str cond) (snd dt) else_rs)))))"
  by (pat_completeness, simp_all only: sum.inject sum.distinct prod.inject list.inject list.distinct simp_thms)

termination
proof (relation "measure (\<lambda>x. case x of
      Inl (Inl (Inl (_, p))) \<Rightarrow> 2 * size p
    | Inl (Inl (Inr (_, _, _, ps))) \<Rightarrow> 2 * size_list size ps
    | Inl (Inr (Inl (_, _, _, p))) \<Rightarrow> 2 * size p + 1
    | Inl (Inr (Inr (_, p))) \<Rightarrow> 2 * size p + 1
    | Inr (Inl (Inl (_, ps))) \<Rightarrow> 2 * size_list size ps
    | Inr (Inl (Inr (_, ps))) \<Rightarrow> 2 * size_list size ps
    | Inr (Inr (Inl (_, p))) \<Rightarrow> 2 * size p
    | Inr (Inr (Inr (_, p))) \<Rightarrow> 2 * size p)", goal_cases)
  case 1
  show ?case by (rule wf_measure)
qed (auto simp: size_inner size_inner_twice size_inner_args dest!: size_inner_eq)

declare lower_block_common_fields.simps [simp del] lower_field.simps [simp del] lower_value_rule.simps [simp del]
  lower_range_statement.simps [simp del] lower_if_statement.simps [simp del]

section \<open>Roles, proposals and sections\<close>

definition lower_single_role_def :: "text_lib \<Rightarrow> pair \<Rightarrow> LowerError + DslRole" where
  "lower_single_role_def L p =
     (case into_inner p of
        [] \<Rightarrow> Inl (custom ''Role definition missing name'' (as_span p))
      | name # ps \<Rightarrow>
          (case ps of
             [] \<Rightarrow> Inl (custom (''Role definition for '' @ sq (unquote name) @ '' missing block'') (as_span p))
           | b # _ \<Rightarrow>
               if as_rule b \<noteq> R_block then
                 Inl (custom (''Expected block for role '' @ sq (unquote name) @ '', found '' @ rule_debug (as_rule b))
                        (as_span b))
               else
                 bind_result (lower_block_common_fields L b) (\<lambda>(description, attributes).
                   Inr \<lparr>role_name = unquote name,
                        role_description = (if description = [] then None else Some description),
                        role_attributes = attributes\<rparr>)))"

fun lower_roles :: "text_lib \<Rightarrow> pair list \<Rightarrow> LowerError + DslModule list" where
  "lower_roles L [] = Inr []"
| "lower_roles L (st # sts) =
     bind_result
       (if as_rule st = R_statement then
          (case into_inner st of
             [] \<Rightarrow> Inr []
           | d # _ \<Rightarrow>
               if as_rule d = R_role_def
               then bind_result (lower_single_role_def L d) (\<lambda>role. Inr [RoleModule role])
               else Inr [])
        else Inr [])
       (\<lambda>ms. bind_result (lower_roles L sts) (\<lambda>ms'. Inr (ms @ ms')))"

definition lower_roles_from_block :: "text_lib \<Rightarrow> pair \<Rightarrow> DslModule list \<Rightarrow> LowerError + DslModule list" where
  "lower_roles_from_block L p modules = bind_result (lower_roles L (into_inner p)) (\<lambda>ms. Inr (modules @ ms))"

definition build_stub_proposal :: "uuid \<Rightarrow> string \<Rightarrow> string \<Rightarrow> string \<Rightarrow> DslRule list \<Rightarrow> Proposal" where
  "build_stub_proposal new_id title version body rules =
     \<lparr>prop_id = new_id, prop_title = title, prop_version = version, prop_body = body,
      prop_author = ''unknown'', prop_created_at = 0, prop_rules = rules\<rparr>"

definition lower_proposal :: "text_lib \<Rightarrow> uuid \<Rightarrow> pair \<Rightarrow> LowerError + Proposal" where
  "lower_proposal L new_id p =
     (case into_inner p of
        [] \<Rightarrow> Inl (custom ''Proposal missing title'' (as_span p))
      | title # ps \<Rightarrow>
          (case ps of
             [] \<Rightarrow> Inl (custom ''Proposal missing block'' (as_span p))
           | b # _ \<Rightarrow>
               bind_result (lower_block_common_fields L b) (\<lambda>(description_body, dsl_rules).
                 Inr (build_stub_proposal new_id (unquote title) ''0.0.0-unknown'' description_body dsl_rules))))"

definition lower_election :: "text_lib \<Rightarrow> uuid \<Rightarrow> pair \<Rightarrow> LowerError + Proposal" where
  "lower_election L new_id p =
     (case into_inner p of
        [] \<Rightarrow> Inl (custom ''Election missing title'' (as_span p))
      | title # ps \<Rightarrow>
          (case ps of
             [] \<Rightarrow> Inl (custom ''Election missing block'' (as_span p))
           | b # _ \<Rightarrow>
               bind_result (lower_block_common_fields L b) (\<lambda>(description_body, dsl_rules).
                 Inr (build_stub_proposal new_id (unquote title) ''0.0.0-unknown'' description_body dsl_rules))))"

definition lower_bylaws_def :: "text_lib \<Rightarrow> uuid \<Rightarrow> pair \<Rightarrow> LowerError + Proposal" where
  "lower_bylaws_def L new_id p =
     (case into_inner p of
        [] \<Rightarrow> Inl (custom ''Bylaws definition missing title'' (as_span p))
      | title # ps \<Rightarrow>
          (case ps of
             [] \<Rightarrow> Inl (custom ''Bylaws definition missing version string'' (as_span p))
           | version # ps' \<Rightarrow>
               (case ps' of
                  [] \<Rightarrow> Inl (custom ''Bylaws definition missing block'' (as_span p))
                | b # _ \<Rightarrow>
                    bind_result (lower_block_common_fields L b) (\<lambda>(description_body, dsl_rules).
                      Inr (build_stub_proposal new_id (unquote title) (unquote version)
                             description_body dsl_rules)))))"

definition section_kind :: "rule \<Rightarrow> string" where
  "section_kind r = remove_all ''_def'' (to_lowercase (rule_debug r))"

text \<open>The loop over the inner pairs of a section: the last title and the last block count.\<close>

fun section_parts ::
    "string \<Rightarrow> string option \<Rightarrow> pair option \<Rightarrow> pair list \<Rightarrow> LowerError + string option \<times> pair option" where
  "section_parts kind title block [] = Inr (title, block)"
| "section_parts kind title block (p # ps) =
     (if as_rule p = R_string_literal then section_parts kind (Some (unquote p)) block ps
      else if as_rule p = R_block then section_parts kind title (Some p) ps
      else Inl (custom (''Unexpected rule '' @ rule_debug (as_rule p) @ '' inside generic section '' @ kind)
                  (as_span p)))"

definition lower_generic_section :: "text_lib \<Rightarrow> pair \<Rightarrow> LowerError + GenericSection" where
  "lower_generic_section L p =
     (let kind = section_kind (as_rule p) in
      bind_result (section_parts kind None None (into_inner p)) (\<lambda>(title, block).
        (case block of
           Some b \<Rightarrow>
             bind_result (lower_block_common_fields L b) (\<lambda>(_, rules).
               Inr \<lparr>sec_kind = kind, sec_title = title, sec_rules = rules\<rparr>)
         | None \<Rightarrow>
             Inl (custom (''Generic section type '' @ sq kind @ '' missing main block'') (as_span p)))))"

section \<open>Action handlers\<close>

text \<open>The characters after the opening quote and before the closing one, with escapes resolved.\<close>

fun unescape :: "span \<Rightarrow> string \<Rightarrow> LowerError + string" where
  "unescape sp [] = Inr []"
| "unescape sp (ch # cs) =
     (if ch = CHR 0x5C then
        (case cs of
           [] \<Rightarrow> Inl (custom ''Invalid escape sequence: dangling backslash at end of string.'' sp)
         | e # cs' \<Rightarrow>
             if e = CHR ''n'' then bind_result (unescape sp cs') (\<lambda>r. Inr (CHR 0x0A # r))
             else if e = CHR ''t'' then bind_result (unescape sp cs') (\<lambda>r. Inr (CHR 0x09 # r))
             else if e = CHR 0x22 then bind_result (unescape sp cs') (\<lambda>r. Inr (CHR 0x22 # r))
             else if e = CHR 0x5C then bind_result (unescape sp cs') (\<lambda>r. Inr (CHR 0x5C # r))
             else if e = CHR ''r'' then bind_result (unescape sp cs') (\<lambda>r. Inr (CHR 0x0D # r))
             else Inl (custom (''Invalid escape sequence: '' @ [CHR 0x5C, e]) sp))
      else bind_result (unescape sp cs) (\<lambda>r. Inr (ch # r)))"

text \<open>The slice \<open>raw_str[1..len - 1]\<close> of a string literal, which the grammar encloses in quotes.\<close>

definition extract_string_literal :: "pair \<Rightarrow> LowerError + string" where
  "extract_string_literal p =
     (if as_rule p \<noteq> R_string_literal
      then Inl (custom (''Expected string literal, found '' @ rule_debug (as_rule p)) (as_span p))
      else unescape (as_span p) (butlast (tl (as_str p))))"

fun mint_fields :: "span \<Rightarrow> MeteredAction \<Rightarrow> DslRule list \<Rightarrow> LowerError + MeteredAction" where
  "mint_fields sp m [] = Inr m"
| "mint_fields sp m (DslRule key val # rs) =
     (if key = ''type'' then
        (case val of
           RvString s \<Rightarrow> mint_fields sp (m\<lparr>metered_resource_type := s\<rparr>) rs
         | _ \<Rightarrow> Inl (custom (''mint_token '' @ sq ''type'' @ '' field must be a string.'') sp))
      else if key = ''recipient'' \<or> key = ''recipients'' then
        (case val of
           RvString s \<Rightarrow> mint_fields sp (m\<lparr>metered_recipient := Some s\<rparr>) rs
         | _ \<Rightarrow> Inl (custom (''mint_token '' @ sq ''recipient'' @ '' (or '' @ sq ''recipients'' @
                        '') field must be a string.'') sp))
      else if key = ''amount'' then
        (case val of
           RvNumber n \<Rightarrow> mint_fields sp (m\<lparr>metered_amount := f64_as_u64 n\<rparr>) rs
         | _ \<Rightarrow> Inl (custom (''mint_token '' @ sq ''amount'' @ '' field must be a number.'') sp))
      else if key = ''data'' then
        (case val of
           RvMap map_rules \<Rightarrow> mint_fields sp (m\<lparr>metered_data := Some map_rules\<rparr>) rs
         | _ \<Rightarrow> Inl (custom (''mint_token '' @ sq ''data'' @ '' field must be a map (block).'') sp))
      else mint_fields sp m rs)"

definition lower_mint_token :: "text_lib \<Rightarrow> pair \<Rightarrow> LowerError + MeteredAction" where
  "lower_mint_token L p =
     (case into_inner p of
        [] \<Rightarrow> Inl (custom ''mint_token missing block'' (as_span p))
      | b # _ \<Rightarrow>
          if as_rule b \<noteq> R_block
          then Inl (custom (''Expected block in mint_token, found '' @ rule_debug (as_rule b)) (as_span b))
          else
            bind_result (lower_block_common_fields L b) (\<lambda>(_, rules).
            bind_result
              (mint_fields (as_span b)
                 \<lparr>metered_resource_type = [], metered_amount = 1, metered_recipient = None, metered_data = None\<rparr>
                 rules) (\<lambda>m.
              if metered_resource_type m = []
              then Inl (custom (''mint_token requires a '' @ sq ''type'' @ '' field'') (as_span b))
              else Inr m)))"

fun anchor_fields :: "text_lib \<Rightarrow> span \<Rightarrow> Anchor \<Rightarrow> DslRule list \<Rightarrow> LowerError + Anchor" where
  "anchor_fields L sp a [] = Inr a"
| "anchor_fields L sp a (DslRule key val # rs) =
     (if key = ''path'' then
        (case val of
           RvString s \<Rightarrow> anchor_fields L sp (a\<lparr>anchor_path := Some s\<rparr>) rs
         | _ \<Rightarrow> Inl (custom (''anchor_data '' @ sq ''path'' @ '' field must be a string.'') sp))
      else if key = ''data'' \<or> key = ''payload_cid'' then
        (case val of
           RvString s \<Rightarrow> anchor_fields L sp (a\<lparr>data_reference := s\<rparr>) rs
         | RvMap _ \<Rightarrow>
             anchor_fields L sp
               (a\<lparr>data_reference :=
                   (case json_value L val of
                      Some json_s \<Rightarrow> json_s
                    | None \<Rightarrow> ''{'' @ quoted ''error'' @ '': '' @ quoted ''failed to serialize anchor data map'' @ ''}'')\<rparr>) rs
         | _ \<Rightarrow> Inl (custom (''anchor_data '' @ sq ''data'' @ '' or '' @ sq ''payload_cid'' @
                        '' field must be a string or a map.'') sp))
      else anchor_fields L sp a rs)"

definition lower_anchor_data :: "text_lib \<Rightarrow> pair \<Rightarrow> LowerError + Anchor" where
  "lower_anchor_data L p =
     (case into_inner p of
        [] \<Rightarrow> Inl (custom ''anchor_data missing block'' (as_span p))
      | b # _ \<Rightarrow>
          if as_rule b \<noteq> R_block
          then Inl (custom (''Expected block in anchor_data, found '' @ rule_debug (as_rule b)) (as_span b))
          else
            bind_result (lower_block_common_fields L b) (\<lambda>(_, rules).
            bind_result (anchor_fields L (as_span b) \<lparr>data_reference = [], anchor_path = None\<rparr> rules) (\<lambda>a.
              if data_reference a = []
              then Inl (custom (''anchor_data requires a '' @ sq ''data'' @ '' or '' @ sq ''payload_cid'' @
                          '' field that yields a reference string or map'') (as_span b))
              else Inr a)))"

definition resource_of_name :: "string \<Rightarrow> ResourceType option" where
  "resource_of_name s =
     (if s = ''CPU'' then Some Cpu else if s = ''MEMORY'' then Some Memory
      else if s = ''TOKEN'' then Some Token else if s = ''IO'' then Some Io else None)"

text \<open>The next inner pair, or an error; it must have the given rule, or another error.\<close>

definition expect_rule :: "span \<Rightarrow> string \<Rightarrow> string \<Rightarrow> rule \<Rightarrow> pair list \<Rightarrow> LowerError + pair \<times> pair list" where
  "expect_rule sp missing wrong r ps =
     (case ps of
        [] \<Rightarrow> Inl (custom missing sp)
      | p # ps' \<Rightarrow>
          if as_rule p \<noteq> r then Inl (custom (wrong @ '', found '' @ rule_debug (as_rule p)) (as_span p))
          else Inr (p, ps'))"

definition lower_perform_metered_action :: "pair \<Rightarrow> LowerError + ActionStep" where
  "lower_perform_metered_action p =
     bind_result
       (expect_rule (as_span p) ''Missing action name (string_literal) in perform_metered_action.''
          ''Expected action name as string_literal'' R_string_literal (into_inner p)) (\<lambda>(name, ps1).
     bind_result (extract_string_literal name) (\<lambda>action_name.
     bind_result
       (expect_rule (as_span p) ''Missing resource type namespace (identifier) in perform_metered_action.''
          ''Expected resource type namespace as identifier'' R_identifier ps1) (\<lambda>(ns, ps2).
     if as_str ns \<noteq> ''ResourceType'' then
       Inl (custom (''Expected resource type namespace '' @ sq ''ResourceType'' @ '', found '' @ sq (as_str ns))
              (as_span ns))
     else
     bind_result
       (expect_rule (as_span p) ''Missing resource type name (identifier) in perform_metered_action.''
          ''Expected resource type name as identifier'' R_identifier ps2) (\<lambda>(rn, ps3).
     (case resource_of_name (as_str rn) of
        None \<Rightarrow> Inl (custom (''Unknown resource type name '' @ sq (as_str rn)) (as_span rn))
      | Some resource \<Rightarrow>
          bind_result
            (expect_rule (as_span p) ''Missing amount (number) in perform_metered_action.''
               ''Expected amount as number'' R_number ps3) (\<lambda>(am, ps4).
          bind_result
            (map_err (\<lambda>e. custom (''Failed to parse amount '' @ sq (as_str am) @ '' as u64: '' @ e) (as_span am))
               (parse_u64 (as_str am))) (\<lambda>amount.
          if ps4 \<noteq> [] then Inl (custom ''Too many arguments in perform_metered_action.'' (as_span p))
          else Inr (PerformMeteredAction action_name resource amount))))))))"

fun lower_steps :: "text_lib \<Rightarrow> pair list \<Rightarrow> LowerError + ActionStep list" where
  "lower_steps L [] = Inr []"
| "lower_steps L (st # sts) =
     bind_result
       (if as_rule st = R_statement then
          (case into_inner st of
             [] \<Rightarrow> Inr []
           | d # _ \<Rightarrow>
               if as_rule d = R_mint_token
               then bind_result (lower_mint_token L d) (\<lambda>m. Inr [Metered m])
               else if as_rule d = R_anchor_data
               then bind_result (lower_anchor_data L d) (\<lambda>a. Inr [AnchorStep a])
               else if as_rule d = R_perform_metered_action
               then bind_result (lower_perform_metered_action d) (\<lambda>s. Inr [s])
               else Inr [])
        else Inr [])
       (\<lambda>ss. bind_result (lower_steps L sts) (\<lambda>ss'. Inr (ss @ ss')))"

definition lower_action_def :: "text_lib \<Rightarrow> pair \<Rightarrow> LowerError + ActionHandler" where
  "lower_action_def L p =
     (case into_inner p of
        [] \<Rightarrow> Inl (custom ''action_def missing event name (string_literal)'' (as_span p))
      | ev # ps \<Rightarrow>
          (case ps of
             [] \<Rightarrow> Inl (custom (''action_def for event '' @ sq (unquote ev) @ '' missing block'') (as_span p))
           | b # _ \<Rightarrow>
               if as_rule b \<noteq> R_block then
                 Inl (custom (''Expected block for action_def event '' @ sq (unquote ev) @ '', found '' @
                        rule_debug (as_rule b)) (as_span b))
               else
                 bind_result (lower_steps L (into_inner b)) (\<lambda>steps.
                   Inr \<lparr>handler_event = unquote ev, handler_steps = steps\<rparr>)))"

fun lower_handlers :: "text_lib \<Rightarrow> pair list \<Rightarrow> LowerError + DslModule list" where
  "lower_handlers L [] = Inr []"
| "lower_handlers L (st # sts) =
     bind_result
       (if as_rule st = R_statement then
          (case into_inner st of
             [] \<Rightarrow> Inr []
           | d # _ \<Rightarrow>
               if as_rule d = R_action_def
               then bind_result (lower_action_def L d) (\<lambda>h. Inr [ActionHandlerModule h])
               else Inr [])
        else Inr [])
       (\<lambda>hs. bind_result (lower_handlers L sts) (\<lambda>hs'. Inr (hs @ hs')))"

definition lower_actions :: "text_lib \<Rightarrow> pair \<Rightarrow> LowerError + DslModule list" where
  "lower_actions L p =
     (case into_inner p of
        [] \<Rightarrow> Inl (custom ''actions_def is missing a block'' (as_span p))
      | b # _ \<Rightarrow>
          if as_rule b \<noteq> R_block
          then Inl (custom (''Expected block within actions_def, found '' @ rule_debug (as_rule b)) (as_span b))
          else lower_handlers L (into_inner b))"

section \<open>Modules\<close>

definition section_rules :: "rule list" where
  "section_rules =
     [R_organization_def, R_governance_def, R_membership_def, R_allocations_def, R_spending_rules_def,
      R_reporting_def, R_process_def, R_vacancies_def]"

function (sequential) dispatch_def ::
    "text_lib \<Rightarrow> (nat \<Rightarrow> uuid) \<Rightarrow> DslModule list \<Rightarrow> pair \<Rightarrow> LowerError + DslModule list"
  and dispatch_defs ::
    "text_lib \<Rightarrow> (nat \<Rightarrow> uuid) \<Rightarrow> DslModule list \<Rightarrow> pair list \<Rightarrow> LowerError + DslModule list"
where
  "dispatch_def L new_v4 modules p =
     (if as_rule p = R_statement then dispatch_defs L new_v4 modules (into_inner p)
      else if as_rule p = R_proposal_def \<or> as_rule p = R_budget_def then
        bind_result (lower_proposal L (new_v4 (length modules)) p) (\<lambda>m. Inr (modules @ [ProposalModule m]))
      else if as_rule p = R_election_def then
        bind_result (lower_election L (new_v4 (length modules)) p) (\<lambda>m. Inr (modules @ [ProposalModule m]))
      else if as_rule p = R_bylaws_def then
        bind_result (lower_bylaws_def L (new_v4 (length modules)) p) (\<lambda>m. Inr (modules @ [ProposalModule m]))
      else if as_rule p = R_roles_def then
        (case into_inner p of
           b # _ \<Rightarrow>
             if as_rule b = R_block then lower_roles_from_block L b modules
             else Inl (custom (''Expected block within roles_def, found '' @ rule_debug (as_rule b)) (as_span b))
         | [] \<Rightarrow> Inl (custom ''roles_def is empty or missing a block'' (as_span p)))
      else if as_rule p = R_actions_def then
        bind_result (lower_actions L p) (\<lambda>hs. Inr (modules @ hs))
      else if as_rule p \<in> set section_rules then
        bind_result (lower_generic_section L p) (\<lambda>s. Inr (modules @ [SectionModule s]))
      else if as_rule p = R_EOI then Inr modules
      else
        Inl (Unhandled \<lparr>unhandled_rule = as_rule p, unhandled_content = as_str p,
               unhandled_line = fst (fst (as_span p)), unhandled_column = snd (fst (as_span p))\<rparr>))"
| "dispatch_defs L new_v4 modules [] = Inr modules"
| "dispatch_defs L new_v4 modules (p # ps) =
     bind_result (dispatch_def L new_v4 modules p) (\<lambda>ms. dispatch_defs L new_v4 ms ps)"
  by (pat_completeness, simp_all only: sum.inject sum.distinct prod.inject list.inject list.distinct simp_thms)

termination
  by (relation "measure (\<lambda>x. case x of Inl (_, _, _, p) \<Rightarrow> 2 * size p | Inr (_, _, _, ps) \<Rightarrow> 2 * size_list size ps)")
     (auto simp: size_inner size_inner_twice)

declare dispatch_def.simps [simp del]

fun lower :: "text_lib \<Rightarrow> (nat \<Rightarrow> uuid) \<Rightarrow> DslModule list \<Rightarrow> pair list \<Rightarrow> LowerError + DslModule list" where
  "lower L new_v4 modules [] = Inr modules"
| "lower L new_v4 modules (p # ps) =
     bind_result
       (if as_rule p = R_statement then dispatch_defs L new_v4 modules (into_inner p)
        else dispatch_def L new_v4 modules p)
       (\<lambda>ms. lower L new_v4 ms ps)"

definition lower_str ::
    "text_lib \<Rightarrow> (nat \<Rightarrow> uuid) \<Rightarrow> (string \<Rightarrow> pest_error + pair list) \<Rightarrow> string \<Rightarrow> LowerError + DslModule list" where
  "lower_str L new_v4 parse src =
     bind_result (map_err Parse (parse src)) (\<lambda>pairs.
       (case pairs of
          [] \<Rightarrow> Inl (custom ''Expected a CCL root pair but found none.'' ((1, 1), (1, 1)))
        | root # _ \<Rightarrow> lower L new_v4 [] (into_inner root)))"

section \<open>Which definitions are accepted\<close>

definition handled_rules :: "rule list" where
  "handled_rules =
     [R_statement, R_proposal_def, R_budget_def, R_election_def, R_bylaws_def, R_roles_def, R_actions_def, R_EOI] @
     section_rules"

lemma dispatch_unhandled:
  "as_rule p \<notin> set handled_rules \<Longrightarrow>
   dispatch_def L new_v4 modules p =
     Inl (Unhandled \<lparr>unhandled_rule = as_rule p, unhandled_content = as_str p,
            unhandled_line = fst (fst (as_span p)), unhandled_column = snd (fst (as_span p))\<rparr>)"
  by (subst dispatch_def.simps) (simp add: handled_rules_def)

lemma lower_append:
  "lower L new_v4 modules (ps @ qs) = bind_result (lower L new_v4 modules ps) (\<lambda>ms. lower L new_v4 ms qs)"
proof (induction ps arbitrary: modules)
  case (Cons p ps)
  show ?case
    by (cases "if as_rule p = R_statement then dispatch_defs L new_v4 modules (into_inner p)
               else dispatch_def L new_v4 modules p") (simp_all add: Cons.IH)
qed simp

text \<open>Unhandled definitions are reported: a contract with a top-level definition outside the handled
  rules (a bare statement, a condition, a single role, a scenario) is never lowered; unless an earlier part
  already failed, the error names that definition, its text and its position, whatever follows it.\<close>

lemma lower_reports_unhandled:
  assumes "as_rule d \<notin> set handled_rules"
  shows "lower L ids modules (ps @ Pair R_statement matched sp (d # ds) # qs) =
    (case lower L ids modules ps of
       Inl e \<Rightarrow> Inl e
     | Inr _ \<Rightarrow> Inl (Unhandled \<lparr>unhandled_rule = as_rule d, unhandled_content = as_str d,
                  unhandled_line = fst (fst (as_span d)), unhandled_column = snd (fst (as_span d))\<rparr>))"
  by (simp add: lower_append bind_result_def dispatch_unhandled [OF assms] split: sum.split)

definition plain_text :: text_lib where
  "plain_text = \<lparr>parse_f64 = (\<lambda>_. Inl ''float''), fmt_f64 = (\<lambda>_. []), json_value = (\<lambda>_. None)\<rparr>"

lemma lower_reports_unhandled_witness:
  "lower plain_text (\<lambda>_. 0) []
     ([] @ Pair R_statement ''scenario'' ((3, 1), (3, 9)) [Pair R_scenario_def ''s'' ((3, 1), (3, 9)) []] # []) =
   Inl (Unhandled \<lparr>unhandled_rule = R_scenario_def, unhandled_content = ''s'', unhandled_line = 3,
          unhandled_column = 1\<rparr>)"
  using lower_reports_unhandled [where d = "Pair R_scenario_def ''s'' ((3, 1), (3, 9)) []" and ps = "[]"
      and L = plain_text and ids = "\<lambda>_. 0" and modules = "[]" and matched = "''scenario''"
      and sp = "((3, 1), (3, 9))" and ds = "[]" and qs = "[]"]
  by (simp add: handled_rules_def section_rules_def)

section \<open>Printing and lowering rules\<close>

text \<open>The parse tree of a rule list, as the grammar builds it: maps are blocks where a statement allows one
  and objects elsewhere, conditionals are statements.\<close>

abbreviation mk :: "rule \<Rightarrow> string \<Rightarrow> pair list \<Rightarrow> pair" where
  "mk r s ps \<equiv> Pair r s ((1, 1), (1, 1)) ps"

fun value_pair :: "text_lib \<Rightarrow> RuleValue \<Rightarrow> pair"
  and element_pairs :: "text_lib \<Rightarrow> RuleValue list \<Rightarrow> pair list"
  and entry_pairs :: "text_lib \<Rightarrow> DslRule list \<Rightarrow> pair list"
  and field_pairs :: "text_lib \<Rightarrow> DslRule list \<Rightarrow> pair list"
  and field_pair :: "text_lib \<Rightarrow> DslRule \<Rightarrow> pair"
where
  "value_pair L (RvString s) = mk R_string_literal (quoted s) []"
| "value_pair L (RvNumber n) = mk R_number (fmt_f64 L n) []"
| "value_pair L (RvBoolean b) = mk R_boolean (if b then ''true'' else ''false'') []"
| "value_pair L (RvList vs) = mk R_array [] (element_pairs L vs)"
| "value_pair L (RvMap rs) = mk R_object [] (entry_pairs L rs)"
| "value_pair L (RvRange (RangeRule a b rs)) =
     mk R_range_value [] [mk R_number (fmt_f64 L a) [], mk R_number (fmt_f64 L b) [], mk R_block [] (field_pairs L rs)]"
| "value_pair L (RvIf e) = mk R_if_statement [] []"
| "element_pairs L [] = []"
| "element_pairs L (v # vs) = mk R_value [] [value_pair L v] # element_pairs L vs"
| "entry_pairs L [] = []"
| "entry_pairs L (DslRule k v # rs) =
     mk R_object_pair [] [mk R_string_literal (quoted k) [], mk R_value [] [value_pair L v]] # entry_pairs L rs"
| "field_pairs L [] = []"
| "field_pairs L (r # rs) = mk R_statement [] [field_pair L r] # field_pairs L rs"
| "field_pair L (DslRule k (RvMap rs)) =
     mk R_any_statement [] [mk R_string_literal (quoted k) [], mk R_block [] (field_pairs L rs)]"
| "field_pair L (DslRule k (RvIf (IfExpr c t e))) =
     mk R_if_statement []
       (mk R_comparison_expression c [] # mk R_block [] (field_pairs L t) #
        (case e of None \<Rightarrow> [] | Some rs \<Rightarrow> [mk R_block [] (field_pairs L rs)]))"
| "field_pair L (DslRule k v) =
     mk R_any_statement [] [mk R_string_literal (quoted k) [], mk R_value [] [value_pair L v]]"

definition block_pair :: "text_lib \<Rightarrow> DslRule list \<Rightarrow> pair" where
  "block_pair L rs = mk R_block [] (field_pairs L rs)"

definition plain :: "string \<Rightarrow> bool" where
  "plain s \<longleftrightarrow> s = [] \<or> hd s \<noteq> CHR 0x22 \<and> last s \<noteq> CHR 0x22"

text \<open>What a contract can express: texts that do not begin or end with a quote, numbers whose text is read
  back, conditionals only as statements and under the key the lowering gives them, and no statement called
  \<open>description\<close>, which names the body instead of a rule.\<close>

fun wf_value :: "text_lib \<Rightarrow> RuleValue \<Rightarrow> bool"
  and wf_elements :: "text_lib \<Rightarrow> RuleValue list \<Rightarrow> bool"
  and wf_entries :: "text_lib \<Rightarrow> DslRule list \<Rightarrow> bool"
  and wf_fields :: "text_lib \<Rightarrow> nat \<Rightarrow> DslRule list \<Rightarrow> bool"
  and wf_field :: "text_lib \<Rightarrow> nat \<Rightarrow> DslRule \<Rightarrow> bool"
where
  "wf_value L (RvString s) = plain s"
| "wf_value L (RvNumber n) = (parse_f64 L (fmt_f64 L n) = Inr n)"
| "wf_value L (RvBoolean b) = True"
| "wf_value L (RvList vs) = wf_elements L vs"
| "wf_value L (RvMap rs) = wf_entries L rs"
| "wf_value L (RvRange (RangeRule a b rs)) =
     (parse_f64 L (fmt_f64 L a) = Inr a \<and> parse_f64 L (fmt_f64 L b) = Inr b \<and> wf_fields L 0 rs)"
| "wf_value L (RvIf e) = False"
| "wf_elements L [] = True"
| "wf_elements L (v # vs) = (wf_value L v \<and> wf_elements L vs)"
| "wf_entries L [] = True"
| "wf_entries L (DslRule k v # rs) = (plain k \<and> wf_value L v \<and> wf_entries L rs)"
| "wf_fields L n [] = True"
| "wf_fields L n (r # rs) = (wf_field L n r \<and> wf_fields L (Suc n) rs)"
| "wf_field L n (DslRule k (RvMap rs)) = (plain k \<and> wf_fields L 0 rs)"
| "wf_field L n (DslRule k (RvIf (IfExpr c t e))) =
     (k = ''if_condition_'' @ dec_str n \<and> wf_fields L 0 t \<and> (case e of None \<Rightarrow> True | Some rs \<Rightarrow> wf_fields L 0 rs))"
| "wf_field L n (DslRule k v) = (plain k \<and> k \<noteq> ''description'' \<and> wf_value L v)"

lemma unquote_quoted: "plain s \<Longrightarrow> unquote (Pair r (quoted s) sp ps) = s"
  by (simp add: unquote_def plain_def trim_quoted)

lemma parse_bool_text: "parse_bool (if b then ''true'' else ''false'') = Inr b"
  by (simp add: parse_bool_def)

lemmas lower_unfold = lower_block_common_fields.simps lower_field.simps lower_value_rule.simps
  lower_range_statement.simps lower_if_statement.simps

lemma lower_printed:
  "wf_value L v \<Longrightarrow> lower_value_rule L (value_pair L v) = Inr v"
  "wf_elements L vs \<Longrightarrow> lower_elements L (element_pairs L vs) = Inr vs"
  "wf_entries L es \<Longrightarrow> lower_object_pairs L (entry_pairs L es) = Inr es"
  "wf_fields L (length acc) rs \<Longrightarrow> lower_fields L desc acc (field_pairs L rs) = Inr (desc, acc @ rs)"
  "wf_field L (length acc) r \<Longrightarrow> lower_field L desc acc (field_pair L r) = Inr (desc, acc @ [r])"
proof (induction L v and L vs and L es and L rs and L r arbitrary: and and and acc desc and acc desc
    rule: value_pair_element_pairs_entry_pairs_field_pairs_field_pair.induct)
qed (auto simp: lower_unfold unquote_quoted parse_bool_text split: option.splits)

text \<open>C35: Lowering reads back a well-formed list of rules: lowering the parse tree of their block gives exactly these rules, in
  order, and an empty description.  Well-formed are rules whose keys and texts have no quotation mark at an end and whose numbers
  survive printing and reading; whose key is not \<open>description\<close> unless the value is a block (a plain description becomes the
  block's description instead); and whose conditionals stand as statements, under the key
  \<open>if_condition_<position>\<close> the lowering gives them, and not as values.\<close>

theorem lower_block_roundtrip:
  assumes "wf_fields L 0 rs"
  shows "lower_block_common_fields L (block_pair L rs) = Inr ([], rs)"
  using lower_printed(4) [of L "[]" rs "[]"] assms by (simp add: lower_block_common_fields.simps block_pair_def)

definition one_number :: text_lib where
  "one_number = \<lparr>parse_f64 = (\<lambda>_. Inr 7), fmt_f64 = (\<lambda>_. ''7''), json_value = (\<lambda>_. None)\<rparr>"

theorem lower_block_roundtrip_witness:
  "lower_block_common_fields one_number (block_pair one_number
     [DslRule ''quorum'' (RvNumber 7),
      DslRule (''if_condition_'' @ dec_str 1)
        (RvIf (IfExpr ''a == b'' [DslRule ''fast'' (RvBoolean True)] (Some [DslRule ''tags'' (RvList [RvString ''x''])])))]) =
   Inr ([], [DslRule ''quorum'' (RvNumber 7),
      DslRule (''if_condition_'' @ dec_str 1)
        (RvIf (IfExpr ''a == b'' [DslRule ''fast'' (RvBoolean True)] (Some [DslRule ''tags'' (RvList [RvString ''x''])])))])"
  by (rule lower_block_roundtrip) (simp add: one_number_def plain_def)

section \<open>Metered actions\<close>

lemma expect_rule_Inr:
  "expect_rule sp missing wrong r ps = Inr (p, qs) \<longleftrightarrow> ps = p # qs \<and> as_rule p = r"
  by (auto simp: expect_rule_def split: list.split)

text \<open>A metered action is accepted exactly when it has four inner pairs: a string literal whose escapes
  are valid, the identifier \<open>ResourceType\<close>, one of the four resource names, and a number that is an unsigned
  64-bit integer; the step has these values.\<close>

lemma perform_metered_action_spec:
  "lower_perform_metered_action p = Inr step \<longleftrightarrow>
   (\<exists>a ns rn am ident resource amount.
      into_inner p = [a, ns, rn, am] \<and> as_rule a = R_string_literal \<and> as_rule ns = R_identifier \<and>
      as_rule rn = R_identifier \<and> as_rule am = R_number \<and> as_str ns = ''ResourceType'' \<and>
      extract_string_literal a = Inr ident \<and> resource_of_name (as_str rn) = Some resource \<and>
      parse_u64 (as_str am) = Inr amount \<and> step = PerformMeteredAction ident resource amount)"
  unfolding lower_perform_metered_action_def
  by (auto simp: bind_result_Inr_iff expect_rule_Inr split: option.split_asm if_splits; force)

text \<open>The texts \<open>unescape\<close> reads back: every text with backslashes and quotes escaped.\<close>

fun escape :: "string \<Rightarrow> string" where
  "escape [] = []"
| "escape (c # cs) = (if c = CHR 0x22 \<or> c = CHR 0x5C then CHR 0x5C # c # escape cs else c # escape cs)"

lemma unescape_escape: "unescape sp (escape s) = Inr s"
  by (induction s) auto

text \<open>String literals of metered actions survive quoting: whatever the action's name, writing it with its
  quotes and backslashes escaped gives the name back.  The other strings of a contract are only stripped of
  quotes at their ends: a text that ends with an escaped quote loses it and keeps the backslash.\<close>

lemma string_literal_roundtrip:
  "extract_string_literal (Pair R_string_literal (quoted (escape s)) sp ps) = Inr s \<and>
   (\<exists>t. extract_string_literal (Pair R_string_literal (quoted (escape t)) sp ps) = Inr t \<and>
      unquote (Pair R_string_literal (quoted (escape t)) sp ps) = ''a'' @ [CHR 0x5C] \<and> t = ''a'' @ [CHR 0x22])"
  by (simp add: extract_string_literal_def quoted_def unescape_escape unquote_def trim_matches_def)

end
