(* ===== verification/Ccl_Codegen.thy ===== *)
theory Ccl_Codegen
  imports Ccl_Dsl
begin

text \<open>
  The second pass of the contract compiler, \<open>crates/ccl/icn-ccl-wasm-codegen/src/lib.rs\<close> and \<open>opcodes.rs\<close>: modules
  become a list of opcodes.  \<open>WasmGenerator\<close> appends to a vector; a walk is the list it appends.  The JSON text
  of a value, a rule list or a string (\<open>serde_json::to_string\<close>, \<open>None\<close> for its error), the decimal text of a
  double and the \<open>Debug\<close> text of a module are the fields of \<open>gen_lib\<close>.

  \<open>nesting\<close> runs a stack of open sections and conditionals over an opcode list; the generator's output is
  balanced for it.  \<open>op_effects\<close> and \<open>module_effects\<close> compare the actions of the output with those of the input.
\<close>

section \<open>Opcodes\<close>

record job_request =
  req_wasm_cid :: string
  req_description :: "string option"
  req_input_data_cid :: "string option"
  req_entry_function :: "string option"
  req_required_resources_json :: "string option"
  req_qos_profile_json :: "string option"
  req_max_acceptable_bid_tokens :: "u64 option"
  req_deadline_utc_ms :: "u64 option"
  req_metadata_json :: "string option"

datatype Opcode =
    CreateProposal string "string option"
  | OnEvent string
  | MintToken string u64 "string option" "string option"
  | AnchorData "string option" string
  | UseResource string u64
  | TransferToken string u64 "string option" string
  | SubmitJob job_request
  | CallHost string string
  | If string
  | Else
  | EndIf
  | RangeCheck f64 f64
  | BeginSection string "string option"
  | EndSection
  | SetProperty string string
  | Todo string

type_synonym Program = "Opcode list"

record gen_lib =
  to_json_value :: "RuleValue \<Rightarrow> string option"
  to_json_rules :: "DslRule list \<Rightarrow> string option"
  to_json_string :: "string \<Rightarrow> string option"
  display_f64 :: "f64 \<Rightarrow> string"
  debug_module :: "DslModule \<Rightarrow> string"

section \<open>The generator\<close>

definition unwrap_or :: "'a option \<Rightarrow> 'a \<Rightarrow> 'a" where
  "unwrap_or x d = (case x of Some a \<Rightarrow> a | None \<Rightarrow> d)"

lemma unwrap_or_simps [simp]: "unwrap_or (Some a) d = a" "unwrap_or None d = d"
  by (simp_all add: unwrap_or_def)

fun resource_name :: "ResourceType \<Rightarrow> string" where
  "resource_name Cpu = ''Cpu''"
| "resource_name Memory = ''Memory''"
| "resource_name Io = ''Io''"
| "resource_name Token = ''Token''"

definition is_function_call :: "DslRule list \<Rightarrow> bool" where
  "is_function_call kv = (case kv of [] \<Rightarrow> False | r # _ \<Rightarrow> rule_key r = ''function_name'')"

definition walk_function_call :: "gen_lib \<Rightarrow> string \<Rightarrow> RuleValue \<Rightarrow> Opcode list" where
  "walk_function_call G fn_name args_rule = [CallHost fn_name (unwrap_or (to_json_value G args_rule) ''{}'')]"

definition function_args :: "DslRule list \<Rightarrow> RuleValue" where
  "function_args kv =
     (case find (\<lambda>r. rule_key r = ''args'') kv of Some r \<Rightarrow> rule_value r | None \<Rightarrow> RvList [])"

fun walk_rules :: "gen_lib \<Rightarrow> DslRule list \<Rightarrow> Opcode list"
  and walk_rule :: "gen_lib \<Rightarrow> DslRule \<Rightarrow> Opcode list"
  and walk_if_expr :: "gen_lib \<Rightarrow> IfExpr \<Rightarrow> Opcode list"
where
  "walk_rules G [] = []"
| "walk_rules G (r # rs) = walk_rule G r @ walk_rules G rs"
| "walk_rule G (DslRule k (RvIf expr)) = walk_if_expr G expr"
| "walk_rule G (DslRule k (RvRange (RangeRule start fin rules))) =
     [BeginSection (''range_'' @ display_f64 G start @ ''_'' @ display_f64 G fin) (Some k)] @
     walk_rules G rules @ [EndSection]"
| "walk_rule G (DslRule k (RvMap kv)) =
     (if is_function_call kv then walk_function_call G k (function_args kv) else walk_rules G kv)"
| "walk_rule G (DslRule k v) =
     [SetProperty k (unwrap_or (to_json_value G v) (quoted ''<serialization error>''))]"
| "walk_if_expr G (IfExpr cond then_rs else_rs) =
     [If cond] @ walk_rules G then_rs @
     (case else_rs of None \<Rightarrow> [] | Some rs \<Rightarrow> [Else] @ walk_rules G rs) @ [EndIf]"

fun walk_step :: "gen_lib \<Rightarrow> ActionStep \<Rightarrow> Opcode list" where
  "walk_step G (Metered m) =
     [MintToken (metered_resource_type m) (metered_amount m) (metered_recipient m)
        (map_option (\<lambda>d. unwrap_or (to_json_rules G d) ''[]'') (metered_data m))]"
| "walk_step G (AnchorStep a) = [AnchorData (anchor_path a) (data_reference a)]"
| "walk_step G (PerformMeteredAction ident resource amount) =
     [UseResource (resource_name resource) amount, Todo (''Perform action: '' @ ident)]"
| "walk_step G (TransferTokenStep token amount src dst) =
     [TransferToken token amount (Some src) dst]"

fun walk_module :: "gen_lib \<Rightarrow> DslModule \<Rightarrow> Opcode list" where
  "walk_module G (ProposalModule p) =
     CreateProposal (prop_title p) (Some (prop_version p)) # walk_rules G (prop_rules p)"
| "walk_module G (ActionHandlerModule h) =
     OnEvent (handler_event h) # concat (map (walk_step G) (handler_steps h))"
| "walk_module G (SectionModule s) =
     [BeginSection (sec_kind s) (sec_title s)] @ walk_rules G (sec_rules s) @ [EndSection]"
| "walk_module G (RoleModule r) =
     [BeginSection ''role'' (Some (role_name r))] @
     (case role_description r of
        Some desc \<Rightarrow>
          [SetProperty ''description'' (unwrap_or (to_json_string G desc) (quoted ''<serialization error>''))]
      | None \<Rightarrow> []) @
     walk_rules G (role_attributes r) @ [EndSection]"
| "walk_module G m = [Todo (''Unhandled DslModule: '' @ debug_module G m)]"

definition generate :: "gen_lib \<Rightarrow> DslModule list \<Rightarrow> Program" where
  "generate G modules = concat (map (walk_module G) modules)"

section \<open>Nesting\<close>

datatype frame = InSection | InThen | InElse

text \<open>The open sections and conditionals after an opcode; \<open>None\<close> when it closes something that is not
  innermost.\<close>

fun nest1 :: "Opcode \<Rightarrow> frame list \<Rightarrow> frame list option" where
  "nest1 (BeginSection k t) fs = Some (InSection # fs)"
| "nest1 EndSection (InSection # fs) = Some fs"
| "nest1 EndSection _ = None"
| "nest1 (If c) fs = Some (InThen # fs)"
| "nest1 Else (InThen # fs) = Some (InElse # fs)"
| "nest1 Else _ = None"
| "nest1 EndIf (InThen # fs) = Some fs"
| "nest1 EndIf (InElse # fs) = Some fs"
| "nest1 EndIf _ = None"
| "nest1 _ fs = Some fs"

fun nesting :: "Opcode list \<Rightarrow> frame list \<Rightarrow> frame list option" where
  "nesting [] fs = Some fs"
| "nesting (op # ops) fs = (case nest1 op fs of None \<Rightarrow> None | Some fs' \<Rightarrow> nesting ops fs')"

lemma nesting_append [simp]:
  "nesting (xs @ ys) fs = (case nesting xs fs of None \<Rightarrow> None | Some fs' \<Rightarrow> nesting ys fs')"
  by (induction xs arbitrary: fs) (auto split: option.split)

lemma nesting_walk_rules:
  "nesting (walk_rules G rs) fs = Some fs"
  "nesting (walk_rule G r) fs = Some fs"
  "nesting (walk_if_expr G e) fs = Some fs"
  by (induction G rs and G r and G e arbitrary: fs and fs and fs rule: walk_rules_walk_rule_walk_if_expr.induct)
    (auto simp: walk_function_call_def split: option.split)

lemma nesting_walk_step: "nesting (walk_step G s) fs = Some fs"
  by (cases s) simp_all

lemma nesting_concat:
  assumes "\<And>x fs. nesting (f x) fs = Some fs"
  shows "nesting (concat (map f xs)) fs = Some fs"
  by (induction xs) (simp_all add: assms)

lemma nesting_walk_module: "nesting (walk_module G m) fs = Some fs"
  by (cases m) (simp_all add: nesting_walk_rules nesting_concat nesting_walk_step split: option.split)

text \<open>Balanced output: over the opcodes generated from any modules every section end closes the section
  opened last, every \<open>Else\<close> follows an open \<open>If\<close> without one, every \<open>EndIf\<close> closes the innermost conditional, and
  nothing is left open at the end.\<close>

lemma generated_balanced: "nesting (generate G modules) [] = Some []"
  unfolding generate_def by (rule nesting_concat) (rule nesting_walk_module)

section \<open>Actions\<close>

datatype effect =
    EMint string u64 "string option"
  | EAnchor "string option" string
  | EUse string u64
  | ETransfer string u64 string string

fun op_effects :: "Opcode \<Rightarrow> effect list" where
  "op_effects (MintToken t n r d) = [EMint t n r]"
| "op_effects (AnchorData p d) = [EAnchor p d]"
| "op_effects (UseResource t n) = [EUse t n]"
| "op_effects (TransferToken t n s r) = [ETransfer t n (unwrap_or s []) r]"
| "op_effects _ = []"

fun step_effects :: "ActionStep \<Rightarrow> effect list" where
  "step_effects (Metered m) = [EMint (metered_resource_type m) (metered_amount m) (metered_recipient m)]"
| "step_effects (AnchorStep a) = [EAnchor (anchor_path a) (data_reference a)]"
| "step_effects (PerformMeteredAction i r n) = [EUse (resource_name r) n]"
| "step_effects (TransferTokenStep t n s r) = [ETransfer t n s r]"

text \<open>Only action handlers carry actions; a metered action or an anchor that is a module of its own has none
  the generator knows.\<close>

fun module_effects :: "DslModule \<Rightarrow> effect list" where
  "module_effects (ActionHandlerModule h) = concat (map step_effects (handler_steps h))"
| "module_effects _ = []"

definition effects :: "Opcode list \<Rightarrow> effect list" where
  "effects ops = concat (map op_effects ops)"

lemma effects_simps [simp]:
  "effects [] = []" "effects (op # ops) = op_effects op @ effects ops" "effects (xs @ ys) = effects xs @ effects ys"
  by (simp_all add: effects_def)

lemma effects_walk_rules:
  "effects (walk_rules G rs) = []"
  "effects (walk_rule G r) = []"
  "effects (walk_if_expr G e) = []"
  by (induction G rs and G r and G e rule: walk_rules_walk_rule_walk_if_expr.induct)
    (auto simp: walk_function_call_def split: option.split)

lemma effects_walk_step: "effects (walk_step G s) = step_effects s"
  by (cases s) simp_all

lemma effects_concat: "effects (concat (map f xs)) = concat (map (\<lambda>x. effects (f x)) xs)"
  by (induction xs) simp_all

lemma effects_walk_module: "effects (walk_module G m) = module_effects m"
  by (cases m) (simp_all add: effects_walk_rules effects_concat effects_walk_step split: option.split)

lemma no_check_walk_rules:
  "RangeCheck a b \<notin> set (walk_rules G rs) \<and> SubmitJob q \<notin> set (walk_rules G rs)"
  "RangeCheck a b \<notin> set (walk_rule G r) \<and> SubmitJob q \<notin> set (walk_rule G r)"
  "RangeCheck a b \<notin> set (walk_if_expr G e) \<and> SubmitJob q \<notin> set (walk_if_expr G e)"
  by (induction G rs and G r and G e rule: walk_rules_walk_rule_walk_if_expr.induct)
    (auto simp: walk_function_call_def split: option.splits if_splits)

lemma no_check_walk_step: "RangeCheck a b \<notin> set (walk_step G s) \<and> SubmitJob q \<notin> set (walk_step G s)"
  by (cases s) simp_all

lemma no_check_walk_module: "RangeCheck a b \<notin> set (walk_module G m) \<and> SubmitJob q \<notin> set (walk_module G m)"
  by (cases m) (auto simp: no_check_walk_rules no_check_walk_step split: option.split)

text \<open>The actions are preserved: the mint, anchor, resource and transfer opcodes of the output are, in
  order, the actions of the handlers' steps with their amounts, and rules contribute none.  No range check and
  no job submission is ever generated: a range rule becomes a section, so its bounds are not checked.\<close>

lemma generated_effects:
  "effects (generate G modules) = concat (map module_effects modules) \<and>
   RangeCheck a b \<notin> set (generate G modules) \<and> SubmitJob q \<notin> set (generate G modules)"
  by (auto simp: generate_def effects_concat effects_walk_module no_check_walk_module)

end
