(* ===== verification/Wasm_Emit.thy ===== *)
theory Wasm_Emit
  imports Ccl_Codegen Mesh_Types
begin

text \<open>
  The last pass of the contract compiler, \<open>crates/ccl/icn-ccl-wasm-codegen/src/emit.rs\<close>: an opcode list becomes a
  WebAssembly module.  A module is the list of its sections in the order in which the code adds them; the
  binary encoding of a section is the work of the \<open>wasm_encoder\<close> library and is not needed here.

  \<open>call_sites\<close> lists the host calls of a function body with the constants pushed for each; \<open>decode\<close> reads such
  constants against the memory the data segments initialise, a pointer and a length being the bytes they
  designate.  \<open>type_sites\<close> and \<open>sections_ordered\<close> are the two rules of the WebAssembly specification that matter
  for these bodies: the operands of a call have the parameter types of the callee, and the known sections
  appear in the order of their numbers.

  The JSON readers for the resources and the service profile of a job and the CBOR encoding of its parameters
  are the fields of \<open>emit_lib\<close>.
\<close>

section \<open>Modules\<close>

datatype ValType = I32 | I64 | F64

type_synonym functype = "ValType list \<times> ValType list"

datatype instr =
    I32Const i32
  | I64Const u64
  | F64Const f64
  | Call nat
  | LocalSet nat
  | LocalGet nat
  | End

type_synonym segment = "u32 \<times> bytes"

datatype module_section =
    TypeSection "functype list"
  | ImportSection "(string \<times> string \<times> nat) list"
  | FunctionSection "nat list"
  | MemorySection nat
  | DataSection "segment list"
  | CodeSection "instr list list"
  | ExportSection "(string \<times> nat) list"

record emit_lib =
  parse_resources :: "string \<Rightarrow> (string \<times> u64) list option"
  parse_qos :: "string \<Rightarrow> QoSProfile option"
  to_cbor :: "MeshJobParams \<Rightarrow> bytes option"

record emitter =
  em_body :: "instr list"
  em_data :: "segment list"
  em_offset :: u32

definition JOB_ID_BUFFER_SIZE :: u32 where
  "JOB_ID_BUFFER_SIZE = 128"

definition JOB_ID_BUFFER_OFFSET :: u32 where
  "JOB_ID_BUFFER_OFFSET = 0"

definition instruction :: "instr \<Rightarrow> emitter \<Rightarrow> emitter" where
  "instruction i st = st\<lparr>em_body := em_body st @ [i]\<rparr>"

definition emit_data_segment :: "u32 \<Rightarrow> bytes \<Rightarrow> emitter \<Rightarrow> emitter" where
  "emit_data_segment offset dat st = st\<lparr>em_data := em_data st @ [(offset, dat)]\<rparr>"

text \<open>The common part of a string and of a CBOR payload: the length as \<open>i32\<close>, a segment and an advance of the
  offset when it is positive.\<close>

definition place_bytes :: "bytes \<Rightarrow> emitter \<Rightarrow> emitter" where
  "place_bytes dat st =
     (let len = (word_of_nat (length dat) :: i32) in
      if 0 <s len
      then (emit_data_segment (em_offset st) dat st)\<lparr>em_offset := em_offset st + len\<rparr>
      else st)"

definition encode_push_string :: "string \<Rightarrow> emitter \<Rightarrow> emitter" where
  "encode_push_string s st =
     instruction (I32Const (word_of_nat (length (str_bytes s))))
       (instruction (I32Const (em_offset st)) (place_bytes (str_bytes s) st))"

definition resource_of_key :: "string \<Rightarrow> ResourceType option" where
  "resource_of_key key =
     (let k = to_lowercase key in
      if k = ''cpu'' \<or> k = ''compute'' then Some Cpu else if k = ''memory'' then Some Memory
      else if k = ''io'' then Some Io else if k = ''token'' then Some Token else None)"

definition job_resources :: "emit_lib \<Rightarrow> string option \<Rightarrow> (ResourceType \<times> u64) list" where
  "job_resources X json =
     (case json of
        None \<Rightarrow> []
      | Some s \<Rightarrow>
          (case parse_resources X s of
             None \<Rightarrow> []
           | Some kvs \<Rightarrow>
               concat (map (\<lambda>(k, v). case resource_of_key k of None \<Rightarrow> [] | Some r \<Rightarrow> [(r, v)]) kvs)))"

definition job_qos :: "emit_lib \<Rightarrow> string option \<Rightarrow> QoSProfile" where
  "job_qos X json =
     (case json of None \<Rightarrow> BestEffort | Some s \<Rightarrow> unwrap_or (parse_qos X s) BestEffort)"

definition job_params :: "emit_lib \<Rightarrow> job_request \<Rightarrow> MeshJobParams" where
  "job_params X q =
     \<lparr>mj_wasm_cid = req_wasm_cid q, mj_description = unwrap_or (req_description q) [],
      mj_resources_required = job_resources X (req_required_resources_json q),
      mj_qos_profile = job_qos X (req_qos_profile_json q), mj_deadline = req_deadline_utc_ms q,
      mj_input_data_cid = req_input_data_cid q,
      mj_max_acceptable_bid_tokens = req_max_acceptable_bid_tokens q, mj_explicit_mana_cost = None,
      mj_workflow_type = SingleWasmModule, mj_stages = None, mj_is_interactive = False,
      mj_expected_output_schema_cid = None, mj_execution_policy = None\<rparr>"

definition emit_submit_job :: "emit_lib \<Rightarrow> job_request \<Rightarrow> emitter \<Rightarrow> emitter" where
  "emit_submit_job X q st =
     (let cbor = unwrap_or (to_cbor X (job_params X q)) [] in
      instruction (LocalSet 0)
        (instruction (Call 16)
          (instruction (I32Const JOB_ID_BUFFER_SIZE)
            (instruction (I32Const JOB_ID_BUFFER_OFFSET)
              (instruction (I32Const (word_of_nat (length cbor)))
                (instruction (I32Const (em_offset st)) (place_bytes cbor st)))))))"

fun emit_op :: "emit_lib \<Rightarrow> Opcode \<Rightarrow> emitter \<Rightarrow> emitter" where
  "emit_op X (BeginSection kind title) st =
     instruction (Call 0) (encode_push_string (unwrap_or title []) (encode_push_string kind st))"
| "emit_op X EndSection st = instruction (Call 1) st"
| "emit_op X (CreateProposal title version) st =
     instruction (Call 2) (encode_push_string (unwrap_or version ''0.0.0'') (encode_push_string title st))"
| "emit_op X (MintToken res_type amount to_did dat) st =
     instruction (Call 3)
       (encode_push_string (unwrap_or dat [])
         (encode_push_string (unwrap_or to_did [])
           (instruction (I64Const amount) (encode_push_string res_type st))))"
| "emit_op X (AnchorData path data_ref) st =
     instruction (Call 4) (encode_push_string data_ref (encode_push_string (unwrap_or path []) st))"
| "emit_op X (CallHost fn_name args_payload) st =
     instruction (Call 5) (encode_push_string args_payload (encode_push_string fn_name st))"
| "emit_op X (If condition) st = instruction (Call 6) (encode_push_string condition st)"
| "emit_op X Else st = instruction (Call 7) st"
| "emit_op X EndIf st = instruction (Call 8) st"
| "emit_op X (SetProperty key value_json) st =
     instruction (Call 9) (encode_push_string value_json (encode_push_string key st))"
| "emit_op X (Todo msg) st = instruction (Call 10) (encode_push_string msg st)"
| "emit_op X (OnEvent event) st = instruction (Call 11) (encode_push_string event st)"
| "emit_op X (RangeCheck start fin) st =
     instruction (Call 13) (instruction (F64Const fin) (instruction (F64Const start) st))"
| "emit_op X (UseResource res_type amount) st =
     instruction (Call 14) (instruction (I64Const amount) (encode_push_string res_type st))"
| "emit_op X (TransferToken token amount src dst) st =
     instruction (Call 15)
       (encode_push_string dst
         (encode_push_string (unwrap_or src [])
           (instruction (I64Const amount) (encode_push_string token st))))"
| "emit_op X (SubmitJob q) st = emit_submit_job X q st"

definition emit_start :: emitter where
  "emit_start =
     instruction (LocalSet 0)
       (instruction (I32Const 0)
         \<lparr>em_body = [], em_data = [(JOB_ID_BUFFER_OFFSET, replicate (unat JOB_ID_BUFFER_SIZE) 0)],
          em_offset = JOB_ID_BUFFER_OFFSET + JOB_ID_BUFFER_SIZE\<rparr>)"

definition emit_ops :: "emit_lib \<Rightarrow> Program \<Rightarrow> emitter" where
  "emit_ops X ops = fold (emit_op X) ops emit_start"

definition emit_main :: "emit_lib \<Rightarrow> Program \<Rightarrow> emitter" where
  "emit_main X ops = instruction End (instruction (LocalGet 0) (emit_ops X ops))"

text \<open>The signatures in the order of the comments of the code, with the numbers of the host functions.\<close>

definition host_signatures :: "functype list" where
  "host_signatures =
     [([I32, I32, I32, I32], []), ([], []), ([I32, I32, I32, I32], []), ([I32, I64, I32, I32], []),
      ([I32, I32, I32, I32], []), ([I32, I32, I32, I32], []), ([I32, I32], []), ([], []), ([], []),
      ([I32, I32, I32, I32], []), ([I32, I32], []), ([I32, I32], []), ([I32, I32], []), ([F64, F64], []),
      ([I32, I64], []), ([I32, I64, I32, I32], []), ([I32, I32, I32, I32], [I32])]"

definition host_fns :: "(string \<times> nat) list" where
  "host_fns =
     [(''begin_section'', 0), (''end_section'', 1), (''create_proposal'', 2), (''mint_token'', 3),
      (''anchor_data'', 4), (''call_host'', 5), (''log_if_condition'', 6), (''log_else'', 7), (''log_endif'', 8),
      (''set_property'', 9), (''log_todo'', 10), (''on_event'', 11), (''log_range_check'', 12), (''range_check'', 13),
      (''use_resource'', 14), (''transfer_token'', 15), (''host_submit_mesh_job'', 16)]"

definition program_to_wasm :: "emit_lib \<Rightarrow> Program \<Rightarrow> module_section list" where
  "program_to_wasm X ops =
     (let main = emit_main X ops in
      [TypeSection (([], [I32]) # host_signatures),
       ImportSection (map (\<lambda>(name, type_idx). (''icn_host'', name, type_idx)) host_fns),
       FunctionSection [17],
       MemorySection 1,
       DataSection (em_data main),
       CodeSection [em_body main],
       ExportSection [(''_start'', 17)]])"

definition compile_to_wasm :: "gen_lib \<Rightarrow> emit_lib \<Rightarrow> DslModule list \<Rightarrow> module_section list" where
  "compile_to_wasm G X modules = program_to_wasm X (generate G modules)"

section \<open>Call sites and the memory\<close>

fun call_sites :: "instr list \<Rightarrow> instr list \<Rightarrow> (nat \<times> instr list) list" where
  "call_sites acc [] = []"
| "call_sites acc (Call n # is) = (n, acc) # call_sites [] is"
| "call_sites acc (LocalSet n # is) = call_sites (butlast acc) is"
| "call_sites acc (LocalGet n # is) = call_sites acc is"
| "call_sites acc (End # is) = call_sites acc is"
| "call_sites acc (c # is) = call_sites (acc @ [c]) is"

definition write_segment :: "segment \<Rightarrow> (nat \<Rightarrow> u8) \<Rightarrow> nat \<Rightarrow> u8" where
  "write_segment seg m i =
     (if unat (fst seg) \<le> i \<and> i < unat (fst seg) + length (snd seg) then snd seg ! (i - unat (fst seg)) else m i)"

text \<open>The bytes at the addresses of the segments.  The emitted module declares a memory of at least one page; an engine refuses
  to instantiate it when a segment ends beyond that page.\<close>

definition init_memory :: "segment list \<Rightarrow> nat \<Rightarrow> u8" where
  "init_memory segs = fold write_segment segs (\<lambda>_. 0)"

definition mem_slice :: "(nat \<Rightarrow> u8) \<Rightarrow> nat \<Rightarrow> nat \<Rightarrow> bytes" where
  "mem_slice m a n = map m [a..<a + n]"

datatype harg = HBytes bytes | HI64 u64 | HF64 f64

fun decode :: "(nat \<Rightarrow> u8) \<Rightarrow> instr list \<Rightarrow> harg list option" where
  "decode m [] = Some []"
| "decode m (I32Const a # I32Const n # cs) =
     map_option (\<lambda>args. HBytes (mem_slice m (unat a) (unat n)) # args) (decode m cs)"
| "decode m (I64Const x # cs) = map_option (\<lambda>args. HI64 x # args) (decode m cs)"
| "decode m (F64Const x # cs) = map_option (\<lambda>args. HF64 x # args) (decode m cs)"
| "decode m _ = None"

text \<open>The host call an opcode stands for.\<close>

abbreviation hstr :: "string \<Rightarrow> harg" where
  "hstr s \<equiv> HBytes (str_bytes s)"

fun op_call :: "emit_lib \<Rightarrow> Opcode \<Rightarrow> nat \<times> harg list" where
  "op_call X (BeginSection kind title) = (0, [hstr kind, hstr (unwrap_or title [])])"
| "op_call X EndSection = (1, [])"
| "op_call X (CreateProposal title version) = (2, [hstr title, hstr (unwrap_or version ''0.0.0'')])"
| "op_call X (MintToken t n r d) = (3, [hstr t, HI64 n, hstr (unwrap_or r []), hstr (unwrap_or d [])])"
| "op_call X (AnchorData path d) = (4, [hstr (unwrap_or path []), hstr d])"
| "op_call X (CallHost f args) = (5, [hstr f, hstr args])"
| "op_call X (If c) = (6, [hstr c])"
| "op_call X Else = (7, [])"
| "op_call X EndIf = (8, [])"
| "op_call X (SetProperty k v) = (9, [hstr k, hstr v])"
| "op_call X (Todo msg) = (10, [hstr msg])"
| "op_call X (OnEvent e) = (11, [hstr e])"
| "op_call X (RangeCheck a b) = (13, [HF64 a, HF64 b])"
| "op_call X (UseResource t n) = (14, [hstr t, HI64 n])"
| "op_call X (TransferToken t n a b) = (15, [hstr t, HI64 n, hstr (unwrap_or a []), hstr b])"
| "op_call X (SubmitJob q) =
     (16, [HBytes (unwrap_or (to_cbor X (job_params X q)) []), HBytes (replicate 128 0)])"

text \<open>The bytes an opcode adds to the data section.\<close>

fun op_size :: "emit_lib \<Rightarrow> Opcode \<Rightarrow> nat" where
  "op_size X (SubmitJob q) = length (unwrap_or (to_cbor X (job_params X q)) [])"
| "op_size X op = sum_list (map (\<lambda>a. case a of HBytes bs \<Rightarrow> length bs | _ \<Rightarrow> 0) (snd (op_call X op)))"

section \<open>Layout of the data section\<close>

fun laid :: "nat \<Rightarrow> segment list \<Rightarrow> bool" where
  "laid a [] \<longleftrightarrow> True"
| "laid a (seg # segs) \<longleftrightarrow> unat (fst seg) = a \<and> laid (a + length (snd seg)) segs"

definition seg_total :: "segment list \<Rightarrow> nat" where
  "seg_total segs = sum_list (map (length \<circ> snd) segs)"

lemma total_simps [simp]:
  "seg_total [] = 0" "seg_total (s # segs) = length (snd s) + seg_total segs" "seg_total (xs @ ys) = seg_total xs + seg_total ys"
  by (simp_all add: seg_total_def)

lemma laid_append [simp]: "laid a (xs @ ys) \<longleftrightarrow> laid a xs \<and> laid (a + seg_total xs) ys"
  by (induction xs arbitrary: a) (auto simp: add.assoc)

lemma write_after: "laid a segs \<Longrightarrow> i < a \<Longrightarrow> fold write_segment segs m i = m i"
  by (induction segs arbitrary: a m) (auto simp: write_segment_def)

lemma init_memory_at:
  assumes "laid 0 (xs @ (p, bs) # ys)" "j < length bs"
  shows "init_memory (xs @ (p, bs) # ys) (unat p + j) = bs ! j"
proof -
  have "laid (unat p + length bs) ys" using assms(1) by simp
  then have "fold write_segment ys m (unat p + j) = m (unat p + j)" for m
    using assms(2) by (intro write_after) auto
  then show ?thesis using assms(2) by (simp add: init_memory_def write_segment_def)
qed

lemma mem_slice_segment:
  "laid 0 (xs @ (p, bs) # ys) \<Longrightarrow> mem_slice (init_memory (xs @ (p, bs) # ys)) (unat p) (length bs) = bs"
  by (rule nth_equalityI) (simp_all add: mem_slice_def init_memory_at del: laid_append)

definition layout :: "emitter \<Rightarrow> bool" where
  "layout st \<longleftrightarrow> laid 0 (em_data st) \<and> unat (em_offset st) = seg_total (em_data st)"

fun is_const :: "instr \<Rightarrow> bool" where
  "is_const (I32Const x) = True"
| "is_const (I64Const x) = True"
| "is_const (F64Const x) = True"
| "is_const _ = False"

text \<open>From \<open>st\<close> to \<open>st'\<close> constants were appended that designate \<open>args\<close> in every later memory, and \<open>n\<close> bytes were
  placed.\<close>

definition emits :: "nat \<Rightarrow> emitter \<Rightarrow> emitter \<Rightarrow> harg list \<Rightarrow> bool" where
  "emits n st st' args \<longleftrightarrow>
     (\<exists>cs segs. em_body st' = em_body st @ cs \<and> em_data st' = em_data st @ segs \<and> layout st' \<and>
        unat (em_offset st') = unat (em_offset st) + n \<and> list_all is_const cs \<and>
        (\<forall>more. laid 0 (em_data st' @ more) \<longrightarrow> decode (init_memory (em_data st' @ more)) cs = Some args))"

lemma decode_append: "decode m cs = Some args \<Longrightarrow> 
   decode m (cs @ ds) = (case decode m ds of None \<Rightarrow> None | Some bs \<Rightarrow> Some (args @ bs))"
  by (induction m cs arbitrary: args rule: decode.induct) (auto split: option.split)

lemma emits_refl: "layout st \<Longrightarrow> emits 0 st st []"
  unfolding emits_def by (rule exI [of _ "[]"]) simp

lemma emits_trans:
  assumes "emits m st st1 a" "emits n st1 st2 b"
  shows "emits (m + n) st st2 (a @ b)"
proof -
  obtain cs segs where 1: "em_body st1 = em_body st @ cs" "em_data st1 = em_data st @ segs"
      "unat (em_offset st1) = unat (em_offset st) + m" "list_all is_const cs"
      "\<And>more. laid 0 (em_data st1 @ more) \<Longrightarrow> decode (init_memory (em_data st1 @ more)) cs = Some a"
    using assms(1) by (auto simp: emits_def)
  obtain ds segs' where 2: "em_body st2 = em_body st1 @ ds" "em_data st2 = em_data st1 @ segs'" "layout st2"
      "unat (em_offset st2) = unat (em_offset st1) + n" "list_all is_const ds"
      "\<And>more. laid 0 (em_data st2 @ more) \<Longrightarrow> decode (init_memory (em_data st2 @ more)) ds = Some b"
    using assms(2) by (auto simp: emits_def)
  have "decode (init_memory (em_data st2 @ more)) (cs @ ds) = Some (a @ b)"
    if "laid 0 (em_data st2 @ more)" for more
    using 1(5) [of "segs' @ more"] 2(6) [of more] that by (simp add: 2(2) decode_append)
  then show ?thesis
    unfolding emits_def using 1(1-4) 2(1-5) by (intro exI [of _ "cs @ ds"] exI [of _ "segs @ segs'"]) simp
qed

lemma sless_of_nat: "n < 2 ^ 31 \<Longrightarrow> (0 <s (word_of_nat n :: i32)) \<longleftrightarrow> 0 < n"
  by (simp add: word_sless_alt signed_of_nat signed_take_bit_int_eq_self)

lemma place_bytes_layout:
  assumes "layout st" "unat (em_offset st) + length dat < 2 ^ 31"
  shows "em_body (place_bytes dat st) = em_body st"
    "em_data (place_bytes dat st) = em_data st @ (if dat = [] then [] else [(em_offset st, dat)])"
    "layout (place_bytes dat st)"
    "unat (em_offset (place_bytes dat st)) = unat (em_offset st) + length dat"
proof -
  have "unat (em_offset st + word_of_nat (length dat)) = unat (em_offset st) + length dat"
    using assms(2) by (simp add: unat_add_exact unat_of_nat_len)
  then show "em_body (place_bytes dat st) = em_body st"
    "em_data (place_bytes dat st) = em_data st @ (if dat = [] then [] else [(em_offset st, dat)])"
    "layout (place_bytes dat st)"
    "unat (em_offset (place_bytes dat st)) = unat (em_offset st) + length dat"
    using assms by (auto simp: place_bytes_def sless_of_nat emit_data_segment_def layout_def Let_def)
qed

text \<open>Placing bytes and pushing their pointer and length.\<close>

lemma emits_placed:
  assumes "layout st" "unat (em_offset st) + length dat < 2 ^ 31"
  shows "emits (length dat) st
      (instruction (I32Const (word_of_nat (length dat))) (instruction (I32Const (em_offset st)) (place_bytes dat st)))
      [HBytes dat]"
proof -
  note P = place_bytes_layout [OF assms]
  have len: "unat (word_of_nat (length dat) :: i32) = length dat" using assms(2) by (simp add: unat_of_nat_len)
  have "mem_slice (init_memory (em_data (place_bytes dat st) @ more)) (unat (em_offset st)) (length dat) = dat"
    if "laid 0 (em_data (place_bytes dat st) @ more)" for more
    using that mem_slice_segment [of "em_data st" "em_offset st" dat more] by (auto simp: P(2) mem_slice_def)
  then show ?thesis
    unfolding emits_def using P len
    by (intro exI [of _ "[I32Const (em_offset st), I32Const (word_of_nat (length dat))]"]
          exI [of _ "if dat = [] then [] else [(em_offset st, dat)]"])
      (simp add: instruction_def layout_def del: laid_append)
qed

lemma emits_push:
  "layout st \<Longrightarrow> unat (em_offset st) + length s < 2 ^ 31 \<Longrightarrow>
   emits (length s) st (encode_push_string s st) [hstr s]"
  using emits_placed [of st "str_bytes s"] by (simp add: encode_push_string_def)

lemma emits_const: "layout st \<Longrightarrow> emits 0 st (instruction (I64Const x) st) [HI64 x]"
  "layout st \<Longrightarrow> emits 0 st (instruction (F64Const y) st) [HF64 y]"
  by (auto simp: emits_def instruction_def layout_def)

lemma emits_layout: "emits n st st' args \<Longrightarrow> layout st' \<and> unat (em_offset st') = unat (em_offset st) + n"
  by (auto simp: emits_def)

lemma emits_then_push:
  assumes "emits n st st' args" "unat (em_offset st) + n + length s < 2 ^ 31"
  shows "emits (n + length s) st (encode_push_string s st') (args @ [hstr s])"
  using emits_trans [OF assms(1) emits_push [of st' s]] emits_layout [OF assms(1)] assms(2) by simp

lemma emits_then_const:
  assumes "emits n st st' args"
  shows "emits n st (instruction (I64Const x) st') (args @ [HI64 x])"
    "emits n st (instruction (F64Const y) st') (args @ [HF64 y])"
  using emits_trans [OF assms emits_const(1) [of st' x]] emits_trans [OF assms emits_const(2) [of st' y]]
    emits_layout [OF assms] by simp_all

text \<open>The job buffer at the start of the memory is zero before the host writes it.\<close>

definition starts_with_buffer :: "emitter \<Rightarrow> bool" where
  "starts_with_buffer st \<longleftrightarrow> (\<exists>segs. em_data st = (0, replicate 128 0) # segs)"

lemma emits_then_buffer:
  assumes "emits n st st' args" "starts_with_buffer st'"
  shows "emits n st (instruction (I32Const 128) (instruction (I32Const 0) st')) (args @ [HBytes (replicate 128 0)])"
proof -
  obtain segs where d: "em_data st' = [] @ (0, replicate 128 0) # segs"
    using assms(2) by (auto simp: starts_with_buffer_def)
  have "mem_slice (init_memory (em_data st' @ more)) 0 128 = replicate 128 0" if "laid 0 (em_data st' @ more)" for more
    using mem_slice_segment [of "[]" 0 "replicate 128 0" "segs @ more"] that d by simp
  then have "emits 0 st' (instruction (I32Const 128) (instruction (I32Const 0) st')) [HBytes (replicate 128 0)]"
    using emits_layout [OF assms(1)] unfolding emits_def
    by (intro exI [of _ "[I32Const 0, I32Const 128]"] exI [of _ "[]"]) (simp add: instruction_def layout_def)
  from emits_trans [OF assms(1) this] show ?thesis by simp
qed

text \<open>One opcode: its operands, its call, and the store of the result of a submission.\<close>

definition emits_call :: "nat \<Rightarrow> emitter \<Rightarrow> emitter \<Rightarrow> nat \<times> harg list \<Rightarrow> bool" where
  "emits_call n st st' c \<longleftrightarrow>
     (\<exists>st1 tail. emits n st st1 (snd c) \<and> em_body st' = em_body st1 @ Call (fst c) # tail \<and>
        (tail = [] \<or> tail = [LocalSet 0]) \<and> em_data st' = em_data st1 \<and> em_offset st' = em_offset st1)"

lemma emits_callI: "emits n st st1 args \<Longrightarrow> emits_call n st (instruction (Call k) st1) (k, args)"
  unfolding emits_call_def by (intro exI [of _ st1] exI [of _ "[]"]) (simp add: instruction_def)

lemma starts_place: "starts_with_buffer st \<Longrightarrow> starts_with_buffer (place_bytes dat st)"
  by (auto simp: starts_with_buffer_def place_bytes_def emit_data_segment_def Let_def)

lemma starts_instruction: "starts_with_buffer (instruction i st) = starts_with_buffer st"
  by (simp add: starts_with_buffer_def instruction_def)

lemma emit_submit_job_call:
  assumes "layout st" "starts_with_buffer st" "unat (em_offset st) + op_size X (SubmitJob q) < 2 ^ 31"
  shows "emits_call (op_size X (SubmitJob q)) st (emit_op X (SubmitJob q) st) (op_call X (SubmitJob q))"
proof -
  let ?cbor = "unwrap_or (to_cbor X (job_params X q)) []"
  have starts: "starts_with_buffer (instruction (I32Const (word_of_nat (length ?cbor)))
      (instruction (I32Const (em_offset st)) (place_bytes ?cbor st)))"
    using assms(2) by (simp add: starts_instruction starts_place)
  have placed: "emits (length ?cbor) st
      (instruction (I32Const (word_of_nat (length ?cbor))) (instruction (I32Const (em_offset st)) (place_bytes ?cbor st)))
      [HBytes ?cbor]"
    using assms by (intro emits_placed) simp_all
  have E: "emits (op_size X (SubmitJob q)) st
      (instruction (I32Const 128) (instruction (I32Const 0)
        (instruction (I32Const (word_of_nat (length ?cbor)))
          (instruction (I32Const (em_offset st)) (place_bytes ?cbor st)))))
      (snd (op_call X (SubmitJob q)))"
    using emits_then_buffer [OF placed starts] by simp
  show ?thesis
    unfolding emits_call_def
    by (intro exI [of _ "[LocalSet 0]"] exI conjI, rule E)
      (simp_all add: emit_submit_job_def instruction_def Let_def JOB_ID_BUFFER_OFFSET_def JOB_ID_BUFFER_SIZE_def)
qed

text \<open>The operand shapes of the other opcodes.\<close>

lemma emits_push2:
  "layout st \<Longrightarrow> unat (em_offset st) + (length s + length t) < 2 ^ 31 \<Longrightarrow>
   emits (length s + length t) st (encode_push_string t (encode_push_string s st)) [hstr s, hstr t]"
  using emits_then_push [OF emits_push, of st s t] by (simp add: add.assoc)

lemma emits_push_i64:
  "layout st \<Longrightarrow> unat (em_offset st) + length s < 2 ^ 31 \<Longrightarrow>
   emits (length s) st (instruction (I64Const x) (encode_push_string s st)) [hstr s, HI64 x]"
  using emits_then_const(1) [OF emits_push, of st s x] by simp

lemma emits_push_i64_push2:
  assumes "layout st" "unat (em_offset st) + (length s + (length t + length u)) < 2 ^ 31"
  shows "emits (length s + (length t + length u)) st
     (encode_push_string u (encode_push_string t (instruction (I64Const x) (encode_push_string s st))))
     [hstr s, HI64 x, hstr t, hstr u]"
  using emits_then_push [OF emits_then_push [OF emits_push_i64], of st s t u x] assms by (simp add: add.assoc)

lemma emits_f64_f64:
  "layout st \<Longrightarrow> emits 0 st (instruction (F64Const y) (instruction (F64Const x) st)) [HF64 x, HF64 y]"
  using emits_then_const(2) [OF emits_const(2), of st y x] by simp

lemma emit_op_call:
  assumes "layout st" "starts_with_buffer st" "unat (em_offset st) + op_size X op < 2 ^ 31"
  shows "emits_call (op_size X op) st (emit_op X op st) (op_call X op)"
proof (cases op)
  case (SubmitJob q)
  then show ?thesis using assms emit_submit_job_call by simp
qed (use assms in \<open>simp_all add: emits_callI emits_refl emits_push emits_push2 emits_push_i64
  emits_push_i64_push2 emits_f64_f64\<close>)

lemma emits_call_layout:
  assumes "emits_call n st st' c" "starts_with_buffer st"
  shows "layout st'" "unat (em_offset st') = unat (em_offset st) + n" "starts_with_buffer st'"
  using assms by (auto simp: emits_call_def emits_def layout_def starts_with_buffer_def)

lemma call_sites_consts: "list_all is_const cs \<Longrightarrow> call_sites acc (cs @ is) = call_sites (acc @ cs) is"
proof (induction cs arbitrary: acc)
  case (Cons c cs)
  then show ?case by (cases c) simp_all
qed simp

definition decoded :: "(nat \<Rightarrow> u8) \<Rightarrow> (nat \<times> instr list) list \<Rightarrow> (nat \<times> harg list option) list" where
  "decoded m sites = map (\<lambda>(n, cs). (n, decode m cs)) sites"

lemma emits_call_sites:
  assumes "emits_call n st st' c"
  shows "\<exists>code segs. em_body st' = em_body st @ code \<and> em_data st' = em_data st @ segs \<and>
     (\<forall>more rest. laid 0 (em_data st' @ more) \<longrightarrow>
        decoded (init_memory (em_data st' @ more)) (call_sites [] (code @ rest)) =
          (fst c, Some (snd c)) # decoded (init_memory (em_data st' @ more)) (call_sites [] rest))"
proof -
  obtain st1 tail where 1: "emits n st st1 (snd c)" "em_body st' = em_body st1 @ Call (fst c) # tail"
      "tail = [] \<or> tail = [LocalSet 0]" "em_data st' = em_data st1"
    using assms by (auto simp: emits_call_def)
  obtain cs segs where 2: "em_body st1 = em_body st @ cs" "em_data st1 = em_data st @ segs" "list_all is_const cs"
      "\<And>more. laid 0 (em_data st1 @ more) \<Longrightarrow> decode (init_memory (em_data st1 @ more)) cs = Some (snd c)"
    using 1(1) by (auto simp: emits_def)
  have sites: "call_sites [] (cs @ Call (fst c) # tail @ rest) = (fst c, cs) # call_sites [] rest" for rest
    using 1(3) by (auto simp: call_sites_consts [OF 2(3)])
  have "decoded (init_memory (em_data st' @ more)) (call_sites [] ((cs @ Call (fst c) # tail) @ rest)) =
      (fst c, Some (snd c)) # decoded (init_memory (em_data st' @ more)) (call_sites [] rest)"
    if "laid 0 (em_data st' @ more)" for more rest
    using that 2(4) [of more] by (simp add: sites decoded_def 1(4) del: laid_append)
  then show ?thesis
    by (intro exI [of _ "cs @ Call (fst c) # tail"] exI [of _ segs]) (simp add: 1(2,4) 2(1,2) del: laid_append)
qed

lemma emit_fold_sites:
  assumes "layout st" "starts_with_buffer st" "unat (em_offset st) + sum_list (map (op_size X) ops) < 2 ^ 31"
  shows "\<exists>code segs. em_body (fold (emit_op X) ops st) = em_body st @ code \<and>
     em_data (fold (emit_op X) ops st) = em_data st @ segs \<and> layout (fold (emit_op X) ops st) \<and>
     unat (em_offset (fold (emit_op X) ops st)) = unat (em_offset st) + sum_list (map (op_size X) ops) \<and>
     (\<forall>more rest. laid 0 (em_data (fold (emit_op X) ops st) @ more) \<longrightarrow>
        decoded (init_memory (em_data (fold (emit_op X) ops st) @ more)) (call_sites [] (code @ rest)) =
          map (\<lambda>op. (fst (op_call X op), Some (snd (op_call X op)))) ops @
          decoded (init_memory (em_data (fold (emit_op X) ops st) @ more)) (call_sites [] rest))"
  using assms
proof (induction ops arbitrary: st)
  case Nil
  then show ?case by (intro exI [of _ "[]"]) simp
next
  case (Cons op ops)
  let ?st = "emit_op X op st" and ?fin = "fold (emit_op X) ops (emit_op X op st)"
  have c: "emits_call (op_size X op) st ?st (op_call X op)" using Cons.prems by (intro emit_op_call) simp_all
  note L = emits_call_layout [OF c Cons.prems(2)]
  obtain code segs where 1: "em_body ?st = em_body st @ code" "em_data ?st = em_data st @ segs"
      "\<And>more rest. laid 0 (em_data ?st @ more) \<Longrightarrow>
        decoded (init_memory (em_data ?st @ more)) (call_sites [] (code @ rest)) =
          (fst (op_call X op), Some (snd (op_call X op))) #
          decoded (init_memory (em_data ?st @ more)) (call_sites [] rest)"
    using emits_call_sites [OF c] by blast
  have "unat (em_offset ?st) + sum_list (map (op_size X) ops) < 2 ^ 31" using Cons.prems(3) L(2) by simp
  from Cons.IH [OF L(1,3) this] obtain code' segs' where 2: "em_body ?fin = em_body ?st @ code'"
      "em_data ?fin = em_data ?st @ segs'" "layout ?fin"
      "unat (em_offset ?fin) = unat (em_offset ?st) + sum_list (map (op_size X) ops)"
      "\<And>more rest. laid 0 (em_data ?fin @ more) \<Longrightarrow>
        decoded (init_memory (em_data ?fin @ more)) (call_sites [] (code' @ rest)) =
          map (\<lambda>op. (fst (op_call X op), Some (snd (op_call X op)))) ops @
          decoded (init_memory (em_data ?fin @ more)) (call_sites [] rest)"
    by blast
  have "decoded (init_memory (em_data ?fin @ more)) (call_sites [] ((code @ code') @ rest)) =
      map (\<lambda>op. (fst (op_call X op), Some (snd (op_call X op)))) (op # ops) @
      decoded (init_memory (em_data ?fin @ more)) (call_sites [] rest)"
    if "laid 0 (em_data ?fin @ more)" for more rest
    using 1(3) [of "segs' @ more" "code' @ rest"] 2(5) [OF that] that by (simp add: 2(2) del: laid_append)
  then show ?case
    using 1(1,2) 2(1-4) L(2)
    by (intro exI [of _ "code @ code'"] exI [of _ "segs @ segs'"]) (simp del: laid_append)
qed

lemma emit_start_ok:
  "layout emit_start" "starts_with_buffer emit_start" "em_offset emit_start = 128"
  "em_body emit_start = [I32Const 0, LocalSet 0]"
  by (simp_all add: emit_start_def instruction_def layout_def starts_with_buffer_def JOB_ID_BUFFER_OFFSET_def
      JOB_ID_BUFFER_SIZE_def)

lemma emit_fold_sites_main:
  assumes "128 + sum_list (map (op_size X) ops) < 2 ^ 31"
  shows "decoded (init_memory (em_data (emit_main X ops))) (call_sites [] (em_body (emit_main X ops))) =
      map (\<lambda>op. (fst (op_call X op), Some (snd (op_call X op)))) ops"
    "unat (em_offset (emit_main X ops)) = 128 + sum_list (map (op_size X) ops)"
proof -
  have "unat (em_offset emit_start) + sum_list (map (op_size X) ops) < 2 ^ 31"
    using assms by (simp add: emit_start_ok)
  from emit_fold_sites [OF emit_start_ok(1,2) this] obtain code where
      1: "em_body (emit_ops X ops) = em_body emit_start @ code" "layout (emit_ops X ops)"
        "unat (em_offset (emit_ops X ops)) = unat (em_offset emit_start) + sum_list (map (op_size X) ops)"
      and 2: "\<And>more rest. laid 0 (em_data (emit_ops X ops) @ more) \<Longrightarrow>
        decoded (init_memory (em_data (emit_ops X ops) @ more)) (call_sites [] (code @ rest)) =
          map (\<lambda>op. (fst (op_call X op), Some (snd (op_call X op)))) ops @
          decoded (init_memory (em_data (emit_ops X ops) @ more)) (call_sites [] rest)"
    unfolding emit_ops_def by blast
  show "decoded (init_memory (em_data (emit_main X ops))) (call_sites [] (em_body (emit_main X ops))) =
      map (\<lambda>op. (fst (op_call X op), Some (snd (op_call X op)))) ops"
    "unat (em_offset (emit_main X ops)) = 128 + sum_list (map (op_size X) ops)"
    using 1 2 [of "[]" "[LocalGet 0, End]"]
    by (simp_all add: emit_main_def instruction_def emit_start_ok layout_def decoded_def)
qed

text \<open>The emitted code calls what the opcodes say: as long as the texts fit below \<open>2 ^ 31\<close>, the call sites
  of the start function are one per opcode, in order, each with the number of its host function and with
  operands that, read against the memory the data segments initialise, are the opcode's texts and numbers.
  The data section ends at 128 plus the lengths of the texts.  There are no other calls and no branches, so
  both branches of a conditional are always run.\<close>

lemma emitted_call_sites:
  assumes "128 + sum_list (map (op_size X) ops) < 2 ^ 31"
  shows "decoded (init_memory (em_data (emit_main X ops))) (call_sites [] (em_body (emit_main X ops))) =
      map (\<lambda>op. (fst (op_call X op), Some (snd (op_call X op)))) ops \<and>
    unat (em_offset (emit_main X ops)) = 128 + sum_list (map (op_size X) ops)"
  using emit_fold_sites_main [OF assms] by simp

text \<open>The segments lie in the declared page when the texts with the buffer do, 64 KiB in all.  The emitter does not check
  it.\<close>

lemma laid_within: "laid a segs \<Longrightarrow> (p, bs) \<in> set segs \<Longrightarrow> unat p + length bs \<le> a + seg_total segs"
proof (induction segs arbitrary: a)
  case (Cons seg segs)
  then show ?case by (cases "seg = (p, bs)") fastforce+
qed simp

lemma segments_in_page:
  assumes "128 + sum_list (map (op_size X) ops) \<le> 65536" "(p, bs) \<in> set (em_data (emit_main X ops))"
  shows "unat p + length bs \<le> 65536"
proof -
  have "unat (em_offset emit_start) + sum_list (map (op_size X) ops) < 2 ^ 31" using assms(1) by (simp add: emit_start_ok)
  from emit_fold_sites [OF emit_start_ok(1,2) this]
  have "laid 0 (em_data (emit_ops X ops))" "seg_total (em_data (emit_ops X ops)) = 128 + sum_list (map (op_size X) ops)"
    by (auto simp: emit_ops_def layout_def emit_start_ok)
  with laid_within [of 0 "em_data (emit_ops X ops)" p bs] assms show ?thesis
    by (simp add: emit_main_def instruction_def)
qed

text \<open>A contract with a conditional: both assignments are among the calls.\<close>

definition no_json :: emit_lib where
  "no_json = \<lparr>parse_resources = (\<lambda>_. None), parse_qos = (\<lambda>_. None), to_cbor = (\<lambda>_. None)\<rparr>"

lemma emitted_call_sites_witness:
  "decoded (init_memory (em_data (emit_main no_json [If ''c'', SetProperty ''a'' ''1'', Else, SetProperty ''a'' ''2'', EndIf])))
     (call_sites [] (em_body (emit_main no_json [If ''c'', SetProperty ''a'' ''1'', Else, SetProperty ''a'' ''2'', EndIf]))) =
   [(6, Some [hstr ''c'']), (9, Some [hstr ''a'', hstr ''1'']), (7, Some []),
    (9, Some [hstr ''a'', hstr ''2'']), (8, Some [])]"
  using emitted_call_sites [of no_json "[If ''c'', SetProperty ''a'' ''1'', Else, SetProperty ''a'' ''2'', EndIf]"]
  by simp

section \<open>Validity of the modules\<close>

fun const_type :: "instr \<Rightarrow> ValType" where
  "const_type (I64Const x) = I64"
| "const_type (F64Const x) = F64"
| "const_type _ = I32"

definition type_sites :: "functype list \<Rightarrow> (nat \<times> instr list) list \<Rightarrow> bool" where
  "type_sites types sites = list_all (\<lambda>(n, cs). n < length types \<and> fst (types ! n) = map const_type cs) sites"

fun harg_types :: "harg list \<Rightarrow> ValType list" where
  "harg_types [] = []"
| "harg_types (HBytes bs # as) = I32 # I32 # harg_types as"
| "harg_types (HI64 x # as) = I64 # harg_types as"
| "harg_types (HF64 x # as) = F64 # harg_types as"

lemma decode_types: "decode m cs = Some args \<Longrightarrow> map const_type cs = harg_types args"
  by (induction m cs arbitrary: args rule: decode.induct) auto

lemma type_sites_decoded:
  assumes "decoded m sites = map (\<lambda>op. (fst (f op), Some (snd (f op)))) ops"
  shows "type_sites types sites =
     list_all (\<lambda>op. fst (f op) < length types \<and> fst (types ! fst (f op)) = harg_types (snd (f op))) ops"
  using assms
proof (induction sites arbitrary: ops)
  case Nil
  then show ?case by (simp add: decoded_def type_sites_def)
next
  case (Cons site sites)
  then obtain op ops' where ops: "ops = op # ops'" by (cases ops) (auto simp: decoded_def)
  then show ?case using Cons.IH [of ops'] Cons.prems decode_types
    by (auto simp: decoded_def type_sites_def split: prod.splits)
qed

fun declared_types :: "module_section list \<Rightarrow> functype list" where
  "declared_types [] = []"
| "declared_types (TypeSection ts # ss) = ts"
| "declared_types (s # ss) = declared_types ss"

fun module_body :: "module_section list \<Rightarrow> instr list" where
  "module_body [] = []"
| "module_body (CodeSection bs # ss) = concat bs"
| "module_body (s # ss) = module_body ss"

text \<open>The opcodes whose operands have the intended types, and those whose operands have the types the module
  declares for the import of the same number.\<close>

fun typed_as_intended :: "Opcode \<Rightarrow> bool" where
  "typed_as_intended (MintToken t n r d) = False"
| "typed_as_intended (UseResource t n) = False"
| "typed_as_intended (TransferToken t n a b) = False"
| "typed_as_intended _ = True"

fun typed_as_declared :: "Opcode \<Rightarrow> bool" where
  "typed_as_declared (CallHost f args) = True"
| "typed_as_declared EndIf = True"
| "typed_as_declared (OnEvent e) = True"
| "typed_as_declared _ = False"

lemma op_call_intended:
  "(fst (op_call X op) < length host_signatures \<and>
    fst (host_signatures ! fst (op_call X op)) = harg_types (snd (op_call X op))) = typed_as_intended op"
  by (cases op) (simp_all add: host_signatures_def)

lemma op_call_declared:
  "(fst (op_call X op) < length (([], [I32]) # host_signatures) \<and>
    fst ((([], [I32]) # host_signatures) ! fst (op_call X op)) = harg_types (snd (op_call X op))) = typed_as_declared op"
  by (cases op) (simp_all add: host_signatures_def)

text \<open>C28: Operand types: against the signatures the code lists for the host functions the operands of every
  call are well typed exactly when the program mints no token, uses no resource and transfers no token; against
  the type section of the emitted module, where the type of the start function comes first and shifts the
  others by one, only calls of \<open>call_host\<close>, \<open>log_endif\<close> and \<open>on_event\<close> are well typed.\<close>

theorem emitted_operand_types:
  assumes "128 + sum_list (map (op_size X) ops) < 2 ^ 31"
  shows "type_sites host_signatures (call_sites [] (module_body (program_to_wasm X ops))) = list_all typed_as_intended ops \<and>
    type_sites (declared_types (program_to_wasm X ops)) (call_sites [] (module_body (program_to_wasm X ops))) =
      list_all typed_as_declared ops"
proof -
  note sites = emit_fold_sites_main(1) [OF assms]
  have body: "module_body (program_to_wasm X ops) = em_body (emit_main X ops)"
    and types: "declared_types (program_to_wasm X ops) = ([], [I32]) # host_signatures"
    by (simp_all add: program_to_wasm_def Let_def)
  show ?thesis
    using type_sites_decoded [OF sites, of host_signatures]
      type_sites_decoded [OF sites, of "([], [I32]) # host_signatures"]
    unfolding body types by (simp only: op_call_intended op_call_declared)
qed

theorem emitted_operand_types_witness:
  "\<not> type_sites host_signatures
       (call_sites [] (module_body (program_to_wasm no_json [MintToken ''coop'' 5 None None]))) \<and>
   type_sites host_signatures (call_sites [] (module_body (program_to_wasm no_json [Todo ''x'']))) \<and>
   \<not> type_sites (declared_types (program_to_wasm no_json [Todo ''x'']))
       (call_sites [] (module_body (program_to_wasm no_json [Todo ''x''])))"
  using emitted_operand_types [of no_json "[MintToken ''coop'' 5 None None]"]
    emitted_operand_types [of no_json "[Todo ''x'']"] by simp

text \<open>The section numbers of the binary format.\<close>

fun section_id :: "module_section \<Rightarrow> nat" where
  "section_id (TypeSection ts) = 1"
| "section_id (ImportSection is) = 2"
| "section_id (FunctionSection fs) = 3"
| "section_id (MemorySection n) = 5"
| "section_id (ExportSection es) = 7"
| "section_id (CodeSection bs) = 10"
| "section_id (DataSection ds) = 11"

definition sections_ordered :: "module_section list \<Rightarrow> bool" where
  "sections_ordered m = sorted_wrt (<) (map section_id m)"

fun function_types :: "module_section list \<Rightarrow> nat list" where
  "function_types [] = []"
| "function_types (FunctionSection fs # ss) = fs"
| "function_types (s # ss) = function_types ss"

text \<open>No compiled module is valid WebAssembly: whatever the contract, the data section is written before
  the code section and the exports after it, against the order the binary format prescribes; and the start
  function, meant to take no parameters, is declared with the type of \<open>host_submit_mesh_job\<close>.\<close>

lemma compiled_modules_malformed:
  "\<not> sections_ordered (compile_to_wasm G X modules) \<and>
   map (\<lambda>i. declared_types (compile_to_wasm G X modules) ! i) (function_types (compile_to_wasm G X modules)) =
     [([I32, I32, I32, I32], [I32])]"
  by (simp add: compile_to_wasm_def program_to_wasm_def Let_def sections_ordered_def host_signatures_def)

end
