(* ===== verification/Ccl_Compiler.thy ===== *)
theory Ccl_Compiler
  imports Ccl_Lower Wasm_Emit
begin

text \<open>
  The contract compiler, \<open>crates/ccl/icn-ccl-compiler/src/lib.rs\<close>: lowering, code generation and emission in
  sequence.  The display text of a lowering error and the pretty JSON text of modules are parameters.  Reading
  and writing files is left out.
\<close>

datatype CompilerError =
    ParseError string
  | WasmCompilationError string
  | DslGenerationError string
  | LoweringError string
  | MissingSection string
  | TemplateError string
  | IoError string

record compiler_lib =
  cl_text :: text_lib
  cl_gen :: gen_lib
  cl_emit :: emit_lib
  cl_new_v4 :: "nat \<Rightarrow> uuid"
  cl_parse :: "string \<Rightarrow> pest_error + pair list"
  cl_lower_error :: "LowerError \<Rightarrow> string"
  cl_pretty :: "DslModule list \<Rightarrow> string + string"

definition lower_ccl_to_dsl_ast :: "compiler_lib \<Rightarrow> string \<Rightarrow> CompilerError + DslModule list" where
  "lower_ccl_to_dsl_ast C src =
     map_err (\<lambda>e. LoweringError (''Lowering failed: '' @ cl_lower_error C e))
       (lower_str (cl_text C) (cl_new_v4 C) (cl_parse C) src)"

definition compile_to_dsl_string :: "compiler_lib \<Rightarrow> string \<Rightarrow> CompilerError + string" where
  "compile_to_dsl_string C src =
     bind_result (lower_ccl_to_dsl_ast C src) (\<lambda>dsl_modules.
       map_err (\<lambda>e. DslGenerationError (''Failed to serialize DSL modules: '' @ e)) (cl_pretty C dsl_modules))"

definition compiler_compile_to_wasm :: "compiler_lib \<Rightarrow> string \<Rightarrow> CompilerError + module_section list" where
  "compiler_compile_to_wasm C src =
     bind_result (lower_ccl_to_dsl_ast C src) (\<lambda>dsl_modules.
       Inr (compile_to_wasm (cl_gen C) (cl_emit C) dsl_modules))"

section \<open>The stages together\<close>

fun module_data :: "module_section list \<Rightarrow> segment list" where
  "module_data [] = []"
| "module_data (DataSection ds # ss) = ds"
| "module_data (s # ss) = module_data ss"

text \<open>C25: From source to host calls: whenever a contract compiles, it was lowered to some modules, and the
  calls in the body of the result, with their operands read from its data, are the calls of the opcodes
  generated from these modules, in order; these opcodes are balanced and carry exactly the modules' actions.
  The bound is on the texts of the contract.\<close>

theorem compiled_contract_calls:
  assumes "compiler_compile_to_wasm C src = Inr m"
    and "\<And>modules. lower_ccl_to_dsl_ast C src = Inr modules \<Longrightarrow>
      128 + sum_list (map (op_size (cl_emit C)) (generate (cl_gen C) modules)) < 2 ^ 31"
  shows "\<exists>modules ops. lower_ccl_to_dsl_ast C src = Inr modules \<and> ops = generate (cl_gen C) modules \<and>
     decoded (init_memory (module_data m)) (call_sites [] (module_body m)) =
       map (\<lambda>op. (fst (op_call (cl_emit C) op), Some (snd (op_call (cl_emit C) op)))) ops \<and>
     nesting ops [] = Some [] \<and> effects ops = concat (map module_effects modules)"
proof -
  obtain modules where modules: "lower_ccl_to_dsl_ast C src = Inr modules"
      and m: "m = compile_to_wasm (cl_gen C) (cl_emit C) modules"
    using assms(1) by (auto simp: compiler_compile_to_wasm_def bind_result_Inr_iff)
  have "module_data m = em_data (emit_main (cl_emit C) (generate (cl_gen C) modules))"
    "module_body m = em_body (emit_main (cl_emit C) (generate (cl_gen C) modules))"
    by (simp_all add: m compile_to_wasm_def program_to_wasm_def Let_def)
  then show ?thesis
    using emit_fold_sites_main(1) [OF assms(2) [OF modules]] modules
    by (auto simp: generate_def effects_concat effects_walk_module intro!: nesting_concat nesting_walk_module)
qed

definition sample_contract :: pair where
  "sample_contract =
     mk R_ccl [] [mk R_statement []
       [mk R_proposal_def [] [mk R_string_literal (quoted ''p'') [],
          block_pair one_number [DslRule ''fee'' (RvNumber 7)]]]]"

definition sample_lib :: compiler_lib where
  "sample_lib =
     \<lparr>cl_text = one_number,
      cl_gen = \<lparr>to_json_value = (\<lambda>_. Some ''7''), to_json_rules = (\<lambda>_. None), to_json_string = (\<lambda>_. None),
                display_f64 = (\<lambda>_. ''7''), debug_module = (\<lambda>_. [])\<rparr>,
      cl_emit = no_json, cl_new_v4 = (\<lambda>_. 0), cl_parse = (\<lambda>_. Inr [sample_contract]),
      cl_lower_error = (\<lambda>_. []), cl_pretty = (\<lambda>_. Inr [])\<rparr>"

lemma sample_lowered:
  "lower_ccl_to_dsl_ast sample_lib src =
     Inr [ProposalModule (build_stub_proposal 0 ''p'' ''0.0.0-unknown'' [] [DslRule ''fee'' (RvNumber 7)])]"
proof -
  have "lower_block_common_fields one_number (block_pair one_number [DslRule ''fee'' (RvNumber 7)]) =
      Inr ([], [DslRule ''fee'' (RvNumber 7)])"
    using lower_printed(4) [of one_number "[]" "[DslRule ''fee'' (RvNumber 7)]" "[]"]
    by (simp add: lower_block_common_fields.simps block_pair_def one_number_def plain_def)
  then show ?thesis
    by (simp add: lower_ccl_to_dsl_ast_def lower_str_def sample_lib_def sample_contract_def dispatch_def.simps
        lower_proposal_def unquote_quoted plain_def)
qed

theorem compiled_contract_calls_witness:
  "\<exists>modules ops. lower_ccl_to_dsl_ast sample_lib ''x'' = Inr modules \<and> ops = generate (cl_gen sample_lib) modules \<and>
     decoded (init_memory (module_data (compile_to_wasm (cl_gen sample_lib) (cl_emit sample_lib) modules)))
       (call_sites [] (module_body (compile_to_wasm (cl_gen sample_lib) (cl_emit sample_lib) modules))) =
       map (\<lambda>op. (fst (op_call (cl_emit sample_lib) op), Some (snd (op_call (cl_emit sample_lib) op)))) ops \<and>
     nesting ops [] = Some [] \<and> effects ops = concat (map module_effects modules)"
proof -
  have m: "compiler_compile_to_wasm sample_lib ''x'' = Inr (compile_to_wasm (cl_gen sample_lib) (cl_emit sample_lib)
      [ProposalModule (build_stub_proposal 0 ''p'' ''0.0.0-unknown'' [] [DslRule ''fee'' (RvNumber 7)])])"
    by (simp add: compiler_compile_to_wasm_def sample_lowered)
  have b: "128 + sum_list (map (op_size (cl_emit sample_lib)) (generate (cl_gen sample_lib) modules)) < 2 ^ 31"
    if "lower_ccl_to_dsl_ast sample_lib ''x'' = Inr modules" for modules
    using that [unfolded sample_lowered] by (auto simp: generate_def build_stub_proposal_def sample_lib_def)
  from compiled_contract_calls [OF m b] show ?thesis by (simp add: sample_lowered)
qed

text \<open>A call with a result key loses its function: the statement \<open>k f(args);\<close> is lowered to a rule for \<open>k\<close>
  that records the function, but the generated host call names the key \<open>k\<close>, not \<open>f\<close>; only a call that stands
  alone keeps its name.  A nested block whose first entry is called \<open>function_name\<close> becomes a host call too.\<close>

lemma keyed_call_renamed:
  fixes L G name args rest rules desc
  assumes "plain k" "k \<noteq> ''description''" "lower_object_pairs L (into_inner args) = Inr named"
  defines "call \<equiv> mk R_function_call [] [mk R_identifier name [], args]"
    and "lowered \<equiv> RvMap [DslRule ''function_name'' (RvString name), DslRule ''args'' (RvMap named)]"
  shows "lower_field L desc rules (mk R_any_statement [] [mk R_string_literal (quoted k) [], mk R_value [] [call]]) =
      Inr (desc, rules @ [DslRule k lowered]) \<and>
    lower_field L desc rules (mk R_function_call_statement [] [call]) = Inr (desc, rules @ [DslRule name lowered]) \<and>
    walk_rule G (DslRule k lowered) = [CallHost k (unwrap_or (to_json_value G (RvMap named)) ''{}'')] \<and>
    walk_rule G (DslRule k (RvMap (DslRule ''function_name'' v # rest))) =
      [CallHost k (unwrap_or (to_json_value G (function_args (DslRule ''function_name'' v # rest))) ''{}'')]"
proof -
  have v: "lower_value_rule L call = Inr lowered"
    using assms(3) by (simp add: call_def lowered_def lower_value_rule.simps)
  have r: "as_rule call = R_function_call" "into_inner call = [mk R_identifier name [], args]"
    by (simp_all add: call_def)
  show ?thesis
    using assms(1,2) by (simp add: lower_field.simps v r unquote_quoted)
      (simp add: lowered_def is_function_call_def walk_function_call_def function_args_def)
qed

lemma keyed_call_renamed_witness:
  "lower_field one_number [] []
     (mk R_any_statement [] [mk R_string_literal (quoted ''at'') [],
        mk R_value [] [mk R_function_call [] [mk R_identifier ''timestamp'' [], mk R_function_call_args [] []]]]) =
     Inr ([], [DslRule ''at'' (RvMap [DslRule ''function_name'' (RvString ''timestamp''), DslRule ''args'' (RvMap [])])]) \<and>
   walk_rule (cl_gen sample_lib)
     (DslRule ''at'' (RvMap [DslRule ''function_name'' (RvString ''timestamp''), DslRule ''args'' (RvMap [])])) =
     [CallHost ''at'' ''7'']"
  using keyed_call_renamed [of "''at''" one_number "mk R_function_call_args [] []" "[]" "[]" "[]" "''timestamp''"
      "cl_gen sample_lib"]
  by (simp add: plain_def sample_lib_def)

end
