(* ===== verification/Ccl_Document.thy ===== *)
theory Ccl_Document
  imports Json
begin

text \<open>
  The document interface of the contract parser, \<open>crates/ccl/icn-ccl-parser/src/lib.rs\<close>.  The grammar's parser
  is generated by a library and is a parameter (its result is only tested for success, with the text of its
  error).  The functions that fill a document are placeholders in the code and are modelled as they are.
\<close>

datatype CclError =
    CclParseError string
  | CclValidationError string
  | CclIoError string
  | CclInvalidInput string

datatype CclParserError = PParseError string | PSyntaxError string | PMissingField string

record CclDisbursement =
  schedule :: string
  start_date :: string
  end_date :: string

record CclAuthorization =
  auth_threshold :: u64
  auth_roles :: "string list"
  require_review :: bool

record CclBudget =
  budget_total :: u64
  budget_currency :: string
  budget_categories :: "(string, u64) hmap"
  disbursement :: CclDisbursement
  authorization :: CclAuthorization

datatype CclAction =
    CclAnchorData string
  | CclPerformAction string u64
  | CclMintTokens string u64 string

record CclExecution =
  execution_actions :: "CclAction list"

record CclReports =
  frequency :: string
  report_metrics :: "string list"

record CclTransparency =
  disclosure_level :: string
  public_dashboard :: bool

record CclAccountability =
  reports :: CclReports
  transparency :: CclTransparency

record CclDocument =
  doc_title :: string
  doc_description :: string
  doc_author :: string
  doc_created :: string
  doc_version :: string
  doc_budget :: "CclBudget option"
  doc_execution :: "CclExecution option"
  doc_accountability :: "CclAccountability option"

record CclProposal =
  cp_name :: string
  cp_description :: "string option"
  approval_threshold :: f64
  voting_period :: string
  requires_role :: "string option"

record CclElectionRole =
  cer_name :: string
  cer_description :: "string option"
  term_length :: string
  term_limit :: "u32 option"
  seats :: u32
  requirements :: Value

datatype CclStatement =
    OrganizationStatement string "string option" "string option"
  | RoleStatement string "string option" "string list"
  | GovernanceStatement f64 "CclProposal list"
  | ActionStatement string "CclAction list"
  | BudgetStatement string "string option" "string option" "string option"
  | ElectionStatement string "string option" "CclElectionRole list"
  | CustomStatement string Value

definition parse_ccl :: "string \<Rightarrow> CclError + CclDocument" where
  "parse_ccl input =
     Inr \<lparr>doc_title = ''Q3 Budget Allocation'',
          doc_description = ''Allocate funds for Q3 2023 cooperative activities'',
          doc_author = ''did:key:z6MkhaXgBZDvotDkL5257faiztiGiC2QtKLGpbnnEGta2doK'',
          doc_created = ''2023-10-15T14:30:00Z'',
          doc_version = ''1.0.0'',
          doc_budget = Some
            \<lparr>budget_total = 10000, budget_currency = ''USDC'',
             budget_categories =
               hinsert (hinsert (hinsert (hinsert [] ''development'' 6000) ''marketing'' 2000) ''operations'' 1500)
                 ''community'' 500,
             disbursement = \<lparr>schedule = ''monthly'', start_date = ''2023-10-01'', end_date = ''2023-12-31''\<rparr>,
             authorization =
               \<lparr>auth_threshold = 2, auth_roles = [''treasurer'', ''director''], require_review = True\<rparr>\<rparr>,
          doc_execution = Some
            \<lparr>execution_actions =
               [CclAnchorData ''budget_q3_2023'', CclPerformAction ''budget_allocation'' 10000,
                CclMintTokens ''participation_token'' 100 ''community_pool'']\<rparr>,
          doc_accountability = Some
            \<lparr>reports =
               \<lparr>frequency = ''monthly'',
                report_metrics = [''spend_by_category'', ''completion_status'', ''remaining_funds'']\<rparr>,
             transparency = \<lparr>disclosure_level = ''public'', public_dashboard = True\<rparr>\<rparr>\<rparr>"

definition doc_parse :: "(string \<Rightarrow> string + unit) \<Rightarrow> string \<Rightarrow> CclError + CclDocument" where
  "doc_parse parse input =
     bind_result (map_err CclParseError (parse input)) (\<lambda>_.
       Inr \<lparr>doc_title = ''Parsed CCL Document (Stub)'', doc_description = ''Description (Stub)'',
            doc_author = ''Author (Stub)'', doc_created = ''Created (Stub)'', doc_version = ''Version (Stub)'',
            doc_budget = None, doc_execution = None, doc_accountability = None\<rparr>)"

definition to_dsl :: "CclDocument \<Rightarrow> CclError + string" where
  "to_dsl d = Inr ''DSL representation (Stub)''"

definition doc_verify :: "CclDocument \<Rightarrow> CclError + unit" where
  "doc_verify d = (if doc_title d = [] then Inl (CclValidationError ''Missing title'') else Inr ())"

text \<open>The example document is consistent: the categories add up to the total of the budget.\<close>

lemma parse_ccl_budget:
  "\<exists>d b. parse_ccl input = Inr d \<and> doc_budget d = Some b \<and> hsum (\<lambda>_. True) (budget_categories b) = budget_total b \<and>
     doc_verify d = Inr ()"
  by (simp add: parse_ccl_def hsum_def hinsert_def doc_verify_def)

text \<open>A document that was parsed passes verification and says nothing about the text it came from.\<close>

lemma doc_parse_verify: "doc_parse parse input = Inr d \<Longrightarrow> doc_verify d = Inr () \<and> doc_budget d = None"
  by (auto simp: doc_parse_def doc_verify_def bind_result_Inr_iff)

end
