(* ===== verification/Runtime_Reputation.thy ===== *)
theory Runtime_Reputation
  imports Reputation Receipts
begin

text \<open>
  The runtime's reputation client, \<open>crates/runtime/icn-runtime/src/reputation_integration.rs\<close>: the scoring
  configuration, the score change of a receipt, and the two submissions to the reputation service.

  The HTTP client is a parameter: a record of two operations on an abstract network state.  A metric the code
  updates is an output.  Doubles are reals with rounding \<open>fl\<close> and the library's \<open>exp_f\<close> and \<open>ln_f\<close>, as in
  \<open>Reputation\<close>; \<open>f64::clamp\<close> panics when its bounds are in the wrong order, which is the result \<open>None\<close>.
  Reading the configuration from a file is left out.
\<close>

section \<open>Configuration\<close>

record ReputationScoringConfig =
  mana_cost_weight :: real
  failure_penalty :: real
  max_positive_score :: real
  sigmoid_k :: real
  sigmoid_midpoint :: real
  failure_penalty_weight :: real
  enable_reputation_modifier :: bool
  modifier_min_bound :: real
  modifier_max_bound :: real

definition ReputationScoringConfig_default :: "(real \<Rightarrow> real) \<Rightarrow> ReputationScoringConfig" where
  "ReputationScoringConfig_default fl =
     \<lparr>mana_cost_weight = 100, failure_penalty = - 25, max_positive_score = 5, sigmoid_k = fl (2 / 100),
      sigmoid_midpoint = 100, failure_penalty_weight = 5, enable_reputation_modifier = False,
      modifier_min_bound = 1 / 2, modifier_max_bound = 2\<rparr>"

record ManaAdjustmentEvent =
  me_subject_did :: string
  me_mana_change :: "64 word"
  me_timestamp :: u64
  me_cooperative_id :: "string option"
  me_community_id :: "string option"
  me_reason :: string

section \<open>The network\<close>

datatype http_body = RecordBody ReputationRecord | ManaBody ManaAdjustmentEvent

datatype http_reply = Reply nat string | ClientFailure string

record 'n http_client =
  http_get :: "'n \<Rightarrow> string \<Rightarrow> http_reply \<times> 'n"
  http_post :: "'n \<Rightarrow> string \<Rightarrow> http_body \<Rightarrow> http_reply \<times> 'n"
  parse_profile :: "string \<Rightarrow> real option"
  status_text :: "nat \<Rightarrow> string"

datatype rep_metric =
    ScoreFetchFailure string string
  | SubmissionCount bool string string string
  | ScoreDelta real string string string
  | SubmissionClientError string string
  | SubmissionHttpError string string
  | ManaDeduction string string string string

record HttpReputationUpdater =
  reputation_service_url :: string
  updater_config :: ReputationScoringConfig

definition updater_new_with_config :: "string \<Rightarrow> did \<Rightarrow> ReputationScoringConfig \<Rightarrow> HttpReputationUpdater" where
  "updater_new_with_config url local_did cfg = \<lparr>reputation_service_url = url, updater_config = cfg\<rparr>"

definition updater_new :: "(real \<Rightarrow> real) \<Rightarrow> string \<Rightarrow> did \<Rightarrow> HttpReputationUpdater" where
  "updater_new fl url local_did = updater_new_with_config url local_did (ReputationScoringConfig_default fl)"

definition is_success :: "nat \<Rightarrow> bool" where
  "is_success status \<longleftrightarrow> 200 \<le> status \<and> status < 300"

definition trim_end_matches :: "char \<Rightarrow> string \<Rightarrow> string" where
  "trim_end_matches c s = rev (dropWhile (\<lambda>x. x = c) (rev s))"

definition get_current_score ::
    "'n http_client \<Rightarrow> HttpReputationUpdater \<Rightarrow> 'n \<Rightarrow> string \<Rightarrow> real option \<times> 'n \<times> rep_metric list" where
  "get_current_score cl u n did_str =
     (case http_get cl n (trim_end_matches CHR ''/'' (reputation_service_url u) @ ''/reputation/profiles/'' @ did_str) of
        (Reply status body, n') \<Rightarrow>
          (if status = 404 then (None, n', [])
           else if is_success status then
             (case parse_profile cl body of
                Some score \<Rightarrow> (Some score, n', [])
              | None \<Rightarrow> (None, n', [ScoreFetchFailure did_str ''json_parse_error'']))
           else (None, n', [ScoreFetchFailure did_str (status_text cl status)]))
      | (ClientFailure e, n') \<Rightarrow> (None, n', [ScoreFetchFailure did_str ''client_request_error'']))"

section \<open>Score changes\<close>

definition clamp :: "real \<Rightarrow> real \<Rightarrow> real \<Rightarrow> real option" where
  "clamp x lo hi = (if lo \<le> hi then Some (if x < lo then lo else if hi < x then hi else x) else None)"

definition sigmoid :: "(real \<Rightarrow> real) \<Rightarrow> (real \<Rightarrow> real) \<Rightarrow> real \<Rightarrow> real \<Rightarrow> real \<Rightarrow> real" where
  "sigmoid fl exp_f mc k midpoint = fl (1 / fl (1 + exp_f (fl (k * fl (mc - midpoint)))))"

definition cost_f64 :: "(real \<Rightarrow> real) \<Rightarrow> RuntimeExecutionReceipt \<Rightarrow> real" where
  "cost_f64 fl r = fl (real (unat (case mana_cost (rr_metrics r) of Some c \<Rightarrow> c | None \<Rightarrow> 0)))"

definition normalized_score :: "(real \<Rightarrow> real) \<Rightarrow> real option \<Rightarrow> real" where
  "normalized_score fl score = (case score of None \<Rightarrow> 1 / 2 | Some s \<Rightarrow> the (clamp (fl (s / 100)) 0 1))"

definition success_delta ::
    "(real \<Rightarrow> real) \<Rightarrow> (real \<Rightarrow> real) \<Rightarrow> 'n http_client \<Rightarrow> HttpReputationUpdater \<Rightarrow> 'n \<Rightarrow> RuntimeExecutionReceipt
      \<Rightarrow> real option \<times> 'n \<times> rep_metric list" where
  "success_delta fl exp_f cl u n r =
     (let cfg = updater_config u;
          calculated = fl (sigmoid fl exp_f (cost_f64 fl r) (sigmoid_k cfg) (sigmoid_midpoint cfg) *
                           max_positive_score cfg)
      in if enable_reputation_modifier cfg then
           (case get_current_score cl u n (rr_issuer r) of (score, n', ms) \<Rightarrow>
              (map_option (\<lambda>m. min (fl (calculated * m)) (max_positive_score cfg))
                 (clamp (fl (1 + normalized_score fl score)) (modifier_min_bound cfg) (modifier_max_bound cfg)),
               n', ms))
         else (Some (min calculated (max_positive_score cfg)), n, []))"

definition failure_delta :: "(real \<Rightarrow> real) \<Rightarrow> (real \<Rightarrow> real) \<Rightarrow> HttpReputationUpdater \<Rightarrow> RuntimeExecutionReceipt \<Rightarrow> real" where
  "failure_delta fl ln_f u r =
     (let c = cost_f64 fl r;
          penalty_base = (if 0 \<le> c then fl (c + 1) else 1)
      in fl (- failure_penalty_weight (updater_config u) * ln_f penalty_base))"

definition submit_record ::
    "'n http_client \<Rightarrow> HttpReputationUpdater \<Rightarrow> 'n \<Rightarrow> ReputationRecord \<Rightarrow> (string + unit) \<times> 'n \<times> rep_metric list" where
  "submit_record cl u n rec =
     (case http_post cl n (reputation_service_url u) (RecordBody rec) of
        (ClientFailure e, n') \<Rightarrow>
          (Inl (''HTTP client error during reputation submission: '' @ e), n',
           [SubmissionClientError (rec_subject rec) e])
      | (Reply status body, n') \<Rightarrow>
          (if is_success status then (Inr (), n', [])
           else (Inl (''Failed to submit reputation record: HTTP Status '' @ status_text cl status), n',
                 [SubmissionHttpError (rec_subject rec) (status_text cl status)])))"

definition submit_receipt_based_reputation ::
    "(real \<Rightarrow> real) \<Rightarrow> (real \<Rightarrow> real) \<Rightarrow> (real \<Rightarrow> real) \<Rightarrow> 'n http_client \<Rightarrow> HttpReputationUpdater \<Rightarrow> 'n
      \<Rightarrow> RuntimeExecutionReceipt \<Rightarrow> bool \<Rightarrow> string \<Rightarrow> string \<Rightarrow> u64
      \<Rightarrow> ((string + unit) \<times> 'n \<times> rep_metric list) option" where
  "submit_receipt_based_reputation fl exp_f ln_f cl u n r ok coop comm now =
     (case (if ok then success_delta fl exp_f cl u n r else (Some (failure_delta fl ln_f u r), n, [])) of
        (None, _, _) \<Rightarrow> None
      | (Some delta, n1, ms1) \<Rightarrow>
          (let rec = \<lparr>rec_subject = rr_issuer r,
                      rec_anchor = (case rr_receipt_cid r of Some c \<Rightarrow> c | None \<Rightarrow> rr_id r),
                      rec_score_delta = delta, rec_success = ok, rec_mana_cost = mana_cost (rr_metrics r),
                      rec_timestamp = now\<rparr>
           in (case submit_record cl u n1 rec of (res, n2, ms2) \<Rightarrow>
                 Some (res, n2, ms1 @ [SubmissionCount ok coop comm (rr_issuer r),
                                       ScoreDelta delta coop comm (rr_issuer r)] @ ms2))))"

section \<open>Mana deductions\<close>

definition opt_label :: "string \<Rightarrow> string option" where
  "opt_label s = (if s = [] then None else Some s)"

definition mana_event :: "did \<Rightarrow> u64 \<Rightarrow> string \<Rightarrow> string \<Rightarrow> u64 \<Rightarrow> ManaAdjustmentEvent" where
  "mana_event executor amount coop comm now =
     \<lparr>me_subject_did = executor, me_mana_change = - amount, me_timestamp = now,
      me_cooperative_id = opt_label coop, me_community_id = opt_label comm, me_reason = ''JobExecutionCost''\<rparr>"

definition submit_mana_deduction ::
    "'n http_client \<Rightarrow> HttpReputationUpdater \<Rightarrow> 'n \<Rightarrow> did \<Rightarrow> u64 \<Rightarrow> string \<Rightarrow> string \<Rightarrow> u64
      \<Rightarrow> (string + unit) \<times> 'n \<times> rep_metric list" where
  "submit_mana_deduction cl u n executor amount coop comm now =
     (case http_post cl n (trim_end_matches CHR ''/'' (reputation_service_url u) @ ''/reputation/events'')
             (ManaBody (mana_event executor amount coop comm now)) of
        (Reply status body, n') \<Rightarrow>
          (if is_success status then (Inr (), n', [ManaDeduction executor coop comm ''success''])
           else (Inl (''Reputation service returned error '' @ status_text cl status @ '' for mana deduction: '' @ body),
                 n', [ManaDeduction executor coop comm (status_text cl status)]))
      | (ClientFailure e, n') \<Rightarrow>
          (Inl (''Client error submitting mana deduction: '' @ e), n',
           [ManaDeduction executor coop comm ''client_error'']))"

text \<open>The updater that does nothing.\<close>

definition noop_submit_receipt_based_reputation ::
    "'n \<Rightarrow> RuntimeExecutionReceipt \<Rightarrow> bool \<Rightarrow> string \<Rightarrow> string \<Rightarrow> (string + unit) \<times> 'n" where
  "noop_submit_receipt_based_reputation n r ok coop comm = (Inr (), n)"

definition noop_submit_mana_deduction ::
    "'n \<Rightarrow> did \<Rightarrow> u64 \<Rightarrow> string \<Rightarrow> string \<Rightarrow> (string + unit) \<times> 'n" where
  "noop_submit_mana_deduction n executor amount coop comm = (Inr (), n)"

section \<open>Bounds of the score change\<close>

text \<open>What rounding and the exponential are used for: rounding is monotone and keeps 0 and 1, and the
  exponential is monotone and not negative.\<close>

definition rounding :: "(real \<Rightarrow> real) \<Rightarrow> bool" where
  "rounding fl \<longleftrightarrow> mono fl \<and> fl 0 = 0 \<and> fl 1 = 1"

lemma rounding_nonneg: "rounding fl \<Longrightarrow> 0 \<le> x \<Longrightarrow> 0 \<le> fl x"
  unfolding rounding_def by (metis monoD)

lemma rounding_le_one: "rounding fl \<Longrightarrow> x \<le> 1 \<Longrightarrow> fl x \<le> 1"
  unfolding rounding_def by (metis monoD)

lemma rounding_ge_one: "rounding fl \<Longrightarrow> 1 \<le> x \<Longrightarrow> 1 \<le> fl x"
  unfolding rounding_def by (metis monoD)

lemma sigmoid_range:
  assumes "rounding fl" "\<And>x. 0 \<le> exp_f x"
  shows "0 \<le> sigmoid fl exp_f mc k m \<and> sigmoid fl exp_f mc k m \<le> 1"
proof -
  have "1 \<le> fl (1 + exp_f (fl (k * fl (mc - m))))" using assms(2) by (simp add: rounding_ge_one [OF assms(1)])
  then have "0 \<le> 1 / fl (1 + exp_f (fl (k * fl (mc - m))))" "1 / fl (1 + exp_f (fl (k * fl (mc - m)))) \<le> 1"
    by simp_all
  then show ?thesis unfolding sigmoid_def
    using rounding_nonneg [OF assms(1)] rounding_le_one [OF assms(1)] by simp
qed

lemma sigmoid_antitone:
  assumes "rounding fl" "mono exp_f" "\<And>x. 0 \<le> exp_f x" "0 \<le> k" "mc \<le> mc'"
  shows "sigmoid fl exp_f mc' k m \<le> sigmoid fl exp_f mc k m"
proof -
  have m: "mono fl" using assms(1) by (simp add: rounding_def)
  have "fl (k * fl (mc - m)) \<le> fl (k * fl (mc' - m))"
    using assms(4,5) by (intro monoD [OF m] mult_left_mono) simp_all
  then have "exp_f (fl (k * fl (mc - m))) \<le> exp_f (fl (k * fl (mc' - m)))" by (rule monoD [OF assms(2)])
  then have "fl (1 + exp_f (fl (k * fl (mc - m)))) \<le> fl (1 + exp_f (fl (k * fl (mc' - m))))"
    by (intro monoD [OF m]) simp
  moreover have "1 \<le> fl (1 + exp_f (fl (k * fl (mc - m))))" using assms(3) by (simp add: rounding_ge_one [OF assms(1)])
  ultimately show ?thesis unfolding sigmoid_def by - (rule monoD [OF m], rule divide_left_mono, simp_all)
qed

lemma normalized_range:
  assumes "rounding fl"
  shows "0 \<le> normalized_score fl score \<and> normalized_score fl score \<le> 1"
  by (auto simp: normalized_score_def clamp_def split: option.split)

lemma clamp_nonneg: "clamp x lo hi = Some y \<Longrightarrow> 0 \<le> x \<Longrightarrow> 0 \<le> hi \<Longrightarrow> 0 \<le> y"
  by (auto simp: clamp_def split: if_splits)

lemma success_delta_range:
  assumes "rounding fl" "\<And>x. 0 \<le> exp_f x" "0 \<le> max_positive_score (updater_config u)"
    and "0 \<le> modifier_max_bound (updater_config u)"
    and "success_delta fl exp_f cl u n r = (Some d, n', ms)"
  shows "0 \<le> d \<and> d \<le> max_positive_score (updater_config u)"
proof -
  let ?c = "updater_config u"
  let ?calc = "fl (sigmoid fl exp_f (cost_f64 fl r) (sigmoid_k ?c) (sigmoid_midpoint ?c) * max_positive_score ?c)"
  have calc: "0 \<le> ?calc"
    using assms(3) sigmoid_range [OF assms(1,2)] by (simp add: rounding_nonneg [OF assms(1)])
  show ?thesis
  proof (cases "enable_reputation_modifier ?c")
    case False
    then show ?thesis using assms(3,5) calc by (auto simp: success_delta_def Let_def)
  next
    case True
    then obtain score m where m: "clamp (fl (1 + normalized_score fl score)) (modifier_min_bound ?c) (modifier_max_bound ?c) = Some m"
        and d: "d = min (fl (?calc * m)) (max_positive_score ?c)"
      using assms(5) by (auto simp: success_delta_def Let_def split: prod.splits)
    have "0 \<le> fl (1 + normalized_score fl score)"
      using normalized_range [OF assms(1), of score] by (simp add: rounding_nonneg [OF assms(1)])
    then have "0 \<le> m" using clamp_nonneg [OF m] assms(4) by simp
    then have "0 \<le> fl (?calc * m)" using calc by (simp add: rounding_nonneg [OF assms(1)])
    then show ?thesis using assms(3) by (simp add: d)
  qed
qed

lemma failure_delta_range:
  assumes "rounding fl" "\<And>x. 1 \<le> x \<Longrightarrow> 0 \<le> ln_f x" "0 \<le> failure_penalty_weight (updater_config u)"
  shows "failure_delta fl ln_f u r \<le> 0"
proof -
  have "0 \<le> cost_f64 fl r" unfolding cost_f64_def by (rule rounding_nonneg [OF assms(1) of_nat_0_le_iff])
  then have "0 \<le> ln_f (fl (cost_f64 fl r + 1))" using assms(2) by (simp add: rounding_ge_one [OF assms(1)])
  then have "- failure_penalty_weight (updater_config u) * ln_f (fl (cost_f64 fl r + 1)) \<le> 0"
    using assms(3) by simp
  then have "fl (- failure_penalty_weight (updater_config u) * ln_f (fl (cost_f64 fl r + 1))) \<le> fl 0"
    by (rule monoD [rotated]) (use assms(1) in \<open>simp add: rounding_def\<close>)
  then show ?thesis using assms(1) \<open>0 \<le> cost_f64 fl r\<close> by (simp add: failure_delta_def rounding_def)
qed

text \<open>Score changes are bounded: with monotone rounding a successful receipt changes the score by at least 0
  and at most the configured maximum, whatever score the service reports; a failed receipt never raises it;
  and without the modifier, and with a steepness that is not negative, a receipt with a higher cost never
  gains more.\<close>

lemma score_delta_bounds:
  assumes "rounding fl" "mono exp_f" "\<And>x. 0 \<le> exp_f x" "\<And>x. 1 \<le> x \<Longrightarrow> 0 \<le> ln_f x"
    and "0 \<le> max_positive_score (updater_config u)" "0 \<le> modifier_max_bound (updater_config u)"
    and "0 \<le> failure_penalty_weight (updater_config u)"
    and "success_delta fl exp_f cl u n r = (Some d, n', ms)" "success_delta fl exp_f cl u n r' = (Some d', n'', ms')"
    and "cost_f64 fl r \<le> cost_f64 fl r'" "0 \<le> sigmoid_k (updater_config u)"
  shows "0 \<le> d \<and> d \<le> max_positive_score (updater_config u) \<and> failure_delta fl ln_f u r \<le> 0 \<and>
    (enable_reputation_modifier (updater_config u) \<or> d' \<le> d)"
proof -
  let ?c = "updater_config u"
  have "d' \<le> d" if off: "\<not> enable_reputation_modifier ?c"
  proof -
    have "sigmoid fl exp_f (cost_f64 fl r') (sigmoid_k ?c) (sigmoid_midpoint ?c) * max_positive_score ?c \<le>
        sigmoid fl exp_f (cost_f64 fl r) (sigmoid_k ?c) (sigmoid_midpoint ?c) * max_positive_score ?c"
      using sigmoid_antitone [OF assms(1-3) assms(11,10)] assms(5) by (rule mult_right_mono)
    then have "fl (sigmoid fl exp_f (cost_f64 fl r') (sigmoid_k ?c) (sigmoid_midpoint ?c) * max_positive_score ?c) \<le>
        fl (sigmoid fl exp_f (cost_f64 fl r) (sigmoid_k ?c) (sigmoid_midpoint ?c) * max_positive_score ?c)"
      by (rule monoD [rotated]) (use assms(1) in \<open>simp add: rounding_def\<close>)
    then show ?thesis using assms(8,9) off by (auto simp: success_delta_def Let_def)
  qed
  moreover have "failure_delta fl ln_f u r \<le> 0"
    by (rule failure_delta_range [where ln_f = ln_f]) (use assms(1,4,7) in simp_all)
  ultimately show ?thesis using success_delta_range [OF assms(1,3,5,6,8)] by blast
qed

definition demo_runtime_receipt :: "u64 option \<Rightarrow> RuntimeExecutionReceipt" where
  "demo_runtime_receipt c =
     \<lparr>rr_id = ''r1'', rr_issuer = ''did:key:n1'', rr_proposal_id = [], rr_wasm_cid = [], rr_ccl_cid = [],
      rr_metrics = \<lparr>host_calls = 0, io_bytes = 0, mana_cost = c\<rparr>, rr_anchored_cids = [], rr_resource_usage = [],
      rr_timestamp = 0, rr_dag_epoch = None, rr_receipt_cid = None, rr_signature = None\<rparr>"

definition offline :: "unit http_client" where
  "offline = \<lparr>http_get = (\<lambda>n _. (ClientFailure ''offline'', n)), http_post = (\<lambda>n _ _. (ClientFailure ''offline'', n)),
     parse_profile = (\<lambda>_. None), status_text = (\<lambda>_. [])\<rparr>"

lemma rounding_id: "rounding id"
  by (simp add: rounding_def mono_def)

lemma score_delta_bounds_witness:
  "\<exists>d d'. success_delta id exp offline (updater_new id [] []) () (demo_runtime_receipt (Some 10)) = (Some d, (), []) \<and>
     success_delta id exp offline (updater_new id [] []) () (demo_runtime_receipt (Some 500)) = (Some d', (), []) \<and>
     0 \<le> d \<and> d \<le> 5 \<and> d' \<le> d"
proof -
  let ?u = "updater_new id [] []"
  obtain d where d: "success_delta id exp offline ?u () (demo_runtime_receipt (Some 10)) = (Some d, (), [])"
    by (simp add: success_delta_def updater_new_def updater_new_with_config_def ReputationScoringConfig_default_def)
  obtain d' where d': "success_delta id exp offline ?u () (demo_runtime_receipt (Some 500)) = (Some d', (), [])"
    by (simp add: success_delta_def updater_new_def updater_new_with_config_def ReputationScoringConfig_default_def)
  have "mono (exp :: real \<Rightarrow> real)" by (simp add: mono_def)
  from score_delta_bounds [OF rounding_id this, of ln ?u, OF _ _ _ _ _ d d'] d d' show ?thesis
    by (simp add: updater_new_def updater_new_with_config_def ReputationScoringConfig_default_def cost_f64_def
        demo_runtime_receipt_def)
qed

text \<open>The score a profile has (\<open>compute_score\<close>) never exceeds 10, and the modifier divides by 100.\<close>

lemma modifier_small:
  assumes "rounding fl"
  shows "normalized_score fl (Some (compute_score fl ln_f p)) \<le> fl (1 / 10)"
proof -
  have m: "mono fl" using assms by (simp add: rounding_def)
  have "compute_score fl ln_f p \<le> 10" by (simp add: compute_score_def Let_def)
  then have "fl (compute_score fl ln_f p / 100) \<le> fl (1 / 10)" by - (rule monoD [OF m], simp)
  moreover have "0 \<le> fl (1 / 10)" by (rule rounding_nonneg [OF assms]) simp
  ultimately show ?thesis by (simp add: normalized_score_def clamp_def)
qed

text \<open>The change a deduction reports: up to \<open>2 ^ 63\<close> it is minus the amount, and a deduction is negative;
  beyond, the conversion to a signed number wraps around and the event reports a positive change, a credit.\<close>

lemma mana_deduction_sign:
  "(unat amount \<le> 2 ^ 63 \<longrightarrow> sint (me_mana_change (mana_event d amount coop comm now)) = - int (unat amount)) \<and>
   (2 ^ 63 < unat amount \<longrightarrow> sint (me_mana_change (mana_event d amount coop comm now)) = 2 ^ 64 - int (unat amount))"
proof -
  have "sint (- amount) = signed_take_bit 63 (- int (unat amount))"
    by (simp add: sint_uint uint_word_arith_bintrs signed_take_bit_take_bit)
  also have "\<dots> = (- int (unat amount) + 2 ^ 63) mod 2 ^ 64 - 2 ^ 63"
    by (simp add: signed_take_bit_eq_take_bit_shift take_bit_eq_mod)
  finally have s: "sint (- amount) = (- int (unat amount) + 2 ^ 63) mod 2 ^ 64 - 2 ^ 63" .
  obtain n where n: "unat amount = n" "n < 2 ^ 64" using unat_bound [of amount] by simp
  have "(- int n + 2 ^ 63) mod 2 ^ 64 = - int n + 2 ^ 63" if "n \<le> 2 ^ 63"
    using that by (intro mod_pos_pos_trivial) simp_all
  moreover have "(- int n + 2 ^ 63) mod 2 ^ 64 = - int n + 2 ^ 63 + 2 ^ 64" if "2 ^ 63 < n"
  proof -
    have "(- int n + 2 ^ 63) mod 2 ^ 64 = (- int n + 2 ^ 63 + 2 ^ 64) mod 2 ^ 64"
      by (simp only: mod_add_self2)
    also have "\<dots> = - int n + 2 ^ 63 + 2 ^ 64"
      using that n(2) by (intro mod_pos_pos_trivial) simp_all
    finally show ?thesis .
  qed
  ultimately show ?thesis using s by (auto simp: mana_event_def n(1) simp del: of_nat_unat)
qed

lemma mana_deduction_sign_witness:
  "sint (me_mana_change (mana_event [] 100 [] [] 0)) = - 100 \<and>
   sint (me_mana_change (mana_event [] 0xFFFFFFFFFFFFFFFF [] [] 0)) = 1"
  using mana_deduction_sign [where amount = 100 and d = "[]" and coop = "[]" and comm = "[]" and now = 0]
    mana_deduction_sign [where amount = "0xFFFFFFFFFFFFFFFF" and d = "[]" and coop = "[]" and comm = "[]" and now = 0]
  by simp

end
