(* ===== verification/Distribution.thy ===== *)
theory Distribution
  imports Mana_Pool Did_Key Dag_Store
begin

text \<open>
  The periodic mana payout of \<open>crates/runtime/icn-runtime/src/distribution_worker.rs\<close>: a node gives a tenth of its
  pool to the originators of the receipts it anchored during the last interval.

  The worker's handles on the store and on the mana manager are arguments; one tick holds the manager's lock from
  the first reading of the balance to the last transfer, so it is one step.  The clock readings are \<open>now_ms\<close>
  (milliseconds, for the window), \<open>t0\<close> (in \<open>balance\<close>) and \<open>ts i\<close>, the four readings of transfer \<open>i\<close>.
\<close>

section \<open>The worker\<close>

record DistributionWorker =
  dw_node_scope :: ScopeKey
  dw_fraction_percent :: u64
  dw_identity_index :: "IdentityIndex option"
  dw_period_ms :: u64

text \<open>\<open>None\<close> is the panic of \<open>tokio::time::interval\<close> on a zero period.\<close>

definition DistributionWorker_new :: "ScopeKey \<Rightarrow> IdentityIndex option \<Rightarrow> u64 \<Rightarrow> DistributionWorker option" where
  "DistributionWorker_new node_scope identity_index interval_secs =
     (if interval_secs = 0 then None
      else Some \<lparr>dw_node_scope = node_scope, dw_fraction_percent = 10, dw_identity_index = identity_index,
                 dw_period_ms = interval_secs * 1000\<rparr>)"

definition extract_originator_did :: "'cid DagNode \<Rightarrow> did" where
  "extract_originator_did node = last (split_on (CHR 0x2F) (scope_id node))"

definition query_events :: "'cid SharedDagStore \<Rightarrow> DagEventType \<Rightarrow> u64 \<Rightarrow> 'cid DagNode list" where
  "query_events store ty since_ms =
     filter (\<lambda>node. event_type node = ty \<and> since_ms \<le> timestamp node)
       (case dag_list store of Inr ns \<Rightarrow> ns | Inl _ \<Rightarrow> [])"

definition origin_scope :: "(string \<Rightarrow> DidError + did) \<Rightarrow> DistributionWorker \<Rightarrow> 'cid DagNode \<Rightarrow> ScopeKey" where
  "origin_scope did_parse w node =
     (let d = extract_originator_did node in
      case dw_identity_index w of
        Some index \<Rightarrow> (case did_parse d of Inr did_parsed \<Rightarrow> resolve_scope_key index did_parsed | Inl _ \<Rightarrow> Individual d)
      | None \<Rightarrow> Individual d)"

text \<open>The loop over the receipts: the number of transfers that succeeded, the manager and the hook's calls.\<close>

fun pay_shares ::
    "ScopeKey \<Rightarrow> u64 \<Rightarrow> (nat \<Rightarrow> clock \<times> clock \<times> clock \<times> clock) \<Rightarrow> nat \<Rightarrow> ScopeKey list \<Rightarrow> ManaManager
      \<Rightarrow> nat \<times> ManaManager \<times> hook_call list" where
  "pay_shares from share ts i [] mgr = (0, mgr, [])"
| "pay_shares from share ts i (to # tos) mgr =
     (case transfer mgr from to share (ts i) of (r, mgr', calls) \<Rightarrow>
      case pay_shares from share ts (Suc i) tos mgr' of (n, mgr'', calls') \<Rightarrow>
        (if is_ok r then Suc n else n, mgr'', calls @ calls'))"

definition worker_tick ::
    "(string \<Rightarrow> DidError + did) \<Rightarrow> DistributionWorker \<Rightarrow> 'cid SharedDagStore \<Rightarrow> u64 \<Rightarrow> clock
      \<Rightarrow> (nat \<Rightarrow> clock \<times> clock \<times> clock \<times> clock) \<Rightarrow> ManaManager \<Rightarrow> nat \<times> ManaManager \<times> hook_call list" where
  "worker_tick did_parse w store now_ms t0 ts mgr =
     (case balance mgr (dw_node_scope w) t0 of (b, mgr1, calls) \<Rightarrow>
      let node_balance = (case b of Some x \<Rightarrow> x | None \<Rightarrow> 0) in
      if node_balance = 0 then (0, mgr1, calls)
      else
        let payout = node_balance * dw_fraction_percent w div 100 in
        if payout = 0 then (0, mgr1, calls)
        else
          let since = now_ms - dw_period_ms w;
              receipts = query_events store Receipt since;
              total_receipts = (word_of_nat (length receipts) :: u64)
          in if total_receipts = 0 then (0, mgr1, calls)
             else
               let share_per = payout div total_receipts in
               (case pay_shares (dw_node_scope w) share_per ts 0 (map (origin_scope did_parse w) receipts) mgr1 of
                  (n, mgr2, calls') \<Rightarrow> (n, mgr2, calls @ calls')))"

text \<open>\<open>run\<close> repeats the tick forever; \<open>worker_run n\<close> is its state after \<open>n\<close> turns, with the readings and the store of
  each turn as functions of the turn.\<close>

primrec worker_run ::
    "(string \<Rightarrow> DidError + did) \<Rightarrow> DistributionWorker \<Rightarrow> (nat \<Rightarrow> 'cid SharedDagStore) \<Rightarrow> (nat \<Rightarrow> u64) \<Rightarrow> (nat \<Rightarrow> clock)
      \<Rightarrow> (nat \<Rightarrow> nat \<Rightarrow> clock \<times> clock \<times> clock \<times> clock) \<Rightarrow> nat \<Rightarrow> ManaManager \<Rightarrow> ManaManager" where
  "worker_run did_parse w stores now_ms t0 ts 0 mgr = mgr"
| "worker_run did_parse w stores now_ms t0 ts (Suc n) mgr =
     fst (snd (worker_tick did_parse w (stores n) (now_ms n) (t0 n) (ts n) (worker_run did_parse w stores now_ms t0 ts n mgr)))"

section \<open>What a pool gains and gives\<close>

text \<open>What a pool would hold at \<open>T\<close> without its maximum; it bounds every sum the code computes until then.\<close>

definition reach :: "ManaPool \<Rightarrow> clock \<Rightarrow> nat" where
  "reach p T = unat (mp_current p) + elapsed_secs p T * unat (mp_regen_per_sec p)"

lemma regen_fits_reach: "regen_fits p T \<longleftrightarrow> reach p T < 2 ^ 64"
  by (simp add: regen_fits_def reach_def)

lemma pool_value_reach: "pool_value p T = min (unat (mp_max p)) (reach p T)"
  by (simp add: pool_value_def reach_def)

lemma pool_value_le: "min (unat (mp_max p)) (pool_value p T) = pool_value p T"
  by (simp add: pool_value_def)

lemma regeneration_reach:
  assumes "pool_ok p" and "now_secs t \<le> now_secs T" and "reach p T < 2 ^ 64"
  shows "unat (mp_current (apply_regeneration p t)) = pool_value p t" and "reach (apply_regeneration p t) T \<le> reach p T"
    and "pool_value (apply_regeneration p t) T = pool_value p T"
proof -
  let ?q = "apply_regeneration p t"
  have f: "regen_fits p T" using assms(3) by (simp add: regen_fits_reach)
  show v: "unat (mp_current ?q) = pool_value p t"
    by (rule regeneration_value [OF assms(1) regen_fits_mono [OF assms(2) f]])
  show "reach ?q T \<le> reach p T"
    using elapsed_mult [OF assms(2), of p "unat (mp_regen_per_sec p)"] unfolding reach_def v by (simp add: pool_value_def)
  have "pool_value ?q T = unat (mp_current (apply_regeneration ?q T))"
    by (rule regeneration_value [OF pool_ok_regeneration [OF assms(1)] regen_fits_after [OF assms(1,2) f], symmetric])
  also have "\<dots> = pool_value p T"
    unfolding regeneration_compose [OF assms(1,2) f] by (rule regeneration_value [OF assms(1) f])
  finally show "pool_value ?q T = pool_value p T" .
qed

lemma credit_reach:
  fixes s :: ScopeKey and h :: bool
  assumes "pool_ok p" and "now_secs t \<le> now_secs T" and "now_secs t' \<le> now_secs T" and "reach p T + unat a < 2 ^ 64"
  defines "q \<equiv> fst (credit (apply_regeneration p t) a s h t')"
  shows "pool_ok q" and "mp_max q = mp_max p" and "mp_regen_per_sec q = mp_regen_per_sec p" and "reach q T \<le> reach p T + unat a"
    and "pool_value q T = min (unat (mp_max p)) (pool_value p T + unat a)"
proof -
  let ?p1 = "apply_regeneration p t" and ?p2 = "apply_regeneration (apply_regeneration p t) t'"
  have "reach p T < 2 ^ 64" using assms(4) by simp
  note r1 = regeneration_reach [OF assms(1,2) this]
  have "reach ?p1 T < 2 ^ 64" using r1(2) assms(4) by simp
  note r2 = regeneration_reach [OF pool_ok_regeneration [OF assms(1)] assms(3) this]
  have "unat (mp_current ?p2) \<le> reach ?p2 T" by (simp add: reach_def)
  then have fit: "unat (mp_current ?p2) + unat a < 2 ^ 64" using r1(2) r2(2) assms(4) by linarith
  have q: "q = ?p2\<lparr>mp_current := min (mp_current ?p2 + a) (mp_max p)\<rparr>" by (simp add: q_def credit_pool Let_def)
  have u: "unat (mp_current q) = min (unat (mp_max p)) (unat (mp_current ?p2) + unat a)"
    using fit by (simp add: q unat_min unat_add_exact min.commute)
  show "pool_ok q" unfolding q_def by (rule pool_ok_credit)
  show "mp_max q = mp_max p" "mp_regen_per_sec q = mp_regen_per_sec p" by (simp_all add: q)
  have e: "elapsed_secs q T = elapsed_secs ?p2 T" by (simp add: q elapsed_secs_def)
  have reach: "reach q T = min (unat (mp_max p)) (unat (mp_current ?p2) + unat a) + elapsed_secs ?p2 T * unat (mp_regen_per_sec p)"
    unfolding reach_def u e by (simp add: q)
  have p2: "reach ?p2 T = unat (mp_current ?p2) + elapsed_secs ?p2 T * unat (mp_regen_per_sec p)" by (simp add: reach_def)
  show "reach q T \<le> reach p T + unat a" using reach p2 r1(2) r2(2) by linarith
  have "pool_value q T = min (unat (mp_max p)) (reach q T)" by (simp add: pool_value_reach q)
  also have "\<dots> = min (unat (mp_max p)) (min (unat (mp_max p)) (reach ?p2 T) + unat a)"
    unfolding reach p2 by linarith
  also have "\<dots> = min (unat (mp_max p)) (pool_value p T + unat a)"
    using r1(3) r2(3) by (simp add: pool_value_reach)
  finally show "pool_value q T = min (unat (mp_max p)) (pool_value p T + unat a)" .
qed

text \<open>A pool that covers the amount pays it and keeps what is left.\<close>

lemma consume_reach:
  fixes s :: ScopeKey and h :: bool
  assumes "pool_ok p" and "reach p T < 2 ^ 64" and "now_secs t \<le> now_secs T" and "a \<le> mp_current p"
  defines "q \<equiv> fst (snd (consume p a s h t))"
  shows "fst (consume p a s h t) = Inr ()" and "pool_ok q" and "reach q T + unat a \<le> reach p T"
    and "unat (mp_current p) \<le> unat (mp_current q) + unat a" and "mp_regen_per_sec q = mp_regen_per_sec p"
proof -
  let ?r = "apply_regeneration p t"
  note r = regeneration_reach [OF assms(1,3,2)]
  have le: "unat (mp_current p) \<le> unat (mp_current ?r)"
    using assms(1) by (simp add: r(1) pool_value_def pool_ok_def word_le_nat_alt)
  with assms(4) have a: "a \<le> mp_current ?r" by (simp add: word_le_nat_alt)
  then have q: "q = ?r\<lparr>mp_current := mp_current ?r - a\<rparr>" by (simp add: q_def consume_pool Let_def)
  have u: "unat (mp_current q) + unat a = unat (mp_current ?r)" using a by (simp add: q unat_sub_exact word_le_nat_alt)
  show "fst (consume p a s h t) = Inr ()" using a by (simp add: consume_result Let_def)
  show "pool_ok q" unfolding q_def by (rule pool_ok_consume [OF assms(1)])
  have "reach q T + unat a = reach ?r T" using u by (simp add: reach_def q elapsed_secs_def)
  with r(2) show "reach q T + unat a \<le> reach p T" by simp
  show "unat (mp_current p) \<le> unat (mp_current q) + unat a" using u le by simp
  show "mp_regen_per_sec q = mp_regen_per_sec p" by (simp add: q)
qed

section \<open>Paying the shares\<close>

text \<open>What \<open>n\<close> payments of \<open>s\<close> make of a pool, measured by what it is worth at \<open>T\<close>: a pool that exists gains them up to its
  maximum; where there is none, the first payment creates one with the share as its maximum.\<close>

definition paid :: "clock \<Rightarrow> nat \<Rightarrow> nat \<Rightarrow> ManaPool option \<Rightarrow> ManaPool option \<Rightarrow> bool" where
  "paid T s n before after \<longleftrightarrow>
     (if n = 0 then after = before
      else \<exists>q'. after = Some q' \<and>
        (case before of
           Some q \<Rightarrow> mp_max q' = mp_max q \<and> mp_regen_per_sec q' = mp_regen_per_sec q \<and>
             pool_value q' T = min (unat (mp_max q)) (pool_value q T + n * s)
         | None \<Rightarrow> unat (mp_max q') = s \<and> mp_regen_per_sec q' = 1 \<and> pool_value q' T = s))"

text \<open>The room a destination needs for \<open>n\<close> payments.\<close>

definition has_room :: "clock \<Rightarrow> nat \<Rightarrow> nat \<Rightarrow> ManaPool option \<Rightarrow> bool" where
  "has_room T s n x =
     (case x of
        Some q \<Rightarrow> pool_ok q \<and> reach q T + n * s < 2 ^ 64
      | None \<Rightarrow> unat (now_secs T) + Suc n * s < 2 ^ 64)"

lemma paid_once:
  fixes j :: ScopeKey and h :: bool and t2 :: clock
  assumes "has_room T (unat a) (Suc n) x" and "now_secs t3 \<le> now_secs T" and "now_secs t4 \<le> now_secs T"
  defines "q' \<equiv> fst (credit (apply_regeneration (case x of Some q \<Rightarrow> q | None \<Rightarrow> ManaPool_new a 1 t2) t3) a j h t4)"
  shows "has_room T (unat a) n (Some q')" and "paid T (unat a) n (Some q') y \<Longrightarrow> paid T (unat a) (Suc n) x y"
proof -
  let ?q = "case x of Some q \<Rightarrow> q | None \<Rightarrow> ManaPool_new a 1 t2"
  have new: "reach (ManaPool_new a 1 t2) T \<le> unat a + unat (now_secs T)" "pool_ok (ManaPool_new a 1 t2)"
    by (simp_all add: reach_def ManaPool_new_def elapsed_secs_def pool_ok_def)
  have room: "pool_ok ?q" "reach ?q T + Suc n * unat a < 2 ^ 64"
    using assms(1) new by (auto simp: has_room_def split: option.splits)
  then have "reach ?q T + unat a < 2 ^ 64" by simp
  note c = credit_reach [OF room(1) assms(2,3) this, of j h, folded q'_def]
  show "has_room T (unat a) n (Some q')" using c(1,4) room(2) by (simp add: has_room_def)
  show "paid T (unat a) (Suc n) x y" if p: "paid T (unat a) n (Some q') y"
  proof -
    obtain z where y: "y = Some z" "mp_max z = mp_max q'" "mp_regen_per_sec z = mp_regen_per_sec q'"
      "pool_value z T = min (unat (mp_max q')) (pool_value q' T + n * unat a)"
      using p by (cases "n = 0") (auto simp: paid_def pool_value_le)
    have "pool_value z T = min (unat (mp_max ?q)) (pool_value ?q T + Suc n * unat a)"
      unfolding y(4) c(2,5) by simp
    then show ?thesis using y c(2,3) by (auto simp: paid_def ManaPool_new_def pool_value_def split: option.splits)
  qed
qed

text \<open>Payments out of a pool that covers them all succeed.\<close>

lemma pay_shares_all:
  assumes "hget (pools m) k = Some p" and "pool_ok p" and "reach p T < 2 ^ 64"
    and "\<And>i. case ts i of (t1, t2, t3, t4) \<Rightarrow> now_secs t1 \<le> now_secs T \<and> now_secs t3 \<le> now_secs T \<and> now_secs t4 \<le> now_secs T"
    and "k \<notin> set tos" and "length tos * unat share \<le> unat (mp_current p)"
    and "\<And>j. j \<noteq> k \<Longrightarrow> j \<in> set tos \<Longrightarrow> has_room T (unat share) (count_list tos j) (hget (pools m) j)"
  shows "\<exists>m' calls p'. pay_shares k share ts i tos m = (length tos, m', calls) \<and> hget (pools m') k = Some p' \<and>
    unat (mp_current p) \<le> unat (mp_current p') + length tos * unat share \<and>
    unat (mp_current p') + length tos * unat share \<le> reach p T \<and>
    (\<forall>j. j \<noteq> k \<longrightarrow> paid T (unat share) (count_list tos j) (hget (pools m) j) (hget (pools m') j))"
  using assms(1-3,5-7)
proof (induction tos arbitrary: i m p)
  case Nil
  then show ?case by (simp add: paid_def reach_def)
next
  case (Cons to tos)
  obtain t1 t2 t3 t4 where ti: "ts i = (t1, t2, t3, t4)" by (metis prod_cases4)
  have t: "now_secs t1 \<le> now_secs T" "now_secs t3 \<le> now_secs T" "now_secs t4 \<le> now_secs T" using assms(4) [of i] ti by simp_all
  have "share \<le> mp_current p" using Cons.prems(5) by (simp add: word_le_nat_alt)
  note c = consume_reach [OF Cons.prems(2,3) t(1) this, of k "metrics_hook m"]
  let ?q = "fst (snd (consume p share k (metrics_hook m) t1))"
  let ?d = "fst (credit (apply_regeneration (pool_or_new m to share 1 t2) t3) share to (metrics_hook m) t4)"
  obtain r m1 c1 where tr: "transfer m k to share (ts i) = (r, m1, c1)" by (metis prod_cases3)
  have s: "fst (spend m k share t1) = Inr ()" using c(1) Cons.prems(1) by (simp add: spend_result)
  have r: "r = Inr ()" using transfer_result [of m k to share "ts i"] tr s ti by simp
  have m1: "hget (pools m1) j = (if j = to then Some ?d else if j = k then Some ?q else hget (pools m) j)" for j
    using transfer_lookup [of k to m share t1 p t2 t3 t4 j] Cons.prems(1,4) s tr ti by auto
  have k: "hget (pools m1) k = Some ?q" "k \<notin> set tos" using Cons.prems(4) by (auto simp: m1)
  have d: "has_room T (unat share) (count_list tos to) (Some ?d)"
    "paid T (unat share) (count_list tos to) (Some ?d) y \<Longrightarrow> paid T (unat share) (Suc (count_list tos to)) (hget (pools m) to) y" for y
    using paid_once [where a = share and T = T and n = "count_list tos to" and x = "hget (pools m) to" and ?t3.0 = t3 and ?t4.0 = t4 and
        ?t2.0 = t2 and j = to and h = "metrics_hook m"] Cons.prems(4) Cons.prems(6) [of to] t
    by (auto simp: pool_or_new_def)
  have "length tos * unat share \<le> unat (mp_current ?q)" "reach ?q T < 2 ^ 64" using c(3,4) Cons.prems(3,5) by simp_all
  moreover have "has_room T (unat share) (count_list tos j) (hget (pools m1) j)" if "j \<noteq> k" "j \<in> set tos" for j
    using that d(1) Cons.prems(6) [of j] by (auto simp: m1)
  ultimately obtain m' calls p' where
    rest: "pay_shares k share ts (Suc i) tos m1 = (length tos, m', calls)" "hget (pools m') k = Some p'"
      "unat (mp_current ?q) \<le> unat (mp_current p') + length tos * unat share"
      "unat (mp_current p') + length tos * unat share \<le> reach ?q T"
      and j: "\<And>j. j \<noteq> k \<Longrightarrow> paid T (unat share) (count_list tos j) (hget (pools m1) j) (hget (pools m') j)"
    using Cons.IH [OF k(1) c(2) _ k(2), of "Suc i"] by blast
  have "paid T (unat share) (count_list (to # tos) j) (hget (pools m) j) (hget (pools m') j)" if "j \<noteq> k" for j
    using j [OF that] d(2) that by (auto simp: m1 split: if_splits)
  with rest c(3,4) show ?case by (simp add: tr r)
qed

section \<open>Properties\<close>

text \<open>C27: a tick pays an equal share to the originator of every receipt in the window.  For a node whose pool holds ten
  units or more and is not itself an originator, where no clock reading of the tick lies after \<open>T\<close> and the sums of the pools
  concerned stay below \<open>2 ^ 64\<close> until then: with \<open>share\<close> a tenth of the balance divided by the number of receipts, rounded
  down, every transfer succeeds; the node's pool is its balance less that many shares, apart from what it regenerates during the
  tick; each originator with a pool gains one share for each of its receipts, up to the pool's maximum; one without gets a
  pool whose maximum is the share, full; and every other pool is as it was.\<close>

theorem distribution_pays_every_receipt:
  assumes "manager_ok mgr" and "hget (pools mgr) (dw_node_scope w) = Some p" and "dw_fraction_percent w = 10"
    and "regen_fits p T" and "now_secs t0 \<le> now_secs T"
    and "\<And>i. case ts i of (t1, t2, t3, t4) \<Rightarrow> now_secs t1 \<le> now_secs T \<and> now_secs t3 \<le> now_secs T \<and> now_secs t4 \<le> now_secs T"
    and "10 \<le> pool_value p t0" and "pool_value p t0 * 10 < 2 ^ 64"
    and "query_events store Receipt (now_ms - dw_period_ms w) = rs" and "rs \<noteq> []" and "length rs < 2 ^ 64"
    and "dw_node_scope w \<notin> origin_scope did_parse w ` set rs"
    and "\<forall>j\<in>origin_scope did_parse w ` set rs. \<forall>q. hget (pools mgr) j = Some q \<longrightarrow> reach q T + pool_value p t0 < 2 ^ 64"
    and "unat (now_secs T) + pool_value p t0 < 2 ^ 64"
    and share: "share = pool_value p t0 * 10 div 100 div length rs"
  shows "\<exists>mgr' calls p'. worker_tick did_parse w store now_ms t0 ts mgr = (length rs, mgr', calls) \<and>
    hget (pools mgr') (dw_node_scope w) = Some p' \<and>
    pool_value p t0 \<le> unat (mp_current p') + length rs * share \<and>
    unat (mp_current p') + length rs * share \<le>
      pool_value p t0 + elapsed_secs (apply_regeneration p t0) T * unat (mp_regen_per_sec p) \<and>
    (\<forall>j. j \<noteq> dw_node_scope w \<longrightarrow>
      paid T share (count_list (map (origin_scope did_parse w) rs) j) (hget (pools mgr) j) (hget (pools mgr') j))"
proof -
  let ?B = "pool_value p t0" and ?k = "dw_node_scope w" and ?q = "apply_regeneration p t0"
  let ?n = "word_of_nat (length rs) :: u64"
  let ?pay = "mp_current ?q * 10 div 100" and ?tos = "map (origin_scope did_parse w) rs"
  have ok: "pool_ok p" using assms(1,2) by blast
  have "reach p T < 2 ^ 64" using assms(4) by (simp add: regen_fits_reach)
  note r = regeneration_reach [OF ok assms(5) this]
  have q: "reach ?q T < 2 ^ 64" using r(2) assms(4) by (simp add: regen_fits_reach)
  obtain m1 c1 where b: "balance mgr ?k t0 = (Some (mp_current ?q), m1, c1)"
    and m1: "hget (pools m1) j = (if j = ?k then Some ?q else hget (pools mgr) j)" for j
    using assms(2) by (simp add: balance_def available_def Let_def hm.get_insert)
  have ten: "unat (mp_current ?q * 10) = ?B * 10" using assms(8) r(1) by (subst unat_mult_exact) simp_all
  have pay: "unat ?pay = ?B * 10 div 100" by (simp add: unat_div ten)
  have n: "unat ?n = length rs" using assms(11) by (simp add: unat_of_nat)
  have nz: "mp_current ?q \<noteq> 0" "?pay \<noteq> 0" "?n \<noteq> 0"
    using r(1) assms(7,10) pay n by (auto simp: unat_eq_0 [symmetric] simp del: unat_eq_0)
  have s: "unat (?pay div ?n) = share" unfolding share unat_div [of ?pay] pay n ..
  have all: "length rs * share \<le> ?B * 10 div 100" unfolding share by (rule times_div_less_eq_dividend)
  have part: "count_list ?tos j * share \<le> ?B * 10 div 100" for j
  proof -
    have "count_list ?tos j \<le> length rs" using count_le_length [of ?tos j] by simp
    from mult_le_mono1 [OF this] all show ?thesis by (rule order_trans)
  qed
  have "share \<le> ?B * 10 div 100" unfolding share by (rule div_le_dividend)
  then have room: "has_room T share (count_list ?tos j) (hget (pools m1) j)" if "j \<noteq> ?k" "j \<in> set ?tos" for j
    using that part [of j] bspec [OF assms(13), of j] assms(14) manager_ok_lookup [OF assms(1), of j]
    by (fastforce simp: m1 has_room_def split: option.split)
  have len: "length ?tos * unat (?pay div ?n) \<le> unat (mp_current ?q)" using all r(1) by (simp add: s)
  have k: "hget (pools m1) ?k = Some ?q" "?k \<notin> set ?tos" using assms(12) by (auto simp: m1)
  obtain m' calls p' where "pay_shares ?k (?pay div ?n) ts 0 ?tos m1 = (length ?tos, m', calls)"
    "hget (pools m') ?k = Some p'" "unat (mp_current ?q) \<le> unat (mp_current p') + length ?tos * share"
    "unat (mp_current p') + length ?tos * share \<le> reach ?q T"
    "\<forall>j. j \<noteq> ?k \<longrightarrow> paid T share (count_list ?tos j) (hget (pools m1) j) (hget (pools m') j)"
    using pay_shares_all [where i = 0 and ts = ts, OF k(1) pool_ok_regeneration [OF ok] q assms(6) k(2) len] room
    unfolding s by blast
  with r(1) nz show ?thesis
    by (simp add: worker_tick_def b Let_def assms(3,9) reach_def m1)
qed

definition demo_worker :: DistributionWorker where
  "demo_worker = \<lparr>dw_node_scope = Individual ''n'', dw_fraction_percent = 10, dw_identity_index = None, dw_period_ms = 1000\<rparr>"

definition demo_receipts :: "nat SharedDagStore" where
  "demo_receipts =
     [(''a'', \<lparr>content = [], parent = None, event_type = Receipt, timestamp = 4500, scope_id = ''icn/a''\<rparr>),
      (''b'', \<lparr>content = [], parent = None, event_type = Receipt, timestamp = 4700, scope_id = ''b''\<rparr>),
      (''c'', \<lparr>content = [], parent = None, event_type = Vote, timestamp = 4700, scope_id = ''b''\<rparr>)]"

definition demo_manager :: ManaManager where
  "demo_manager =
     \<lparr>pools = [(Individual ''n'', \<lparr>mp_current = 100, mp_max = 100, mp_regen_per_sec = 0, mp_last_updated = 5\<rparr>),
       (Individual ''b'', \<lparr>mp_current = 3, mp_max = 50, mp_regen_per_sec = 0, mp_last_updated = 5\<rparr>)],
      metrics_hook = False\<rparr>"

theorem distribution_pays_every_receipt_witness:
  "\<exists>mgr' calls p' qa qb.
     worker_tick Inr demo_worker demo_receipts 5000 (Some 5) (\<lambda>_. (Some 5, Some 5, Some 5, Some 5)) demo_manager =
       (Suc (Suc 0), mgr', calls) \<and>
     hget (pools mgr') (Individual ''n'') = Some p' \<and> unat (mp_current p') = 90 \<and>
     hget (pools mgr') (Individual ''a'') = Some qa \<and> pool_value qa (Some 5) = 5 \<and>
     hget (pools mgr') (Individual ''b'') = Some qb \<and> pool_value qb (Some 5) = 8"
proof -
  let ?p = "\<lparr>mp_current = 100, mp_max = 100, mp_regen_per_sec = 0, mp_last_updated = 5\<rparr> :: ManaPool"
  let ?b = "\<lparr>mp_current = 3, mp_max = 50, mp_regen_per_sec = 0, mp_last_updated = 5\<rparr> :: ManaPool"
  let ?rs = "[\<lparr>content = [], parent = None, event_type = Receipt, timestamp = 4500, scope_id = ''icn/a''\<rparr>,
      \<lparr>content = [], parent = None, event_type = Receipt, timestamp = 4700, scope_id = ''b''\<rparr>] :: nat DagNode list"
  have m: "manager_ok demo_manager" "hget (pools demo_manager) (dw_node_scope demo_worker) = Some ?p"
    by (auto simp: manager_ok_def pool_ok_def hwf_def hget_def demo_manager_def demo_worker_def split: if_splits)
  have v: "pool_value ?p (Some 5) = 100" "regen_fits ?p (Some 5)" "pool_value ?b (Some 5) = 3" "reach ?b (Some 5) = 3"
    by (simp_all add: now_secs_def regen_fits_def elapsed_secs_def pool_value_def reach_def)
  have q: "query_events demo_receipts Receipt (5000 - dw_period_ms demo_worker) = ?rs"
    by (simp add: query_events_def demo_receipts_def demo_worker_def dag_list_def hvalues_def)
  have o: "map (origin_scope Inr demo_worker) ?rs = [Individual ''a'', Individual ''b'']"
    by (simp add: origin_scope_def demo_worker_def extract_originator_did_def)
  have img: "origin_scope Inr demo_worker ` set ?rs = {Individual ''a'', Individual ''b''}"
    using arg_cong [OF o, of set] unfolding set_map by simp
  have n: "dw_node_scope demo_worker \<notin> origin_scope Inr demo_worker ` set ?rs"
    unfolding img by (simp add: demo_worker_def)
  have room: "\<forall>j\<in>origin_scope Inr demo_worker ` set ?rs. \<forall>x. hget (pools demo_manager) j = Some x \<longrightarrow>
      reach x (Some 5) + pool_value ?p (Some 5) < 2 ^ 64"
    unfolding img by (simp add: demo_manager_def hget_def v)
  have e: "elapsed_secs (apply_regeneration ?p (Some 5)) (Some 5) = 0"
    by (simp add: elapsed_secs_def now_secs_def apply_regeneration_def)
  have side: "dw_fraction_percent demo_worker = 10" "now_secs (Some 5) \<le> now_secs (Some 5)" "10 \<le> pool_value ?p (Some 5)"
    "pool_value ?p (Some 5) * 10 < 2 ^ 64" "?rs \<noteq> []" "length ?rs < 2 ^ 64" "unat (now_secs (Some 5)) + pool_value ?p (Some 5) < 2 ^ 64"
    "5 = pool_value ?p (Some 5) * 10 div 100 div length ?rs"
    "\<And>i. case (\<lambda>_. (Some 5, Some 5, Some 5, Some 5)) (i :: nat) of (t1, t2, t3, t4) \<Rightarrow>
      now_secs t1 \<le> now_secs (Some 5) \<and> now_secs t3 \<le> now_secs (Some 5) \<and> now_secs t4 \<le> now_secs (Some 5)"
    by (simp_all add: demo_worker_def now_secs_def v(1) numeral_2_eq_2 [symmetric])
  from distribution_pays_every_receipt [OF m side(1) v(2) side(2,9,3,4) q side(5,6) n room side(7,8)]
  obtain mgr' calls p' where *: "worker_tick Inr demo_worker demo_receipts 5000 (Some 5) (\<lambda>_. (Some 5, Some 5, Some 5, Some 5)) demo_manager =
      (length ?rs, mgr', calls)" "hget (pools mgr') (dw_node_scope demo_worker) = Some p'"
    "100 \<le> unat (mp_current p') + length ?rs * 5" "unat (mp_current p') + length ?rs * 5 \<le> 100"
    "\<And>j. j \<noteq> dw_node_scope demo_worker \<Longrightarrow>
       paid (Some 5) 5 (count_list [Individual ''a'', Individual ''b''] j) (hget (pools demo_manager) j) (hget (pools mgr') j)"
    unfolding o v(1) e by auto
  show ?thesis
    using *(1-4) *(5) [of "Individual ''a''"] *(5) [of "Individual ''b''"]
    by (auto simp: demo_worker_def demo_manager_def hget_def paid_def v)
qed

text \<open>The window is in milliseconds, and receipts are stamped in seconds where the runtime anchors them
  (\<open>duration_since(UNIX_EPOCH).as_secs()\<close> in \<open>issue_receipt\<close>): once the clock reading in seconds lies before the window,
  which it does for every interval shorter than the age of the epoch, no receipt is ever in the window and nothing is paid.\<close>

lemma second_timestamps_never_paid:
  assumes "\<And>n. n \<in> set (hvalues store) \<Longrightarrow> timestamp n \<le> now_ms div 1000" and "now_ms div 1000 < now_ms - dw_period_ms w"
  shows "fst (worker_tick did_parse w store now_ms t0 ts mgr) = 0"
    and "fst (snd (worker_tick did_parse w store now_ms t0 ts mgr)) = fst (snd (balance mgr (dw_node_scope w) t0))"
proof -
  have "timestamp n < now_ms - dw_period_ms w" if "n \<in> set (hvalues store)" for n
    using assms(1) [OF that] assms(2) by (rule le_less_trans)
  then have "query_events store Receipt (now_ms - dw_period_ms w) = []"
    by (fastforce simp: query_events_def dag_list_def filter_empty_conv dest: leD)
  then show "fst (worker_tick did_parse w store now_ms t0 ts mgr) = 0"
    and "fst (snd (worker_tick did_parse w store now_ms t0 ts mgr)) = fst (snd (balance mgr (dw_node_scope w) t0))"
    by (simp_all add: worker_tick_def Let_def split: prod.split)
qed

text \<open>Ticks keep the manager's invariant, so it holds at every turn of the loop.\<close>

lemma pay_shares_ok: "manager_ok m \<Longrightarrow> manager_ok (fst (snd (pay_shares k share ts i tos m)))"
proof (induction tos arbitrary: i m)
  case (Cons to tos)
  obtain r m1 c1 where tr: "transfer m k to share (ts i) = (r, m1, c1)" by (metis prod_cases3)
  have "manager_ok m1" using manager_ok_transfer [OF Cons.prems, of k to share "ts i"] tr by simp
  from Cons.IH [OF this, of "Suc i"] show ?case by (auto simp: tr split: prod.split)
qed simp

lemma worker_run_ok: "manager_ok m \<Longrightarrow> manager_ok (worker_run did_parse w stores now_ms t0 ts n m)"
proof (induction n)
  case (Suc n)
  let ?m = "worker_run did_parse w stores now_ms t0 ts n m"
  obtain b m1 c where bal: "balance ?m (dw_node_scope w) (t0 n) = (b, m1, c)" by (metis prod_cases3)
  have "manager_ok m1" using manager_ok_balance [OF Suc.IH [OF Suc.prems], of "dw_node_scope w" "t0 n"] bal by simp
  with pay_shares_ok [OF this] show ?case
    by (auto simp: worker_tick_def bal Let_def split: prod.split) (metis fst_conv snd_conv)
qed simp

end
