(* ===== verification/Runtime_Context.thy ===== *)
theory Runtime_Context
  imports Mana_Pool Resource_Policy Economics Dag_Store Quorum Jws Mesh_Types Runtime_Reputation
begin

text \<open>
  The shared state of the runtime: \<open>RuntimeContext\<close> and its builder, \<open>crates/runtime/icn-runtime/src/context.rs\<close>.

  A mana ledger is shared between the repository adapter and the adapter inside the policy enforcer: both hold a
  handle \<open>'l\<close> on it (an \<open>Arc<L>\<close>), and the handle of the freshly made default ledger is an argument of the
  constructors.  Other parts are held by one owner when a context is made and are their values.  A
  \<open>Duration\<close> is its number of milliseconds.
\<close>

datatype ExecutionStatus = StatusRunning | StatusCompleted | StatusFailed

record 'l ManaRepositoryAdapter =
  adapter_ledger :: 'l

record 'l mana_regenerator =
  regen_ledger :: 'l
  regen_policy :: RegenerationPolicy

record ('cid, 'v, 'l, 'sk) RuntimeContext =
  rc_dag_store :: "'cid SharedDagStore"
  rc_receipt_store :: "'cid SharedDagStore"
  rc_federation_id :: "string option"
  rc_executor_id :: "string option"
  rc_trust_validator :: "('v, bytes) TrustValidator option"
  rc_economics :: Economics
  rc_resource_ledger :: ledger
  rc_pending_mesh_jobs :: "MeshJob list"
  rc_mana_manager :: ManaManager
  rc_mana_regenerator :: "'l mana_regenerator option"
  rc_policy_enforcer :: "'l ManaRepositoryAdapter ResourcePolicyEnforcer"
  rc_mana_repository :: "'l ManaRepositoryAdapter"
  rc_interactive_input_queue :: "bytes list"
  rc_execution_status :: ExecutionStatus
  rc_identity_index :: "IdentityIndex option"
  rc_identity :: "('sk, bytes) KeyPair option"
  rc_reputation_service_url :: "string option"
  rc_mesh_job_service_url :: "string option"
  rc_reputation_scoring_config :: ReputationScoringConfig
  rc_mana_tick_interval :: "nat option"

definition unwrap :: "'a option \<Rightarrow> 'a \<Rightarrow> 'a" where
  "unwrap x d = (case x of Some a \<Rightarrow> a | None \<Rightarrow> d)"

section \<open>Accessors and setters\<close>

definition update_status :: "ExecutionStatus \<Rightarrow> ('cid, 'v, 'l, 'sk) RuntimeContext \<Rightarrow> ('cid, 'v, 'l, 'sk) RuntimeContext" where
  "update_status s c = c\<lparr>rc_execution_status := s\<rparr>"

definition ctx_with_receipt_store :: "'cid SharedDagStore \<Rightarrow> ('cid, 'v, 'l, 'sk) RuntimeContext \<Rightarrow> ('cid, 'v, 'l, 'sk) RuntimeContext" where
  "ctx_with_receipt_store x c = c\<lparr>rc_receipt_store := x\<rparr>"

definition ctx_with_federation_id :: "string \<Rightarrow> ('cid, 'v, 'l, 'sk) RuntimeContext \<Rightarrow> ('cid, 'v, 'l, 'sk) RuntimeContext" where
  "ctx_with_federation_id x c = c\<lparr>rc_federation_id := Some x\<rparr>"

definition ctx_with_executor_id :: "string \<Rightarrow> ('cid, 'v, 'l, 'sk) RuntimeContext \<Rightarrow> ('cid, 'v, 'l, 'sk) RuntimeContext" where
  "ctx_with_executor_id x c = c\<lparr>rc_executor_id := Some x\<rparr>"

definition ctx_with_trust_validator :: "('v, bytes) TrustValidator \<Rightarrow> ('cid, 'v, 'l, 'sk) RuntimeContext \<Rightarrow> ('cid, 'v, 'l, 'sk) RuntimeContext" where
  "ctx_with_trust_validator x c = c\<lparr>rc_trust_validator := Some x\<rparr>"

definition ctx_with_economics :: "Economics \<Rightarrow> ('cid, 'v, 'l, 'sk) RuntimeContext \<Rightarrow> ('cid, 'v, 'l, 'sk) RuntimeContext" where
  "ctx_with_economics x c = c\<lparr>rc_economics := x\<rparr>"

definition ctx_with_identity_index :: "IdentityIndex \<Rightarrow> ('cid, 'v, 'l, 'sk) RuntimeContext \<Rightarrow> ('cid, 'v, 'l, 'sk) RuntimeContext" where
  "ctx_with_identity_index x c = c\<lparr>rc_identity_index := Some x\<rparr>"

section \<open>Construction\<close>

definition Economics_new :: "ResourceAuthorizationPolicy \<Rightarrow> Economics" where
  "Economics_new p = \<lparr>policy = p\<rparr>"

definition ctx_with_dag_store :: "(real \<Rightarrow> real) \<Rightarrow> 'l \<Rightarrow> 'cid SharedDagStore \<Rightarrow> ('cid, 'v, 'l, 'sk) RuntimeContext" where
  "ctx_with_dag_store fl default_ledger store =
     \<lparr>rc_dag_store = store, rc_receipt_store = SharedDagStore_new, rc_federation_id = None, rc_executor_id = None,
      rc_trust_validator = None, rc_economics = Economics_new ResourceAuthorizationPolicy_default,
      rc_resource_ledger = [], rc_pending_mesh_jobs = [], rc_mana_manager = ManaManager_new, rc_mana_regenerator = None,
      rc_policy_enforcer = enforcer_new \<lparr>adapter_ledger = default_ledger\<rparr>,
      rc_mana_repository = \<lparr>adapter_ledger = default_ledger\<rparr>,
      rc_interactive_input_queue = [], rc_execution_status = StatusRunning, rc_identity_index = None, rc_identity = None,
      rc_reputation_service_url = None, rc_mesh_job_service_url = None,
      rc_reputation_scoring_config = ReputationScoringConfig_default fl, rc_mana_tick_interval = None\<rparr>"

definition RuntimeContext_new :: "(real \<Rightarrow> real) \<Rightarrow> 'l \<Rightarrow> ('cid, 'v, 'l, 'sk) RuntimeContext" where
  "RuntimeContext_new fl default_ledger =
     \<lparr>rc_dag_store = SharedDagStore_new, rc_receipt_store = SharedDagStore_new, rc_federation_id = None, rc_executor_id = None,
      rc_trust_validator = None, rc_economics = Economics_new ResourceAuthorizationPolicy_default,
      rc_resource_ledger = [], rc_pending_mesh_jobs = [], rc_mana_manager = ManaManager_new, rc_mana_regenerator = None,
      rc_policy_enforcer = enforcer_new \<lparr>adapter_ledger = default_ledger\<rparr>,
      rc_mana_repository = \<lparr>adapter_ledger = default_ledger\<rparr>,
      rc_interactive_input_queue = [], rc_execution_status = StatusRunning, rc_identity_index = None, rc_identity = None,
      rc_reputation_service_url = None, rc_mesh_job_service_url = None,
      rc_reputation_scoring_config = ReputationScoringConfig_default fl, rc_mana_tick_interval = None\<rparr>"

record ('cid, 'v, 'l, 'sk) RuntimeContextBuilder =
  rb_dag_store :: "'cid SharedDagStore option"
  rb_receipt_store :: "'cid SharedDagStore option"
  rb_federation_id :: "string option"
  rb_executor_id :: "string option"
  rb_trust_validator :: "('v, bytes) TrustValidator option"
  rb_economics :: "Economics option"
  rb_identity_index :: "IdentityIndex option"
  rb_identity :: "('sk, bytes) KeyPair option"
  rb_reputation_service_url :: "string option"
  rb_mesh_job_service_url :: "string option"
  rb_mana_regenerator :: "'l mana_regenerator option"
  rb_reputation_scoring_config :: "ReputationScoringConfig option"
  rb_mana_tick_interval :: "nat option"
  rb_policy_enforcer :: "'l ManaRepositoryAdapter ResourcePolicyEnforcer option"
  rb_mana_repository :: "'l ManaRepositoryAdapter option"

definition RuntimeContextBuilder_new :: "('cid, 'v, 'l, 'sk) RuntimeContextBuilder" where
  "RuntimeContextBuilder_new =
     \<lparr>rb_dag_store = None, rb_receipt_store = None, rb_federation_id = None, rb_executor_id = None, rb_trust_validator = None,
      rb_economics = None, rb_identity_index = None, rb_identity = None, rb_reputation_service_url = None,
      rb_mesh_job_service_url = None, rb_mana_regenerator = None, rb_reputation_scoring_config = None,
      rb_mana_tick_interval = None, rb_policy_enforcer = None, rb_mana_repository = None\<rparr>"

definition with_dag_store :: "'cid SharedDagStore \<Rightarrow> ('cid, 'v, 'l, 'sk) RuntimeContextBuilder \<Rightarrow> ('cid, 'v, 'l, 'sk) RuntimeContextBuilder" where
  "with_dag_store x b = b\<lparr>rb_dag_store := Some x\<rparr>"

definition with_receipt_store :: "'cid SharedDagStore \<Rightarrow> ('cid, 'v, 'l, 'sk) RuntimeContextBuilder \<Rightarrow> ('cid, 'v, 'l, 'sk) RuntimeContextBuilder" where
  "with_receipt_store x b = b\<lparr>rb_receipt_store := Some x\<rparr>"

definition with_federation_id :: "string \<Rightarrow> ('cid, 'v, 'l, 'sk) RuntimeContextBuilder \<Rightarrow> ('cid, 'v, 'l, 'sk) RuntimeContextBuilder" where
  "with_federation_id x b = b\<lparr>rb_federation_id := Some x\<rparr>"

definition with_executor_id :: "string \<Rightarrow> ('cid, 'v, 'l, 'sk) RuntimeContextBuilder \<Rightarrow> ('cid, 'v, 'l, 'sk) RuntimeContextBuilder" where
  "with_executor_id x b = b\<lparr>rb_executor_id := Some x\<rparr>"

definition with_trust_validator :: "('v, bytes) TrustValidator \<Rightarrow> ('cid, 'v, 'l, 'sk) RuntimeContextBuilder \<Rightarrow> ('cid, 'v, 'l, 'sk) RuntimeContextBuilder" where
  "with_trust_validator x b = b\<lparr>rb_trust_validator := Some x\<rparr>"

definition with_economics :: "Economics \<Rightarrow> ('cid, 'v, 'l, 'sk) RuntimeContextBuilder \<Rightarrow> ('cid, 'v, 'l, 'sk) RuntimeContextBuilder" where
  "with_economics x b = b\<lparr>rb_economics := Some x\<rparr>"

definition with_identity_index :: "IdentityIndex \<Rightarrow> ('cid, 'v, 'l, 'sk) RuntimeContextBuilder \<Rightarrow> ('cid, 'v, 'l, 'sk) RuntimeContextBuilder" where
  "with_identity_index x b = b\<lparr>rb_identity_index := Some x\<rparr>"

definition with_identity :: "('sk, bytes) KeyPair \<Rightarrow> ('cid, 'v, 'l, 'sk) RuntimeContextBuilder \<Rightarrow> ('cid, 'v, 'l, 'sk) RuntimeContextBuilder" where
  "with_identity x b = b\<lparr>rb_identity := Some x\<rparr>"

definition with_reputation_service :: "string \<Rightarrow> ('cid, 'v, 'l, 'sk) RuntimeContextBuilder \<Rightarrow> ('cid, 'v, 'l, 'sk) RuntimeContextBuilder" where
  "with_reputation_service x b = b\<lparr>rb_reputation_service_url := Some x\<rparr>"

definition with_mesh_job_service_url :: "string \<Rightarrow> ('cid, 'v, 'l, 'sk) RuntimeContextBuilder \<Rightarrow> ('cid, 'v, 'l, 'sk) RuntimeContextBuilder" where
  "with_mesh_job_service_url x b = b\<lparr>rb_mesh_job_service_url := Some x\<rparr>"

definition with_mana_regenerator :: "'l mana_regenerator \<Rightarrow> ('cid, 'v, 'l, 'sk) RuntimeContextBuilder \<Rightarrow> ('cid, 'v, 'l, 'sk) RuntimeContextBuilder" where
  "with_mana_regenerator x b = b\<lparr>rb_mana_regenerator := Some x\<rparr>"

definition with_reputation_scoring_config :: "ReputationScoringConfig \<Rightarrow> ('cid, 'v, 'l, 'sk) RuntimeContextBuilder \<Rightarrow> ('cid, 'v, 'l, 'sk) RuntimeContextBuilder" where
  "with_reputation_scoring_config x b = b\<lparr>rb_reputation_scoring_config := Some x\<rparr>"

definition with_mana_tick_interval :: "nat \<Rightarrow> ('cid, 'v, 'l, 'sk) RuntimeContextBuilder \<Rightarrow> ('cid, 'v, 'l, 'sk) RuntimeContextBuilder" where
  "with_mana_tick_interval x b = b\<lparr>rb_mana_tick_interval := Some x\<rparr>"

definition with_policy_enforcer :: "'l ManaRepositoryAdapter ResourcePolicyEnforcer \<Rightarrow> ('cid, 'v, 'l, 'sk) RuntimeContextBuilder \<Rightarrow> ('cid, 'v, 'l, 'sk) RuntimeContextBuilder" where
  "with_policy_enforcer x b = b\<lparr>rb_policy_enforcer := Some x\<rparr>"

definition with_mana_repository :: "'l ManaRepositoryAdapter \<Rightarrow> ('cid, 'v, 'l, 'sk) RuntimeContextBuilder \<Rightarrow> ('cid, 'v, 'l, 'sk) RuntimeContextBuilder" where
  "with_mana_repository x b = b\<lparr>rb_mana_repository := Some x\<rparr>"

definition ctx_build :: "(real \<Rightarrow> real) \<Rightarrow> 'l \<Rightarrow> ('cid, 'v, 'l, 'sk) RuntimeContextBuilder \<Rightarrow> ('cid, 'v, 'l, 'sk) RuntimeContext" where
  "ctx_build fl default_ledger b =
     \<lparr>rc_dag_store = unwrap (rb_dag_store b) SharedDagStore_new,
      rc_receipt_store = unwrap (rb_receipt_store b) SharedDagStore_new,
      rc_federation_id = rb_federation_id b, rc_executor_id = rb_executor_id b, rc_trust_validator = rb_trust_validator b,
      rc_economics = unwrap (rb_economics b) (Economics_new ResourceAuthorizationPolicy_default),
      rc_resource_ledger = [], rc_pending_mesh_jobs = [], rc_mana_manager = ManaManager_new,
      rc_mana_regenerator = rb_mana_regenerator b,
      rc_policy_enforcer = unwrap (rb_policy_enforcer b) (enforcer_new \<lparr>adapter_ledger = default_ledger\<rparr>),
      rc_mana_repository = unwrap (rb_mana_repository b) \<lparr>adapter_ledger = default_ledger\<rparr>,
      rc_interactive_input_queue = [], rc_execution_status = StatusRunning, rc_identity_index = rb_identity_index b,
      rc_identity = rb_identity b, rc_reputation_service_url = rb_reputation_service_url b,
      rc_mesh_job_service_url = rb_mesh_job_service_url b,
      rc_reputation_scoring_config = unwrap (rb_reputation_scoring_config b) (ReputationScoringConfig_default fl),
      rc_mana_tick_interval = rb_mana_tick_interval b\<rparr>"

text \<open>\<open>None\<close> is the panic of \<open>expect\<close> when the fixed federation name does not parse; \<open>kp\<close> is the generated key pair.\<close>

definition minimal_for_testing ::
    "(real \<Rightarrow> real) \<Rightarrow> (string \<Rightarrow> DidError + did) \<Rightarrow> ('sk, bytes) KeyPair \<Rightarrow> 'l \<Rightarrow> ('cid, 'v, 'l, 'sk) RuntimeContext option" where
  "minimal_for_testing fl did_parse kp led =
     (case did_parse ''did:icn:federation:test_fixture'' of
        Inl _ \<Rightarrow> None
      | Inr federation_did \<Rightarrow>
          Some ((RuntimeContext_new fl led)
            \<lparr>rc_federation_id := Some federation_did, rc_identity := Some kp, rc_executor_id := Some (kp_did kp),
             rc_mana_regenerator := Some \<lparr>regen_ledger = led, regen_policy = FixedRatePerTick 10\<rparr>\<rparr>))"

lemmas builder_setters = with_dag_store_def with_receipt_store_def with_federation_id_def with_executor_id_def
  with_trust_validator_def with_economics_def with_identity_index_def with_identity_def with_reputation_service_def
  with_mesh_job_service_url_def with_mana_regenerator_def with_reputation_scoring_config_def with_mana_tick_interval_def
  with_policy_enforcer_def with_mana_repository_def

section \<open>What the builder makes\<close>

text \<open>A builder on which nothing was set makes the default context, and one on which only the graph store was set makes the
  context for that store.\<close>

lemma build_default:
  "ctx_build fl l RuntimeContextBuilder_new = RuntimeContext_new fl l"
  "ctx_build fl l (with_dag_store s RuntimeContextBuilder_new) = ctx_with_dag_store fl l s"
  by (simp_all add: ctx_build_def RuntimeContextBuilder_new_def RuntimeContext_new_def ctx_with_dag_store_def builder_setters unwrap_def)

text \<open>A repository set without an enforcer leaves the enforcer on the default ledger: usage is then recorded in one ledger and
  quotas are checked against another.\<close>

lemma build_split_ledgers:
  "rc_mana_repository (ctx_build fl l (with_mana_repository \<lparr>adapter_ledger = l'\<rparr> b)) = \<lparr>adapter_ledger = l'\<rparr>"
  "rb_policy_enforcer b = None \<Longrightarrow>
   repository (rc_policy_enforcer (ctx_build fl l (with_mana_repository \<lparr>adapter_ledger = l'\<rparr> b))) = \<lparr>adapter_ledger = l\<rparr>"
  by (simp_all add: ctx_build_def builder_setters unwrap_def enforcer_new_def)

text \<open>No name with the method \<open>icn\<close> parses, so the context for tests is never made.\<close>

lemma minimal_for_testing_panics:
  "minimal_for_testing fl (did_from_str mb vk) kp l = None"
  using did_icn_unsupported [of mb vk "''federation:test_fixture''"] by (simp add: minimal_for_testing_def)

end
