(* ===== verification/Runtime_Storage.thy ===== *)
theory Runtime_Storage
  imports Receipts
begin

text \<open>
  The runtime's storage: the trait \<open>RuntimeStorage\<close> with its in-memory implementation
  (\<open>crates/runtime/icn-runtime/src/lib.rs\<close>) and the Sled implementation (\<open>sled_storage.rs\<close>).

  The trait's operations are the record \<open>storage_ops\<close>; its contract is the locale \<open>runtime_storage\<close>: what was
  written is read back, under its own key only.  The in-memory storage is an interpretation.  The Sled storage keeps
  the contract for every database and every pair of codecs that keep \<open>db_laws\<close>; that its three kinds of entries
  share one key space is what the prefixes of the keys are for.
\<close>

section \<open>Data\<close>

datatype ProposalState = Created | Voting | Approved | Rejected | Executed

datatype QuorumStatus = QuorumPending | MajorityReached | ThresholdReached | WeightedReached | QuorumFailed

record GovProposal =
  gp_id :: string
  gp_wasm_cid :: string
  gp_ccl_cid :: string
  gp_state :: ProposalState
  gp_quorum_status :: QuorumStatus

text \<open>The errors the implementations make, with the key they name.\<close>

datatype storage_error =
    ProposalNotFound string
  | WasmNotFound string
  | ReceiptNotFound string
  | DatabaseFailed string
  | CodecFailed string
  | AnchoringUnsupported

record 's storage_ops =
  load_proposal :: "'s \<Rightarrow> string \<Rightarrow> storage_error + GovProposal"
  update_proposal :: "'s \<Rightarrow> GovProposal \<Rightarrow> (storage_error + unit) \<times> 's"
  load_wasm :: "'s \<Rightarrow> string \<Rightarrow> storage_error + bytes"
  store_wasm :: "'s \<Rightarrow> string \<Rightarrow> bytes \<Rightarrow> (storage_error + unit) \<times> 's"
  store_receipt :: "'s \<Rightarrow> RuntimeExecutionReceipt \<Rightarrow> (storage_error + string) \<times> 's"
  load_receipt :: "'s \<Rightarrow> string \<Rightarrow> storage_error + RuntimeExecutionReceipt"
  anchor_to_dag :: "'s \<Rightarrow> string \<Rightarrow> (storage_error + string) \<times> 's"

section \<open>The contract\<close>

locale runtime_storage =
  fixes S :: "'s storage_ops"
  assumes update_then_load: "update_proposal S s p = (Inr (), s') \<Longrightarrow>
      load_proposal S s' (gp_id p) = Inr p \<and> (\<forall>i. i \<noteq> gp_id p \<longrightarrow> load_proposal S s' i = load_proposal S s i) \<and>
      load_wasm S s' = load_wasm S s \<and> load_receipt S s' = load_receipt S s"
    and wasm_then_load: "store_wasm S s c b = (Inr (), s') \<Longrightarrow>
      load_wasm S s' c = Inr b \<and> (\<forall>d. d \<noteq> c \<longrightarrow> load_wasm S s' d = load_wasm S s d) \<and>
      load_proposal S s' = load_proposal S s \<and> load_receipt S s' = load_receipt S s"
    and receipt_then_load: "store_receipt S s r = (Inr k, s') \<Longrightarrow>
      load_receipt S s' k = Inr r \<and> (\<forall>j. j \<noteq> k \<longrightarrow> load_receipt S s' j = load_receipt S s j) \<and>
      load_proposal S s' = load_proposal S s \<and> load_wasm S s' = load_wasm S s"
    and failed_writes: "update_proposal S s p = (Inl e, s') \<Longrightarrow> load_proposal S s' = load_proposal S s"
      "store_wasm S s c b = (Inl e, s') \<Longrightarrow> load_proposal S s' = load_proposal S s"
      "store_receipt S s r = (Inl e, s') \<Longrightarrow> load_proposal S s' = load_proposal S s"
begin

text \<open>Storing a module or a receipt does not move a proposal.\<close>

lemma writes_keep_proposals:
  "load_proposal S (snd (store_wasm S s c b)) = load_proposal S s"
  "load_proposal S (snd (store_receipt S s r)) = load_proposal S s"
proof -
  obtain x s' where "store_wasm S s c b = (x, s')" by fastforce
  then show "load_proposal S (snd (store_wasm S s c b)) = load_proposal S s"
    using wasm_then_load [of s c b s'] failed_writes(2) [of s c b _ s'] by (cases x) auto
  obtain y t' where "store_receipt S s r = (y, t')" by fastforce
  then show "load_proposal S (snd (store_receipt S s r)) = load_proposal S s"
    using receipt_then_load [of s r _ t'] failed_writes(3) [of s r _ t'] by (cases y) auto
qed

text \<open>Every proposal is filed under its own identifier.\<close>

definition keyed :: "'s \<Rightarrow> bool" where
  "keyed s \<longleftrightarrow> (\<forall>i p. load_proposal S s i = Inr p \<longrightarrow> gp_id p = i)"

lemma keyed_update:
  assumes "keyed s" and "update_proposal S s p = (Inr (), s')"
  shows "keyed s'"
  unfolding keyed_def
proof (intro allI impI)
  fix i q assume q: "load_proposal S s' i = Inr q"
  note u = update_then_load [OF assms(2)]
  show "gp_id q = i"
  proof (cases "i = gp_id p")
    case True
    with u q show ?thesis by simp
  next
    case False
    with u q have "load_proposal S s i = Inr q" by simp
    with assms(1) show ?thesis by (simp add: keyed_def)
  qed
qed

end

section \<open>The in-memory storage\<close>

record MemStorage =
  ms_proposals :: "(string, GovProposal) hmap"
  ms_wasm_modules :: "(string, bytes) hmap"
  ms_receipts :: "(string, RuntimeExecutionReceipt) hmap"
  ms_anchored_cids :: "string list"

definition MemStorage_new :: MemStorage where
  "MemStorage_new = \<lparr>ms_proposals = [], ms_wasm_modules = [], ms_receipts = [], ms_anchored_cids = []\<rparr>"

definition receipt_count :: "MemStorage \<Rightarrow> nat" where
  "receipt_count s = length (ms_receipts s)"

definition mem_load_proposal :: "MemStorage \<Rightarrow> string \<Rightarrow> storage_error + GovProposal" where
  "mem_load_proposal s i = ok_or (hget (ms_proposals s) i) (ProposalNotFound i)"

definition mem_update_proposal :: "MemStorage \<Rightarrow> GovProposal \<Rightarrow> (storage_error + unit) \<times> MemStorage" where
  "mem_update_proposal s p = (Inr (), s\<lparr>ms_proposals := hinsert (ms_proposals s) (gp_id p) p\<rparr>)"

definition mem_load_wasm :: "MemStorage \<Rightarrow> string \<Rightarrow> storage_error + bytes" where
  "mem_load_wasm s c = ok_or (hget (ms_wasm_modules s) c) (WasmNotFound c)"

definition mem_store_wasm :: "MemStorage \<Rightarrow> string \<Rightarrow> bytes \<Rightarrow> (storage_error + unit) \<times> MemStorage" where
  "mem_store_wasm s c b = (Inr (), s\<lparr>ms_wasm_modules := hinsert (ms_wasm_modules s) c b\<rparr>)"

definition mem_store_receipt :: "MemStorage \<Rightarrow> RuntimeExecutionReceipt \<Rightarrow> (storage_error + string) \<times> MemStorage" where
  "mem_store_receipt s r =
     (let c = ''mock-receipt-'' @ rr_id r in (Inr c, s\<lparr>ms_receipts := hinsert (ms_receipts s) c r\<rparr>))"

definition mem_load_receipt :: "MemStorage \<Rightarrow> string \<Rightarrow> storage_error + RuntimeExecutionReceipt" where
  "mem_load_receipt s i = ok_or (hget (ms_receipts s) i) (ReceiptNotFound i)"

definition mem_anchor_to_dag :: "MemStorage \<Rightarrow> string \<Rightarrow> (storage_error + string) \<times> MemStorage" where
  "mem_anchor_to_dag s c =
     (let anchor_cid = ''mock-anchor-'' @ c in (Inr anchor_cid, s\<lparr>ms_anchored_cids := ms_anchored_cids s @ [anchor_cid]\<rparr>))"

definition mem_ops :: "MemStorage storage_ops" where
  "mem_ops =
     \<lparr>load_proposal = mem_load_proposal, update_proposal = mem_update_proposal, load_wasm = mem_load_wasm,
      store_wasm = mem_store_wasm, store_receipt = mem_store_receipt, load_receipt = mem_load_receipt,
      anchor_to_dag = mem_anchor_to_dag\<rparr>"

lemmas mem_storage_defs = mem_ops_def mem_load_proposal_def mem_update_proposal_def mem_load_wasm_def mem_store_wasm_def
  mem_store_receipt_def mem_load_receipt_def mem_anchor_to_dag_def

interpretation mem: runtime_storage mem_ops
  by unfold_locales (auto simp: mem_storage_defs hm.get_insert fun_eq_iff Let_def)

section \<open>The Sled storage\<close>

record 'db sled_db =
  db_get :: "'db \<Rightarrow> string \<Rightarrow> string + bytes option"
  db_insert :: "'db \<Rightarrow> string \<Rightarrow> bytes \<Rightarrow> (string + unit) \<times> 'db"
  ser_proposal :: "GovProposal \<Rightarrow> string + bytes"
  de_proposal :: "bytes \<Rightarrow> string + GovProposal"
  ser_receipt :: "RuntimeExecutionReceipt \<Rightarrow> string + bytes"
  de_receipt :: "bytes \<Rightarrow> string + RuntimeExecutionReceipt"

definition wasm_key :: "string \<Rightarrow> string" where
  "wasm_key c = ''wasm:'' @ c"

definition receipt_key :: "string \<Rightarrow> string" where
  "receipt_key c = ''receipt:'' @ c"

definition proposal_key :: "string \<Rightarrow> string" where
  "proposal_key i = ''proposal:'' @ i"

definition sled_load :: "'db sled_db \<Rightarrow> 'db \<Rightarrow> string \<Rightarrow> storage_error \<Rightarrow> storage_error + bytes" where
  "sled_load A db key missing = bind_result (map_err DatabaseFailed (db_get A db key)) (\<lambda>v. ok_or v missing)"

definition sled_write :: "'db sled_db \<Rightarrow> 'db \<Rightarrow> string \<Rightarrow> bytes \<Rightarrow> 'r \<Rightarrow> (storage_error + 'r) \<times> 'db" where
  "sled_write A db key v r =
     (case db_insert A db key v of (Inl e, db') \<Rightarrow> (Inl (DatabaseFailed e), db') | (Inr _, db') \<Rightarrow> (Inr r, db'))"

definition sled_load_wasm :: "'db sled_db \<Rightarrow> 'db \<Rightarrow> string \<Rightarrow> storage_error + bytes" where
  "sled_load_wasm A db c = sled_load A db (wasm_key c) (WasmNotFound c)"

definition sled_store_wasm :: "'db sled_db \<Rightarrow> 'db \<Rightarrow> string \<Rightarrow> bytes \<Rightarrow> (storage_error + unit) \<times> 'db" where
  "sled_store_wasm A db c b = sled_write A db (wasm_key c) b ()"

definition sled_store_receipt :: "'db sled_db \<Rightarrow> 'db \<Rightarrow> RuntimeExecutionReceipt \<Rightarrow> (storage_error + string) \<times> 'db" where
  "sled_store_receipt A db r =
     (case ser_receipt A r of
        Inl e \<Rightarrow> (Inl (CodecFailed e), db)
      | Inr dat \<Rightarrow> sled_write A db (receipt_key (rr_id r)) dat (rr_id r))"

definition sled_load_receipt :: "'db sled_db \<Rightarrow> 'db \<Rightarrow> string \<Rightarrow> storage_error + RuntimeExecutionReceipt" where
  "sled_load_receipt A db i =
     bind_result (sled_load A db (receipt_key i) (ReceiptNotFound i)) (\<lambda>v. map_err CodecFailed (de_receipt A v))"

definition sled_load_proposal :: "'db sled_db \<Rightarrow> 'db \<Rightarrow> string \<Rightarrow> storage_error + GovProposal" where
  "sled_load_proposal A db i =
     bind_result (sled_load A db (proposal_key i) (ProposalNotFound i)) (\<lambda>v. map_err CodecFailed (de_proposal A v))"

definition sled_update_proposal :: "'db sled_db \<Rightarrow> 'db \<Rightarrow> GovProposal \<Rightarrow> (storage_error + unit) \<times> 'db" where
  "sled_update_proposal A db p =
     (case ser_proposal A p of
        Inl e \<Rightarrow> (Inl (CodecFailed e), db)
      | Inr dat \<Rightarrow> sled_write A db (proposal_key (gp_id p)) dat ())"

definition sled_anchor_to_dag :: "'db \<Rightarrow> string \<Rightarrow> (storage_error + string) \<times> 'db" where
  "sled_anchor_to_dag db c = (Inl AnchoringUnsupported, db)"

definition sled_ops :: "'db sled_db \<Rightarrow> 'db storage_ops" where
  "sled_ops A =
     \<lparr>load_proposal = sled_load_proposal A, update_proposal = sled_update_proposal A, load_wasm = sled_load_wasm A,
      store_wasm = sled_store_wasm A, store_receipt = sled_store_receipt A, load_receipt = sled_load_receipt A,
      anchor_to_dag = sled_anchor_to_dag\<rparr>"

lemmas sled_storage_defs = sled_ops_def sled_load_wasm_def sled_store_wasm_def sled_store_receipt_def sled_load_receipt_def
  sled_load_proposal_def sled_update_proposal_def sled_anchor_to_dag_def

text \<open>What the storage relies on: a successful insert is read back, other keys are not disturbed, a failed insert changes nothing
  that is read, and decoding undoes encoding.\<close>

definition db_laws :: "'db sled_db \<Rightarrow> bool" where
  "db_laws A \<longleftrightarrow>
     (\<forall>db k v db'. db_insert A db k v = (Inr (), db') \<longrightarrow>
        db_get A db' k = Inr (Some v) \<and> (\<forall>j. j \<noteq> k \<longrightarrow> db_get A db' j = db_get A db j)) \<and>
     (\<forall>db k v e db'. db_insert A db k v = (Inl e, db') \<longrightarrow> db_get A db' = db_get A db) \<and>
     (\<forall>p b. ser_proposal A p = Inr b \<longrightarrow> de_proposal A b = Inr p) \<and>
     (\<forall>r b. ser_receipt A r = Inr b \<longrightarrow> de_receipt A b = Inr r)"

lemma key_spaces [simp]:
  "wasm_key a \<noteq> receipt_key b" "receipt_key b \<noteq> wasm_key a" "wasm_key a \<noteq> proposal_key b" "proposal_key b \<noteq> wasm_key a"
  "receipt_key a \<noteq> proposal_key b" "proposal_key b \<noteq> receipt_key a"
  "wasm_key a = wasm_key c \<longleftrightarrow> a = c" "receipt_key a = receipt_key c \<longleftrightarrow> a = c" "proposal_key a = proposal_key c \<longleftrightarrow> a = c"
  by (simp_all add: wasm_key_def receipt_key_def proposal_key_def)

lemma sled_write_load:
  assumes "db_laws A" and "sled_write A db k v r = (Inr r', db')"
  shows "sled_load A db' j m = (if j = k then Inr v else sled_load A db j m)" and "r' = r"
proof -
  from assms(2) have i: "db_insert A db k v = (Inr (), db')" and "r' = r"
    by (auto simp: sled_write_def split: prod.splits sum.splits)
  then show "r' = r" by simp
  from assms(1) i have g: "db_get A db' k = Inr (Some v)" "j \<noteq> k \<Longrightarrow> db_get A db' j = db_get A db j"
    unfolding db_laws_def by blast+
  then show "sled_load A db' j m = (if j = k then Inr v else sled_load A db j m)"
    by (simp add: sled_load_def)
qed

lemma sled_write_failed:
  assumes "db_laws A" and "sled_write A db k v r = (Inl e, db')"
  shows "sled_load_proposal A db' = sled_load_proposal A db"
proof -
  from assms have "db_get A db' = db_get A db"
    unfolding db_laws_def by (auto simp: sled_write_def split: prod.splits sum.splits)
  then show ?thesis by (simp add: sled_load_proposal_def sled_load_def fun_eq_iff)
qed

text \<open>over every database and codec that read back what was written, the Sled storage keeps the contract of the runtime's
  storage: each of the three kinds of entries is read back as written and never disturbs another.\<close>

lemma sled_storage_contract:
  assumes "db_laws A"
  shows "runtime_storage (sled_ops A)"
proof
  fix s p s' assume "update_proposal (sled_ops A) s p = (Inr (), s')"
  then obtain b where b: "ser_proposal A p = Inr b" "sled_write A s (proposal_key (gp_id p)) b () = (Inr (), s')"
    by (auto simp: sled_storage_defs split: sum.splits)
  have "de_proposal A b = Inr p" using assms b(1) by (auto simp: db_laws_def)
  with sled_write_load(1) [OF assms b(2)]
  show "load_proposal (sled_ops A) s' (gp_id p) = Inr p \<and>
      (\<forall>i. i \<noteq> gp_id p \<longrightarrow> load_proposal (sled_ops A) s' i = load_proposal (sled_ops A) s i) \<and>
      load_wasm (sled_ops A) s' = load_wasm (sled_ops A) s \<and> load_receipt (sled_ops A) s' = load_receipt (sled_ops A) s"
    by (simp add: sled_storage_defs fun_eq_iff)
next
  fix s c b s' assume "store_wasm (sled_ops A) s c b = (Inr (), s')"
  then have "sled_write A s (wasm_key c) b () = (Inr (), s')" by (simp add: sled_storage_defs)
  from sled_write_load(1) [OF assms this]
  show "load_wasm (sled_ops A) s' c = Inr b \<and> (\<forall>d. d \<noteq> c \<longrightarrow> load_wasm (sled_ops A) s' d = load_wasm (sled_ops A) s d) \<and>
      load_proposal (sled_ops A) s' = load_proposal (sled_ops A) s \<and> load_receipt (sled_ops A) s' = load_receipt (sled_ops A) s"
    by (simp add: sled_storage_defs fun_eq_iff)
next
  fix s r k s' assume "store_receipt (sled_ops A) s r = (Inr k, s')"
  then obtain b where b: "ser_receipt A r = Inr b" "sled_write A s (receipt_key (rr_id r)) b (rr_id r) = (Inr k, s')"
    by (auto simp: sled_storage_defs split: sum.splits)
  have "de_receipt A b = Inr r" using assms b(1) by (auto simp: db_laws_def)
  with sled_write_load [OF assms b(2)]
  show "load_receipt (sled_ops A) s' k = Inr r \<and>
      (\<forall>j. j \<noteq> k \<longrightarrow> load_receipt (sled_ops A) s' j = load_receipt (sled_ops A) s j) \<and>
      load_proposal (sled_ops A) s' = load_proposal (sled_ops A) s \<and> load_wasm (sled_ops A) s' = load_wasm (sled_ops A) s"
    by (simp add: sled_storage_defs fun_eq_iff)
next
  fix s p e s' assume "update_proposal (sled_ops A) s p = (Inl e, s')"
  then show "load_proposal (sled_ops A) s' = load_proposal (sled_ops A) s"
    using sled_write_failed [OF assms] by (auto simp: sled_ops_def sled_update_proposal_def split: sum.splits)
next
  fix s c b e s' assume "store_wasm (sled_ops A) s c b = (Inl e, s')"
  then show "load_proposal (sled_ops A) s' = load_proposal (sled_ops A) s"
    using sled_write_failed [OF assms] by (auto simp: sled_ops_def sled_store_wasm_def)
next
  fix s r e s' assume "store_receipt (sled_ops A) s r = (Inl e, s')"
  then show "load_proposal (sled_ops A) s' = load_proposal (sled_ops A) s"
    using sled_write_failed [OF assms] by (auto simp: sled_ops_def sled_store_receipt_def split: sum.splits)
qed

text \<open>A database that is a map, with codecs that know one proposal and one receipt.\<close>

definition demo_proposal :: GovProposal where
  "demo_proposal = \<lparr>gp_id = ''p'', gp_wasm_cid = ''w'', gp_ccl_cid = ''c'', gp_state = Approved, gp_quorum_status = MajorityReached\<rparr>"

definition demo_db :: "(string, bytes) hmap sled_db" where
  "demo_db =
     \<lparr>db_get = (\<lambda>db k. Inr (hget db k)), db_insert = (\<lambda>db k v. (Inr (), hinsert db k v)),
      ser_proposal = (\<lambda>p. if p = demo_proposal then Inr [1] else Inl ''unknown''),
      de_proposal = (\<lambda>_. Inr demo_proposal),
      ser_receipt = (\<lambda>_. Inl ''unknown''), de_receipt = (\<lambda>_. Inl ''unknown'')\<rparr>"

lemma demo_db_laws: "db_laws demo_db"
  by (simp add: db_laws_def demo_db_def hm.get_insert)

lemma sled_storage_contract_witness:
  "runtime_storage (sled_ops demo_db) \<and>
   load_proposal (sled_ops demo_db) (snd (update_proposal (sled_ops demo_db) [] demo_proposal)) ''p'' = Inr demo_proposal"
proof -
  have "update_proposal (sled_ops demo_db) [] demo_proposal = (Inr (), snd (update_proposal (sled_ops demo_db) [] demo_proposal))"
    by (simp add: sled_storage_defs demo_db_def sled_write_def)
  from runtime_storage.update_then_load [OF sled_storage_contract [OF demo_db_laws] this]
  show ?thesis using sled_storage_contract [OF demo_db_laws] by (simp add: demo_proposal_def)
qed

end
