(* ===== verification/Runtime.thy ===== *)
theory Runtime
  imports Runtime_Storage Runtime_Context Ccl_Dsl Core_VM
begin

text \<open>
  The runtime node: \<open>crates/runtime/icn-runtime/src/lib.rs\<close>, with its configuration (\<open>config.rs\<close>) and the wiring of
  \<open>main.rs\<close>.

  The storage is any \<open>storage_ops\<close> on a state \<open>'s\<close>, the reputation updater any \<open>updater\<close> on a network \<open>'n\<close>; a handler
  returns its result and the states it changed.  A reading of \<open>Utc::now()\<close> is its number of milliseconds since the epoch.  Errors are
  values of \<open>rt_error\<close>, which keeps what the callers of the code can tell apart; a panic is \<open>None\<close>.
\<close>

section \<open>Errors and data\<close>

datatype RuntimeError =
    RtExecutionError string
  | RtLoadError string
  | RtReceiptError string
  | RtInvalidProposalState string
  | RtAuthorizationFailed string
  | RtTrustBundleVerificationError TrustValidationError
  | RtNoTrustValidator
  | RtHostEnvironmentNotSet
  | RtInstantiation string
  | RtExecution string
  | RtFunctionNotFound string
  | RtDidError DidError
  | RtWasmError string

text \<open>The umbrella error of \<open>icn-types/src/error.rs\<close>; a variant that wraps the error of another crate holds its message,
  except for the economics error, which the runtime inspects.\<close>

datatype IcnError =
    IcnCrypto string
  | IcnDag string
  | IcnMulticodec string
  | IcnIdentity string
  | IcnTrust string
  | IcnMesh string
  | IcnEconomics EconomicsError
  | IcnIo string
  | IcnSerialization string
  | IcnInvalidUri string
  | IcnTimeout string
  | IcnConfig string
  | IcnStorage string
  | IcnDatabase string
  | IcnPlugin string
  | IcnConsensus string
  | IcnInvalidOperation string
  | IcnNotFound string
  | IcnPermissionDenied string
  | IcnGeneral string

datatype rt_error =
    FromRuntime RuntimeError
  | FromStorage storage_error
  | FromDid DidError
  | FromReceipt receipt_error
  | FromDag string
  | FromIcn IcnError
  | Message string

record VmContext =
  vc_executor_did :: string
  vc_scope :: "string option"
  vc_epoch :: "string option"
  vc_code_cid :: "string option"
  vc_resource_limits :: "ResourceLimits option"
  vc_coop_id :: "string option"
  vc_community_id :: "string option"

record ExecutionResult =
  er_metrics :: ExecutionMetrics
  er_anchored_cids :: "string list"
  er_resource_usage :: "(string \<times> u64) list"
  er_logs :: "string list"

record RuntimeConfig =
  cf_node_did :: string
  cf_storage_path :: string
  cf_key_path :: "string option"
  cf_reputation_service_url :: "string option"
  cf_reputation_scoring_config_path :: "string option"
  cf_mesh_job_service_url :: "string option"
  cf_metrics_port :: "u16 option"
  cf_log_level :: "string option"
  cf_mana_regeneration_policy :: "RegenerationPolicy option"
  cf_mana_tick_interval_seconds :: "u64 option"
  cf_mesh_jobs_api_url :: "string option"

definition RuntimeConfig_default :: RuntimeConfig where
  "RuntimeConfig_default =
     \<lparr>cf_node_did = [], cf_storage_path = [], cf_key_path = None, cf_reputation_service_url = None,
      cf_reputation_scoring_config_path = None, cf_mesh_job_service_url = None, cf_metrics_port = None, cf_log_level = None,
      cf_mana_regeneration_policy = None, cf_mana_tick_interval_seconds = None, cf_mesh_jobs_api_url = None\<rparr>"

definition DEFAULT_MANA_COST :: u64 where
  "DEFAULT_MANA_COST = 100"

text \<open>The trait \<open>ReputationUpdater\<close>; \<open>None\<close> is a panic of the implementation.\<close>

record 'n updater =
  up_receipt :: "'n \<Rightarrow> RuntimeExecutionReceipt \<Rightarrow> bool \<Rightarrow> string \<Rightarrow> string \<Rightarrow> ((string + unit) \<times> 'n) option"
  up_mana :: "'n \<Rightarrow> did \<Rightarrow> u64 \<Rightarrow> string \<Rightarrow> string \<Rightarrow> (string + unit) \<times> 'n"

record ('cid, 'v, 'l, 'sk, 'n) Runtime =
  rn_config :: RuntimeConfig
  rn_context :: "('cid, 'v, 'l, 'sk) RuntimeContext"
  rn_host_env :: bool
  rn_reputation_updater :: "'n updater option"

text \<open>The libraries: DID parsing, Ed25519, the encoders and the clock-independent rendering of errors.\<close>

record 'sk rt_lib =
  lib_crypto :: "('sk, bytes) crypto_env"
  lib_receipt :: receipt_env
  mesh_cbor :: "MeshExecutionReceipt \<Rightarrow> string + bytes"
  runtime_cbor :: "RuntimeExecutionReceipt \<Rightarrow> string + bytes"
  runtime_json :: "RuntimeExecutionReceipt \<Rightarrow> string + string"
  show_error :: "rt_error \<Rightarrow> string"
  show_economics :: "EconomicsError \<Rightarrow> string"

definition did_parse :: "'sk rt_lib \<Rightarrow> string \<Rightarrow> DidError + did" where
  "did_parse lib = did_from_str (mb_dec (lib_receipt lib)) (vk_of_bytes (lib_receipt lib))"

definition timestamp_secs :: "u64 \<Rightarrow> u64" where
  "timestamp_secs utc_ms = utc_ms div 1000"

section \<open>Proposals\<close>

definition quorum_reached :: "QuorumStatus \<Rightarrow> bool" where
  "quorum_reached q \<longleftrightarrow> q = MajorityReached \<or> q = ThresholdReached \<or> q = WeightedReached"

text \<open>\<open>now1\<close> and \<open>now2\<close> are the two readings of the clock.\<close>

definition proposal_receipt :: "string \<Rightarrow> did \<Rightarrow> u64 \<Rightarrow> u64 \<Rightarrow> MeshExecutionReceipt" where
  "proposal_receipt proposal_id executor now1 now2 =
     \<lparr>mr_job_id = ''proposal-'' @ proposal_id, mr_executor = executor, mr_status = MeshCompleted,
      mr_result_data_cid = Some ''bafy...fake_result_cid'', mr_logs_cid = None,
      mr_resource_usage = [(Cpu, 150), (Memory, 256)], mr_mana_cost = None,
      mr_execution_start_time = timestamp_secs now1 - 2, mr_execution_end_time = timestamp_secs now2,
      mr_execution_end_time_dt = now2, mr_signature = [], mr_coop_id = None, mr_community_id = None\<rparr>"

definition execute_proposal ::
    "'sk rt_lib \<Rightarrow> 's storage_ops \<Rightarrow> ('cid, 'v, 'l, 'sk, 'n) Runtime \<Rightarrow> u64 \<Rightarrow> u64 \<Rightarrow> string \<Rightarrow> 's
      \<Rightarrow> (rt_error + MeshExecutionReceipt) \<times> 's" where
  "execute_proposal lib S rn now1 now2 proposal_id s =
     (case load_proposal S s proposal_id of
        Inl e \<Rightarrow> (Inl (FromStorage e), s)
      | Inr proposal \<Rightarrow>
          if gp_state proposal \<noteq> Approved then
            (Inl (FromRuntime (RtInvalidProposalState ''Proposal must be in Approved state'')), s)
          else if \<not> quorum_reached (gp_quorum_status proposal) then
            (Inl (FromRuntime (RtInvalidProposalState ''Quorum must be reached'')), s)
          else case load_wasm S s (gp_wasm_cid proposal) of
            Inl e \<Rightarrow> (Inl (FromStorage e), s)
          | Inr _ \<Rightarrow>
              (case did_parse lib (unwrap (rc_executor_id (rn_context rn)) ''did:icn:system'') of
                 Inl e \<Rightarrow> (Inl (FromDid e), s)
               | Inr executor \<Rightarrow>
                   (case update_proposal S s (proposal\<lparr>gp_state := Executed\<rparr>) of
                      (Inl e, s') \<Rightarrow> (Inl (FromStorage e), s')
                    | (Inr _, s') \<Rightarrow> (Inr (proposal_receipt proposal_id executor now1 now2), s'))))"

section \<open>Running modules\<close>

text \<open>\<open>read\<close> is \<open>std::fs::read\<close>, \<open>file_name\<close> the last part of the path as text where it has one.\<close>

definition execute_wasm_file ::
    "(string \<Rightarrow> string + bytes) \<Rightarrow> (string \<Rightarrow> string option) \<Rightarrow> ('cid, 'v, 'l, 'sk, 'n) Runtime \<Rightarrow> u64 \<Rightarrow> u64 \<Rightarrow> string
      \<Rightarrow> rt_error + MeshExecutionReceipt" where
  "execute_wasm_file read file_name rn now1 now2 path =
     bind_result (map_err Message (read path)) (\<lambda>_.
     bind_result (ok_or (rc_identity (rn_context rn)) (Message ''Runtime identity not found in execute_wasm_file context'')) (\<lambda>kp.
       Inr \<lparr>mr_job_id = unwrap (file_name path) ''local-file-job'', mr_executor = kp_did kp, mr_status = MeshCompleted,
            mr_result_data_cid = Some ''bafy...local_result'', mr_logs_cid = None, mr_resource_usage = [(Cpu, 50)],
            mr_mana_cost = None, mr_execution_start_time = timestamp_secs now1 - 1,
            mr_execution_end_time = timestamp_secs now2, mr_execution_end_time_dt = now2, mr_signature = [],
            mr_coop_id = None, mr_community_id = None\<rparr>))"

text \<open>The engine's four steps are the fields of \<open>wasm_engine\<close>.\<close>

record ('m, 'i, 'f, 'val) wasm_engine =
  compile_module :: "bytes \<Rightarrow> string + 'm"
  instantiate_module :: "'m \<Rightarrow> string + 'i"
  get_func :: "'i \<Rightarrow> string \<Rightarrow> 'f option"
  call_func :: "'i \<Rightarrow> 'f \<Rightarrow> 'val list \<Rightarrow> string + 'val list"

definition load_module :: "('m, 'i, 'f, 'val) wasm_engine \<Rightarrow> bytes \<Rightarrow> RuntimeError + 'm" where
  "load_module W wasm_bytes = map_err (\<lambda>e. RtLoadError (''Failed to compile WASM: '' @ e)) (compile_module W wasm_bytes)"

definition execute_wasm ::
    "('m, 'i, 'f, 'val) wasm_engine \<Rightarrow> ('cid, 'v, 'l, 'sk, 'n) Runtime \<Rightarrow> bytes \<Rightarrow> string \<Rightarrow> 'val list \<Rightarrow> RuntimeError + 'val list" where
  "execute_wasm W rn wasm_bytes function_name args =
     (if \<not> rn_host_env rn then Inl RtHostEnvironmentNotSet
      else
        bind_result (load_module W wasm_bytes) (\<lambda>m.
        bind_result (map_err RtInstantiation (instantiate_module W m)) (\<lambda>i.
        bind_result (ok_or (get_func W i function_name) (RtFunctionNotFound function_name)) (\<lambda>f.
          map_err RtExecution (call_func W i f args)))))"

definition governance_execute_wasm :: "bytes \<Rightarrow> VmContext \<Rightarrow> RuntimeError + ExecutionResult" where
  "governance_execute_wasm wasm_bytes ctx = Inl (RtExecutionError ''governance WASM disabled in minimal build'')"

section \<open>Receipts\<close>

definition sign_runtime_receipt_in_place ::
    "'sk rt_lib \<Rightarrow> RuntimeExecutionReceipt \<Rightarrow> ('sk, bytes) KeyPair \<Rightarrow> (rt_error + unit) \<times> RuntimeExecutionReceipt" where
  "sign_runtime_receipt_in_place lib r kp =
     (case bincode (lib_receipt lib) (runtime_payload r) of
        Inl e \<Rightarrow> (Inl (Message e), r)
      | Inr payload_bytes \<Rightarrow> (Inr (), r\<lparr>rr_signature := Some (kp_sign (lib_crypto lib) kp payload_bytes)\<rparr>))"

text \<open>\<open>fresh_id\<close> is the fresh identifier, \<open>now\<close> the clock.\<close>

definition vc_metrics :: "ExecutionMetrics \<Rightarrow> RuntimeExecutionMetrics" where
  "vc_metrics m =
     \<lparr>RuntimeExecutionMetrics.host_calls = ExecutionMetrics.host_calls m,
      RuntimeExecutionMetrics.io_bytes = ExecutionMetrics.io_bytes m,
      RuntimeExecutionMetrics.mana_cost = ExecutionMetrics.mana_cost m\<rparr>"

definition issue_receipt ::
    "'sk rt_lib \<Rightarrow> ('cid, 'v, 'l, 'sk, 'n) Runtime \<Rightarrow> string \<Rightarrow> clock \<Rightarrow> string \<Rightarrow> string \<Rightarrow> ExecutionResult \<Rightarrow> VmContext
      \<Rightarrow> rt_error + RuntimeExecutionReceipt" where
  "issue_receipt lib rn fresh_id now w_cid c_cid result ctx =
     bind_result (ok_or now (FromRuntime (RtReceiptError ''second time provided was later than self''))) (\<lambda>t.
     let receipt =
       \<lparr>rr_id = fresh_id, rr_issuer = vc_executor_did ctx, rr_proposal_id = unwrap (vc_code_cid ctx) [], rr_wasm_cid = w_cid,
        rr_ccl_cid = c_cid, rr_metrics = vc_metrics (er_metrics result), rr_anchored_cids = er_anchored_cids result,
        rr_resource_usage = er_resource_usage result, rr_timestamp = t,
        rr_dag_epoch = (case vc_epoch ctx of None \<Rightarrow> None | Some s \<Rightarrow> (case parse_u64 s of Inr n \<Rightarrow> Some n | Inl _ \<Rightarrow> None)),
        rr_receipt_cid = None, rr_signature = None\<rparr>
     in bind_result (ok_or (rc_identity (rn_context rn)) (FromRuntime (RtReceiptError ''Runtime identity not available''))) (\<lambda>keypair.
        case sign_runtime_receipt_in_place lib receipt keypair of
          (Inl e, _) \<Rightarrow> Inl e
        | (Inr _, receipt') \<Rightarrow> Inr receipt'))"

text \<open>The state anchoring works on, and the metrics it records.\<close>

record ('cid, 's, 'n) anchor_state =
  as_dag :: "'cid SharedDagStore"
  as_storage :: 's
  as_net :: 'n

datatype anchor_metric =
    VerificationOutcome bool string string
  | AnchorDuration string string
  | ReceiptManaCost u64 string string

definition receipt_node :: "RuntimeExecutionReceipt \<Rightarrow> string \<Rightarrow> 'cid DagNode" where
  "receipt_node r json =
     \<lparr>content = json, parent = None, event_type = Receipt, timestamp = rr_timestamp r, scope_id = rr_issuer r\<rparr>"

text \<open>Step 8 and the deduction after it: failures are logged only.\<close>

definition report_receipt ::
    "'n updater option \<Rightarrow> string \<Rightarrow> RuntimeExecutionReceipt \<Rightarrow> 'n \<Rightarrow> 'n option" where
  "report_receipt upd label r net =
     (case upd of
        None \<Rightarrow> Some net
      | Some u \<Rightarrow> (case up_receipt u net r True label label of None \<Rightarrow> None | Some (_, net') \<Rightarrow> Some net'))"

definition deduct_mana ::
    "(string \<Rightarrow> DidError + did) \<Rightarrow> 'n updater option \<Rightarrow> string \<Rightarrow> RuntimeExecutionReceipt \<Rightarrow> 'n \<Rightarrow> 'n" where
  "deduct_mana parse upd label r net =
     (case RuntimeExecutionMetrics.mana_cost (rr_metrics r) of
        None \<Rightarrow> net
      | Some cost \<Rightarrow>
          if cost > 0 then
            (case upd of
               None \<Rightarrow> net
             | Some u \<Rightarrow> (case parse (rr_issuer r) of Inl _ \<Rightarrow> net | Inr d \<Rightarrow> snd (up_mana u net d cost label label)))
          else net)"

text \<open>\<open>receipt_cid_of\<close> is the receipt's \<open>cid\<close> method and \<open>node_cid\<close> the node's, so that what anchoring does is stated for any such methods
  and for the ones of the crates today, \<open>runtime_receipt_cid\<close> and \<open>DagNode_cid\<close>, which always fail.\<close>

definition anchor_receipt ::
    "'sk rt_lib \<Rightarrow> 's storage_ops \<Rightarrow> (RuntimeExecutionReceipt \<Rightarrow> ReceiptCidError + 'cid) \<Rightarrow> ('cid DagNode \<Rightarrow> 'cid DagError + 'cid)
      \<Rightarrow> ('cid \<Rightarrow> string) \<Rightarrow> ('cid, 'v, 'l, 'sk, 'n) Runtime \<Rightarrow> RuntimeExecutionReceipt \<Rightarrow> ('cid, 's, 'n) anchor_state
      \<Rightarrow> ((rt_error + string) \<times> ('cid, 's, 'n) anchor_state \<times> anchor_metric list) option" where
  "anchor_receipt lib S receipt_cid_of node_cid cid_str rn receipt st =
     (let label = unwrap (rc_federation_id (rn_context rn)) ''unknown_federation'' in
      case runtime_verify (lib_receipt lib) receipt of
        Inl e \<Rightarrow> Some (Inl (FromReceipt e), st, [VerificationOutcome False label (rr_issuer receipt)])
      | Inr _ \<Rightarrow>
          (let verified = [VerificationOutcome True label (rr_issuer receipt)] in
           case receipt_cid_of receipt of
             Inl _ \<Rightarrow> Some (Inl (Message ''Failed to generate CID for receipt''), st, verified)
           | Inr actual_receipt_cid \<Rightarrow>
               (let to_anchor = receipt\<lparr>rr_receipt_cid := Some (cid_str actual_receipt_cid)\<rparr> in
                case runtime_cbor lib to_anchor of
                  Inl e \<Rightarrow> Some (Inl (Message e), st, verified)
                | Inr _ \<Rightarrow>
                    (case runtime_json lib to_anchor of
                       Inl e \<Rightarrow> Some (Inl (Message e), st, verified)
                     | Inr json \<Rightarrow>
                         (case dag_insert node_cid cid_str (as_dag st) (receipt_node to_anchor json) of
                            (Inl _, dag') \<Rightarrow>
                              Some (Inl (FromDag ''Failed to insert receipt DagNode''), st\<lparr>as_dag := dag'\<rparr>, verified)
                          | (Inr _, dag') \<Rightarrow>
                              (case store_receipt S (as_storage st) to_anchor of
                                 (Inl e, s') \<Rightarrow>
                                   Some (Inl (FromStorage e), st\<lparr>as_dag := dag', as_storage := s'\<rparr>, verified)
                               | (Inr _, s') \<Rightarrow>
                                   (case report_receipt (rn_reputation_updater rn) label to_anchor (as_net st) of
                                      None \<Rightarrow> None
                                    | Some net' \<Rightarrow>
                                        Some (Inr (cid_str actual_receipt_cid),
                                          \<lparr>as_dag = dag', as_storage = s',
                                           as_net = deduct_mana (did_parse lib) (rn_reputation_updater rn) label to_anchor net'\<rparr>,
                                          verified @ [AnchorDuration label (rr_issuer receipt)] @
                                          (case RuntimeExecutionMetrics.mana_cost (rr_metrics receipt) of
                                             None \<Rightarrow> []
                                           | Some c \<Rightarrow> [ReceiptManaCost c label (rr_issuer receipt)])))))))))"

section \<open>Trust\<close>

text \<open>The validator is shared; the runtime's new state holds what it became.  \<open>None\<close> is the panic of a poisoned lock.\<close>

definition rn_set_validator :: "('cid, 'v, 'l, 'sk, 'n) Runtime \<Rightarrow> ('v, bytes) TrustValidator \<Rightarrow> ('cid, 'v, 'l, 'sk, 'n) Runtime" where
  "rn_set_validator rn v = rn\<lparr>rn_context := (rn_context rn)\<lparr>rc_trust_validator := Some v\<rparr>\<rparr>"

definition verify_trust_bundle ::
    "(bytes \<Rightarrow> bytes \<Rightarrow> bytes \<Rightarrow> bool) \<Rightarrow> ('v TrustBundle \<Rightarrow> string + bytes) \<Rightarrow> ('cid, 'v, 'l, 'sk, 'n) Runtime \<Rightarrow> 'v TrustBundle
      \<Rightarrow> (RuntimeError + unit) \<times> ('cid, 'v, 'l, 'sk, 'n) Runtime" where
  "verify_trust_bundle vs to_vec rn bundle =
     (case rc_trust_validator (rn_context rn) of
        None \<Rightarrow> (Inl RtNoTrustValidator, rn)
      | Some v \<Rightarrow> (case set_trust_bundle vs to_vec v bundle of (r, v') \<Rightarrow>
          (map_err RtTrustBundleVerificationError r, rn_set_validator rn v')))"

definition register_trusted_signer ::
    "('cid, 'v, 'l, 'sk, 'n) Runtime \<Rightarrow> did \<Rightarrow> bytes \<Rightarrow> ((RuntimeError + unit) \<times> ('cid, 'v, 'l, 'sk, 'n) Runtime) option" where
  "register_trusted_signer rn d key =
     (case rc_trust_validator (rn_context rn) of
        None \<Rightarrow> Some (Inl RtNoTrustValidator, rn)
      | Some v \<Rightarrow> map_option (\<lambda>v'. (Inr (), rn_set_validator rn v')) (register_signer v d key))"

definition rn_is_authorized_signer :: "('cid, 'v, 'l, 'sk, 'n) Runtime \<Rightarrow> did \<Rightarrow> RuntimeError + bool" where
  "rn_is_authorized_signer rn d =
     (case rc_trust_validator (rn_context rn) of
        None \<Rightarrow> Inl RtNoTrustValidator
      | Some v \<Rightarrow> map_err RtTrustBundleVerificationError (is_authorized_signer v d))"

definition host_get_trust_bundle :: "string \<Rightarrow> RuntimeError + bool" where
  "host_get_trust_bundle c = Inr True"

section \<open>Construction\<close>

text \<open>\<open>generated\<close> is the name of a freshly generated key, used when the context names no executor.\<close>

definition with_context :: "did \<Rightarrow> ('cid, 'v, 'l, 'sk) RuntimeContext \<Rightarrow> ('cid, 'v, 'l, 'sk, 'n) Runtime" where
  "with_context generated ctx =
     \<lparr>rn_config = RuntimeConfig_default
        \<lparr>cf_node_did := (case rc_executor_id ctx of Some e \<Rightarrow> e
                         | None \<Rightarrow> (case rc_identity ctx of Some kp \<Rightarrow> kp_did kp | None \<Rightarrow> generated))\<rparr>,
      rn_context = ctx, rn_host_env = False, rn_reputation_updater = None\<rparr>"

definition Runtime_new :: "(real \<Rightarrow> real) \<Rightarrow> 'l \<Rightarrow> 'l \<Rightarrow> ('sk, bytes) KeyPair \<Rightarrow> ('cid, 'v, 'l, 'sk, 'n) Runtime" where
  "Runtime_new fl default_ledger regen_led kp =
     \<lparr>rn_config = RuntimeConfig_default\<lparr>cf_node_did := kp_did kp\<rparr>,
      rn_context = ctx_build fl default_ledger
        (with_mana_regenerator \<lparr>regen_ledger = regen_led, regen_policy = FixedRatePerTick 10\<rparr>
          (with_executor_id (kp_did kp) (with_identity kp RuntimeContextBuilder_new))),
      rn_host_env = False, rn_reputation_updater = None\<rparr>"

definition with_reputation_updater :: "'n updater \<Rightarrow> ('cid, 'v, 'l, 'sk, 'n) Runtime \<Rightarrow> ('cid, 'v, 'l, 'sk, 'n) Runtime" where
  "with_reputation_updater u rn = rn\<lparr>rn_reputation_updater := Some u\<rparr>"

text \<open>The runtime that \<open>main\<close> starts; \<open>http\<close> makes the updater for a service URL.\<close>

definition main_runtime ::
    "(real \<Rightarrow> real) \<Rightarrow> 'l \<Rightarrow> 'l \<Rightarrow> (string \<Rightarrow> did \<Rightarrow> 'n updater) \<Rightarrow> RuntimeConfig \<Rightarrow> ('sk, bytes) KeyPair \<Rightarrow> did
      \<Rightarrow> ('cid, 'v, 'l, 'sk, 'n) Runtime" where
  "main_runtime fl default_ledger main_ledger http config kp generated =
     (let rn = with_context generated
        (ctx_build fl default_ledger
          (with_mana_regenerator \<lparr>regen_ledger = main_ledger,
              regen_policy = unwrap (cf_mana_regeneration_policy config) (FixedRatePerTick 10)\<rparr>
            (with_executor_id (cf_node_did config) (with_identity kp RuntimeContextBuilder_new))))
      in case cf_reputation_service_url config of
           None \<Rightarrow> rn
         | Some url \<Rightarrow> if url = [] then rn else with_reputation_updater (http url (kp_did kp)) rn)"

section \<open>Mesh jobs\<close>

definition job_mana_cost :: "MeshJobParams \<Rightarrow> u64" where
  "job_mana_cost params =
     (let calculated = (case mj_explicit_mana_cost params of
            Some c \<Rightarrow> c
          | None \<Rightarrow> if mj_resources_required params \<noteq> [] then sum_list (map snd (mj_resources_required params))
                    else DEFAULT_MANA_COST)
      in if calculated = 0 \<and> mj_resources_required params \<noteq> [] then DEFAULT_MANA_COST else calculated)"

definition execute_mesh_job :: "'sk rt_lib \<Rightarrow> MeshJob \<Rightarrow> ('sk, bytes) KeyPair \<Rightarrow> u64 \<Rightarrow> u64 \<Rightarrow> MeshExecutionReceipt" where
  "execute_mesh_job lib job kp now1 now2 =
     (let receipt =
        \<lparr>mr_job_id = mesh_job_id job, mr_executor = mesh_originator_did job, mr_status = MeshCompleted,
         mr_result_data_cid = Some (''bafyresimulatedresult'' @ mesh_job_id job), mr_logs_cid = None,
         mr_resource_usage = foldl (\<lambda>m x. hinsert m (fst x) (snd x)) [] (mj_resources_required (mesh_params job)),
         mr_mana_cost = Some (job_mana_cost (mesh_params job)), mr_execution_start_time = now1, mr_execution_end_time = now2,
         mr_execution_end_time_dt = now2, mr_signature = [], mr_coop_id = None, mr_community_id = None\<rparr>;
          bytes = (case mesh_cbor lib receipt of Inr b \<Rightarrow> b | Inl _ \<Rightarrow> [])
      in receipt\<lparr>mr_signature := kp_sign (lib_crypto lib) kp bytes\<rparr>)"

text \<open>\<open>execute_job\<close> is the stub for tests; \<open>None\<close> is its panic without an identity.\<close>

definition execute_job :: "'sk rt_lib \<Rightarrow> ('cid, 'v, 'l, 'sk, 'n) Runtime \<Rightarrow> string \<Rightarrow> u64 \<Rightarrow> u64 \<Rightarrow> MeshJobParams \<Rightarrow> MeshExecutionReceipt option" where
  "execute_job lib rn fresh_id now1 now2 params =
     map_option (\<lambda>executor.
        \<lparr>mr_job_id = fresh_id, mr_executor = executor, mr_status = MeshCompleted,
         mr_result_data_cid = Some ''bafy...placeholder_result'', mr_logs_cid = None,
         mr_resource_usage = [(Cpu, 10), (Memory, 64)], mr_mana_cost = mj_explicit_mana_cost params,
         mr_execution_start_time = timestamp_secs now1 - 1, mr_execution_end_time = timestamp_secs now2,
         mr_execution_end_time_dt = now2, mr_signature = [], mr_coop_id = None, mr_community_id = None\<rparr>)
       (case rc_identity (rn_context rn) of
          Some kp \<Rightarrow> Some (kp_did kp)
        | None \<Rightarrow> (case did_parse lib ''did:error:no_identity'' of Inr d \<Rightarrow> Some d | Inl _ \<Rightarrow> None))"

definition anchor_mesh_receipt :: "('cid, 'v, 'l, 'sk, 'n) Runtime \<Rightarrow> MeshExecutionReceipt \<Rightarrow> 'n \<Rightarrow> (rt_error + unit) \<times> 'n" where
  "anchor_mesh_receipt rn receipt net =
     (case (rn_reputation_updater rn, mr_mana_cost receipt) of
        (Some u, Some cost) \<Rightarrow>
          if cost > 0 then
            (Inr (), snd (up_mana u net (mr_executor receipt) cost (unwrap (mr_coop_id receipt) ''default_coop'')
                            (unwrap (mr_community_id receipt) ''default_community'')))
          else (Inr (), net)
      | _ \<Rightarrow> (Inr (), net))"

definition poll_for_job :: "('cid, 'v, 'l, 'sk, 'n) Runtime \<Rightarrow> MeshJob option" where
  "poll_for_job rn = (case rc_mesh_job_service_url (rn_context rn) of Some url \<Rightarrow> None | None \<Rightarrow> None)"

definition process_polled_job ::
    "'sk rt_lib \<Rightarrow> 's storage_ops \<Rightarrow> ('cid, 'v, 'l, 'sk, 'n) Runtime \<Rightarrow> u64 \<Rightarrow> u64 \<Rightarrow> MeshJob \<Rightarrow> 's \<Rightarrow> 'n
      \<Rightarrow> (rt_error + MeshExecutionReceipt) \<times> 'n" where
  "process_polled_job lib S rn now1 now2 job s net =
     (case load_wasm S s (mj_wasm_cid (mesh_params job)) of
        Inl e \<Rightarrow> (Inl (Message (''Failed to load WASM for job '' @ mesh_job_id job)), net)
      | Inr _ \<Rightarrow>
          (case rc_identity (rn_context rn) of
             None \<Rightarrow> (Inl (Message ''Runtime identity not set for job processing''), net)
           | Some kp \<Rightarrow>
               (case did_parse lib (mesh_originator_did job) of
                  Inl e \<Rightarrow> (Inl (FromDid e), net)
                | Inr _ \<Rightarrow>
                    (let receipt = execute_mesh_job lib job kp now1 now2 in
                     if mr_status receipt = MeshCompleted then
                       (case anchor_mesh_receipt rn receipt net of
                          (Inl e, net') \<Rightarrow> (Inl e, net')
                        | (Inr _, net') \<Rightarrow> (Inr receipt, net'))
                     else (Inr receipt, net)))))"

text \<open>The reason that is reported for an error.\<close>

definition failure_reason :: "'sk rt_lib \<Rightarrow> rt_error \<Rightarrow> JobFailureReason" where
  "failure_reason lib e =
     (case e of
        FromIcn ie \<Rightarrow>
          (case ie of
             IcnIo _ \<Rightarrow> NetworkError
           | IcnSerialization _ \<Rightarrow> OutputError
           | IcnInvalidUri _ \<Rightarrow> InvalidInput
           | IcnNotFound _ \<Rightarrow> NotFound
           | IcnPermissionDenied m \<Rightarrow> JobFailureReason.ExecutionError (''Permission denied: '' @ m)
           | IcnIdentity _ \<Rightarrow> PermissionDenied
           | IcnEconomics ee \<Rightarrow>
               (case ee of
                  QuotaExceeded _ _ _ _ _ \<Rightarrow> JobFailureReason.ResourceLimitExceeded
                | RateLimitExceeded _ _ _ _ _ _ \<Rightarrow> JobFailureReason.ResourceLimitExceeded
                | AccessDenied _ _ _ \<Rightarrow> PermissionDenied
                | _ \<Rightarrow> JobFailureReason.ExecutionError (''Economics error: '' @ show_economics lib ee))
           | IcnCrypto m \<Rightarrow> JobFailureReason.ExecutionError (''Crypto error: '' @ m)
           | IcnDag m \<Rightarrow> JobFailureReason.ExecutionError (''DAG error: '' @ m)
           | IcnMulticodec m \<Rightarrow> JobFailureReason.ExecutionError (''Multicodec error: '' @ m)
           | IcnTrust m \<Rightarrow> JobFailureReason.ExecutionError (''Trust error: '' @ m)
           | IcnMesh m \<Rightarrow> JobFailureReason.ExecutionError (''Mesh error: '' @ m)
           | IcnTimeout m \<Rightarrow> JobFailureReason.ExecutionError (''Timeout: '' @ m)
           | IcnConfig m \<Rightarrow> JobFailureReason.ExecutionError (''Config error: '' @ m)
           | IcnStorage m \<Rightarrow> JobFailureReason.ExecutionError (''Storage error: '' @ m)
           | IcnDatabase m \<Rightarrow> JobFailureReason.ExecutionError (''Database error: '' @ m)
           | IcnPlugin m \<Rightarrow> JobFailureReason.ExecutionError (''Plugin error: '' @ m)
           | IcnConsensus m \<Rightarrow> JobFailureReason.ExecutionError (''Consensus error: '' @ m)
           | IcnInvalidOperation m \<Rightarrow> JobFailureReason.ExecutionError (''Invalid operation: '' @ m)
           | IcnGeneral m \<Rightarrow> Unknown m)
      | _ \<Rightarrow> JobFailureReason.ExecutionError (show_error lib e))"

text \<open>A report to the mesh job service: the posting's outcome is only logged, so the network is all that changes.\<close>

definition report_failure ::
    "('n \<Rightarrow> string \<Rightarrow> did \<Rightarrow> JobFailureReason \<Rightarrow> 'n) \<Rightarrow> RuntimeConfig \<Rightarrow> string \<Rightarrow> did \<Rightarrow> JobFailureReason \<Rightarrow> 'n \<Rightarrow> 'n" where
  "report_failure post config job_id node_did reason net =
     (case cf_mesh_jobs_api_url config of
        Some base_url \<Rightarrow> post net (base_url @ ''/jobs/'' @ job_id @ ''/runtime-failure'') node_did reason
      | None \<Rightarrow> net)"

text \<open>One turn of \<open>run_forever\<close> on what was polled: \<open>Some\<close> when the loop ends with an error.\<close>

definition run_turn ::
    "'sk rt_lib \<Rightarrow> 's storage_ops \<Rightarrow> ('n \<Rightarrow> string \<Rightarrow> did \<Rightarrow> JobFailureReason \<Rightarrow> 'n) \<Rightarrow> ('cid, 'v, 'l, 'sk, 'n) Runtime \<Rightarrow> u64 \<Rightarrow> u64
      \<Rightarrow> MeshJob option \<Rightarrow> 's \<Rightarrow> 'n \<Rightarrow> rt_error option \<times> 'n" where
  "run_turn lib S post rn now1 now2 maybe_job s net =
     (case maybe_job of
        None \<Rightarrow> (None, net)
      | Some job \<Rightarrow>
          (case process_polled_job lib S rn now1 now2 job s net of
             (Inr receipt, net1) \<Rightarrow>
               if mr_status receipt = MeshFailed then
                 (case did_parse lib (cf_node_did (rn_config rn)) of
                    Inl e \<Rightarrow> (Some (Message ''Runtime configuration error: node_did is invalid''), net1)
                  | Inr node_did \<Rightarrow>
                      (None, report_failure post (rn_config rn) (mr_job_id receipt) node_did
                         (JobFailureReason.ExecutionError ''Job completed with a 'Failed' status in its execution receipt'') net1))
               else
                 (case anchor_mesh_receipt rn receipt net1 of
                    (Inl e, net2) \<Rightarrow> (Some e, net2)
                  | (Inr _, net2) \<Rightarrow> (None, net2))
           | (Inl e, net1) \<Rightarrow>
               (case did_parse lib (cf_node_did (rn_config rn)) of
                  Inl _ \<Rightarrow> (None, net1)
                | Inr node_did \<Rightarrow>
                    (None, report_failure post (rn_config rn) (mesh_job_id job) node_did (failure_reason lib e) net1))))"

text \<open>The tick of the regenerator, on the ledger \<open>led\<close> its handle stands for.\<close>

definition tick_mana ::
    "('s \<Rightarrow> did \<Rightarrow> 'e + ManaState option) \<Rightarrow> ('s \<Rightarrow> did \<Rightarrow> ManaState \<Rightarrow> ('e + unit) \<times> 's) \<Rightarrow> ('s \<Rightarrow> 'e + did list) \<Rightarrow> ('e \<Rightarrow> string)
      \<Rightarrow> ('cid, 'v, 'l, 'sk, 'n) Runtime \<Rightarrow> 's \<Rightarrow> (rt_error + unit) \<times> 's" where
  "tick_mana get upd all_dids msg rn led =
     (case rc_mana_regenerator (rn_context rn) of
        None \<Rightarrow> (Inr (), led)
      | Some regenerator \<Rightarrow>
          (case tick get upd all_dids (regen_policy regenerator) led of
             (Inr _, led', _) \<Rightarrow> (Inr (), led')
           | (Inl e, led', _) \<Rightarrow> (Inl (Message (''Mana regeneration tick failed: '' @ msg e)), led')))"

section \<open>Proposals run at most once\<close>

definition ready :: "'s storage_ops \<Rightarrow> 's \<Rightarrow> string \<Rightarrow> bool" where
  "ready S s i \<longleftrightarrow> (\<exists>p. load_proposal S s i = Inr p \<and> gp_state p = Approved \<and> quorum_reached (gp_quorum_status p))"

lemma execute_proposal_cases:
  assumes "execute_proposal lib S rn n1 n2 i s = (x, s')"
  obtains "\<exists>e. x = Inl e" and "s' = s"
  | p e where "\<exists>e. x = Inl e" and "update_proposal S s p = (Inl e, s')"
  | p b d where "load_proposal S s i = Inr p" and "gp_state p = Approved" and "quorum_reached (gp_quorum_status p)"
      and "load_wasm S s (gp_wasm_cid p) = Inr b" and "did_parse lib (unwrap (rc_executor_id (rn_context rn)) ''did:icn:system'') = Inr d"
      and "update_proposal S s (p\<lparr>gp_state := Executed\<rparr>) = (Inr (), s')" and "x = Inr (proposal_receipt i d n1 n2)"
  using assms by (auto simp: execute_proposal_def split: sum.splits if_splits prod.splits)

text \<open>The calls that reach the storage, and the identifiers of the proposals that were executed, in order.\<close>

datatype rt_call = RtExecute string u64 u64 | RtStoreWasm string bytes | RtStoreReceipt RuntimeExecutionReceipt

fun run_calls ::
    "'sk rt_lib \<Rightarrow> 's storage_ops \<Rightarrow> ('cid, 'v, 'l, 'sk, 'n) Runtime \<Rightarrow> rt_call list \<Rightarrow> 's \<Rightarrow> string list \<times> 's" where
  "run_calls lib S rn [] s = ([], s)"
| "run_calls lib S rn (RtExecute i n1 n2 # cs) s =
     (case execute_proposal lib S rn n1 n2 i s of
        (Inr _, s') \<Rightarrow> (case run_calls lib S rn cs s' of (is, s'') \<Rightarrow> (i # is, s''))
      | (Inl _, s') \<Rightarrow> run_calls lib S rn cs s')"
| "run_calls lib S rn (RtStoreWasm c b # cs) s = run_calls lib S rn cs (snd (store_wasm S s c b))"
| "run_calls lib S rn (RtStoreReceipt r # cs) s = run_calls lib S rn cs (snd (store_receipt S s r))"

context runtime_storage
begin

lemma same_proposals:
  assumes "load_proposal S s' = load_proposal S s"
  shows "keyed s' = keyed s" and "ready S s' i = ready S s i"
  using assms by (simp_all add: keyed_def ready_def)

lemma execute_failed:
  assumes "execute_proposal lib S rn n1 n2 i s = (Inl e, s')"
  shows "load_proposal S s' = load_proposal S s"
  using assms by (rule execute_proposal_cases) (auto dest: failed_writes(1))

lemma execute_succeeded:
  assumes "execute_proposal lib S rn n1 n2 i s = (Inr r, s')" and "keyed s"
  shows "keyed s'" and "ready S s i" and "\<not> ready S s' i" and "ready S s' j \<Longrightarrow> ready S s j"
proof -
  from assms(1) obtain p where p: "load_proposal S s i = Inr p" "gp_state p = Approved" "quorum_reached (gp_quorum_status p)"
    and u: "update_proposal S s (p\<lparr>gp_state := Executed\<rparr>) = (Inr (), s')"
    by (rule execute_proposal_cases) auto
  have "gp_id p = i" using assms(2) p(1) by (simp add: keyed_def)
  with update_then_load [OF u] have l: "load_proposal S s' i = Inr (p\<lparr>gp_state := Executed\<rparr>)"
    "\<And>j. j \<noteq> i \<Longrightarrow> load_proposal S s' j = load_proposal S s j" by auto
  show "keyed s'" by (rule keyed_update [OF assms(2) u])
  show "ready S s i" using p by (simp add: ready_def)
  show "\<not> ready S s' i" using l(1) by (simp add: ready_def)
  show "ready S s' j \<Longrightarrow> ready S s j" using l by (cases "j = i") (auto simp: ready_def)
qed

lemma run_calls_once:
  "keyed s \<Longrightarrow> run_calls lib S rn cs s = (is, s') \<Longrightarrow> distinct is \<and> (\<forall>i \<in> set is. ready S s i)"
proof (induction cs arbitrary: s "is" s')
  case (Cons c cs)
  show ?case
  proof (cases c)
    case (RtExecute i n1 n2)
    obtain x s1 where x: "execute_proposal lib S rn n1 n2 i s = (x, s1)" by fastforce
    show ?thesis
    proof (cases x)
      case (Inl e)
      with x have "load_proposal S s1 = load_proposal S s" by (simp add: execute_failed)
      note same = same_proposals [OF this]
      have "run_calls lib S rn cs s1 = (is, s')" using Cons.prems(2) RtExecute Inl x by simp
      with Cons.IH Cons.prems(1) show ?thesis unfolding same [symmetric] by blast
    next
      case (Inr r)
      note ex = execute_succeeded [OF x [unfolded Inr] Cons.prems(1)]
      obtain js s2 where js: "run_calls lib S rn cs s1 = (js, s2)" by fastforce
      from Cons.IH [OF ex(1) js] have "distinct js" "\<And>j. j \<in> set js \<Longrightarrow> ready S s1 j" by auto
      moreover have "is = i # js" using Cons.prems(2) RtExecute Inr x js by simp
      ultimately show ?thesis using ex(2-4) by auto
    qed
  next
    case (RtStoreWasm w b)
    with Cons.prems(2) have "run_calls lib S rn cs (snd (store_wasm S s w b)) = (is, s')" by simp
    with Cons.IH Cons.prems(1) show ?thesis
      unfolding same_proposals [OF writes_keep_proposals(1) [of s w b], symmetric] by blast
  next
    case (RtStoreReceipt r)
    with Cons.prems(2) have "run_calls lib S rn cs (snd (store_receipt S s r)) = (is, s')" by simp
    with Cons.IH Cons.prems(1) show ?thesis
      unfolding same_proposals [OF writes_keep_proposals(2) [of s r], symmetric] by blast
  qed
qed simp

end

text \<open>C24: over a storage that keeps its contract and files proposals under their identifiers, no sequence of executions and stores
  executes a proposal twice, and each one executed was approved with its quorum reached when the sequence began.\<close>

theorem proposals_execute_once:
  assumes "runtime_storage S" and "runtime_storage.keyed S s" and "run_calls lib S rn cs s = (is, s')"
  shows "distinct is \<and> (\<forall>i \<in> set is. ready S s i)"
  by (rule runtime_storage.run_calls_once [OF assms])

definition demo_rt_lib :: "bytes rt_lib" where
  "demo_rt_lib =
     \<lparr>lib_crypto = demo_sign_env, lib_receipt = demo_receipt_env, mesh_cbor = (\<lambda>_. Inr [1]), runtime_cbor = (\<lambda>_. Inr [1]),
      runtime_json = (\<lambda>_. Inr ''{}''), show_error = (\<lambda>_. ''e''), show_economics = (\<lambda>_. ''e'')\<rparr>"

definition demo_kp :: "(bytes, bytes) KeyPair" where
  "demo_kp = \<lparr>kp_did = ''did:key:z'', kp_pk = replicate 32 0, kp_sk = replicate 32 0\<rparr>"

definition demo_runtime :: "(nat, unit, nat, bytes, (did \<times> u64) list) Runtime" where
  "demo_runtime = with_reputation_updater
     \<lparr>up_receipt = (\<lambda>n r ok a b. Some (Inr (), n)), up_mana = (\<lambda>n d c a b. (Inr (), n @ [(d, c)]))\<rparr>
     (Runtime_new id 0 1 demo_kp)"

definition demo_storage :: MemStorage where
  "demo_storage = \<lparr>ms_proposals = [(''p'', demo_proposal)], ms_wasm_modules = [(''w'', [0])], ms_receipts = [], ms_anchored_cids = []\<rparr>"

lemma demo_did: "did_parse demo_rt_lib ''did:key:z'' = Inr ''did:key:z''"
  using demo_executor_key by (simp add: did_parse_def did_from_str_def demo_rt_lib_def)

lemma demo_executor: "rc_executor_id (rn_context demo_runtime) = Some ''did:key:z''" "rc_identity (rn_context demo_runtime) = Some demo_kp"
  by (simp_all add: demo_runtime_def Runtime_new_def with_reputation_updater_def ctx_build_def builder_setters
      RuntimeContextBuilder_new_def demo_kp_def)

lemma demo_executes:
  "execute_proposal demo_rt_lib mem_ops demo_runtime 5000 5000 ''p'' demo_storage =
     (Inr (proposal_receipt ''p'' ''did:key:z'' 5000 5000), snd (mem_update_proposal demo_storage (demo_proposal\<lparr>gp_state := Executed\<rparr>)))"
  by (simp add: execute_proposal_def demo_executor demo_did mem_storage_defs demo_storage_def demo_proposal_def hget_def
      quorum_reached_def unwrap_def)

theorem proposals_execute_once_witness:
  "\<exists>s'. run_calls demo_rt_lib mem_ops demo_runtime [RtExecute ''p'' 5000 5000, RtExecute ''p'' 6000 6000] demo_storage = ([''p''], s') \<and>
     distinct [''p''] \<and> ready mem_ops demo_storage ''p''"
proof -
  have k: "mem.keyed demo_storage"
    unfolding mem.keyed_def
    by (auto simp: mem_storage_defs demo_storage_def demo_proposal_def hget_def ok_or_Inr_iff split: if_splits)
  have "\<exists>s'. run_calls demo_rt_lib mem_ops demo_runtime [RtExecute ''p'' 5000 5000, RtExecute ''p'' 6000 6000] demo_storage = ([''p''], s')"
    by (simp add: demo_executes)
      (simp add: execute_proposal_def mem_storage_defs demo_storage_def demo_proposal_def hget_def hinsert_def)
  then obtain s' where r: "run_calls demo_rt_lib mem_ops demo_runtime [RtExecute ''p'' 5000 5000, RtExecute ''p'' 6000 6000] demo_storage
      = ([''p''], s')" ..
  from proposals_execute_once [OF mem.runtime_storage_axioms k r] r show ?thesis by auto
qed

section \<open>Receipts the runtime issues and anchors\<close>


text \<open>C34: with a clock, an identity and an encoder that succeeds, a receipt is issued; it says what the execution measured, and it passes
  verification whenever the executor it names is the runtime's own key.\<close>

theorem issued_receipt_verifies:
  assumes "now = Some t" and "rc_identity (rn_context rn) = Some kp" and "\<And>p. \<exists>b. bincode (lib_receipt lib) p = Inr b"
    and "to_ed25519 (mb_dec (lib_receipt lib)) (vk_of_bytes (lib_receipt lib)) (vc_executor_did ctx) = Inr (kp_pk kp)"
    and "\<And>m. length (ed_sign (lib_crypto lib) (kp_sk kp) m) = 64 \<and>
           verify_strict (lib_receipt lib) (kp_pk kp) m (ed_sign (lib_crypto lib) (kp_sk kp) m) = Inr ()"
  shows "\<exists>r. issue_receipt lib rn fresh_id now w c result ctx = Inr r \<and> runtime_verify (lib_receipt lib) r = Inr () \<and>
    rr_metrics r = vc_metrics (er_metrics result) \<and> rr_anchored_cids r = er_anchored_cids result \<and>
    rr_resource_usage r = er_resource_usage result \<and> rr_timestamp r = t \<and> rr_receipt_cid r = None"
proof -
  let ?r = "\<lparr>rr_id = fresh_id, rr_issuer = vc_executor_did ctx, rr_proposal_id = unwrap (vc_code_cid ctx) [], rr_wasm_cid = w,
        rr_ccl_cid = c, rr_metrics = vc_metrics (er_metrics result), rr_anchored_cids = er_anchored_cids result,
        rr_resource_usage = er_resource_usage result, rr_timestamp = t,
        rr_dag_epoch = (case vc_epoch ctx of None \<Rightarrow> None | Some s \<Rightarrow> (case parse_u64 s of Inr n \<Rightarrow> Some n | Inl _ \<Rightarrow> None)),
        rr_receipt_cid = None, rr_signature = None\<rparr>"
  obtain b where b: "bincode (lib_receipt lib) (runtime_payload ?r) = Inr b" using assms(3) by blast
  let ?s = "?r\<lparr>rr_signature := Some (ed_sign (lib_crypto lib) (kp_sk kp) b)\<rparr>"
  have "issue_receipt lib rn fresh_id now w c result ctx = Inr ?s"
    using b by (simp add: issue_receipt_def assms(1,2) sign_runtime_receipt_in_place_def kp_sign_def Let_def)
  moreover have "runtime_payload ?s = runtime_payload ?r" by (simp add: runtime_payload_def)
  then have "runtime_verify (lib_receipt lib) ?s = Inr ()"
    using b assms(4,5) by (simp add: runtime_verify_def verify_signature_iff)
  ultimately show ?thesis by (intro exI [of _ ?s]) simp
qed

definition demo_vm_context :: VmContext where
  "demo_vm_context = \<lparr>vc_executor_did = ''did:key:z'', vc_scope = None, vc_epoch = Some ''12'', vc_code_cid = None,
     vc_resource_limits = None, vc_coop_id = None, vc_community_id = None\<rparr>"

definition demo_result :: ExecutionResult where
  "demo_result = \<lparr>er_metrics = \<lparr>host_calls = 1, io_bytes = 2, anchored_cids_count = 0, job_submissions_count = 0, mana_cost = Some 3\<rparr>,
     er_anchored_cids = [''a''], er_resource_usage = [(''cpu'', 4)], er_logs = []\<rparr>"

theorem issued_receipt_verifies_witness:
  "\<exists>r. issue_receipt demo_rt_lib demo_runtime ''u'' (Some 7) ''w'' ''c'' demo_result demo_vm_context = Inr r \<and>
     runtime_verify (lib_receipt demo_rt_lib) r = Inr () \<and> rr_anchored_cids r = [''a''] \<and> rr_timestamp r = 7"
  using issued_receipt_verifies [OF refl demo_executor(2), where lib = demo_rt_lib and ctx = demo_vm_context and t = 7 and fresh_id = "''u''"
      and w = "''w''" and c = "''c''" and result = demo_result] demo_executor_key
  by (auto simp: demo_rt_lib_def demo_vm_context_def demo_kp_def demo_receipt_env_def demo_sign_env_def demo_result_def)

text \<open>an anchored receipt passed verification, is in the event graph under the identifier of its node, and is in the storage; it was
  given its CID, and nothing else of it was changed.\<close>

lemma anchored_receipt_recorded:
  assumes "runtime_storage S"
    and "anchor_receipt lib S receipt_cid_of node_cid cid_str rn r st = Some (Inr c, st', ms)"
  shows "\<exists>cid nid json k. runtime_verify (lib_receipt lib) r = Inr () \<and> receipt_cid_of r = Inr cid \<and> c = cid_str cid \<and>
    runtime_json lib (r\<lparr>rr_receipt_cid := Some c\<rparr>) = Inr json \<and>
    node_cid (receipt_node r json) = Inr nid \<and>
    dag_get (as_dag st') (cid_str nid) = Inr (Some (receipt_node r json)) \<and>
    load_receipt S (as_storage st') k = Inr (r\<lparr>rr_receipt_cid := Some c\<rparr>)"
proof -
  have node: "receipt_node (r\<lparr>rr_receipt_cid := x\<rparr>) j = receipt_node r j" for x j by (simp add: receipt_node_def)
  from assms(2) obtain cid json k s1 where v: "runtime_verify (lib_receipt lib) r = Inr ()" and cid: "receipt_cid_of r = Inr cid" "c = cid_str cid"
    and json: "runtime_json lib (r\<lparr>rr_receipt_cid := Some c\<rparr>) = Inr json"
    and dag: "dag_insert node_cid cid_str (as_dag st) (receipt_node r json) = (Inr (), as_dag st')"
    and st: "store_receipt S (as_storage st) (r\<lparr>rr_receipt_cid := Some c\<rparr>) = (Inr k, as_storage st')"
    by (auto simp: anchor_receipt_def Let_def node split: sum.splits prod.splits option.splits)
  from dag obtain nid where "node_cid (receipt_node r json) = Inr nid"
    and "dag_get (as_dag st') (cid_str nid) = Inr (Some (receipt_node r json))"
    by (auto simp: dag_insert_def dag_get_def hm.get_insert hget_def split: sum.splits) (metis hget_def hm.get_insert)
  with v cid json runtime_storage.receipt_then_load [OF assms(1) st] show ?thesis by blast
qed

definition demo_signed_receipt :: RuntimeExecutionReceipt where
  "demo_signed_receipt =
     \<lparr>rr_id = ''u'', rr_issuer = ''did:key:z'', rr_proposal_id = [], rr_wasm_cid = ''w'', rr_ccl_cid = ''c'',
      rr_metrics = vc_metrics (er_metrics demo_result), rr_anchored_cids = [], rr_resource_usage = [], rr_timestamp = 7,
      rr_dag_epoch = None, rr_receipt_cid = None, rr_signature = Some (replicate 64 1)\<rparr>"

lemma anchored_receipt_recorded_witness:
  "\<exists>st' ms. anchor_receipt demo_rt_lib mem_ops (\<lambda>_. Inr 1) (\<lambda>_. Inr 2) (\<lambda>n. if n = 1 then ''r'' else ''n'') demo_runtime demo_signed_receipt
      \<lparr>as_dag = [], as_storage = demo_storage, as_net = []\<rparr> = Some (Inr ''r'', st', ms) \<and> as_net st' = [(''did:key:z'', 3)] \<and>
     (\<exists>k. load_receipt mem_ops (as_storage st') k = Inr (demo_signed_receipt\<lparr>rr_receipt_cid := Some ''r''\<rparr>))"
proof -
  let ?st = "\<lparr>as_dag = [], as_storage = demo_storage, as_net = []\<rparr> :: (nat, MemStorage, (did \<times> u64) list) anchor_state"
  have v: "runtime_verify demo_receipt_env demo_signed_receipt = Inr ()"
    using demo_executor_key
    by (simp add: runtime_verify_def verify_signature_iff demo_signed_receipt_def demo_receipt_env_def sum_list_replicate)
  have l: "lib_receipt demo_rt_lib = demo_receipt_env" "runtime_cbor demo_rt_lib r = Inr [1]" "runtime_json demo_rt_lib r = Inr ''{}''" for r
    by (simp_all add: demo_rt_lib_def)
  have u: "rn_reputation_updater demo_runtime =
     Some \<lparr>up_receipt = (\<lambda>n r ok a b. Some (Inr (), n)), up_mana = (\<lambda>n d c a b. (Inr (), n @ [(d, c)]))\<rparr>"
    by (simp add: demo_runtime_def with_reputation_updater_def)
  obtain st' ms where a: "anchor_receipt demo_rt_lib mem_ops (\<lambda>_. Inr 1) (\<lambda>_. Inr 2) (\<lambda>n. if n = 1 then ''r'' else ''n'') demo_runtime
      demo_signed_receipt ?st = Some (Inr ''r'', st', ms)" and n: "as_net st' = [(''did:key:z'', 3)]"
    using v by (auto simp: anchor_receipt_def l u report_receipt_def deduct_mana_def dag_insert_def mem_ops_def mem_store_receipt_def Let_def
        demo_did demo_signed_receipt_def demo_result_def vc_metrics_def)
  from anchored_receipt_recorded [OF mem.runtime_storage_axioms a] a n show ?thesis by blast
qed

text \<open>with the CID methods the crates have today no receipt is ever anchored: verification aside, every call fails at the CID of the receipt,
  and if that were repaired, at the CID of the node, and changes nothing.\<close>

lemma anchoring_always_fails:
  "(\<exists>e ms. anchor_receipt lib S runtime_receipt_cid node_cid cid_str rn r st = Some (Inl e, st, ms)) \<and>
   (\<exists>e ms. anchor_receipt lib S receipt_cid_of DagNode_cid cid_str rn r st = Some (Inl e, st, ms))"
  by (auto simp: anchor_receipt_def runtime_receipt_cid_def DagNode_cid_def dag_insert_def Let_def
      split: sum.splits prod.splits option.splits)

section \<open>Mesh jobs\<close>

text \<open>A job is free only if it says so and asks for no resources; a stated cost of zero is overridden when it does.\<close>

lemma job_mana_cost_zero:
  "job_mana_cost params = 0 \<longleftrightarrow> mj_explicit_mana_cost params = Some 0 \<and> mj_resources_required params = []"
proof -
  have "DEFAULT_MANA_COST \<noteq> 0" by (simp add: DEFAULT_MANA_COST_def)
  then show ?thesis
    by (cases "mj_explicit_mana_cost params"; cases "mj_resources_required params = []")
      (simp_all add: job_mana_cost_def Let_def)
qed

text \<open>What one report of a job's cost does to the network.\<close>

definition charge :: "'n updater \<Rightarrow> MeshJob \<Rightarrow> 'n \<Rightarrow> 'n" where
  "charge u job net =
     snd (up_mana u net (mesh_originator_did job) (job_mana_cost (mesh_params job)) ''default_coop'' ''default_community'')"

lemma anchor_executed_job:
  assumes "rn_reputation_updater rn = Some u" and "job_mana_cost (mesh_params job) \<noteq> 0"
  shows "anchor_mesh_receipt rn (execute_mesh_job lib job kp n1 n2) net = (Inr (), charge u job net)"
proof -
  let ?r = "execute_mesh_job lib job kp n1 n2"
  have "mr_mana_cost ?r = Some (job_mana_cost (mesh_params job))" "mr_executor ?r = mesh_originator_did job"
    "mr_coop_id ?r = None" "mr_community_id ?r = None" by (simp_all add: execute_mesh_job_def Let_def)
  moreover have "0 < job_mana_cost (mesh_params job)" using assms(2) by (simp add: word_gt_0)
  ultimately show ?thesis using assms(1) by (simp add: anchor_mesh_receipt_def charge_def unwrap_def)
qed

text \<open>every polled job that is executed and costs something is charged twice, once when it is processed and once by the loop, and both
  times to its originator, whom the receipt names as its executor.\<close>

lemma polled_job_charged_twice:
  assumes "rn_reputation_updater rn = Some u" and "load_wasm S s (mj_wasm_cid (mesh_params job)) = Inr b"
    and "rc_identity (rn_context rn) = Some kp" and "did_parse lib (mesh_originator_did job) = Inr d"
    and "mj_explicit_mana_cost (mesh_params job) \<noteq> Some 0"
  shows "run_turn lib S post rn n1 n2 (Some job) s net = (None, charge u job (charge u job net))"
proof -
  have c: "job_mana_cost (mesh_params job) \<noteq> 0" using assms(5) by (simp add: job_mana_cost_zero)
  have m: "mr_status (execute_mesh_job lib job kp n1 n2) = MeshCompleted" by (simp add: execute_mesh_job_def Let_def)
  note a = anchor_executed_job [OF assms(1) c]
  have "process_polled_job lib S rn n1 n2 job s net = (Inr (execute_mesh_job lib job kp n1 n2), charge u job net)"
    by (simp add: process_polled_job_def assms(2-4) m a Let_def)
  then show ?thesis by (simp add: run_turn_def m a)
qed

definition demo_job :: MeshJob where
  "demo_job = \<lparr>mesh_job_id = ''j'', mesh_params = MeshJobParams_default\<lparr>mj_wasm_cid := ''w'', mj_resources_required := [(Cpu, 4), (Memory, 5)]\<rparr>,
     mesh_originator_did = ''did:key:z'', mesh_originator_org_scope = None, mesh_submission_timestamp = 0\<rparr>"

lemma polled_job_charged_twice_witness:
  "run_turn demo_rt_lib mem_ops (\<lambda>n _ _ _. n) demo_runtime 1 2 (Some demo_job) demo_storage [] =
     (None, [(''did:key:z'', 9), (''did:key:z'', 9)])"
proof -
  let ?u = "\<lparr>up_receipt = (\<lambda>n r ok a b. Some (Inr (), n)), up_mana = (\<lambda>n d c a b. (Inr (), n @ [(d, c)]))\<rparr> :: (did \<times> u64) list updater"
  have u: "rn_reputation_updater demo_runtime = Some ?u"
    by (simp add: demo_runtime_def with_reputation_updater_def)
  have w: "load_wasm mem_ops demo_storage (mj_wasm_cid (mesh_params demo_job)) = Inr [0]"
    by (simp add: mem_storage_defs demo_storage_def demo_job_def hget_def)
  have c: "job_mana_cost (mesh_params demo_job) = 9"
    by (simp add: job_mana_cost_def demo_job_def MeshJobParams_default_def)
  show ?thesis
    using polled_job_charged_twice [OF u w demo_executor(2), of demo_rt_lib "''did:key:z''"] demo_did
    by (simp add: charge_def c) (simp add: demo_job_def MeshJobParams_default_def)
qed

section \<open>The node as it is wired\<close>

text \<open>Every constructor leaves the host environment unset and nothing sets it, so no module is ever run through \<open>execute_wasm\<close>.\<close>

lemma no_host_environment:
  "execute_wasm W (Runtime_new fl l l' kp) wasm f args = Inl RtHostEnvironmentNotSet"
  "execute_wasm W (main_runtime fl l l' http config kp generated) wasm f args = Inl RtHostEnvironmentNotSet"
  by (simp_all add: execute_wasm_def Runtime_new_def main_runtime_def with_context_def with_reputation_updater_def Let_def
      split: option.split)

text \<open>The regenerator of a started node refills a ledger that no repository of the context reads, the node reports no failures, and
  polling never finds a job.\<close>

lemma main_runtime_wiring:
  fixes fl l l' http config kp generated
  defines "rn \<equiv> main_runtime fl l l' http config kp generated"
  shows "map_option regen_ledger (rc_mana_regenerator (rn_context rn)) = Some l'"
    and "adapter_ledger (rc_mana_repository (rn_context rn)) = l"
    and "report_failure post (rn_config rn) j d reason net = net"
    and "poll_for_job rn = None"
  by (simp_all add: rn_def main_runtime_def with_context_def with_reputation_updater_def Let_def ctx_build_def builder_setters
      RuntimeContextBuilder_new_def unwrap_def report_failure_def RuntimeConfig_default_def poll_for_job_def split: option.split)

text \<open>A proposal cannot be executed by a runtime without an executor: the fallback name does not parse.\<close>

lemma no_executor_no_execution:
  assumes "rc_executor_id (rn_context rn) = None"
  shows "\<exists>e. fst (execute_proposal lib S rn n1 n2 i s) = Inl e"
  using did_icn_unsupported [of "mb_dec (lib_receipt lib)" "vk_of_bytes (lib_receipt lib)" "''system''"]
  by (auto simp: execute_proposal_def assms unwrap_def did_parse_def split: sum.split)

end
