(* ===== verification/Job_Context.thy ===== *)
theory Job_Context
  imports Mesh_Types Ccl_Codegen Did_Key
begin

text \<open>
  The state of one executing job, \<open>crates/runtime/icn-runtime/src/job_execution_context.rs\<close>, with the error and level types of the host
  interface (\<open>crates/runtime/host-abi/src/error.rs\<close>, \<open>lib.rs\<close>).  Methods return their result with the new context; what they print
  is left out.

  \<open>ctx_op\<close> is the method the host runs for an opcode of the contract compiler; with it the section discipline of the context is compared
  with what the compiler generates.
\<close>

section \<open>The host interface\<close>

datatype HostAbiError =
    HostUnknownError string
  | MemoryAccessError string
  | BufferTooSmall string
  | InvalidArguments string
  | HostNotFound string
  | HostTimeout string
  | NotPermitted
  | NotSupported
  | HostResourceLimitExceeded string
  | DataEncodingError string
  | InvalidState string
  | HostNetworkError string
  | HostStorageError string
  | HostSerializationError string
  | InvalidDIDFormat string
  | InvalidCIDFormat string
  | QueueFull string
  | ChannelClosed string
  | InsufficientBalance
  | InvalidDid string
  | InvalidParameter string
  | ResourceManagementError string

datatype ReceivedInputType = InlineData | CidInput

record ReceivedInputInfo =
  rii_input_type :: ReceivedInputType
  rii_data_len :: u32

datatype LogLevel = LogError | LogWarn | LogInfo | LogDebug | LogTrace

fun log_level_value :: "LogLevel \<Rightarrow> u32" where
  "log_level_value LogError = 0"
| "log_level_value LogWarn = 1"
| "log_level_value LogInfo = 2"
| "log_level_value LogDebug = 3"
| "log_level_value LogTrace = 4"

section \<open>The context\<close>

record JobPermissions =
  can_read_all_cids :: bool
  allowed_cid_prefixes :: "string list option"
  can_write_data :: bool
  can_send_interactive_output :: bool
  max_log_level_allowed :: LogLevel

definition JobPermissions_default :: JobPermissions where
  "JobPermissions_default =
     \<lparr>can_read_all_cids = False, allowed_cid_prefixes = None, can_write_data = False, can_send_interactive_output = False,
      max_log_level_allowed = LogInfo\<rparr>"

record SectionContext =
  sc_kind :: string
  sc_title :: "string option"
  sc_properties :: "(string, string) hmap"

record JobExecutionContext =
  jc_job_id :: string
  jc_originator_did :: did
  jc_job_params :: MeshJobParams
  jc_current_status :: P2PJobStatus
  jc_current_stage_index :: "u32 option"
  jc_current_stage_id :: "string option"
  jc_interactive_input_queue :: "JobInteractiveInputV1 list"
  jc_interactive_output_sequence_num :: u64
  jc_mana_consumed :: "128 word"
  jc_cpu_time_us_consumed :: u64
  jc_memory_mb_peak_usage :: u32
  jc_permissions :: JobPermissions
  jc_execution_start_time_ms :: u64
  jc_section_stack :: "SectionContext list"

definition job_permissions :: "MeshJobParams \<Rightarrow> JobPermissions" where
  "job_permissions params =
     (if mj_is_interactive params then
        JobPermissions_default\<lparr>can_send_interactive_output := True, max_log_level_allowed := LogDebug\<rparr>
      else JobPermissions_default)"

definition JobExecutionContext_new :: "string \<Rightarrow> did \<Rightarrow> MeshJobParams \<Rightarrow> did \<Rightarrow> u64 \<Rightarrow> JobExecutionContext" where
  "JobExecutionContext_new job_id originator params host now_ms =
     \<lparr>jc_job_id = job_id, jc_originator_did = originator, jc_job_params = params,
      jc_current_status = P2PRunning host
        (if mj_workflow_type params \<noteq> SingleWasmModule then Some 0 else None)
        (case mj_stages params of Some (sd # _) \<Rightarrow> Some (stage_id sd) | _ \<Rightarrow> None)
        (Some 0) (Some ''Job initializing''),
      jc_current_stage_index = None, jc_current_stage_id = None, jc_interactive_input_queue = [],
      jc_interactive_output_sequence_num = 0, jc_mana_consumed = 0, jc_cpu_time_us_consumed = 0, jc_memory_mb_peak_usage = 0,
      jc_permissions = job_permissions params, jc_execution_start_time_ms = now_ms, jc_section_stack = []\<rparr>"

text \<open>The context for tests; \<open>None\<close> is the panic when its two fixed names do not parse.\<close>

definition JobExecutionContext_default :: "(string \<Rightarrow> DidError + did) \<Rightarrow> JobExecutionContext option" where
  "JobExecutionContext_default parse =
     (case (parse ''did:icn:test_originator'', parse ''did:icn:test_host'') of
        (Inr d, Inr h) \<Rightarrow>
          Some \<lparr>jc_job_id = ''test_job_id'', jc_originator_did = d, jc_job_params = MeshJobParams_default,
            jc_current_status = P2PRunning h None None (Some 0) (Some ''Default JEC initialized''),
            jc_current_stage_index = None, jc_current_stage_id = None, jc_interactive_input_queue = [],
            jc_interactive_output_sequence_num = 0, jc_mana_consumed = 0, jc_cpu_time_us_consumed = 0, jc_memory_mb_peak_usage = 0,
            jc_permissions = JobPermissions_default, jc_execution_start_time_ms = 0, jc_section_stack = []\<rparr>
      | _ \<Rightarrow> None)"

type_synonym 'a ctx_result = "(HostAbiError + 'a) \<times> JobExecutionContext"

definition ctx_update_status :: "P2PJobStatus \<Rightarrow> JobExecutionContext \<Rightarrow> JobExecutionContext" where
  "ctx_update_status s c = c\<lparr>jc_current_status := s\<rparr>"

text \<open>The stack is kept with its top first.\<close>

definition ctx_begin_section :: "string \<Rightarrow> string option \<Rightarrow> JobExecutionContext \<Rightarrow> unit ctx_result" where
  "ctx_begin_section kind title c =
     (if jc_section_stack c = [] then
        (Inr (), c\<lparr>jc_section_stack := \<lparr>sc_kind = kind, sc_title = title, sc_properties = []\<rparr> # jc_section_stack c\<rparr>)
      else (Inl (InvalidState ''Cannot begin a new section while another is active (nested sections not supported).''), c))"

definition ctx_end_section :: "JobExecutionContext \<Rightarrow> unit ctx_result" where
  "ctx_end_section c = (Inr (), c\<lparr>jc_section_stack := tl (jc_section_stack c)\<rparr>)"

definition ctx_set_property :: "string \<Rightarrow> string \<Rightarrow> JobExecutionContext \<Rightarrow> unit ctx_result" where
  "ctx_set_property key value_json c =
     (case jc_section_stack c of
        cur # rest \<Rightarrow>
          (Inr (), c\<lparr>jc_section_stack := cur\<lparr>sc_properties := hinsert (sc_properties cur) key value_json\<rparr> # rest\<rparr>)
      | [] \<Rightarrow> (Inl (InvalidState ''No active section to set property on.''), c))"

definition ctx_anchor_data :: "string \<Rightarrow> string \<Rightarrow> JobExecutionContext \<Rightarrow> unit ctx_result" where
  "ctx_anchor_data path data_ref c = (Inr (), c)"

definition ctx_generic_call :: "string \<Rightarrow> string \<Rightarrow> JobExecutionContext \<Rightarrow> unit ctx_result" where
  "ctx_generic_call fn_name args_payload c = (Inr (), c)"

definition ctx_create_proposal :: "string \<Rightarrow> string \<Rightarrow> string \<Rightarrow> JobExecutionContext \<Rightarrow> unit ctx_result" where
  "ctx_create_proposal i title version c =
     (if jc_section_stack c = [] then (Inr (), c)
      else (Inl (InvalidState ''Proposal creation requires an active section.''), c))"

definition ctx_mint_token :: "string \<Rightarrow> u64 \<Rightarrow> string option \<Rightarrow> string option \<Rightarrow> JobExecutionContext \<Rightarrow> unit ctx_result" where
  "ctx_mint_token res_type amt rcpt data_json c =
     (if jc_section_stack c = [] then (Inr (), c)
      else (Inl (InvalidState ''Mint token operation is not valid in the current context.''), c))"

definition ctx_if_condition_eval :: "string \<Rightarrow> JobExecutionContext \<Rightarrow> unit ctx_result" where
  "ctx_if_condition_eval cond c = (Inr (), c)"

definition ctx_else_handler :: "JobExecutionContext \<Rightarrow> unit ctx_result" where
  "ctx_else_handler c = (Inr (), c)"

definition ctx_endif_handler :: "JobExecutionContext \<Rightarrow> unit ctx_result" where
  "ctx_endif_handler c = (Inr (), c)"

definition ctx_on_event :: "string \<Rightarrow> JobExecutionContext \<Rightarrow> unit ctx_result" where
  "ctx_on_event event_name c = (Inr (), c)"

definition ctx_range_check :: "f64 \<Rightarrow> f64 \<Rightarrow> JobExecutionContext \<Rightarrow> unit ctx_result" where
  "ctx_range_check start_val end_val c = (Inr (), c)"

definition ctx_use_resource :: "string \<Rightarrow> u64 \<Rightarrow> JobExecutionContext \<Rightarrow> unit ctx_result" where
  "ctx_use_resource res_type amt c = (Inr (), c)"

definition ctx_transfer_token :: "string \<Rightarrow> u64 \<Rightarrow> string option \<Rightarrow> string \<Rightarrow> JobExecutionContext \<Rightarrow> unit ctx_result" where
  "ctx_transfer_token token_type amt src dst c = (Inr (), c)"

definition ctx_submit_mesh_job ::
    "bytes \<Rightarrow> (string \<Rightarrow> HostAbiError + i32) \<Rightarrow> JobExecutionContext \<Rightarrow> i32 ctx_result" where
  "ctx_submit_mesh_job cbor_payload write_back_fn c = (write_back_fn ''dummy_mesh_job_123'', c)"

lemmas ctx_defs = ctx_begin_section_def ctx_end_section_def ctx_set_property_def ctx_anchor_data_def ctx_generic_call_def
  ctx_create_proposal_def ctx_mint_token_def ctx_if_condition_eval_def ctx_else_handler_def ctx_endif_handler_def ctx_on_event_def
  ctx_range_check_def ctx_use_resource_def ctx_transfer_token_def

section \<open>Running a compiled program\<close>

text \<open>The method behind the host function each opcode calls.  The title of a proposal stands where the host expects an
  identifier; a job submission writes its identifier to the guest's buffer.\<close>

fun ctx_op :: "Opcode \<Rightarrow> JobExecutionContext \<Rightarrow> unit ctx_result" where
  "ctx_op (BeginSection kind title) c = ctx_begin_section kind title c"
| "ctx_op EndSection c = ctx_end_section c"
| "ctx_op (SetProperty k v) c = ctx_set_property k v c"
| "ctx_op (AnchorData path d) c = ctx_anchor_data (unwrap_or path []) d c"
| "ctx_op (CallHost f args) c = ctx_generic_call f args c"
| "ctx_op (CreateProposal title version) c = ctx_create_proposal title title (unwrap_or version ''0.0.0'') c"
| "ctx_op (MintToken t n r d) c = ctx_mint_token t n r d c"
| "ctx_op (If cond) c = ctx_if_condition_eval cond c"
| "ctx_op Else c = ctx_else_handler c"
| "ctx_op EndIf c = ctx_endif_handler c"
| "ctx_op (OnEvent e) c = ctx_on_event e c"
| "ctx_op (RangeCheck a b) c = ctx_range_check a b c"
| "ctx_op (UseResource t n) c = ctx_use_resource t n c"
| "ctx_op (TransferToken t n a b) c = ctx_transfer_token t n a b c"
| "ctx_op (SubmitJob q) c = (Inr (), c)"
| "ctx_op (Todo msg) c = (Inr (), c)"

fun ctx_run :: "Opcode list \<Rightarrow> JobExecutionContext \<Rightarrow> unit ctx_result" where
  "ctx_run [] c = (Inr (), c)"
| "ctx_run (x # ops) c = (case ctx_op x c of (Inl e, c') \<Rightarrow> (Inl e, c') | (Inr _, c') \<Rightarrow> ctx_run ops c')"

lemma ctx_run_append:
  "ctx_run (xs @ ys) c = (case ctx_run xs c of (Inl e, c') \<Rightarrow> (Inl e, c') | (Inr _, c') \<Rightarrow> ctx_run ys c')"
  by (induction xs arbitrary: c) (auto split: prod.split sum.split)

text \<open>What the context accepts, read off the opcodes alone: with no section open, sections open, and proposals and mints are
  accepted; with one open, properties and the end.\<close>

fun disciplined :: "bool \<Rightarrow> Opcode list \<Rightarrow> bool" where
  "disciplined open_sec [] = True"
| "disciplined open_sec (BeginSection k t # ops) \<longleftrightarrow> \<not> open_sec \<and> disciplined True ops"
| "disciplined open_sec (EndSection # ops) \<longleftrightarrow> disciplined False ops"
| "disciplined open_sec (SetProperty k v # ops) \<longleftrightarrow> open_sec \<and> disciplined open_sec ops"
| "disciplined open_sec (CreateProposal t v # ops) \<longleftrightarrow> \<not> open_sec \<and> disciplined open_sec ops"
| "disciplined open_sec (MintToken t n r d # ops) \<longleftrightarrow> \<not> open_sec \<and> disciplined open_sec ops"
| "disciplined open_sec (x # ops) \<longleftrightarrow> disciplined open_sec ops"

lemma ctx_run_disciplined:
  "length (jc_section_stack c) \<le> 1 \<Longrightarrow>
   is_ok (fst (ctx_run ops c)) \<longleftrightarrow> disciplined (jc_section_stack c \<noteq> []) ops"
proof (induction ops arbitrary: c)
  case (Cons x ops)
  have l: "tl (jc_section_stack c) = []" using Cons.prems by (cases "jc_section_stack c") simp_all
  show ?case using Cons l by (cases x) (auto simp: ctx_defs split: list.splits)
qed simp

text \<open>A program whose sections are balanced leaves as many sections open as it found.\<close>

lemma ctx_run_nesting:
  assumes "nesting ops fs = Some fs'" and "length (jc_section_stack c) = length (filter (\<lambda>f. f = InSection) fs)"
    and "ctx_run ops c = (Inr (), c')"
  shows "length (jc_section_stack c') = length (filter (\<lambda>f. f = InSection) fs')"
  using assms
proof (induction ops arbitrary: fs c)
  case (Cons x ops)
  from Cons.prems(1) obtain gs where gs: "nest1 x fs = Some gs" "nesting ops gs = Some fs'"
    by (auto split: option.splits)
  from Cons.prems(3) obtain d where d: "ctx_op x c = (Inr (), d)" "ctx_run ops d = (Inr (), c')"
    by (auto split: prod.splits sum.splits)
  have "length (jc_section_stack d) = length (filter (\<lambda>f. f = InSection) gs)"
    using gs(1) d(1) Cons.prems(2)
    by (cases "(x, fs)" rule: nest1.cases) (auto simp: ctx_defs split: if_splits list.splits)
  with Cons.IH gs(2) d(2) show ?case by blast
qed simp

lemma generated_closes:
  assumes "jc_section_stack c = []" and "ctx_run (generate G ms) c = (Inr (), c')"
  shows "jc_section_stack c' = []"
proof -
  have "nesting (generate G ms) [] = Some []" unfolding generate_def by (rule nesting_concat) (rule nesting_walk_module)
  from ctx_run_nesting [OF this _ assms(2)] assms(1) show ?thesis by simp
qed

lemma ctx_run_module_fails:
  assumes "jc_section_stack c = []" and "\<And>c'. jc_section_stack c' = [] \<Longrightarrow> \<not> is_ok (fst (ctx_run (walk_module G m) c'))"
  shows "\<not> is_ok (fst (ctx_run (generate G (pre @ m # post)) c))"
proof -
  have g: "generate G (pre @ m # post) = generate G pre @ walk_module G m @ generate G post" by (simp add: generate_def)
  obtain r c1 where r: "ctx_run (generate G pre) c = (r, c1)" by fastforce
  show ?thesis
  proof (cases r)
    case (Inl e)
    then show ?thesis by (simp add: g ctx_run_append r)
  next
    case (Inr u)
    then have "jc_section_stack c1 = []" using generated_closes [OF assms(1)] r by simp
    from assms(2) [OF this] show ?thesis
      by (auto simp: g ctx_run_append r Inr split: prod.splits sum.splits)
  qed
qed

text \<open>a program runs on a new context exactly when no section opens inside another, properties are set only inside and
  proposals and mints only outside a section.  Hence a contract with a proposal that has a plain rule never runs, although its compilation
  succeeds, nor does one with a section that begins with a range.\<close>

lemma host_run_discipline:
  "(is_ok (fst (ctx_run ops (JobExecutionContext_new i d params h t))) \<longleftrightarrow> disciplined False ops) \<and>
   \<not> is_ok (fst (ctx_run (generate G (pre @ ProposalModule (p\<lparr>prop_rules := DslRule k (RvString v) # rs\<rparr>) # post))
       (JobExecutionContext_new i d params h t))) \<and>
   \<not> is_ok (fst (ctx_run (generate G (pre @ SectionModule (q\<lparr>sec_rules := DslRule k (RvRange r) # rs\<rparr>) # post))
       (JobExecutionContext_new i d params h t)))"
proof (intro conjI)
  have n: "jc_section_stack (JobExecutionContext_new i d params h t) = []" by (simp add: JobExecutionContext_new_def)
  then show "is_ok (fst (ctx_run ops (JobExecutionContext_new i d params h t))) \<longleftrightarrow> disciplined False ops"
    by (simp add: ctx_run_disciplined)
  show "\<not> is_ok (fst (ctx_run (generate G (pre @ ProposalModule (p\<lparr>prop_rules := DslRule k (RvString v) # rs\<rparr>) # post))
       (JobExecutionContext_new i d params h t)))"
    by (rule ctx_run_module_fails [OF n]) (simp add: ctx_defs)
  show "\<not> is_ok (fst (ctx_run (generate G (pre @ SectionModule (q\<lparr>sec_rules := DslRule k (RvRange r) # rs\<rparr>) # post))
       (JobExecutionContext_new i d params h t)))"
    by (rule ctx_run_module_fails [OF n], cases r) (simp add: ctx_defs)
qed

text \<open>The fixed names of the context for tests have the method \<open>icn\<close>, which never parses.\<close>

lemma default_context_panics: "JobExecutionContext_default (did_from_str mb vk) = None"
  using did_icn_unsupported [of mb vk "''test_originator''"] by (simp add: JobExecutionContext_default_def)

end
