(* ===== verification/Host_Env.thy ===== *)
theory Host_Env
  imports Job_Context Resource_Policy Identity_Index Wasm_Emit
begin

text \<open>
  The host environment of guest modules, \<open>crates/runtime/icn-runtime/src/host_environment.rs\<close>, and the table of functions a module can
  import, \<open>wasm/linker_legacy_impl.rs\<close> and \<open>wasm/linker.rs\<close>.

  The guest's linear memory is a byte list, \<open>None\<close> when the module exports none.  A host function returns its result and the
  state: the job's context, the memory and the mana ledger.  The operations of the ledger, DID parsing and the \<open>Debug\<close> text of a
  scope are the fields of \<open>host_lib\<close>.
\<close>

section \<open>The environment\<close>

record ConcreteHostEnvironment =
  he_caller_did :: did
  he_is_governance :: bool
  he_coop_id :: "CooperativeId option"
  he_community_id :: "CommunityId option"
  he_identity_index :: "IdentityIndex option"
  he_federation_id :: "string option"

record ('s, 'e) host_lib =
  hl_get :: "'s \<Rightarrow> did \<Rightarrow> 'e + ManaState option"
  hl_upd :: "'s \<Rightarrow> did \<Rightarrow> ManaState \<Rightarrow> ('e + unit) \<times> 's"
  hl_parse :: "string \<Rightarrow> DidError + did"
  hl_scope_debug :: "ScopeKey \<Rightarrow> string"
  hl_msg :: "'e AdapterError \<Rightarrow> string"

record 's host_state =
  hs_ctx :: JobExecutionContext
  hs_memory :: "bytes option"
  hs_ledger :: 's

definition host_env_new :: "did \<Rightarrow> IdentityIndex option \<Rightarrow> string option \<Rightarrow> ConcreteHostEnvironment" where
  "host_env_new caller index fed =
     \<lparr>he_caller_did = caller, he_is_governance = False, he_coop_id = None, he_community_id = None, he_identity_index = index,
      he_federation_id = fed\<rparr>"

definition host_env_new_governance :: "did \<Rightarrow> IdentityIndex option \<Rightarrow> string option \<Rightarrow> ConcreteHostEnvironment" where
  "host_env_new_governance caller index fed = (host_env_new caller index fed)\<lparr>he_is_governance := True\<rparr>"

text \<open>The constructor for tests parses a fixed caller name; \<open>None\<close> is its panic.\<close>

definition host_env_new_with_context :: "(string \<Rightarrow> DidError + did) \<Rightarrow> IdentityIndex option \<Rightarrow> string option \<Rightarrow> ConcreteHostEnvironment option" where
  "host_env_new_with_context parse index fed =
     (case parse ''did:icn:test_caller'' of Inl _ \<Rightarrow> None | Inr d \<Rightarrow> Some (host_env_new d index fed))"

definition he_with_organization :: "CooperativeId option \<Rightarrow> CommunityId option \<Rightarrow> ConcreteHostEnvironment \<Rightarrow> ConcreteHostEnvironment" where
  "he_with_organization coop comm env = env\<lparr>he_coop_id := coop, he_community_id := comm\<rparr>"

definition scope_key :: "ConcreteHostEnvironment \<Rightarrow> ScopeKey" where
  "scope_key env =
     (case he_coop_id env of
        Some coop \<Rightarrow> Cooperative coop
      | None \<Rightarrow>
          (case he_community_id env of
             Some comm \<Rightarrow> Community comm
           | None \<Rightarrow>
               (case he_identity_index env of
                  Some index \<Rightarrow> resolve_scope_key index (he_caller_did env)
                | None \<Rightarrow>
                    (case he_federation_id env of
                       Some fid \<Rightarrow> Federation fid
                     | None \<Rightarrow> Individual (he_caller_did env)))))"

definition check_resource_authorization :: "ResourceType \<Rightarrow> u64 \<Rightarrow> HostAbiError + i32" where
  "check_resource_authorization rt amt = Inl NotSupported"

definition record_resource_usage :: "ResourceType \<Rightarrow> u64 \<Rightarrow> HostAbiError + i32" where
  "record_resource_usage rt amt = Inl NotSupported"

definition is_governance_context :: "ConcreteHostEnvironment \<Rightarrow> i32" where
  "is_governance_context env = (if he_is_governance env then 1 else 0)"

definition env_mint_token :: "string \<Rightarrow> u64 \<Rightarrow> HostAbiError + i32" where
  "env_mint_token recipient_did_str amt = Inl NotSupported"

definition env_transfer_token :: "string \<Rightarrow> string \<Rightarrow> u64 \<Rightarrow> HostAbiError + i32" where
  "env_transfer_token sender_did_str recipient_did_str amt = Inl NotSupported"

definition env_anchor_receipt :: "unit \<Rightarrow> HostAbiError + unit" where
  "env_anchor_receipt receipt = Inr ()"

section \<open>Guest memory\<close>

definition env_get_memory :: "'s host_state \<Rightarrow> HostAbiError + bytes" where
  "env_get_memory h = ok_or (hs_memory h) (MemoryAccessError ''Memory export not found'')"

definition read_bytes_from_mem_ctx :: "bytes \<Rightarrow> u32 \<Rightarrow> u32 \<Rightarrow> HostAbiError + bytes" where
  "read_bytes_from_mem_ctx mem ptr len =
     (if unat ptr + unat len \<le> length mem then Inr (take (unat len) (drop (unat ptr) mem))
      else Inl (MemoryAccessError ''Memory read failed''))"

definition read_string_from_mem_ctx :: "bytes \<Rightarrow> u32 \<Rightarrow> u32 \<Rightarrow> HostAbiError + string" where
  "read_string_from_mem_ctx mem ptr len =
     bind_result (read_bytes_from_mem_ctx mem ptr len) (\<lambda>buffer.
       ok_or (from_utf8 buffer) (DataEncodingError ''UTF-8 conversion failed''))"

definition write_bytes_to_mem_ctx :: "bytes \<Rightarrow> bytes \<Rightarrow> u32 \<Rightarrow> u32 \<Rightarrow> HostAbiError + i32 \<times> bytes" where
  "write_bytes_to_mem_ctx mem bs ptr len =
     (if length bs > unat len then Inl (BufferTooSmall ''Bytes too large for buffer'')
      else if unat ptr + length bs \<le> length mem then
        Inr (word_of_nat (length bs), take (unat ptr) mem @ bs @ drop (unat ptr + length bs) mem)
      else Inl (MemoryAccessError ''Memory write failed''))"

definition write_string_to_mem_ctx :: "bytes \<Rightarrow> string \<Rightarrow> u32 \<Rightarrow> u32 \<Rightarrow> HostAbiError + i32 \<times> bytes" where
  "write_string_to_mem_ctx mem s ptr len =
     (if length (str_bytes s) > unat len then Inl (BufferTooSmall ''String too large for buffer'')
      else if unat ptr + length (str_bytes s) \<le> length mem then
        Inr (word_of_nat (length (str_bytes s)), take (unat ptr) mem @ str_bytes s @ drop (unat ptr + length (str_bytes s)) mem)
      else Inl (MemoryAccessError ''Memory write failed''))"

text \<open>A string argument of a host function is a pointer and a length; an optional one is absent when its length is zero.\<close>

type_synonym slice = "u32 \<times> u32"

definition str_arg :: "bytes \<Rightarrow> slice \<Rightarrow> HostAbiError + string" where
  "str_arg mem p = read_string_from_mem_ctx mem (fst p) (snd p)"

definition opt_arg :: "bytes \<Rightarrow> slice \<Rightarrow> HostAbiError + string option" where
  "opt_arg mem p = (if snd p > 0 then bind_result (str_arg mem p) (\<lambda>s. Inr (Some s)) else Inr None)"

text \<open>Run a method of the context on arguments read before.\<close>

definition with_ctx :: "HostAbiError + 'a \<Rightarrow> ('a \<Rightarrow> JobExecutionContext \<Rightarrow> unit ctx_result) \<Rightarrow> 's host_state \<Rightarrow> (HostAbiError + i32) \<times> 's host_state" where
  "with_ctx args f h =
     (case args of
        Inl e \<Rightarrow> (Inl e, h)
      | Inr a \<Rightarrow> (case f a (hs_ctx h) of (Inl e, c) \<Rightarrow> (Inl e, h\<lparr>hs_ctx := c\<rparr>) | (Inr _, c) \<Rightarrow> (Inr 0, h\<lparr>hs_ctx := c\<rparr>)))"

section \<open>The host functions\<close>

definition host_begin_section :: "slice \<Rightarrow> slice \<Rightarrow> 's host_state \<Rightarrow> (HostAbiError + i32) \<times> 's host_state" where
  "host_begin_section kind title h =
     with_ctx (bind_result (env_get_memory h) (\<lambda>m. bind_result (str_arg m kind) (\<lambda>k. bind_result (opt_arg m title) (\<lambda>t. Inr (k, t)))))
       (\<lambda>(k, t). ctx_begin_section k t) h"

definition host_end_section :: "'s host_state \<Rightarrow> (HostAbiError + i32) \<times> 's host_state" where
  "host_end_section h = with_ctx (Inr ()) (\<lambda>_. ctx_end_section) h"

definition host_set_property :: "slice \<Rightarrow> slice \<Rightarrow> 's host_state \<Rightarrow> (HostAbiError + i32) \<times> 's host_state" where
  "host_set_property key value_json h =
     with_ctx (bind_result (env_get_memory h) (\<lambda>m. bind_result (str_arg m key) (\<lambda>k. bind_result (str_arg m value_json) (\<lambda>v. Inr (k, v)))))
       (\<lambda>(k, v). ctx_set_property k v) h"

definition host_anchor_data :: "slice \<Rightarrow> slice \<Rightarrow> 's host_state \<Rightarrow> (HostAbiError + i32) \<times> 's host_state" where
  "host_anchor_data path data_ref h =
     with_ctx (bind_result (env_get_memory h) (\<lambda>m. bind_result (str_arg m path) (\<lambda>p. bind_result (str_arg m data_ref) (\<lambda>d. Inr (p, d)))))
       (\<lambda>(p, d). ctx_anchor_data p d) h"

definition host_generic_call :: "slice \<Rightarrow> slice \<Rightarrow> 's host_state \<Rightarrow> (HostAbiError + i32) \<times> 's host_state" where
  "host_generic_call fn_name args_payload h =
     with_ctx (bind_result (env_get_memory h) (\<lambda>m. bind_result (str_arg m fn_name) (\<lambda>f. bind_result (str_arg m args_payload) (\<lambda>a. Inr (f, a)))))
       (\<lambda>(f, a). ctx_generic_call f a) h"

definition host_create_proposal :: "slice \<Rightarrow> slice \<Rightarrow> slice \<Rightarrow> 's host_state \<Rightarrow> (HostAbiError + i32) \<times> 's host_state" where
  "host_create_proposal i title version h =
     with_ctx (bind_result (env_get_memory h) (\<lambda>m. bind_result (str_arg m i) (\<lambda>i. bind_result (str_arg m title) (\<lambda>t.
                 bind_result (str_arg m version) (\<lambda>v. Inr (i, t, v))))))
       (\<lambda>(i, t, v). ctx_create_proposal i t v) h"

definition host_mint_token :: "('s, 'e) host_lib \<Rightarrow> slice \<Rightarrow> u64 \<Rightarrow> slice \<Rightarrow> slice \<Rightarrow> 's host_state \<Rightarrow> (HostAbiError + i32) \<times> 's host_state" where
  "host_mint_token lib res_type amt recipient_did data_json h =
     with_ctx (bind_result (env_get_memory h) (\<lambda>m. bind_result (str_arg m res_type) (\<lambda>t. bind_result (str_arg m recipient_did) (\<lambda>r.
                 bind_result (opt_arg m data_json) (\<lambda>d.
                 bind_result (map_err (\<lambda>_. InvalidDid ''Invalid recipient DID'') (hl_parse lib r)) (\<lambda>rd. Inr (t, rd, d)))))))
       (\<lambda>(t, rd, d). ctx_mint_token t amt (Some rd) d) h"

definition host_if_condition_eval :: "slice \<Rightarrow> 's host_state \<Rightarrow> (HostAbiError + i32) \<times> 's host_state" where
  "host_if_condition_eval cond h =
     with_ctx (bind_result (env_get_memory h) (\<lambda>m. str_arg m cond)) ctx_if_condition_eval h"

definition host_else_handler :: "'s host_state \<Rightarrow> (HostAbiError + i32) \<times> 's host_state" where
  "host_else_handler h = with_ctx (Inr ()) (\<lambda>_. ctx_else_handler) h"

definition host_endif_handler :: "'s host_state \<Rightarrow> (HostAbiError + i32) \<times> 's host_state" where
  "host_endif_handler h = with_ctx (Inr ()) (\<lambda>_. ctx_endif_handler) h"

definition host_log_todo :: "slice \<Rightarrow> 's host_state \<Rightarrow> (HostAbiError + i32) \<times> 's host_state" where
  "host_log_todo msg h = with_ctx (bind_result (env_get_memory h) (\<lambda>m. str_arg m msg)) (\<lambda>_ c. (Inr (), c)) h"

definition host_on_event :: "slice \<Rightarrow> 's host_state \<Rightarrow> (HostAbiError + i32) \<times> 's host_state" where
  "host_on_event event h = with_ctx (bind_result (env_get_memory h) (\<lambda>m. str_arg m event)) ctx_on_event h"

definition host_log_debug_deprecated :: "slice \<Rightarrow> 's host_state \<Rightarrow> (HostAbiError + i32) \<times> 's host_state" where
  "host_log_debug_deprecated msg h = with_ctx (bind_result (env_get_memory h) (\<lambda>m. str_arg m msg)) (\<lambda>_ c. (Inr (), c)) h"

definition host_range_check :: "64 word \<Rightarrow> 64 word \<Rightarrow> 64 word \<Rightarrow> 's host_state \<Rightarrow> (HostAbiError + i32) \<times> 's host_state" where
  "host_range_check v min_val max_val h =
     (if min_val \<le>s v \<and> v \<le>s max_val then (Inr 0, h) else (Inl (InvalidParameter ''Range check failed''), h))"

definition host_use_resource ::
    "('s, 'e) host_lib \<Rightarrow> ConcreteHostEnvironment \<Rightarrow> slice \<Rightarrow> u64 \<Rightarrow> 's host_state \<Rightarrow> (HostAbiError + i32) \<times> 's host_state" where
  "host_use_resource lib env res_type amt h =
     (case bind_result (env_get_memory h) (\<lambda>m. str_arg m res_type) of
        Inl e \<Rightarrow> (Inl e, h)
      | Inr rt \<Rightarrow>
          if rt = ''mana'' then
            (let token = \<lparr>resource_type = ''mana'', amount = amt, scope = hl_scope_debug lib (scope_key env), expires_at = None,
                          issuer = Some (he_caller_did env)\<rparr>
             in case adapter_record_usage (hl_get lib) (hl_upd lib) (hs_ledger h) (he_caller_did env) token of
                  (Inl e, s') \<Rightarrow> (Inl (ResourceManagementError (hl_msg lib e)), h\<lparr>hs_ledger := s'\<rparr>)
                | (Inr _, s') \<Rightarrow> (Inr 0, h\<lparr>hs_ledger := s'\<rparr>))
          else (Inl (InvalidParameter (''Unsupported resource type string for host_use_resource: '' @ rt)), h))"

definition host_transfer_token ::
    "('s, 'e) host_lib \<Rightarrow> slice \<Rightarrow> u64 \<Rightarrow> slice \<Rightarrow> slice \<Rightarrow> 's host_state \<Rightarrow> (HostAbiError + i32) \<times> 's host_state" where
  "host_transfer_token lib token_type amt sender_did recipient_did h =
     with_ctx (bind_result (env_get_memory h) (\<lambda>m. bind_result (str_arg m token_type) (\<lambda>t. bind_result (str_arg m sender_did) (\<lambda>s.
                 bind_result (str_arg m recipient_did) (\<lambda>r.
                 bind_result (map_err (\<lambda>_. InvalidDid ''Invalid sender DID'') (hl_parse lib s)) (\<lambda>sd.
                 bind_result (map_err (\<lambda>_. InvalidDid ''Invalid recipient DID'') (hl_parse lib r)) (\<lambda>rd. Inr (t, sd, rd))))))))
       (\<lambda>(t, sd, rd). ctx_transfer_token t amt (Some sd) rd) h"

definition env_submit_mesh_job :: "slice \<Rightarrow> slice \<Rightarrow> 's host_state \<Rightarrow> (HostAbiError + i32) \<times> 's host_state" where
  "env_submit_mesh_job cbor_payload job_id_buffer h =
     (case env_get_memory h of
        Inl e \<Rightarrow> (Inl e, h)
      | Inr m \<Rightarrow>
          (case read_bytes_from_mem_ctx m (fst cbor_payload) (snd cbor_payload) of
             Inl e \<Rightarrow> (Inl e, h)
           | Inr payload \<Rightarrow>
               (let write = (\<lambda>s. write_string_to_mem_ctx m s (fst job_id_buffer) (snd job_id_buffer)) in
                case ctx_submit_mesh_job payload (\<lambda>s. bind_result (write s) (\<lambda>(n, _). Inr n)) (hs_ctx h) of
                  (Inl e, c) \<Rightarrow> (Inl e, h\<lparr>hs_ctx := c\<rparr>)
                | (Inr n, c) \<Rightarrow>
                    (case write ''dummy_mesh_job_123'' of
                       Inr (_, m') \<Rightarrow> (Inr n, h\<lparr>hs_ctx := c, hs_memory := Some m'\<rparr>)
                     | Inl _ \<Rightarrow> (Inr n, h\<lparr>hs_ctx := c\<rparr>)))))"

section \<open>The linker\<close>

text \<open>What is registered under a name: a function of the environment, one that was withdrawn, or one that is still to be
  written; the last two trap on every call.\<close>

datatype linked = AnchorReceiptFn | Withdrawn string | Unwritten string | NewAbi string

definition full_host_functions :: "((string \<times> string) \<times> linked) list" where
  "full_host_functions =
     [((''icn_host'', ''anchor_receipt''), AnchorReceiptFn),
      ((''icn_host'', ''account_get_mana''), Withdrawn ''host_account_get_mana''),
      ((''icn_host'', ''account_spend_mana''), Withdrawn ''host_account_spend_mana'')] @
     map (\<lambda>n. ((''icn_host'', n), Unwritten n))
       [''get_job_id'', ''host_job_get_initial_input_cid'', ''host_job_is_interactive'', ''host_workflow_get_current_stage_index'',
        ''host_workflow_get_current_stage_id'', ''host_workflow_get_current_stage_input_cid'', ''host_job_report_progress'',
        ''host_workflow_complete_current_stage'', ''interactive_send'', ''interactive_recv'', ''host_interactive_peek_input_len'',
        ''host_interactive_prompt_for_input'', ''read_data'', ''anchor_data'', ''log_message'', ''host_submit_mesh_job_old''] @
     map (\<lambda>n. ((''icn_host_new'', n), NewAbi n))
       [''host_begin_section'', ''host_end_section'', ''host_set_property'', ''host_anchor_data'', ''host_generic_call'',
        ''host_create_proposal'', ''host_mint_token'', ''host_if_condition_eval'', ''host_else_handler'', ''host_endif_handler'',
        ''host_log_todo'', ''host_on_event'', ''host_log_debug_deprecated'', ''host_range_check'', ''host_use_resource'',
        ''host_transfer_token'', ''host_submit_mesh_job'']"

text \<open>Without the feature \<open>full_host_abi\<close> nothing is registered.\<close>

definition register_host_functions :: "bool \<Rightarrow> ((string \<times> string) \<times> linked) list" where
  "register_host_functions full_host_abi = (if full_host_abi then full_host_functions else [])"

text \<open>\<open>anchor_receipt\<close> of the table decodes the unit value from CBOR and drops it.\<close>

definition host_anchor_receipt :: "(bytes \<Rightarrow> string + unit) \<Rightarrow> u32 \<Rightarrow> u32 \<Rightarrow> 's host_state \<Rightarrow> string + unit" where
  "host_anchor_receipt from_cbor ptr len h =
     bind_result (map_err (\<lambda>_. ''get_memory failed for anchor_receipt'') (env_get_memory h)) (\<lambda>m.
     bind_result (map_err (\<lambda>_. ''memory read failed'') (read_bytes_from_mem_ctx m ptr len)) (\<lambda>buf.
     bind_result (map_err (\<lambda>e. ''CBOR decode failed: '' @ e) (from_cbor buf)) (\<lambda>r.
       map_err (\<lambda>_. ''host error'') (env_anchor_receipt r))))"

definition stub_trap :: "linked \<Rightarrow> string option" where
  "stub_trap l =
     (case l of
        Withdrawn n \<Rightarrow> Some (''Deprecated: '' @ n @ '' is no longer supported.'')
      | Unwritten n \<Rightarrow> Some (''Host function '' @ n @ '' not yet implemented'')
      | _ \<Rightarrow> None)"

fun module_imports :: "module_section list \<Rightarrow> (string \<times> string) list" where
  "module_imports [] = []"
| "module_imports (ImportSection is # ss) = map (\<lambda>(m, n, _). (m, n)) is @ module_imports ss"
| "module_imports (_ # ss) = module_imports ss"

section \<open>Properties\<close>

text \<open>of the seventeen functions every compiled contract imports, the linker of a full build offers exactly one, \<open>anchor_data\<close>, and that
  one traps on every call; a build without the feature offers none.  The functions contracts need are registered under another module name
  and other names.\<close>

lemma compiled_imports_unlinked:
  "{i \<in> set (module_imports (program_to_wasm X ops)). map_of (register_host_functions True) i \<noteq> None} = {(''icn_host'', ''anchor_data'')} \<and>
   length (module_imports (program_to_wasm X ops)) = 17 \<and>
   (\<exists>l t. map_of (register_host_functions True) (''icn_host'', ''anchor_data'') = Some l \<and> stub_trap l = Some t) \<and>
   {i \<in> set (module_imports (program_to_wasm X ops)). map_of (register_host_functions False) i \<noteq> None} = {}"
proof -
  have i: "module_imports (program_to_wasm X ops) = map (\<lambda>(n, _). (''icn_host'', n)) host_fns"
    by (simp add: program_to_wasm_def Let_def split_def)
  have f: "filter (\<lambda>i. map_of (register_host_functions True) i \<noteq> None) (map (\<lambda>(n, _). (''icn_host'', n)) host_fns) =
      [(''icn_host'', ''anchor_data'')]" by code_simp
  have l: "map_of (register_host_functions True) (''icn_host'', ''anchor_data'') = Some (Unwritten ''anchor_data'')" by code_simp
  have "{i \<in> set (module_imports (program_to_wasm X ops)). map_of (register_host_functions True) i \<noteq> None} =
      set (filter (\<lambda>i. map_of (register_host_functions True) i \<noteq> None) (map (\<lambda>(n, _). (''icn_host'', n)) host_fns))"
    unfolding i set_filter ..
  with i f l show ?thesis by (simp add: host_fns_def stub_trap_def register_host_functions_def)
qed

text \<open>Resources a compiled contract uses are named after the kinds of resources, and the host knows only mana: every such use is refused
  and charges nothing.\<close>

lemma generated_resources: "UseResource t n \<in> set (generate G ms) \<Longrightarrow> \<exists>r. t = resource_name r"
proof -
  have rules: "UseResource t n \<notin> set (walk_rules G rs)" "UseResource t n \<notin> set (walk_rule G r)" "UseResource t n \<notin> set (walk_if_expr G e)"
    for rs r e
    by (induction G rs and G r and G e rule: walk_rules_walk_rule_walk_if_expr.induct) (auto simp: walk_function_call_def split: option.splits)
  have step: "UseResource t n \<in> set (walk_step G s) \<Longrightarrow> \<exists>r. t = resource_name r" for s by (cases s) auto
  show "UseResource t n \<in> set (generate G ms) \<Longrightarrow> \<exists>r. t = resource_name r"
    unfolding generate_def
  proof (induction ms)
    case (Cons m ms)
    then show ?case by (cases m) (auto simp: rules dest: step split: option.splits)
  qed simp
qed

lemma resource_name_not_mana: "resource_name r \<noteq> ''mana''"
  by (cases r) simp_all

text \<open>C26: the host debits the caller exactly by the amount when a guest uses mana it has, and nobody else; it refuses any other resource and any
  amount beyond the balance, without changing the ledger; so every resource use a contract compiles to is refused.\<close>

theorem use_resource_spec:
  assumes "hs_memory h = Some m" and "str_arg m p = Inr rt"
    and "hl_get lib = mem_get_mana_state" and "hl_upd lib = mem_update_mana_state"
  shows "(host_use_resource lib env p amt h = (Inr 0, h') \<longleftrightarrow>
      rt = ''mana'' \<and>
      (\<exists>st. (hget (hs_ledger h) (he_caller_did env) = Some st \<or>
              hget (hs_ledger h) (he_caller_did env) = None \<and>
                st = \<lparr>current_mana = 0, max_mana = 0, regen_rate_per_epoch = 0, last_updated_epoch = 0\<rparr>) \<and>
            amt \<le> current_mana st \<and>
            h' = h\<lparr>hs_ledger := hinsert (hs_ledger h) (he_caller_did env) (st\<lparr>current_mana := current_mana st - amt\<rparr>)\<rparr>)) \<and>
    (\<forall>e h''. host_use_resource lib env p amt h = (Inl e, h'') \<longrightarrow> h'' = h) \<and>
    (UseResource rt n \<in> set (generate G ms) \<longrightarrow>
      host_use_resource lib env p amt h = (Inl (InvalidParameter (''Unsupported resource type string for host_use_resource: '' @ rt)), h))"
proof -
  have a: "env_get_memory h = Inr m" using assms(1) by (simp add: env_get_memory_def)
  have g: "rt \<noteq> ''mana''" if "UseResource rt n \<in> set (generate G ms)"
    using generated_resources [OF that] resource_name_not_mana by auto
  show ?thesis
    using g
    by (auto simp: host_use_resource_def a assms(2-4) Let_def adapter_record_usage_def mem_get_mana_state_def mem_update_mana_state_def
        not_less split: option.splits)
qed

definition demo_host_lib :: "(InMemoryManaLedger, string) host_lib" where
  "demo_host_lib = \<lparr>hl_get = mem_get_mana_state, hl_upd = mem_update_mana_state, hl_parse = Inr, hl_scope_debug = (\<lambda>_. ''s''), hl_msg = (\<lambda>_. ''e'')\<rparr>"

definition demo_host_state :: "InMemoryManaLedger host_state" where
  "demo_host_state =
     \<lparr>hs_ctx = JobExecutionContext_new ''j'' ''d'' MeshJobParams_default ''h'' 0, hs_memory = Some (str_bytes ''mana''),
      hs_ledger = [(''d'', \<lparr>current_mana = 9, max_mana = 10, regen_rate_per_epoch = 0, last_updated_epoch = 0\<rparr>)]\<rparr>"

theorem use_resource_spec_witness:
  "host_use_resource demo_host_lib (host_env_new ''d'' None None) (0, 4) 7 demo_host_state =
     (Inr 0, demo_host_state\<lparr>hs_ledger := [(''d'', \<lparr>current_mana = 2, max_mana = 10, regen_rate_per_epoch = 0, last_updated_epoch = 0\<rparr>)]\<rparr>)"
proof -
  have m: "hs_memory demo_host_state = Some (str_bytes ''mana'')" by (simp add: demo_host_state_def)
  have r: "str_arg (str_bytes ''mana'') (0, 4) = Inr ''mana''" by code_simp
  have l: "hl_get demo_host_lib = mem_get_mana_state" "hl_upd demo_host_lib = mem_update_mana_state" by (simp_all add: demo_host_lib_def)
  show ?thesis
    using use_resource_spec [OF m r l, of "host_env_new ''d'' None None" 7
        "demo_host_state\<lparr>hs_ledger := [(''d'', \<lparr>current_mana = 2, max_mana = 10, regen_rate_per_epoch = 0, last_updated_epoch = 0\<rparr>)]\<rparr>"]
    by (simp add: demo_host_state_def host_env_new_def hget_def hinsert_def)
qed

text \<open>A write changes the buffer only, keeps the size of the memory, and is read back.\<close>

lemma write_then_read:
  assumes "write_bytes_to_mem_ctx m bs ptr len = Inr (n, m')" and "length bs < 2 ^ 31"
  shows "length m' = length m" and "read_bytes_from_mem_ctx m' ptr n = Inr bs"
    and "i < unat ptr \<or> unat ptr + length bs \<le> i \<Longrightarrow> i < length m \<Longrightarrow> m' ! i = m ! i"
proof -
  from assms(1) have w: "unat ptr + length bs \<le> length m" "n = word_of_nat (length bs)"
    "m' = take (unat ptr) m @ bs @ drop (unat ptr + length bs) m"
    by (auto simp: write_bytes_to_mem_ctx_def split: if_splits)
  have "unat n = length bs" using assms(2) w(2) by (simp add: unat_of_nat_len)
  with w show "length m' = length m" "read_bytes_from_mem_ctx m' ptr n = Inr bs"
    by (auto simp: read_bytes_from_mem_ctx_def)
  show "i < unat ptr \<or> unat ptr + length bs \<le> i \<Longrightarrow> i < length m \<Longrightarrow> m' ! i = m ! i"
    using w by (auto simp: nth_append)
qed

text \<open>The scope an account is drawn from: an explicit organisation comes before the index, the index before the federation.\<close>

lemma scope_key_order:
  "scope_key (he_with_organization (Some c) m env) = Cooperative c"
  "scope_key (he_with_organization None (Some k) env) = Community k"
  "he_identity_index env = Some ix \<Longrightarrow> scope_of ix (he_caller_did env) (scope_key (he_with_organization None None env))"
  by (simp_all add: scope_key_def he_with_organization_def scope_of_resolve)

lemma test_environment_panics: "host_env_new_with_context (did_from_str mb vk) ix fed = None"
  using did_icn_unsupported [of mb vk "''test_caller''"] by (simp add: host_env_new_with_context_def)

end
