(* ===== verification/Reputation_Client.thy ===== *)
theory Reputation_Client
  imports Runtime_Reputation
begin

text \<open>
  The reputation client of the mesh job service: \<open>crates/services/icn-mesh-jobs/src/reputation_client.rs\<close> and the
  caching client of \<open>reputation_cache.rs\<close>.

  The reputation service is a parameter: a record of two requests on an abstract network state with the JSON
  parser of a profile.  Both caching clients keep, for a DID, the profile the wrapped client returned and the
  instant at which that answer arrived.  The instant of a fetch that misses is the one at which its answer arrives, the
  only one the source stores; the wrapped client is a function of it.  An entry that has expired when a fetch looks has
  also expired then, so that the two readings of the clock agree on a miss; the time the answer takes is not part of
  the bound.  Instants are milliseconds of a monotone clock.  Doubles are reals rounded by \<open>fl\<close>, as in \<open>Reputation\<close>.
\<close>

section \<open>The service\<close>

datatype ReputationClientError =
    Network string
  | Http nat string
  | Deserialization string
  | ClientBuild string

record 'cid EventRecord =
  er_timestamp :: u64
  er_issuer :: did
  er_subject :: did
  er_event :: "'cid ReputationUpdateEvent"
  er_anchor :: "'cid option"
  er_signature :: "bytes option"

record ('n, 'cid) rep_service =
  svc_get :: "'n \<Rightarrow> string \<Rightarrow> http_reply \<times> 'n"
  svc_post :: "'n \<Rightarrow> string \<Rightarrow> 'cid EventRecord \<Rightarrow> http_reply \<times> 'n"
  svc_profile :: "string \<Rightarrow> string + 'cid ReputationProfile"
  svc_status :: "nat \<Rightarrow> string"

definition get_reputation_score ::
    "('n, 'cid) rep_service \<Rightarrow> 'n \<Rightarrow> did \<Rightarrow> string \<Rightarrow> (ReputationClientError + real option) \<times> 'n" where
  "get_reputation_score sv n nd base_url =
     (case svc_get sv n (trim_end_matches CHR ''/'' base_url @ ''/reputation/profiles/'' @ nd) of
        (ClientFailure e, n') \<Rightarrow> (Inl (Network e), n')
      | (Reply status body, n') \<Rightarrow>
          (if is_success status then
             (case svc_profile sv body of
                Inr p \<Rightarrow> (Inr (Some (computed_score p)), n')
              | Inl e \<Rightarrow> (Inl (Deserialization (''Failed to parse ReputationProfile: '' @ e @ '', body: '' @ body)), n'))
           else if status = 404 then (Inr None, n')
           else (Inl (Http status (''Reputation service query failed for node '' @ nd @ '': '' @ body)), n')))"

definition submit_reputation_record ::
    "('n, 'cid) rep_service \<Rightarrow> 'n \<Rightarrow> 'cid EventRecord \<Rightarrow> string \<Rightarrow> (ReputationClientError + unit) \<times> 'n" where
  "submit_reputation_record sv n r base_url =
     (case svc_post sv n (trim_end_matches CHR ''/'' base_url @ ''/reputation/records'') r of
        (ClientFailure e, n') \<Rightarrow> (Inl (Network e), n')
      | (Reply status body, n') \<Rightarrow>
          (if is_success status \<or> status = 201 then (Inr (), n')
           else (Inl (Http status
             (''Failed to submit reputation record for subject '' @ er_subject r @ '': '' @ body)), n')))"

definition get_reputation_profile ::
    "('n, 'cid) rep_service \<Rightarrow> 'n \<Rightarrow> did \<Rightarrow> string \<Rightarrow> (ReputationClientError + 'cid ReputationProfile option) \<times> 'n" where
  "get_reputation_profile sv n nd url =
     (case svc_get sv n (trim_end_matches CHR ''/'' url @ ''/profiles/'' @ nd @ ''/history/latest'') of
        (ClientFailure e, n') \<Rightarrow> (Inl (Network e), n')
      | (Reply status body, n') \<Rightarrow>
          (if is_success status then
             (case svc_profile sv body of
                Inr p \<Rightarrow> (Inr (Some p), n')
              | Inl e \<Rightarrow> (Inl (Deserialization (''Failed to parse reputation profile: '' @ e)), n'))
           else if status = 404 then (Inr None, n')
           else (Inl (Http status (''Failed to fetch reputation profile: HTTP status '' @ svc_status sv status)), n')))"

text \<open>\<open>DefaultReputationClient\<close>: a profile that does not parse is a network error here.\<close>

definition default_fetch_profile ::
    "('n, 'cid) rep_service \<Rightarrow> string \<Rightarrow> 'n \<Rightarrow> did \<Rightarrow> (ReputationClientError + 'cid ReputationProfile option) \<times> 'n" where
  "default_fetch_profile sv base_url n nd =
     (case svc_get sv n (trim_end_matches CHR ''/'' base_url @ ''/reputation/profiles/'' @ nd) of
        (ClientFailure e, n') \<Rightarrow> (Inl (Network e), n')
      | (Reply status body, n') \<Rightarrow>
          (if is_success status then
             (case svc_profile sv body of Inr p \<Rightarrow> (Inr (Some p), n') | Inl e \<Rightarrow> (Inl (Network e), n'))
           else if status = 404 then (Inr None, n')
           else (Inl (Http status
             (''Failed to fetch reputation profile for '' @ nd @ '': HTTP '' @ svc_status sv status @ '' - '' @ body)), n')))"

definition default_submit_record ::
    "('n, 'cid) rep_service \<Rightarrow> string \<Rightarrow> 'n \<Rightarrow> 'cid EventRecord \<Rightarrow> (ReputationClientError + unit) \<times> 'n" where
  "default_submit_record sv base_url n r =
     (case svc_post sv n (trim_end_matches CHR ''/'' base_url @ ''/reputation/records'') r of
        (ClientFailure e, n') \<Rightarrow> (Inl (Network e), n')
      | (Reply status body, n') \<Rightarrow>
          (if is_success status then (Inr (), n')
           else (Inl (Http status (''Failed to submit reputation record for subject '' @ er_subject r @ '': HTTP '' @
             svc_status sv status @ '' - '' @ body)), n')))"

section \<open>The score of a bid\<close>

record BidEvaluatorConfig =
  weight_price :: real
  weight_resources :: real
  weight_reputation :: real
  weight_timeliness :: real

definition timeliness_score :: "(real \<Rightarrow> real) \<Rightarrow> 'cid ReputationProfile \<Rightarrow> real" where
  "timeliness_score fl p =
     (if 0 < successful_jobs p then fl (fl (real (unat (jobs_on_time p))) / fl (real (unat (successful_jobs p))))
      else 1 / 2)"

definition calculate_bid_score ::
    "(real \<Rightarrow> real) \<Rightarrow> BidEvaluatorConfig \<Rightarrow> 'cid ReputationProfile \<Rightarrow> real \<Rightarrow> real \<Rightarrow> real" where
  "calculate_bid_score fl config profile normalized_price resource_match =
     (let reputation_score = fl (computed_score profile / 100);
          price_component = fl (weight_price config * fl (1 - normalized_price));
          resource_component = fl (weight_resources config * resource_match);
          reputation_component = fl (weight_reputation config * reputation_score);
          timeliness_component = fl (weight_timeliness config * timeliness_score fl profile)
      in fl (fl (fl (price_component + resource_component) + reputation_component) + timeliness_component))"

section \<open>The caching clients\<close>

text \<open>\<open>reputation_client.rs\<close>: a DID without a profile is not cached.\<close>

type_synonym 'p profile_cache = "(string, 'p \<times> nat) hmap"

definition get_cached_profile :: "nat \<Rightarrow> nat \<Rightarrow> 'p profile_cache \<Rightarrow> did \<Rightarrow> 'p option" where
  "get_cached_profile ttl now cache nd =
     (case hget cache nd of
        Some (profile, timestamp) \<Rightarrow> if now - timestamp < ttl then Some profile else None
      | None \<Rightarrow> None)"

definition cache_profile :: "nat \<Rightarrow> 'p profile_cache \<Rightarrow> did \<Rightarrow> 'p \<Rightarrow> 'p profile_cache" where
  "cache_profile now cache nd profile = hinsert cache nd (profile, now)"

definition caching_fetch_profile ::
    "nat \<Rightarrow> (nat \<Rightarrow> did \<Rightarrow> 'e + 'p option) \<Rightarrow> nat \<Rightarrow> 'p profile_cache \<Rightarrow> did \<Rightarrow> ('e + 'p option) \<times> 'p profile_cache" where
  "caching_fetch_profile ttl inner now cache nd =
     (case get_cached_profile ttl now cache nd of
        Some cached \<Rightarrow> (Inr (Some cached), cache)
      | None \<Rightarrow>
          (case inner now nd of
             Inl e \<Rightarrow> (Inl e, cache)
           | Inr (Some profile) \<Rightarrow> (Inr (Some profile), cache_profile now cache nd profile)
           | Inr None \<Rightarrow> (Inr None, cache)))"

text \<open>\<open>reputation_cache.rs\<close>: the metrics it records are an output.\<close>

record 'p CacheEntry =
  ce_profile :: 'p
  ce_last_updated :: nat

datatype cache_metric = CacheHit | CacheMiss | ReputationQuery | CacheSize nat

definition DEFAULT_CACHE_TTL :: nat where
  "DEFAULT_CACHE_TTL = 30 * 1000"

definition purge_expired ::
    "nat \<Rightarrow> nat \<Rightarrow> (string, 'p CacheEntry) hmap \<Rightarrow> (string, 'p CacheEntry) hmap \<times> cache_metric list" where
  "purge_expired ttl now cache =
     (let cache' = filter (\<lambda>(_, entry). now - ce_last_updated entry < ttl) cache
      in (cache', [CacheSize (length cache')]))"

definition cache_miss ::
    "(nat \<Rightarrow> did \<Rightarrow> 'e + 'p) \<Rightarrow> nat \<Rightarrow> (string, 'p CacheEntry) hmap \<Rightarrow> did
      \<Rightarrow> ('e + 'p) \<times> (string, 'p CacheEntry) hmap \<times> cache_metric list" where
  "cache_miss inner now cache nd =
     (case inner now nd of
        Inl e \<Rightarrow> (Inl e, cache, [CacheMiss, ReputationQuery])
      | Inr profile \<Rightarrow>
          (let cache' = hinsert cache nd \<lparr>ce_profile = profile, ce_last_updated = now\<rparr>
           in (Inr profile, cache', [CacheMiss, ReputationQuery, CacheSize (length cache')])))"

definition cached_fetch_profile ::
    "nat \<Rightarrow> (nat \<Rightarrow> did \<Rightarrow> 'e + 'p) \<Rightarrow> nat \<Rightarrow> (string, 'p CacheEntry) hmap \<Rightarrow> did
      \<Rightarrow> ('e + 'p) \<times> (string, 'p CacheEntry) hmap \<times> cache_metric list" where
  "cached_fetch_profile ttl inner now cache nd =
     (case hget cache nd of
        Some entry \<Rightarrow>
          if now - ce_last_updated entry < ttl then (Inr (ce_profile entry), cache, [CacheHit])
          else cache_miss inner now cache nd
      | None \<Rightarrow> cache_miss inner now cache nd)"

section \<open>What a cache promises\<close>

datatype cache_event = Fetch did | Purge

fun cache_run ::
    "(nat \<Rightarrow> 'c \<Rightarrow> did \<Rightarrow> 'r \<times> 'c) \<Rightarrow> (nat \<Rightarrow> 'c \<Rightarrow> 'c) \<Rightarrow> 'c \<Rightarrow> (nat \<times> cache_event) list \<Rightarrow> (nat \<times> did \<times> 'r) list" where
  "cache_run fetch purge c [] = []"
| "cache_run fetch purge c ((now, Fetch nd) # es) =
     (case fetch now c nd of (r, c') \<Rightarrow> (now, nd, r) # cache_run fetch purge c' es)"
| "cache_run fetch purge c ((now, Purge) # es) = cache_run fetch purge (purge now c) es"

text \<open>A cache whose entries carry the instant at which the wrapped client gave them: \<open>entry\<close> reads it, \<open>wrap\<close>
  turns a stored profile into an answer.\<close>

locale ttl_cache =
  fixes start :: 'c
    and fetch :: "nat \<Rightarrow> 'c \<Rightarrow> did \<Rightarrow> ('e + 'a) \<times> 'c"
    and purge :: "nat \<Rightarrow> 'c \<Rightarrow> 'c"
    and entry :: "'c \<Rightarrow> did \<Rightarrow> ('p \<times> nat) option"
    and inner :: "nat \<Rightarrow> did \<Rightarrow> 'e + 'a"
    and wrap :: "'p \<Rightarrow> 'a"
    and ttl :: nat
    and ok :: "'c \<Rightarrow> bool"
  assumes ok_start: "ok start"
    and ok_fetch: "ok c \<Longrightarrow> ok (snd (fetch now c d))"
    and ok_purge: "ok c \<Longrightarrow> ok (purge now c)"
    and entry_start: "entry start d = None"
    and fetch_hit: "entry c d = Some (p, t) \<Longrightarrow> now - t < ttl \<Longrightarrow> fst (fetch now c d) = Inr (wrap p)"
    and fetch_miss: "(\<And>p t. entry c d = Some (p, t) \<Longrightarrow> ttl \<le> now - t) \<Longrightarrow> fst (fetch now c d) = inner now d"
    and entry_fetch: "entry (snd (fetch now c d)) d' = Some (p, t) \<Longrightarrow>
      entry c d' = Some (p, t) \<or> d' = d \<and> t = now \<and> inner now d = Inr (wrap p)"
    and entry_purge: "ok c \<Longrightarrow> entry (purge now c) d = Some (p, t) \<Longrightarrow> entry c d = Some (p, t)"
begin

definition coherent where
  "coherent now c \<longleftrightarrow> ok c \<and> (\<forall>d p t. entry c d = Some (p, t) \<longrightarrow> t \<le> now \<and> inner t d = Inr (wrap p))"

lemma coherent_start: "coherent now start"
  by (simp add: coherent_def entry_start ok_start)

lemma coherent_later: "coherent now c \<Longrightarrow> now \<le> now' \<Longrightarrow> coherent now' c"
  by (force simp: coherent_def)

lemma coherent_fetch: "coherent now c \<Longrightarrow> coherent now (snd (fetch now c d))"
  unfolding coherent_def by (blast dest: entry_fetch intro: ok_fetch)

lemma coherent_purge: "coherent now c \<Longrightarrow> coherent now (purge now c)"
  unfolding coherent_def by (blast dest: entry_purge intro: ok_purge)

lemma fetch_fresh:
  assumes "coherent now c"
  shows "\<exists>t\<le>now. (t = now \<or> now - t < ttl) \<and> fst (fetch now c d) = inner t d"
proof (cases "\<exists>p t. entry c d = Some (p, t) \<and> now - t < ttl")
  case True
  then obtain p t where "entry c d = Some (p, t)" "now - t < ttl" by blast
  moreover with assms have "t \<le> now" "inner t d = Inr (wrap p)" by (auto simp: coherent_def)
  ultimately show ?thesis using fetch_hit [of c d p t now] by (intro exI [of _ t]) simp
next
  case False
  then have "fst (fetch now c d) = inner now d" by (intro fetch_miss) force
  then show ?thesis by blast
qed

lemma run_fresh:
  assumes "coherent now c" "sorted (now # map fst es)" "(t, d, r) \<in> set (cache_run fetch purge c es)"
  shows "\<exists>t0\<le>t. (t0 = t \<or> t - t0 < ttl) \<and> r = inner t0 d"
  using assms
proof (induction es arbitrary: now c)
  case Nil
  then show ?case by simp
next
  case (Cons ev es)
  obtain u e where ev: "ev = (u, e)" by (cases ev)
  from Cons.prems(1,2) ev have coh: "coherent u c" by (auto intro: coherent_later)
  from Cons.prems(2) ev have later: "sorted (u # map fst es)" by simp
  show ?case
  proof (cases e)
    case (Fetch nd)
    obtain a c' where f: "fetch u c nd = (a, c')" by (cases "fetch u c nd")
    with Cons.prems(3) ev Fetch consider "(t, d, r) = (u, nd, a)" | "(t, d, r) \<in> set (cache_run fetch purge c' es)"
      by auto
    then show ?thesis
    proof cases
      case 1
      with fetch_fresh [OF coh, of nd] f show ?thesis by auto
    next
      case 2
      moreover from coherent_fetch [OF coh, of nd] f have "coherent u c'" by simp
      ultimately show ?thesis using Cons.IH later by blast
    qed
  next
    case Purge
    with Cons.prems(3) ev have "(t, d, r) \<in> set (cache_run fetch purge (purge u c) es)" by simp
    with Cons.IH later coherent_purge [OF coh] show ?thesis by blast
  qed
qed

lemmas run_from_start = run_fresh [OF coherent_start]

end

lemma caching_fetch_miss:
  assumes "\<And>p t. hget c d = Some (p, t) \<Longrightarrow> ttl \<le> now - t"
  shows "fst (caching_fetch_profile ttl inner now c d) = inner now d"
proof -
  from assms have "get_cached_profile ttl now c d = None"
    by (force simp: get_cached_profile_def split: option.split)
  then show ?thesis by (simp add: caching_fetch_profile_def split: sum.split option.split)
qed

interpretation client_cache: ttl_cache "[]" "caching_fetch_profile ttl inner" "\<lambda>_ c. c" hget inner Some ttl hwf
  for ttl inner
  by unfold_locales
    (auto simp: caching_fetch_miss, auto simp: caching_fetch_profile_def get_cached_profile_def cache_profile_def
      hm.get_insert hm.wf_insert split: option.splits sum.splits if_splits)

definition entry_view :: "(string, 'p CacheEntry) hmap \<Rightarrow> did \<Rightarrow> ('p \<times> nat) option" where
  "entry_view cache nd = map_option (\<lambda>e. (ce_profile e, ce_last_updated e)) (hget cache nd)"

definition drop_metrics :: "'r \<times> 'c \<times> cache_metric list \<Rightarrow> 'r \<times> 'c" where
  "drop_metrics x = (fst x, fst (snd x))"

lemma hwf_filter: "hwf m \<Longrightarrow> hwf (filter P m)"
  by (induction m) (auto simp: hwf_def)

lemma hget_filter: "hwf m \<Longrightarrow> hget (filter P m) k = Some v \<Longrightarrow> hget m k = Some v"
  by (auto simp: hget_def hwf_def dest: map_of_SomeD)

lemma cached_fetch_miss:
  assumes "\<And>p t. entry_view c d = Some (p, t) \<Longrightarrow> ttl \<le> now - t"
  shows "fst (drop_metrics (cached_fetch_profile ttl inner now c d)) = inner now d"
proof -
  from assms have "cached_fetch_profile ttl inner now c d = cache_miss inner now c d"
    by (force simp: cached_fetch_profile_def entry_view_def split: option.split)
  then show ?thesis by (simp add: cache_miss_def drop_metrics_def Let_def split: sum.split)
qed

lemma entry_view_purge: "hwf c \<Longrightarrow> entry_view (fst (purge_expired ttl now c)) d = Some e \<Longrightarrow> entry_view c d = Some e"
  by (auto simp: entry_view_def purge_expired_def Let_def dest: hget_filter)

interpretation entry_cache: ttl_cache "[]" "\<lambda>now c d. drop_metrics (cached_fetch_profile ttl inner now c d)"
    "\<lambda>now c. fst (purge_expired ttl now c)" entry_view inner "\<lambda>p. p" ttl hwf for ttl inner
  by unfold_locales
    (auto simp: cached_fetch_miss entry_view_purge, auto simp: cached_fetch_profile_def cache_miss_def drop_metrics_def
      entry_view_def purge_expired_def Let_def hm.get_insert hm.wf_insert hwf_filter
      split: option.splits sum.splits if_splits)

section \<open>Properties\<close>

lemma cache_run_answers_all:
  "map (\<lambda>(t, d, r). (t, Fetch d)) (cache_run fetch purge c es) = filter (\<lambda>(t, e). e \<noteq> Purge) es"
  by (induction fetch purge c es rule: cache_run.induct) (auto split: prod.split)

text \<open>C23: bounded staleness of the two caching reputation clients.  Over any sequence of fetches and purges at
  non-decreasing instants, starting from the empty cache, every fetch is answered, and its answer is one the
  wrapped client gave for the same DID either at that instant or at an earlier one less than the time to live
  ago; an error is never served from the cache.\<close>

theorem cache_staleness_bounded:
  assumes "sorted (map fst es)"
  shows "map (\<lambda>(t, d, r). (t, Fetch d)) (cache_run (caching_fetch_profile ttl inner) (\<lambda>_ c. c) [] es) =
        filter (\<lambda>(t, e). e \<noteq> Purge) es \<and>
      (\<forall>(t, d, r) \<in> set (cache_run (caching_fetch_profile ttl inner) (\<lambda>_ c. c) [] es).
        \<exists>t0\<le>t. (t0 = t \<or> t - t0 < ttl) \<and> r = inner t0 d) \<and>
      map (\<lambda>(t, d, r). (t, Fetch d)) (cache_run (\<lambda>now c d. drop_metrics (cached_fetch_profile ttl inner' now c d))
        (\<lambda>now c. fst (purge_expired ttl now c)) [] es) = filter (\<lambda>(t, e). e \<noteq> Purge) es \<and>
      (\<forall>(t, d, r) \<in> set (cache_run (\<lambda>now c d. drop_metrics (cached_fetch_profile ttl inner' now c d))
        (\<lambda>now c. fst (purge_expired ttl now c)) [] es). \<exists>t0\<le>t. (t0 = t \<or> t - t0 < ttl) \<and> r = inner' t0 d)"
  using assms client_cache.run_from_start [of 0 es] entry_cache.run_from_start [of 0 es]
  by (auto simp: cache_run_answers_all)

theorem cache_staleness_bounded_witness:
  "cache_run (caching_fetch_profile 10 (\<lambda>t d. Inr (Some t) :: unit + nat option)) (\<lambda>_ c. c) []
      [(1, Fetch ''a''), (5, Fetch ''a''), (12, Fetch ''a'')] =
      [(1, ''a'', Inr (Some 1)), (5, ''a'', Inr (Some 1)), (12, ''a'', Inr (Some 12))] \<and>
    (\<exists>t0\<le>5. (t0 = 5 \<or> 5 - t0 < 10) \<and> (Inr (Some 1) :: unit + nat option) = Inr (Some t0))"
proof -
  let ?es = "[(1, Fetch ''a''), (5, Fetch ''a''), (12, Fetch ''a'')]"
  have run: "cache_run (caching_fetch_profile 10 (\<lambda>t d. Inr (Some t) :: unit + nat option)) (\<lambda>_ c. c) [] ?es =
      [(1, ''a'', Inr (Some 1)), (5, ''a'', Inr (Some 1)), (12, ''a'', Inr (Some 12))]"
    by (simp add: caching_fetch_profile_def get_cached_profile_def cache_profile_def hget_def hinsert_def)
  from cache_staleness_bounded [of ?es 10 "\<lambda>t d. Inr (Some t) :: unit + nat option"
      "\<lambda>t d. Inr t :: unit + nat"] run
  show ?thesis by simp
qed

text \<open>The score of a bid never falls when the bidder's reputation or timeliness or the resource match rises or
  the price falls, whatever the rounding.\<close>

lemma calculate_bid_score_mono:
  assumes "mono fl" "0 \<le> weight_price cfg" "0 \<le> weight_resources cfg" "0 \<le> weight_reputation cfg"
    "0 \<le> weight_timeliness cfg" "computed_score p \<le> computed_score q" "timeliness_score fl p \<le> timeliness_score fl q"
    "np' \<le> np" "rm \<le> rm'"
  shows "calculate_bid_score fl cfg p np rm \<le> calculate_bid_score fl cfg q np' rm'"
proof -
  have m: "x \<le> y \<Longrightarrow> fl x \<le> fl y" for x y using assms(1) by (rule monoD)
  have "weight_price cfg * fl (1 - np) \<le> weight_price cfg * fl (1 - np')"
    using assms by (intro mult_left_mono m) auto
  moreover have "weight_resources cfg * rm \<le> weight_resources cfg * rm'"
    using assms by (intro mult_left_mono) auto
  moreover have "weight_reputation cfg * fl (computed_score p / 100) \<le> weight_reputation cfg * fl (computed_score q / 100)"
    using assms by (intro mult_left_mono m) (auto simp: divide_right_mono)
  moreover have "weight_timeliness cfg * timeliness_score fl p \<le> weight_timeliness cfg * timeliness_score fl q"
    using assms by (intro mult_left_mono) auto
  ultimately show ?thesis unfolding calculate_bid_score_def Let_def by (intro m add_mono) auto
qed

end
