(* ===== verification/Bid_Selection.thy ===== *)
theory Bid_Selection
  imports Reputation_Client Mesh_Types "HOL-Library.Sublist" "HOL-Library.Multiset"
begin

text \<open>
  How the mesh job service ranks bids and selects an executor: \<open>bid_logic.rs\<close>, \<open>job_assignment.rs\<close> and the data of
  \<open>types.rs\<close> and \<open>models.rs\<close> under \<open>crates/services/icn-mesh-jobs/src\<close>.

  The modules of the crate do not agree on the fields of a bid and of a request (\<open>price\<close> and \<open>price_atto_icn\<close>,
  \<open>resources\<close> and \<open>data\<close>, \<open>requirements\<close> and \<open>params\<close>) and read fields no struct declares; the records here have
  every field the functions below read, under one name.  A reputation client is a record of its two methods; the
  text of a number in a selection reason is a parameter.
\<close>

section \<open>Data\<close>

record JobRequirements =
  cpu_cores :: u32
  memory_mb :: u32
  storage_gb :: u32
  req_max_price :: u64
  required_mana :: "u64 option"
  req_mana_cost :: "u64 option"

record ResourceEstimate =
  est_cpu :: u32
  est_memory_mb :: u32
  est_storage_mb :: u32

record 'cid Bid =
  bid_id :: "u64 option"
  bid_job_id :: 'cid
  bidder :: did
  price :: u64
  bid_resources :: JobRequirements
  bid_data :: ResourceEstimate
  reputation_score :: "real option"

datatype SelectionStrategy = LowestPrice | ReputationStrategy | HybridStrategy

record SelectionPolicy =
  sp_rep_weight :: real
  sp_price_weight :: real
  sp_region_filter :: "string option"
  sp_min_reputation :: "real option"
  sp_selection_strategy :: SelectionStrategy

definition SelectionPolicy_default :: "(real \<Rightarrow> real) \<Rightarrow> SelectionPolicy" where
  "SelectionPolicy_default fl =
     \<lparr>sp_rep_weight = fl (7 / 10), sp_price_weight = fl (3 / 10), sp_region_filter = None, sp_min_reputation = None,
      sp_selection_strategy = ReputationStrategy\<rparr>"

record 'cid JobRequest =
  jr_job_id :: 'cid
  jr_params :: MeshJobParams
  jr_requirements :: JobRequirements
  jr_originator :: did
  jr_execution_policy :: "SelectionPolicy option"

datatype SelectionError = SelectionInternal string | ReputationServiceError ReputationClientError

record ('n, 'cid) ReputationClient =
  fetch_profile :: "'n \<Rightarrow> did \<Rightarrow> (ReputationClientError + 'cid ReputationProfile option) \<times> 'n"
  bid_score :: "BidEvaluatorConfig \<Rightarrow> 'cid ReputationProfile \<Rightarrow> real \<Rightarrow> real \<Rightarrow> real"

type_synonym 'cid selection = "('cid Bid \<times> real \<times> string) option"

section \<open>Bid logic\<close>

definition DEFAULT_REPUTATION_SCORE_NORMALIZED :: real where
  "DEFAULT_REPUTATION_SCORE_NORMALIZED = 1 / 2"

definition MAX_PRICE_FOR_NORMALIZATION :: real where
  "MAX_PRICE_FOR_NORMALIZATION = 1000000"

definition meets_requirements :: "JobRequirements \<Rightarrow> JobRequirements \<Rightarrow> bool" where
  "meets_requirements offer req \<longleftrightarrow>
     \<not> (cpu_cores offer < cpu_cores req \<or> memory_mb offer < memory_mb req \<or> storage_gb offer < storage_gb req)"

definition calculate_bid_selection_score ::
    "(real \<Rightarrow> real) \<Rightarrow> 'cid Bid \<Rightarrow> 'cid JobRequest \<Rightarrow> real \<Rightarrow> real \<Rightarrow> real" where
  "calculate_bid_selection_score fl bid job_req rep_w price_w =
     (if \<not> meets_requirements (bid_resources bid) (jr_requirements job_req) then - 1
      else
        let normalized_reputation =
              (case reputation_score bid of
                 Some r_score \<Rightarrow> the (clamp (fl (r_score / 10)) 0 1)
               | None \<Rightarrow> DEFAULT_REPUTATION_SCORE_NORMALIZED);
            normalized_price_factor = min (fl (fl (real (unat (price bid))) / MAX_PRICE_FOR_NORMALIZATION)) 1
        in fl (fl (normalized_reputation * rep_w) - fl (normalized_price_factor * price_w)))"

definition validate_bid :: "'cid Bid \<Rightarrow> 'cid JobRequest \<Rightarrow> string + unit" where
  "validate_bid bid job_req =
     (if \<not> meets_requirements (bid_resources bid) (jr_requirements job_req) then
        Inl ''Bid does not meet minimum resource requirements''
      else if req_max_price (jr_requirements job_req) < price bid then Inl ''Bid price exceeds maximum allowed price''
      else Inr ())"

section \<open>Selectors\<close>

fun lowest_loop :: "'cid Bid \<Rightarrow> 'cid Bid list \<Rightarrow> 'cid Bid" where
  "lowest_loop best [] = best"
| "lowest_loop best (b # bs) = lowest_loop (if price b < price best then b else best) bs"

definition lowest_price_select :: "(u64 \<Rightarrow> string) \<Rightarrow> 'cid Bid list \<Rightarrow> 'cid selection" where
  "lowest_price_select u64_str bids =
     (case bids of
        [] \<Rightarrow> None
      | b # bs \<Rightarrow> let w = lowest_loop b bs in Some (w, 1, ''lowest_price_'' @ u64_str (price w)))"

definition default_profile :: "u64 \<Rightarrow> did \<Rightarrow> 'cid ReputationProfile" where
  "default_profile now nd =
     \<lparr>node_id = nd, last_updated = now, total_jobs = 0, successful_jobs = 0, failed_jobs = 0, jobs_on_time = 0,
      jobs_late = 0, average_execution_ms = None, average_bid_accuracy = None, dishonesty_events = 0,
      endorsements = [], current_stake = None, computed_score = 50, latest_anchor_cid = None, mana_state = None\<rparr>"

definition ratio_match :: "(real \<Rightarrow> real) \<Rightarrow> u32 \<Rightarrow> u32 \<Rightarrow> real" where
  "ratio_match fl have_amt need_amt =
     (if need_amt \<le> have_amt then 1 else if need_amt = 0 then 1
      else fl (real (unat have_amt) / real (unat need_amt)))"

definition calculate_resource_match :: "(real \<Rightarrow> real) \<Rightarrow> ResourceEstimate \<Rightarrow> JobRequirements \<Rightarrow> real" where
  "calculate_resource_match fl est req =
     (let cpu_match = ratio_match fl (est_cpu est) (cpu_cores req);
          memory_match = ratio_match fl (est_memory_mb est) (memory_mb req);
          storage_match = ratio_match fl (est_storage_mb est div 1024) (storage_gb req)
      in the (clamp (fl (fl (fl (cpu_match + memory_match) + storage_match) / 3)) 0 1))"

definition has_sufficient_mana :: "'cid JobRequest \<Rightarrow> 'cid ReputationProfile \<Rightarrow> bool" where
  "has_sufficient_mana request profile =
     (case required_mana (jr_requirements request) of
        Some amount \<Rightarrow> (case mana_state profile of None \<Rightarrow> False | Some ms \<Rightarrow> amount \<le> current_mana (sm_state ms))
      | None \<Rightarrow> True)"

definition normalized_bid_price :: "(real \<Rightarrow> real) \<Rightarrow> u64 \<Rightarrow> u64 \<Rightarrow> real" where
  "normalized_bid_price fl max_p p = (if 0 < max_p then fl (fl (real (unat p)) / fl (real (unat max_p))) else 0)"

fun reputation_loop ::
    "(real \<Rightarrow> real) \<Rightarrow> (real \<Rightarrow> string) \<Rightarrow> ('n, 'cid) ReputationClient \<Rightarrow> BidEvaluatorConfig \<Rightarrow> 'cid JobRequest \<Rightarrow> u64 \<Rightarrow> u64
      \<Rightarrow> 'n \<Rightarrow> 'cid selection \<Rightarrow> 'cid Bid list \<Rightarrow> (SelectionError + 'cid selection) \<times> 'n" where
  "reputation_loop fl f64_str cl cfg request max_p now n best [] = (Inr best, n)"
| "reputation_loop fl f64_str cl cfg request max_p now n best (b # bs) =
     (case fetch_profile cl n (bidder b) of
        (Inl e, n') \<Rightarrow> (Inl (ReputationServiceError e), n')
      | (Inr found, n') \<Rightarrow>
          let profile = (case found of Some p \<Rightarrow> p | None \<Rightarrow> default_profile now (bidder b)) in
          if \<not> has_sufficient_mana request profile then reputation_loop fl f64_str cl cfg request max_p now n' best bs
          else
            let score = bid_score cl cfg profile (normalized_bid_price fl max_p (price b))
                  (calculate_resource_match fl (bid_data b) (jr_requirements request)) in
            if score < 0 then reputation_loop fl f64_str cl cfg request max_p now n' best bs
            else reputation_loop fl f64_str cl cfg request max_p now n'
              (if (case best of None \<Rightarrow> True | Some (_, s, _) \<Rightarrow> s < score)
               then Some (b, score, ''selected_by_reputation_score_'' @ f64_str score) else best) bs)"

definition reputation_select ::
    "(real \<Rightarrow> real) \<Rightarrow> (real \<Rightarrow> string) \<Rightarrow> ('n, 'cid) ReputationClient \<Rightarrow> BidEvaluatorConfig \<Rightarrow> 'cid JobRequest \<Rightarrow> u64
      \<Rightarrow> 'n \<Rightarrow> 'cid Bid list \<Rightarrow> (SelectionError + 'cid selection) \<times> 'n" where
  "reputation_select fl f64_str cl cfg request now n bids =
     (if bids = [] then (Inr None, n)
      else reputation_loop fl f64_str cl cfg request (Max (price ` set bids)) now n None bids)"

definition meets_minimum :: "real \<Rightarrow> 'cid ReputationProfile option \<Rightarrow> bool" where
  "meets_minimum min_rep found = (case found of Some p \<Rightarrow> min_rep \<le> computed_score p | None \<Rightarrow> False)"

fun min_reputation_filter ::
    "('n, 'cid) ReputationClient \<Rightarrow> real \<Rightarrow> 'n \<Rightarrow> 'cid Bid list \<Rightarrow> (SelectionError + 'cid Bid list) \<times> 'n" where
  "min_reputation_filter cl min_rep n [] = (Inr [], n)"
| "min_reputation_filter cl min_rep n (b # bs) =
     (case fetch_profile cl n (bidder b) of
        (Inl e, n') \<Rightarrow> (Inl (ReputationServiceError e), n')
      | (Inr found, n') \<Rightarrow>
          (case min_reputation_filter cl min_rep n' bs of
             (Inl e, n'') \<Rightarrow> (Inl e, n'')
           | (Inr kept, n'') \<Rightarrow>
               (Inr (if meets_minimum min_rep found then b # kept else kept), n'')))"

definition hybrid_config :: "(real \<Rightarrow> real) \<Rightarrow> SelectionPolicy \<Rightarrow> BidEvaluatorConfig" where
  "hybrid_config fl pol =
     (let rest = fl (max (fl (fl (1 - sp_price_weight pol) - sp_rep_weight pol)) 0 / 2)
      in \<lparr>weight_price = sp_price_weight pol, weight_resources = rest, weight_reputation = sp_rep_weight pol,
          weight_timeliness = rest\<rparr>)"

definition hybrid_select ::
    "(real \<Rightarrow> real) \<Rightarrow> (real \<Rightarrow> string) \<Rightarrow> (u64 \<Rightarrow> string) \<Rightarrow> ('n, 'cid) ReputationClient \<Rightarrow> SelectionPolicy \<Rightarrow> 'cid JobRequest
      \<Rightarrow> u64 \<Rightarrow> 'n \<Rightarrow> 'cid Bid list \<Rightarrow> (SelectionError + 'cid selection) \<times> 'n" where
  "hybrid_select fl f64_str u64_str cl pol request now n bids =
     (if bids = [] then (Inr None, n)
      else
        case (case sp_min_reputation pol of
                Some min_rep \<Rightarrow> min_reputation_filter cl min_rep n bids
              | None \<Rightarrow> (Inr bids, n)) of
          (Inl e, n') \<Rightarrow> (Inl e, n')
        | (Inr filtered_bids, n') \<Rightarrow>
            if filtered_bids = [] then (Inr None, n')
            else if sp_selection_strategy pol = LowestPrice then (Inr (lowest_price_select u64_str filtered_bids), n')
            else reputation_select fl f64_str cl (hybrid_config fl pol) request now n' filtered_bids)"

fun default_loop ::
    "(real \<Rightarrow> real) \<Rightarrow> real \<Rightarrow> real \<Rightarrow> 'cid JobRequest \<Rightarrow> 'cid selection \<Rightarrow> 'cid Bid list \<Rightarrow> 'cid selection" where
  "default_loop fl rep_w price_w request best [] = best"
| "default_loop fl rep_w price_w request best (b # bs) =
     (let score = calculate_bid_selection_score fl b request rep_w price_w
      in default_loop fl rep_w price_w request
           (if 0 < score \<and> (case best of None \<Rightarrow> True | Some (_, s, _) \<Rightarrow> s < score)
            then Some (b, score, ''default_scoring'') else best) bs)"

definition default_select :: "(real \<Rightarrow> real) \<Rightarrow> real \<Rightarrow> real \<Rightarrow> 'cid JobRequest \<Rightarrow> 'cid Bid list \<Rightarrow> 'cid selection" where
  "default_select fl rep_w price_w request bids = default_loop fl rep_w price_w request None bids"

section \<open>Evaluating all bids\<close>

text \<open>\<open>JobAssignmentService\<close>.  \<open>f64::min\<close> ignores a NaN operand, so a requirement of zero gives a full match.\<close>

definition capped_ratio :: "(real \<Rightarrow> real) \<Rightarrow> u32 \<Rightarrow> u32 \<Rightarrow> real" where
  "capped_ratio fl have_amt need_amt =
     (if need_amt = 0 then 1 else min (fl (real (unat have_amt) / real (unat need_amt))) 1)"

definition service_resource_match :: "(real \<Rightarrow> real) \<Rightarrow> JobRequirements \<Rightarrow> JobRequirements \<Rightarrow> real" where
  "service_resource_match fl est req =
     fl (fl (fl (capped_ratio fl (cpu_cores est) (cpu_cores req) + capped_ratio fl (memory_mb est) (memory_mb req)) +
       capped_ratio fl (storage_gb est) (storage_gb req)) / 3)"

definition normalize_price :: "(real \<Rightarrow> real) \<Rightarrow> u64 \<Rightarrow> u64 \<Rightarrow> real" where
  "normalize_price fl bid_price max_p =
     (if max_p = 0 then 0 else fl (1 - fl (fl (real (unat bid_price)) / fl (real (unat max_p)))))"

definition service_bid_score ::
    "(real \<Rightarrow> real) \<Rightarrow> BidEvaluatorConfig \<Rightarrow> 'cid ReputationProfile \<Rightarrow> real \<Rightarrow> real \<Rightarrow> real" where
  "service_bid_score fl config profile normalized_price resource_match =
     (let reputation_component = fl (computed_score profile * weight_reputation config);
          price_component = fl (normalized_price * weight_price config);
          resource_component = fl (resource_match * weight_resources config)
      in fl (fl (reputation_component + price_component) + resource_component))"

fun score_bids ::
    "(real \<Rightarrow> real) \<Rightarrow> ('n, 'cid) ReputationClient \<Rightarrow> BidEvaluatorConfig \<Rightarrow> 'cid JobRequest \<Rightarrow> 'n \<Rightarrow> 'cid Bid list
      \<Rightarrow> ('cid Bid \<times> real) list \<times> 'n" where
  "score_bids fl cl cfg request n [] = ([], n)"
| "score_bids fl cl cfg request n (b # bs) =
     (case fetch_profile cl n (bidder b) of
        (Inr (Some profile), n') \<Rightarrow>
          (let score = service_bid_score fl cfg profile
                 (normalize_price fl (price b) (req_max_price (jr_requirements request)))
                 (service_resource_match fl (bid_resources b) (jr_requirements request))
           in case score_bids fl cl cfg request n' bs of (rest, n'') \<Rightarrow> ((b, score) # rest, n''))
      | (_, n') \<Rightarrow> score_bids fl cl cfg request n' bs)"

definition evaluate_bids ::
    "(real \<Rightarrow> real) \<Rightarrow> ('n, 'cid) ReputationClient \<Rightarrow> BidEvaluatorConfig \<Rightarrow> 'cid JobRequest \<Rightarrow> 'n \<Rightarrow> 'cid Bid list
      \<Rightarrow> ('cid Bid \<times> real) list \<times> 'n" where
  "evaluate_bids fl cl cfg request n bids =
     (case score_bids fl cl cfg request n bids of (scored, n') \<Rightarrow> (sort_key (\<lambda>x. - snd x) scored, n'))"

section \<open>The best of a list\<close>

text \<open>What every selector computes: the first of the acceptable candidates whose key no other exceeds.\<close>

fun first_best :: "('x \<Rightarrow> bool) \<Rightarrow> ('x \<Rightarrow> 'k::linorder) \<Rightarrow> 'x option \<Rightarrow> 'x list \<Rightarrow> 'x option" where
  "first_best ok key best [] = best"
| "first_best ok key best (x # xs) =
     first_best ok key (if ok x \<and> (case best of None \<Rightarrow> True | Some y \<Rightarrow> key y < key x) then Some x else best) xs"

lemma first_best_Some:
  "\<exists>w. first_best ok key (Some y) xs = Some w \<and> key y \<le> key w \<and> (\<forall>c\<in>set xs. ok c \<longrightarrow> key c \<le> key w) \<and>
     (w = y \<or> w \<in> set xs \<and> ok w \<and> key y < key w)"
proof (induction xs arbitrary: y)
  case Nil
  then show ?case by simp
next
  case (Cons x xs)
  show ?case
  proof (cases "ok x \<and> key y < key x")
    case True
    with Cons.IH [of x] show ?thesis by force
  next
    case False
    with Cons.IH [of y] show ?thesis by force
  qed
qed

lemma first_best_member: "first_best ok key None xs = Some w \<Longrightarrow> w \<in> set xs \<and> ok w"
proof (induction xs)
  case Nil
  then show ?case by simp
next
  case (Cons x xs)
  then show ?case using first_best_Some [of ok key x xs] by (auto split: if_splits)
qed

lemma first_best_maximal: "first_best ok key None xs = Some w \<Longrightarrow> c \<in> set xs \<Longrightarrow> ok c \<Longrightarrow> key c \<le> key w"
proof (induction xs)
  case Nil
  then show ?case by simp
next
  case (Cons x xs)
  then show ?case using first_best_Some [of ok key x xs] by (auto split: if_splits)
qed

lemma first_best_None: "first_best ok key None xs = None \<longleftrightarrow> (\<forall>c\<in>set xs. \<not> ok c)"
proof (induction xs)
  case Nil
  then show ?case by simp
next
  case (Cons x xs)
  then show ?case using first_best_Some [of ok key x xs] by auto
qed

lemma first_best_append: "first_best ok key b (xs @ ys) = first_best ok key (first_best ok key b xs) ys"
  by (induction xs arbitrary: b) simp_all

lemma first_best_tie: "first_best ok key None (xs @ [c]) \<noteq> first_best ok key None xs \<longleftrightarrow>
    ok c \<and> (\<forall>b\<in>set xs. ok b \<longrightarrow> key b < key c)"
proof (cases "first_best ok key None xs")
  case None
  then show ?thesis using first_best_None [of ok key xs] by (auto simp: first_best_append)
next
  case (Some w)
  have "key w < key c \<longleftrightarrow> (\<forall>b\<in>set xs. ok b \<longrightarrow> key b < key c)"
    using first_best_member [OF Some] first_best_maximal [OF Some] by fastforce
  with Some show ?thesis by (auto simp: first_best_append)
qed

text \<open>The contract of an executor selector over its candidates.\<close>

locale executor_selector =
  fixes pick :: "'x list \<Rightarrow> 'x option"
    and ok :: "'x \<Rightarrow> bool"
    and key :: "'x \<Rightarrow> 'k::linorder"
  assumes pick_member: "pick xs = Some w \<Longrightarrow> w \<in> set xs \<and> ok w"
    and pick_maximal: "pick xs = Some w \<Longrightarrow> c \<in> set xs \<Longrightarrow> ok c \<Longrightarrow> key c \<le> key w"
    and pick_None: "pick xs = None \<longleftrightarrow> (\<forall>c\<in>set xs. \<not> ok c)"
    and pick_tie: "pick (xs @ [c]) \<noteq> pick xs \<Longrightarrow> ok c \<and> (\<forall>b\<in>set xs. ok b \<longrightarrow> key b < key c)"
begin

lemma pick_spec:
  "case pick xs of
     Some w \<Rightarrow> w \<in> set xs \<and> ok w \<and> (\<forall>c\<in>set xs. ok c \<longrightarrow> key c \<le> key w)
   | None \<Rightarrow> \<forall>c\<in>set xs. \<not> ok c"
  using pick_member [of xs] pick_maximal [of xs] pick_None [of xs] by (auto split: option.split)

text \<open>The order in which candidates arrive does not change the key of the winner.\<close>

lemma winning_key_perm:
  assumes "set xs = set ys"
  shows "map_option key (pick xs) = map_option key (pick ys)"
proof (cases "pick xs")
  case None
  with pick_None [of xs] pick_None [of ys] assms have "pick ys = None" by simp
  with None show ?thesis by simp
next
  case (Some w)
  then obtain v where v: "pick ys = Some v"
    using pick_None [of ys] pick_member [OF Some] assms by (cases "pick ys") auto
  have "key w \<le> key v" using pick_maximal [OF v] pick_member [OF Some] assms by auto
  moreover have "key v \<le> key w" using pick_maximal [OF Some] pick_member [OF v] assms by auto
  ultimately show ?thesis using Some v by simp
qed

text \<open>A later bid displaces an earlier winner only when it is strictly better.\<close>

lemma later_not_better: "pick xs = Some w \<Longrightarrow> key c \<le> key w \<Longrightarrow> pick (xs @ [c]) = Some w"
  using pick_tie [of xs c] pick_member [of xs w] by (metis not_le)

end

interpretation best: executor_selector "first_best ok key None" ok key for ok :: "'x \<Rightarrow> bool" and key :: "'x \<Rightarrow> 'k::linorder"
  by unfold_locales
    (erule first_best_member, erule (2) first_best_maximal, rule first_best_None, rule iffD1 [OF first_best_tie], assumption)

section \<open>The selectors as best-of-list\<close>

lemma lowest_loop_best:
  "first_best (\<lambda>_. True) (\<lambda>b. - uint (price b)) (Some best) bs = Some (lowest_loop best bs)"
  by (induction bs arbitrary: best) (simp_all add: word_less_def)

lemma lowest_price_best:
  "lowest_price_select u64_str bids =
     map_option (\<lambda>w. (w, 1, ''lowest_price_'' @ u64_str (price w))) (first_best (\<lambda>_. True) (\<lambda>b. - uint (price b)) None bids)"
  by (cases bids) (simp_all add: lowest_price_select_def lowest_loop_best Let_def)

lemma default_loop_best:
  "default_loop fl rw pw request (map_option (\<lambda>b. (b, calculate_bid_selection_score fl b request rw pw, ''default_scoring'')) best) bs =
     map_option (\<lambda>b. (b, calculate_bid_selection_score fl b request rw pw, ''default_scoring''))
       (first_best (\<lambda>b. 0 < calculate_bid_selection_score fl b request rw pw)
         (\<lambda>b. calculate_bid_selection_score fl b request rw pw) best bs)"
proof (induction bs arbitrary: best)
  case Nil
  then show ?case by simp
next
  case (Cons b bs)
  from Cons.IH [of "Some b"] Cons.IH [of best] show ?case
    by (cases best) (simp_all add: Let_def)
qed

lemma default_best:
  "default_select fl rw pw request bids =
     map_option (\<lambda>b. (b, calculate_bid_selection_score fl b request rw pw, ''default_scoring''))
       (first_best (\<lambda>b. 0 < calculate_bid_selection_score fl b request rw pw)
         (\<lambda>b. calculate_bid_selection_score fl b request rw pw) None bids)"
  using default_loop_best [of fl rw pw request None bids] by (simp add: default_select_def)

text \<open>The profiles a client returns for a list of bidders, in the order of the bids, up to its first error.\<close>

fun fetch_all ::
    "('n, 'cid) ReputationClient \<Rightarrow> u64 \<Rightarrow> 'n \<Rightarrow> 'cid Bid list
      \<Rightarrow> (ReputationClientError + 'cid ReputationProfile list) \<times> 'n" where
  "fetch_all cl now n [] = (Inr [], n)"
| "fetch_all cl now n (b # bs) =
     (case fetch_profile cl n (bidder b) of
        (Inl e, n') \<Rightarrow> (Inl e, n')
      | (Inr found, n') \<Rightarrow>
          (case fetch_all cl now n' bs of
             (Inl e, n'') \<Rightarrow> (Inl e, n'')
           | (Inr ps, n'') \<Rightarrow>
               (Inr ((case found of Some p \<Rightarrow> p | None \<Rightarrow> default_profile now (bidder b)) # ps), n'')))"

definition candidate_score ::
    "(real \<Rightarrow> real) \<Rightarrow> ('n, 'cid) ReputationClient \<Rightarrow> BidEvaluatorConfig \<Rightarrow> 'cid JobRequest \<Rightarrow> u64
      \<Rightarrow> 'cid Bid \<times> 'cid ReputationProfile \<Rightarrow> real" where
  "candidate_score fl cl cfg request max_p = (\<lambda>(b, p).
     bid_score cl cfg p (normalized_bid_price fl max_p (price b))
       (calculate_resource_match fl (bid_data b) (jr_requirements request)))"

definition candidate_ok ::
    "(real \<Rightarrow> real) \<Rightarrow> ('n, 'cid) ReputationClient \<Rightarrow> BidEvaluatorConfig \<Rightarrow> 'cid JobRequest \<Rightarrow> u64
      \<Rightarrow> 'cid Bid \<times> 'cid ReputationProfile \<Rightarrow> bool" where
  "candidate_ok fl cl cfg request max_p x \<longleftrightarrow>
     has_sufficient_mana request (snd x) \<and> 0 \<le> candidate_score fl cl cfg request max_p x"

definition selected ::
    "(real \<Rightarrow> real) \<Rightarrow> (real \<Rightarrow> string) \<Rightarrow> ('n, 'cid) ReputationClient \<Rightarrow> BidEvaluatorConfig \<Rightarrow> 'cid JobRequest \<Rightarrow> u64
      \<Rightarrow> 'cid Bid \<times> 'cid ReputationProfile \<Rightarrow> 'cid Bid \<times> real \<times> string" where
  "selected fl f64_str cl cfg request max_p x =
     (fst x, candidate_score fl cl cfg request max_p x,
      ''selected_by_reputation_score_'' @ f64_str (candidate_score fl cl cfg request max_p x))"

lemma reputation_loop_best:
  "reputation_loop fl f64_str cl cfg request max_p now n (map_option (selected fl f64_str cl cfg request max_p) best) bs =
     (case fetch_all cl now n bs of
        (Inl e, n') \<Rightarrow> (Inl (ReputationServiceError e), n')
      | (Inr ps, n') \<Rightarrow> (Inr (map_option (selected fl f64_str cl cfg request max_p)
          (first_best (candidate_ok fl cl cfg request max_p) (candidate_score fl cl cfg request max_p) best (zip bs ps))), n'))"
proof (induction bs arbitrary: n best)
  case Nil
  then show ?case by simp
next
  case (Cons b bs)
  obtain r n' where f: "fetch_profile cl n (bidder b) = (r, n')" by (cases "fetch_profile cl n (bidder b)")
  show ?case
  proof (cases r)
    case (Inl e)
    with f show ?thesis by simp
  next
    case (Inr found)
    define x where "x = (b, case found of Some p \<Rightarrow> p | None \<Rightarrow> default_profile now (bidder b))"
    define best' where "best' =
      (if candidate_ok fl cl cfg request max_p x \<and>
          (case best of None \<Rightarrow> True | Some y \<Rightarrow> candidate_score fl cl cfg request max_p y < candidate_score fl cl cfg request max_p x)
       then Some x else best)"
    have step: "reputation_loop fl f64_str cl cfg request max_p now n (map_option (selected fl f64_str cl cfg request max_p) best) (b # bs) =
        reputation_loop fl f64_str cl cfg request max_p now n' (map_option (selected fl f64_str cl cfg request max_p) best') bs"
      using f Inr by (cases best)
        (auto simp: best'_def x_def selected_def candidate_ok_def candidate_score_def Let_def split: if_splits option.splits)
    have cons: "first_best (candidate_ok fl cl cfg request max_p) (candidate_score fl cl cfg request max_p) best (x # xs) =
        first_best (candidate_ok fl cl cfg request max_p) (candidate_score fl cl cfg request max_p) best' xs" for xs
      by (simp add: best'_def)
    have all: "fetch_all cl now n (b # bs) =
        (case fetch_all cl now n' bs of (Inl e, n'') \<Rightarrow> (Inl e, n'') | (Inr ps, n'') \<Rightarrow> (Inr (snd x # ps), n''))"
      using f Inr by (simp add: x_def split: prod.split sum.split)
    have "b = fst x" by (simp add: x_def)
    then show ?thesis
      unfolding step Cons.IH all by (auto simp: cons simp del: first_best.simps(2) split: prod.split sum.split)
  qed
qed

lemma reputation_select_best:
  assumes "bids \<noteq> []"
  shows "reputation_select fl f64_str cl cfg request now n bids =
     (case fetch_all cl now n bids of
        (Inl e, n') \<Rightarrow> (Inl (ReputationServiceError e), n')
      | (Inr ps, n') \<Rightarrow> (Inr (map_option (selected fl f64_str cl cfg request (Max (price ` set bids)))
          (first_best (candidate_ok fl cl cfg request (Max (price ` set bids)))
            (candidate_score fl cl cfg request (Max (price ` set bids))) None (zip bids ps))), n'))"
  using assms reputation_loop_best [of fl f64_str cl cfg request "Max (price ` set bids)" now n None bids]
  by (simp add: reputation_select_def)

section \<open>The evaluator configuration of the service\<close>

text \<open>The weights the request handlers of \<open>main.rs\<close> use.\<close>

definition service_bid_config :: "(real \<Rightarrow> real) \<Rightarrow> BidEvaluatorConfig" where
  "service_bid_config fl = \<lparr>weight_price = fl (4 / 10), weight_resources = fl (2 / 10), weight_reputation = fl (3 / 10),
     weight_timeliness = fl (1 / 10)\<rparr>"

definition stable_client ::
    "(real \<Rightarrow> real) \<Rightarrow> (did \<Rightarrow> 'cid ReputationProfile option) \<Rightarrow> ('n, 'cid) ReputationClient" where
  "stable_client fl known = \<lparr>fetch_profile = (\<lambda>n nd. (Inr (known nd), n)), bid_score = calculate_bid_score fl\<rparr>"

section \<open>Properties\<close>

text \<open>the price and the default selector choose a best bid.  The price selector returns nothing only without
  bids, and otherwise a bid no other undercuts, with score 1; the default selector returns nothing exactly when no
  bid scores above zero, and otherwise a bid that meets the job's resource requirements, with its own score, which
  no other bid exceeds.  A bid that arrives later displaces the winner only when it is strictly better.\<close>

lemma selectors_choose_best:
  "(case lowest_price_select u64_str bids of
      None \<Rightarrow> bids = []
    | Some (w, s, _) \<Rightarrow> w \<in> set bids \<and> s = 1 \<and> (\<forall>c\<in>set bids. price w \<le> price c)) \<and>
   (case default_select fl rw pw request bids of
      None \<Rightarrow> \<forall>c\<in>set bids. calculate_bid_selection_score fl c request rw pw \<le> 0
    | Some (w, s, _) \<Rightarrow>
        w \<in> set bids \<and> meets_requirements (bid_resources w) (jr_requirements request) \<and>
        s = calculate_bid_selection_score fl w request rw pw \<and> 0 < s \<and>
        (\<forall>c\<in>set bids. calculate_bid_selection_score fl c request rw pw \<le> s)) \<and>
   (\<forall>w s r. default_select fl rw pw request bids = Some (w, s, r) \<and> calculate_bid_selection_score fl late request rw pw \<le> s
      \<longrightarrow> default_select fl rw pw request (bids @ [late]) = Some (w, s, r))"
proof (intro conjI)
  show "case lowest_price_select u64_str bids of None \<Rightarrow> bids = []
    | Some (w, s, _) \<Rightarrow> w \<in> set bids \<and> s = 1 \<and> (\<forall>c\<in>set bids. price w \<le> price c)"
    using best.pick_spec [where ok = "\<lambda>_. True" and key = "\<lambda>b. - uint (price b)" and xs = bids]
    by (auto simp: lowest_price_best word_le_def split: option.splits)
  let ?sc = "\<lambda>b. calculate_bid_selection_score fl b request rw pw"
  have "0 < ?sc w \<Longrightarrow> meets_requirements (bid_resources w) (jr_requirements request)" for w
    by (simp add: calculate_bid_selection_score_def split: if_splits)
  then show "case default_select fl rw pw request bids of
      None \<Rightarrow> \<forall>c\<in>set bids. ?sc c \<le> 0
    | Some (w, s, _) \<Rightarrow> w \<in> set bids \<and> meets_requirements (bid_resources w) (jr_requirements request) \<and>
        s = ?sc w \<and> 0 < s \<and> (\<forall>c\<in>set bids. ?sc c \<le> s)"
    using best.pick_spec [where ok = "\<lambda>b. 0 < ?sc b" and key = ?sc and xs = bids]
    by (force simp: default_best not_less split: option.splits)
  show "\<forall>w s r. default_select fl rw pw request bids = Some (w, s, r) \<and> ?sc late \<le> s
      \<longrightarrow> default_select fl rw pw request (bids @ [late]) = Some (w, s, r)"
    using best.later_not_better [where ok = "\<lambda>b. 0 < ?sc b" and key = ?sc and xs = bids] by (auto simp: default_best)
qed

definition demo_requirements :: JobRequirements where
  "demo_requirements = \<lparr>cpu_cores = 1, memory_mb = 1, storage_gb = 0, req_max_price = 100, required_mana = None,
     req_mana_cost = None\<rparr>"

definition demo_bid :: "did \<Rightarrow> u64 \<Rightarrow> nat Bid" where
  "demo_bid nd p = \<lparr>bid_id = Some 1, bid_job_id = 7, bidder = nd, price = p, bid_resources = demo_requirements,
     bid_data = \<lparr>est_cpu = 1, est_memory_mb = 1, est_storage_mb = 0\<rparr>, reputation_score = None\<rparr>"

definition demo_request :: "nat JobRequest" where
  "demo_request = \<lparr>jr_job_id = 7, jr_params = MeshJobParams_default, jr_requirements = demo_requirements,
     jr_originator = ''did:key:o'', jr_execution_policy = None\<rparr>"

lemma selectors_choose_best_witness:
  "lowest_price_select (\<lambda>_. []) [demo_bid ''a'' 9, demo_bid ''b'' 4] = Some (demo_bid ''b'' 4, 1, ''lowest_price_'') \<and>
   (\<forall>c\<in>set [demo_bid ''a'' 9, demo_bid ''b'' 4]. price (demo_bid ''b'' 4) \<le> price c) \<and>
   default_select (\<lambda>x. x) 1 0 demo_request ([demo_bid ''a'' 9] @ [demo_bid ''b'' 4]) =
     Some (demo_bid ''a'' 9, 1 / 2, ''default_scoring'')"
proof -
  have low: "lowest_price_select (\<lambda>_. []) [demo_bid ''a'' 9, demo_bid ''b'' 4] =
      Some (demo_bid ''b'' 4, 1, ''lowest_price_'')"
    by (simp add: lowest_price_select_def demo_bid_def Let_def)
  have sc: "calculate_bid_selection_score (\<lambda>x. x) (demo_bid nd p) demo_request 1 0 = 1 / 2" for nd p
    by (simp add: calculate_bid_selection_score_def meets_requirements_def demo_bid_def demo_request_def
        DEFAULT_REPUTATION_SCORE_NORMALIZED_def)
  have "default_select (\<lambda>x. x) 1 0 demo_request [demo_bid ''a'' 9] = Some (demo_bid ''a'' 9, 1 / 2, ''default_scoring'')"
    by (simp add: default_select_def sc Let_def)
  with low sc selectors_choose_best [where u64_str = "\<lambda>_. []" and bids = "[demo_bid ''a'' 9, demo_bid ''b'' 4]" and fl = "\<lambda>x. x"
      and rw = 1 and pw = 0 and request = demo_request and late = "demo_bid ''b'' 4"]
    selectors_choose_best [where u64_str = "\<lambda>_. []" and bids = "[demo_bid ''a'' 9]" and fl = "\<lambda>x. x"
      and rw = 1 and pw = 0 and request = demo_request and late = "demo_bid ''b'' 4"]
  show ?thesis by simp
qed

lemma length_fetch_all: "fetch_all cl now n bids = (Inr ps, n') \<Longrightarrow> length ps = length bids"
  by (induction bids arbitrary: n n' ps) (auto split: prod.splits sum.splits)

text \<open>reputation-based selection.  The selector fails exactly with the first error of the reputation client.
  Otherwise every bidder's profile was fetched (the neutral profile standing in for a missing one), and the result
  is nothing exactly when no bid has the required mana and a non-negative score, or else a bid that has both, with
  its score, which no acceptable bid exceeds.\<close>

lemma reputation_select_spec:
  assumes "reputation_select fl f64_str cl cfg request now n bids = (res, n')"
  shows "case res of
      Inl e \<Rightarrow> \<exists>c. e = ReputationServiceError c \<and> fetch_all cl now n bids = (Inl c, n')
    | Inr sel \<Rightarrow> \<exists>ps. fetch_all cl now n bids = (Inr ps, n') \<and> length ps = length bids \<and>
        (case sel of
           None \<Rightarrow> \<forall>x\<in>set (zip bids ps). \<not> candidate_ok fl cl cfg request (Max (price ` set bids)) x
         | Some (w, s, _) \<Rightarrow> \<exists>p. (w, p) \<in> set (zip bids ps) \<and> has_sufficient_mana request p \<and> 0 \<le> s \<and>
             s = candidate_score fl cl cfg request (Max (price ` set bids)) (w, p) \<and>
             (\<forall>x\<in>set (zip bids ps). candidate_ok fl cl cfg request (Max (price ` set bids)) x \<longrightarrow>
               candidate_score fl cl cfg request (Max (price ` set bids)) x \<le> s))"
proof (cases "bids = []")
  case True
  with assms show ?thesis by (auto simp: reputation_select_def)
next
  case False
  let ?mx = "Max (price ` set bids)"
  obtain r m where f: "fetch_all cl now n bids = (r, m)" by (cases "fetch_all cl now n bids")
  show ?thesis
  proof (cases r)
    case (Inl c)
    with f assms reputation_select_best [OF False, of fl f64_str cl cfg request now n] show ?thesis by auto
  next
    case (Inr ps)
    with f assms reputation_select_best [OF False, of fl f64_str cl cfg request now n]
    have res: "res = Inr (map_option (selected fl f64_str cl cfg request ?mx)
        (first_best (candidate_ok fl cl cfg request ?mx) (candidate_score fl cl cfg request ?mx) None (zip bids ps)))"
      and "n' = m" by auto
    with f Inr length_fetch_all [of cl now n bids ps n']
      best.pick_spec [where ok = "candidate_ok fl cl cfg request ?mx" and key = "candidate_score fl cl cfg request ?mx"
        and xs = "zip bids ps"]
    show ?thesis by (auto simp: selected_def candidate_ok_def split: option.splits)
  qed
qed

lemma reputation_select_spec_witness:
  "\<exists>ps. fetch_all (stable_client (\<lambda>x. x) (\<lambda>_. None)) 0 () [demo_bid ''a'' 9] = (Inr ps, ()) \<and> length ps = 1"
proof -
  let ?cl = "stable_client (\<lambda>x. x) (\<lambda>_. None) :: (unit, nat) ReputationClient"
  let ?cfg = "service_bid_config (\<lambda>x. x)"
  have "fst (reputation_select (\<lambda>x. x) (\<lambda>_. []) ?cl ?cfg demo_request 0 () [demo_bid ''a'' 9]) \<noteq> Inl e" for e
    by (simp add: reputation_select_def stable_client_def Let_def)
  then obtain sel where "reputation_select (\<lambda>x. x) (\<lambda>_. []) ?cl ?cfg demo_request 0 () [demo_bid ''a'' 9] = (Inr sel, ())"
    by (cases "reputation_select (\<lambda>x. x) (\<lambda>_. []) ?cl ?cfg demo_request 0 () [demo_bid ''a'' 9]" rule: prod.exhaust;
        cases "fst (reputation_select (\<lambda>x. x) (\<lambda>_. []) ?cl ?cfg demo_request 0 () [demo_bid ''a'' 9])") auto
  from reputation_select_spec [OF this] show ?thesis by auto
qed

lemma min_reputation_filter_spec:
  fixes bids :: "'cid Bid list"
  shows "min_reputation_filter cl min_rep n bids = (Inr kept, n') \<Longrightarrow>
     \<exists>ps :: 'cid ReputationProfile option list. length ps = length bids \<and>
       kept = map fst (filter (\<lambda>x. meets_minimum min_rep (snd x)) (zip bids ps))"
proof (induction bids arbitrary: n n' kept)
  case Nil
  then show ?case by simp
next
  case (Cons b bs)
  from Cons.prems obtain found n1 kept' where "fetch_profile cl n (bidder b) = (Inr found, n1)"
    and rest: "min_reputation_filter cl min_rep n1 bs = (Inr kept', n')"
    and kept: "kept = (if meets_minimum min_rep found then b # kept' else kept')"
    by (auto split: prod.splits sum.splits)
  from Cons.IH [OF rest] obtain ps :: "'cid ReputationProfile option list" where "length ps = length bs"
    "kept' = map fst (filter (\<lambda>x. meets_minimum min_rep (snd x)) (zip bs ps))"
    by blast
  with kept show ?case by (intro exI [of _ "found # ps"]) simp
qed

lemma score_bids_spec:
  fixes bids :: "'cid Bid list"
  shows "score_bids fl cl cfg request n bids = (scored, n') \<Longrightarrow>
     subseq (map fst scored) bids \<and>
     (\<forall>(b, s)\<in>set scored. \<exists>p :: 'cid ReputationProfile. s = service_bid_score fl cfg p (normalize_price fl (price b) (req_max_price (jr_requirements request)))
       (service_resource_match fl (bid_resources b) (jr_requirements request)))"
proof (induction bids arbitrary: n n' scored)
  case Nil
  then show ?case by simp
next
  case (Cons b bs)
  obtain r n1 where f: "fetch_profile cl n (bidder b) = (r, n1)" by (cases "fetch_profile cl n (bidder b)")
  obtain rest n2 where rest: "score_bids fl cl cfg request n1 bs = (rest, n2)" by (cases "score_bids fl cl cfg request n1 bs")
  show ?case
  proof (cases "\<exists>p. r = Inr (Some p)")
    case True
    then obtain p where r: "r = Inr (Some p)" by blast
    with Cons.prems f rest Cons.IH [OF rest] show ?thesis by (auto simp: Let_def)
  next
    case False
    then have "score_bids fl cl cfg request n (b # bs) = (rest, n2)"
      using f rest by (auto split: sum.split option.split)
    with Cons.prems Cons.IH [OF rest] show ?thesis by auto
  qed
qed

text \<open>\<open>evaluate_bids\<close> ranks the bids.  Its result is the scored bids ordered by decreasing score (bids of equal
  score in the order in which they came), each a distinct submitted bid with the weighted score of some profile of
  its bidder; bids whose profile is missing or cannot be fetched are left out.\<close>

lemma evaluate_bids_ranks:
  fixes bids :: "'cid Bid list"
  assumes "evaluate_bids fl cl cfg request n bids = (ranked, n')"
  shows "\<exists>scored. score_bids fl cl cfg request n bids = (scored, n') \<and> subseq (map fst scored) bids \<and>
      mset ranked = mset scored \<and> sorted_wrt (\<lambda>x y. snd y \<le> snd x) ranked \<and>
      (\<forall>s. filter (\<lambda>x. snd x = s) ranked = filter (\<lambda>x. snd x = s) scored) \<and>
      (\<forall>(b, s)\<in>set ranked. b \<in> set bids \<and> (\<exists>p :: 'cid ReputationProfile. s = service_bid_score fl cfg p
        (normalize_price fl (price b) (req_max_price (jr_requirements request)))
        (service_resource_match fl (bid_resources b) (jr_requirements request))))"
proof -
  obtain scored m where sc: "score_bids fl cl cfg request n bids = (scored, m)"
    by (cases "score_bids fl cl cfg request n bids")
  with assms have r: "ranked = sort_key (\<lambda>x. - snd x) scored" "n' = m" by (auto simp: evaluate_bids_def)
  have "sorted (map (\<lambda>x. - snd x) ranked)" unfolding r by (rule sorted_sort_key)
  then have "sorted_wrt (\<lambda>x y. snd y \<le> snd x) ranked" by (simp add: sorted_map)
  moreover have "filter (\<lambda>x. snd x = s) ranked = filter (\<lambda>x. snd x = s) scored" for s
    using sort_key_stable [of "\<lambda>x. - snd x" "- s" scored] unfolding r by simp
  moreover have "b \<in> set bids" if "(b, s) \<in> set ranked" for b s
  proof -
    from that have "b \<in> set (map fst scored)" by (force simp: r)
    moreover from score_bids_spec [OF sc] have "subseq (map fst scored) bids" by blast
    ultimately show ?thesis by (metis set_nths_subset subseq_conv_nths subsetD)
  qed
  ultimately show ?thesis using sc r score_bids_spec [OF sc] by auto
qed

definition demo_client :: "(unit, nat) ReputationClient" where
  "demo_client = stable_client (\<lambda>x. x) (\<lambda>d. if d = ''c'' then None else Some (default_profile 0 d))"

definition demo_bids :: "nat Bid list" where
  "demo_bids = [demo_bid ''a'' 9, demo_bid ''c'' 1, demo_bid ''b'' 4]"

lemma evaluate_bids_ranks_witness:
  "map fst (fst (score_bids (\<lambda>x. x) demo_client (service_bid_config (\<lambda>x. x)) demo_request () demo_bids)) =
      [demo_bid ''a'' 9, demo_bid ''b'' 4] \<and>
    mset (fst (evaluate_bids (\<lambda>x. x) demo_client (service_bid_config (\<lambda>x. x)) demo_request () demo_bids)) =
      mset (fst (score_bids (\<lambda>x. x) demo_client (service_bid_config (\<lambda>x. x)) demo_request () demo_bids))"
proof
  show "map fst (fst (score_bids (\<lambda>x. x) demo_client (service_bid_config (\<lambda>x. x)) demo_request () demo_bids)) =
      [demo_bid ''a'' 9, demo_bid ''b'' 4]"
    by (simp add: demo_client_def demo_bids_def stable_client_def demo_bid_def Let_def)
  obtain ranked u where r: "evaluate_bids (\<lambda>x. x) demo_client (service_bid_config (\<lambda>x. x)) demo_request () demo_bids = (ranked, u)"
    by (rule prod.exhaust)
  from evaluate_bids_ranks [OF r] r
  show "mset (fst (evaluate_bids (\<lambda>x. x) demo_client (service_bid_config (\<lambda>x. x)) demo_request () demo_bids)) =
      mset (fst (score_bids (\<lambda>x. x) demo_client (service_bid_config (\<lambda>x. x)) demo_request () demo_bids))"
    by (elim exE conjE) (simp only: fst_conv)
qed

lemma compute_score_range: "0 \<le> compute_score fl ln_f p \<and> compute_score fl ln_f p \<le> 10"
  by (simp add: compute_score_def Let_def)

lemma unknown_scores_higher:
  assumes "computed_score p = compute_score fl ln_f q" "jobs_on_time p \<le> successful_jobs p"
  shows "calculate_bid_score (\<lambda>x. x) (service_bid_config (\<lambda>x. x)) p np rm <
    calculate_bid_score (\<lambda>x. x) (service_bid_config (\<lambda>x. x)) (default_profile now nd) np rm"
proof -
  have "real (unat (jobs_on_time p)) / real (unat (successful_jobs p)) \<le> 1"
    using assms(2) unfolding word_le_nat_alt divide_le_eq_1 by linarith
  then have "timeliness_score (\<lambda>x. x) p \<le> 1" by (simp add: timeliness_score_def)
  moreover have "computed_score p \<le> 10" using assms(1) compute_score_range [of fl ln_f q] by simp
  ultimately show ?thesis
    by (simp add: calculate_bid_score_def service_bid_config_def default_profile_def timeliness_score_def Let_def)
qed

lemma default_score_nonneg:
  "0 \<le> calculate_bid_score (\<lambda>x. x) (service_bid_config (\<lambda>x. x)) (default_profile now nd)
    (normalized_bid_price (\<lambda>x. x) m m) (calculate_resource_match (\<lambda>x. x) est req)"
proof -
  have "normalized_bid_price (\<lambda>x. x) m m \<le> 1" by (simp add: normalized_bid_price_def)
  moreover have "0 \<le> calculate_resource_match (\<lambda>x. x) est req"
    by (simp add: calculate_resource_match_def clamp_def Let_def)
  ultimately show ?thesis
    by (simp add: calculate_bid_score_def service_bid_config_def default_profile_def timeliness_score_def Let_def)
qed

text \<open>a flaw of the reputation scale.  Profiles carry the score of \<open>compute_score\<close>, which lies between 0 and 10,
  but the evaluator divides it by 100 and gives a bidder without a profile the score 50.  So, in exact arithmetic
  and with the service's own weights, of two bids with the same price and resources the reputation selector prefers
  the bidder it knows nothing about to every bidder with a record, even the best possible one, in either order of
  arrival.\<close>

lemma unknown_bidder_preferred:
  fixes p :: "'cid ReputationProfile"
  assumes "known (bidder a) = Some p" "known (bidder b) = None" "price a = price b" "bid_data a = bid_data b"
    and "required_mana (jr_requirements request) = None"
    and p: "computed_score p = compute_score fl ln_f q" "jobs_on_time p \<le> successful_jobs p"
    and bids: "bids = [a, b] \<or> bids = [b, a]"
  shows "\<exists>s r. fst (reputation_select (\<lambda>x. x) f64_str (stable_client (\<lambda>x. x) known) (service_bid_config (\<lambda>x. x))
    request now n bids) = Inr (Some (b, s, r))"
proof -
  let ?score = "\<lambda>p. calculate_bid_score (\<lambda>x. x) (service_bid_config (\<lambda>x. x)) p
    (normalized_bid_price (\<lambda>x. x) (price b) (price b)) (calculate_resource_match (\<lambda>x. x) (bid_data b) (jr_requirements request))"
  define u where "u = (default_profile now (bidder b) :: 'cid ReputationProfile)"
  have less: "?score p < ?score u" unfolding u_def by (rule unknown_scores_higher [OF p])
  then have "\<not> ?score u < ?score p" by simp
  moreover have "\<not> ?score u < 0" unfolding u_def using default_score_nonneg by (simp add: not_less)
  ultimately show ?thesis using bids less assms(1-5)
    by (elim disjE) (auto simp: u_def stable_client_def reputation_select_def has_sufficient_mana_def Let_def)
qed

definition demo_veteran :: "nat ReputationProfile" where
  "demo_veteran = default_profile 0 ''veteran''\<lparr>successful_jobs := 9, jobs_on_time := 9,
     computed_score := compute_score (\<lambda>x. x) (\<lambda>x. x) (default_profile 0 [] :: nat ReputationProfile)\<rparr>"

lemma unknown_bidder_preferred_witness:
  "\<exists>s r. fst (reputation_select (\<lambda>x. x) (\<lambda>_. [])
      (stable_client (\<lambda>x. x) (\<lambda>d. if d = ''veteran'' then Some demo_veteran else None))
      (service_bid_config (\<lambda>x. x)) demo_request 0 () [demo_bid ''veteran'' 5, demo_bid ''stranger'' 5]) =
    Inr (Some (demo_bid ''stranger'' 5, s, r))"
  by (rule unknown_bidder_preferred [where a = "demo_bid ''veteran'' 5" and p = demo_veteran and fl = "\<lambda>x. x"
        and ln_f = "\<lambda>x. x" and q = "default_profile 0 [] :: nat ReputationProfile"])
    (simp_all add: demo_bid_def demo_request_def demo_requirements_def demo_veteran_def)

end
