(* ===== verification/Job_Store.thy ===== *)
theory Job_Store
  imports Bid_Selection
begin

text \<open>
  The stores of the mesh job service and its error type: \<open>storage.rs\<close>, \<open>sqlite_store.rs\<close> and \<open>error.rs\<close> under
  \<open>crates/services/icn-mesh-jobs/src\<close>.

  The SQLite tables are lists of rows in the order of insertion; \<open>job_id\<close> is the primary key of \<open>jobs\<close>, as in the
  schema under \<open>migrations\<close>.  The status columns are those of \<open>to_db_fields\<close> in \<open>Jobs\<close>.  JSON, SHA-256 and the text of
  CIDs and identities are parameters (\<open>job_codec\<close>).  A broadcast channel is the list of the bids sent on it; sending
  never fails here, since a missing receiver is only logged.  The in-memory store keeps the status type of
  \<open>icn_types::mesh\<close> with the \<open>Assigned\<close> status it assigns.
\<close>

section \<open>Errors\<close>

datatype AppError =
    Internal string
  | NotFound string
  | InvalidInput string
  | Database string
  | Forbidden string
  | BadRequest string
  | Serialization string
  | InvalidCid string
  | InvalidStatusTransition string
  | AppReputationError ReputationClientError
  | SelectionFailure SelectionError
  | P2pError string

definition client_error_display :: "(nat \<Rightarrow> string) \<Rightarrow> ReputationClientError \<Rightarrow> string" where
  "client_error_display status_str e = (case e of
     Network s \<Rightarrow> ''Network error while communicating with reputation service: '' @ s
   | Http st msg \<Rightarrow> ''Reputation service returned HTTP error '' @ status_str st @ '': '' @ msg
   | Deserialization s \<Rightarrow> ''Failed to deserialize response from reputation service: '' @ s
   | ClientBuild s \<Rightarrow> ''Failed to build HTTP client for reputation service: '' @ s)"

text \<open>The HTTP status and the text of the \<open>error\<close> member of the JSON body.\<close>

definition into_response :: "(nat \<Rightarrow> string) \<Rightarrow> AppError \<Rightarrow> nat \<times> string" where
  "into_response status_str err = (case err of
     Internal _ \<Rightarrow> (500, ''Internal server error'')
   | Forbidden msg \<Rightarrow> (403, msg)
   | BadRequest msg \<Rightarrow> (400, msg)
   | NotFound msg \<Rightarrow> (404, msg)
   | Database _ \<Rightarrow> (500, ''A database error occurred'')
   | InvalidInput msg \<Rightarrow> (400, msg)
   | Serialization _ \<Rightarrow> (500, ''Internal server error during data serialization'')
   | InvalidCid msg \<Rightarrow> (400, ''Invalid CID: '' @ msg)
   | InvalidStatusTransition msg \<Rightarrow> (400, msg)
   | AppReputationError _ \<Rightarrow> (502, ''Error communicating with reputation service'')
   | SelectionFailure e \<Rightarrow>
       (case e of
          ReputationServiceError r_err \<Rightarrow>
            (502, ''Failed to select executor: problem with reputation service: '' @ client_error_display status_str r_err)
        | SelectionInternal reason \<Rightarrow> (500, ''Failed to select executor: internal error: '' @ reason))
   | P2pError _ \<Rightarrow> (500, ''P2P interaction failed''))"

section \<open>Codecs\<close>

record 'cid job_codec =
  cid_str :: "'cid \<Rightarrow> string"
  cid_of :: "string \<Rightarrow> string + 'cid"
  mk_cid :: "bytes \<Rightarrow> 'cid"
  sha256 :: "bytes \<Rightarrow> bytes"
  json_request :: "'cid JobRequest \<Rightarrow> string + bytes"
  json_payload :: "MeshJobParams \<times> JobRequirements \<Rightarrow> did \<Rightarrow> string + bytes"
  params_str :: "MeshJobParams \<times> JobRequirements \<Rightarrow> string + string"
  params_of :: "string \<Rightarrow> string + MeshJobParams \<times> JobRequirements"
  res_str :: "JobRequirements \<times> ResourceEstimate \<Rightarrow> string + string"
  res_of :: "string \<Rightarrow> string + JobRequirements \<times> ResourceEstimate"
  reason_str :: "JobFailureReason \<Rightarrow> string + string"
  reason_of :: "string \<Rightarrow> string + JobFailureReason"
  parse_did :: "string \<Rightarrow> DidError + did"
  did_err_str :: "DidError \<Rightarrow> string"
  bid_id_str :: "u64 \<Rightarrow> string"

definition generate_job_cid :: "'cid job_codec \<Rightarrow> 'cid JobRequest \<Rightarrow> AppError + 'cid" where
  "generate_job_cid cd req =
     bind_result (map_err Serialization (json_request cd req)) (\<lambda>serialized.
       Inr (mk_cid cd (sha256 cd (sha256 cd serialized))))"

section \<open>The SQLite store\<close>

record JobRow =
  row_job_id :: string
  row_owner_did :: string
  row_requirements_json :: string
  row_status :: db_fields

record DbBidRow =
  br_id :: u64
  br_job_id :: string
  br_bidder_did :: string
  br_price :: "64 word"
  br_resources_json :: string
  br_reputation_score :: "real option"

record 'cid SqliteStore =
  jobs_table :: "JobRow list"
  bids_table :: "DbBidRow list"
  bid_broadcasters :: "(string, 'cid Bid list) hmap"

definition SqliteStore_new :: "'cid SqliteStore" where
  "SqliteStore_new = \<lparr>jobs_table = [], bids_table = [], bid_broadcasters = []\<rparr>"

definition find_row :: "'cid SqliteStore \<Rightarrow> string \<Rightarrow> JobRow option" where
  "find_row st jid = find (\<lambda>r. row_job_id r = jid) (jobs_table st)"

definition sql_insert_job ::
    "'cid job_codec \<Rightarrow> 'cid JobRequest \<Rightarrow> 'cid SqliteStore \<Rightarrow> (AppError + 'cid) \<times> 'cid SqliteStore" where
  "sql_insert_job cd req st =
     (case bind_result (generate_job_cid cd req) (\<lambda>job_cid.
             bind_result (map_err (\<lambda>e. Serialization (''Failed to serialize job params: '' @ e))
                 (params_str cd (jr_params req, jr_requirements req))) (\<lambda>js.
               Inr (job_cid, js))) of
        Inl e \<Rightarrow> (Inl e, st)
      | Inr (job_cid, js) \<Rightarrow>
          if find_row st (cid_str cd job_cid) \<noteq> None then (Inl (Database ''UNIQUE constraint failed: jobs.job_id''), st)
          else (Inr job_cid, st\<lparr>jobs_table := jobs_table st @
            [\<lparr>row_job_id = cid_str cd job_cid, row_owner_did = jr_originator req, row_requirements_json = js,
              row_status = (''Pending'', None, None, None, None)\<rparr>]\<rparr>))"

definition decode_row :: "'cid job_codec \<Rightarrow> 'cid \<Rightarrow> JobRow \<Rightarrow> AppError + 'cid JobRequest \<times> JobStatus" where
  "decode_row cd jid row =
     bind_result (map_err (\<lambda>e. Serialization (''Failed to deserialize job params for job '' @ cid_str cd jid @ '': '' @ e))
         (params_of cd (row_requirements_json row))) (\<lambda>(params, reqs).
       bind_result (map_err (\<lambda>e. InvalidInput (''Stored owner_did '' @ row_owner_did row @ '' is not a valid DID: '' @
           did_err_str cd e)) (parse_did cd (row_owner_did row))) (\<lambda>originator.
         bind_result (map_err (\<lambda>e. Internal (''Invalid job status in DB for job '' @ cid_str cd jid @ '': '' @ e))
             (from_db_fields (parse_did cd) (did_err_str cd) (reason_of cd) (row_status row))) (\<lambda>status.
           Inr (\<lparr>jr_job_id = jid, jr_params = params, jr_requirements = reqs, jr_originator = originator,
             jr_execution_policy = None\<rparr>, status))))"

definition sql_get_job :: "'cid job_codec \<Rightarrow> 'cid SqliteStore \<Rightarrow> 'cid \<Rightarrow> AppError + ('cid JobRequest \<times> JobStatus) option" where
  "sql_get_job cd st jid =
     (case find_row st (cid_str cd jid) of
        Some row \<Rightarrow> bind_result (decode_row cd jid row) (\<lambda>x. Inr (Some x))
      | None \<Rightarrow> Inr None)"

fun status_filter_text :: "MeshJobStatus \<Rightarrow> string" where
  "status_filter_text MeshInProgress = ''InProgress''"
| "status_filter_text MeshCompleted = ''Completed''"
| "status_filter_text MeshFailed = ''Failed''"
| "status_filter_text MeshCancelled = ''Cancelled''"

fun collect_results :: "('e + 'a) list \<Rightarrow> 'e + 'a list" where
  "collect_results [] = Inr []"
| "collect_results (r # rs) = bind_result r (\<lambda>a. bind_result (collect_results rs) (\<lambda>as. Inr (a # as)))"

definition sql_list_jobs :: "'cid job_codec \<Rightarrow> 'cid SqliteStore \<Rightarrow> MeshJobStatus option \<Rightarrow> AppError + 'cid list" where
  "sql_list_jobs cd st status_filter =
     collect_results (map (\<lambda>r. map_err (\<lambda>e. InvalidCid (''Invalid job_id '' @ row_job_id r @ '' from DB: '' @ e))
         (cid_of cd (row_job_id r)))
       (filter (\<lambda>r. case status_filter of None \<Rightarrow> True | Some f \<Rightarrow> fst (row_status r) = status_filter_text f)
         (jobs_table st)))"

definition sql_update_job_status ::
    "'cid job_codec \<Rightarrow> 'cid \<Rightarrow> JobStatus \<Rightarrow> 'cid SqliteStore \<Rightarrow> (AppError + unit) \<times> 'cid SqliteStore" where
  "sql_update_job_status cd jid new_status st =
     (if find_row st (cid_str cd jid) = None then
        (Inl (NotFound (''Job with ID '' @ cid_str cd jid @ '' not found for status update'')), st)
      else (Inr (), st\<lparr>jobs_table := map (\<lambda>r. if row_job_id r = cid_str cd jid
               then r\<lparr>row_status := to_db_fields (reason_str cd) new_status\<rparr> else r) (jobs_table st)\<rparr>))"

definition next_bid_id :: "'cid SqliteStore \<Rightarrow> u64" where
  "next_bid_id st = word_of_nat (length (bids_table st) + 1)"

definition sql_insert_bid ::
    "'cid job_codec \<Rightarrow> 'cid \<Rightarrow> 'cid Bid \<Rightarrow> 'cid SqliteStore \<Rightarrow> (AppError + unit) \<times> 'cid SqliteStore" where
  "sql_insert_bid cd jid bid st =
     (case map_err (\<lambda>e. Serialization (''Failed to serialize bid data: '' @ e)) (res_str cd (bid_resources bid, bid_data bid)) of
        Inl e \<Rightarrow> (Inl e, st)
      | Inr js \<Rightarrow>
          (Inr (), st\<lparr>bids_table := bids_table st @
             [\<lparr>br_id = next_bid_id st, br_job_id = cid_str cd jid, br_bidder_did = bidder bid, br_price = price bid,
               br_resources_json = js, br_reputation_score = None\<rparr>],
             bid_broadcasters := (case hget (bid_broadcasters st) (cid_str cd jid) of
                 Some sent \<Rightarrow> hinsert (bid_broadcasters st) (cid_str cd jid) (sent @ [bid])
               | None \<Rightarrow> bid_broadcasters st)\<rparr>))"

definition decode_bid :: "'cid job_codec \<Rightarrow> 'cid \<Rightarrow> DbBidRow \<Rightarrow> AppError + 'cid Bid" where
  "decode_bid cd jid row =
     bind_result (map_err (\<lambda>e. InvalidInput (''Stored bidder_did '' @ br_bidder_did row @ '' is not a valid DID: '' @
         did_err_str cd e)) (parse_did cd (br_bidder_did row))) (\<lambda>bd.
       bind_result (map_err (\<lambda>e. Serialization (''Failed to deserialize bid data for bid_id '' @ bid_id_str cd (br_id row) @ '': '' @ e))
           (res_of cd (br_resources_json row))) (\<lambda>(res, est).
         Inr \<lparr>bid_id = Some (br_id row), bid_job_id = jid, bidder = bd, price = br_price row, bid_resources = res,
           bid_data = est, reputation_score = br_reputation_score row\<rparr>))"

definition sql_list_bids :: "'cid job_codec \<Rightarrow> 'cid SqliteStore \<Rightarrow> 'cid \<Rightarrow> AppError + 'cid Bid list" where
  "sql_list_bids cd st jid =
     collect_results (map (decode_bid cd jid) (filter (\<lambda>r. br_job_id r = cid_str cd jid) (bids_table st)))"

definition sql_subscribe_to_bids :: "'cid job_codec \<Rightarrow> 'cid SqliteStore \<Rightarrow> 'cid \<Rightarrow> 'cid Bid list option" where
  "sql_subscribe_to_bids cd st jid = (case hget (bid_broadcasters st) (cid_str cd jid) of Some _ \<Rightarrow> Some [] | None \<Rightarrow> None)"

definition sql_assign_job ::
    "'cid job_codec \<Rightarrow> 'cid \<Rightarrow> did \<Rightarrow> 'cid SqliteStore \<Rightarrow> (AppError + unit) \<times> 'cid SqliteStore" where
  "sql_assign_job cd jid bd st = sql_update_job_status cd jid (Assigned bd) st"

section \<open>The in-memory store\<close>

datatype MemStatus = InProgress | MemCompleted | MemFailed | MemCancelled | MemAssigned did

record 'cid InMemoryStore =
  mem_jobs :: "(string, 'cid JobRequest \<times> MemStatus) hmap"
  mem_bids :: "(string, 'cid Bid list) hmap"
  mem_broadcasters :: "(string, 'cid Bid list) hmap"

definition InMemoryStore_new :: "'cid InMemoryStore" where
  "InMemoryStore_new = \<lparr>mem_jobs = [], mem_bids = [], mem_broadcasters = []\<rparr>"

definition mem_insert_job ::
    "'cid job_codec \<Rightarrow> 'cid JobRequest \<Rightarrow> 'cid InMemoryStore \<Rightarrow> (AppError + 'cid) \<times> 'cid InMemoryStore" where
  "mem_insert_job cd req st =
     (case generate_job_cid cd req of
        Inl e \<Rightarrow> (Inl e, st)
      | Inr job_cid \<Rightarrow> (Inr job_cid, st\<lparr>mem_jobs := hinsert (mem_jobs st) (cid_str cd job_cid) (req, InProgress)\<rparr>))"

definition mem_get_job :: "'cid job_codec \<Rightarrow> 'cid InMemoryStore \<Rightarrow> 'cid \<Rightarrow> AppError + ('cid JobRequest \<times> MemStatus) option" where
  "mem_get_job cd st jid = Inr (hget (mem_jobs st) (cid_str cd jid))"

definition mem_list_jobs :: "'cid job_codec \<Rightarrow> 'cid InMemoryStore \<Rightarrow> MemStatus option \<Rightarrow> AppError + 'cid list" where
  "mem_list_jobs cd st status_filter =
     collect_results (map (\<lambda>(jid, _). map_err (\<lambda>e. InvalidCid (''Stored job_id '' @ jid @ '' is not a valid CID: '' @ e)) (cid_of cd jid))
       (filter (\<lambda>(_, _, status). case status_filter of None \<Rightarrow> True | Some f \<Rightarrow> status = f) (mem_jobs st)))"

definition mem_update_job_status ::
    "'cid job_codec \<Rightarrow> (MemStatus \<Rightarrow> string) \<Rightarrow> 'cid \<Rightarrow> MemStatus \<Rightarrow> 'cid InMemoryStore \<Rightarrow> (AppError + unit) \<times> 'cid InMemoryStore" where
  "mem_update_job_status cd status_disp jid new_status st =
     (case hget (mem_jobs st) (cid_str cd jid) of
        Some (req, current) \<Rightarrow>
          if current = InProgress then
            (Inr (), st\<lparr>mem_jobs := hinsert (mem_jobs st) (cid_str cd jid) (req, new_status)\<rparr>)
          else (Inl (InvalidStatusTransition (''Invalid status transition from '' @ status_disp current @ '' to '' @
            status_disp new_status)), st)
      | None \<Rightarrow> (Inl (NotFound (''Job not found: '' @ cid_str cd jid)), st))"

definition mem_assign_job ::
    "'cid job_codec \<Rightarrow> (MemStatus \<Rightarrow> string) \<Rightarrow> 'cid \<Rightarrow> did \<Rightarrow> 'cid InMemoryStore \<Rightarrow> (AppError + unit) \<times> 'cid InMemoryStore" where
  "mem_assign_job cd status_disp jid bd st =
     (case hget (mem_jobs st) (cid_str cd jid) of
        Some (req, current) \<Rightarrow>
          if current = InProgress then
            (Inr (), st\<lparr>mem_jobs := hinsert (mem_jobs st) (cid_str cd jid) (req, MemAssigned bd)\<rparr>)
          else (Inl (InvalidStatusTransition (''Job cannot be assigned in current state: '' @ status_disp current)), st)
      | None \<Rightarrow> (Inl (NotFound (''Job not found: '' @ cid_str cd jid)), st))"

definition get_or_create_broadcaster :: "string \<Rightarrow> 'cid InMemoryStore \<Rightarrow> 'cid InMemoryStore" where
  "get_or_create_broadcaster jid st =
     (case hget (mem_broadcasters st) jid of
        Some _ \<Rightarrow> st
      | None \<Rightarrow> st\<lparr>mem_broadcasters := hinsert (mem_broadcasters st) jid []\<rparr>)"

definition mem_insert_bid ::
    "'cid job_codec \<Rightarrow> 'cid \<Rightarrow> 'cid Bid \<Rightarrow> 'cid InMemoryStore \<Rightarrow> (AppError + unit) \<times> 'cid InMemoryStore" where
  "mem_insert_bid cd jid bid st =
     (let k = cid_str cd jid;
          st' = st\<lparr>mem_bids := hinsert (mem_bids st) k (hget_or [] (mem_bids st) k @ [bid])\<rparr>;
          st'' = get_or_create_broadcaster k st'
      in (Inr (), st''\<lparr>mem_broadcasters := hinsert (mem_broadcasters st'') k (hget_or [] (mem_broadcasters st'') k @ [bid])\<rparr>))"

definition mem_list_bids :: "'cid job_codec \<Rightarrow> 'cid InMemoryStore \<Rightarrow> 'cid \<Rightarrow> AppError + 'cid Bid list" where
  "mem_list_bids cd st jid = Inr (hget_or [] (mem_bids st) (cid_str cd jid))"

definition mem_subscribe_to_bids :: "'cid job_codec \<Rightarrow> 'cid InMemoryStore \<Rightarrow> 'cid \<Rightarrow> 'cid Bid list option" where
  "mem_subscribe_to_bids cd st jid = (case hget (mem_broadcasters st) (cid_str cd jid) of Some _ \<Rightarrow> Some [] | None \<Rightarrow> None)"

definition mem_list_jobs_for_worker ::
    "'cid job_codec \<Rightarrow> 'cid InMemoryStore \<Rightarrow> did \<Rightarrow> ('cid \<times> 'cid JobRequest \<times> MemStatus) list" where
  "mem_list_jobs_for_worker cd st worker =
     List.map_filter (\<lambda>(jid, req, status).
       case status of
         MemAssigned bd \<Rightarrow> if bd = worker then (case cid_of cd jid of Inr c \<Rightarrow> Some (c, req, status) | Inl _ \<Rightarrow> None) else None
       | _ \<Rightarrow> None) (mem_jobs st)"

section \<open>What a store promises\<close>

text \<open>The trait \<open>MeshJobStore\<close>: \<open>status\<close> reads the recorded status of a job, \<open>enc\<close> is how the store records one, and
  \<open>offers\<close> are the bidders and prices of the bids for a job.\<close>

locale mesh_job_store =
  fixes insert_job :: "'cid JobRequest \<Rightarrow> 's \<Rightarrow> (AppError + 'cid) \<times> 's"
    and update_job_status :: "'cid \<Rightarrow> 'st \<Rightarrow> 's \<Rightarrow> (AppError + unit) \<times> 's"
    and assign_job :: "'cid \<Rightarrow> did \<Rightarrow> 's \<Rightarrow> (AppError + unit) \<times> 's"
    and insert_bid :: "'cid \<Rightarrow> 'cid Bid \<Rightarrow> 's \<Rightarrow> (AppError + unit) \<times> 's"
    and status :: "'s \<Rightarrow> 'cid \<Rightarrow> 'col option"
    and offers :: "'s \<Rightarrow> 'cid \<Rightarrow> (did \<times> u64) list"
    and enc :: "'st \<Rightarrow> 'col"
    and assigned :: "did \<Rightarrow> 'st"
    and initial :: "'col"
    and key :: "'cid \<Rightarrow> string"
  assumes insert_job_ok: "insert_job req s = (Inr j, s') \<Longrightarrow>
      status s' = (\<lambda>k. if key k = key j then Some initial else status s k) \<and> offers s' = offers s"
    and insert_job_err: "insert_job req s = (Inl e, s') \<Longrightarrow> s' = s"
    and update_ok: "update_job_status j st s = (Inr (), s') \<Longrightarrow>
      status s j \<noteq> None \<and> status s' = (\<lambda>k. if key k = key j then Some (enc st) else status s k) \<and> offers s' = offers s"
    and update_err: "update_job_status j st s = (Inl e, s') \<Longrightarrow> s' = s"
    and assign_ok: "assign_job j d s = (Inr (), s') \<Longrightarrow>
      status s j \<noteq> None \<and> status s' = (\<lambda>k. if key k = key j then Some (enc (assigned d)) else status s k) \<and> offers s' = offers s"
    and assign_err: "assign_job j d s = (Inl e, s') \<Longrightarrow> s' = s"
    and bid_ok: "insert_bid j b s = (Inr (), s') \<Longrightarrow>
      status s' = status s \<and>
      offers s' = (\<lambda>k. if key k = key j then offers s k @ [(bidder b, price b)] else offers s k)"
    and bid_err: "insert_bid j b s = (Inl e, s') \<Longrightarrow> s' = s"
begin

text \<open>Jobs never disappear, and bids are never lost or reordered.\<close>

definition keeps where
  "keeps s s' \<longleftrightarrow> (\<forall>j. status s j \<noteq> None \<longrightarrow> status s' j \<noteq> None) \<and> (\<forall>j. prefix (offers s j) (offers s' j))"

lemma keeps_refl: "keeps s s"
  by (simp add: keeps_def)

lemma keeps_trans: "keeps s s' \<Longrightarrow> keeps s' s'' \<Longrightarrow> keeps s s''"
  unfolding keeps_def by (blast intro: prefix_order.trans)

lemma keepsI: "status s' = (\<lambda>k. if key k = key j then Some c else status s k) \<and> offers s' = offers s \<Longrightarrow> keeps s s'"
  by (simp add: keeps_def)

lemma insert_job_keeps: "insert_job req s = (r, s') \<Longrightarrow> keeps s s'"
  by (cases r) (metis insert_job_err keeps_refl, metis insert_job_ok keepsI)

lemma update_keeps: "update_job_status j st s = (r, s') \<Longrightarrow> keeps s s'"
  by (cases r) (metis update_err keeps_refl, metis update_ok keepsI old.unit.exhaust)

lemma assign_keeps: "assign_job j d s = (r, s') \<Longrightarrow> keeps s s'"
  by (cases r) (metis assign_err keeps_refl, metis assign_ok keepsI old.unit.exhaust)

lemma insert_bid_keeps:
  assumes "insert_bid j b s = (r, s')"
  shows "keeps s s'"
proof (cases r)
  case (Inl e)
  with assms have "s' = s" by (simp add: bid_err)
  then show ?thesis by (simp add: keeps_refl)
next
  case (Inr u)
  with assms bid_ok [of j b s s'] show ?thesis by (simp add: keeps_def)
qed

end

definition row_columns :: "'cid job_codec \<Rightarrow> 'cid SqliteStore \<Rightarrow> 'cid \<Rightarrow> db_fields option" where
  "row_columns cd st jid = map_option row_status (find_row st (cid_str cd jid))"

definition row_offers :: "'cid job_codec \<Rightarrow> 'cid SqliteStore \<Rightarrow> 'cid \<Rightarrow> (did \<times> u64) list" where
  "row_offers cd st jid = map (\<lambda>r. (br_bidder_did r, br_price r)) (filter (\<lambda>r. br_job_id r = cid_str cd jid) (bids_table st))"

definition mem_status :: "'cid job_codec \<Rightarrow> 'cid InMemoryStore \<Rightarrow> 'cid \<Rightarrow> MemStatus option" where
  "mem_status cd st jid = map_option snd (hget (mem_jobs st) (cid_str cd jid))"

definition mem_offers :: "'cid job_codec \<Rightarrow> 'cid InMemoryStore \<Rightarrow> 'cid \<Rightarrow> (did \<times> u64) list" where
  "mem_offers cd st jid = map (\<lambda>b. (bidder b, price b)) (hget_or [] (mem_bids st) (cid_str cd jid))"

lemma find_append: "find P (xs @ ys) = (case find P xs of None \<Rightarrow> find P ys | Some x \<Rightarrow> Some x)"
  by (induction xs) auto

lemma find_map_rows: "find (\<lambda>r. row_job_id r = jid) (map (\<lambda>r. if row_job_id r = k then r\<lparr>row_status := c\<rparr> else r) rows) =
    map_option (\<lambda>r. if row_job_id r = k then r\<lparr>row_status := c\<rparr> else r) (find (\<lambda>r. row_job_id r = jid) rows)"
  by (induction rows) auto

definition set_columns :: "'cid job_codec \<Rightarrow> 'cid \<Rightarrow> db_fields \<Rightarrow> 'cid SqliteStore \<Rightarrow> 'cid SqliteStore" where
  "set_columns cd j c st =
     st\<lparr>jobs_table := map (\<lambda>r. if row_job_id r = cid_str cd j then r\<lparr>row_status := c\<rparr> else r) (jobs_table st)\<rparr>"

lemma row_columns_update:
  assumes "find_row st (cid_str cd j) \<noteq> None"
  shows "row_columns cd (set_columns cd j c st) k = (if cid_str cd k = cid_str cd j then Some c else row_columns cd st k)"
proof (cases "find_row st (cid_str cd k)")
  case None
  with assms have "cid_str cd k \<noteq> cid_str cd j" by auto
  with None show ?thesis by (simp add: row_columns_def find_row_def find_map_rows set_columns_def)
next
  case (Some r)
  then have "row_job_id r = cid_str cd k" by (auto simp: find_row_def find_Some_iff)
  with Some show ?thesis by (simp add: row_columns_def find_row_def find_map_rows set_columns_def)
qed

lemma sql_update_result:
  "sql_update_job_status cd j new st =
     (if find_row st (cid_str cd j) = None then
        (Inl (NotFound (''Job with ID '' @ cid_str cd j @ '' not found for status update'')), st)
      else (Inr (), set_columns cd j (to_db_fields (reason_str cd) new) st))"
  by (simp add: sql_update_job_status_def set_columns_def)

lemma sql_update_columns:
  assumes "sql_update_job_status cd j new st = (Inr (), st')"
  shows "row_columns cd st j \<noteq> None \<and>
     row_columns cd st' = (\<lambda>k. if cid_str cd k = cid_str cd j then Some (to_db_fields (reason_str cd) new) else row_columns cd st k) \<and>
     row_offers cd st' = row_offers cd st"
proof -
  from assms have row: "find_row st (cid_str cd j) \<noteq> None"
    and st': "st' = set_columns cd j (to_db_fields (reason_str cd) new) st"
    by (simp_all add: sql_update_result split: if_splits)
  have "row_offers cd st' = row_offers cd st" by (rule ext) (simp add: st' row_offers_def set_columns_def)
  moreover have "row_columns cd st j \<noteq> None" using row by (simp add: row_columns_def)
  ultimately show ?thesis unfolding st' by (simp add: row_columns_update [OF row] fun_eq_iff)
qed

lemma sql_update_error: "sql_update_job_status cd j new st = (Inl e, st') \<Longrightarrow> st' = st"
  by (simp add: sql_update_result split: if_splits)

interpretation sql_store: mesh_job_store "sql_insert_job cd" "sql_update_job_status cd" "sql_assign_job cd" "sql_insert_bid cd"
    "row_columns cd" "row_offers cd" "to_db_fields (reason_str cd)" Assigned "(''Pending'', None, None, None, None)" "cid_str cd"
  for cd
proof unfold_locales
  fix req s j s'
  assume "sql_insert_job cd req s = (Inr j, s')"
  then show "row_columns cd s' = (\<lambda>k. if cid_str cd k = cid_str cd j then Some (''Pending'', None, None, None, None) else row_columns cd s k) \<and>
      row_offers cd s' = row_offers cd s"
    by (auto simp: sql_insert_job_def row_columns_def row_offers_def find_row_def find_append fun_eq_iff
        split: sum.splits prod.splits if_splits option.splits)
next
  fix j b s s'
  assume "sql_insert_bid cd j b s = (Inr (), s')"
  then show "row_columns cd s' = row_columns cd s \<and>
      row_offers cd s' = (\<lambda>k. if cid_str cd k = cid_str cd j then row_offers cd s k @ [(bidder b, price b)] else row_offers cd s k)"
    by (auto simp: sql_insert_bid_def row_columns_def row_offers_def find_row_def fun_eq_iff split: sum.splits)
qed (simp add: sql_insert_job_def split: sum.splits prod.splits if_splits,
    rule sql_update_columns, assumption, rule sql_update_error, assumption,
    rule sql_update_columns, simp add: sql_assign_job_def, rule sql_update_error, simp add: sql_assign_job_def,
    simp add: sql_insert_bid_def split: sum.splits)

interpretation mem_store: mesh_job_store "mem_insert_job cd" "mem_update_job_status cd sd" "mem_assign_job cd sd" "mem_insert_bid cd"
    "mem_status cd" "mem_offers cd" "\<lambda>st. st" MemAssigned InProgress "cid_str cd" for cd sd
  by unfold_locales
    (auto simp: mem_insert_job_def mem_update_job_status_def mem_assign_job_def mem_insert_bid_def mem_status_def
      mem_offers_def get_or_create_broadcaster_def hm.get_insert hget_or_insert fun_eq_iff Let_def
      split: sum.splits prod.splits if_splits option.splits)

end
