(* ===== verification/Job_Service.thy ===== *)
theory Job_Service
  imports Job_Store
begin

text \<open>
  The request handlers of the mesh job service, \<open>crates/services/icn-mesh-jobs/src/main.rs\<close>, over the SQLite store.

  A handler is a function of the request and the state (the store and the network of the reputation service); its
  result is the error, or what the response carries.  The node that is told of an assignment, the text of numbers
  and of a status, and the clock are parameters of \<open>service_env\<close>.  The request body is already parsed.  Websockets,
  metrics and the server loop are left out.

  A handler runs here without another in between.  The code takes no lock and opens no transaction over a handler: it
  reads the status, waits for other services, and writes.  \<open>Job_Concurrency\<close> splits the handlers at these points and
  interleaves them.
\<close>

section \<open>Requests\<close>

record 'cid JobCompletionDetails =
  execution_duration_ms :: u32
  cd_bid_accuracy :: real
  cd_on_time :: bool
  result_anchor_cid :: "'cid option"

record 'cid JobFailureDetails =
  fail_reason :: string
  failure_anchor_cid :: "'cid option"

record RuntimeJobFailureReport =
  reporting_node_did :: did
  report_reason :: JobFailureReason

text \<open>A header value: absent, present but not text, or text.\<close>

type_synonym header = "(unit + string) option"

datatype 'cid request =
    CreateJob "MeshJobParams \<times> JobRequirements" did
  | SubmitBid string "'cid Bid"
  | BeginBidding string
  | AssignBestBid string
  | StartJob string header
  | CompleteJob string header "'cid JobCompletionDetails"
  | FailJob string header "'cid JobFailureDetails"
  | ReportFailure string RuntimeJobFailureReport

datatype 'cid response =
    Created 'cid
  | Accepted
  | OkStatus
  | AssignedTo 'cid did u64 real string

record ('cid, 'n) service_env =
  codec :: "'cid job_codec"
  rep_svc :: "('n, 'cid) rep_service"
  fl64 :: "real \<Rightarrow> real"
  f64_text :: "real \<Rightarrow> string"
  u64_text :: "u64 \<Rightarrow> string"
  status_text :: "JobStatus \<Rightarrow> string"
  error_text :: "AppError \<Rightarrow> string"
  reputation_url :: string
  now_secs :: u64
  p2p_assign :: "('cid \<Rightarrow> did \<Rightarrow> string + unit) option"

record ('cid, 'n) service_state =
  store :: "'cid SqliteStore"
  net :: 'n

type_synonym ('cid, 'n) outcome = "(AppError + 'cid response) \<times> ('cid, 'n) service_state"

definition MESH_JOBS_SYSTEM_DID :: did where
  "MESH_JOBS_SYSTEM_DID = ''did:icn:system:mesh-jobs''"

definition ascii_lowercase :: "string \<Rightarrow> string" where
  "ascii_lowercase t = map (\<lambda>c. let n = (of_char c :: nat) in if 65 \<le> n \<and> n \<le> 90 then char_of (n + 32) else c) t"

definition parse_job_status :: "string option \<Rightarrow> JobStatus option" where
  "parse_job_status s = (case s of
     None \<Rightarrow> None
   | Some t \<Rightarrow> (let l = ascii_lowercase t
       in if l = ''pending'' then Some Pending else if l = ''bidding'' then Some Bidding else None))"

definition generate_job_cid_from_payload ::
    "'cid job_codec \<Rightarrow> MeshJobParams \<times> JobRequirements \<Rightarrow> did \<Rightarrow> AppError + 'cid" where
  "generate_job_cid_from_payload cd params originator =
     bind_result (map_err (\<lambda>e. Internal (''Failed to serialize job data for CID generation: '' @ e))
       (json_payload cd params originator)) (\<lambda>bs. Inr (mk_cid cd (sha256 cd bs)))"

section \<open>Handlers\<close>

definition create_job ::
    "('cid, 'n) service_env \<Rightarrow> MeshJobParams \<times> JobRequirements \<Rightarrow> did \<Rightarrow> ('cid, 'n) service_state \<Rightarrow> ('cid, 'n) outcome" where
  "create_job env params originator s =
     (case generate_job_cid_from_payload (codec env) params originator of
        Inl e \<Rightarrow> (Inl e, s)
      | Inr jid \<Rightarrow>
          (case sql_insert_job (codec env) \<lparr>jr_job_id = jid, jr_params = fst params, jr_requirements = snd params,
               jr_originator = originator, jr_execution_policy = None\<rparr> (store s) of
             (Inl e, st) \<Rightarrow> (Inl e, s\<lparr>store := st\<rparr>)
           | (Inr _, st) \<Rightarrow> (Inr (Created jid), s\<lparr>store := st\<rparr>)))"

definition path_cid :: "('cid, 'n) service_env \<Rightarrow> (string \<Rightarrow> AppError) \<Rightarrow> string \<Rightarrow> AppError + 'cid" where
  "path_cid env err jid_str = map_err err (cid_of (codec env) jid_str)"

definition load_job :: "('cid, 'n) service_env \<Rightarrow> 'cid SqliteStore \<Rightarrow> 'cid \<Rightarrow> string \<Rightarrow> AppError + 'cid JobRequest \<times> JobStatus" where
  "load_job env st jid missing = bind_result (sql_get_job (codec env) st jid) (\<lambda>j. ok_or j (NotFound missing))"

definition get_job ::
    "('cid, 'n) service_env \<Rightarrow> string \<Rightarrow> ('cid, 'n) service_state \<Rightarrow> AppError + 'cid JobRequest \<times> JobStatus" where
  "get_job env jid_str s =
     bind_result (path_cid env (\<lambda>e. InvalidCid (''Invalid Job ID format for get_job: '' @ [CHR 0x27] @ jid_str @ [CHR 0x27] @ ''. Error: '' @ e)) jid_str)
       (\<lambda>jid. load_job env (store s) jid (''Job with ID '' @ cid_str (codec env) jid @ '' not found''))"

definition submit_bid ::
    "('cid, 'n) service_env \<Rightarrow> string \<Rightarrow> 'cid Bid \<Rightarrow> ('cid, 'n) service_state \<Rightarrow> ('cid, 'n) outcome" where
  "submit_bid env jid_str bid_req s =
     (case path_cid env (\<lambda>e. InvalidCid (''Invalid Job ID format for submit_bid: '' @ jid_str @ '' - '' @ e)) jid_str of
        Inl e \<Rightarrow> (Inl e, s)
      | Inr jid \<Rightarrow>
          if bid_job_id bid_req \<noteq> jid then
            (Inl (BadRequest ''Job ID in path does not match Job ID in bid payload''), s)
          else
            (case get_reputation_score (rep_svc env) (net s) (bidder bid_req) (reputation_url env) of
               (answer, n') \<Rightarrow>
                 let bid = bid_req\<lparr>reputation_score := (case answer of Inr score \<Rightarrow> score | Inl _ \<Rightarrow> None)\<rparr> in
                 (case sql_insert_bid (codec env) jid bid (store s) of
                    (Inl e, st) \<Rightarrow> (Inl e, s\<lparr>store := st, net := n'\<rparr>)
                  | (Inr _, st) \<Rightarrow> (Inr Accepted, s\<lparr>store := st, net := n'\<rparr>))))"

definition begin_bidding_handler ::
    "('cid, 'n) service_env \<Rightarrow> string \<Rightarrow> ('cid, 'n) service_state \<Rightarrow> ('cid, 'n) outcome" where
  "begin_bidding_handler env jid_str s =
     (case path_cid env (\<lambda>e. InvalidCid (''Invalid Job ID format for begin_bidding: '' @ jid_str @ '' - '' @ e)) jid_str of
        Inl e \<Rightarrow> (Inl e, s)
      | Inr jid \<Rightarrow>
          (case load_job env (store s) jid (''Job not found: '' @ cid_str (codec env) jid) of
             Inl e \<Rightarrow> (Inl e, s)
           | Inr (_, current) \<Rightarrow>
               if current = Pending then
                 (case sql_update_job_status (codec env) jid Bidding (store s) of
                    (Inl e, st) \<Rightarrow> (Inl e, s\<lparr>store := st\<rparr>)
                  | (Inr _, st) \<Rightarrow> (Inr OkStatus, s\<lparr>store := st\<rparr>))
               else if current = Bidding then (Inr OkStatus, s)
               else (Inl (InvalidStatusTransition (''Job '' @ cid_str (codec env) jid @ '' is in status '' @
                 status_text env current @ '' and cannot be moved to Bidding state.'')), s)))"

text \<open>The client of a selection: the service behind a cache that is empty when the selection starts.\<close>

definition service_client ::
    "('cid, 'n) service_env \<Rightarrow> ('n \<times> 'cid ReputationProfile profile_cache, 'cid) ReputationClient" where
  "service_client env = \<lparr>
     fetch_profile = (\<lambda>(n, cache) nd.
       case default_fetch_profile (rep_svc env) (reputation_url env) n nd of
         (answer, n') \<Rightarrow>
           (case caching_fetch_profile DEFAULT_CACHE_TTL (\<lambda>_ _. answer) 0 cache nd of
              (r, cache') \<Rightarrow> (r, (if get_cached_profile DEFAULT_CACHE_TTL 0 cache nd = None then n' else n, cache')))),
     bid_score = calculate_bid_score (fl64 env)\<rparr>"

definition select_bid ::
    "('cid, 'n) service_env \<Rightarrow> 'cid JobRequest \<Rightarrow> 'n \<Rightarrow> 'cid Bid list \<Rightarrow> (SelectionError + 'cid selection) \<times> 'n" where
  "select_bid env request n bids =
     (let pol = (case jr_execution_policy request of Some p \<Rightarrow> p | None \<Rightarrow> SelectionPolicy_default (fl64 env));
          (r, m) = (case sp_selection_strategy pol of
             LowestPrice \<Rightarrow> (Inr (lowest_price_select (u64_text env) bids), (n, []))
           | ReputationStrategy \<Rightarrow>
               reputation_select (fl64 env) (f64_text env) (service_client env) (service_bid_config (fl64 env)) request
                 (now_secs env) (n, []) bids
           | HybridStrategy \<Rightarrow>
               hybrid_select (fl64 env) (f64_text env) (u64_text env) (service_client env) pol request (now_secs env) (n, []) bids)
      in (r, fst m))"

definition assign_winner ::
    "('cid, 'n) service_env \<Rightarrow> 'cid \<Rightarrow> 'cid Bid \<times> real \<times> string \<Rightarrow> ('cid, 'n) service_state \<Rightarrow> ('cid, 'n) outcome" where
  "assign_winner env jid w s =
     (case w of (winning_bid, winning_score, reason) \<Rightarrow>
       (case bid_id winning_bid of
          None \<Rightarrow> (Inl (Internal ''Winning bid has no ID''), s)
        | Some winning_bid_id \<Rightarrow>
            (case sql_assign_job (codec env) jid (bidder winning_bid) (store s) of
               (Inl e, st) \<Rightarrow> (Inl e, s\<lparr>store := st\<rparr>)
             | (Inr _, st) \<Rightarrow>
                 (case (case p2p_assign env of None \<Rightarrow> Inr () | Some notify \<Rightarrow> notify jid (bidder winning_bid)) of
                    Inl e \<Rightarrow> (Inl (P2pError (''Failed to notify P2P mesh for job assignment '' @ cid_str (codec env) jid @ '': '' @ e)),
                      s\<lparr>store := st\<rparr>)
                  | Inr _ \<Rightarrow> (Inr (AssignedTo jid (bidder winning_bid) winning_bid_id winning_score reason), s\<lparr>store := st\<rparr>)))))"

definition assign_best_bid_handler ::
    "('cid, 'n) service_env \<Rightarrow> string \<Rightarrow> ('cid, 'n) service_state \<Rightarrow> ('cid, 'n) outcome" where
  "assign_best_bid_handler env jid_str s =
     (case path_cid env (\<lambda>e. InvalidCid (''Invalid job ID format for assign_best_bid: '' @ jid_str @ '' - '' @ e)) jid_str of
        Inl e \<Rightarrow> (Inl e, s)
      | Inr jid \<Rightarrow>
          (case load_job env (store s) jid (''Job with ID '' @ jid_str @ '' not found'') of
             Inl e \<Rightarrow> (Inl e, s)
           | Inr (job_request, current) \<Rightarrow>
               if current \<noteq> Bidding then
                 (Inl (BadRequest (''Job '' @ jid_str @ '' is not in Bidding state, currently: '' @ status_text env current)), s)
               else
                 (case sql_list_bids (codec env) (store s) jid of
                    Inl e \<Rightarrow> (Inl e, s)
                  | Inr bids \<Rightarrow>
                      if bids = [] then (Inl (NotFound (''No bids found for job '' @ jid_str)), s)
                      else
                        (case select_bid env job_request (net s) bids of
                           (Inl e, n') \<Rightarrow> (Inl (SelectionFailure e), s\<lparr>net := n'\<rparr>)
                         | (Inr None, n') \<Rightarrow> (Inl (NotFound (''No acceptable bid found for job '' @ jid_str)), s\<lparr>net := n'\<rparr>)
                         | (Inr (Some w), n') \<Rightarrow> assign_winner env jid w (s\<lparr>net := n'\<rparr>)))))"

definition worker_did :: "header \<Rightarrow> AppError + did" where
  "worker_did h =
     bind_result (ok_or h (BadRequest ''Missing X-Worker-DID header''))
       (map_err (\<lambda>_. BadRequest ''Invalid X-Worker-DID header format''))"

definition start_job_handler ::
    "('cid, 'n) service_env \<Rightarrow> string \<Rightarrow> header \<Rightarrow> ('cid, 'n) service_state \<Rightarrow> ('cid, 'n) outcome" where
  "start_job_handler env jid_str headers s =
     (case bind_result (path_cid env (\<lambda>e. BadRequest (''Invalid Job ID format: '' @ jid_str @ '' - '' @ e)) jid_str) (\<lambda>jid.
             bind_result (worker_did headers) (\<lambda>worker.
               bind_result (map_err (\<lambda>e. Internal (error_text env e)) (sql_get_job (codec env) (store s) jid)) (\<lambda>found.
                 bind_result (ok_or found (NotFound (''Job not found: '' @ cid_str (codec env) jid))) (\<lambda>(_, current).
                   Inr (jid, worker, current))))) of
        Inl e \<Rightarrow> (Inl e, s)
      | Inr (jid, worker, current) \<Rightarrow>
          (case current of
             Assigned bd \<Rightarrow>
               if bd \<noteq> worker then (Inl (Forbidden ''Worker DID does not match assigned bidder DID''), s)
               else
                 (case sql_update_job_status (codec env) jid (Running bd) (store s) of
                    (Inl e, st) \<Rightarrow> (Inl (Internal (error_text env e)), s\<lparr>store := st\<rparr>)
                  | (Inr _, st) \<Rightarrow> (Inr OkStatus, s\<lparr>store := st\<rparr>))
           | Running _ \<Rightarrow> (Inl (BadRequest (''Job '' @ cid_str (codec env) jid @ '' is already running.'')), s)
           | _ \<Rightarrow> (Inl (BadRequest (''Job '' @ cid_str (codec env) jid @ '' cannot be started from its current state: '' @
               status_text env current @ ''.'')), s)))"

text \<open>What completing and failing a job share: the path, the header, the job and its runner.\<close>

definition running_job ::
    "('cid, 'n) service_env \<Rightarrow> string \<Rightarrow> string \<Rightarrow> header \<Rightarrow> ('cid, 'n) service_state \<Rightarrow> AppError + 'cid \<times> did" where
  "running_job env what jid_str headers s =
     bind_result (path_cid env (\<lambda>e. InvalidCid (''Invalid Job ID format for mark_job_'' @ what @ '': '' @ jid_str @ '' - '' @ e)) jid_str)
       (\<lambda>jid. bind_result (worker_did headers) (\<lambda>worker.
         bind_result (load_job env (store s) jid (''Job not found: '' @ cid_str (codec env) jid)) (\<lambda>(_, current).
           case current of
             Running runner \<Rightarrow>
               if runner \<noteq> worker then Inl (Forbidden ''Worker DID does not match job runner DID'') else Inr (jid, runner)
           | _ \<Rightarrow> Inl (InvalidStatusTransition (''Job '' @ cid_str (codec env) jid @ '' not in Running state, cannot mark '' @ what @
               ''. Current state: '' @ status_text env current @ ''.'')))))"

definition finish_job ::
    "('cid, 'n) service_env \<Rightarrow> 'cid \<Rightarrow> 'cid EventRecord \<Rightarrow> JobStatus \<Rightarrow> ('cid, 'n) service_state \<Rightarrow> ('cid, 'n) outcome" where
  "finish_job env jid record final s =
     (case submit_reputation_record (rep_svc env) (net s) record (reputation_url env) of
        (Inl e, n') \<Rightarrow> (Inl (AppReputationError e), s\<lparr>net := n'\<rparr>)
      | (Inr _, n') \<Rightarrow>
          (case sql_update_job_status (codec env) jid final (store s) of
             (Inl e, st) \<Rightarrow> (Inl e, s\<lparr>store := st, net := n'\<rparr>)
           | (Inr _, st) \<Rightarrow> (Inr OkStatus, s\<lparr>store := st, net := n'\<rparr>)))"

definition completion_record ::
    "('cid, 'n) service_env \<Rightarrow> 'cid \<Rightarrow> did \<Rightarrow> 'cid JobCompletionDetails \<Rightarrow> 'cid EventRecord" where
  "completion_record env jid runner details =
     \<lparr>er_timestamp = now_secs env, er_issuer = MESH_JOBS_SYSTEM_DID, er_subject = runner,
      er_event = JobCompletedSuccessfully jid (execution_duration_ms details) (cd_bid_accuracy details) (cd_on_time details)
        (result_anchor_cid details) None False,
      er_anchor = result_anchor_cid details, er_signature = None\<rparr>"

definition mark_job_completed_handler ::
    "('cid, 'n) service_env \<Rightarrow> string \<Rightarrow> header \<Rightarrow> 'cid JobCompletionDetails \<Rightarrow> ('cid, 'n) service_state \<Rightarrow> ('cid, 'n) outcome" where
  "mark_job_completed_handler env jid_str headers details s =
     (case running_job env ''completed'' jid_str headers s of
        Inl e \<Rightarrow> (Inl e, s)
      | Inr (jid, runner) \<Rightarrow> finish_job env jid (completion_record env jid runner details) Completed s)"

definition failure_record ::
    "('cid, 'n) service_env \<Rightarrow> 'cid \<Rightarrow> did \<Rightarrow> 'cid JobFailureDetails \<Rightarrow> 'cid EventRecord" where
  "failure_record env jid runner details =
     \<lparr>er_timestamp = now_secs env, er_issuer = MESH_JOBS_SYSTEM_DID, er_subject = runner,
      er_event = JobFailed jid (fail_reason details) (failure_anchor_cid details) False,
      er_anchor = failure_anchor_cid details, er_signature = None\<rparr>"

definition mark_job_failed_handler ::
    "('cid, 'n) service_env \<Rightarrow> string \<Rightarrow> header \<Rightarrow> 'cid JobFailureDetails \<Rightarrow> ('cid, 'n) service_state \<Rightarrow> ('cid, 'n) outcome" where
  "mark_job_failed_handler env jid_str headers details s =
     (case running_job env ''failed'' jid_str headers s of
        Inl e \<Rightarrow> (Inl e, s)
      | Inr (jid, runner) \<Rightarrow>
          finish_job env jid (failure_record env jid runner details) (Failed (Unknown (fail_reason details))) s)"

definition report_runtime_failure_handler ::
    "('cid, 'n) service_env \<Rightarrow> string \<Rightarrow> RuntimeJobFailureReport \<Rightarrow> ('cid, 'n) service_state \<Rightarrow> ('cid, 'n) outcome" where
  "report_runtime_failure_handler env jid_str payload s =
     (case path_cid env (\<lambda>e. InvalidCid (''Invalid Job ID CID format for report: '' @ jid_str @ '', error: '' @ e)) jid_str of
        Inl e \<Rightarrow> (Inl e, s)
      | Inr jid \<Rightarrow>
          (case sql_update_job_status (codec env) jid (Failed (report_reason payload)) (store s) of
             (Inl e, st) \<Rightarrow> (Inl e, s\<lparr>store := st\<rparr>)
           | (Inr _, st) \<Rightarrow> (Inr OkStatus, s\<lparr>store := st\<rparr>)))"

section \<open>The router\<close>

fun handle :: "('cid, 'n) service_env \<Rightarrow> 'cid request \<Rightarrow> ('cid, 'n) service_state \<Rightarrow> ('cid, 'n) outcome" where
  "handle env (CreateJob params originator) s = create_job env params originator s"
| "handle env (SubmitBid j b) s = submit_bid env j b s"
| "handle env (BeginBidding j) s = begin_bidding_handler env j s"
| "handle env (AssignBestBid j) s = assign_best_bid_handler env j s"
| "handle env (StartJob j h) s = start_job_handler env j h s"
| "handle env (CompleteJob j h d) s = mark_job_completed_handler env j h d s"
| "handle env (FailJob j h d) s = mark_job_failed_handler env j h d s"
| "handle env (ReportFailure j r) s = report_runtime_failure_handler env j r s"

section \<open>The life cycle of a job\<close>

text \<open>The status changes a request may cause, with the identities it needs.\<close>

inductive life :: "'cid request \<Rightarrow> JobStatus \<Rightarrow> JobStatus \<Rightarrow> bool" where
  bidding: "life (BeginBidding t) Pending Bidding"
| assigned: "life (AssignBestBid t) Bidding (Assigned d)"
| started: "life (StartJob t (Some (Inr w))) (Assigned w) (Running w)"
| completed: "life (CompleteJob t (Some (Inr w)) details) (Running w) Completed"
| failed: "life (FailJob t (Some (Inr w)) failure) (Running w) (Failed (Unknown (fail_reason failure)))"

fun target :: "'cid request \<Rightarrow> string option" where
  "target (CreateJob p d) = None"
| "target (SubmitBid t b) = Some t"
| "target (BeginBidding t) = Some t"
| "target (AssignBestBid t) = Some t"
| "target (StartJob t h) = Some t"
| "target (CompleteJob t h d) = Some t"
| "target (FailJob t h d) = Some t"
| "target (ReportFailure t r) = Some t"

text \<open>The abstract service: what a request may do to the store.\<close>

inductive job_step :: "'cid job_codec \<Rightarrow> 'cid request \<Rightarrow> 'cid SqliteStore \<Rightarrow> 'cid SqliteStore \<Rightarrow> bool" where
  same: "job_step cd rq st st"
| created: "sql_insert_job cd q st = (Inr j, st') \<Longrightarrow> jr_originator q = d \<Longrightarrow> job_step cd (CreateJob p d) st st'"
| offered: "cid_of cd t = Inr j \<Longrightarrow> bid_job_id b = j \<Longrightarrow>
    sql_insert_bid cd j (b\<lparr>reputation_score := score\<rparr>) st = (Inr (), st') \<Longrightarrow> job_step cd (SubmitBid t b) st st'"
| moved: "target rq = Some t \<Longrightarrow> cid_of cd t = Inr j \<Longrightarrow> sql_get_job cd st j = Inr (Some (q, old)) \<Longrightarrow> life rq old new \<Longrightarrow>
    sql_update_job_status cd j new st = (Inr (), st') \<Longrightarrow> job_step cd rq st st'"
| reported: "cid_of cd t = Inr j \<Longrightarrow> sql_update_job_status cd j (Failed (report_reason r)) st = (Inr (), st') \<Longrightarrow>
    job_step cd (ReportFailure t r) st st'"

lemma load_job_Inr: "load_job env st jid msg = Inr x \<longleftrightarrow> sql_get_job (codec env) st jid = Inr (Some x)"
  by (auto simp: load_job_def bind_result_Inr_iff ok_or_Inr_iff)

lemma path_cid_Inr: "path_cid env f t = Inr j \<longleftrightarrow> cid_of (codec env) t = Inr j"
  by (simp add: path_cid_def)

lemma worker_did_Inr: "worker_did h = Inr w \<longleftrightarrow> h = Some (Inr w)"
  by (cases h) (auto simp: worker_did_def)

lemmas guard_iffs = load_job_Inr path_cid_Inr worker_did_Inr bind_result_Inr_iff ok_or_Inr_iff

lemma update_case:
  "sql_update_job_status cd j new st = (r, st') \<Longrightarrow> (r = Inr () \<or> st' = st)"
  by (auto simp: sql_update_result split: if_splits)

lemma create_job_step: "create_job env p d s = (r, s') \<Longrightarrow> job_step (codec env) (CreateJob p d) (store s) (store s')"
  by (auto simp: create_job_def dest!: sql_store.insert_job_err intro: same created split: sum.splits prod.splits)

lemma submit_bid_step: "submit_bid env t b s = (r, s') \<Longrightarrow> job_step (codec env) (SubmitBid t b) (store s) (store s')"
  by (auto simp: submit_bid_def path_cid_Inr Let_def dest!: sql_store.bid_err intro: same offered
      split: sum.splits prod.splits if_splits)

lemma begin_bidding_step:
  assumes "begin_bidding_handler env t s = (r, s')"
  shows "job_step (codec env) (BeginBidding t) (store s) (store s')"
proof (cases "store s' = store s")
  case True
  then show ?thesis by (simp add: same)
next
  case False
  with assms obtain j q where "cid_of (codec env) t = Inr j" "sql_get_job (codec env) (store s) j = Inr (Some (q, Pending))"
    "sql_update_job_status (codec env) j Bidding (store s) = (Inr (), store s')"
    by (auto simp: begin_bidding_handler_def guard_iffs dest: sql_update_error split: sum.splits prod.splits if_splits)
  then show ?thesis by (intro moved [OF _ _ _ life.bidding]) auto
qed

lemma assign_winner_step:
  "assign_winner env j (w, sc, rs) s = (r, s') \<Longrightarrow> store s' \<noteq> store s \<Longrightarrow>
     sql_update_job_status (codec env) j (Assigned (bidder w)) (store s) = (Inr (), store s')"
  by (auto simp: assign_winner_def sql_assign_job_def dest: sql_update_error split: sum.splits prod.splits option.splits)

lemma assign_best_bid_step:
  assumes "assign_best_bid_handler env t s = (r, s')"
  shows "job_step (codec env) (AssignBestBid t) (store s) (store s')"
proof (cases "store s' = store s")
  case True
  then show ?thesis by (simp add: same)
next
  case False
  with assms obtain j q w sc rs n' where "cid_of (codec env) t = Inr j"
    "sql_get_job (codec env) (store s) j = Inr (Some (q, Bidding))" "assign_winner env j (w, sc, rs) (s\<lparr>net := n'\<rparr>) = (r, s')"
    by (auto simp: assign_best_bid_handler_def guard_iffs split: sum.splits prod.splits if_splits option.splits)
  moreover from this(3) False have "sql_update_job_status (codec env) j (Assigned (bidder w)) (store s) = (Inr (), store s')"
    using assign_winner_step [of env j w sc rs "s\<lparr>net := n'\<rparr>" r s'] by simp
  ultimately show ?thesis by (intro moved [OF _ _ _ life.assigned]) auto
qed

lemma start_job_step:
  assumes "start_job_handler env t h s = (r, s')"
  shows "job_step (codec env) (StartJob t h) (store s) (store s')"
proof (cases "store s' = store s")
  case True
  then show ?thesis by (simp add: same)
next
  case False
  with assms obtain j q w where "cid_of (codec env) t = Inr j" "h = Some (Inr w)"
    "sql_get_job (codec env) (store s) j = Inr (Some (q, Assigned w))"
    "sql_update_job_status (codec env) j (Running w) (store s) = (Inr (), store s')"
    by (auto simp: start_job_handler_def guard_iffs dest: sql_update_error
        split: sum.splits prod.splits if_splits JobStatus.splits)
  then show ?thesis by (auto intro: moved [OF _ _ _ life.started])
qed

lemma runner_case:
  "(case current of Running runner \<Rightarrow> if runner \<noteq> w then Inl a else Inr (j, runner) | _ \<Rightarrow> Inl b) = Inr x \<longleftrightarrow>
     current = Running w \<and> x = (j, w)"
  by (cases current) auto

lemma running_job_Inr:
  "running_job env what t h s = Inr (j, w) \<longleftrightarrow> cid_of (codec env) t = Inr j \<and> h = Some (Inr w) \<and>
     (\<exists>q. sql_get_job (codec env) (store s) j = Inr (Some (q, Running w)))"
  by (auto simp: running_job_def guard_iffs runner_case)

lemma finish_job_step:
  "finish_job env j rec final s = (r, s') \<Longrightarrow> store s' \<noteq> store s \<Longrightarrow>
     sql_update_job_status (codec env) j final (store s) = (Inr (), store s')"
  by (auto simp: finish_job_def dest: sql_update_error split: sum.splits prod.splits)

lemma mark_completed_step:
  assumes "mark_job_completed_handler env t h d s = (r, s')"
  shows "job_step (codec env) (CompleteJob t h d) (store s) (store s')"
proof (cases "store s' = store s")
  case True
  then show ?thesis by (simp add: same)
next
  case False
  with assms obtain j w q where "cid_of (codec env) t = Inr j" "h = Some (Inr w)"
    "sql_get_job (codec env) (store s) j = Inr (Some (q, Running w))"
    "sql_update_job_status (codec env) j Completed (store s) = (Inr (), store s')"
    by (auto simp: mark_job_completed_handler_def running_job_Inr dest: finish_job_step split: sum.splits prod.splits)
  then show ?thesis by (auto intro: moved [OF _ _ _ life.completed])
qed

lemma mark_failed_step:
  assumes "mark_job_failed_handler env t h d s = (r, s')"
  shows "job_step (codec env) (FailJob t h d) (store s) (store s')"
proof (cases "store s' = store s")
  case True
  then show ?thesis by (simp add: same)
next
  case False
  with assms obtain j w q where "cid_of (codec env) t = Inr j" "h = Some (Inr w)"
    "sql_get_job (codec env) (store s) j = Inr (Some (q, Running w))"
    "sql_update_job_status (codec env) j (Failed (Unknown (fail_reason d))) (store s) = (Inr (), store s')"
    by (auto simp: mark_job_failed_handler_def running_job_Inr dest: finish_job_step split: sum.splits prod.splits)
  then show ?thesis by (auto intro: moved [OF _ _ _ life.failed])
qed

lemma report_step:
  "report_runtime_failure_handler env t p s = (r, s') \<Longrightarrow> job_step (codec env) (ReportFailure t p) (store s) (store s')"
  by (auto simp: report_runtime_failure_handler_def path_cid_Inr dest!: sql_update_error intro: same reported
      split: sum.splits prod.splits)

lemmas handler_steps = create_job_step submit_bid_step begin_bidding_step assign_best_bid_step start_job_step
  mark_completed_step mark_failed_step report_step

lemma handle_step: "handle env rq s = (r, s') \<Longrightarrow> job_step (codec env) rq (store s) (store s')"
  by (cases rq) (auto dest: handler_steps)

section \<open>How often a status changes\<close>

definition col_rank :: "db_fields option \<Rightarrow> nat" where
  "col_rank c = (case c of
     None \<Rightarrow> 0
   | Some f \<Rightarrow> if fst f = ''Pending'' then 1 else if fst f = ''Bidding'' then 2 else if fst f = ''Assigned'' then 3
       else if fst f = ''Running'' then 4 else 5)"

fun status_changes :: "('cid, 'n) service_env \<Rightarrow> 'cid \<Rightarrow> 'cid request list \<Rightarrow> ('cid, 'n) service_state \<Rightarrow> nat" where
  "status_changes env j [] s = 0"
| "status_changes env j (rq # rqs) s =
     (let s' = snd (handle env rq s)
      in (if row_columns (codec env) (store s') j \<noteq> row_columns (codec env) (store s) j then 1 else 0) +
         status_changes env j rqs s')"

fun is_report :: "'cid request \<Rightarrow> bool" where
  "is_report (ReportFailure t r) = True"
| "is_report _ = False"

lemma db_fields_type:
  "from_db_fields pd es ro fs = Inr st \<Longrightarrow> fst fs = fst (to_db_fields rs st)"
  by (cases fs) (auto simp: from_db_fields_def bind_result_Inr_iff split: if_splits)

lemma sql_get_job_columns:
  assumes "sql_get_job cd st j = Inr (Some (q, old))"
  shows "col_rank (row_columns cd st j) = col_rank (Some (to_db_fields (reason_str cd) old))"
proof -
  from assms obtain row where row: "find_row st (cid_str cd j) = Some row" and "decode_row cd j row = Inr (q, old)"
    by (auto simp: sql_get_job_def bind_result_Inr_iff split: option.splits)
  then have "from_db_fields (parse_did cd) (did_err_str cd) (reason_of cd) (row_status row) = Inr old"
    by (auto simp: decode_row_def bind_result_Inr_iff)
  from db_fields_type [OF this, of "reason_str cd"] row show ?thesis
    by (simp add: row_columns_def col_rank_def)
qed

lemma life_rank: "life rq old new \<Longrightarrow> col_rank (Some (to_db_fields rs old)) < col_rank (Some (to_db_fields rs new))"
  by (induction rule: life.induct) (simp_all add: col_rank_def)

lemma insert_job_absent: "sql_insert_job cd q st = (Inr j, st') \<Longrightarrow> row_columns cd st j = None"
  by (auto simp: sql_insert_job_def row_columns_def split: sum.splits prod.splits if_splits)

lemma columns_by_text: "cid_str cd k = cid_str cd j \<Longrightarrow> row_columns cd st k = row_columns cd st j"
  by (simp add: row_columns_def)

lemma job_step_rank:
  assumes "job_step cd rq st st'" "row_columns cd st' k \<noteq> row_columns cd st k"
  shows "if is_report rq then col_rank (row_columns cd st' k) = 5
    else col_rank (row_columns cd st k) < col_rank (row_columns cd st' k)"
  using assms
proof (induction rule: job_step.induct)
  case (created cd q st j st' d p)
  then have k: "cid_str cd k = cid_str cd j" and "row_columns cd st' k = Some (''Pending'', None, None, None, None)"
    using sql_store.insert_job_ok [OF created(1)] by (auto split: if_splits)
  with insert_job_absent [OF created(1)] columns_by_text [OF k, of st] show ?case by (simp add: col_rank_def)
next
  case (moved rq t cd j st q old new st')
  then have k: "cid_str cd k = cid_str cd j" and "row_columns cd st' k = Some (to_db_fields (reason_str cd) new)"
    using sql_store.update_ok [OF moved(5)] by (auto split: if_splits)
  moreover have "\<not> is_report rq" using moved(4) by cases simp_all
  ultimately show ?case
    using sql_get_job_columns [OF moved(3)] life_rank [OF moved(4)] columns_by_text [OF k, of st] by simp
next
  case (reported cd t j r st st')
  then have "row_columns cd st' k = Some (to_db_fields (reason_str cd) (Failed (report_reason r)))"
    using sql_store.update_ok [OF reported(2)] by (auto split: if_splits)
  then show ?case by (simp add: col_rank_def)
qed (auto dest: sql_store.bid_ok)

lemma col_rank_le: "col_rank c \<le> 5"
  by (simp add: col_rank_def split: option.split)

text \<open>When the requests are handled one after the other, the status of a job changes at most five times (creation, bidding,
  assignment, start, completion or failure), plus once for each runtime failure report.  \<open>Job_Concurrency\<close> has the bound
  for overlapping requests.\<close>

lemma serial_status_changes:
  "status_changes env j rqs s \<le> (5 - col_rank (row_columns (codec env) (store s) j)) + length (filter is_report rqs)"
proof (induction rqs arbitrary: s)
  case Nil
  then show ?case by simp
next
  case (Cons rq rqs)
  obtain r s' where h: "handle env rq s = (r, s')" by (cases "handle env rq s")
  let ?c = "row_columns (codec env) (store s) j" and ?c' = "row_columns (codec env) (store s') j"
  have "col_rank ?c < col_rank ?c' \<or> is_report rq \<and> col_rank ?c' = 5" if "?c' \<noteq> ?c"
    using job_step_rank [OF handle_step [OF h] that] by (auto split: if_splits)
  with Cons.IH [of s'] h col_rank_le [of ?c] col_rank_le [of ?c'] show ?case
    by (auto simp: Let_def)
qed

text \<open>C13: the handlers implement the abstract service.  Every request either leaves the store as it is, or creates
  the job it describes, or adds the bid it carries to the job it names, or moves the job it names along the life
  cycle from the status the store holds: pending to bidding, bidding to assigned, assigned to running by the
  assigned worker, running to completed or failed by the running worker; only a runtime failure report moves a job
  from any status.\<close>

theorem handlers_implement_life_cycle:
  "job_step (codec env) rq (store s) (store (snd (handle env rq s)))"
  using handle_step [of env rq s] by (cases "handle env rq s") simp

section \<open>Errors\<close>

lemmas store_errors = sql_store.update_err sql_store.insert_job_err sql_store.bid_err

lemma assign_winner_error:
  "assign_winner env j w s = (Inl e, s') \<Longrightarrow> store s' \<noteq> store s \<Longrightarrow>
     \<exists>m. e = P2pError m \<and> sql_assign_job (codec env) j (bidder (fst w)) (store s) = (Inr (), store s')"
  by (auto simp: assign_winner_def sql_assign_job_def dest: store_errors split: sum.splits prod.splits option.splits)

lemma assign_best_bid_error:
  assumes "assign_best_bid_handler env t s = (Inl e, s')" "store s' \<noteq> store s"
  shows "\<exists>m j d. e = P2pError m \<and> cid_of (codec env) t = Inr j \<and> sql_assign_job (codec env) j d (store s) = (Inr (), store s')"
proof -
  from assms obtain j w n' where "cid_of (codec env) t = Inr j" and w: "assign_winner env j w (s\<lparr>net := n'\<rparr>) = (Inl e, s')"
    by (auto simp: assign_best_bid_handler_def guard_iffs split: sum.splits prod.splits if_splits option.splits)
  with assign_winner_error [OF w] assms(2) show ?thesis by auto
qed

text \<open>C22: error paths leave the store alone.  A request that is answered with an error has not changed the job or
  bid tables, with one exception: when the node cannot be told of an assignment, the assignment itself stays in
  the store although the caller receives an error.\<close>

theorem errors_leave_store:
  assumes "handle env rq s = (Inl e, s')"
  shows "store s' = store s \<or>
    (\<exists>t m j d. rq = AssignBestBid t \<and> e = P2pError m \<and> cid_of (codec env) t = Inr j \<and>
      row_columns (codec env) (store s') j = Some (to_db_fields (reason_str (codec env)) (Assigned d)))"
proof (cases rq)
  case (AssignBestBid t)
  show ?thesis
  proof (cases "store s' = store s")
    case False
    with assms AssignBestBid assign_best_bid_error [of env t s e s'] obtain m j d where
      "e = P2pError m" "cid_of (codec env) t = Inr j" and a: "sql_assign_job (codec env) j d (store s) = (Inr (), store s')"
      by auto
    with AssignBestBid sql_store.assign_ok [OF a] show ?thesis by auto
  qed simp
next
  case (StartJob t h)
  with assms show ?thesis
    by (auto simp: start_job_handler_def dest: store_errors split: sum.splits prod.splits if_splits JobStatus.splits)
next
  case (CompleteJob t h d)
  with assms show ?thesis
    by (auto simp: mark_job_completed_handler_def finish_job_def dest: store_errors split: sum.splits prod.splits)
next
  case (FailJob t h d)
  with assms show ?thesis
    by (auto simp: mark_job_failed_handler_def finish_job_def dest: store_errors split: sum.splits prod.splits)
next
  case (BeginBidding t)
  with assms show ?thesis
    by (auto simp: begin_bidding_handler_def dest: store_errors split: sum.splits prod.splits if_splits)
next
  case (SubmitBid t b)
  with assms show ?thesis
    by (auto simp: submit_bid_def Let_def dest: store_errors split: sum.splits prod.splits if_splits)
next
  case (CreateJob p d)
  with assms show ?thesis by (auto simp: create_job_def dest: store_errors split: sum.splits prod.splits)
next
  case (ReportFailure t r)
  with assms show ?thesis
    by (auto simp: report_runtime_failure_handler_def dest: store_errors split: sum.splits prod.splits)
qed

section \<open>What is lost on the way\<close>

lemma loaded_policy_None: "sql_get_job cd st j = Inr (Some (q, status)) \<Longrightarrow> jr_execution_policy q = None"
  by (auto simp: sql_get_job_def decode_row_def bind_result_Inr_iff split: option.splits)

lemma collect_results_Inr: "collect_results rs = Inr xs \<longleftrightarrow> rs = map Inr xs"
  by (induction rs arbitrary: xs) (auto simp: bind_result_Inr_iff Cons_eq_map_conv)

definition no_scores :: "'cid SqliteStore \<Rightarrow> bool" where
  "no_scores st \<longleftrightarrow> (\<forall>r\<in>set (bids_table st). br_reputation_score r = None) \<and> bid_broadcasters st = []"

lemma no_scores_step: "job_step cd rq st st' \<Longrightarrow> no_scores st \<Longrightarrow> no_scores st'"
  by (induction rule: job_step.induct)
    (auto simp: no_scores_def sql_insert_job_def sql_insert_bid_def sql_update_job_status_def
      split: sum.splits prod.splits if_splits)

inductive served :: "('cid, 'n) service_env \<Rightarrow> ('cid, 'n) service_state \<Rightarrow> bool" for env where
  started: "store s = SqliteStore_new \<Longrightarrow> served env s"
| request: "served env s \<Longrightarrow> handle env rq s = (r, s') \<Longrightarrow> served env s'"

lemma served_no_scores: "served env s \<Longrightarrow> no_scores (store s)"
  by (induction rule: served.induct) (simp add: no_scores_def SqliteStore_new_def, blast intro: no_scores_step handle_step)

text \<open>what the SQLite store loses.  In every state the service can reach, the bids read back carry no reputation
  score although \<open>submit_bid\<close> fetches one for each of them; a job read back has no execution policy, so that its
  assignment always uses the default strategy, by reputation; and no job has a broadcast channel, so that a stream of
  bids ends after the stored bids.\<close>

lemma stored_bids_lose_scores:
  assumes "served env s"
  shows "(sql_list_bids (codec env) (store s) j = Inr bids \<longrightarrow> (\<forall>b\<in>set bids. reputation_score b = None)) \<and>
    (sql_get_job (codec env) (store s) j = Inr (Some (q, status)) \<longrightarrow> jr_execution_policy q = None \<and>
      select_bid env q n bs = (case reputation_select (fl64 env) (f64_text env) (service_client env)
        (service_bid_config (fl64 env)) q (now_secs env) (n, []) bs of (r, m) \<Rightarrow> (r, fst m))) \<and>
    sql_subscribe_to_bids (codec env) (store s) j = None"
proof (intro conjI impI)
  have ns: "no_scores (store s)" by (rule served_no_scores [OF assms])
  then show "sql_subscribe_to_bids (codec env) (store s) j = None"
    by (simp add: sql_subscribe_to_bids_def no_scores_def)
  show "\<forall>b\<in>set bids. reputation_score b = None" if "sql_list_bids (codec env) (store s) j = Inr bids"
  proof
    fix b
    assume "b \<in> set bids"
    with that have "Inr b \<in> set (map (decode_bid (codec env) j) (filter (\<lambda>r. br_job_id r = cid_str (codec env) j) (bids_table (store s))))"
      by (simp add: sql_list_bids_def collect_results_Inr)
    then obtain row where "row \<in> set (bids_table (store s))" "decode_bid (codec env) j row = Inr b" by force
    with ns show "reputation_score b = None" by (auto simp: decode_bid_def bind_result_Inr_iff no_scores_def)
  qed
  assume "sql_get_job (codec env) (store s) j = Inr (Some (q, status))"
  then show q: "jr_execution_policy q = None" by (rule loaded_policy_None)
  then show "select_bid env q n bs = (case reputation_select (fl64 env) (f64_text env) (service_client env)
      (service_bid_config (fl64 env)) q (now_secs env) (n, []) bs of (r, m) \<Rightarrow> (r, fst m))"
    by (simp add: select_bid_def SelectionPolicy_default_def Let_def split: prod.split)
qed

section \<open>A job that cannot be found\<close>

text \<open>a created job is not found under the identifier the service returns.  \<open>create_job\<close> answers with a hash of
  the parameters and the originator, but the store files the job under a double hash of the whole request; when the
  two have different texts and no earlier job has the returned one, every later request for the returned identifier
  fails with \<open>NotFound\<close>.\<close>

lemma created_job_not_found:
  assumes created: "create_job env params originator s = (Inr (Created jid), s')"
    and request: "json_request (codec env) \<lparr>jr_job_id = jid, jr_params = fst params, jr_requirements = snd params,
      jr_originator = originator, jr_execution_policy = None\<rparr> = Inr bs"
    and distinct: "cid_str (codec env) (mk_cid (codec env) (sha256 (codec env) (sha256 (codec env) bs))) \<noteq> cid_str (codec env) jid"
    and fresh: "row_columns (codec env) (store s) jid = None"
    and path: "cid_of (codec env) t = Inr jid"
  shows "(\<exists>m. get_job env t s' = Inl (NotFound m)) \<and> (\<exists>m. fst (begin_bidding_handler env t s') = Inl (NotFound m)) \<and>
    (\<exists>m. fst (assign_best_bid_handler env t s') = Inl (NotFound m)) \<and>
    (\<exists>m. fst (report_runtime_failure_handler env t r s') = Inl (NotFound m))"
proof -
  let ?cd = "codec env"
  obtain j where ins: "sql_insert_job ?cd \<lparr>jr_job_id = jid, jr_params = fst params, jr_requirements = snd params,
      jr_originator = originator, jr_execution_policy = None\<rparr> (store s) = (Inr j, store s')"
    using created by (auto simp: create_job_def split: sum.splits prod.splits)
  with request have "j = mk_cid ?cd (sha256 ?cd (sha256 ?cd bs))"
    by (auto simp: sql_insert_job_def generate_job_cid_def bind_result_Inr_iff split: sum.splits prod.splits if_splits)
  with sql_store.insert_job_ok [OF ins] distinct fresh have "row_columns ?cd (store s') jid = None" by simp
  then have row: "find_row (store s') (cid_str ?cd jid) = None" by (simp add: row_columns_def)
  then show ?thesis
    by (simp add: get_job_def begin_bidding_handler_def assign_best_bid_handler_def report_runtime_failure_handler_def
        path_cid_def load_job_def path sql_get_job_def sql_update_result)
qed

definition demo_codec :: "string job_codec" where
  "demo_codec = \<lparr>cid_str = (\<lambda>c. c), cid_of = Inr, mk_cid = bytes_str, sha256 = (\<lambda>bs. 0 # bs), json_request = (\<lambda>_. Inr [1]),
     json_payload = (\<lambda>_ _. Inr [2]), params_str = (\<lambda>_. Inr []),
     params_of = (\<lambda>_. Inr (MeshJobParams_default, demo_requirements)), res_str = (\<lambda>_. Inr []),
     res_of = (\<lambda>_. Inr (demo_requirements, \<lparr>est_cpu = 1, est_memory_mb = 1, est_storage_mb = 0\<rparr>)),
     reason_str = demo_reason_str, reason_of = demo_reason_of_str, parse_did = Inr, did_err_str = (\<lambda>_. []), bid_id_str = (\<lambda>_. [])\<rparr>"

definition demo_service :: "(string, unit) service_env" where
  "demo_service = \<lparr>codec = demo_codec,
     rep_svc = \<lparr>svc_get = (\<lambda>n _. (Reply 404 [], n)), svc_post = (\<lambda>n _ _. (Reply 500 [], n)), svc_profile = Inl, svc_status = (\<lambda>_. [])\<rparr>,
     fl64 = (\<lambda>x. x), f64_text = (\<lambda>_. []), u64_text = (\<lambda>_. []), status_text = (\<lambda>_. []), error_text = (\<lambda>_. []),
     reputation_url = [], now_secs = 0, p2p_assign = None\<rparr>"

definition demo_service_state :: "db_fields \<Rightarrow> (string, unit) service_state" where
  "demo_service_state c = \<lparr>store = SqliteStore_new\<lparr>jobs_table := [\<lparr>row_job_id = ''j'', row_owner_did = ''o'',
     row_requirements_json = [], row_status = c\<rparr>]\<rparr>, net = ()\<rparr>"

lemma created_job_not_found_witness:
  "\<exists>m. get_job demo_service (bytes_str [0, 2]) (snd (create_job demo_service (MeshJobParams_default, demo_requirements) ''o''
     \<lparr>store = SqliteStore_new, net = ()\<rparr>)) = Inl (NotFound m)"
proof -
  let ?s = "\<lparr>store = SqliteStore_new, net = ()\<rparr> :: (string, unit) service_state"
  have c: "create_job demo_service (MeshJobParams_default, demo_requirements) ''o'' ?s =
      (Inr (Created (bytes_str [0, 2])), snd (create_job demo_service (MeshJobParams_default, demo_requirements) ''o'' ?s))"
    by (simp add: create_job_def demo_service_def demo_codec_def generate_job_cid_from_payload_def sql_insert_job_def
        generate_job_cid_def find_row_def SqliteStore_new_def)
  have "bytes_str [0, 0, 1] \<noteq> bytes_str [0, 2]" by (simp add: bytes_str_def)
  with created_job_not_found [OF c, of "[1]" "bytes_str [0, 2]"] show ?thesis
    by (simp add: demo_service_def demo_codec_def row_columns_def find_row_def SqliteStore_new_def)
qed

theorem errors_leave_store_witness:
  "fst (handle demo_service (StartJob ''j'' (Some (Inr ''w''))) (demo_service_state (''Assigned'', Some ''v'', None, None, None))) =
     Inl (Forbidden ''Worker DID does not match assigned bidder DID'') \<and>
   store (snd (handle demo_service (StartJob ''j'' (Some (Inr ''w''))) (demo_service_state (''Assigned'', Some ''v'', None, None, None)))) =
     store (demo_service_state (''Assigned'', Some ''v'', None, None, None))"
proof -
  let ?h = "handle demo_service (StartJob ''j'' (Some (Inr ''w''))) (demo_service_state (''Assigned'', Some ''v'', None, None, None))"
  have "fst ?h = Inl (Forbidden ''Worker DID does not match assigned bidder DID'')"
    by (simp add: start_job_handler_def path_cid_def demo_service_def demo_codec_def worker_did_def sql_get_job_def find_row_def
        demo_service_state_def SqliteStore_new_def decode_row_def from_db_fields_def parse_db_did_def)
  then have "?h = (Inl (Forbidden ''Worker DID does not match assigned bidder DID''), snd ?h)" by (simp add: prod_eq_iff)
  from errors_leave_store [OF this] \<open>fst ?h = _\<close> show ?thesis by simp
qed

definition demo_offer :: "string Bid" where
  "demo_offer = \<lparr>bid_id = None, bid_job_id = ''j'', bidder = ''w'', price = 3, bid_resources = demo_requirements,
     bid_data = \<lparr>est_cpu = 1, est_memory_mb = 1, est_storage_mb = 0\<rparr>, reputation_score = Some 9\<rparr>"

definition demo_start :: "(string, unit) service_state" where
  "demo_start = \<lparr>store = SqliteStore_new, net = ()\<rparr>"

lemma stored_bids_lose_scores_witness:
  "sql_list_bids demo_codec (store (snd (handle demo_service (SubmitBid ''j'' demo_offer) demo_start))) ''j'' =
     Inr [demo_offer\<lparr>bid_id := Some 1, reputation_score := None\<rparr>] \<and>
   sql_subscribe_to_bids demo_codec (store (snd (handle demo_service (SubmitBid ''j'' demo_offer) demo_start))) ''j'' = None"
proof -
  let ?s = "snd (handle demo_service (SubmitBid ''j'' demo_offer) demo_start)"
  have "served demo_service demo_start" by (rule served.started) (simp add: demo_start_def)
  then have "served demo_service ?s"
    by (rule served.request [where rq = "SubmitBid ''j'' demo_offer" and r = "fst (handle demo_service (SubmitBid ''j'' demo_offer) demo_start)"]) simp
  from stored_bids_lose_scores [OF this, of "''j''"] have "sql_subscribe_to_bids (codec demo_service) (store ?s) ''j'' = None"
    by blast
  then have "sql_subscribe_to_bids demo_codec (store ?s) ''j'' = None" by (simp add: demo_service_def)
  moreover have "sql_list_bids demo_codec (store ?s) ''j'' = Inr [demo_offer\<lparr>bid_id := Some 1, reputation_score := None\<rparr>]"
    by (simp add: demo_service_def demo_codec_def demo_start_def demo_offer_def SqliteStore_new_def submit_bid_def path_cid_def
        get_reputation_score_def is_success_def sql_insert_bid_def sql_list_bids_def decode_bid_def next_bid_id_def Let_def)
  ultimately show ?thesis by simp
qed

section \<open>Assignment\<close>

lemma assign_winner_ok:
  "assign_winner env j (w, sc, rs) s = (Inr (AssignedTo j' d i sc' rs'), s') \<Longrightarrow>
     j' = j \<and> d = bidder w \<and> bid_id w = Some i \<and> sc' = sc \<and> sql_assign_job (codec env) j (bidder w) (store s) = (Inr (), store s')"
  by (auto simp: assign_winner_def split: sum.splits prod.splits option.splits)

lemma select_bid_reputation:
  "jr_execution_policy q = None \<Longrightarrow> select_bid env q n bids = (Inr (Some (w, sc, rs)), n') \<Longrightarrow>
     \<exists>m. reputation_select (fl64 env) (f64_text env) (service_client env) (service_bid_config (fl64 env)) q
       (now_secs env) (n, []) bids = (Inr (Some (w, sc, rs)), m)"
  by (auto simp: select_bid_def SelectionPolicy_default_def Let_def split: prod.splits)

text \<open>C16: an assignment goes to a best stored bid.  When a request that is handled on its own answers that a job was assigned,
  the job was in bidding, and the assignee is the bidder of one of its stored bids.  That bid has the required mana and a
  non-negative score, the score of the answer is its score, and among the stored bids that have the required mana
  and a non-negative score, with the profiles the reputation service gave, none scores higher.  The store then holds the
  job as assigned to that bidder.\<close>

theorem assignment_to_best_bid:
  assumes "handle env (AssignBestBid t) s = (Inr (AssignedTo j d i sc rs), s')"
  shows "\<exists>q bids w ps p m.
      cid_of (codec env) t = Inr j \<and> sql_get_job (codec env) (store s) j = Inr (Some (q, Bidding)) \<and>
      sql_list_bids (codec env) (store s) j = Inr bids \<and>
      fetch_all (service_client env) (now_secs env) (net s, []) bids = (Inr ps, m) \<and>
      (w, p) \<in> set (zip bids ps) \<and> bidder w = d \<and> bid_id w = Some i \<and>
      candidate_ok (fl64 env) (service_client env) (service_bid_config (fl64 env)) q (Max (price ` set bids)) (w, p) \<and>
      sc = candidate_score (fl64 env) (service_client env) (service_bid_config (fl64 env)) q (Max (price ` set bids)) (w, p) \<and>
      has_sufficient_mana q p \<and> 0 \<le> sc \<and>
      (\<forall>x\<in>set (zip bids ps). candidate_ok (fl64 env) (service_client env) (service_bid_config (fl64 env)) q (Max (price ` set bids)) x \<longrightarrow>
        candidate_score (fl64 env) (service_client env) (service_bid_config (fl64 env)) q (Max (price ` set bids)) x \<le> sc) \<and>
      row_columns (codec env) (store s') j = Some (to_db_fields (reason_str (codec env)) (Assigned d))"
proof -
  from assms obtain jid q bids w sc0 rs0 n' where t: "cid_of (codec env) t = Inr jid"
    and q: "sql_get_job (codec env) (store s) jid = Inr (Some (q, Bidding))"
    and bids: "sql_list_bids (codec env) (store s) jid = Inr bids"
    and sel: "select_bid env q (net s) bids = (Inr (Some (w, sc0, rs0)), n')"
    and win: "assign_winner env jid (w, sc0, rs0) (s\<lparr>net := n'\<rparr>) = (Inr (AssignedTo j d i sc rs), s')"
    by (auto simp: assign_best_bid_handler_def guard_iffs split: sum.splits prod.splits if_splits option.splits)
  note win' = assign_winner_ok [OF win]
  from select_bid_reputation [OF loaded_policy_None [OF q] sel] obtain m where
    "reputation_select (fl64 env) (f64_text env) (service_client env) (service_bid_config (fl64 env)) q
       (now_secs env) (net s, []) bids = (Inr (Some (w, sc0, rs0)), m)" by blast
  from reputation_select_spec [OF this] obtain ps p where
    "fetch_all (service_client env) (now_secs env) (net s, []) bids = (Inr ps, m)" "(w, p) \<in> set (zip bids ps)"
    "has_sufficient_mana q p" "0 \<le> sc0"
    "sc0 = candidate_score (fl64 env) (service_client env) (service_bid_config (fl64 env)) q (Max (price ` set bids)) (w, p)"
    "\<forall>x\<in>set (zip bids ps). candidate_ok (fl64 env) (service_client env) (service_bid_config (fl64 env)) q (Max (price ` set bids)) x \<longrightarrow>
      candidate_score (fl64 env) (service_client env) (service_bid_config (fl64 env)) q (Max (price ` set bids)) x \<le> sc0"
    by auto
  moreover from win' have "row_columns (codec env) (store s') jid = Some (to_db_fields (reason_str (codec env)) (Assigned (bidder w)))"
    using sql_store.assign_ok [of "codec env" jid "bidder w" "store s" "store s'"] by simp
  moreover have "candidate_ok (fl64 env) (service_client env) (service_bid_config (fl64 env)) q (Max (price ` set bids)) (w, p)"
    using calculation by (simp add: candidate_ok_def)
  ultimately show ?thesis using t q bids win' by blast
qed

section \<open>Explaining the ranking\<close>

record ResourceRequirements =
  rr_cpu :: u32
  rr_memory_mb :: u32
  rr_storage_mb :: u32

record ScoreComponent =
  sc_name :: string
  sc_value :: real
  sc_weight :: real

record ReputationSummary =
  rs_score :: real
  rs_jobs_count :: u64
  rs_on_time_ratio :: real

record BidExplanation =
  be_bid_id :: "u64 option"
  be_node_did :: did
  be_total_score :: real
  be_components :: "ScoreComponent list"
  be_reputation_summary :: ReputationSummary

definition explain_resource_match :: "(real \<Rightarrow> real) \<Rightarrow> ResourceEstimate \<Rightarrow> ResourceRequirements \<Rightarrow> real" where
  "explain_resource_match fl est req =
     (let part = (\<lambda>h n. if n \<le> h then 1 else fl (real (unat h) / real (unat n)))
      in fl (fl (fl (part (est_cpu est) (rr_cpu req) + part (est_memory_mb est) (rr_memory_mb req)) +
           part (est_storage_mb est) (rr_storage_mb req)) / 3))"

definition explain_bid ::
    "(real \<Rightarrow> real) \<Rightarrow> BidEvaluatorConfig \<Rightarrow> u64 \<Rightarrow> ResourceRequirements \<Rightarrow> 'cid ReputationProfile \<Rightarrow> 'cid Bid \<Rightarrow> BidExplanation" where
  "explain_bid fl cfg max_p req profile bid =
     (let normalized_price = normalized_bid_price fl max_p (price bid);
          resource_match = explain_resource_match fl (bid_data bid) req;
          price_component = fl (weight_price cfg * fl (1 - normalized_price));
          resources_component = fl (weight_resources cfg * resource_match);
          reputation_component = fl (weight_reputation cfg * fl (computed_score profile / 100));
          timeliness = (if 0 < successful_jobs profile
            then fl (fl (real (unat (jobs_on_time profile))) / fl (real (unat (successful_jobs profile)))) else 1 / 2);
          timeliness_component = fl (weight_timeliness cfg * timeliness);
          total = fl (fl (fl (price_component + resources_component) + reputation_component) + timeliness_component)
      in \<lparr>be_bid_id = bid_id bid, be_node_did = bidder bid, be_total_score = total,
          be_components =
            [\<lparr>sc_name = ''price'', sc_value = price_component, sc_weight = weight_price cfg\<rparr>,
             \<lparr>sc_name = ''resources'', sc_value = resources_component, sc_weight = weight_resources cfg\<rparr>,
             \<lparr>sc_name = ''reputation'', sc_value = reputation_component, sc_weight = weight_reputation cfg\<rparr>,
             \<lparr>sc_name = ''timeliness'', sc_value = timeliness_component, sc_weight = weight_timeliness cfg\<rparr>],
          be_reputation_summary = \<lparr>rs_score = computed_score profile, rs_jobs_count = total_jobs profile,
            rs_on_time_ratio = (if 0 < successful_jobs profile
              then fl (fl (real (unat (jobs_on_time profile))) / fl (real (unat (successful_jobs profile)))) else 0)\<rparr>\<rparr>)"

text \<open>\<open>fetch\<close> is the cached client of the handler; a bidder whose profile cannot be fetched gets the neutral one.\<close>

definition explain_bids ::
    "(real \<Rightarrow> real) \<Rightarrow> (did \<Rightarrow> 'e + 'cid ReputationProfile) \<Rightarrow> u64 \<Rightarrow> ResourceRequirements \<Rightarrow> 'cid Bid list \<Rightarrow> BidExplanation list" where
  "explain_bids fl fetch now req bids =
     sort_key (\<lambda>e. - be_total_score e)
       (map (\<lambda>b. explain_bid fl (service_bid_config fl) (Max (price ` set bids)) req
          (case fetch (bidder b) of Inr p \<Rightarrow> p | Inl _ \<Rightarrow> default_profile now (bidder b)) b) bids)"

text \<open>the explanation shows the score the selection uses.  The total of an explained bid is the evaluator's score
  of that bid for the same profile, price and resource match, and the rounded sum of the four components listed with
  it; the explanations are one for each bid, ordered by decreasing score.\<close>

lemma explanation_matches_score:
  "be_total_score (explain_bid fl cfg max_p req p b) =
     calculate_bid_score fl cfg p (normalized_bid_price fl max_p (price b)) (explain_resource_match fl (bid_data b) req) \<and>
   be_total_score (explain_bid fl cfg max_p req p b) =
     (case map sc_value (be_components (explain_bid fl cfg max_p req p b)) of
        [a, b, c, d] \<Rightarrow> fl (fl (fl (a + b) + c) + d) | _ \<Rightarrow> 0) \<and>
   image_mset be_node_did (mset (explain_bids fl fetch now req bids)) = image_mset bidder (mset bids) \<and>
   sorted_wrt (\<lambda>x y. be_total_score y \<le> be_total_score x) (explain_bids fl fetch now req bids)"
proof -
  have "sorted (map (\<lambda>e. - be_total_score e) (explain_bids fl fetch now req bids))"
    unfolding explain_bids_def by (rule sorted_sort_key)
  then have "sorted_wrt (\<lambda>x y. be_total_score y \<le> be_total_score x) (explain_bids fl fetch now req bids)"
    by (simp add: sorted_map)
  moreover have "image_mset be_node_did (mset (explain_bids fl fetch now req bids)) = image_mset bidder (mset bids)"
    by (simp add: explain_bids_def multiset.map_comp o_def explain_bid_def Let_def flip: mset_map)
  ultimately show ?thesis
    by (simp add: explain_bid_def calculate_bid_score_def timeliness_score_def Let_def)
qed

text \<open>The responses to internal failures carry no detail of the failure, with one exception: a selection that fails
  because of the reputation service passes the text of that error to the caller.\<close>

lemma into_response_hides:
  "into_response f (Internal a) = into_response f (Internal b)"
  "into_response f (Database a) = into_response f (Database b)"
  "into_response f (Serialization a) = into_response f (Serialization b)"
  "into_response f (AppReputationError c) = into_response f (AppReputationError d)"
  "into_response f (P2pError a) = into_response f (P2pError b)"
  "into_response f (SelectionFailure (ReputationServiceError (Network a))) =
    into_response f (SelectionFailure (ReputationServiceError (Network b))) \<longleftrightarrow> a = b"
  by (simp_all add: into_response_def client_error_display_def)

definition demo_auction :: "(string, unit) service_state" where
  "demo_auction = demo_service_state (''Bidding'', None, None, None, None)\<lparr>store := \<lparr>
     jobs_table = [\<lparr>row_job_id = ''j'', row_owner_did = ''o'', row_requirements_json = [],
       row_status = (''Bidding'', None, None, None, None)\<rparr>],
     bids_table = [\<lparr>br_id = 1, br_job_id = ''j'', br_bidder_did = ''w'', br_price = 3, br_resources_json = [],
       br_reputation_score = None\<rparr>], bid_broadcasters = []\<rparr>\<rparr>"

theorem assignment_to_best_bid_witness:
  "\<exists>sc rs s'. handle demo_service (AssignBestBid ''j'') demo_auction = (Inr (AssignedTo ''j'' ''w'' 1 sc rs), s') \<and>
     row_columns demo_codec (store s') ''j'' = Some (''Assigned'', Some ''w'', None, None, None)"
proof -
  have "\<exists>sc rs s'. handle demo_service (AssignBestBid ''j'') demo_auction = (Inr (AssignedTo ''j'' ''w'' 1 sc rs), s')"
    by (simp add: demo_auction_def demo_service_state_def demo_service_def demo_codec_def assign_best_bid_handler_def path_cid_def
        load_job_def sql_get_job_def find_row_def decode_row_def from_db_fields_def sql_list_bids_def decode_bid_def
        select_bid_def SelectionPolicy_default_def reputation_select_def service_client_def default_fetch_profile_def
        caching_fetch_profile_def get_cached_profile_def is_success_def has_sufficient_mana_def demo_requirements_def
        normalized_bid_price_def calculate_resource_match_def ratio_match_def clamp_def calculate_bid_score_def
        service_bid_config_def default_profile_def timeliness_score_def assign_winner_def sql_assign_job_def
        sql_update_job_status_def Let_def, rule exI [of _ "2 / 5"], simp)
  then obtain sc rs s' where h: "handle demo_service (AssignBestBid ''j'') demo_auction = (Inr (AssignedTo ''j'' ''w'' 1 sc rs), s')"
    by blast
  from assignment_to_best_bid [OF h]
  have "row_columns (codec demo_service) (store s') ''j'' = Some (to_db_fields (reason_str (codec demo_service)) (Assigned ''w''))"
    by blast
  with h show ?thesis by (auto simp: demo_service_def)
qed

end
