(* ===== verification/Job_Concurrency.thy ===== *)
theory Job_Concurrency
  imports Job_Service
begin

text \<open>
  Overlapping requests of the mesh job service.  The handlers of \<open>crates/services/icn-mesh-jobs/src/main.rs\<close> hold no lock and
  open no transaction: a handler reads the status of its job, may wait for the reputation service, and then runs one
  unconditional \<open>UPDATE\<close>.  An activity is a handler between two such points; \<open>resume\<close> runs it up to the next one.  A turn of
  the service receives a request or resumes any of the activities.

  An activity that is going to write carries the columns it read; they are not part of the code, and say whether
  another request has changed the job since.
\<close>

section \<open>Activities\<close>

datatype 'cid activity =
    Arrived "'cid request"
  | Selecting string 'cid "'cid JobRequest" "db_fields option"
  | Assigning string 'cid "'cid Bid \<times> real \<times> string" "db_fields option"
  | Reporting "'cid request" 'cid "'cid EventRecord" JobStatus "db_fields option"
  | Updating "'cid request" 'cid JobStatus "db_fields option"

type_synonym ('cid, 'n) paused = "((AppError + 'cid response) + 'cid activity) \<times> ('cid, 'n) service_state"

definition finished :: "('cid, 'n) outcome \<Rightarrow> ('cid, 'n) paused" where
  "finished x = (Inl (fst x), snd x)"

definition update_failure :: "('cid, 'n) service_env \<Rightarrow> 'cid request \<Rightarrow> AppError \<Rightarrow> AppError" where
  "update_failure env rq e = (case rq of StartJob t h \<Rightarrow> Internal (error_text env e) | _ \<Rightarrow> e)"

text \<open>From the arrival to the first wait.  Creating a job, storing a bid and reporting a failure touch the store once.\<close>

fun first_part :: "('cid, 'n) service_env \<Rightarrow> 'cid request \<Rightarrow> ('cid, 'n) service_state \<Rightarrow> ('cid, 'n) paused" where
  "first_part env (CreateJob params originator) s = finished (create_job env params originator s)"
| "first_part env (SubmitBid t b) s = finished (submit_bid env t b s)"
| "first_part env (ReportFailure t r) s = finished (report_runtime_failure_handler env t r s)"
| "first_part env (BeginBidding t) s =
     (case path_cid env (\<lambda>e. InvalidCid (''Invalid Job ID format for begin_bidding: '' @ t @ '' - '' @ e)) t of
        Inl e \<Rightarrow> (Inl (Inl e), s)
      | Inr jid \<Rightarrow>
          (case load_job env (store s) jid (''Job not found: '' @ cid_str (codec env) jid) of
             Inl e \<Rightarrow> (Inl (Inl e), s)
           | Inr (_, current) \<Rightarrow>
               if current = Pending then (Inr (Updating (BeginBidding t) jid Bidding (row_columns (codec env) (store s) jid)), s)
               else if current = Bidding then (Inl (Inr OkStatus), s)
               else (Inl (Inl (InvalidStatusTransition (''Job '' @ cid_str (codec env) jid @ '' is in status '' @
                 status_text env current @ '' and cannot be moved to Bidding state.''))), s)))"
| "first_part env (AssignBestBid t) s =
     (case path_cid env (\<lambda>e. InvalidCid (''Invalid job ID format for assign_best_bid: '' @ t @ '' - '' @ e)) t of
        Inl e \<Rightarrow> (Inl (Inl e), s)
      | Inr jid \<Rightarrow>
          (case load_job env (store s) jid (''Job with ID '' @ t @ '' not found'') of
             Inl e \<Rightarrow> (Inl (Inl e), s)
           | Inr (job_request, current) \<Rightarrow>
               if current \<noteq> Bidding then
                 (Inl (Inl (BadRequest (''Job '' @ t @ '' is not in Bidding state, currently: '' @ status_text env current))), s)
               else (Inr (Selecting t jid job_request (row_columns (codec env) (store s) jid)), s)))"
| "first_part env (StartJob t h) s =
     (case bind_result (path_cid env (\<lambda>e. BadRequest (''Invalid Job ID format: '' @ t @ '' - '' @ e)) t) (\<lambda>jid.
             bind_result (worker_did h) (\<lambda>worker.
               bind_result (map_err (\<lambda>e. Internal (error_text env e)) (sql_get_job (codec env) (store s) jid)) (\<lambda>found.
                 bind_result (ok_or found (NotFound (''Job not found: '' @ cid_str (codec env) jid))) (\<lambda>(_, current).
                   Inr (jid, worker, current))))) of
        Inl e \<Rightarrow> (Inl (Inl e), s)
      | Inr (jid, worker, current) \<Rightarrow>
          (case current of
             Assigned bd \<Rightarrow>
               if bd \<noteq> worker then (Inl (Inl (Forbidden ''Worker DID does not match assigned bidder DID'')), s)
               else (Inr (Updating (StartJob t h) jid (Running bd) (row_columns (codec env) (store s) jid)), s)
           | Running _ \<Rightarrow> (Inl (Inl (BadRequest (''Job '' @ cid_str (codec env) jid @ '' is already running.''))), s)
           | _ \<Rightarrow> (Inl (Inl (BadRequest (''Job '' @ cid_str (codec env) jid @ '' cannot be started from its current state: '' @
               status_text env current @ ''.''))), s)))"
| "first_part env (CompleteJob t h details) s =
     (case running_job env ''completed'' t h s of
        Inl e \<Rightarrow> (Inl (Inl e), s)
      | Inr (jid, runner) \<Rightarrow> (Inr (Reporting (CompleteJob t h details) jid (completion_record env jid runner details) Completed
          (row_columns (codec env) (store s) jid)), s))"
| "first_part env (FailJob t h details) s =
     (case running_job env ''failed'' t h s of
        Inl e \<Rightarrow> (Inl (Inl e), s)
      | Inr (jid, runner) \<Rightarrow> (Inr (Reporting (FailJob t h details) jid (failure_record env jid runner details)
          (Failed (Unknown (fail_reason details))) (row_columns (codec env) (store s) jid)), s))"

fun resume :: "('cid, 'n) service_env \<Rightarrow> 'cid activity \<Rightarrow> ('cid, 'n) service_state \<Rightarrow> ('cid, 'n) paused" where
  "resume env (Arrived rq) s = first_part env rq s"
| "resume env (Selecting t jid job_request read) s =
     (case sql_list_bids (codec env) (store s) jid of
        Inl e \<Rightarrow> (Inl (Inl e), s)
      | Inr bids \<Rightarrow>
          if bids = [] then (Inl (Inl (NotFound (''No bids found for job '' @ t))), s)
          else
            (case select_bid env job_request (net s) bids of
               (Inl e, n') \<Rightarrow> (Inl (Inl (SelectionFailure e)), s\<lparr>net := n'\<rparr>)
             | (Inr None, n') \<Rightarrow> (Inl (Inl (NotFound (''No acceptable bid found for job '' @ t))), s\<lparr>net := n'\<rparr>)
             | (Inr (Some w), n') \<Rightarrow> (Inr (Assigning t jid w read), s\<lparr>net := n'\<rparr>)))"
| "resume env (Assigning t jid w read) s = finished (assign_winner env jid w s)"
| "resume env (Reporting rq jid rec final read) s =
     (case submit_reputation_record (rep_svc env) (net s) rec (reputation_url env) of
        (Inl e, n') \<Rightarrow> (Inl (Inl (AppReputationError e)), s\<lparr>net := n'\<rparr>)
      | (Inr _, n') \<Rightarrow> (Inr (Updating rq jid final read), s\<lparr>net := n'\<rparr>))"
| "resume env (Updating rq jid new read) s =
     (case sql_update_job_status (codec env) jid new (store s) of
        (Inl e, st) \<Rightarrow> (Inl (Inl (update_failure env rq e)), s\<lparr>store := st\<rparr>)
      | (Inr _, st) \<Rightarrow> (Inl (Inr OkStatus), s\<lparr>store := st\<rparr>))"

text \<open>Resumed without interruption, a request does what its handler does.\<close>

fun run_alone :: "nat \<Rightarrow> ('cid, 'n) service_env \<Rightarrow> 'cid activity \<Rightarrow> ('cid, 'n) service_state \<Rightarrow> ('cid, 'n) outcome option" where
  "run_alone 0 env a s = None"
| "run_alone (Suc n) env a s =
     (case resume env a s of (Inl r, s') \<Rightarrow> Some (r, s') | (Inr a', s') \<Rightarrow> run_alone n env a' s')"

lemma alone_is_handle: "run_alone 3 env (Arrived rq) s = Some (handle env rq s)"
proof (cases rq)
  case (BeginBidding t)
  then show ?thesis
    by (auto simp: numeral_3_eq_3 begin_bidding_handler_def update_failure_def split: sum.split prod.split)
next
  case (AssignBestBid t)
  then show ?thesis
    by (auto simp: numeral_3_eq_3 assign_best_bid_handler_def finished_def split: sum.split prod.split option.split)
next
  case (StartJob t h)
  then show ?thesis
    by (auto simp: numeral_3_eq_3 start_job_handler_def update_failure_def split: sum.split prod.split JobStatus.split)
next
  case (CompleteJob t h d)
  then show ?thesis
    by (auto simp: numeral_3_eq_3 mark_job_completed_handler_def finish_job_def update_failure_def split: sum.split prod.split)
next
  case (FailJob t h d)
  then show ?thesis
    by (auto simp: numeral_3_eq_3 mark_job_failed_handler_def finish_job_def update_failure_def split: sum.split prod.split)
qed (simp_all add: numeral_3_eq_3 finished_def)

section \<open>Turns of the service\<close>

datatype 'cid turn = Receive "'cid request" | Resume nat

fun service_turn ::
    "('cid, 'n) service_env \<Rightarrow> 'cid turn \<Rightarrow> 'cid activity list \<times> ('cid, 'n) service_state \<Rightarrow> 'cid activity list \<times> ('cid, 'n) service_state" where
  "service_turn env (Receive rq) (as, s) = (as @ [Arrived rq], s)"
| "service_turn env (Resume i) (as, s) =
     (if i < length as then
        (case resume env (as ! i) s of
           (Inl r, s') \<Rightarrow> (take i as @ drop (Suc i) as, s')
         | (Inr a, s') \<Rightarrow> (as[i := a], s'))
      else (as, s))"

text \<open>The changes of a job's status over a sequence of turns.  An activity about to write is overtaken when the job no longer has the
  status it read.\<close>

fun turn_changes ::
    "('cid, 'n) service_env \<Rightarrow> 'cid \<Rightarrow> 'cid turn list \<Rightarrow> 'cid activity list \<times> ('cid, 'n) service_state \<Rightarrow> nat" where
  "turn_changes env j [] c = 0"
| "turn_changes env j (u # us) c =
     (let c' = service_turn env u c
      in (if row_columns (codec env) (store (snd c')) j \<noteq> row_columns (codec env) (store (snd c)) j then 1 else 0) +
         turn_changes env j us c')"

fun pending_write :: "'cid activity \<Rightarrow> ('cid \<times> JobStatus \<times> db_fields option) option" where
  "pending_write (Updating rq jid new read) = Some (jid, new, read)"
| "pending_write (Assigning t jid w read) = Some (jid, Assigned (bidder (fst w)), read)"
| "pending_write _ = None"

definition overtaken :: "'cid job_codec \<Rightarrow> 'cid \<Rightarrow> 'cid SqliteStore \<Rightarrow> 'cid activity \<Rightarrow> bool" where
  "overtaken cd j st a = (case pending_write a of
     None \<Rightarrow> False
   | Some (k, new, read) \<Rightarrow> cid_str cd k = cid_str cd j \<and> row_columns cd st k \<noteq> read)"

definition reports :: "'cid job_codec \<Rightarrow> 'cid \<Rightarrow> 'cid activity \<Rightarrow> bool" where
  "reports cd j a = (case a of
     Arrived (ReportFailure t r) \<Rightarrow> (case cid_of cd t of Inr k \<Rightarrow> cid_str cd k = cid_str cd j | Inl _ \<Rightarrow> False)
   | _ \<Rightarrow> False)"

fun resumed :: "('cid activity \<Rightarrow> 'cid SqliteStore \<Rightarrow> bool) \<Rightarrow> ('cid, 'n) service_env \<Rightarrow> 'cid turn list \<Rightarrow>
    'cid activity list \<times> ('cid, 'n) service_state \<Rightarrow> nat" where
  "resumed P env [] c = 0"
| "resumed P env (u # us) c =
     (case u of Resume i \<Rightarrow> if i < length (fst c) \<and> P (fst c ! i) (store (snd c)) then 1 else 0 | Receive _ \<Rightarrow> 0) +
     resumed P env us (service_turn env u c)"

section \<open>What an activity may still write\<close>

abbreviation status_rank :: "'cid job_codec \<Rightarrow> JobStatus \<Rightarrow> nat" where
  "status_rank cd new \<equiv> col_rank (Some (to_db_fields (reason_str cd) new))"

definition forward :: "'cid job_codec \<Rightarrow> db_fields option \<Rightarrow> JobStatus \<Rightarrow> bool" where
  "forward cd read new \<longleftrightarrow> col_rank read < status_rank cd new \<and> 2 \<le> status_rank cd new"

fun activity_ok :: "'cid job_codec \<Rightarrow> 'cid activity \<Rightarrow> bool" where
  "activity_ok cd (Arrived rq) = True"
| "activity_ok cd (Selecting t j q read) = (\<forall>d. forward cd read (Assigned d))"
| "activity_ok cd (Assigning t j w read) = forward cd read (Assigned (bidder (fst w)))"
| "activity_ok cd (Reporting rq j rec new read) = forward cd read new"
| "activity_ok cd (Updating rq j new read) = forward cd read new"

lemma life_forward:
  "life rq old new \<Longrightarrow> sql_get_job cd st j = Inr (Some (q, old)) \<Longrightarrow> forward cd (row_columns cd st j) new"
  using life_rank [of rq old new "reason_str cd"] sql_get_job_columns [of cd st j q old]
  by (auto simp: forward_def) (auto elim!: life.cases simp: col_rank_def)

lemma first_part_ok:
  assumes "first_part env rq s = (Inr a, s')"
  shows "activity_ok (codec env) a \<and> store s' = store s"
proof (cases rq)
  case (BeginBidding t)
  with assms show ?thesis
    by (auto simp: guard_iffs intro: life_forward [OF life.bidding] split: sum.splits prod.splits if_splits)
next
  case (AssignBestBid t)
  with assms show ?thesis
    by (auto simp: guard_iffs intro: life_forward [OF life.assigned] split: sum.splits prod.splits if_splits)
next
  case (StartJob t h)
  with assms show ?thesis
    by (auto simp: guard_iffs intro: life_forward [OF life.started] split: sum.splits prod.splits if_splits JobStatus.splits)
next
  case (CompleteJob t h d)
  with assms show ?thesis
    by (auto simp: running_job_Inr intro: life_forward [OF life.completed] split: sum.splits prod.splits)
next
  case (FailJob t h d)
  with assms show ?thesis
    by (auto simp: running_job_Inr intro: life_forward [OF life.failed] split: sum.splits prod.splits)
qed (use assms in \<open>auto simp: finished_def\<close>)

lemma resume_ok: "resume env a s = (Inr a', s') \<Longrightarrow> activity_ok (codec env) a \<Longrightarrow> activity_ok (codec env) a'"
  by (cases a) (auto simp: first_part_ok finished_def split: sum.splits prod.splits if_splits option.splits)

lemma forward_rank: "forward cd read new \<Longrightarrow> cols = Some (to_db_fields (reason_str cd) new) \<Longrightarrow>
    col_rank read < col_rank cols \<and> 2 \<le> col_rank cols"
  by (simp add: forward_def)

text \<open>The only writes.\<close>

lemma pending_write_effect:
  assumes "pending_write a = Some (k, new, read)" "resume env a s = (o', s')"
    and "row_columns (codec env) (store s') j \<noteq> row_columns (codec env) (store s) j"
  shows "cid_str (codec env) k = cid_str (codec env) j \<and> row_columns (codec env) (store s') j = Some (to_db_fields (reason_str (codec env)) new)"
proof -
  have "sql_update_job_status (codec env) k new (store s) = (Inr (), store s')"
  proof (cases a)
    case (Assigning t k' w r)
    moreover have "store s' \<noteq> store s" using assms(3) by auto
    ultimately show ?thesis
      using assms(1,2) assign_winner_step [of env k "fst w" "fst (snd w)" "snd (snd w)" s "fst (assign_winner env k w s)" s']
      by (auto simp: finished_def)
  next
    case (Updating rq k' n r)
    with assms show ?thesis by (auto dest: sql_update_error split: prod.splits sum.splits)
  qed (use assms(1) in auto)
  from sql_store.update_ok [OF this] assms(3) show ?thesis by (auto split: if_splits)
qed

lemma first_part_effect:
  assumes "first_part env rq s = (o', s')" "row_columns (codec env) (store s') j \<noteq> row_columns (codec env) (store s) j"
  shows "if reports (codec env) j (Arrived rq) then col_rank (row_columns (codec env) (store s') j) = 5
    else col_rank (row_columns (codec env) (store s) j) < col_rank (row_columns (codec env) (store s') j)"
proof -
  have same: False if "store s' = store s" using that assms(2) by simp
  show ?thesis
  proof (cases rq)
    case (CreateJob p d)
    with assms have "create_job env p d s = (fst (create_job env p d s), s')" by (auto simp: finished_def)
    from job_step_rank [OF create_job_step [OF this] assms(2)] CreateJob show ?thesis by (simp add: reports_def)
  next
    case (SubmitBid t b)
    with assms have "submit_bid env t b s = (fst (submit_bid env t b s), s')" by (auto simp: finished_def)
    from job_step_rank [OF submit_bid_step [OF this] assms(2)] SubmitBid show ?thesis by (simp add: reports_def)
  next
    case (ReportFailure t r)
    with assms have h: "report_runtime_failure_handler env t r s = (fst (report_runtime_failure_handler env t r s), s')"
      by (auto simp: finished_def)
    with same obtain k where "cid_of (codec env) t = Inr k"
        "sql_update_job_status (codec env) k (Failed (report_reason r)) (store s) = (Inr (), store s')"
      by (auto simp: report_runtime_failure_handler_def path_cid_Inr dest: sql_update_error split: sum.splits prod.splits)
    with sql_store.update_ok assms(2) have "cid_str (codec env) k = cid_str (codec env) j" by (fastforce split: if_splits)
    with \<open>cid_of _ _ = _\<close> job_step_rank [OF report_step [OF h] assms(2)] ReportFailure show ?thesis by (simp add: reports_def)
  qed (use assms(1) same in \<open>auto split: sum.splits prod.splits if_splits JobStatus.splits\<close>)
qed

lemma resume_effect:
  assumes "resume env a s = (o', s')" "activity_ok (codec env) a"
    and "row_columns (codec env) (store s') j \<noteq> row_columns (codec env) (store s) j"
  shows "1 + (5 - col_rank (row_columns (codec env) (store s') j)) \<le> (5 - col_rank (row_columns (codec env) (store s) j)) +
    (if reports (codec env) j a then 1 else 0) + 4 * (if overtaken (codec env) j (store s) a then 1 else 0)"
proof (cases "pending_write a")
  case None
  then have "\<exists>rq. a = Arrived rq"
    using assms(1,3) by (cases a) (auto split: sum.splits prod.splits if_splits option.splits)
  then obtain rq where a: "a = Arrived rq" ..
  with assms first_part_effect [of env rq s o' s' j] col_rank_le [of "row_columns (codec env) (store s') j"]
  show ?thesis by (auto split: if_splits)
next
  case (Some w)
  obtain k new read where w: "w = (k, new, read)" by (cases w)
  from pending_write_effect [OF Some [unfolded w] assms(1,3)]
  have k: "cid_str (codec env) k = cid_str (codec env) j"
    and new: "row_columns (codec env) (store s') j = Some (to_db_fields (reason_str (codec env)) new)" by auto
  have fwd: "forward (codec env) read new" using Some assms(2) by (cases a) (auto simp: w)
  note rank = forward_rank [OF fwd new] col_rank_le [of "row_columns (codec env) (store s') j"]
  show ?thesis
  proof (cases "row_columns (codec env) (store s) k = read")
    case True
    with rank columns_by_text [OF k, of "store s"] show ?thesis by auto
  next
    case False
    with Some k have "overtaken (codec env) j (store s) a" by (simp add: overtaken_def w)
    with rank show ?thesis by auto
  qed
qed

section \<open>Properties\<close>

lemma turn_ok:
  assumes "list_all (activity_ok (codec env)) as" "service_turn env u (as, s) = (as', s')"
  shows "list_all (activity_ok (codec env)) as'"
proof (cases u)
  case (Resume i)
  with assms show ?thesis
    by (auto simp: list_all_length nth_list_update nth_append resume_ok split: if_splits prod.splits sum.splits)
qed (use assms in auto)

lemma turns_bounded:
  assumes "list_all (activity_ok (codec env)) as"
  shows "turn_changes env j us (as, s) \<le> (5 - col_rank (row_columns (codec env) (store s) j)) +
    resumed (\<lambda>a st. reports (codec env) j a) env us (as, s) + 4 * resumed (\<lambda>a st. overtaken (codec env) j st a) env us (as, s)"
  using assms
proof (induction us arbitrary: as s)
  case Nil
  then show ?case by simp
next
  case (Cons u us)
  obtain as' s' where t: "service_turn env u (as, s) = (as', s')" by (cases "service_turn env u (as, s)")
  note IH = Cons.IH [OF turn_ok [OF Cons.prems t], of s']
  show ?case
  proof (cases "\<exists>i. u = Resume i \<and> i < length as")
    case True
    then obtain i where u: "u = Resume i" and i: "i < length as" by blast
    obtain o' s1 where r: "resume env (as ! i) s = (o', s1)" by (cases "resume env (as ! i) s")
    with t u i have "s1 = s'" by (auto split: sum.splits)
    with resume_effect [OF r, of j] Cons.prems i IH t show ?thesis
      by (auto simp: u list_all_length Let_def)
  next
    case False
    with t have "s' = s" by (cases u) auto
    with IH t False show ?thesis by (cases u) (auto simp: Let_def)
  qed
qed

text \<open>C21: the life cycle of a job ends, overlapping requests included.  Whatever requests arrive and in whatever order their
  handlers' reads, waits and writes interleave, the status of a job changes at most five times less its stage at the
  start, plus once for each failure report about it, plus four times for each write of a handler that was overtaken, that is,
  whose job had changed its status since the handler read it.\<close>

theorem status_changes_bounded:
  "turn_changes env j us ([], s) \<le> (5 - col_rank (row_columns (codec env) (store s) j)) +
    resumed (\<lambda>a st. reports (codec env) j a) env us ([], s) + 4 * resumed (\<lambda>a st. overtaken (codec env) j st a) env us ([], s)"
  by (rule turns_bounded) simp

text \<open>An overtaken handler is not stopped: an assignment that was being selected writes its bidder over whatever status the job
  has reached meanwhile, running or completed.\<close>

lemma overtaken_assignment_overwrites:
  assumes "bid_id w = Some i" "row_columns (codec env) (store s) j \<noteq> None"
  shows "row_columns (codec env) (store (snd (resume env (Assigning t j (w, sc, why) read) s))) j =
    Some (to_db_fields (reason_str (codec env)) (Assigned (bidder w)))"
proof -
  obtain r st where a: "sql_assign_job (codec env) j (bidder w) (store s) = (r, st)" by (cases "sql_assign_job (codec env) j (bidder w) (store s)")
  have "r = Inr ()" using a assms(2) by (auto simp: sql_assign_job_def sql_update_result row_columns_def split: if_splits option.splits)
  with a sql_store.assign_ok [of "codec env" j "bidder w" "store s" st] assms(1) show ?thesis
    by (auto simp: finished_def assign_winner_def split: sum.split option.split)
qed

end
