(* ===== verification/Agora_Ledger.thy ===== *)
theory Agora_Ledger
  imports Json "HOL-Library.Sublist"
begin

text \<open>
  The token ledgers of AgoraNet, \<open>crates/services/icn-agoranet/src\<close>: the in-memory ledger of \<open>transfers.rs\<close> and its
  copy in \<open>handlers.rs\<close>, which differ only in the key of a balance, and the PostgreSQL store of \<open>ledger/pg_store.rs\<close>
  over the tables of \<open>ledger/migrations\<close>.

  Amounts are \<open>u64\<close> with the wrap-around of an unchecked build.  A PostgreSQL table is a map by primary key or a list of
  rows; a \<open>BIGINT\<close> column is an integer, and a statement that violates a constraint of the schema or leaves the range
  fails and rolls its transaction back.  Failures of the connection are left out.  The variants of \<open>EntityType\<close> are
  those of \<open>models.rs\<close> and those the rest of the crate matches on.
\<close>

section \<open>Data\<close>

type_synonym uuid = "128 word"

datatype EntityType = User | Organization | Asset | Contract | ResourceProvider
  | FederationEntity | CooperativeEntity | CommunityEntity

fun entity_type_text :: "EntityType \<Rightarrow> string" where
  "entity_type_text User = ''User''"
| "entity_type_text Organization = ''Organization''"
| "entity_type_text Asset = ''Asset''"
| "entity_type_text Contract = ''Contract''"
| "entity_type_text ResourceProvider = ''ResourceProvider''"
| "entity_type_text FederationEntity = ''Federation''"
| "entity_type_text CooperativeEntity = ''Cooperative''"
| "entity_type_text CommunityEntity = ''Community''"

record EntityRef =
  entity_type :: EntityType
  entity_id :: string

record Transfer =
  tx_id :: uuid
  tr_federation_id :: string
  tr_from :: EntityRef
  tr_to :: EntityRef
  tr_amount :: u64
  tr_fee :: u64
  tr_initiator :: string
  tr_timestamp :: int
  tr_memo :: "string option"
  tr_metadata :: "Value option"

record TransferRequest =
  rq_from :: EntityRef
  rq_to :: EntityRef
  rq_amount :: u64
  rq_memo :: "string option"
  rq_metadata :: "Value option"

datatype TransferError =
    InsufficientBalance
  | InvalidAmount
  | EntityNotFound string
  | TransferNotFound uuid
  | FederationMismatch
  | DatabaseError string
  | TransferInternal string

definition transfer_error_text :: "(uuid \<Rightarrow> string) \<Rightarrow> TransferError \<Rightarrow> string" where
  "transfer_error_text uuid_text e =
     (case e of
        InsufficientBalance \<Rightarrow> ''insufficient balance''
      | InvalidAmount \<Rightarrow> ''invalid amount''
      | EntityNotFound i \<Rightarrow> ''entity not found: '' @ i
      | TransferNotFound u \<Rightarrow> ''transfer not found: '' @ uuid_text u
      | FederationMismatch \<Rightarrow> ''federation mismatch''
      | DatabaseError m \<Rightarrow> ''database error: '' @ m
      | TransferInternal m \<Rightarrow> ''internal error: '' @ m)"

section \<open>The in-memory ledger\<close>

text \<open>\<open>key\<close> is how a ledger names an entity: the pair of \<open>transfers.rs\<close> or the text of \<open>handlers.rs\<close>.\<close>

definition pair_key :: "EntityRef \<Rightarrow> string \<times> EntityType" where
  "pair_key e = (entity_id e, entity_type e)"

definition text_key :: "EntityRef \<Rightarrow> string" where
  "text_key e = entity_type_text (entity_type e) @ '':'' @ entity_id e"

record 'k Ledger =
  balances :: "('k, u64) hmap"
  transfers :: "Transfer list"
  federation_stats :: "(string, u64) hmap"

definition Ledger_new :: "'k Ledger" where
  "Ledger_new = \<lparr>balances = [], transfers = [], federation_stats = []\<rparr>"

definition get_balance :: "(EntityRef \<Rightarrow> 'k) \<Rightarrow> 'k Ledger \<Rightarrow> EntityRef \<Rightarrow> u64" where
  "get_balance key l e = hget_or 0 (balances l) (key e)"

definition set_balance :: "(EntityRef \<Rightarrow> 'k) \<Rightarrow> EntityRef \<Rightarrow> u64 \<Rightarrow> 'k Ledger \<Rightarrow> 'k Ledger" where
  "set_balance key e b l = l\<lparr>balances := hinsert (balances l) (key e) b\<rparr>"

definition process_transfer ::
    "(EntityRef \<Rightarrow> 'k) \<Rightarrow> Transfer \<Rightarrow> 'k Ledger \<Rightarrow> (TransferError + Transfer) \<times> 'k Ledger" where
  "process_transfer key t l =
     (if tr_amount t = 0 then (Inl InvalidAmount, l)
      else let from_balance = get_balance key l (tr_from t) in
        if from_balance < tr_amount t + tr_fee t then (Inl InsufficientBalance, l)
        else
          let l1 = set_balance key (tr_from t) (from_balance - tr_amount t - tr_fee t) l;
              l2 = set_balance key (tr_to t) (get_balance key l1 (tr_to t) + tr_amount t) l1;
              l3 = l2\<lparr>transfers := transfers l2 @ [t]\<rparr>
          in (Inr t, case hget (federation_stats l3) (tr_federation_id t) of
                Some stats \<Rightarrow> l3\<lparr>federation_stats := hinsert (federation_stats l3) (tr_federation_id t) (stats + tr_fee t)\<rparr>
              | None \<Rightarrow> l3))"

record BatchTransferResponse =
  successful :: nat
  failed :: nat
  successful_ids :: "uuid list"
  failed_transfers :: "(nat \<times> string) list"
  total_transferred :: u64
  total_fees :: u64

definition BatchTransferResponse_empty :: BatchTransferResponse where
  "BatchTransferResponse_empty =
     \<lparr>successful = 0, failed = 0, successful_ids = [], failed_transfers = [], total_transferred = 0, total_fees = 0\<rparr>"

text \<open>The loop of a batch over any single-transfer operation, from the index of the next transfer.\<close>

fun batch_loop ::
    "(TransferError \<Rightarrow> string) \<Rightarrow> (Transfer \<Rightarrow> 's \<Rightarrow> (TransferError + Transfer) \<times> 's) \<Rightarrow> nat \<Rightarrow> Transfer list \<Rightarrow>
      BatchTransferResponse \<times> 's \<Rightarrow> BatchTransferResponse \<times> 's" where
  "batch_loop err_text process i [] (r, s) = (r, s)"
| "batch_loop err_text process i (t # ts) (r, s) =
     (case process t s of
        (Inr p, s') \<Rightarrow> batch_loop err_text process (Suc i) ts
          (r\<lparr>successful := successful r + 1, successful_ids := successful_ids r @ [tx_id p],
             total_transferred := total_transferred r + tr_amount p, total_fees := total_fees r + tr_fee p\<rparr>, s')
      | (Inl e, s') \<Rightarrow> batch_loop err_text process (Suc i) ts
          (r\<lparr>failed := failed r + 1, failed_transfers := failed_transfers r @ [(i, err_text e)]\<rparr>, s'))"

definition process_batch_transfer ::
    "(TransferError \<Rightarrow> string) \<Rightarrow> (EntityRef \<Rightarrow> 'k) \<Rightarrow> Transfer list \<Rightarrow> 'k Ledger \<Rightarrow> BatchTransferResponse \<times> 'k Ledger" where
  "process_batch_transfer err_text key ts l = batch_loop err_text (process_transfer key) 0 ts (BatchTransferResponse_empty, l)"

definition find_transfer :: "'k Ledger \<Rightarrow> uuid \<Rightarrow> Transfer option" where
  "find_transfer l i = find (\<lambda>t. tx_id t = i) (transfers l)"

record TransferQuery =
  q_federation_id :: "string option"
  q_entity_id :: "string option"
  q_entity_type :: "EntityType option"
  q_from_only :: "bool option"
  q_to_only :: "bool option"
  q_start_date :: "int option"
  q_end_date :: "int option"
  q_min_amount :: "u64 option"
  q_max_amount :: "u64 option"
  q_limit :: "u32 option"
  q_offset :: "u32 option"

definition entity_matches :: "TransferQuery \<Rightarrow> Transfer \<Rightarrow> bool" where
  "entity_matches q t =
     (case q_entity_id q of
        Some i \<Rightarrow>
          let from_match = (entity_id (tr_from t) = i); to_match = (entity_id (tr_to t) = i) in
          (if q_from_only q = Some True then from_match
           else if q_to_only q = Some True then to_match
           else from_match \<or> to_match) \<and>
          (case q_entity_type q of
             Some ty \<Rightarrow> \<not> (from_match \<and> entity_type (tr_from t) \<noteq> ty \<or> to_match \<and> entity_type (tr_to t) \<noteq> ty)
           | None \<Rightarrow> True)
      | None \<Rightarrow>
          (case q_entity_type q of
             Some ty \<Rightarrow> entity_type (tr_from t) = ty \<or> entity_type (tr_to t) = ty
           | None \<Rightarrow> True))"

definition transfer_matches :: "TransferQuery \<Rightarrow> Transfer \<Rightarrow> bool" where
  "transfer_matches q t \<longleftrightarrow>
     (case q_federation_id q of Some f \<Rightarrow> tr_federation_id t = f | None \<Rightarrow> True) \<and>
     entity_matches q t \<and>
     (case q_start_date q of Some d \<Rightarrow> \<not> tr_timestamp t < d | None \<Rightarrow> True) \<and>
     (case q_end_date q of Some d \<Rightarrow> \<not> d < tr_timestamp t | None \<Rightarrow> True) \<and>
     (case q_min_amount q of Some m \<Rightarrow> \<not> tr_amount t < m | None \<Rightarrow> True) \<and>
     (case q_max_amount q of Some m \<Rightarrow> \<not> m < tr_amount t | None \<Rightarrow> True)"

definition query_transfers :: "TransferQuery \<Rightarrow> 'k Ledger \<Rightarrow> Transfer list" where
  "query_transfers q l =
     (let sorted = sort_key (\<lambda>t. - tr_timestamp t) (filter (transfer_matches q) (transfers l));
          skipped = (case q_offset q of
             Some k \<Rightarrow> if unat k < length sorted then drop (unat k) sorted else []
           | None \<Rightarrow> sorted)
      in case q_limit q of
           Some n \<Rightarrow> if unat n < length skipped then take (unat n) skipped else skipped
         | None \<Rightarrow> skipped)"

section \<open>Statistics and example data\<close>

record LedgerStats =
  st_total_transfers :: nat
  st_total_volume :: u64
  st_total_fees :: u64
  st_total_entities :: nat
  st_active_entities :: nat
  st_highest_balance_entity :: "EntityRef option"
  st_highest_balance :: u64
  st_transfers_last_24h :: nat
  st_volume_last_24h :: u64

text \<open>\<open>max_by_key\<close> returns the last of the greatest entries it meets.\<close>

fun max_by_balance :: "('k \<times> u64) option \<Rightarrow> ('k \<times> u64) list \<Rightarrow> ('k \<times> u64) option" where
  "max_by_balance acc [] = acc"
| "max_by_balance acc (e # es) =
     max_by_balance (case acc of None \<Rightarrow> Some e | Some m \<Rightarrow> if snd e < snd m then Some m else Some e) es"

definition DAY :: int where
  "DAY = 86400000000000"

definition stats_of :: "int \<Rightarrow> Transfer list \<Rightarrow> nat \<Rightarrow> ((string \<times> EntityType) \<times> u64) list \<Rightarrow>
    ((string \<times> EntityType) \<times> u64) list \<Rightarrow> LedgerStats" where
  "stats_of now ts entities active ranked =
     (let recent = filter (\<lambda>t. now - DAY < tr_timestamp t) ts;
          (entity, highest) = (case max_by_balance None ranked of
             Some ((i, ty), b) \<Rightarrow> (Some \<lparr>entity_type = ty, entity_id = i\<rparr>, b)
           | None \<Rightarrow> (None, 0))
      in \<lparr>st_total_transfers = length ts, st_total_volume = sum_list (map tr_amount ts),
          st_total_fees = sum_list (map tr_fee ts), st_total_entities = entities, st_active_entities = length active,
          st_highest_balance_entity = entity, st_highest_balance = highest,
          st_transfers_last_24h = length recent, st_volume_last_24h = sum_list (map tr_amount recent)\<rparr>)"

definition get_stats :: "int \<Rightarrow> (string \<times> EntityType) Ledger \<Rightarrow> LedgerStats" where
  "get_stats now l =
     stats_of now (transfers l) (length (balances l)) (filter (\<lambda>(_, b). 0 < b) (balances l)) (balances l)"

definition get_federation_stats :: "int \<Rightarrow> (string \<times> EntityType) Ledger \<Rightarrow> string \<Rightarrow> LedgerStats option" where
  "get_federation_stats now l f =
     (if hget (federation_stats l) f = None then None
      else let active = filter (\<lambda>(_, b). 0 < b) (balances l) in
        Some (stats_of now (filter (\<lambda>t. tr_federation_id t = f) (transfers l)) (length (balances l)) active active))"

definition example_entities :: "(EntityRef \<times> u64) list" where
  "example_entities =
     [(\<lparr>entity_type = FederationEntity, entity_id = ''federation1''\<rparr>, 1000000),
      (\<lparr>entity_type = CooperativeEntity, entity_id = ''coop-econA''\<rparr>, 250000),
      (\<lparr>entity_type = CooperativeEntity, entity_id = ''coop-econB''\<rparr>, 150000),
      (\<lparr>entity_type = CommunityEntity, entity_id = ''comm-govX''\<rparr>, 50000),
      (\<lparr>entity_type = CommunityEntity, entity_id = ''comm-govY''\<rparr>, 25000),
      (\<lparr>entity_type = User, entity_id = ''did:icn:user1''\<rparr>, 5000),
      (\<lparr>entity_type = User, entity_id = ''did:icn:user2''\<rparr>, 3000)]"

definition with_example_data :: "(EntityRef \<Rightarrow> 'k) \<Rightarrow> 'k Ledger" where
  "with_example_data key =
     foldl (\<lambda>l (e, b).
       let l' = set_balance key e b l in
       if entity_type e = FederationEntity then l'\<lparr>federation_stats := hinsert (federation_stats l') (entity_id e) b\<rparr>
       else l'\<lparr>federation_stats := hinsert (federation_stats l') ''federation1''
         (hget_or 0 (federation_stats l') ''federation1'' + b)\<rparr>)
     Ledger_new example_entities"

section \<open>The PostgreSQL store\<close>

type_synonym pg_key = "string \<times> string"

definition pg_key :: "EntityRef \<Rightarrow> pg_key" where
  "pg_key e = (entity_type_text (entity_type e), entity_id e)"

record TransferRow =
  row_tx_id :: uuid
  row_federation_id :: string
  row_from :: pg_key
  row_to :: pg_key
  row_amount :: int
  row_fee :: int
  row_initiator :: string
  row_timestamp :: int
  row_memo :: "string option"

record pg =
  entities_table :: "(pg_key, string) hmap"
  balances_table :: "(pg_key, int) hmap"
  transfers_table :: "TransferRow list"
  stats_table :: "(string, int \<times> int \<times> int) hmap"

definition in_bigint :: "int \<Rightarrow> bool" where
  "in_bigint i \<longleftrightarrow> - (2 ^ 63) \<le> i \<and> i < 2 ^ 63"

definition bigint :: "int \<Rightarrow> TransferError + int" where
  "bigint i = (if in_bigint i then Inr i else Inl (DatabaseError ''bigint out of range''))"

definition ensure_entity_exists_in_tx :: "EntityRef \<Rightarrow> string \<Rightarrow> pg \<Rightarrow> pg" where
  "ensure_entity_exists_in_tx e f db =
     (if hget (entities_table db) (pg_key e) \<noteq> None then db
      else db\<lparr>entities_table := hinsert (entities_table db) (pg_key e) f,
              balances_table := hinsert (balances_table db) (pg_key e) 0\<rparr>)"

definition pg_ensure_entity_exists :: "EntityRef \<Rightarrow> string \<Rightarrow> pg \<Rightarrow> pg" where
  "pg_ensure_entity_exists e f db = ensure_entity_exists_in_tx e f db"

definition pg_get_balance :: "pg \<Rightarrow> EntityRef \<Rightarrow> u64" where
  "pg_get_balance db e = (case hget (balances_table db) (pg_key e) of Some b \<Rightarrow> word_of_int b | None \<Rightarrow> 0)"

definition transfer_row :: "Transfer \<Rightarrow> TransferRow" where
  "transfer_row t =
     \<lparr>row_tx_id = tx_id t, row_federation_id = tr_federation_id t, row_from = pg_key (tr_from t),
      row_to = pg_key (tr_to t), row_amount = sint (tr_amount t), row_fee = sint (tr_fee t),
      row_initiator = tr_initiator t, row_timestamp = tr_timestamp t, row_memo = tr_memo t\<rparr>"

definition insert_transfer :: "Transfer \<Rightarrow> pg \<Rightarrow> TransferError + pg" where
  "insert_transfer t db =
     (if list_ex (\<lambda>r. row_tx_id r = tx_id t) (transfers_table db)
      then Inl (DatabaseError ''duplicate key value violates unique constraint'')
      else if sint (tr_amount t) \<le> 0 then Inl (DatabaseError ''new row violates check constraint'')
      else Inr (db\<lparr>transfers_table := transfers_table db @ [transfer_row t]\<rparr>))"

definition add_balance :: "EntityRef \<Rightarrow> int \<Rightarrow> pg \<Rightarrow> TransferError + pg" where
  "add_balance e d db =
     (case hget (balances_table db) (pg_key e) of
        None \<Rightarrow> Inr db
      | Some b \<Rightarrow> bind_result (bigint (b + d)) (\<lambda>b'. Inr (db\<lparr>balances_table := hinsert (balances_table db) (pg_key e) b'\<rparr>)))"

definition update_federation_stats :: "string \<Rightarrow> u64 \<Rightarrow> u64 \<Rightarrow> pg \<Rightarrow> TransferError + pg" where
  "update_federation_stats f amt fee db =
     (case hget (stats_table db) f of
        None \<Rightarrow> Inr (db\<lparr>stats_table := hinsert (stats_table db) f (1, sint amt, sint fee)\<rparr>)
      | Some (n, v, c) \<Rightarrow>
          bind_result (bigint (n + 1)) (\<lambda>n'. bind_result (bigint (v + sint amt)) (\<lambda>v'. bind_result (bigint (c + sint fee)) (\<lambda>c'.
            Inr (db\<lparr>stats_table := hinsert (stats_table db) f (n', v', c')\<rparr>)))))"

text \<open>A transaction that does not commit leaves the database as it was.\<close>

definition pg_process_transfer :: "Transfer \<Rightarrow> pg \<Rightarrow> (TransferError + Transfer) \<times> pg" where
  "pg_process_transfer t db =
     (let db1 = ensure_entity_exists_in_tx (tr_from t) (tr_federation_id t) db;
          db2 = ensure_entity_exists_in_tx (tr_to t) (tr_federation_id t) db1;
          total_deduction = tr_amount t + tr_fee t
      in case (case hget (balances_table db2) (pg_key (tr_from t)) of
                 None \<Rightarrow> Inl (DatabaseError ''no rows returned by a query that expected to return at least one row'')
               | Some b \<Rightarrow>
                   if (word_of_int b :: u64) < total_deduction then Inl InsufficientBalance
                   else bind_result (insert_transfer t db2) (\<lambda>d.
                     bind_result (add_balance (tr_from t) (- sint total_deduction) d) (\<lambda>d.
                       bind_result (add_balance (tr_to t) (sint (tr_amount t)) d)
                         (update_federation_stats (tr_federation_id t) (tr_amount t) (tr_fee t))))) of
           Inl e \<Rightarrow> (Inl e, db)
         | Inr db' \<Rightarrow> (Inr t, db'))"

definition pg_process_batch_transfer ::
    "(TransferError \<Rightarrow> string) \<Rightarrow> Transfer list \<Rightarrow> pg \<Rightarrow> BatchTransferResponse \<times> pg" where
  "pg_process_batch_transfer err_text ts db =
     (if ts = [] then (BatchTransferResponse_empty, db)
      else batch_loop err_text pg_process_transfer 0 ts (BatchTransferResponse_empty, db))"

definition entity_type_from_string :: "string \<Rightarrow> TransferError + EntityType" where
  "entity_type_from_string s =
     (if s = ''Cooperative'' then Inr CooperativeEntity
      else if s = ''Community'' then Inr CommunityEntity
      else if s = ''User'' then Inr User
      else if s = ''Contract'' then Inr Contract
      else if s = ''ResourceProvider'' then Inr ResourceProvider
      else Inl (TransferInternal (''Invalid entity type string: '' @ s)))"

definition row_entity :: "pg_key \<Rightarrow> TransferError + EntityRef" where
  "row_entity k = bind_result (entity_type_from_string (fst k)) (\<lambda>ty. Inr \<lparr>entity_type = ty, entity_id = snd k\<rparr>)"

definition pg_find_transfer :: "pg \<Rightarrow> uuid \<Rightarrow> TransferError + Transfer option" where
  "pg_find_transfer db i =
     (case find (\<lambda>r. row_tx_id r = i) (transfers_table db) of
        None \<Rightarrow> Inr None
      | Some row \<Rightarrow>
          bind_result (row_entity (row_from row)) (\<lambda>from_ref. bind_result (row_entity (row_to row)) (\<lambda>to_ref.
            Inr (Some \<lparr>tx_id = row_tx_id row, tr_federation_id = row_federation_id row, tr_from = from_ref, tr_to = to_ref,
              tr_amount = word_of_int (row_amount row), tr_fee = word_of_int (row_fee row), tr_initiator = row_initiator row,
              tr_timestamp = row_timestamp row, tr_memo = row_memo row, tr_metadata = None\<rparr>))))"

text \<open>The query is stubbed in the source.\<close>

definition pg_query_transfers :: "pg \<Rightarrow> TransferQuery \<Rightarrow> Transfer list" where
  "pg_query_transfers db q = []"

definition pg_create_transfer ::
    "TransferRequest \<Rightarrow> string \<Rightarrow> string \<Rightarrow> u64 \<Rightarrow> uuid \<Rightarrow> int \<Rightarrow> pg \<Rightarrow> (TransferError + Transfer) \<times> pg" where
  "pg_create_transfer rq f initiator fee new_uuid now db =
     pg_process_transfer \<lparr>tx_id = new_uuid, tr_federation_id = f, tr_from = rq_from rq, tr_to = rq_to rq,
       tr_amount = rq_amount rq, tr_fee = fee, tr_initiator = initiator, tr_timestamp = now, tr_memo = rq_memo rq,
       tr_metadata = None\<rparr> db"

section \<open>Batches\<close>

text \<open>What processing the transfers one after the other gives: the results in order, and the final state.\<close>

fun outcomes :: "(Transfer \<Rightarrow> 's \<Rightarrow> (TransferError + Transfer) \<times> 's) \<Rightarrow> Transfer list \<Rightarrow> 's \<Rightarrow> (TransferError + Transfer) list \<times> 's" where
  "outcomes process [] s = ([], s)"
| "outcomes process (t # ts) s = (case process t s of (r, s') \<Rightarrow> (case outcomes process ts s' of (rs, s'') \<Rightarrow> (r # rs, s'')))"

definition oks :: "(TransferError + Transfer) list \<Rightarrow> Transfer list" where
  "oks rs = concat (map (\<lambda>r. case r of Inr t \<Rightarrow> [t] | Inl _ \<Rightarrow> []) rs)"

definition errs :: "nat \<Rightarrow> (TransferError + Transfer) list \<Rightarrow> (nat \<times> TransferError) list" where
  "errs i rs = concat (map (\<lambda>(k, r). case r of Inl e \<Rightarrow> [(k, e)] | Inr _ \<Rightarrow> []) (enumerate i rs))"

lemma oks_simps [simp]: "oks [] = []" "oks (Inr t # rs) = t # oks rs" "oks (Inl e # rs) = oks rs"
  by (simp_all add: oks_def)

lemma errs_simps [simp]: "errs i [] = []" "errs i (Inr t # rs) = errs (Suc i) rs" "errs i (Inl e # rs) = (i, e) # errs (Suc i) rs"
  by (simp_all add: errs_def)

lemma batch_loop_outcomes:
  assumes "outcomes process ts s = (rs, s')"
  shows "batch_loop err_text process i ts (r, s) =
    (r\<lparr>successful := successful r + length (oks rs), failed := failed r + length (errs i rs),
       successful_ids := successful_ids r @ map tx_id (oks rs),
       failed_transfers := failed_transfers r @ map (map_prod id err_text) (errs i rs),
       total_transferred := total_transferred r + sum_list (map tr_amount (oks rs)),
       total_fees := total_fees r + sum_list (map tr_fee (oks rs))\<rparr>, s')"
  using assms
  by (induction ts arbitrary: i r s rs) (auto split: prod.splits sum.splits simp: algebra_simps)

lemma length_outcomes: "outcomes process ts s = (rs, s') \<Longrightarrow> length rs = length ts"
  by (induction ts arbitrary: s rs) (auto split: prod.splits)

lemma length_oks_errs: "length (oks rs) + length (errs i rs) = length rs"
proof (induction rs arbitrary: i)
  case (Cons r rs)
  then show ?case by (cases r) auto
qed simp

section \<open>What a ledger promises\<close>

text \<open>The balances after a transfer, as exact numbers.\<close>

definition moved :: "Transfer \<Rightarrow> (EntityRef \<Rightarrow> int) \<Rightarrow> EntityRef \<Rightarrow> int" where
  "moved t b e = b e - (if e = tr_from t then uint (tr_amount t) + uint (tr_fee t) else 0)
     + (if e = tr_to t then uint (tr_amount t) else 0)"

lemma sum_moved:
  assumes "finite E" "tr_from t \<in> E" "tr_to t \<in> E"
  shows "(\<Sum>e\<in>E. moved t b e) = (\<Sum>e\<in>E. b e) - uint (tr_fee t)"
  using assms by (simp add: moved_def sum.distrib sum_subtractf)

text \<open>\<open>bal\<close> reads balances as exact numbers below \<open>bound\<close>, and \<open>admits\<close> holds of the transfers the ledger can record.
  A ledger decides a transfer by the balance of its source and moves the exact amounts, or leaves everything alone.\<close>

locale token_ledger =
  fixes process :: "Transfer \<Rightarrow> 's \<Rightarrow> (TransferError + Transfer) \<times> 's"
    and bal :: "'s \<Rightarrow> EntityRef \<Rightarrow> int"
    and admits :: "'s \<Rightarrow> Transfer \<Rightarrow> bool"
    and bound :: int
  assumes refused: "process t s = (Inl e, s') \<Longrightarrow> s' = s"
    and accepted: "\<lbrakk>admits s t; uint (tr_amount t) + uint (tr_fee t) < bound; \<forall>e. 0 \<le> bal s e \<and> bal s e < bound;
        0 < uint (tr_amount t); uint (tr_amount t) + uint (tr_fee t) \<le> bal s (tr_from t);
        moved t (bal s) (tr_to t) < bound\<rbrakk> \<Longrightarrow> \<exists>s'. process t s = (Inr t, s') \<and> bal s' = moved t (bal s)"
    and rejected: "\<lbrakk>uint (tr_amount t) + uint (tr_fee t) < bound; \<forall>e. 0 \<le> bal s e \<and> bal s e < bound;
        uint (tr_amount t) = 0 \<or> bal s (tr_from t) < uint (tr_amount t) + uint (tr_fee t)\<rbrakk>
        \<Longrightarrow> \<exists>err. process t s = (Inl err, s)"
begin

text \<open>A supply below the bound keeps every sum in range: a transfer is decided exactly, and only its fee leaves the
  circulation.\<close>

definition circulates where
  "circulates E S s \<longleftrightarrow> finite E \<and> (\<forall>e. 0 \<le> bal s e) \<and> (\<forall>e. e \<notin> E \<longrightarrow> bal s e = 0) \<and> (\<Sum>e\<in>E. bal s e) = S \<and> S < bound"

lemma circulates_bound:
  assumes "circulates E S s"
  shows "\<forall>e. 0 \<le> bal s e \<and> bal s e < bound"
proof
  fix e
  have "bal s e \<le> S"
  proof (cases "e \<in> E")
    case True
    with assms show ?thesis unfolding circulates_def by (metis member_le_sum DiffE)
  next
    case False
    with assms show ?thesis unfolding circulates_def by (metis sum_nonneg)
  qed
  with assms show "0 \<le> bal s e \<and> bal s e < bound" by (simp add: circulates_def)
qed

lemma moved_in_range:
  assumes c: "circulates E S s" and ends: "tr_from t \<in> E" "tr_to t \<in> E"
    and funds: "uint (tr_amount t) + uint (tr_fee t) \<le> bal s (tr_from t)"
  shows "0 \<le> moved t (bal s) e" "moved t (bal s) (tr_to t) < bound" "(\<Sum>e\<in>E. moved t (bal s) e) = S - uint (tr_fee t)"
proof -
  show nonneg: "0 \<le> moved t (bal s) e" for e
    using c funds uint_ge_0 [of "tr_amount t"] by (auto simp: moved_def circulates_def)
  show total: "(\<Sum>e\<in>E. moved t (bal s) e) = S - uint (tr_fee t)"
    using c ends by (simp add: sum_moved circulates_def)
  have "moved t (bal s) (tr_to t) \<le> (\<Sum>e\<in>E. moved t (bal s) e)"
    using c ends nonneg by (intro member_le_sum) (auto simp: circulates_def)
  moreover have "S < bound" using c by (simp add: circulates_def)
  ultimately show "moved t (bal s) (tr_to t) < bound" using total uint_ge_0 [of "tr_fee t"] by linarith
qed

lemma circulates_moved:
  assumes c: "circulates E S s" and ends: "tr_from t \<in> E" "tr_to t \<in> E"
    and funds: "uint (tr_amount t) + uint (tr_fee t) \<le> bal s (tr_from t)" and b: "bal s' = moved t (bal s)"
  shows "circulates E (S - uint (tr_fee t)) s'"
proof -
  have "S - uint (tr_fee t) < bound" using c uint_ge_0 [of "tr_fee t"] unfolding circulates_def by linarith
  moreover have "moved t (bal s) e = 0" if "e \<notin> E" for e
    using that c ends by (auto simp: moved_def circulates_def)
  ultimately show ?thesis
    using c b moved_in_range [OF c ends funds] by (simp add: circulates_def)
qed

lemma transfer_exact:
  assumes c: "circulates E S s" and ends: "tr_from t \<in> E" "tr_to t \<in> E" and ok: "admits s t"
    and fits: "uint (tr_amount t) + uint (tr_fee t) < bound"
  shows "if 0 < uint (tr_amount t) \<and> uint (tr_amount t) + uint (tr_fee t) \<le> bal s (tr_from t)
    then \<exists>s'. process t s = (Inr t, s') \<and> bal s' = moved t (bal s) \<and> circulates E (S - uint (tr_fee t)) s'
    else \<exists>err. process t s = (Inl err, s)"
proof (cases "0 < uint (tr_amount t) \<and> uint (tr_amount t) + uint (tr_fee t) \<le> bal s (tr_from t)")
  case True
  with accepted [OF ok fits circulates_bound [OF c]] moved_in_range(2) [OF c ends] circulates_moved [OF c ends]
  show ?thesis by auto
next
  case False
  then have "uint (tr_amount t) = 0 \<or> bal s (tr_from t) < uint (tr_amount t) + uint (tr_fee t)"
    using uint_ge_0 [of "tr_amount t"] by linarith
  with False rejected [OF fits circulates_bound [OF c]] show ?thesis by auto
qed

end

text \<open>A ledger that can record every transfer.\<close>

locale open_ledger = token_ledger +
  assumes admits_all: "admits s t"
begin

lemma outcomes_circulate:
  assumes "circulates E S s" "\<forall>t\<in>set ts. tr_from t \<in> E \<and> tr_to t \<in> E \<and> uint (tr_amount t) + uint (tr_fee t) < bound"
    and "outcomes process ts s = (rs, s')"
  shows "circulates E (S - (\<Sum>t\<leftarrow>oks rs. uint (tr_fee t))) s' \<and> subseq (oks rs) ts"
  using assms
proof (induction ts arbitrary: S s rs)
  case Nil
  then show ?case by simp
next
  case (Cons t ts)
  obtain r s1 where r: "process t s = (r, s1)" by (cases "process t s")
  obtain rs1 where rs: "outcomes process ts s1 = (rs1, s')" "rs = r # rs1"
    using Cons.prems(3) r by (auto split: prod.splits)
  from Cons.prems have ends: "tr_from t \<in> E" "tr_to t \<in> E" and fits: "uint (tr_amount t) + uint (tr_fee t) < bound" by auto
  from transfer_exact [OF Cons.prems(1) ends admits_all fits]
  consider (ok) "r = Inr t" "circulates E (S - uint (tr_fee t)) s1" | (err) e where "r = Inl e" "s1 = s"
    using r by (auto split: if_splits)
  then show ?case
  proof cases
    case ok
    with Cons.IH [OF ok(2) _ rs(1)] Cons.prems(2) rs(2) show ?thesis by (simp add: algebra_simps)
  next
    case err
    with Cons.IH [OF Cons.prems(1) _ ] Cons.prems(2) rs show ?thesis by auto
  qed
qed

end

section \<open>The ledgers keep the contract\<close>

lemma inj_pair_key: "inj pair_key"
  by (rule injI) (simp add: pair_key_def)

lemma entity_type_text_eq [simp]: "entity_type_text a = entity_type_text b \<longleftrightarrow> a = b"
  by (cases a; cases b) simp_all

lemma entity_type_text_colon: "CHR '':'' \<notin> set (entity_type_text ty)"
  by (cases ty) simp_all

lemma takeWhile_fresh: "c \<notin> set xs \<Longrightarrow> takeWhile (\<lambda>x. x \<noteq> c) (xs @ c # ys) = xs"
  by (induction xs) auto

lemma inj_text_key: "inj text_key"
proof (rule injI)
  fix a b
  assume "text_key a = text_key b"
  then have "entity_type_text (entity_type a) @ CHR '':'' # entity_id a = entity_type_text (entity_type b) @ CHR '':'' # entity_id b"
    by (simp add: text_key_def)
  then have "entity_type_text (entity_type a) = entity_type_text (entity_type b) \<and> entity_id a = entity_id b"
    using takeWhile_fresh [OF entity_type_text_colon] by (metis list.inject same_append_eq)
  then show "a = b" by simp
qed

lemma inj_pg_key: "inj pg_key"
  by (rule injI) (simp add: pg_key_def)

lemmas ledger_simps = get_balance_def set_balance_def hmap_simps

lemma uint_add_small: "uint (a :: u64) + uint b < 2 ^ 64 \<Longrightarrow> uint (a + b) = uint a + uint b"
  using uint_add_lem [of a b] by simp

lemma uint_sub_small: "uint (b :: u64) \<le> uint a \<Longrightarrow> uint (a - b) = uint a - uint b"
  using uint_sub_lem [of b a] by simp

lemma process_transfer_refused: "process_transfer key t l = (Inl e, l') \<Longrightarrow> l' = l"
  by (auto simp: process_transfer_def Let_def split: if_splits)

lemma process_transfer_rejected:
  assumes "uint (tr_amount t) + uint (tr_fee t) < 2 ^ 64"
    and "uint (tr_amount t) = 0 \<or> uint (get_balance key l (tr_from t)) < uint (tr_amount t) + uint (tr_fee t)"
  shows "\<exists>err. process_transfer key t l = (Inl err, l)"
  using assms by (auto simp: process_transfer_def Let_def word_less_def uint_add_small uint_0_iff)

lemma process_transfer_accepted:
  assumes key: "inj key" and sum: "uint (tr_amount t) + uint (tr_fee t) < 2 ^ 64" and pos: "0 < uint (tr_amount t)"
    and funds: "uint (tr_amount t) + uint (tr_fee t) \<le> uint (get_balance key l (tr_from t))"
    and room: "moved t (\<lambda>e. uint (get_balance key l e)) (tr_to t) < 2 ^ 64"
  shows "\<exists>l'. process_transfer key t l = (Inr t, l') \<and> (\<lambda>e. uint (get_balance key l' e)) = moved t (\<lambda>e. uint (get_balance key l e))"
proof -
  let ?b = "\<lambda>e. uint (get_balance key l e)"
  define l' where "l' = snd (process_transfer key t l)"
  have "\<not> get_balance key l (tr_from t) < tr_amount t + tr_fee t" "tr_amount t \<noteq> 0"
    using sum pos funds by (auto simp: word_less_def uint_add_small)
  then have p: "process_transfer key t l = (Inr t, l')" and b: "balances l' =
      (let l1 = set_balance key (tr_from t) (get_balance key l (tr_from t) - tr_amount t - tr_fee t) l in
        hinsert (balances l1) (key (tr_to t)) (get_balance key l1 (tr_to t) + tr_amount t))"
    by (simp_all add: l'_def process_transfer_def Let_def set_balance_def split: option.splits)
  have from_b: "uint (get_balance key l (tr_from t) - tr_amount t - tr_fee t) = ?b (tr_from t) - uint (tr_amount t) - uint (tr_fee t)"
  proof -
    have "uint (tr_amount t) \<le> ?b (tr_from t)" using funds uint_ge_0 [of "tr_fee t"] by linarith
    with funds show ?thesis by (simp add: uint_sub_small)
  qed
  have "uint (get_balance key l (tr_from t) - tr_fee t) = ?b (tr_from t) - uint (tr_fee t)"
  proof (rule uint_sub_small)
    show "uint (tr_fee t) \<le> ?b (tr_from t)" using funds pos by linarith
  qed
  then have "uint (get_balance key l' e) = moved t ?b e" for e
    using room from_b key
    by (cases "tr_to t = tr_from t")
      (auto simp: get_balance_def b ledger_simps Let_def moved_def inj_eq uint_add_small)
  with p show ?thesis by blast
qed

lemma keyed_ledger:
  "inj key \<Longrightarrow> open_ledger (process_transfer key) (\<lambda>l e. uint (get_balance key l e)) (\<lambda>_ _. True) (2 ^ 64)"
  by unfold_locales (auto dest: process_transfer_refused intro: process_transfer_rejected process_transfer_accepted)

interpretation pair_ledger: open_ledger "process_transfer pair_key" "\<lambda>l e. uint (get_balance pair_key l e)" "\<lambda>_ _. True" "2 ^ 64"
  by (rule keyed_ledger [OF inj_pair_key])

interpretation text_ledger: open_ledger "process_transfer text_key" "\<lambda>l e. uint (get_balance text_key l e)" "\<lambda>_ _. True" "2 ^ 64"
  by (rule keyed_ledger [OF inj_text_key])

lemma process_transfer_history:
  "process_transfer key t l = (r, l') \<Longrightarrow> transfers l' = transfers l @ oks [r]"
  by (auto simp: process_transfer_def set_balance_def Let_def split: if_splits option.splits)

lemma outcomes_history:
  "outcomes (process_transfer key) ts l = (rs, l') \<Longrightarrow> transfers l' = transfers l @ oks rs"
proof (induction ts arbitrary: l rs)
  case (Cons t ts)
  obtain r l1 where r: "process_transfer key t l = (r, l1)" by (cases "process_transfer key t l")
  with Cons.prems obtain rs1 where "outcomes (process_transfer key) ts l1 = (rs1, l')" "rs = r # rs1"
    by (auto split: prod.splits)
  with Cons.IH process_transfer_history [OF r] show ?case by (cases r) auto
qed simp

text \<open>The PostgreSQL store: \<open>pg_wf\<close> is its invariant, that the two entity tables have the same keys.\<close>

definition pg_balance :: "pg \<Rightarrow> EntityRef \<Rightarrow> int" where
  "pg_balance db e = hget_or 0 (balances_table db) (pg_key e)"

definition pg_wf :: "pg \<Rightarrow> bool" where
  "pg_wf db \<longleftrightarrow> (\<forall>k. hget (entities_table db) k = None \<longleftrightarrow> hget (balances_table db) k = None)"

definition pg_admits :: "pg \<Rightarrow> Transfer \<Rightarrow> bool" where
  "pg_admits db t \<longleftrightarrow> pg_wf db \<and> (\<forall>r\<in>set (transfers_table db). row_tx_id r \<noteq> tx_id t) \<and>
     (case hget (stats_table db) (tr_federation_id t) of
        None \<Rightarrow> True
      | Some (n, v, c) \<Rightarrow> in_bigint (n + 1) \<and> in_bigint (v + sint (tr_amount t)) \<and> in_bigint (c + sint (tr_fee t)))"

lemma sint_small: "uint (a :: u64) < 2 ^ 63 \<Longrightarrow> sint a = uint a"
proof -
  assume "uint a < 2 ^ 63"
  moreover have "- (2 ^ 63) \<le> uint a" by (rule order_trans [OF _ uint_ge_0]) simp
  ultimately show ?thesis by (simp add: sint_uint signed_take_bit_int_eq_self)
qed

lemma pg_wfD: "pg_wf db \<Longrightarrow> hget (entities_table db) k = None \<longleftrightarrow> hget (balances_table db) k = None"
  unfolding pg_wf_def by blast

lemma uint_word_of_small: "0 \<le> b \<Longrightarrow> b < 2 ^ 63 \<Longrightarrow> uint (word_of_int b :: u64) = b"
  by (simp add: uint_word_of_int)

lemma ensure_balance:
  "pg_wf db \<Longrightarrow> pg_wf (ensure_entity_exists_in_tx e f db)"
  "pg_wf db \<Longrightarrow> pg_balance (ensure_entity_exists_in_tx e f db) = pg_balance db"
  "pg_wf db \<Longrightarrow> hget (balances_table (ensure_entity_exists_in_tx e f db)) (pg_key e) = Some (pg_balance db e)"
  "transfers_table (ensure_entity_exists_in_tx e f db) = transfers_table db"
  "stats_table (ensure_entity_exists_in_tx e f db) = stats_table db"
proof -
  show "pg_wf (ensure_entity_exists_in_tx e f db)" if "pg_wf db"
    using that by (simp add: ensure_entity_exists_in_tx_def pg_wf_def hm.get_insert del: split_paired_All)
  show "pg_balance (ensure_entity_exists_in_tx e f db) = pg_balance db" if "pg_wf db"
    using pg_wfD [OF that, of "pg_key e"]
    by (auto simp: ensure_entity_exists_in_tx_def pg_balance_def hget_or_def hm.get_insert fun_eq_iff)
  show "hget (balances_table (ensure_entity_exists_in_tx e f db)) (pg_key e) = Some (pg_balance db e)" if "pg_wf db"
    using pg_wfD [OF that, of "pg_key e"]
    by (auto simp: ensure_entity_exists_in_tx_def pg_balance_def hget_or_def hm.get_insert split: option.splits)
qed (simp_all add: ensure_entity_exists_in_tx_def)

lemma ensure_keeps:
  "hget (balances_table db) k = Some b \<Longrightarrow> pg_wf db \<Longrightarrow> hget (balances_table (ensure_entity_exists_in_tx e f db)) k = Some b"
  using pg_wfD [of db k] by (auto simp: ensure_entity_exists_in_tx_def hm.get_insert)

lemma add_balance_present:
  assumes "hget (balances_table db) (pg_key e) = Some b" "in_bigint (b + d)"
  shows "add_balance e d db = Inr (db\<lparr>balances_table := hinsert (balances_table db) (pg_key e) (b + d)\<rparr>)"
  using assms by (simp add: add_balance_def bigint_def)

lemma pg_process_refused: "pg_process_transfer t db = (Inl e, db') \<Longrightarrow> db' = db"
  by (auto simp: pg_process_transfer_def Let_def split: sum.splits)

text \<open>The source's balance after both entities exist.\<close>

lemma ensured_source:
  assumes "pg_wf db"
  shows "hget (balances_table (ensure_entity_exists_in_tx (tr_to t) f (ensure_entity_exists_in_tx (tr_from t) f db))) (pg_key (tr_from t))
    = Some (pg_balance db (tr_from t))"
  by (rule ensure_keeps [OF ensure_balance(3) [OF assms] ensure_balance(1) [OF assms]])

lemma pg_process_accepted:
  assumes ok: "pg_admits db t" and sum: "uint (tr_amount t) + uint (tr_fee t) < 2 ^ 63"
    and range: "\<forall>e. 0 \<le> pg_balance db e \<and> pg_balance db e < 2 ^ 63" and pos: "0 < uint (tr_amount t)"
    and funds: "uint (tr_amount t) + uint (tr_fee t) \<le> pg_balance db (tr_from t)"
    and room: "moved t (pg_balance db) (tr_to t) < 2 ^ 63"
  shows "\<exists>db'. pg_process_transfer t db = (Inr t, db') \<and> pg_balance db' = moved t (pg_balance db)"
proof -
  let ?f = "tr_federation_id t"
  define d2 where "d2 = ensure_entity_exists_in_tx (tr_to t) ?f (ensure_entity_exists_in_tx (tr_from t) ?f db)"
  define d3 where "d3 = d2\<lparr>transfers_table := transfers_table d2 @ [transfer_row t]\<rparr>"
  have wf: "pg_wf db" using ok by (simp add: pg_admits_def)
  have small: "uint (tr_amount t) < 2 ^ 63" "uint (tr_fee t) < 2 ^ 63"
    using sum uint_ge_0 [of "tr_amount t"] uint_ge_0 [of "tr_fee t"] by linarith+
  have total: "uint (tr_amount t + tr_fee t) = uint (tr_amount t) + uint (tr_fee t)"
    using sum by (simp add: uint_add_small)
  have s: "sint (tr_amount t) = uint (tr_amount t)" "sint (tr_fee t) = uint (tr_fee t)"
      "sint (tr_amount t + tr_fee t) = uint (tr_amount t) + uint (tr_fee t)"
    using small sum total by (simp_all add: sint_small)
  have bal2: "pg_balance d2 = pg_balance db" "pg_wf d2" and src: "hget (balances_table d2) (pg_key (tr_from t)) = Some (pg_balance db (tr_from t))"
    and dst: "hget (balances_table d2) (pg_key (tr_to t)) = Some (pg_balance db (tr_to t))"
    using wf ensured_source [OF wf] by (simp_all add: d2_def ensure_balance)
  have enough: "\<not> (word_of_int (pg_balance db (tr_from t)) :: u64) < tr_amount t + tr_fee t"
    using funds range by (simp add: word_less_def total uint_word_of_small)
  have ins: "insert_transfer t d2 = Inr d3"
    using ok pos by (auto simp: insert_transfer_def d3_def list_ex_iff d2_def ensure_balance pg_admits_def s)
  let ?d4 = "d3\<lparr>balances_table := hinsert (balances_table d3) (pg_key (tr_from t)) (pg_balance db (tr_from t) + - sint (tr_amount t + tr_fee t))\<rparr>"
  have deb: "add_balance (tr_from t) (- sint (tr_amount t + tr_fee t)) d3 = Inr ?d4"
  proof (rule add_balance_present)
    show "hget (balances_table d3) (pg_key (tr_from t)) = Some (pg_balance db (tr_from t))" using src by (simp add: d3_def)
    show "in_bigint (pg_balance db (tr_from t) + - sint (tr_amount t + tr_fee t))"
    proof -
      have "0 \<le> pg_balance db (tr_from t) + - sint (tr_amount t + tr_fee t)"
        "pg_balance db (tr_from t) + - sint (tr_amount t + tr_fee t) \<le> pg_balance db (tr_from t)"
        using funds uint_ge_0 [of "tr_amount t"] uint_ge_0 [of "tr_fee t"] unfolding s by linarith+
      with spec [OF range, of "tr_from t"] show ?thesis by (auto simp: in_bigint_def)
    qed
  qed
  define b where "b = (if tr_to t = tr_from t then pg_balance db (tr_from t) - (uint (tr_amount t) + uint (tr_fee t)) else pg_balance db (tr_to t))"
  have "hget (balances_table ?d4) (pg_key (tr_to t)) = Some b"
    using dst by (auto simp: b_def d3_def s hm.get_insert dest: injD [OF inj_pg_key])
  moreover have bnew: "b + uint (tr_amount t) = moved t (pg_balance db) (tr_to t)" by (simp add: b_def moved_def)
  moreover have "0 \<le> moved t (pg_balance db) (tr_to t)"
  proof -
    have "0 \<le> b" using funds range by (simp add: b_def)
    then show ?thesis using bnew uint_ge_0 [of "tr_amount t"] by linarith
  qed
  ultimately have cred: "add_balance (tr_to t) (sint (tr_amount t)) ?d4 =
      Inr (?d4\<lparr>balances_table := hinsert (balances_table ?d4) (pg_key (tr_to t)) (moved t (pg_balance db) (tr_to t))\<rparr>)"
    using room by (subst add_balance_present [where b = b]) (auto simp: s in_bigint_def)
  obtain d6 where stats: "update_federation_stats ?f (tr_amount t) (tr_fee t)
      (?d4\<lparr>balances_table := hinsert (balances_table ?d4) (pg_key (tr_to t)) (moved t (pg_balance db) (tr_to t))\<rparr>) = Inr d6"
    and b6: "balances_table d6 = hinsert (balances_table ?d4) (pg_key (tr_to t)) (moved t (pg_balance db) (tr_to t))"
    using ok by (auto simp: update_federation_stats_def pg_admits_def d3_def d2_def ensure_balance bigint_def split: option.splits)
  have "pg_process_transfer t db = (Inr t, d6)"
    using src enough ins deb cred stats
    by (simp add: pg_process_transfer_def Let_def d2_def [symmetric])
  moreover have "pg_balance d6 e = moved t (pg_balance db) e" for e
    using bal2(1) by (auto simp: pg_balance_def b6 d3_def hmap_simps moved_def fun_eq_iff s dest: injD [OF inj_pg_key])
  ultimately show ?thesis by blast
qed

lemma pg_process_rejected:
  assumes sum: "uint (tr_amount t) + uint (tr_fee t) < 2 ^ 63"
    and range: "\<forall>e. 0 \<le> pg_balance db e \<and> pg_balance db e < 2 ^ 63"
    and no: "uint (tr_amount t) = 0 \<or> pg_balance db (tr_from t) < uint (tr_amount t) + uint (tr_fee t)"
  shows "\<exists>err. pg_process_transfer t db = (Inl err, db)"
proof -
  let ?f = "tr_federation_id t"
  define d2 where "d2 = ensure_entity_exists_in_tx (tr_to t) ?f (ensure_entity_exists_in_tx (tr_from t) ?f db)"
  have total: "uint (tr_amount t + tr_fee t) = uint (tr_amount t) + uint (tr_fee t)"
    using sum by (simp add: uint_add_small)
  have "b = pg_balance db (tr_from t) \<or> b = 0" if "hget (balances_table d2) (pg_key (tr_from t)) = Some b" for b
    using that by (auto simp: d2_def ensure_entity_exists_in_tx_def pg_balance_def hget_or_def hm.get_insert split: if_splits)
  moreover have "(word_of_int b :: u64) < tr_amount t + tr_fee t"
    if "uint (tr_amount t) \<noteq> 0" "b = pg_balance db (tr_from t) \<or> b = 0" for b
    using that no spec [OF range, of "tr_from t"] by (auto simp: word_less_def total uint_word_of_small)
  moreover have "\<exists>e. insert_transfer t d2 = Inl e" if "uint (tr_amount t) = 0"
    using that by (auto simp: insert_transfer_def uint_0_iff)
  ultimately show ?thesis
    by (cases "uint (tr_amount t) = 0")
      (auto simp: pg_process_transfer_def Let_def d2_def [symmetric] split: option.splits sum.splits)
qed

interpretation pg_ledger: token_ledger pg_process_transfer pg_balance pg_admits "2 ^ 63"
  by unfold_locales (auto dest: pg_process_refused intro: pg_process_accepted pg_process_rejected)

section \<open>Properties\<close>

lemma uint_sum_list: "(\<Sum>x\<leftarrow>xs. uint (x :: u64)) < 2 ^ 64 \<Longrightarrow> uint (sum_list xs) = (\<Sum>x\<leftarrow>xs. uint x)"
proof (induction xs)
  case (Cons x xs)
  then have "uint x + (\<Sum>x\<leftarrow>xs. uint x) < 2 ^ 64" by simp
  moreover from this have "uint (sum_list xs) = (\<Sum>x\<leftarrow>xs. uint x)" using Cons.IH uint_ge_0 [of x] by linarith
  ultimately show ?case by (simp add: uint_add_small)
qed simp

text \<open>C12: a batch on an in-memory ledger conserves the supply.  When the balances of the participating entities add up
  to less than \<open>2 ^ 64\<close> and no transfer's amount plus fee reaches that, a batch carries out some of its transfers in
  their order and no other; the response counts and names exactly those and sums their fees exactly and their amounts
  modulo \<open>2 ^ 64\<close>, the history grows by them, every other transfer is reported as failed, and the balances afterwards
  add up to the balances before less the fees of the transfers carried out.\<close>

theorem batch_conserves_supply:
  assumes "inj key" "finite E" "\<forall>e. e \<notin> E \<longrightarrow> get_balance key l e = 0"
    and "(\<Sum>e\<in>E. uint (get_balance key l e)) < 2 ^ 64"
    and "\<forall>t\<in>set ts. tr_from t \<in> E \<and> tr_to t \<in> E \<and> uint (tr_amount t) + uint (tr_fee t) < 2 ^ 64"
    and run: "process_batch_transfer err_text key ts l = (r, l')"
  shows "\<exists>done. subseq done ts \<and> successful r = length done \<and> failed r = length ts - length done \<and>
    successful_ids r = map tx_id done \<and> length (failed_transfers r) = failed r \<and> transfers l' = transfers l @ done \<and>
    total_transferred r = sum_list (map tr_amount done) \<and> uint (total_fees r) = (\<Sum>t\<leftarrow>done. uint (tr_fee t)) \<and>
    (\<Sum>e\<in>E. uint (get_balance key l' e)) = (\<Sum>e\<in>E. uint (get_balance key l e)) - (\<Sum>t\<leftarrow>done. uint (tr_fee t))"
proof -
  let ?bal = "\<lambda>l e. uint (get_balance key l e)"
  note circ = token_ledger.circulates_def [OF open_ledger.axioms(1) [OF keyed_ledger [OF assms(1)]]]
  obtain rs m where o: "outcomes (process_transfer key) ts l = (rs, m)" by (cases "outcomes (process_transfer key) ts l")
  have "token_ledger.circulates ?bal (2 ^ 64) E (\<Sum>e\<in>E. ?bal l e) l"
    unfolding circ using assms by simp
  then have circulating: "token_ledger.circulates ?bal (2 ^ 64) E ((\<Sum>e\<in>E. ?bal l e) - (\<Sum>t\<leftarrow>oks rs. uint (tr_fee t))) m"
      and "subseq (oks rs) ts"
    using open_ledger.outcomes_circulate [OF keyed_ledger [OF assms(1)] _ assms(5) o] by auto
  moreover from run have "l' = m" "successful r = length (oks rs)" "failed r = length (errs 0 rs)" "successful_ids r = map tx_id (oks rs)"
      "length (failed_transfers r) = length (errs 0 rs)" "total_transferred r = sum_list (map tr_amount (oks rs))"
      and fees: "total_fees r = sum_list (map tr_fee (oks rs))"
    using batch_loop_outcomes [OF o, of err_text 0 BatchTransferResponse_empty]
    by (auto simp: process_batch_transfer_def BatchTransferResponse_empty_def)
  moreover have "uint (total_fees r) = (\<Sum>t\<leftarrow>oks rs. uint (tr_fee t))"
  proof -
    have "0 \<le> (\<Sum>e\<in>E. ?bal m e)" by (simp add: sum_nonneg)
    with circulating assms(4) have "(\<Sum>t\<leftarrow>oks rs. uint (tr_fee t)) < 2 ^ 64" unfolding circ by linarith
    with fees uint_sum_list [of "map tr_fee (oks rs)"] show ?thesis by (simp add: o_def)
  qed
  moreover have "length (errs 0 rs) = length ts - length (oks rs)"
    using length_oks_errs [of rs 0] length_outcomes [OF o] by simp
  ultimately show ?thesis
    using outcomes_history [OF o] unfolding circ by (intro exI [of _ "oks rs"]) simp
qed

definition demo_user :: "string \<Rightarrow> EntityRef" where
  "demo_user i = \<lparr>entity_type = User, entity_id = i\<rparr>"

definition demo_transfer :: "uuid \<Rightarrow> string \<Rightarrow> string \<Rightarrow> u64 \<Rightarrow> u64 \<Rightarrow> Transfer" where
  "demo_transfer i a b amt fee = \<lparr>tx_id = i, tr_federation_id = ''f'', tr_from = demo_user a, tr_to = demo_user b,
     tr_amount = amt, tr_fee = fee, tr_initiator = a, tr_timestamp = int (unat i), tr_memo = None, tr_metadata = None\<rparr>"

definition demo_ledger :: "(string \<times> EntityType) Ledger" where
  "demo_ledger = \<lparr>balances = [((''a'', User), 100), ((''b'', User), 7)], transfers = [], federation_stats = []\<rparr>"

theorem batch_conserves_supply_witness:
  "\<exists>done. subseq done [demo_transfer 1 ''a'' ''b'' 50 2, demo_transfer 2 ''a'' ''b'' 60 0, demo_transfer 3 ''b'' ''a'' 57 0] \<and>
    length done = 2 \<and> transfers (snd (process_batch_transfer (\<lambda>_. []) pair_key
      [demo_transfer 1 ''a'' ''b'' 50 2, demo_transfer 2 ''a'' ''b'' 60 0, demo_transfer 3 ''b'' ''a'' 57 0] demo_ledger)) = done"
proof -
  let ?ts = "[demo_transfer 1 ''a'' ''b'' 50 2, demo_transfer 2 ''a'' ''b'' 60 0, demo_transfer 3 ''b'' ''a'' 57 0]"
  let ?out = "process_batch_transfer (\<lambda>_. []) pair_key ?ts demo_ledger"
  have n: "successful (fst ?out) = 2"
    by (simp add: process_batch_transfer_def process_transfer_def ledger_simps get_balance_def pair_key_def demo_transfer_def
        demo_user_def demo_ledger_def BatchTransferResponse_empty_def Let_def hget_or_def hget_def hinsert_def)
  have "\<exists>done. subseq done ?ts \<and> successful (fst ?out) = length done \<and> failed (fst ?out) = length ?ts - length done \<and>
    successful_ids (fst ?out) = map tx_id done \<and> length (failed_transfers (fst ?out)) = failed (fst ?out) \<and>
    transfers (snd ?out) = transfers demo_ledger @ done \<and>
    total_transferred (fst ?out) = sum_list (map tr_amount done) \<and> uint (total_fees (fst ?out)) = (\<Sum>t\<leftarrow>done. uint (tr_fee t)) \<and>
    (\<Sum>e\<in>{demo_user ''a'', demo_user ''b''}. uint (get_balance pair_key (snd ?out) e)) =
      (\<Sum>e\<in>{demo_user ''a'', demo_user ''b''}. uint (get_balance pair_key demo_ledger e)) - (\<Sum>t\<leftarrow>done. uint (tr_fee t))"
  proof (rule batch_conserves_supply [OF inj_pair_key])
    show "\<forall>e. e \<notin> {demo_user ''a'', demo_user ''b''} \<longrightarrow> get_balance pair_key demo_ledger e = 0"
      by (auto simp: get_balance_def demo_ledger_def demo_user_def pair_key_def hget_or_def hget_def)
    show "(\<Sum>e\<in>{demo_user ''a'', demo_user ''b''}. uint (get_balance pair_key demo_ledger e)) < 2 ^ 64"
      by (simp add: get_balance_def demo_ledger_def demo_user_def pair_key_def hget_or_def hget_def)
    show "\<forall>t\<in>set ?ts. tr_from t \<in> {demo_user ''a'', demo_user ''b''} \<and> tr_to t \<in> {demo_user ''a'', demo_user ''b''} \<and>
        uint (tr_amount t) + uint (tr_fee t) < 2 ^ 64"
      by (simp add: demo_transfer_def)
    show "?out = (fst ?out, snd ?out)" by simp
  qed simp
  with n show ?thesis by (auto simp: demo_ledger_def)
qed

text \<open>What a successful transfer records.\<close>

lemma add_balance_transfers: "add_balance e d db = Inr db' \<Longrightarrow> transfers_table db' = transfers_table db"
  by (auto simp: add_balance_def bind_result_Inr_iff split: option.splits)

lemma update_stats_transfers: "update_federation_stats f a c db = Inr db' \<Longrightarrow> transfers_table db' = transfers_table db"
  by (auto simp: update_federation_stats_def bind_result_Inr_iff split: option.splits)

lemma pg_process_history: "pg_process_transfer t db = (Inr p, db') \<Longrightarrow> transfers_table db' = transfers_table db @ [transfer_row t]"
  by (auto simp: pg_process_transfer_def Let_def bind_result_Inr_iff insert_transfer_def ensure_balance
      dest!: add_balance_transfers update_stats_transfers split: sum.splits option.splits if_splits)

text \<open>C19: the PostgreSQL store and the in-memory ledger agree.  Starting from equal balances below \<open>2 ^ 63\<close> and a table that
  holds the rows of the ledger's history, for every transfer whose amount and fee together stay below \<open>2 ^ 63\<close>, whose
  destination stays below that, and which the tables can record (a new transaction identifier, statistics
  within their columns), both accept or both refuse, and afterwards the balances of all entities are equal and the table
  again holds the rows of the history, which has grown by the transfer exactly if it was accepted.\<close>

theorem pg_agrees_with_memory:
  assumes "pg_admits db t" "uint (tr_amount t) + uint (tr_fee t) < 2 ^ 63"
    and same: "\<forall>e. pg_balance db e = uint (get_balance pair_key l e) \<and> pg_balance db e < 2 ^ 63"
    and room: "moved t (pg_balance db) (tr_to t) < 2 ^ 63"
    and history: "transfers_table db = map transfer_row (transfers l)"
    and pg: "pg_process_transfer t db = (r, db')" and mem: "process_transfer pair_key t l = (r', l')"
  shows "is_ok r = is_ok r' \<and> (\<forall>e. pg_balance db' e = uint (get_balance pair_key l' e)) \<and>
    transfers_table db' = map transfer_row (transfers l') \<and> transfers l' = transfers l @ (if is_ok r then [t] else [])"
proof -
  have bal: "pg_balance db = (\<lambda>e. uint (get_balance pair_key l e))" using same by auto
  have range: "\<forall>e. 0 \<le> pg_balance db e \<and> pg_balance db e < 2 ^ 63" using same by (metis uint_ge_0)
  have range64: "\<forall>e. 0 \<le> uint (get_balance pair_key l e) \<and> uint (get_balance pair_key l e) < 2 ^ 64"
    using uint_bounded [where 'a = 64] by simp
  have sum64: "uint (tr_amount t) + uint (tr_fee t) < 2 ^ 64" using assms(2) by simp
  consider (ok) "0 < uint (tr_amount t)" "uint (tr_amount t) + uint (tr_fee t) \<le> pg_balance db (tr_from t)"
    | (no) "uint (tr_amount t) = 0 \<or> pg_balance db (tr_from t) < uint (tr_amount t) + uint (tr_fee t)"
    using uint_ge_0 [of "tr_amount t"] by linarith
  then show ?thesis
  proof cases
    case ok
    from pg_ledger.accepted [OF assms(1,2) range ok room] obtain db' where
      "pg_process_transfer t db = (Inr t, db')" "pg_balance db' = moved t (pg_balance db)" by blast
    moreover from pair_ledger.accepted [OF TrueI sum64 range64] ok room bal obtain l' where
      "process_transfer pair_key t l = (Inr t, l')" "(\<lambda>e. uint (get_balance pair_key l' e)) = moved t (pg_balance db)"
      by auto
    ultimately show ?thesis
      using pg mem history pg_process_history [of t db t db'] process_transfer_history [OF mem] by (auto simp: fun_eq_iff)
  next
    case no
    from pg_ledger.rejected [OF assms(2) range no] pair_ledger.rejected [OF sum64 range64] no bal
    obtain e e' where "pg_process_transfer t db = (Inl e, db)" "process_transfer pair_key t l = (Inl e', l)" by auto
    with same pg mem history show ?thesis by auto
  qed
qed

definition demo_pg :: pg where
  "demo_pg = \<lparr>entities_table = [((''User'', ''a''), ''f'')], balances_table = [((''User'', ''a''), 100)],
     transfers_table = [], stats_table = []\<rparr>"

definition demo_mirror :: "(string \<times> EntityType) Ledger" where
  "demo_mirror = \<lparr>balances = [((''a'', User), 100)], transfers = [], federation_stats = []\<rparr>"

lemma demo_balances:
  "pg_balance demo_pg e = (if e = demo_user ''a'' then 100 else 0)"
  "get_balance pair_key demo_mirror e = (if e = demo_user ''a'' then 100 else 0)"
  by (cases e; cases "entity_type e"; simp add: pg_balance_def demo_pg_def demo_mirror_def get_balance_def demo_user_def pg_key_def
      pair_key_def hget_or_def hget_def)+

lemma demo_admits: "pg_admits demo_pg t"
  by (simp add: pg_admits_def pg_wf_def demo_pg_def hget_def)

theorem pg_agrees_with_memory_witness:
  "\<exists>db' l'. pg_process_transfer (demo_transfer 1 ''a'' ''b'' 50 2) demo_pg = (Inr (demo_transfer 1 ''a'' ''b'' 50 2), db') \<and>
   process_transfer pair_key (demo_transfer 1 ''a'' ''b'' 50 2) demo_mirror = (Inr (demo_transfer 1 ''a'' ''b'' 50 2), l') \<and>
   transfers_table db' = map transfer_row (transfers l') \<and> pg_balance db' (demo_user ''b'') = 50"
proof -
  let ?t = "demo_transfer 1 ''a'' ''b'' 50 2"
  obtain r db' r' l' where run: "pg_process_transfer ?t demo_pg = (r, db')" "process_transfer pair_key ?t demo_mirror = (r', l')"
    by (metis prod.exhaust)
  have "fst (process_transfer pair_key ?t demo_mirror) = Inr ?t \<and>
      get_balance pair_key (snd (process_transfer pair_key ?t demo_mirror)) (demo_user ''b'') = 50"
    by (simp add: process_transfer_def ledger_simps get_balance_def pair_key_def demo_transfer_def demo_user_def demo_mirror_def
        Let_def hget_or_def hget_def hinsert_def)
  then have mem: "r' = Inr ?t" "get_balance pair_key l' (demo_user ''b'') = 50" by (simp_all add: run(2))
  have "transfers_table demo_pg = map transfer_row (transfers demo_mirror)" by (simp add: demo_pg_def demo_mirror_def)
  with mem have "is_ok r \<and> transfers_table db' = map transfer_row (transfers l') \<and> pg_balance db' (demo_user ''b'') = 50"
    using pg_agrees_with_memory [OF demo_admits _ _ _ _ run] by (simp add: demo_balances moved_def demo_transfer_def demo_user_def)
  moreover have "r = Inr ?t" if "is_ok r"
    using that run(1) by (auto simp: pg_process_transfer_def Let_def is_ok_def split: sum.splits)
  ultimately show ?thesis using run mem by blast
qed

definition readable :: "EntityType \<Rightarrow> bool" where
  "readable ty \<longleftrightarrow> ty \<in> {CooperativeEntity, CommunityEntity, User, Contract, ResourceProvider}"

lemma entity_type_from_string_text:
  "entity_type_from_string (entity_type_text ty) =
    (if readable ty then Inr ty else Inl (TransferInternal (''Invalid entity type string: '' @ entity_type_text ty)))"
  by (cases ty) (simp_all add: entity_type_from_string_def readable_def)

lemma row_entity_key:
  "row_entity (pg_key e) = (if readable (entity_type e) then Inr e
    else Inl (TransferInternal (''Invalid entity type string: '' @ entity_type_text (entity_type e))))"
  by (simp add: row_entity_def pg_key_def entity_type_from_string_text)

lemma find_fresh_append: "\<forall>x\<in>set xs. \<not> P x \<Longrightarrow> P y \<Longrightarrow> find P (xs @ [y]) = Some y"
  by (induction xs) auto

lemma pg_process_transfers:
  assumes "pg_process_transfer t db = (Inr t', db')"
  shows "t' = t \<and> find (\<lambda>r. row_tx_id r = tx_id t) (transfers_table db') = Some (transfer_row t)"
proof -
  from assms have "t' = t" "\<forall>r\<in>set (transfers_table db). row_tx_id r \<noteq> tx_id t"
    by (auto simp: pg_process_transfer_def Let_def bind_result_Inr_iff insert_transfer_def ensure_balance list_ex_iff
        split: sum.splits option.splits if_splits)
  with pg_process_history [OF assms] show ?thesis by (auto simp: transfer_row_def intro!: find_fresh_append)
qed

text \<open>reading a stored transfer back.  After the PostgreSQL store accepts a transfer, looking it up by its identifier
  gives the transfer without its metadata when both of its entities are cooperatives, communities, users, contracts
  or resource providers; a transfer from or to a federation, an organisation or an asset is stored but cannot be read
  back, since the text of its entity type is not recognised.\<close>

lemma pg_find_after_transfer:
  assumes "pg_process_transfer t db = (Inr t', db')"
  shows "pg_find_transfer db' (tx_id t) =
    (if \<not> readable (entity_type (tr_from t)) then
       Inl (TransferInternal (''Invalid entity type string: '' @ entity_type_text (entity_type (tr_from t))))
     else if \<not> readable (entity_type (tr_to t)) then
       Inl (TransferInternal (''Invalid entity type string: '' @ entity_type_text (entity_type (tr_to t))))
     else Inr (Some (t\<lparr>tr_metadata := None\<rparr>)))"
  using pg_process_transfers [OF assms] by (simp add: pg_find_transfer_def row_entity_key transfer_row_def)

lemma pg_find_after_transfer_witness:
  "pg_find_transfer (snd (pg_process_transfer (demo_transfer 1 ''a'' ''b'' 50 2) demo_pg)) 1 = Inr (Some (demo_transfer 1 ''a'' ''b'' 50 2))"
proof -
  let ?t = "demo_transfer 1 ''a'' ''b'' 50 2"
  have "\<exists>db'. pg_process_transfer ?t demo_pg = (Inr ?t, db') \<and> pg_balance db' = moved ?t (pg_balance demo_pg)"
    by (rule pg_ledger.accepted [OF demo_admits])
      (simp_all add: demo_balances moved_def, simp_all add: demo_transfer_def demo_user_def)
  then obtain db' where "pg_process_transfer ?t demo_pg = (Inr ?t, db')" by blast
  from pg_find_after_transfer [OF this] this show ?thesis
    by (simp add: demo_transfer_def demo_user_def readable_def)
qed

lemma matches_paged: "transfer_matches (q\<lparr>q_offset := a, q_limit := b\<rparr>) = transfer_matches q"
  by (rule ext) (simp add: transfer_matches_def entity_matches_def Let_def cong: option.case_cong)

lemma query_transfers_paged:
  "query_transfers (q\<lparr>q_offset := Some k, q_limit := Some n\<rparr>) l =
    take (unat n) (drop (unat k) (query_transfers (q\<lparr>q_offset := None, q_limit := None\<rparr>) l))"
  by (simp add: query_transfers_def Let_def matches_paged)

lemma unat_small: "k < 2 ^ 32 \<Longrightarrow> unat (word_of_nat k :: u32) = k"
  by (simp add: unat_of_nat)

lemma concat_pages: "concat (map (\<lambda>i. take n (drop (i * n) xs)) [0..<m]) = take (m * n) xs"
  by (induction m) (simp_all add: take_add add.commute [of n])

text \<open>paged queries.  The result of a query is ordered from the newest transfer to the oldest; without paging it is
  exactly the recorded transfers that match; and walking through it in pages of one size gives the same list, page
  after page, with nothing skipped or repeated.\<close>

lemma query_transfers_pages:
  assumes "m * n < 2 ^ 32"
  shows "concat (map (\<lambda>i. query_transfers (q\<lparr>q_offset := Some (word_of_nat (i * n)), q_limit := Some (word_of_nat n)\<rparr>) l) [0..<m])
      = take (m * n) (query_transfers (q\<lparr>q_offset := None, q_limit := None\<rparr>) l) \<and>
    mset (query_transfers (q\<lparr>q_offset := None, q_limit := None\<rparr>) l) = filter_mset (transfer_matches q) (mset (transfers l)) \<and>
    sorted_wrt (\<lambda>a b. tr_timestamp b \<le> tr_timestamp a) (query_transfers q l)"
proof (intro conjI)
  let ?all = "query_transfers (q\<lparr>q_offset := None, q_limit := None\<rparr>) l"
  have page: "query_transfers (q\<lparr>q_offset := Some (word_of_nat (i * n)), q_limit := Some (word_of_nat n)\<rparr>) l =
      take n (drop (i * n) ?all)" if "i < m" for i
  proof -
    have "i * n \<le> m * n" "n \<le> m * n" using that by (auto intro: mult_le_mono1) 
    then have "unat (word_of_nat (i * n) :: u32) = i * n" "unat (word_of_nat n :: u32) = n"
      using le_less_trans [OF _ assms] by (blast intro: unat_small)+
    then show ?thesis by (simp add: query_transfers_paged)
  qed
  then have "map (\<lambda>i. query_transfers (q\<lparr>q_offset := Some (word_of_nat (i * n)), q_limit := Some (word_of_nat n)\<rparr>) l) [0..<m] =
      map (\<lambda>i. take n (drop (i * n) ?all)) [0..<m]" by simp
  then show "concat (map (\<lambda>i. query_transfers (q\<lparr>q_offset := Some (word_of_nat (i * n)), q_limit := Some (word_of_nat n)\<rparr>) l) [0..<m])
      = take (m * n) ?all" by (simp only: concat_pages)
  show "mset ?all = filter_mset (transfer_matches q) (mset (transfers l))"
    by (simp add: query_transfers_def matches_paged mset_filter)
  have "sorted (map (\<lambda>t. - tr_timestamp t) (query_transfers q l))"
    by (auto simp: query_transfers_def Let_def drop_map [symmetric] take_map [symmetric] sorted_wrt_take sorted_wrt_drop split: option.splits)
  then show "sorted_wrt (\<lambda>a b. tr_timestamp b \<le> tr_timestamp a) (query_transfers q l)" by (simp add: sorted_map)
qed

definition demo_query :: TransferQuery where
  "demo_query = \<lparr>q_federation_id = None, q_entity_id = Some ''a'', q_entity_type = None, q_from_only = None, q_to_only = None,
     q_start_date = None, q_end_date = None, q_min_amount = None, q_max_amount = None, q_limit = None, q_offset = None\<rparr>"

lemma query_transfers_pages_witness:
  "concat (map (\<lambda>i. query_transfers (demo_query\<lparr>q_offset := Some (word_of_nat (i * 1)), q_limit := Some (word_of_nat 1)\<rparr>)
     (demo_ledger\<lparr>transfers := [demo_transfer 1 ''a'' ''b'' 5 0, demo_transfer 2 ''b'' ''c'' 5 0, demo_transfer 3 ''b'' ''a'' 5 0]\<rparr>)) [0..<2])
   = [demo_transfer 3 ''b'' ''a'' 5 0, demo_transfer 1 ''a'' ''b'' 5 0]"
proof -
  let ?l = "demo_ledger\<lparr>transfers := [demo_transfer 1 ''a'' ''b'' 5 0, demo_transfer 2 ''b'' ''c'' 5 0, demo_transfer 3 ''b'' ''a'' 5 0]\<rparr>"
  have "query_transfers (demo_query\<lparr>q_offset := None, q_limit := None\<rparr>) ?l = [demo_transfer 3 ''b'' ''a'' 5 0, demo_transfer 1 ''a'' ''b'' 5 0]"
    by (simp add: query_transfers_def demo_query_def transfer_matches_def entity_matches_def demo_transfer_def demo_user_def)
  with query_transfers_pages [where m = 2 and n = 1 and q = demo_query and l = ?l] show ?thesis by simp
qed

end
