(* ===== verification/Agora_Auth.thy ===== *)
theory Agora_Auth
  imports Agora_Ledger Did_Key
begin

text \<open>
  Authentication and authorisation of AgoraNet: \<open>auth.rs\<close>, \<open>auth/revocation.rs\<close>, \<open>auth_handlers.rs\<close> and the token
  handlers of \<open>handlers.rs\<close>, under \<open>crates/services/icn-agoranet/src\<close>.

  The JSON web token library is a parameter (\<open>jwt\<close>): encoding claims with a secret, decoding with a secret and a
  validation, and the two setters of a validation.  The clock and fresh identifiers are arguments.  A set of revoked
  tokens is a list without repetition.  Logging is left out.
\<close>

section \<open>Claims\<close>

type_synonym role_map = "(string, string list) hmap"

record Claims =
  c_sub :: string
  c_iss :: "string option"
  c_aud :: "string option"
  c_exp :: u64
  c_iat :: "u64 option"
  c_nbf :: "u64 option"
  c_jti :: "string option"
  c_federation_ids :: "string list"
  c_coop_ids :: "string list"
  c_community_ids :: "string list"
  c_roles :: role_map

record ScopeClaims =
  sub :: string
  federation_ids :: "string list"
  coop_ids :: "string list"
  community_ids :: "string list"
  roles :: role_map

definition ScopeClaims_from :: "Claims \<Rightarrow> ScopeClaims" where
  "ScopeClaims_from c = \<lparr>sub = c_sub c, federation_ids = c_federation_ids c, coop_ids = c_coop_ids c,
     community_ids = c_community_ids c, roles = c_roles c\<rparr>"

definition ROLE_FEDERATION_ADMIN :: string where
  "ROLE_FEDERATION_ADMIN = ''federation_admin''"

definition ROLE_COOP_OPERATOR :: string where
  "ROLE_COOP_OPERATOR = ''coop_operator''"

definition ROLE_COMMUNITY_OFFICIAL :: string where
  "ROLE_COMMUNITY_OFFICIAL = ''community_official''"

definition has_federation_access :: "ScopeClaims \<Rightarrow> string \<Rightarrow> bool" where
  "has_federation_access c f \<longleftrightarrow> f \<in> set (federation_ids c)"

definition has_coop_access :: "ScopeClaims \<Rightarrow> string \<Rightarrow> bool" where
  "has_coop_access c i \<longleftrightarrow> i \<in> set (coop_ids c)"

definition has_community_access :: "ScopeClaims \<Rightarrow> string \<Rightarrow> bool" where
  "has_community_access c i \<longleftrightarrow> i \<in> set (community_ids c)"

definition has_role :: "ScopeClaims \<Rightarrow> string \<Rightarrow> string \<Rightarrow> bool" where
  "has_role c org r = (case hget (roles c) org of Some rs \<Rightarrow> r \<in> set rs | None \<Rightarrow> False)"

definition has_org_scope_access :: "ScopeClaims \<Rightarrow> string option \<Rightarrow> string option \<Rightarrow> string option \<Rightarrow> bool" where
  "has_org_scope_access c fed coop comm \<longleftrightarrow>
     (case fed of Some f \<Rightarrow> has_federation_access c f | None \<Rightarrow> True) \<and>
     (case coop of Some i \<Rightarrow> has_coop_access c i | None \<Rightarrow> True) \<and>
     (case comm of Some i \<Rightarrow> has_community_access c i | None \<Rightarrow> True)"

definition has_coop_operator_role :: "ScopeClaims \<Rightarrow> string \<Rightarrow> bool" where
  "has_coop_operator_role c i = has_role c i ROLE_COOP_OPERATOR"

definition has_community_official_role :: "ScopeClaims \<Rightarrow> string \<Rightarrow> bool" where
  "has_community_official_role c i = has_role c i ROLE_COMMUNITY_OFFICIAL"

definition has_federation_admin_role :: "ScopeClaims \<Rightarrow> string \<Rightarrow> bool" where
  "has_federation_admin_role c i = has_role c i ROLE_FEDERATION_ADMIN"

text \<open>The same checks on the whole claims, where the administrator role also needs access to the federation.\<close>

definition claims_has_federation_access :: "Claims \<Rightarrow> string \<Rightarrow> bool" where
  "claims_has_federation_access c f \<longleftrightarrow> f \<in> set (c_federation_ids c)"

definition claims_has_role :: "Claims \<Rightarrow> string \<Rightarrow> string \<Rightarrow> bool" where
  "claims_has_role c org r = (case hget (c_roles c) org of Some rs \<Rightarrow> r \<in> set rs | None \<Rightarrow> False)"

definition claims_has_federation_admin_role :: "Claims \<Rightarrow> string \<Rightarrow> bool" where
  "claims_has_federation_admin_role c f \<longleftrightarrow> claims_has_federation_access c f \<and> claims_has_role c f ''federation_admin''"

definition claims_has_coop_operator_role :: "Claims \<Rightarrow> string \<Rightarrow> bool" where
  "claims_has_coop_operator_role c i = claims_has_role c i ''coop_operator''"

definition claims_has_community_official_role :: "Claims \<Rightarrow> string \<Rightarrow> bool" where
  "claims_has_community_official_role c i = claims_has_role c i ''community_official''"

definition claims_has_org_scope_access :: "Claims \<Rightarrow> string option \<Rightarrow> string option \<Rightarrow> string option \<Rightarrow> bool" where
  "claims_has_org_scope_access c fed coop comm \<longleftrightarrow>
     (case fed of Some f \<Rightarrow> claims_has_federation_access c f | None \<Rightarrow> True) \<and>
     (case coop of Some i \<Rightarrow> i \<in> set (c_coop_ids c) | None \<Rightarrow> True) \<and>
     (case comm of Some i \<Rightarrow> i \<in> set (c_community_ids c) | None \<Rightarrow> True)"

section \<open>Errors\<close>

datatype AuthError =
    MissingAuthHeader
  | InvalidTokenFormat
  | ValidationFailed string
  | MissingScope
  | TokenExpired
  | TokenRevoked
  | UnauthorizedOrgAccess
  | MissingRole
  | NotCoopOperator
  | NotCommunityOfficial
  | NotFederationAdmin
  | NotFederationCoordinator
  | InvalidSubjectDidFormat string
  | AuthInternal string

text \<open>The status, the text and whether the \<open>WWW-Authenticate\<close> header is set; the source has no case for
  \<open>NotFederationAdmin\<close>.\<close>

definition auth_response :: "AuthError \<Rightarrow> (nat \<times> string \<times> bool) option" where
  "auth_response e =
     map_option (\<lambda>(status, message). (status, message, status = 401)) (case e of
        MissingAuthHeader \<Rightarrow> Some (401, ''Missing authorization header'')
      | InvalidTokenFormat \<Rightarrow> Some (400, ''Invalid token format'')
      | ValidationFailed m \<Rightarrow> Some (401, m)
      | MissingScope \<Rightarrow> Some (403, ''Missing required organization scope'')
      | TokenExpired \<Rightarrow> Some (401, ''Token expired'')
      | TokenRevoked \<Rightarrow> Some (403, ''Token has been revoked'')
      | UnauthorizedOrgAccess \<Rightarrow> Some (403, ''Unauthorized organization access'')
      | MissingRole \<Rightarrow> Some (403, ''Missing required role for this operation'')
      | NotCoopOperator \<Rightarrow> Some (403, ''This operation requires cooperative operator role'')
      | NotCommunityOfficial \<Rightarrow> Some (403, ''This operation requires community official role'')
      | NotFederationCoordinator \<Rightarrow> Some (403, ''This operation requires federation coordinator role'')
      | InvalidSubjectDidFormat m \<Rightarrow> Some (400, m)
      | AuthInternal m \<Rightarrow> Some (500, ''Internal server error: '' @ m)
      | NotFederationAdmin \<Rightarrow> None)"

section \<open>The revocation store\<close>

record RevokedToken =
  rt_jti :: string
  rt_subject :: string
  rt_issuer :: "string option"
  rt_revoked_at :: int
  rt_reason :: "string option"
  rt_revoked_by :: string

record InMemoryRevocationStore =
  revoked_tokens :: "RevokedToken list"
  jti_index :: "(string, RevokedToken) hmap"
  subject_issuer_index :: "(string \<times> string option, RevokedToken list) hmap"

definition InMemoryRevocationStore_new :: InMemoryRevocationStore where
  "InMemoryRevocationStore_new = \<lparr>revoked_tokens = [], jti_index = [], subject_issuer_index = []\<rparr>"

definition si_key :: "RevokedToken \<Rightarrow> string \<times> string option" where
  "si_key t = (rt_subject t, rt_issuer t)"

definition add_to_indices :: "RevokedToken \<Rightarrow> InMemoryRevocationStore \<Rightarrow> InMemoryRevocationStore" where
  "add_to_indices t s =
     s\<lparr>jti_index := hinsert (jti_index s) (rt_jti t) t,
       subject_issuer_index := hinsert (subject_issuer_index s) (si_key t) (hget_or [] (subject_issuer_index s) (si_key t) @ [t])\<rparr>"

definition remove_from_indices :: "RevokedToken \<Rightarrow> InMemoryRevocationStore \<Rightarrow> InMemoryRevocationStore" where
  "remove_from_indices t s =
     s\<lparr>jti_index := hremove (jti_index s) (rt_jti t),
       subject_issuer_index :=
         (case hget (subject_issuer_index s) (si_key t) of
            None \<Rightarrow> subject_issuer_index s
          | Some ts \<Rightarrow>
              (let kept = filter (\<lambda>u. rt_jti u \<noteq> rt_jti t) ts in
               if kept = [] then hremove (subject_issuer_index s) (si_key t)
               else hinsert (subject_issuer_index s) (si_key t) kept))\<rparr>"

definition revoke_token :: "RevokedToken \<Rightarrow> InMemoryRevocationStore \<Rightarrow> bool \<times> InMemoryRevocationStore" where
  "revoke_token t s =
     (if t \<in> set (revoked_tokens s) then (False, s)
      else (True, add_to_indices t (s\<lparr>revoked_tokens := revoked_tokens s @ [t]\<rparr>)))"

definition is_revoked :: "InMemoryRevocationStore \<Rightarrow> string \<Rightarrow> bool" where
  "is_revoked s jti \<longleftrightarrow> hget (jti_index s) jti \<noteq> None"

definition is_revoked_by_subject_issuer :: "InMemoryRevocationStore \<Rightarrow> string \<Rightarrow> string option \<Rightarrow> bool" where
  "is_revoked_by_subject_issuer s subject issuer \<longleftrightarrow> hget (subject_issuer_index s) (subject, issuer) \<noteq> None"

definition get_revoked_tokens_for_subject :: "InMemoryRevocationStore \<Rightarrow> string \<Rightarrow> RevokedToken list" where
  "get_revoked_tokens_for_subject s subject = concat (map snd (filter (\<lambda>((x, _), _). x = subject) (subject_issuer_index s)))"

definition get_revoked_tokens_for_subject_issuer ::
    "InMemoryRevocationStore \<Rightarrow> string \<Rightarrow> string option \<Rightarrow> RevokedToken list" where
  "get_revoked_tokens_for_subject_issuer s subject issuer = hget_or [] (subject_issuer_index s) (subject, issuer)"

definition clear_expired_revocations :: "int \<Rightarrow> InMemoryRevocationStore \<Rightarrow> nat \<times> InMemoryRevocationStore" where
  "clear_expired_revocations older_than s =
     (let to_remove = filter (\<lambda>t. rt_revoked_at t < older_than) (revoked_tokens s);
          s' = foldl (\<lambda>s t. remove_from_indices t (s\<lparr>revoked_tokens := remove1 t (revoked_tokens s)\<rparr>)) s to_remove
      in (length (revoked_tokens s) - length (revoked_tokens s'), s'))"

definition check_token_not_revoked :: "InMemoryRevocationStore \<Rightarrow> string option \<Rightarrow> AuthError + unit" where
  "check_token_not_revoked s jti =
     (case jti of
        Some i \<Rightarrow> if is_revoked s i then Inl TokenRevoked else Inr ()
      | None \<Rightarrow> Inr ())"

definition check_subject_not_revoked :: "InMemoryRevocationStore \<Rightarrow> string \<Rightarrow> string option \<Rightarrow> AuthError + unit" where
  "check_subject_not_revoked s subject issuer =
     (if is_revoked_by_subject_issuer s subject issuer then Inl TokenRevoked else Inr ())"

section \<open>Authentication\<close>

record 'v jwt =
  jwt_encode :: "Claims \<Rightarrow> string \<Rightarrow> string + string"
  jwt_decode :: "string \<Rightarrow> string \<Rightarrow> 'v \<Rightarrow> string + Claims"
  set_issuer :: "'v \<Rightarrow> string \<Rightarrow> 'v"
  set_audience :: "'v \<Rightarrow> string \<Rightarrow> 'v"

record 'v JwtConfig =
  secret_key :: string
  cfg_issuer :: "string option"
  cfg_audience :: "string option"
  validation :: 'v

definition validate_token :: "'v jwt \<Rightarrow> string \<Rightarrow> 'v JwtConfig \<Rightarrow> AuthError + Claims" where
  "validate_token lib token cfg =
     (let v1 = (case cfg_issuer cfg of Some i \<Rightarrow> set_issuer lib (validation cfg) i | None \<Rightarrow> validation cfg);
          v2 = (case cfg_audience cfg of Some a \<Rightarrow> set_audience lib v1 a | None \<Rightarrow> v1)
      in map_err ValidationFailed (jwt_decode lib token (secret_key cfg) v2))"

record AuthenticatedRequest =
  claims :: ScopeClaims
  token_id :: "string option"

text \<open>The extractor: the two extensions of the request, and the header (absent, not text, or text).\<close>

definition from_request_parts ::
    "'v jwt \<Rightarrow> 'v JwtConfig option \<Rightarrow> InMemoryRevocationStore option \<Rightarrow> (unit + string) option \<Rightarrow> AuthError + AuthenticatedRequest" where
  "from_request_parts lib cfg store header =
     bind_result (ok_or cfg (AuthInternal ''JWT config not found'')) (\<lambda>jwt_config.
       bind_result (ok_or header MissingAuthHeader) (\<lambda>h.
         bind_result (map_err (\<lambda>_. InvalidTokenFormat) h) (\<lambda>auth_header.
           if take 7 auth_header \<noteq> ''Bearer '' then Inl InvalidTokenFormat
           else bind_result (validate_token lib (drop 7 auth_header) jwt_config) (\<lambda>c.
             bind_result (case store of
                 None \<Rightarrow> Inr ()
               | Some s \<Rightarrow> bind_result (check_token_not_revoked s (c_jti c)) (\<lambda>_. check_subject_not_revoked s (c_sub c) (c_iss c)))
               (\<lambda>_. Inr \<lparr>claims = ScopeClaims_from c, token_id = c_jti c\<rparr>)))))"

definition enforce_org_scope_access ::
    "AuthenticatedRequest \<Rightarrow> string option \<Rightarrow> string option \<Rightarrow> string option \<Rightarrow> AuthError + AuthenticatedRequest" where
  "enforce_org_scope_access auth fed coop comm =
     (if \<not> has_org_scope_access (claims auth) fed coop comm then Inl UnauthorizedOrgAccess else Inr auth)"

definition ensure_federation_admin :: "AuthenticatedRequest \<Rightarrow> string \<Rightarrow> AuthError + AuthenticatedRequest" where
  "ensure_federation_admin auth f =
     (if \<not> has_federation_access (claims auth) f then Inl UnauthorizedOrgAccess
      else if \<not> has_role (claims auth) f ROLE_FEDERATION_ADMIN then Inl NotFederationCoordinator
      else Inr auth)"

definition ensure_coop_operator :: "AuthenticatedRequest \<Rightarrow> string \<Rightarrow> AuthError + AuthenticatedRequest" where
  "ensure_coop_operator auth i =
     (if \<not> has_coop_access (claims auth) i then Inl UnauthorizedOrgAccess
      else if \<not> has_role (claims auth) i ROLE_COOP_OPERATOR then Inl NotCoopOperator
      else Inr auth)"

definition ensure_community_official :: "AuthenticatedRequest \<Rightarrow> string \<Rightarrow> AuthError + AuthenticatedRequest" where
  "ensure_community_official auth i =
     (if \<not> has_community_access (claims auth) i then Inl UnauthorizedOrgAccess
      else if \<not> has_role (claims auth) i ROLE_COMMUNITY_OFFICIAL then Inl NotCommunityOfficial
      else Inr auth)"

text \<open>The source matches on four entity types; the result for the others is left unspecified.\<close>

definition check_transfer_from_permission :: "AuthenticatedRequest \<Rightarrow> EntityRef \<Rightarrow> AuthError + unit" where
  "check_transfer_from_permission auth from_ref =
     (case entity_type from_ref of
        FederationEntity \<Rightarrow> if \<not> has_federation_admin_role (claims auth) (entity_id from_ref) then Inl NotFederationAdmin else Inr ()
      | CooperativeEntity \<Rightarrow> if \<not> has_coop_operator_role (claims auth) (entity_id from_ref) then Inl NotCoopOperator else Inr ()
      | CommunityEntity \<Rightarrow> if \<not> has_community_official_role (claims auth) (entity_id from_ref) then Inl NotCommunityOfficial else Inr ()
      | User \<Rightarrow> if sub (claims auth) \<noteq> entity_id from_ref then Inl UnauthorizedOrgAccess else Inr ())"

section \<open>Issuing, revoking and rotating tokens\<close>

record TokenIssueRequest =
  ti_subject :: string
  ti_expires_in :: "u64 option"
  ti_federation_ids :: "string list option"
  ti_coop_ids :: "string list option"
  ti_community_ids :: "string list option"
  ti_roles :: "role_map option"

record TokenResponse =
  rsp_token :: string
  expires_at :: u64
  rsp_token_id :: "string option"

definition or_default :: "'a list option \<Rightarrow> 'a list" where
  "or_default x = (case x of Some v \<Rightarrow> v | None \<Rightarrow> [])"

text \<open>\<open>now\<close> is the clock in seconds and \<open>fresh\<close> the text of a new UUID.  \<open>expires_in as i64\<close> keeps the bits, so that
  the expiration is the wrapped sum; a lifetime beyond the range of \<open>chrono\<close>, which panics, is left out.\<close>

definition issued_claims :: "string \<Rightarrow> u64 \<Rightarrow> TokenIssueRequest \<Rightarrow> string option \<Rightarrow> string option \<Rightarrow> Claims" where
  "issued_claims fresh now req issuer audience =
     \<lparr>c_sub = ti_subject req, c_iss = issuer, c_aud = audience,
      c_exp = now + (case ti_expires_in req of Some n \<Rightarrow> n | None \<Rightarrow> 3600 * 24), c_iat = Some now, c_nbf = None,
      c_jti = Some (''jti-'' @ fresh), c_federation_ids = or_default (ti_federation_ids req),
      c_coop_ids = or_default (ti_coop_ids req), c_community_ids = or_default (ti_community_ids req),
      c_roles = or_default (ti_roles req)\<rparr>"

definition issue_token ::
    "'v jwt \<Rightarrow> (string \<Rightarrow> DidError + did) \<Rightarrow> (DidError \<Rightarrow> string) \<Rightarrow> string \<Rightarrow> u64 \<Rightarrow> TokenIssueRequest \<Rightarrow> string option \<Rightarrow>
      'v JwtConfig \<Rightarrow> AuthError + TokenResponse" where
  "issue_token lib parse_did did_err fresh now req issuer cfg =
     bind_result (map_err (\<lambda>e. InvalidSubjectDidFormat (did_err e)) (parse_did (ti_subject req))) (\<lambda>_.
       let c = issued_claims fresh now req issuer (cfg_audience cfg) in
       bind_result (map_err (\<lambda>e. AuthInternal (''Failed to encode JWT: '' @ e)) (jwt_encode lib c (secret_key cfg))) (\<lambda>token.
         Inr \<lparr>rsp_token = token, expires_at = c_exp c, rsp_token_id = c_jti c\<rparr>))"

definition federation_issuer :: "string \<Rightarrow> string" where
  "federation_issuer f = ''did:icn:federation:'' @ f"

definition grants_only :: "string \<Rightarrow> string list option \<Rightarrow> bool" where
  "grants_only f ids = (case ids of Some fs \<Rightarrow> list_all (\<lambda>g. g = f) fs | None \<Rightarrow> True)"

text \<open>\<open>issuer_of\<close> is how the module names a federation as issuer: \<open>auth_handlers.rs\<close> and \<open>handlers.rs\<close> differ in it.\<close>

definition issue_jwt_token_handler ::
    "(string \<Rightarrow> string) \<Rightarrow> 'v jwt \<Rightarrow> (string \<Rightarrow> DidError + did) \<Rightarrow> (DidError \<Rightarrow> string) \<Rightarrow> string \<Rightarrow> u64 \<Rightarrow> 'v JwtConfig \<Rightarrow>
      AuthenticatedRequest \<Rightarrow> string \<Rightarrow> TokenIssueRequest \<Rightarrow> AuthError + TokenResponse" where
  "issue_jwt_token_handler issuer_of lib parse_did did_err fresh now cfg auth f payload =
     bind_result (ensure_federation_admin auth f) (\<lambda>_.
       if \<not> grants_only f (ti_federation_ids payload) then Inl UnauthorizedOrgAccess
       else issue_token lib parse_did did_err fresh now payload (Some (issuer_of f)) cfg)"

record RevokeTokenRequest =
  rq_jti :: "string option"
  rq_subject :: "string option"
  rq_issuer :: "string option"
  rq_reason :: "string option"

record RevokeTokenResponse =
  rs_revoked :: bool
  rs_revoked_at :: int
  rs_jti :: "string option"
  rs_subject :: "string option"
  rs_issuer :: "string option"

definition revoke_token_handler ::
    "string \<Rightarrow> int \<Rightarrow> AuthenticatedRequest \<Rightarrow> string \<Rightarrow> RevokeTokenRequest \<Rightarrow> InMemoryRevocationStore \<Rightarrow>
      (AuthError + RevokeTokenResponse) \<times> InMemoryRevocationStore" where
  "revoke_token_handler fresh now auth f payload s =
     (case ensure_federation_admin auth f of
        Inl e \<Rightarrow> (Inl e, s)
      | Inr _ \<Rightarrow>
          (let issuer = (case rq_issuer payload of Some i \<Rightarrow> Some i | None \<Rightarrow> Some (federation_issuer f)) in
           case (rq_jti payload, rq_subject payload) of
             (None, None) \<Rightarrow> (Inl InvalidTokenFormat, s)
           | (Some jti, subject) \<Rightarrow>
               (case revoke_token \<lparr>rt_jti = jti, rt_subject = (case subject of Some x \<Rightarrow> x | None \<Rightarrow> ''unknown''), rt_issuer = issuer,
                    rt_revoked_at = now, rt_reason = rq_reason payload, rt_revoked_by = sub (claims auth)\<rparr> s of
                  (revoked, s') \<Rightarrow> (Inr \<lparr>rs_revoked = revoked, rs_revoked_at = now, rs_jti = Some jti, rs_subject = None, rs_issuer = None\<rparr>, s'))
           | (None, Some subject) \<Rightarrow>
               (case revoke_token \<lparr>rt_jti = ''revoked-'' @ subject @ ''-'' @ fresh, rt_subject = subject, rt_issuer = issuer,
                    rt_revoked_at = now, rt_reason = rq_reason payload, rt_revoked_by = sub (claims auth)\<rparr> s of
                  (revoked, s') \<Rightarrow> (Inr \<lparr>rs_revoked = revoked, rs_revoked_at = now, rs_jti = None, rs_subject = Some subject, rs_issuer = issuer\<rparr>, s'))))"

record RotateTokenRequest =
  current_jti :: string
  rot_request :: TokenIssueRequest
  rot_reason :: "string option"

definition rotate_token_handler ::
    "(string \<Rightarrow> string) \<Rightarrow> 'v jwt \<Rightarrow> (string \<Rightarrow> DidError + did) \<Rightarrow> (DidError \<Rightarrow> string) \<Rightarrow> string \<Rightarrow> u64 \<Rightarrow> int \<Rightarrow> 'v JwtConfig \<Rightarrow>
      AuthenticatedRequest \<Rightarrow> string \<Rightarrow> RotateTokenRequest \<Rightarrow> InMemoryRevocationStore \<Rightarrow>
      (AuthError + TokenResponse) \<times> InMemoryRevocationStore" where
  "rotate_token_handler issuer_of lib parse_did did_err fresh now now_time cfg auth f payload s =
     (case ensure_federation_admin auth f of
        Inl e \<Rightarrow> (Inl e, s)
      | Inr _ \<Rightarrow>
          if \<not> grants_only f (ti_federation_ids (rot_request payload)) then (Inl UnauthorizedOrgAccess, s)
          else
            (let s' = snd (revoke_token \<lparr>rt_jti = current_jti payload, rt_subject = ti_subject (rot_request payload),
                  rt_issuer = Some (issuer_of f), rt_revoked_at = now_time,
                  rt_reason = (case rot_reason payload of Some r \<Rightarrow> Some r | None \<Rightarrow> Some ''Token rotation''),
                  rt_revoked_by = sub (claims auth)\<rparr> s)
             in (issue_token lib parse_did did_err fresh now (rot_request payload) (Some (issuer_of f)) cfg, s')))"

text \<open>A turn of the clean-up task, in nanoseconds: revocations are kept for thirty days.\<close>

definition revocation_cleanup_turn :: "int \<Rightarrow> InMemoryRevocationStore \<Rightarrow> nat \<times> InMemoryRevocationStore" where
  "revocation_cleanup_turn now s = clear_expired_revocations (now - 30 * DAY) s"

text \<open>The handlers of \<open>handlers.rs\<close> that the router does not use: they name the issuer in another way, and their revocation
  ignores the issuer of the request.\<close>

definition legacy_issuer :: "string \<Rightarrow> string" where
  "legacy_issuer f = ''federation:'' @ f"

definition legacy_issue_jwt_token_handler ::
    "'v jwt \<Rightarrow> (string \<Rightarrow> DidError + did) \<Rightarrow> (DidError \<Rightarrow> string) \<Rightarrow> string \<Rightarrow> u64 \<Rightarrow> 'v JwtConfig \<Rightarrow>
      AuthenticatedRequest \<Rightarrow> string \<Rightarrow> TokenIssueRequest \<Rightarrow> AuthError + TokenResponse" where
  "legacy_issue_jwt_token_handler = issue_jwt_token_handler legacy_issuer"

definition legacy_rotate_token_handler ::
    "'v jwt \<Rightarrow> (string \<Rightarrow> DidError + did) \<Rightarrow> (DidError \<Rightarrow> string) \<Rightarrow> string \<Rightarrow> u64 \<Rightarrow> int \<Rightarrow> 'v JwtConfig \<Rightarrow>
      AuthenticatedRequest \<Rightarrow> string \<Rightarrow> RotateTokenRequest \<Rightarrow> InMemoryRevocationStore \<Rightarrow>
      (AuthError + TokenResponse) \<times> InMemoryRevocationStore" where
  "legacy_rotate_token_handler = rotate_token_handler legacy_issuer"

definition legacy_revoke_token_handler ::
    "string \<Rightarrow> int \<Rightarrow> AuthenticatedRequest \<Rightarrow> string \<Rightarrow> RevokeTokenRequest \<Rightarrow> InMemoryRevocationStore \<Rightarrow>
      (AuthError + RevokeTokenResponse) \<times> InMemoryRevocationStore" where
  "legacy_revoke_token_handler fresh now auth f payload s =
     (case ensure_federation_admin auth f of
        Inl e \<Rightarrow> (Inl e, s)
      | Inr _ \<Rightarrow>
          (case (rq_jti payload, rq_subject payload) of
             (None, None) \<Rightarrow> (Inl InvalidTokenFormat, s)
           | (Some jti, subject) \<Rightarrow>
               (case revoke_token \<lparr>rt_jti = jti, rt_subject = (case subject of Some x \<Rightarrow> x | None \<Rightarrow> ''unknown''),
                    rt_issuer = Some (legacy_issuer f), rt_revoked_at = now, rt_reason = rq_reason payload, rt_revoked_by = sub (claims auth)\<rparr> s of
                  (revoked, s') \<Rightarrow> (Inr \<lparr>rs_revoked = revoked, rs_revoked_at = now, rs_jti = Some jti, rs_subject = None,
                    rs_issuer = Some (legacy_issuer f)\<rparr>, s'))
           | (None, Some subject) \<Rightarrow>
               (case revoke_token \<lparr>rt_jti = ''revoked-'' @ subject @ ''-'' @ fresh, rt_subject = subject,
                    rt_issuer = Some (legacy_issuer f), rt_revoked_at = now, rt_reason = rq_reason payload, rt_revoked_by = sub (claims auth)\<rparr> s of
                  (revoked, s') \<Rightarrow> (Inr \<lparr>rs_revoked = revoked, rs_revoked_at = now, rs_jti = None, rs_subject = Some subject,
                    rs_issuer = Some (legacy_issuer f)\<rparr>, s'))))"

section \<open>What a revocation list promises\<close>

text \<open>\<open>live\<close> is the list of revocations in force.  The contract of the trait, for stores in the state \<open>wf\<close> and
  revocations whose token identifier is new.\<close>

locale revocation_list =
  fixes revoke :: "RevokedToken \<Rightarrow> 's \<Rightarrow> 's"
    and clear :: "int \<Rightarrow> 's \<Rightarrow> 's"
    and by_jti :: "'s \<Rightarrow> string \<Rightarrow> bool"
    and by_subject :: "'s \<Rightarrow> string \<Rightarrow> string option \<Rightarrow> bool"
    and live :: "'s \<Rightarrow> RevokedToken list"
    and wf :: "'s \<Rightarrow> bool"
  assumes by_jti_iff: "wf s \<Longrightarrow> by_jti s j \<longleftrightarrow> j \<in> rt_jti ` set (live s)"
    and by_subject_iff: "wf s \<Longrightarrow> by_subject s x i \<longleftrightarrow> (x, i) \<in> si_key ` set (live s)"
    and revoke_live: "wf s \<Longrightarrow> rt_jti t \<notin> rt_jti ` set (live s) \<Longrightarrow> wf (revoke t s) \<and> live (revoke t s) = live s @ [t]"
    and clear_live: "wf s \<Longrightarrow> wf (clear c s) \<and> live (clear c s) = filter (\<lambda>t. \<not> rt_revoked_at t < c) (live s)"
begin

lemma revoked_until_cleared:
  assumes "wf s" "rt_jti t \<notin> rt_jti ` set (live s)" "c \<le> rt_revoked_at t"
  shows "by_jti (clear c (revoke t s)) (rt_jti t) \<and> by_subject (clear c (revoke t s)) (rt_subject t) (rt_issuer t)"
  using assms revoke_live [OF assms(1,2)] clear_live [of "revoke t s" c]
  by (auto simp: by_jti_iff by_subject_iff si_key_def image_iff)

end

definition rev_wf :: "InMemoryRevocationStore \<Rightarrow> bool" where
  "rev_wf s \<longleftrightarrow> distinct (map rt_jti (revoked_tokens s)) \<and>
     (\<forall>j. hget (jti_index s) j \<noteq> None \<longleftrightarrow> j \<in> rt_jti ` set (revoked_tokens s)) \<and>
     (\<forall>x i. hget (subject_issuer_index s) (x, i) =
       (let ts = filter (\<lambda>t. si_key t = (x, i)) (revoked_tokens s) in if ts = [] then None else Some ts))"

lemma rev_wfD:
  assumes "rev_wf s"
  shows "distinct (map rt_jti (revoked_tokens s))"
    and "hget (jti_index s) j \<noteq> None \<longleftrightarrow> j \<in> rt_jti ` set (revoked_tokens s)"
    and "hget (subject_issuer_index s) k =
      (let ts = filter (\<lambda>t. si_key t = k) (revoked_tokens s) in if ts = [] then None else Some ts)"
  using assms by (cases k; auto simp: rev_wf_def)+

lemma rev_wf_new: "rev_wf InMemoryRevocationStore_new"
  by (simp add: rev_wf_def InMemoryRevocationStore_new_def)

lemma revoke_token_fresh:
  assumes "rev_wf s" "rt_jti t \<notin> rt_jti ` set (revoked_tokens s)"
  shows "rev_wf (snd (revoke_token t s)) \<and> revoked_tokens (snd (revoke_token t s)) = revoked_tokens s @ [t]"
proof -
  have new: "\<not> t \<in> set (revoked_tokens s)" using assms(2) by auto
  note w = rev_wfD [OF assms(1)]
  show ?thesis
    using assms(2) w(1) w(2) new
    by (auto simp: revoke_token_def add_to_indices_def rev_wf_def hm.get_insert w(3) hget_or_def Let_def)
qed

lemma remove_token_wf:
  assumes "rev_wf s" "t \<in> set (revoked_tokens s)"
  shows "rev_wf (remove_from_indices t (s\<lparr>revoked_tokens := remove1 t (revoked_tokens s)\<rparr>))"
proof -
  let ?ts = "revoked_tokens s"
  note w = rev_wfD [OF assms(1)]
  have d: "distinct ?ts" using w(1) by (simp add: distinct_map)
  have r: "remove1 t ?ts = filter (\<lambda>u. rt_jti u \<noteq> rt_jti t) ?ts"
    using d w(1) assms(2) by (auto simp: distinct_remove1_removeAll removeAll_filter_not_eq distinct_map inj_on_def intro!: filter_cong)
  have f: "filter (\<lambda>u. si_key u = k) (remove1 t ?ts) = filter (\<lambda>u. rt_jti u \<noteq> rt_jti t) (filter (\<lambda>u. si_key u = k) ?ts)" for k
    by (simp add: r conj_commute)
  have other: "filter (\<lambda>u. si_key u = k) (remove1 t ?ts) = filter (\<lambda>u. si_key u = k) ?ts" if "k \<noteq> si_key t" for k
    using that by (simp add: filter_remove1)
  have idx: "hget (subject_issuer_index (remove_from_indices t (s\<lparr>revoked_tokens := remove1 t ?ts\<rparr>))) k =
      (let ts = filter (\<lambda>u. si_key u = k) (remove1 t ?ts) in if ts = [] then None else Some ts)" for k
  proof (cases "k = si_key t")
    case True
    show ?thesis unfolding True f [of "si_key t"]
      by (auto simp: remove_from_indices_def hm.get_insert hm.get_remove w(3) Let_def filter_empty_conv)
  next
    case False
    show ?thesis unfolding other [OF False]
      using False by (auto simp: remove_from_indices_def hm.get_insert hm.get_remove w(3) Let_def split: option.splits)
  qed
  have "distinct (map rt_jti (remove1 t ?ts))" using w(1) by (simp add: r distinct_map_filter)
  moreover have "hget (jti_index (remove_from_indices t (s\<lparr>revoked_tokens := remove1 t ?ts\<rparr>))) j \<noteq> None \<longleftrightarrow>
      j \<in> rt_jti ` set (remove1 t ?ts)" for j
    using w(2) by (auto simp: remove_from_indices_def hm.get_remove r)
  moreover have "revoked_tokens (remove_from_indices t (s\<lparr>revoked_tokens := remove1 t ?ts\<rparr>)) = remove1 t ?ts"
    by (simp add: remove_from_indices_def)
  ultimately show ?thesis using idx unfolding rev_wf_def by simp
qed

lemma clear_loop_wf:
  assumes "rev_wf s" "distinct ts" "set ts \<subseteq> set (revoked_tokens s)"
  shows "rev_wf (foldl (\<lambda>s t. remove_from_indices t (s\<lparr>revoked_tokens := remove1 t (revoked_tokens s)\<rparr>)) s ts) \<and>
    revoked_tokens (foldl (\<lambda>s t. remove_from_indices t (s\<lparr>revoked_tokens := remove1 t (revoked_tokens s)\<rparr>)) s ts) =
      filter (\<lambda>u. u \<notin> set ts) (revoked_tokens s)"
  using assms
proof (induction ts arbitrary: s)
  case Nil
  then show ?case by simp
next
  case (Cons t ts)
  let ?s = "remove_from_indices t (s\<lparr>revoked_tokens := remove1 t (revoked_tokens s)\<rparr>)"
  have d: "distinct (revoked_tokens s)" using rev_wfD(1) [OF Cons.prems(1)] by (simp add: distinct_map)
  have r: "revoked_tokens ?s = filter (\<lambda>u. u \<noteq> t) (revoked_tokens s)"
    using d by (simp add: remove_from_indices_def distinct_remove1_removeAll removeAll_filter_not_eq eq_commute)
  have "rev_wf ?s" using Cons.prems by (intro remove_token_wf) auto
  moreover have "set ts \<subseteq> set (revoked_tokens ?s)" using Cons.prems by (auto simp: r)
  ultimately show ?case using Cons.IH [of ?s] Cons.prems(2) by (simp add: r conj_commute)
qed

lemma clear_expired_wf:
  assumes "rev_wf s"
  shows "rev_wf (snd (clear_expired_revocations c s)) \<and>
    revoked_tokens (snd (clear_expired_revocations c s)) = filter (\<lambda>t. \<not> rt_revoked_at t < c) (revoked_tokens s)"
  using clear_loop_wf [OF assms, of "filter (\<lambda>t. rt_revoked_at t < c) (revoked_tokens s)"] rev_wfD(1) [OF assms]
  by (auto simp: clear_expired_revocations_def Let_def distinct_map cong: filter_cong)

interpretation mem_revocations: revocation_list "\<lambda>t s. snd (revoke_token t s)" "\<lambda>c s. snd (clear_expired_revocations c s)"
  is_revoked is_revoked_by_subject_issuer revoked_tokens rev_wf
proof unfold_locales
  show "is_revoked s j \<longleftrightarrow> j \<in> rt_jti ` set (revoked_tokens s)" if "rev_wf s" for s j
    unfolding is_revoked_def by (rule rev_wfD(2) [OF that])
  show "is_revoked_by_subject_issuer s x i \<longleftrightarrow> (x, i) \<in> si_key ` set (revoked_tokens s)" if "rev_wf s" for s x i
    by (force simp: is_revoked_by_subject_issuer_def rev_wfD(3) [OF that] Let_def filter_empty_conv)
qed (use revoke_token_fresh clear_expired_wf in blast)+

section \<open>Properties\<close>

text \<open>The revocations a request is checked against, if the store is among its extensions.\<close>

definition claims_revoked :: "InMemoryRevocationStore option \<Rightarrow> Claims \<Rightarrow> bool" where
  "claims_revoked store c =
     (case store of
        None \<Rightarrow> False
      | Some s \<Rightarrow> (case c_jti c of Some j \<Rightarrow> is_revoked s j | None \<Rightarrow> False) \<or> is_revoked_by_subject_issuer s (c_sub c) (c_iss c))"

definition bearer_token :: "unit + string \<Rightarrow> string option" where
  "bearer_token h = (case h of Inr text \<Rightarrow> if take 7 text = ''Bearer '' then Some (drop 7 text) else None | Inl _ \<Rightarrow> None)"

lemma bearer_token_Some: "bearer_token h = Some token \<longleftrightarrow> h = Inr (''Bearer '' @ token)"
proof
  assume "bearer_token h = Some token"
  then obtain x where "h = Inr x" "take 7 x = ''Bearer ''" "drop 7 x = token"
    by (auto simp: bearer_token_def simp del: take_Cons_numeral split: sum.splits if_splits)
  then show "h = Inr (''Bearer '' @ token)" using append_take_drop_id [of 7 x] by simp
qed (simp add: bearer_token_def)

lemma bearer_token_None: "bearer_token h = None \<longleftrightarrow> (\<nexists>token. h = Inr (''Bearer '' @ token))"
  using bearer_token_Some by (metis not_None_eq)

lemma revocation_checks:
  "(case store of None \<Rightarrow> Inr ()
    | Some s \<Rightarrow> bind_result (check_token_not_revoked s (c_jti c)) (\<lambda>_. check_subject_not_revoked s (c_sub c) (c_iss c))) =
   (if claims_revoked store c then Inl TokenRevoked else Inr ())"
  by (auto simp: claims_revoked_def check_token_not_revoked_def check_subject_not_revoked_def split: option.split)

lemma from_request_parts_cases:
  "from_request_parts lib cfg_opt store header =
     (case cfg_opt of
        None \<Rightarrow> Inl (AuthInternal ''JWT config not found'')
      | Some cfg \<Rightarrow>
          (case header of
             None \<Rightarrow> Inl MissingAuthHeader
           | Some h \<Rightarrow>
               (case bearer_token h of
                  None \<Rightarrow> Inl InvalidTokenFormat
                | Some token \<Rightarrow>
                    (case validate_token lib token cfg of
                       Inl e \<Rightarrow> Inl e
                     | Inr c \<Rightarrow> if claims_revoked store c then Inl TokenRevoked
                               else Inr \<lparr>claims = ScopeClaims_from c, token_id = c_jti c\<rparr>))))"
  unfolding from_request_parts_def revocation_checks by (simp add: bearer_token_def split: option.split sum.split)

lemma authenticated_iff_lemma:
  "from_request_parts lib cfg_opt store header = Inr auth \<longleftrightarrow>
     (\<exists>cfg h token c. cfg_opt = Some cfg \<and> header = Some h \<and> bearer_token h = Some token \<and> validate_token lib token cfg = Inr c \<and>
       \<not> claims_revoked store c \<and> auth = \<lparr>claims = ScopeClaims_from c, token_id = c_jti c\<rparr>)"
  unfolding from_request_parts_cases by (auto split: option.splits sum.splits if_splits)

lemma refused_iff_lemma:
  "from_request_parts lib cfg_opt store header = Inl e \<longleftrightarrow>
     cfg_opt = None \<and> e = AuthInternal ''JWT config not found'' \<or>
     (\<exists>cfg. cfg_opt = Some cfg \<and>
       (header = None \<and> e = MissingAuthHeader \<or>
        (\<exists>h. header = Some h \<and> bearer_token h = None \<and> e = InvalidTokenFormat) \<or>
        (\<exists>h token. header = Some h \<and> bearer_token h = Some token \<and>
          (validate_token lib token cfg = Inl e \<or>
           (\<exists>c. validate_token lib token cfg = Inr c \<and> claims_revoked store c \<and> e = TokenRevoked)))))"
  unfolding from_request_parts_cases by (auto split: option.splits sum.splits if_splits)

text \<open>C18: who is authenticated.  A request is accepted exactly when the service is configured, the request carries a bearer
  token that the configured validation accepts and, where the request has a revocation store, neither the token's
  identifier nor its subject with its issuer is revoked there; the handler then sees the scopes of exactly those claims.
  Without a revocation store, which is optional, no revocation is looked up.  Every other request is answered with the
  error of the first check that fails: no configuration, no header, a header that is no text or no bearer token, the
  error of the validation, a revocation.\<close>

theorem authenticated_iff:
  "(from_request_parts lib cfg_opt store header = Inr auth \<longleftrightarrow>
     (\<exists>cfg token c. cfg_opt = Some cfg \<and> header = Some (Inr (''Bearer '' @ token)) \<and> validate_token lib token cfg = Inr c \<and>
       (case store of
          None \<Rightarrow> True
        | Some s \<Rightarrow> (case c_jti c of Some j \<Rightarrow> \<not> is_revoked s j | None \<Rightarrow> True) \<and> \<not> is_revoked_by_subject_issuer s (c_sub c) (c_iss c)) \<and>
       auth = \<lparr>claims = ScopeClaims_from c, token_id = c_jti c\<rparr>)) \<and>
   (from_request_parts lib cfg_opt store header = Inl e \<longleftrightarrow>
     cfg_opt = None \<and> e = AuthInternal ''JWT config not found'' \<or>
     (\<exists>cfg. cfg_opt = Some cfg \<and>
       (header = None \<and> e = MissingAuthHeader \<or>
        (\<exists>h. header = Some h \<and> (\<nexists>token. h = Inr (''Bearer '' @ token)) \<and> e = InvalidTokenFormat) \<or>
        (\<exists>token. header = Some (Inr (''Bearer '' @ token)) \<and>
          (validate_token lib token cfg = Inl e \<or>
           (\<exists>c s. validate_token lib token cfg = Inr c \<and> store = Some s \<and> e = TokenRevoked \<and>
             ((\<exists>j. c_jti c = Some j \<and> is_revoked s j) \<or> is_revoked_by_subject_issuer s (c_sub c) (c_iss c))))))))"
proof -
  have live: "(case store of None \<Rightarrow> True
      | Some s \<Rightarrow> (case c_jti c of Some j \<Rightarrow> \<not> is_revoked s j | None \<Rightarrow> True) \<and> \<not> is_revoked_by_subject_issuer s (c_sub c) (c_iss c)) \<longleftrightarrow>
      \<not> claims_revoked store c" for c
    by (simp add: claims_revoked_def split: option.split)
  have revoked: "claims_revoked store c \<longleftrightarrow>
      (\<exists>s. store = Some s \<and> ((\<exists>j. c_jti c = Some j \<and> is_revoked s j) \<or> is_revoked_by_subject_issuer s (c_sub c) (c_iss c)))" for c
    by (auto simp: claims_revoked_def split: option.split)
  show ?thesis
    unfolding authenticated_iff_lemma refused_iff_lemma bearer_token_Some bearer_token_None live
    by (intro conjI; unfold revoked) blast+
qed

datatype rev_op = Revoke RevokedToken | ClearBefore int

fun rev_run :: "rev_op list \<Rightarrow> InMemoryRevocationStore \<Rightarrow> InMemoryRevocationStore" where
  "rev_run [] s = s"
| "rev_run (Revoke t # ops) s = rev_run ops (snd (revoke_token t s))"
| "rev_run (ClearBefore c # ops) s = rev_run ops (snd (clear_expired_revocations c s))"

fun in_force :: "rev_op list \<Rightarrow> RevokedToken list \<Rightarrow> RevokedToken list" where
  "in_force [] ts = ts"
| "in_force (Revoke t # ops) ts = in_force ops (ts @ [t])"
| "in_force (ClearBefore c # ops) ts = in_force ops (filter (\<lambda>t. \<not> rt_revoked_at t < c) ts)"

fun op_jti :: "rev_op \<Rightarrow> string list" where
  "op_jti (Revoke t) = [rt_jti t]"
| "op_jti (ClearBefore c) = []"

lemma rev_run_live:
  assumes "rev_wf s" "distinct (map rt_jti (revoked_tokens s) @ concat (map op_jti ops))"
  shows "rev_wf (rev_run ops s) \<and> revoked_tokens (rev_run ops s) = in_force ops (revoked_tokens s)"
  using assms
proof (induction ops arbitrary: s)
  case Nil
  then show ?case by simp
next
  case (Cons op ops)
  show ?case
  proof (cases op)
    case (Revoke t)
    with Cons.prems have "rt_jti t \<notin> rt_jti ` set (revoked_tokens s)" by auto
    with Cons.IH [of "snd (revoke_token t s)"] revoke_token_fresh [OF Cons.prems(1)] Cons.prems(2) Revoke
    show ?thesis by auto
  next
    case (ClearBefore c)
    with Cons.IH [of "snd (clear_expired_revocations c s)"] clear_expired_wf [OF Cons.prems(1), of c] Cons.prems(2)
    show ?thesis by (auto simp: distinct_map_filter)
  qed
qed

text \<open>C17: the revocation store implements a list of revocations.  After any sequence of revocations with distinct token
  identifiers and of clean-ups, a token identifier is revoked exactly when one of the revocations still in force
  names it, a subject with an issuer exactly when one of them names both, and the revocations in force are those
  made and not yet older than a later clean-up's limit.\<close>

theorem revocations_refine_list:
  assumes "distinct (concat (map op_jti ops))"
  shows "(is_revoked (rev_run ops InMemoryRevocationStore_new) j \<longleftrightarrow> j \<in> rt_jti ` set (in_force ops [])) \<and>
    (is_revoked_by_subject_issuer (rev_run ops InMemoryRevocationStore_new) x i \<longleftrightarrow>
      (\<exists>t\<in>set (in_force ops []). rt_subject t = x \<and> rt_issuer t = i))"
proof -
  have run: "rev_wf (rev_run ops InMemoryRevocationStore_new)"
    "revoked_tokens (rev_run ops InMemoryRevocationStore_new) = in_force ops []"
    using rev_run_live [OF rev_wf_new, of ops] assms by (auto simp: InMemoryRevocationStore_new_def)
  then show ?thesis
    by (auto simp: mem_revocations.by_jti_iff mem_revocations.by_subject_iff si_key_def)
qed

definition demo_revoked :: "string \<Rightarrow> int \<Rightarrow> RevokedToken" where
  "demo_revoked j at = \<lparr>rt_jti = j, rt_subject = ''did:u'', rt_issuer = Some ''i'', rt_revoked_at = at, rt_reason = None,
     rt_revoked_by = ''did:admin''\<rparr>"

theorem revocations_refine_list_witness:
  "\<not> is_revoked (rev_run [Revoke (demo_revoked ''a'' 1), Revoke (demo_revoked ''b'' 5), ClearBefore 3] InMemoryRevocationStore_new) ''a'' \<and>
   is_revoked (rev_run [Revoke (demo_revoked ''a'' 1), Revoke (demo_revoked ''b'' 5), ClearBefore 3] InMemoryRevocationStore_new) ''b''"
  using revocations_refine_list [where ops = "[Revoke (demo_revoked ''a'' 1), Revoke (demo_revoked ''b'' 5), ClearBefore 3]"]
  by (simp add: demo_revoked_def)

text \<open>a clean-up can lift a revocation that is still in force.  When a token identifier has been revoked twice and
  the clean-up removes the older revocation, the identifier is no longer revoked although the newer revocation is
  neither expired nor removed, and revoking it again in the same way has no effect.\<close>

lemma cleanup_lifts_newer_revocation:
  assumes "rt_jti new = rt_jti old" "si_key new = si_key old" "rt_revoked_at old < c" "c \<le> rt_revoked_at new"
    and s: "s = rev_run [Revoke old, Revoke new, ClearBefore c] InMemoryRevocationStore_new"
  shows "revoked_tokens s = [new] \<and> \<not> is_revoked s (rt_jti new) \<and>
    \<not> is_revoked_by_subject_issuer s (rt_subject new) (rt_issuer new) \<and> revoke_token new s = (False, s)"
proof -
  have "old \<noteq> new" "new \<noteq> old" using assms(3,4) by auto
  with assms show ?thesis
    by (simp add: InMemoryRevocationStore_new_def revoke_token_def add_to_indices_def clear_expired_revocations_def
        remove_from_indices_def is_revoked_def is_revoked_by_subject_issuer_def si_key_def hmap_simps hget_or_def Let_def)
qed

lemma cleanup_lifts_newer_revocation_witness:
  "\<not> is_revoked (rev_run [Revoke (demo_revoked ''a'' 1), Revoke (demo_revoked ''a'' 5), ClearBefore 3] InMemoryRevocationStore_new) ''a''"
  using cleanup_lifts_newer_revocation [OF _ _ _ _ refl, of "demo_revoked ''a'' 5" "demo_revoked ''a'' 1" 3]
  by (simp add: demo_revoked_def si_key_def)

text \<open>a rotated token is useless.  The rotation revokes the old token by recording its subject and issuer, which are
  also those of the new token; so in the state a successful rotation leaves, every request with the token it returned
  is refused, whatever the configuration of the service, as long as the token library only decodes what was encoded.\<close>

lemma rotated_token_refused:
  assumes "rev_wf s" and "current_jti payload \<notin> rt_jti ` set (revoked_tokens s)"
    and rot: "rotate_token_handler issuer_of lib parse_did did_err fresh now now_time cfg auth f payload s = (Inr rsp, s')"
    and decodes: "\<forall>c token v c'. jwt_encode lib c (secret_key cfg) = Inr token \<and>
      jwt_decode lib token (secret_key cfg) v = Inr c' \<longrightarrow> c' = c"
    and "secret_key cfg' = secret_key cfg"
  shows "\<exists>e. from_request_parts lib (Some cfg') (Some s') (Some (Inr (''Bearer '' @ rsp_token rsp))) = Inl e"
proof (cases "from_request_parts lib (Some cfg') (Some s') (Some (Inr (''Bearer '' @ rsp_token rsp)))")
  case (Inr a)
  let ?c = "issued_claims fresh now (rot_request payload) (Some (issuer_of f)) (cfg_audience cfg)"
  from rot have enc: "jwt_encode lib ?c (secret_key cfg) = Inr (rsp_token rsp)"
    by (auto simp: rotate_token_handler_def issue_token_def bind_result_Inr_iff Let_def split: sum.splits if_splits)
  from rot obtain t where s': "s' = snd (revoke_token t s)" and t: "rt_subject t = ti_subject (rot_request payload)"
      "rt_issuer t = Some (issuer_of f)" "rt_jti t = current_jti payload"
    by (auto simp: rotate_token_handler_def Let_def split: sum.splits if_splits)
  from Inr obtain c where "validate_token lib (rsp_token rsp) cfg' = Inr c" and no: "\<not> is_revoked_by_subject_issuer s' (c_sub c) (c_iss c)"
    unfolding authenticated_iff_lemma bearer_token_Some by (auto simp: claims_revoked_def)
  with decodes enc assms(5) have "c = ?c" by (auto simp: validate_token_def Let_def)
  moreover have "is_revoked_by_subject_issuer s' (rt_subject t) (rt_issuer t)"
    using mem_revocations.revoke_live [OF assms(1), of t] assms(2) t by (auto simp: s' mem_revocations.by_subject_iff si_key_def)
  ultimately show ?thesis using no t by (simp add: issued_claims_def)
qed simp

definition demo_admin :: AuthenticatedRequest where
  "demo_admin = \<lparr>claims = \<lparr>sub = ''did:admin'', federation_ids = [''f''], coop_ids = [], community_ids = [],
     roles = [(''f'', [''federation_admin''])]\<rparr>, token_id = Some ''j0''\<rparr>"

definition demo_issue :: TokenIssueRequest where
  "demo_issue = \<lparr>ti_subject = ''did:u'', ti_expires_in = None, ti_federation_ids = Some [''f''], ti_coop_ids = Some [''coop-of-g''],
     ti_community_ids = None, ti_roles = None\<rparr>"

text \<open>A token library with one token.\<close>

definition demo_jwt :: "Claims \<Rightarrow> string option jwt" where
  "demo_jwt c0 = \<lparr>jwt_encode = (\<lambda>c k. if c = c0 then Inr ''tok'' else Inl ''unknown claims''),
     jwt_decode = (\<lambda>token k v. if token = ''tok'' \<and> (v = None \<or> v = c_iss c0) then Inr c0 else Inl ''InvalidIssuer''),
     set_issuer = (\<lambda>v i. Some i), set_audience = (\<lambda>v a. v)\<rparr>"

definition demo_config :: "string option JwtConfig" where
  "demo_config = \<lparr>secret_key = ''k'', cfg_issuer = None, cfg_audience = None, validation = None\<rparr>"

definition demo_claims :: Claims where
  "demo_claims = issued_claims ''u1'' 100 demo_issue (Some (federation_issuer ''f'')) None"

lemma rotated_token_refused_witness:
  "\<exists>rsp s' e. rotate_token_handler federation_issuer (demo_jwt demo_claims) Inr (\<lambda>_. []) ''u1'' 100 7 demo_config demo_admin ''f''
      \<lparr>current_jti = ''old'', rot_request = demo_issue, rot_reason = None\<rparr> InMemoryRevocationStore_new = (Inr rsp, s') \<and>
    from_request_parts (demo_jwt demo_claims) (Some demo_config) (Some s') (Some (Inr (''Bearer '' @ rsp_token rsp))) = Inl e"
proof -
  let ?p = "\<lparr>current_jti = ''old'', rot_request = demo_issue, rot_reason = None\<rparr>"
  have "fst (rotate_token_handler federation_issuer (demo_jwt demo_claims) Inr (\<lambda>_. []) ''u1'' 100 7 demo_config demo_admin ''f''
      ?p InMemoryRevocationStore_new) = Inr \<lparr>rsp_token = ''tok'', expires_at = c_exp demo_claims, rsp_token_id = c_jti demo_claims\<rparr>"
    by (simp add: rotate_token_handler_def ensure_federation_admin_def demo_admin_def has_federation_access_def has_role_def hget_def
        ROLE_FEDERATION_ADMIN_def grants_only_def demo_issue_def issue_token_def demo_jwt_def demo_config_def demo_claims_def Let_def)
  then obtain rsp s' where r: "rotate_token_handler federation_issuer (demo_jwt demo_claims) Inr (\<lambda>_. []) ''u1'' 100 7 demo_config
      demo_admin ''f'' ?p InMemoryRevocationStore_new = (Inr rsp, s')"
    by (metis prod.collapse)
  have "\<exists>e. from_request_parts (demo_jwt demo_claims) (Some demo_config) (Some s') (Some (Inr (''Bearer '' @ rsp_token rsp))) = Inl e"
    by (rule rotated_token_refused [OF rev_wf_new _ r])
      (auto simp: InMemoryRevocationStore_new_def demo_jwt_def split: if_splits)
  with r show ?thesis by blast
qed

text \<open>the scope of an issued token.  Only an administrator of a federation who has access to it obtains a token from
  its endpoint; the token carries the federation as its issuer, a fresh identifier, and access to no other
  federation.  The cooperatives, communities and roles it grants are those of the request, whichever they are, even
  of other federations.\<close>

lemma issued_token_scope:
  assumes "issue_jwt_token_handler issuer_of lib parse_did did_err fresh now cfg auth f payload = Inr rsp"
  shows "has_federation_access (claims auth) f \<and> has_role (claims auth) f ''federation_admin'' \<and>
    (\<exists>c. jwt_encode lib c (secret_key cfg) = Inr (rsp_token rsp) \<and> c_sub c = ti_subject payload \<and> c_iss c = Some (issuer_of f) \<and>
      c_jti c = rsp_token_id rsp \<and> c_jti c = Some (''jti-'' @ fresh) \<and> set (c_federation_ids c) \<subseteq> {f} \<and>
      c_coop_ids c = or_default (ti_coop_ids payload) \<and> c_community_ids c = or_default (ti_community_ids payload) \<and>
      c_roles c = or_default (ti_roles payload))"
  using assms
  by (auto simp: issue_jwt_token_handler_def bind_result_Inr_iff ensure_federation_admin_def ROLE_FEDERATION_ADMIN_def
      issue_token_def Let_def issued_claims_def grants_only_def or_default_def list_all_iff split: if_splits option.splits)

lemma issued_token_scope_witness:
  "\<exists>c. jwt_encode (demo_jwt demo_claims) c ''k'' = Inr ''tok'' \<and> set (c_federation_ids c) \<subseteq> {''f''} \<and> c_coop_ids c = [''coop-of-g'']"
proof -
  have "issue_jwt_token_handler federation_issuer (demo_jwt demo_claims) Inr (\<lambda>_. []) ''u1'' 100 demo_config demo_admin ''f'' demo_issue
      = Inr \<lparr>rsp_token = ''tok'', expires_at = c_exp demo_claims, rsp_token_id = c_jti demo_claims\<rparr>"
    by (simp add: issue_jwt_token_handler_def ensure_federation_admin_def demo_admin_def has_federation_access_def has_role_def hget_def
        ROLE_FEDERATION_ADMIN_def grants_only_def demo_issue_def issue_token_def demo_jwt_def demo_config_def demo_claims_def Let_def)
  from issued_token_scope [OF this] show ?thesis by (auto simp: demo_config_def demo_issue_def or_default_def)
qed

text \<open>The configuration \<open>main\<close> starts the service with.\<close>

definition main_jwt_config :: "string \<Rightarrow> 'v \<Rightarrow> 'v JwtConfig" where
  "main_jwt_config secret v = \<lparr>secret_key = secret, cfg_issuer = Some ''icn-agoranet'', cfg_audience = None, validation = v\<rparr>"

text \<open>the service refuses the tokens it issues.  \<open>main\<close> configures the issuer \<open>icn-agoranet\<close>, but its endpoint issues
  tokens in the name of the federation; with a token library whose validation accepts only the issuer it was set to
  and which decodes only what was encoded, every request with an issued token fails validation.  The router moreover
  never passes the configuration to the extractor, which then fails before it reads the token.\<close>

lemma issued_tokens_fail_validation:
  assumes issued: "issue_jwt_token_handler federation_issuer lib parse_did did_err fresh now (main_jwt_config secret v) auth f payload = Inr rsp"
    and decodes: "\<forall>c token w c'. jwt_encode lib c secret = Inr token \<and> jwt_decode lib token secret w = Inr c' \<longrightarrow> c' = c"
    and issuers: "\<forall>token i c. jwt_decode lib token secret (set_issuer lib v i) = Inr c \<longrightarrow> c_iss c = Some i"
  shows "(\<exists>m. from_request_parts lib (Some (main_jwt_config secret v)) store (Some (Inr (''Bearer '' @ rsp_token rsp))) = Inl (ValidationFailed m)) \<and>
    from_request_parts lib None store (Some (Inr (''Bearer '' @ rsp_token rsp))) = Inl (AuthInternal ''JWT config not found'')"
proof -
  let ?c = "issued_claims fresh now payload (Some (federation_issuer f)) None"
  from issued have enc: "jwt_encode lib ?c secret = Inr (rsp_token rsp)"
    by (auto simp: issue_jwt_token_handler_def issue_token_def bind_result_Inr_iff Let_def main_jwt_config_def split: if_splits)
  have iss: "c_iss ?c \<noteq> Some ''icn-agoranet''" by (simp add: issued_claims_def federation_issuer_def)
  have "False" if d: "jwt_decode lib (rsp_token rsp) secret (set_issuer lib v ''icn-agoranet'') = Inr c" for c
  proof -
    have "c = ?c" using decodes enc d by blast
    moreover have "c_iss c = Some ''icn-agoranet''" using issuers d by blast
    ultimately show False using iss by simp
  qed
  then obtain m where "jwt_decode lib (rsp_token rsp) secret (set_issuer lib v ''icn-agoranet'') = Inl m"
    by (cases "jwt_decode lib (rsp_token rsp) secret (set_issuer lib v ''icn-agoranet'')") auto
  then show ?thesis
    by (simp add: from_request_parts_def validate_token_def main_jwt_config_def Let_def)
qed

lemma issued_tokens_fail_validation_witness:
  "\<exists>rsp m. issue_jwt_token_handler federation_issuer (demo_jwt demo_claims) Inr (\<lambda>_. []) ''u1'' 100 (main_jwt_config ''k'' None)
      demo_admin ''f'' demo_issue = Inr rsp \<and>
    from_request_parts (demo_jwt demo_claims) (Some (main_jwt_config ''k'' None)) None (Some (Inr (''Bearer '' @ rsp_token rsp))) = Inl (ValidationFailed m)"
proof -
  have i: "issue_jwt_token_handler federation_issuer (demo_jwt demo_claims) Inr (\<lambda>_. []) ''u1'' 100 (main_jwt_config ''k'' None)
      demo_admin ''f'' demo_issue = Inr \<lparr>rsp_token = ''tok'', expires_at = c_exp demo_claims, rsp_token_id = c_jti demo_claims\<rparr>"
    by (simp add: issue_jwt_token_handler_def ensure_federation_admin_def demo_admin_def has_federation_access_def has_role_def hget_def
        ROLE_FEDERATION_ADMIN_def grants_only_def demo_issue_def issue_token_def demo_jwt_def main_jwt_config_def demo_claims_def Let_def)
  have d: "\<forall>c token w c'. jwt_encode (demo_jwt demo_claims) c ''k'' = Inr token \<and> jwt_decode (demo_jwt demo_claims) token ''k'' w = Inr c' \<longrightarrow> c' = c"
    by (simp add: demo_jwt_def)
  have n: "\<forall>token j c. jwt_decode (demo_jwt demo_claims) token ''k'' (set_issuer (demo_jwt demo_claims) None j) = Inr c \<longrightarrow> c_iss c = Some j"
    by (simp add: demo_jwt_def)
  have "\<exists>m. from_request_parts (demo_jwt demo_claims) (Some (main_jwt_config ''k'' None)) None (Some (Inr (''Bearer '' @ ''tok''))) = Inl (ValidationFailed m)"
    using conjunct1 [OF issued_tokens_fail_validation [OF i d n, where store = None]] by (simp only: TokenResponse.simps)
  with i show ?thesis by (intro exI [of _ "\<lparr>rsp_token = ''tok'', expires_at = c_exp demo_claims, rsp_token_id = c_jti demo_claims\<rparr>"]) simp
qed

end
