(* ===== verification/Agora_Forum.thy ===== *)
theory Agora_Forum
  imports Agora_Auth
begin

text \<open>
  The deliberation and organisation data of AgoraNet: \<open>models.rs\<close>, \<open>error.rs\<close> and the handlers of \<open>handlers.rs\<close> for
  threads, proposals, votes, receipts and token records, with the authorised variants the router uses.

  The store behind the lock is a record; a handler takes it and returns its result with the new store.  Fresh
  identifiers, the clock (in nanoseconds), the text of a date and the parsers of identities and content identifiers
  are arguments.  A poisoned lock is left out.
\<close>

section \<open>Data\<close>

datatype ApiError =
    ApiNotFound string
  | ApiInternalServerError string
  | ApiBadRequest string
  | ApiUnauthorized string
  | ApiForbidden string

definition api_response :: "ApiError \<Rightarrow> nat \<times> string" where
  "api_response e =
     (case e of
        ApiNotFound m \<Rightarrow> (404, m)
      | ApiInternalServerError m \<Rightarrow> (500, m)
      | ApiBadRequest m \<Rightarrow> (400, m)
      | ApiUnauthorized m \<Rightarrow> (401, m)
      | ApiForbidden m \<Rightarrow> (403, m))"

definition from_did_error :: "(DidError \<Rightarrow> string) \<Rightarrow> DidError \<Rightarrow> ApiError" where
  "from_did_error did_err e = ApiBadRequest (''Invalid DID format: '' @ did_err e)"

definition from_cid_error :: "string \<Rightarrow> ApiError" where
  "from_cid_error e = ApiBadRequest (''Invalid CID format provided: '' @ e)"

record ThreadSummary =
  th_id :: string
  th_title :: string
  th_created_at :: int
  th_author_did :: string
  th_scope :: string

record ThreadMessage =
  msg_id :: string
  msg_author_did :: string
  msg_timestamp :: int
  msg_content :: string

record ThreadDetail =
  thread_summary :: ThreadSummary
  messages :: "ThreadMessage list"

datatype ProposalStatus = StatusDraft | StatusOpen | StatusClosed | StatusAccepted | StatusRejected

record VoteCounts =
  approve :: u32
  reject :: u32
  abstain :: u32

record ProposalSummary =
  pr_id :: string
  pr_title :: string
  pr_scope :: string
  pr_status :: ProposalStatus
  vote_counts :: VoteCounts
  voting_deadline :: int

record ProposalDetail =
  summary :: ProposalSummary
  full_text :: string
  linked_thread_id :: "string option"

datatype VoteType = Approve | Reject | Abstain

record ForumVote =
  vote_proposal_id :: string
  voter_did :: string
  vote_type :: VoteType
  vote_timestamp :: int
  justification :: "string option"

record NewThreadRequest =
  nt_title :: string
  nt_author_did :: string
  nt_scope :: string

record NewProposalRequest =
  np_title :: string
  np_full_text :: string
  np_scope :: string
  np_linked_thread_id :: "string option"
  np_voting_deadline :: "int option"

record NewVoteRequest =
  nv_proposal_id :: string
  nv_voter_did :: string
  nv_vote_type :: VoteType
  nv_justification :: "string option"

record ExecutionReceiptSummary =
  xr_cid :: string
  xr_executor :: string
  xr_resource_usage :: "(string, u64) hmap"
  xr_timestamp :: int
  xr_coop_id :: "string option"
  xr_community_id :: "string option"

record ExecutionReceiptDetail =
  receipt_summary :: ExecutionReceiptSummary
  xr_task_cid :: string
  xr_anchored_cids :: "string list"
  xr_signature :: string

record TokenBalance =
  tb_did :: string
  tb_balance :: u64
  tb_coop_id :: "string option"
  tb_community_id :: "string option"

record TokenTransaction =
  tt_id :: string
  from_did :: string
  to_did :: string
  tt_amount :: u64
  operation :: string
  tt_timestamp :: int
  from_coop_id :: "string option"
  from_community_id :: "string option"
  to_coop_id :: "string option"
  to_community_id :: "string option"

record AgoraStore =
  threads :: "ThreadDetail list"
  proposals :: "ProposalDetail list"
  votes :: "ForumVote list"
  receipts :: "ExecutionReceiptDetail list"
  token_balances :: "TokenBalance list"
  token_transactions :: "TokenTransaction list"
  ledger :: "string Ledger option"

definition AgoraStore_default :: AgoraStore where
  "AgoraStore_default = \<lparr>threads = [], proposals = [], votes = [], receipts = [], token_balances = [],
     token_transactions = [], ledger = None\<rparr>"

text \<open>\<open>InMemoryStore::new\<close> fills the store with example records; \<open>fresh\<close> gives the identifiers it draws, in the order of the
  draws.  The counters of its proposal are five approvals and one rejection, with one recorded vote of each kind.\<close>

definition HOUR :: int where
  "HOUR = 3600000000000"

definition example_receipt ::
    "string \<Rightarrow> string \<Rightarrow> string \<Rightarrow> string \<Rightarrow> u64 \<Rightarrow> u64 \<Rightarrow> int \<Rightarrow> string option \<Rightarrow> string option \<Rightarrow> string \<Rightarrow> ExecutionReceiptDetail" where
  "example_receipt cid_id task_id anchor_id node cpu mem time coop comm sig =
     \<lparr>receipt_summary = \<lparr>xr_cid = ''bafy2bzace'' @ cid_id, xr_executor = node, xr_resource_usage = [(''CPU'', cpu), (''Memory'', mem)],
        xr_timestamp = time, xr_coop_id = coop, xr_community_id = comm\<rparr>,
      xr_task_cid = ''task-'' @ task_id, xr_anchored_cids = [''anchor-'' @ anchor_id], xr_signature = sig\<rparr>"

definition AgoraStore_new :: "(nat \<Rightarrow> string) \<Rightarrow> int \<Rightarrow> AgoraStore" where
  "AgoraStore_new fresh now =
     (let thread_id = ''thread_'' @ fresh 0; proposal_id = ''proposal_'' @ fresh 1;
          coop = Some ''coop-123''; comm = Some ''community-456'' in
      \<lparr>threads = [\<lparr>thread_summary = \<lparr>th_id = thread_id, th_title = ''Example Thread 1: Discussing the Future'', th_created_at = now,
             th_author_did = ''did:example:author1'', th_scope = ''coop.nw''\<rparr>,
           messages = [\<lparr>msg_id = ''msg_'' @ fresh 14, msg_author_did = ''did:example:author1'', msg_timestamp = now,
               msg_content = ''Initial message in thread 1.''\<rparr>,
             \<lparr>msg_id = ''msg_'' @ fresh 15, msg_author_did = ''did:example:author2'', msg_timestamp = now,
               msg_content = ''Replying to thread 1.''\<rparr>]\<rparr>],
       proposals = [\<lparr>summary = \<lparr>pr_id = proposal_id, pr_title = ''Example Proposal: New Tokenomics'', pr_scope = ''coop.nw.governance'',
             pr_status = StatusOpen, vote_counts = \<lparr>approve = 5, reject = 1, abstain = 0\<rparr>, voting_deadline = now + 7 * DAY\<rparr>,
           full_text = ''This is the full text of the example proposal regarding new tokenomics...'',
           linked_thread_id = Some thread_id\<rparr>],
       votes = [\<lparr>vote_proposal_id = proposal_id, voter_did = ''did:example:voter1'', vote_type = Approve, vote_timestamp = now,
             justification = Some ''This seems like a good idea.''\<rparr>,
           \<lparr>vote_proposal_id = proposal_id, voter_did = ''did:example:voter2'', vote_type = Reject, vote_timestamp = now,
             justification = Some ''I have some concerns.''\<rparr>],
       receipts = [example_receipt (fresh 2) (fresh 3) (fresh 4) ''did:icn:node1'' 250 1024 (now - HOUR) None None ''SomeBase64Signature=='',
           example_receipt (fresh 5) (fresh 6) (fresh 7) ''did:icn:node2'' 300 2048 (now - 2 * HOUR) coop None ''AnotherBase64Signature=='',
           example_receipt (fresh 8) (fresh 9) (fresh 10) ''did:icn:node3'' 150 512 (now - 3 * HOUR) coop comm ''ThirdBase64Signature==''],
       token_balances = [\<lparr>tb_did = ''did:icn:user1'', tb_balance = 15000, tb_coop_id = None, tb_community_id = None\<rparr>,
           \<lparr>tb_did = ''did:icn:user1'', tb_balance = 5000, tb_coop_id = coop, tb_community_id = None\<rparr>,
           \<lparr>tb_did = ''did:icn:user1'', tb_balance = 2000, tb_coop_id = coop, tb_community_id = comm\<rparr>,
           \<lparr>tb_did = ''did:icn:user2'', tb_balance = 25000, tb_coop_id = None, tb_community_id = None\<rparr>,
           \<lparr>tb_did = ''did:icn:user2'', tb_balance = 10000, tb_coop_id = coop, tb_community_id = None\<rparr>],
       token_transactions = [\<lparr>tt_id = ''tx-'' @ fresh 11, from_did = ''did:icn:treasury'', to_did = ''did:icn:user1'', tt_amount = 1000,
             operation = ''mint'', tt_timestamp = now - DAY, from_coop_id = None, from_community_id = None, to_coop_id = None,
             to_community_id = None\<rparr>,
           \<lparr>tt_id = ''tx-'' @ fresh 12, from_did = ''did:icn:user1'', to_did = ''did:icn:user2'', tt_amount = 500,
             operation = ''transfer'', tt_timestamp = now - 2 * DAY, from_coop_id = coop, from_community_id = None, to_coop_id = coop,
             to_community_id = None\<rparr>,
           \<lparr>tt_id = ''tx-'' @ fresh 13, from_did = ''did:icn:user2'', to_did = ''did:icn:treasury'', tt_amount = 200,
             operation = ''burn'', tt_timestamp = now - 3 * DAY, from_coop_id = coop, from_community_id = comm, to_coop_id = None,
             to_community_id = None\<rparr>],
       ledger = None\<rparr>)"

section \<open>Threads\<close>

definition take_limit :: "u32 option \<Rightarrow> 'a list \<Rightarrow> 'a list" where
  "take_limit limit xs = take (unat (case limit of Some n \<Rightarrow> n | None \<Rightarrow> - 1)) xs"

definition get_threads_handler :: "string option \<Rightarrow> u32 option \<Rightarrow> AgoraStore \<Rightarrow> ThreadSummary list" where
  "get_threads_handler scope limit st =
     take_limit limit (map thread_summary (filter (\<lambda>td. case scope of None \<Rightarrow> True | Some s \<Rightarrow> th_scope (thread_summary td) = s) (threads st)))"

definition get_thread_detail_handler :: "string \<Rightarrow> AgoraStore \<Rightarrow> ApiError + ThreadDetail" where
  "get_thread_detail_handler i st =
     ok_or (find (\<lambda>td. th_id (thread_summary td) = i) (threads st)) (ApiNotFound (''Thread with id '' @ i @ '' not found''))"

definition create_thread_handler ::
    "(string \<Rightarrow> DidError + did) \<Rightarrow> (DidError \<Rightarrow> string) \<Rightarrow> string \<Rightarrow> int \<Rightarrow> NewThreadRequest \<Rightarrow> AgoraStore \<Rightarrow>
      (ApiError + ThreadSummary) \<times> AgoraStore" where
  "create_thread_handler parse_did did_err fresh now payload st =
     (case map_err (from_did_error did_err) (parse_did (nt_author_did payload)) of
        Inl e \<Rightarrow> (Inl e, st)
      | Inr author \<Rightarrow>
          (let s = \<lparr>th_id = ''thread_'' @ fresh, th_title = nt_title payload, th_created_at = now, th_author_did = author,
                 th_scope = nt_scope payload\<rparr>
           in (Inr s, st\<lparr>threads := threads st @ [\<lparr>thread_summary = s, messages = []\<rparr>]\<rparr>)))"

section \<open>Proposals and votes\<close>

definition get_proposals_handler :: "string option \<Rightarrow> ProposalStatus option \<Rightarrow> string option \<Rightarrow> AgoraStore \<Rightarrow> ProposalSummary list" where
  "get_proposals_handler scope status proposal_type st =
     map summary (filter (\<lambda>pd. case proposal_type of None \<Rightarrow> True | Some _ \<Rightarrow> True)
       (filter (\<lambda>pd. case status of None \<Rightarrow> True | Some s \<Rightarrow> pr_status (summary pd) = s)
         (filter (\<lambda>pd. case scope of None \<Rightarrow> True | Some s \<Rightarrow> pr_scope (summary pd) = s) (proposals st))))"

definition find_proposal :: "AgoraStore \<Rightarrow> string \<Rightarrow> ProposalDetail option" where
  "find_proposal st i = find (\<lambda>p. pr_id (summary p) = i) (proposals st)"

definition get_proposal_detail_handler :: "string \<Rightarrow> AgoraStore \<Rightarrow> ApiError + ProposalDetail" where
  "get_proposal_detail_handler i st = ok_or (find_proposal st i) (ApiNotFound (''Proposal with id '' @ i @ '' not found''))"

definition create_proposal_handler ::
    "string \<Rightarrow> int \<Rightarrow> NewProposalRequest \<Rightarrow> AgoraStore \<Rightarrow> ProposalSummary \<times> AgoraStore" where
  "create_proposal_handler fresh now payload st =
     (let s = \<lparr>pr_id = ''proposal_'' @ fresh, pr_title = np_title payload, pr_scope = np_scope payload, pr_status = StatusOpen,
            vote_counts = \<lparr>approve = 0, reject = 0, abstain = 0\<rparr>,
            voting_deadline = (case np_voting_deadline payload of Some d \<Rightarrow> d | None \<Rightarrow> now + 7 * DAY)\<rparr>
      in (s, st\<lparr>proposals := proposals st @ [\<lparr>summary = s, full_text = np_full_text payload,
            linked_thread_id = np_linked_thread_id payload\<rparr>]\<rparr>))"

definition count_vote :: "VoteType \<Rightarrow> VoteCounts \<Rightarrow> VoteCounts" where
  "count_vote v c =
     (case v of
        Approve \<Rightarrow> c\<lparr>approve := approve c + 1\<rparr>
      | Reject \<Rightarrow> c\<lparr>reject := reject c + 1\<rparr>
      | Abstain \<Rightarrow> c\<lparr>abstain := abstain c + 1\<rparr>)"

text \<open>Changing the first proposal with an identifier, as \<open>iter_mut().find()\<close> does.\<close>

fun update_proposal :: "string \<Rightarrow> (ProposalSummary \<Rightarrow> ProposalSummary) \<Rightarrow> ProposalDetail list \<Rightarrow> ProposalDetail list" where
  "update_proposal i f [] = []"
| "update_proposal i f (p # ps) =
     (if pr_id (summary p) = i then p\<lparr>summary := f (summary p)\<rparr> # ps else p # update_proposal i f ps)"

definition add_vote_for_test :: "ForumVote \<Rightarrow> AgoraStore \<Rightarrow> AgoraStore" where
  "add_vote_for_test v st = st\<lparr>votes := votes st @ [v], proposals :=
     update_proposal (vote_proposal_id v) (\<lambda>s. s\<lparr>vote_counts := count_vote (vote_type v) (vote_counts s)\<rparr>) (proposals st)\<rparr>"

definition cast_vote_handler ::
    "(string \<Rightarrow> DidError + did) \<Rightarrow> (DidError \<Rightarrow> string) \<Rightarrow> int \<Rightarrow> NewVoteRequest \<Rightarrow> AgoraStore \<Rightarrow> (ApiError + ForumVote) \<times> AgoraStore" where
  "cast_vote_handler parse_did did_err now payload st =
     (case map_err (from_did_error did_err) (parse_did (nv_voter_did payload)) of
        Inl e \<Rightarrow> (Inl e, st)
      | Inr voter \<Rightarrow>
          if list_ex (\<lambda>v. vote_proposal_id v = nv_proposal_id payload \<and> voter_did v = voter) (votes st) then
            (Inl (ApiBadRequest (''Voter '' @ voter @ '' has already voted on proposal '' @ nv_proposal_id payload)), st)
          else
            (case find_proposal st (nv_proposal_id payload) of
               None \<Rightarrow> (Inl (ApiNotFound (''Proposal with id '' @ nv_proposal_id payload @ '' not found'')), st)
             | Some p \<Rightarrow>
                 if pr_status (summary p) \<noteq> StatusOpen then (Inl (ApiBadRequest ''Proposal is not open for voting''), st)
                 else if voting_deadline (summary p) < now then
                   (Inl (ApiBadRequest ''Voting deadline has passed for this proposal''),
                    st\<lparr>proposals := update_proposal (nv_proposal_id payload) (\<lambda>s. s\<lparr>pr_status := StatusClosed\<rparr>) (proposals st)\<rparr>)
                 else
                   (let vote = \<lparr>vote_proposal_id = nv_proposal_id payload, voter_did = voter, vote_type = nv_vote_type payload,
                          vote_timestamp = now, justification = nv_justification payload\<rparr>
                    in (Inr vote, st\<lparr>proposals := update_proposal (nv_proposal_id payload)
                          (\<lambda>s. s\<lparr>vote_counts := count_vote (nv_vote_type payload) (vote_counts s)\<rparr>) (proposals st),
                          votes := votes st @ [vote]\<rparr>))))"

definition get_proposal_votes_handler :: "string \<Rightarrow> AgoraStore \<Rightarrow> ApiError + string \<times> ForumVote list" where
  "get_proposal_votes_handler i st =
     (if \<not> list_ex (\<lambda>p. pr_id (summary p) = i) (proposals st) then Inl (ApiNotFound (''Proposal with id '' @ i @ '' not found''))
      else Inr (i, filter (\<lambda>v. vote_proposal_id v = i) (votes st)))"

section \<open>Receipts and token records\<close>

record GetReceiptsQuery =
  gr_date :: "string option"
  gr_executor :: "string option"
  gr_coop_id :: "string option"
  gr_community_id :: "string option"
  gr_limit :: "u32 option"
  gr_offset :: "u32 option"

record GetTokenQuery =
  gt_date :: "string option"
  gt_account :: "string option"
  gt_coop_id :: "string option"
  gt_community_id :: "string option"
  gt_limit :: "u32 option"
  gt_offset :: "u32 option"

definition starts_with :: "string \<Rightarrow> string \<Rightarrow> bool" where
  "starts_with t p \<longleftrightarrow> take (length p) t = p"

definition org_matches :: "string option \<Rightarrow> string option \<Rightarrow> bool" where
  "org_matches wanted actual = (case wanted of None \<Rightarrow> True | Some w \<Rightarrow> actual = Some w)"

definition filter_receipts :: "(int \<Rightarrow> string) \<Rightarrow> GetReceiptsQuery \<Rightarrow> AgoraStore \<Rightarrow> ExecutionReceiptSummary list" where
  "filter_receipts date_text q st =
     map receipt_summary (filter (\<lambda>r.
       (case gr_executor q of None \<Rightarrow> True | Some x \<Rightarrow> xr_executor (receipt_summary r) = x) \<and>
       (case gr_date q of None \<Rightarrow> True | Some d \<Rightarrow> starts_with (date_text (xr_timestamp (receipt_summary r))) d) \<and>
       org_matches (gr_coop_id q) (xr_coop_id (receipt_summary r)) \<and>
       org_matches (gr_community_id q) (xr_community_id (receipt_summary r))) (receipts st))"

definition filter_token_balances :: "GetTokenQuery \<Rightarrow> AgoraStore \<Rightarrow> TokenBalance list" where
  "filter_token_balances q st =
     filter (\<lambda>b. (case gt_account q of None \<Rightarrow> True | Some a \<Rightarrow> tb_did b = a) \<and>
       org_matches (gt_coop_id q) (tb_coop_id b) \<and> org_matches (gt_community_id q) (tb_community_id b)) (token_balances st)"

definition either_org :: "string option \<Rightarrow> string option \<Rightarrow> string option \<Rightarrow> bool" where
  "either_org wanted a b = (case wanted of None \<Rightarrow> True | Some w \<Rightarrow> a = Some w \<or> b = Some w)"

definition filter_token_transactions :: "(int \<Rightarrow> string) \<Rightarrow> GetTokenQuery \<Rightarrow> AgoraStore \<Rightarrow> TokenTransaction list" where
  "filter_token_transactions date_text q st =
     filter (\<lambda>tx. (case gt_account q of None \<Rightarrow> True | Some a \<Rightarrow> from_did tx = a \<or> to_did tx = a) \<and>
       (case gt_date q of None \<Rightarrow> True | Some d \<Rightarrow> starts_with (date_text (tt_timestamp tx)) d) \<and>
       either_org (gt_coop_id q) (from_coop_id tx) (to_coop_id tx) \<and>
       either_org (gt_community_id q) (from_community_id tx) (to_community_id tx)) (token_transactions st)"

record ReceiptStats =
  total_receipts :: u64
  avg_cpu_usage :: u64
  avg_memory_usage :: u64
  avg_storage_usage :: u64
  receipts_by_executor :: "(string, u64) hmap"

definition get_receipt_stats :: "string option \<Rightarrow> string option \<Rightarrow> AgoraStore \<Rightarrow> ReceiptStats" where
  "get_receipt_stats coop comm st =
     (let rs = map receipt_summary (filter (\<lambda>r. org_matches coop (xr_coop_id (receipt_summary r)) \<and>
            org_matches comm (xr_community_id (receipt_summary r))) (receipts st));
          n = word_of_nat (length rs);
          avg = (\<lambda>what. if 0 < n then sum_list (map (\<lambda>r. hget_or 0 (xr_resource_usage r) what) rs) div n else 0)
      in \<lparr>total_receipts = n, avg_cpu_usage = avg ''CPU'', avg_memory_usage = avg ''Memory'', avg_storage_usage = avg ''Storage'',
          receipts_by_executor = foldl (\<lambda>m r. hinsert m (xr_executor r) (hget_or 0 m (xr_executor r) + 1)) [] rs\<rparr>)"

record TokenStats =
  total_minted :: u64
  total_burnt :: u64
  active_accounts :: u64
  daily_volume :: "u64 option"

definition get_token_stats :: "string option \<Rightarrow> string option \<Rightarrow> AgoraStore \<Rightarrow> TokenStats" where
  "get_token_stats coop comm st =
     (let txs = filter (\<lambda>tx. either_org coop (from_coop_id tx) (to_coop_id tx) \<and>
            either_org comm (from_community_id tx) (to_community_id tx)) (token_transactions st)
      in \<lparr>total_minted = sum_list (map tt_amount (filter (\<lambda>tx. operation tx = ''mint'') txs)),
          total_burnt = sum_list (map tt_amount (filter (\<lambda>tx. operation tx = ''burn'') txs)),
          active_accounts = word_of_nat (length (remdups (concat (map (\<lambda>tx. [from_did tx, to_did tx]) txs)))),
          daily_volume = Some (sum_list (map tt_amount txs))\<rparr>)"

definition paginate :: "u32 option \<Rightarrow> u32 option \<Rightarrow> 'a list \<Rightarrow> 'a list" where
  "paginate offset limit xs =
     (case (offset, limit) of
        (Some k, Some n) \<Rightarrow> take (unat n) (drop (unat k) xs)
      | (Some k, None) \<Rightarrow> drop (unat k) xs
      | (None, Some n) \<Rightarrow> take (unat n) xs
      | (None, None) \<Rightarrow> xs)"

definition get_receipts_handler :: "(int \<Rightarrow> string) \<Rightarrow> GetReceiptsQuery \<Rightarrow> AgoraStore \<Rightarrow> ExecutionReceiptSummary list" where
  "get_receipts_handler date_text q st = paginate (gr_offset q) (gr_limit q) (filter_receipts date_text q st)"

definition get_receipt_detail_handler :: "(string \<Rightarrow> string + string) \<Rightarrow> string \<Rightarrow> AgoraStore \<Rightarrow> ApiError + ExecutionReceiptDetail" where
  "get_receipt_detail_handler normalize_cid cid_str st =
     bind_result (map_err from_cid_error (normalize_cid cid_str)) (\<lambda>c.
       ok_or (find (\<lambda>r. xr_cid (receipt_summary r) = c) (receipts st)) (ApiNotFound (''Receipt with CID '' @ c @ '' not found'')))"

definition get_receipt_stats_handler :: "GetReceiptsQuery \<Rightarrow> AgoraStore \<Rightarrow> ReceiptStats \<times> string option \<times> string option" where
  "get_receipt_stats_handler q st = (get_receipt_stats (gr_coop_id q) (gr_community_id q) st, gr_coop_id q, gr_community_id q)"

definition check_account :: "(string \<Rightarrow> DidError + did) \<Rightarrow> (DidError \<Rightarrow> string) \<Rightarrow> string option \<Rightarrow> ApiError + unit" where
  "check_account parse_did did_err account =
     (case account of
        None \<Rightarrow> Inr ()
      | Some a \<Rightarrow> bind_result (map_err (from_did_error did_err) (parse_did a)) (\<lambda>_. Inr ()))"

definition get_token_balances_handler ::
    "(string \<Rightarrow> DidError + did) \<Rightarrow> (DidError \<Rightarrow> string) \<Rightarrow> GetTokenQuery \<Rightarrow> AgoraStore \<Rightarrow> ApiError + TokenBalance list" where
  "get_token_balances_handler parse_did did_err q st =
     bind_result (check_account parse_did did_err (gt_account q)) (\<lambda>_.
       Inr (paginate (gt_offset q) (gt_limit q) (filter_token_balances q st)))"

definition get_token_transactions_handler ::
    "(string \<Rightarrow> DidError + did) \<Rightarrow> (DidError \<Rightarrow> string) \<Rightarrow> (int \<Rightarrow> string) \<Rightarrow> GetTokenQuery \<Rightarrow> AgoraStore \<Rightarrow>
      ApiError + TokenTransaction list" where
  "get_token_transactions_handler parse_did did_err date_text q st =
     bind_result (check_account parse_did did_err (gt_account q)) (\<lambda>_.
       Inr (paginate (gt_offset q) (gt_limit q) (filter_token_transactions date_text q st)))"

definition get_token_stats_handler :: "GetTokenQuery \<Rightarrow> AgoraStore \<Rightarrow> TokenStats \<times> string option \<times> string option" where
  "get_token_stats_handler q st = (get_token_stats (gt_coop_id q) (gt_community_id q) st, gt_coop_id q, gt_community_id q)"

section \<open>Authorised access\<close>

definition get_receipts_authorized ::
    "AuthenticatedRequest \<Rightarrow> (int \<Rightarrow> string) \<Rightarrow> GetReceiptsQuery \<Rightarrow> AgoraStore \<Rightarrow> AuthError + ExecutionReceiptSummary list" where
  "get_receipts_authorized auth date_text q st =
     (if \<not> has_org_scope_access (claims auth) None (gr_coop_id q) (gr_community_id q) then Inl UnauthorizedOrgAccess
      else Inr (filter_receipts date_text q st))"

definition get_token_balances_authorized ::
    "AuthenticatedRequest \<Rightarrow> GetTokenQuery \<Rightarrow> AgoraStore \<Rightarrow> AuthError + TokenBalance list" where
  "get_token_balances_authorized auth q st =
     (if \<not> has_org_scope_access (claims auth) None (gt_coop_id q) (gt_community_id q) then Inl UnauthorizedOrgAccess
      else Inr (filter_token_balances q st))"

definition get_token_transactions_authorized ::
    "AuthenticatedRequest \<Rightarrow> (int \<Rightarrow> string) \<Rightarrow> GetTokenQuery \<Rightarrow> AgoraStore \<Rightarrow> AuthError + TokenTransaction list" where
  "get_token_transactions_authorized auth date_text q st =
     (if \<not> has_org_scope_access (claims auth) None (gt_coop_id q) (gt_community_id q) then Inl UnauthorizedOrgAccess
      else if (case gt_coop_id q of
                 Some c \<Rightarrow> gt_community_id q = None \<and> \<not> has_coop_operator_role (claims auth) c
               | None \<Rightarrow> False) then Inl NotCoopOperator
      else Inr (filter_token_transactions date_text q st))"

definition get_receipt_stats_authorized ::
    "AuthenticatedRequest \<Rightarrow> string option \<Rightarrow> string option \<Rightarrow> string option \<Rightarrow> AgoraStore \<Rightarrow>
      AuthError + ReceiptStats \<times> string option \<times> string option" where
  "get_receipt_stats_authorized auth fed coop comm st =
     (if \<not> has_org_scope_access (claims auth) fed coop comm then Inl UnauthorizedOrgAccess
      else Inr (get_receipt_stats coop comm st, coop, comm))"

definition get_token_stats_authorized ::
    "AuthenticatedRequest \<Rightarrow> string option \<Rightarrow> string option \<Rightarrow> string option \<Rightarrow> AgoraStore \<Rightarrow>
      AuthError + TokenStats \<times> string option \<times> string option" where
  "get_token_stats_authorized auth fed coop comm st =
     (if \<not> has_org_scope_access (claims auth) fed coop comm then Inl UnauthorizedOrgAccess
      else Inr (get_token_stats coop comm st, coop, comm))"

text \<open>The endpoints of \<open>org_handlers.rs\<close> check a role and answer with placeholders.\<close>

definition process_token_transfer :: "uuid \<Rightarrow> AuthenticatedRequest \<Rightarrow> string \<Rightarrow> ApiError + uuid \<times> u64" where
  "process_token_transfer fresh auth coop =
     (if \<not> has_coop_operator_role (claims auth) coop then Inl (ApiForbidden ''Cooperative operator role required'')
      else Inr (fresh, 1000))"

definition process_community_governance_action :: "uuid \<Rightarrow> AuthenticatedRequest \<Rightarrow> string \<Rightarrow> ApiError + uuid \<times> string" where
  "process_community_governance_action fresh auth comm =
     (if \<not> has_community_official_role (claims auth) comm then Inl (ApiForbidden ''Community official role required'')
      else Inr (fresh, ''pending''))"

section \<open>Reachable forums\<close>

text \<open>What the running service does to the store: it starts from the example records, may replace the ledger (at the start, and by
  transfers), and runs the handlers with identifiers that were not used before; the clock and the requests are arbitrary.\<close>

inductive forum :: "(string \<Rightarrow> DidError + did) \<Rightarrow> (DidError \<Rightarrow> string) \<Rightarrow> (nat \<Rightarrow> string) \<Rightarrow> int \<Rightarrow> AgoraStore \<Rightarrow> bool"
  for parse_did did_err fresh0 now0 where
  start: "forum parse_did did_err fresh0 now0 (AgoraStore_new fresh0 now0)"
| ledger_set: "forum parse_did did_err fresh0 now0 st \<Longrightarrow> forum parse_did did_err fresh0 now0 (st\<lparr>ledger := l\<rparr>)"
| thread: "forum parse_did did_err fresh0 now0 st \<Longrightarrow>
    forum parse_did did_err fresh0 now0 (snd (create_thread_handler parse_did did_err fresh now nt st))"
| proposal: "forum parse_did did_err fresh0 now0 st \<Longrightarrow> ''proposal_'' @ fresh \<notin> set (map (\<lambda>p. pr_id (summary p)) (proposals st)) \<Longrightarrow>
    forum parse_did did_err fresh0 now0 (snd (create_proposal_handler fresh now np st))"
| vote: "forum parse_did did_err fresh0 now0 st \<Longrightarrow> forum parse_did did_err fresh0 now0 (snd (cast_vote_handler parse_did did_err now nv st))"

definition votes_of :: "AgoraStore \<Rightarrow> string \<Rightarrow> VoteType \<Rightarrow> nat" where
  "votes_of st i ty = length (filter (\<lambda>v. vote_proposal_id v = i \<and> vote_type v = ty) (votes st))"

definition tally :: "AgoraStore \<Rightarrow> string \<Rightarrow> VoteCounts" where
  "tally st i = \<lparr>approve = word_of_nat (votes_of st i Approve), reject = word_of_nat (votes_of st i Reject),
     abstain = word_of_nat (votes_of st i Abstain)\<rparr>"

text \<open>The example proposal starts with four approvals nobody cast.\<close>

definition seeded :: "string \<Rightarrow> string \<Rightarrow> VoteCounts \<Rightarrow> VoteCounts" where
  "seeded example i c = (if i = example then c\<lparr>approve := approve c + 4\<rparr> else c)"

lemma seeded_count: "seeded example i (count_vote v c) = count_vote v (seeded example i c)"
  by (auto simp: seeded_def count_vote_def split: VoteType.split)

definition proposal_ids :: "ProposalDetail list \<Rightarrow> string list" where
  "proposal_ids ps = map (\<lambda>p. pr_id (summary p)) ps"

definition forum_inv :: "string \<Rightarrow> AgoraStore \<Rightarrow> bool" where
  "forum_inv example st \<longleftrightarrow> distinct (proposal_ids (proposals st)) \<and> example \<in> set (proposal_ids (proposals st)) \<and>
     (\<forall>p\<in>set (proposals st). vote_counts (summary p) = seeded example (pr_id (summary p)) (tally st (pr_id (summary p)))) \<and>
     distinct (map (\<lambda>v. (vote_proposal_id v, voter_did v)) (votes st)) \<and>
     (\<forall>v\<in>set (votes st). vote_proposal_id v \<in> set (proposal_ids (proposals st)))"

lemma update_proposal_map:
  "distinct (proposal_ids ps) \<Longrightarrow>
    update_proposal i f ps = map (\<lambda>p. if pr_id (summary p) = i then p\<lparr>summary := f (summary p)\<rparr> else p) ps"
proof (induction ps)
  case (Cons p ps)
  then have "map (\<lambda>q. if pr_id (summary q) = i then q\<lparr>summary := f (summary q)\<rparr> else q) ps = ps" if "pr_id (summary p) = i"
    using that by (intro map_idI) (auto simp: proposal_ids_def image_iff)
  with Cons show ?case by (auto simp: proposal_ids_def)
qed simp

lemma proposal_ids_update: "(\<And>s. pr_id (f s) = pr_id s) \<Longrightarrow> proposal_ids (update_proposal i f ps) = proposal_ids ps"
  by (induction ps) (simp_all add: proposal_ids_def)

lemma tally_snoc:
  "tally (st\<lparr>proposals := ps, votes := votes st @ [v]\<rparr>) i =
    (if vote_proposal_id v = i then count_vote (vote_type v) (tally st i) else tally st i)"
  by (auto simp: tally_def votes_of_def count_vote_def split: VoteType.split)

lemma tally_cong: "votes st' = votes st \<Longrightarrow> tally st' = tally st"
  by (simp add: tally_def votes_of_def fun_eq_iff)

lemma find_proposal_Some: "find_proposal st i = Some p \<Longrightarrow> p \<in> set (proposals st) \<and> pr_id (summary p) = i"
  by (auto simp: find_proposal_def find_Some_iff)

text \<open>The three outcomes of a vote.\<close>

lemma cast_vote_cases:
  obtains (refused) e where "cast_vote_handler parse_did did_err now nv st = (Inl e, st)"
  | (closed) e where "cast_vote_handler parse_did did_err now nv st = (Inl e,
      st\<lparr>proposals := update_proposal (nv_proposal_id nv) (\<lambda>s. s\<lparr>pr_status := StatusClosed\<rparr>) (proposals st)\<rparr>)"
  | (counted) voter p v where "parse_did (nv_voter_did nv) = Inr voter" "find_proposal st (nv_proposal_id nv) = Some p"
      "pr_status (summary p) = StatusOpen" "now \<le> voting_deadline (summary p)"
      "\<forall>u\<in>set (votes st). \<not> (vote_proposal_id u = nv_proposal_id nv \<and> voter_did u = voter)"
      "v = \<lparr>vote_proposal_id = nv_proposal_id nv, voter_did = voter, vote_type = nv_vote_type nv, vote_timestamp = now,
        justification = nv_justification nv\<rparr>"
      "cast_vote_handler parse_did did_err now nv st = (Inr v, st\<lparr>proposals := update_proposal (nv_proposal_id nv)
        (\<lambda>s. s\<lparr>vote_counts := count_vote (vote_type v) (vote_counts s)\<rparr>) (proposals st), votes := votes st @ [v]\<rparr>)"
proof (cases "parse_did (nv_voter_did nv)")
  case (Inl e)
  then show ?thesis by (intro refused) (simp add: cast_vote_handler_def)
next
  case (Inr voter)
  show ?thesis
  proof (cases "list_ex (\<lambda>v. vote_proposal_id v = nv_proposal_id nv \<and> voter_did v = voter) (votes st)")
    case True
    with Inr show ?thesis by (intro refused) (simp add: cast_vote_handler_def)
  next
    case new: False
    show ?thesis
    proof (cases "find_proposal st (nv_proposal_id nv)")
      case None
      with Inr new show ?thesis by (intro refused) (simp add: cast_vote_handler_def)
    next
      case (Some p)
      consider "pr_status (summary p) \<noteq> StatusOpen" | "pr_status (summary p) = StatusOpen" "voting_deadline (summary p) < now"
        | "pr_status (summary p) = StatusOpen" "now \<le> voting_deadline (summary p)" by linarith
      then show ?thesis
      proof cases
        case 1
        with Inr new Some show ?thesis by (intro refused) (simp add: cast_vote_handler_def)
      next
        case 2
        with Inr new Some show ?thesis by (intro closed) (simp add: cast_vote_handler_def)
      next
        case 3
        with Inr new Some show ?thesis by (intro counted [OF Inr Some]) (auto simp: cast_vote_handler_def list_ex_iff Let_def)
      qed
    qed
  qed
qed

lemma forum_invariant: "forum parse_did did_err fresh0 now0 st \<Longrightarrow> forum_inv (''proposal_'' @ fresh0 1) st"
proof (induction rule: forum.induct)
  case start
  then show ?case by (simp add: forum_inv_def AgoraStore_new_def proposal_ids_def tally_def votes_of_def seeded_def Let_def)
next
  case (ledger_set st l)
  have "tally (st\<lparr>ledger := l\<rparr>) = tally st" by (rule tally_cong) simp
  with ledger_set.IH show ?case by (simp add: forum_inv_def)
next
  case (thread st fresh now nt)
  have "proposals (snd (create_thread_handler parse_did did_err fresh now nt st)) = proposals st"
    "votes (snd (create_thread_handler parse_did did_err fresh now nt st)) = votes st"
    by (auto simp: create_thread_handler_def Let_def split: sum.split)
  with thread.IH tally_cong [OF this(2)] show ?case by (simp add: forum_inv_def)
next
  case (proposal st fresh now np)
  have "tally (snd (create_proposal_handler fresh now np st)) = tally st"
    by (rule tally_cong) (simp add: create_proposal_handler_def Let_def)
  moreover have "seeded (''proposal_'' @ fresh0 1) (''proposal_'' @ fresh) (tally st (''proposal_'' @ fresh)) = \<lparr>approve = 0, reject = 0, abstain = 0\<rparr>"
  proof -
    have "votes_of st (''proposal_'' @ fresh) ty = 0" for ty
      unfolding votes_of_def length_0_conv filter_empty_conv using proposal.IH proposal.hyps(2) by (force simp: forum_inv_def proposal_ids_def)
    moreover have "''proposal_'' @ fresh \<noteq> ''proposal_'' @ fresh0 1"
      using proposal.IH proposal.hyps(2) unfolding forum_inv_def proposal_ids_def by metis
    ultimately show ?thesis by (simp add: tally_def seeded_def)
  qed
  ultimately show ?case
    using proposal.IH proposal.hyps(2) by (auto simp: forum_inv_def create_proposal_handler_def Let_def proposal_ids_def)
next
  case (vote st now nv)
  let ?ex = "''proposal_'' @ fresh0 1"
  show ?case
  proof (cases rule: cast_vote_cases [of parse_did did_err now nv st])
    case refused
    with vote.IH show ?thesis by simp
  next
    case (closed e)
    let ?ps = "update_proposal (nv_proposal_id nv) (\<lambda>s. s\<lparr>pr_status := StatusClosed\<rparr>) (proposals st)"
    have ids: "proposal_ids ?ps = proposal_ids (proposals st)" by (rule proposal_ids_update) simp
    have "\<forall>p\<in>set ?ps. vote_counts (summary p) = seeded ?ex (pr_id (summary p)) (tally st (pr_id (summary p)))"
      using vote.IH by (auto simp: forum_inv_def update_proposal_map)
    moreover have "tally (st\<lparr>proposals := ?ps\<rparr>) = tally st" by (rule tally_cong) simp
    ultimately show ?thesis using closed vote.IH by (simp add: forum_inv_def ids)
  next
    case (counted voter p v)
    let ?ps = "update_proposal (nv_proposal_id nv) (\<lambda>s. s\<lparr>vote_counts := count_vote (vote_type v) (vote_counts s)\<rparr>) (proposals st)"
    have ids: "proposal_ids ?ps = proposal_ids (proposals st)" by (rule proposal_ids_update) simp
    have "\<forall>p\<in>set ?ps. vote_counts (summary p) =
        seeded ?ex (pr_id (summary p)) (tally (st\<lparr>proposals := ?ps, votes := votes st @ [v]\<rparr>) (pr_id (summary p)))"
      using vote.IH counted(6) unfolding tally_snoc by (auto simp: forum_inv_def update_proposal_map seeded_count)
    moreover have "nv_proposal_id nv \<in> set (proposal_ids (proposals st))"
      using find_proposal_Some [OF counted(2)] by (auto simp: proposal_ids_def intro: rev_image_eqI)
    moreover have "(vote_proposal_id v, voter_did v) \<notin> (\<lambda>v. (vote_proposal_id v, voter_did v)) ` set (votes st)"
      using counted(5,6) by auto
    moreover have "vote_proposal_id v = nv_proposal_id nv" using counted(6) by simp
    ultimately show ?thesis
      using counted(7) vote.IH by (simp add: forum_inv_def ids)
  qed
qed

section \<open>Properties\<close>

text \<open>C15: the tally of a proposal is exact.  In every state the running service can reach from its example records, whatever the
  requests and the clock, the counters of a proposal are the numbers of its recorded votes of each kind modulo \<open>2 ^ 32\<close>,
  except that the example proposal has four more approvals than votes, and no voter has two votes on it.\<close>

theorem votes_tallied:
  assumes "forum parse_did did_err fresh0 now0 st"
    and "get_proposal_detail_handler i st = Inr p" "get_proposal_votes_handler i st = Inr (j, vs)"
  shows "vote_counts (summary p) =
      \<lparr>approve = word_of_nat (length (filter (\<lambda>v. vote_type v = Approve) vs) + (if i = ''proposal_'' @ fresh0 1 then 4 else 0)),
       reject = word_of_nat (length (filter (\<lambda>v. vote_type v = Reject) vs)),
       abstain = word_of_nat (length (filter (\<lambda>v. vote_type v = Abstain) vs))\<rparr> \<and> distinct (map voter_did vs)"
proof -
  have inv: "forum_inv (''proposal_'' @ fresh0 1) st" by (rule forum_invariant [OF assms(1)])
  have vs: "vs = filter (\<lambda>v. vote_proposal_id v = i) (votes st)"
    using assms(3) by (auto simp: get_proposal_votes_handler_def split: if_splits)
  have "p \<in> set (proposals st) \<and> pr_id (summary p) = i"
    using assms(2) find_proposal_Some by (auto simp: get_proposal_detail_handler_def ok_or_Inr_iff)
  with inv have "vote_counts (summary p) = seeded (''proposal_'' @ fresh0 1) i (tally st i)" by (auto simp: forum_inv_def)
  moreover have "filter (\<lambda>v. vote_type v = ty) vs = filter (\<lambda>v. vote_proposal_id v = i \<and> vote_type v = ty) (votes st)" for ty
    by (simp add: vs conj_commute)
  moreover have "distinct (map voter_did vs)"
    using inv by (auto simp: forum_inv_def vs distinct_map inj_on_def)
  ultimately show ?thesis by (simp add: tally_def votes_of_def seeded_def)
qed

text \<open>when a vote counts.  A vote is accepted exactly when the voter's identity parses, no recorded vote of that
  identity on that proposal exists, the proposal exists and is open, and its deadline has not passed; it is then
  recorded.  A refused vote leaves the votes as they are, and every proposal keeps its counters.\<close>

lemma vote_accepted_iff:
  "is_ok (fst (cast_vote_handler parse_did did_err now nv st)) =
    (\<exists>voter p. parse_did (nv_voter_did nv) = Inr voter \<and>
      (voter, nv_proposal_id nv) \<notin> (\<lambda>v. (voter_did v, vote_proposal_id v)) ` set (votes st) \<and>
      find_proposal st (nv_proposal_id nv) = Some p \<and> pr_status (summary p) = StatusOpen \<and> now \<le> voting_deadline (summary p)) \<and>
   (case cast_vote_handler parse_did did_err now nv st of
      (Inr v, st') \<Rightarrow> votes st' = votes st @ [v] \<and> vote_timestamp v = now \<and> vote_proposal_id v = nv_proposal_id nv \<and>
        parse_did (nv_voter_did nv) = Inr (voter_did v) \<and> vote_type v = nv_vote_type nv
    | (Inl _, st') \<Rightarrow> votes st' = votes st \<and>
        map (vote_counts \<circ> summary) (proposals st') = map (vote_counts \<circ> summary) (proposals st))"
proof -
  have "map (vote_counts \<circ> summary) (update_proposal i (\<lambda>s. s\<lparr>pr_status := StatusClosed\<rparr>) ps) = map (vote_counts \<circ> summary) ps"
    for i ps by (induction ps) auto
  then have "case cast_vote_handler parse_did did_err now nv st of
      (Inr v, st') \<Rightarrow> votes st' = votes st @ [v] \<and> vote_timestamp v = now \<and> vote_proposal_id v = nv_proposal_id nv \<and>
        parse_did (nv_voter_did nv) = Inr (voter_did v) \<and> vote_type v = nv_vote_type nv
    | (Inl _, st') \<Rightarrow> votes st' = votes st \<and>
        map (vote_counts \<circ> summary) (proposals st') = map (vote_counts \<circ> summary) (proposals st)"
    by (cases rule: cast_vote_cases [of parse_did did_err now nv st]) simp_all
  moreover have "is_ok (fst (cast_vote_handler parse_did did_err now nv st)) =
    (case parse_did (nv_voter_did nv) of
       Inl _ \<Rightarrow> False
     | Inr voter \<Rightarrow> (voter, nv_proposal_id nv) \<notin> (\<lambda>v. (voter_did v, vote_proposal_id v)) ` set (votes st) \<and>
         (case find_proposal st (nv_proposal_id nv) of
            None \<Rightarrow> False
          | Some p \<Rightarrow> pr_status (summary p) = StatusOpen \<and> now \<le> voting_deadline (summary p)))"
  proof -
    have "(voter, i) \<in> (\<lambda>v. (voter_did v, vote_proposal_id v)) ` set vs \<longleftrightarrow> list_ex (\<lambda>v. vote_proposal_id v = i \<and> voter_did v = voter) vs"
      for voter i vs by (auto simp: list_ex_iff)
    then show ?thesis
      by (simp add: cast_vote_handler_def Let_def split: sum.split option.split) (auto simp: not_less)
  qed
  ultimately show ?thesis by (simp split: sum.split option.split)
qed

text \<open>A vote after the deadline closes the proposal, and no vote on a closed proposal is accepted.\<close>

lemma find_update_proposal:
  assumes "\<And>s. pr_id (f s) = pr_id s"
  shows "find (\<lambda>p. pr_id (summary p) = i) (update_proposal i f ps) =
    map_option (\<lambda>p. p\<lparr>summary := f (summary p)\<rparr>) (find (\<lambda>p. pr_id (summary p) = i) ps)"
  by (induction ps) (auto simp: assms)

lemma late_vote_closes:
  assumes "find_proposal st (nv_proposal_id nv) = Some p" "pr_status (summary p) = StatusOpen" "voting_deadline (summary p) < now"
    and "parse_did (nv_voter_did nv) = Inr voter"
    and "\<forall>v\<in>set (votes st). \<not> (vote_proposal_id v = nv_proposal_id nv \<and> voter_did v = voter)"
    and "nv_proposal_id nv' = nv_proposal_id nv"
  shows "\<not> is_ok (fst (cast_vote_handler parse_did did_err later nv' (snd (cast_vote_handler parse_did did_err now nv st))))"
proof -
  let ?st = "snd (cast_vote_handler parse_did did_err now nv st)"
  have "find_proposal ?st (nv_proposal_id nv') = Some (p\<lparr>summary := (summary p)\<lparr>pr_status := StatusClosed\<rparr>\<rparr>)"
    using assms by (auto simp: cast_vote_handler_def find_proposal_def find_update_proposal list_ex_iff)
  then show ?thesis by (auto simp: cast_vote_handler_def [of _ _ later] split: sum.split)
qed

text \<open>what authorised readers see.  A request for the records of a cooperative or community succeeds only for a
  caller whose claims list it, and returns only records that name it; the transactions of a cooperative also need its
  operator role.  But a request that names no organisation succeeds for every authenticated caller and returns the
  balances, receipts and transactions of all organisations.\<close>

lemma authorized_reads:
  "(case get_token_balances_authorized auth q st of
      Inr bs \<Rightarrow> (\<forall>b\<in>set bs. org_matches (gt_coop_id q) (tb_coop_id b) \<and> org_matches (gt_community_id q) (tb_community_id b)) \<and>
        set (map Some (coop_ids (claims auth))) \<union> {None} \<supseteq> {gt_coop_id q} \<and>
        set (map Some (community_ids (claims auth))) \<union> {None} \<supseteq> {gt_community_id q}
    | Inl e \<Rightarrow> e = UnauthorizedOrgAccess) \<and>
   (case get_token_transactions_authorized auth date_text q st of
      Inr txs \<Rightarrow> set txs \<subseteq> {tx \<in> set (token_transactions st). either_org (gt_coop_id q) (from_coop_id tx) (to_coop_id tx)} \<and>
        (gt_coop_id q = None \<or> gt_community_id q \<noteq> None \<or> has_coop_operator_role (claims auth) (the (gt_coop_id q)))
    | Inl e \<Rightarrow> e = UnauthorizedOrgAccess \<or> e = NotCoopOperator) \<and>
   get_token_balances_authorized auth \<lparr>gt_date = None, gt_account = None, gt_coop_id = None, gt_community_id = None, gt_limit = None,
     gt_offset = None\<rparr> st = Inr (token_balances st) \<and>
   get_token_transactions_authorized auth date_text \<lparr>gt_date = None, gt_account = None, gt_coop_id = None, gt_community_id = None,
     gt_limit = None, gt_offset = None\<rparr> st = Inr (token_transactions st) \<and>
   get_receipts_authorized auth date_text \<lparr>gr_date = None, gr_executor = None, gr_coop_id = None, gr_community_id = None,
     gr_limit = None, gr_offset = None\<rparr> st = Inr (map receipt_summary (receipts st))"
  by (auto simp: get_token_balances_authorized_def get_token_transactions_authorized_def get_receipts_authorized_def
      has_org_scope_access_def has_coop_access_def has_community_access_def filter_token_balances_def filter_token_transactions_def
      filter_receipts_def org_matches_def either_org_def split: option.splits)

section \<open>Concrete runs\<close>

definition demo_forum :: AgoraStore where
  "demo_forum = snd (cast_vote_handler Inr (\<lambda>_. []) 5 \<lparr>nv_proposal_id = ''proposal_x'', nv_voter_did = ''did:a'', nv_vote_type = Approve,
     nv_justification = None\<rparr> (AgoraStore_new (\<lambda>_. ''x'') 0))"

theorem votes_tallied_witness:
  "\<exists>p vs. get_proposal_detail_handler ''proposal_x'' demo_forum = Inr p \<and>
    get_proposal_votes_handler ''proposal_x'' demo_forum = Inr (''proposal_x'', vs) \<and> approve (vote_counts (summary p)) = 6 \<and>
    distinct (map voter_did vs) \<and> map vote_type vs = [Approve, Reject, Approve]"
proof -
  have f: "forum Inr (\<lambda>_. []) (\<lambda>_. ''x'') 0 demo_forum"
    unfolding demo_forum_def by (intro forum.intros)
  have "\<exists>p vs. get_proposal_detail_handler ''proposal_x'' demo_forum = Inr p \<and>
      get_proposal_votes_handler ''proposal_x'' demo_forum = Inr (''proposal_x'', vs) \<and> map vote_type vs = [Approve, Reject, Approve]"
    by (simp add: demo_forum_def cast_vote_handler_def AgoraStore_new_def find_proposal_def DAY_def
        get_proposal_detail_handler_def get_proposal_votes_handler_def Let_def)
  then obtain p vs where p: "get_proposal_detail_handler ''proposal_x'' demo_forum = Inr p"
    and vs: "get_proposal_votes_handler ''proposal_x'' demo_forum = Inr (''proposal_x'', vs)" "map vote_type vs = [Approve, Reject, Approve]"
    by auto
  have "length (filter (\<lambda>v. vote_type v = Approve) vs) = length (filter (\<lambda>ty. ty = Approve) (map vote_type vs))"
    by (simp add: filter_map o_def)
  with votes_tallied [OF f p vs(1)] p vs show ?thesis by simp
qed

lemma authorized_reads_witness:
  "get_token_balances_authorized \<lparr>claims = \<lparr>sub = ''did:x'', federation_ids = [], coop_ids = [], community_ids = [], roles = []\<rparr>,
     token_id = None\<rparr> \<lparr>gt_date = None, gt_account = None, gt_coop_id = None, gt_community_id = None, gt_limit = None, gt_offset = None\<rparr>
     (AgoraStore_default\<lparr>token_balances := [\<lparr>tb_did = ''did:y'', tb_balance = 7, tb_coop_id = Some ''c'', tb_community_id = None\<rparr>]\<rparr>) =
   Inr [\<lparr>tb_did = ''did:y'', tb_balance = 7, tb_coop_id = Some ''c'', tb_community_id = None\<rparr>]"
  using authorized_reads [where auth = "\<lparr>claims = \<lparr>sub = ''did:x'', federation_ids = [], coop_ids = [], community_ids = [], roles = []\<rparr>, token_id = None\<rparr>"
      and q = "\<lparr>gt_date = None, gt_account = None, gt_coop_id = None, gt_community_id = None, gt_limit = None, gt_offset = None\<rparr>"
      and st = "AgoraStore_default\<lparr>token_balances := [\<lparr>tb_did = ''did:y'', tb_balance = 7, tb_coop_id = Some ''c'', tb_community_id = None\<rparr>]\<rparr>"]
  by simp

end
