(* ===== verification/Agora_Transfers.thy ===== *)
theory Agora_Transfers
  imports Agora_Forum
begin

text \<open>
  The transfer endpoints of AgoraNet: \<open>process_entity_transfer\<close>, \<open>process_batch_transfers\<close> and \<open>query_transfers\<close> of
  \<open>crates/services/icn-agoranet/src/handlers.rs\<close> with the fees, the entity registry and the notification channels, over
  the ledger of the same file (\<open>Agora_Ledger\<close> with textual keys).

  A handler returns its result, the new store and the events it sends to the websocket channels: the channel, the
  transfer and the two balances.
\<close>

section \<open>The ledger of the handlers\<close>

definition h_get_balance :: "string Ledger \<Rightarrow> EntityRef \<Rightarrow> u64" where
  "h_get_balance = get_balance text_key"

definition h_set_balance :: "EntityRef \<Rightarrow> u64 \<Rightarrow> string Ledger \<Rightarrow> string Ledger" where
  "h_set_balance = set_balance text_key"


definition h_process_batch_transfer :: "(TransferError \<Rightarrow> string) \<Rightarrow> Transfer list \<Rightarrow> string Ledger \<Rightarrow> BatchTransferResponse \<times> string Ledger" where
  "h_process_batch_transfer err_text = process_batch_transfer err_text text_key"

definition h_query_transfers :: "TransferQuery \<Rightarrow> string Ledger \<Rightarrow> Transfer list" where
  "h_query_transfers = query_transfers"

definition h_with_example_data :: "string Ledger" where
  "h_with_example_data = with_example_data text_key"

section \<open>Fees, membership and channels\<close>

definition DEFAULT_TRANSFER_FEE_PPM :: nat where "DEFAULT_TRANSFER_FEE_PPM = 2000"
definition USER_TO_USER_FEE_PPM :: nat where "USER_TO_USER_FEE_PPM = 1000"
definition COOP_OUTBOUND_FEE_PPM :: nat where "COOP_OUTBOUND_FEE_PPM = 3000"
definition COMMUNITY_RECEIVE_FEE_PPM :: nat where "COMMUNITY_RECEIVE_FEE_PPM = 1500"
definition FEDERATION_OUTBOUND_FEE_PPM :: nat where "FEDERATION_OUTBOUND_FEE_PPM = 500"

definition rate_ppm :: "EntityRef \<Rightarrow> EntityRef \<Rightarrow> nat" where
  "rate_ppm from_ref to_ref =
     (if entity_type from_ref = User \<and> entity_type to_ref = User then USER_TO_USER_FEE_PPM
      else if entity_type from_ref = CooperativeEntity then COOP_OUTBOUND_FEE_PPM
      else if entity_type from_ref = FederationEntity then FEDERATION_OUTBOUND_FEE_PPM
      else if entity_type to_ref = CommunityEntity then COMMUNITY_RECEIVE_FEE_PPM
      else DEFAULT_TRANSFER_FEE_PPM)"

text \<open>The product is taken in 128 bits.\<close>

definition calculate_fee :: "u64 \<Rightarrow> EntityRef \<Rightarrow> EntityRef \<Rightarrow> u64" where
  "calculate_fee amt from_ref to_ref = word_of_nat (unat amt * rate_ppm from_ref to_ref div 1000000)"

definition verify_entity_in_federation :: "EntityRef \<Rightarrow> string \<Rightarrow> (string, string) hmap \<Rightarrow> bool" where
  "verify_entity_in_federation e f registry \<longleftrightarrow> entity_type e = User \<or> hget registry (entity_id e) = Some f"

definition create_transfer :: "uuid \<Rightarrow> int \<Rightarrow> TransferRequest \<Rightarrow> string \<Rightarrow> string \<Rightarrow> u64 \<Rightarrow> Transfer" where
  "create_transfer new_uuid now rq f initiator fee =
     \<lparr>tx_id = new_uuid, tr_federation_id = f, tr_from = rq_from rq, tr_to = rq_to rq, tr_amount = rq_amount rq, tr_fee = fee,
      tr_initiator = initiator, tr_timestamp = now, tr_memo = rq_memo rq, tr_metadata = rq_metadata rq\<rparr>"

text \<open>The source names the channels of four entity types.\<close>

definition get_entity_channel :: "EntityRef \<Rightarrow> string" where
  "get_entity_channel e =
     (case entity_type e of
        FederationEntity \<Rightarrow> ''federation:'' @ entity_id e
      | CooperativeEntity \<Rightarrow> ''coop:'' @ entity_id e
      | CommunityEntity \<Rightarrow> ''community:'' @ entity_id e
      | User \<Rightarrow> ''user:'' @ entity_id e)"

definition get_transfer_notification_channels :: "Transfer \<Rightarrow> string list" where
  "get_transfer_notification_channels t =
     (let channels = [''federation:'' @ tr_federation_id t, get_entity_channel (tr_from t)];
          to_channel = get_entity_channel (tr_to t)
      in if to_channel \<in> set channels then channels else channels @ [to_channel])"

definition get_mock_entity_registry :: "(string, string) hmap" where
  "get_mock_entity_registry =
     [(''federation1'', ''federation1''), (''federation2'', ''federation2''), (''coop-econA'', ''federation1''),
      (''coop-econB'', ''federation1''), (''coop-econC'', ''federation2''), (''comm-govX'', ''federation1''),
      (''comm-govY'', ''federation1''), (''comm-govZ'', ''federation2'')]"

definition get_mock_entity_balance :: "string \<Rightarrow> u64" where
  "get_mock_entity_balance i =
     (if i = ''federation1'' then 1000000 else if i = ''federation2'' then 500000
      else if i = ''coop-econA'' then 250000 else if i = ''coop-econB'' then 150000 else if i = ''coop-econC'' then 100000
      else if i = ''comm-govX'' then 50000 else if i = ''comm-govY'' then 25000 else if i = ''comm-govZ'' then 10000 else 5000)"

section \<open>Handlers\<close>


type_synonym transfer_event = "string \<times> Transfer \<times> u64 \<times> u64"





text \<open>A batch leaves out, without a report, the requests that fail a check; \<open>fresh\<close> and \<open>now\<close> give the identifier and the
  time of each transfer.\<close>

fun batch_transfers ::
    "AuthenticatedRequest \<Rightarrow> string \<Rightarrow> (nat \<Rightarrow> uuid) \<Rightarrow> (nat \<Rightarrow> int) \<Rightarrow> nat \<Rightarrow> TransferRequest list \<Rightarrow> Transfer list" where
  "batch_transfers auth f fresh now i [] = []"
| "batch_transfers auth f fresh now i (rq # rqs) =
     (if \<not> is_ok (check_transfer_from_permission auth (rq_from rq)) then batch_transfers auth f fresh now (Suc i) rqs
      else if rq_amount rq = 0 then batch_transfers auth f fresh now (Suc i) rqs
      else if \<not> verify_entity_in_federation (rq_from rq) f get_mock_entity_registry \<or>
              \<not> verify_entity_in_federation (rq_to rq) f get_mock_entity_registry then batch_transfers auth f fresh now (Suc i) rqs
      else create_transfer (fresh i) (now i) rq f (sub (claims auth)) (calculate_fee (rq_amount rq) (rq_from rq) (rq_to rq))
        # batch_transfers auth f fresh now (Suc i) rqs)"

definition batch_events :: "string Ledger \<Rightarrow> uuid list \<Rightarrow> transfer_event list" where
  "batch_events l ids = concat (map (\<lambda>i. case find_transfer l i of
       None \<Rightarrow> []
     | Some t \<Rightarrow> map (\<lambda>c. (c, t, h_get_balance l (tr_from t), h_get_balance l (tr_to t))) (get_transfer_notification_channels t)) ids)"

definition process_batch_transfers ::
    "(uuid \<Rightarrow> string) \<Rightarrow> (nat \<Rightarrow> uuid) \<Rightarrow> (nat \<Rightarrow> int) \<Rightarrow> AuthenticatedRequest \<Rightarrow> string \<Rightarrow> TransferRequest list \<Rightarrow> AgoraStore \<Rightarrow>
      (ApiError + BatchTransferResponse) \<times> AgoraStore \<times> transfer_event list" where
  "process_batch_transfers uuid_text fresh now auth f rqs st =
     (if \<not> has_federation_access (claims auth) f then (Inl (ApiUnauthorized ''No access to this federation''), st, [])
      else
        (case ledger st of
           None \<Rightarrow> (Inl (ApiInternalServerError ''Ledger not initialized''), st, [])
         | Some l \<Rightarrow>
             (case h_process_batch_transfer (transfer_error_text uuid_text) (batch_transfers auth f fresh now 0 rqs) l of
                (r, l') \<Rightarrow> (Inr r, st\<lparr>ledger := Some l'\<rparr>, batch_events l' (successful_ids r)))))"

definition query_transfers_handler :: "AuthenticatedRequest \<Rightarrow> string \<Rightarrow> TransferQuery \<Rightarrow> AgoraStore \<Rightarrow> ApiError + Transfer list" where
  "query_transfers_handler auth f q st =
     (if \<not> has_federation_access (claims auth) f then Inl (ApiUnauthorized ''No access to this federation'')
      else
        (case ledger st of
           None \<Rightarrow> Inl (ApiInternalServerError ''Ledger not initialized'')
         | Some l \<Rightarrow> Inr (h_query_transfers (q\<lparr>q_federation_id := Some f\<rparr>) l)))"

section \<open>Properties\<close>


lemma rate_bounds: "500 \<le> rate_ppm a b \<and> rate_ppm a b \<le> 3000"
  by (simp add: rate_ppm_def USER_TO_USER_FEE_PPM_def COOP_OUTBOUND_FEE_PPM_def FEDERATION_OUTBOUND_FEE_PPM_def
      COMMUNITY_RECEIVE_FEE_PPM_def DEFAULT_TRANSFER_FEE_PPM_def)

lemma unat_of_small: "k < 2 ^ 64 \<Longrightarrow> unat (word_of_nat k :: u64) = k"
  by (simp add: unat_of_nat)

lemma fee_exact: "unat (calculate_fee amt a b) = unat amt * rate_ppm a b div 1000000"
proof -
  have "unat amt * rate_ppm a b div 1000000 \<le> unat amt * 3000 div 1000000"
    using rate_bounds [of a b] by (intro div_le_mono mult_le_mono2) simp
  also have "\<dots> \<le> unat amt" by linarith
  also have "\<dots> < 2 ^ 64" using unat_bound [of amt] by simp
  finally show ?thesis unfolding calculate_fee_def by (rule unat_of_small)
qed

lemma div_sum_le: "(x :: nat) div n + y div n \<le> (x + y) div n"
  by (metis div_add1_eq le_add1)

text \<open>the fee of a transfer.  It is the exact share of the amount, rounded down, at the rate of the pair of entity
  types, for every amount: the conversion never loses bits.  It lies between 0.05 and 0.3 per cent of the amount (rounded
  down), and dividing a transfer in two never costs more than sending it at once.\<close>

lemma fee_bounds:
  "unat (calculate_fee amt a b) = unat amt * rate_ppm a b div 1000000 \<and>
   unat amt * 500 div 1000000 \<le> unat (calculate_fee amt a b) \<and> unat (calculate_fee amt a b) \<le> unat amt * 3 div 1000 \<and>
   unat (calculate_fee (min amt x) a b) + unat (calculate_fee (amt - min amt x) a b) \<le> unat (calculate_fee amt a b)"
proof (intro conjI)
  show "unat (calculate_fee amt a b) = unat amt * rate_ppm a b div 1000000" by (rule fee_exact)
  show "unat amt * 500 div 1000000 \<le> unat (calculate_fee amt a b)"
    unfolding fee_exact using rate_bounds [of a b] by (intro div_le_mono mult_le_mono2) simp
  have "unat amt * rate_ppm a b div 1000000 \<le> unat amt * 3000 div 1000000"
    using rate_bounds [of a b] by (intro div_le_mono mult_le_mono2) simp
  also have "\<dots> = unat amt * 3 div 1000" using div_mult_mult1 [of 1000 "unat amt * 3" 1000] by (simp add: mult.commute mult.left_commute)
  finally show "unat (calculate_fee amt a b) \<le> unat amt * 3 div 1000" by (simp add: fee_exact)
  have "unat (min amt x) + unat (amt - min amt x) = unat amt"
    by (simp add: unat_sub_exact word_le_nat_alt [symmetric])
  then have "unat amt * rate_ppm a b = unat (min amt x) * rate_ppm a b + unat (amt - min amt x) * rate_ppm a b"
    by (metis add_mult_distrib)
  then show "unat (calculate_fee (min amt x) a b) + unat (calculate_fee (amt - min amt x) a b) \<le> unat (calculate_fee amt a b)"
    unfolding fee_exact using div_sum_le by metis
qed






end
