(* ===== verification/Agora_Hub.thy ===== *)
theory Agora_Hub
  imports Agora_Transfers
begin

text \<open>
  The websocket hub of AgoraNet, \<open>services/icn-agoranet/src/websocket.rs\<close>: channels named after the organisation scopes,
  events broadcast to a scope and the scopes above it, and the handlers that let a client subscribe.

  A broadcast channel is the list of the events sent on it; a subscription is the channel's name and the number of
  events sent before, so that what a client is sent are the later ones.  The limit of a channel's buffer
  (\<open>MAX_CHANNEL_CAPACITY\<close>), after which a slow client is cut off, is the channel library's.
\<close>

section \<open>Events and channels\<close>

datatype WebSocketEvent =
    ReceiptCreated ExecutionReceiptSummary
  | TokenTransferred TokenTransaction
  | TokenMinted TokenTransaction
  | TokenBurned TokenTransaction
  | Custom Value

definition build_channel_name :: "string option \<Rightarrow> string option \<Rightarrow> string option \<Rightarrow> string" where
  "build_channel_name federation_id coop_id community_id =
     (case (federation_id, coop_id, community_id) of
        (Some fed, Some coop, Some comm) \<Rightarrow> ''federation:'' @ fed @ '':coop:'' @ coop @ '':community:'' @ comm
      | (Some fed, Some coop, None) \<Rightarrow> ''federation:'' @ fed @ '':coop:'' @ coop
      | (Some fed, None, None) \<Rightarrow> ''federation:'' @ fed
      | _ \<Rightarrow> ''global'')"

record WebSocketParams =
  ws_federation_id :: "string option"
  ws_coop_id :: "string option"
  ws_community_id :: "string option"
  ws_token :: "string option"

type_synonym WebSocketState = "(string, WebSocketEvent list) hmap"

definition WebSocketState_new :: WebSocketState where
  "WebSocketState_new = []"

text \<open>Getting a channel creates it when there is none.\<close>

definition get_or_create_channel :: "string \<Rightarrow> WebSocketState \<Rightarrow> WebSocketEvent list \<times> WebSocketState" where
  "get_or_create_channel channel_name hub =
     (case hget hub channel_name of Some evs \<Rightarrow> (evs, hub) | None \<Rightarrow> ([], hinsert hub channel_name []))"

definition broadcast_to_channel :: "string \<Rightarrow> WebSocketEvent \<Rightarrow> WebSocketState \<Rightarrow> WebSocketState" where
  "broadcast_to_channel channel_name ev hub =
     (case get_or_create_channel channel_name hub of (evs, hub') \<Rightarrow> hinsert hub' channel_name (evs @ [ev]))"

definition broadcast_event :: "string option \<Rightarrow> string option \<Rightarrow> string option \<Rightarrow> WebSocketEvent \<Rightarrow> WebSocketState \<Rightarrow> WebSocketState" where
  "broadcast_event federation_id coop_id community_id ev hub =
     (let h1 = broadcast_to_channel (build_channel_name federation_id coop_id community_id) ev hub;
          h2 = (if community_id \<noteq> None \<and> coop_id \<noteq> None
                then broadcast_to_channel (build_channel_name federation_id coop_id None) ev h1 else h1);
          h3 = (if coop_id \<noteq> None \<and> federation_id \<noteq> None
                then broadcast_to_channel (build_channel_name federation_id None None) ev h2 else h2)
      in broadcast_to_channel ''global'' ev h3)"

text \<open>A JSON message; \<open>serialises\<close> says whether \<open>serde_json::to_string\<close> succeeds.\<close>

definition ws_broadcast :: "(Value \<Rightarrow> bool) \<Rightarrow> string \<Rightarrow> Value \<Rightarrow> WebSocketState \<Rightarrow> WebSocketState" where
  "ws_broadcast serialises channel message hub =
     (if serialises message then broadcast_to_channel channel (Custom message) hub else hub)"

definition send_event_to_channel :: "(Value \<Rightarrow> bool) \<Rightarrow> string \<Rightarrow> string \<Rightarrow> Value \<Rightarrow> WebSocketState \<Rightarrow> WebSocketState" where
  "send_event_to_channel serialises channel event_type data hub =
     ws_broadcast serialises channel (Object [(''data'', data), (''event'', String event_type)]) hub"

section \<open>Simulated events\<close>

text \<open>The random bytes and words drawn by the simulation are arguments, in the order of the draws.\<close>

definition random_id :: "string \<Rightarrow> nat \<Rightarrow> u8 \<Rightarrow> string" where
  "random_id stem n r = stem @ [char_of (49 + unat r mod n)]"

definition random_org_scope :: "u8 \<Rightarrow> u8 \<Rightarrow> u8 \<Rightarrow> u8 \<Rightarrow> string option \<times> string option \<times> string option" where
  "random_org_scope r0 r1 r2 r3 =
     (let fed = random_id ''fed'' 3 r1; coop = random_id ''coop'' 3 r2; comm = random_id ''comm'' 3 r3 in
      case unat r0 mod 4 of
        0 \<Rightarrow> (None, None, None)
      | Suc 0 \<Rightarrow> (Some fed, None, None)
      | Suc (Suc 0) \<Rightarrow> (Some fed, Some coop, None)
      | _ \<Rightarrow> (Some fed, Some coop, Some comm))"

type_synonym org_scope = "string option \<times> string option \<times> string option"

definition broadcast_scoped :: "org_scope \<Rightarrow> WebSocketEvent \<Rightarrow> WebSocketState \<Rightarrow> WebSocketState" where
  "broadcast_scoped s ev = (case s of (f, c, m) \<Rightarrow> broadcast_event f c m ev)"

definition simulate_receipt_created :: "org_scope \<Rightarrow> string \<Rightarrow> int \<Rightarrow> u8 \<Rightarrow> u16 \<Rightarrow> u16 \<Rightarrow> WebSocketState \<Rightarrow> WebSocketState" where
  "simulate_receipt_created s fresh now node cpu mem =
     broadcast_scoped s (ReceiptCreated \<lparr>xr_cid = ''bafy2bzace'' @ fresh, xr_executor = random_id ''did:icn:node'' 3 node,
       xr_resource_usage = [(''CPU'', ucast cpu), (''Memory'', ucast mem * 512)], xr_timestamp = now,
       xr_coop_id = fst (snd s), xr_community_id = snd (snd s)\<rparr>)"

definition simulate_token_minted :: "org_scope \<Rightarrow> string \<Rightarrow> int \<Rightarrow> u8 \<Rightarrow> u16 \<Rightarrow> WebSocketState \<Rightarrow> WebSocketState" where
  "simulate_token_minted s fresh now user amt =
     broadcast_scoped s (TokenMinted \<lparr>tt_id = ''tx-'' @ fresh, from_did = ''did:icn:treasury'', to_did = random_id ''did:icn:user'' 5 user,
       tt_amount = ucast amt * 100, operation = ''mint'', tt_timestamp = now, from_coop_id = None, from_community_id = None,
       to_coop_id = fst (snd s), to_community_id = snd (snd s)\<rparr>)"

definition simulate_token_transferred :: "org_scope \<Rightarrow> string \<Rightarrow> int \<Rightarrow> u8 \<Rightarrow> u8 \<Rightarrow> u16 \<Rightarrow> WebSocketState \<Rightarrow> WebSocketState" where
  "simulate_token_transferred s fresh now from_user to_user amt =
     broadcast_scoped s (TokenTransferred \<lparr>tt_id = ''tx-'' @ fresh, from_did = random_id ''did:icn:user'' 5 from_user,
       to_did = random_id ''did:icn:user'' 5 to_user, tt_amount = ucast amt * 50, operation = ''transfer'', tt_timestamp = now,
       from_coop_id = fst (snd s), from_community_id = snd (snd s), to_coop_id = fst (snd s), to_community_id = snd (snd s)\<rparr>)"

definition simulate_token_burned :: "org_scope \<Rightarrow> string \<Rightarrow> int \<Rightarrow> u8 \<Rightarrow> u16 \<Rightarrow> WebSocketState \<Rightarrow> WebSocketState" where
  "simulate_token_burned s fresh now user amt =
     broadcast_scoped s (TokenBurned \<lparr>tt_id = ''tx-'' @ fresh, from_did = random_id ''did:icn:user'' 5 user, to_did = ''did:icn:treasury'',
       tt_amount = ucast amt * 25, operation = ''burn'', tt_timestamp = now, from_coop_id = fst (snd s), from_community_id = snd (snd s),
       to_coop_id = None, to_community_id = None\<rparr>)"

section \<open>Handlers\<close>

definition validate_org_scope_hierarchy :: "WebSocketParams \<Rightarrow> string option" where
  "validate_org_scope_hierarchy params =
     (if ws_community_id params \<noteq> None \<and> ws_coop_id params = None then Some ''Cannot specify a community without a cooperative''
      else if ws_coop_id params \<noteq> None \<and> ws_federation_id params = None then Some ''Cannot specify a cooperative without a federation''
      else None)"

text \<open>A connection: the channel and the position from which the client is sent its events.\<close>

record subscription =
  sub_channel :: string
  sub_from :: nat

definition websocket_connection :: "string \<Rightarrow> WebSocketState \<Rightarrow> subscription \<times> WebSocketState" where
  "websocket_connection channel_name hub =
     (case get_or_create_channel channel_name hub of (evs, hub') \<Rightarrow> (\<lparr>sub_channel = channel_name, sub_from = length evs\<rparr>, hub'))"

definition sent_to :: "subscription \<Rightarrow> WebSocketState \<Rightarrow> WebSocketEvent list" where
  "sent_to s hub = drop (sub_from s) (hget_or [] hub (sub_channel s))"

text \<open>A refusal is the status and the text of the response; \<open>auth_text\<close> is the display of an \<open>AuthError\<close>.\<close>

definition websocket_handler ::
    "(AuthError \<Rightarrow> string) \<Rightarrow> 'v jwt \<Rightarrow> 'v JwtConfig \<Rightarrow> WebSocketParams \<Rightarrow> WebSocketState \<Rightarrow> (nat \<times> string + subscription) \<times> WebSocketState" where
  "websocket_handler auth_text lib cfg params hub =
     (let connected = (case websocket_connection
            (build_channel_name (ws_federation_id params) (ws_coop_id params) (ws_community_id params)) hub of (s, hub') \<Rightarrow> (Inr s, hub'))
      in case validate_org_scope_hierarchy params of
           Some err \<Rightarrow> (Inl (400, ''Invalid organization scope: '' @ err), hub)
         | None \<Rightarrow>
             (case ws_token params of
                None \<Rightarrow> connected
              | Some token \<Rightarrow>
                  (case validate_token lib token cfg of
                     Inl err \<Rightarrow> (Inl (401, ''Unauthorized: '' @ auth_text err), hub)
                   | Inr c \<Rightarrow>
                       (if has_org_scope_access (ScopeClaims_from c) (ws_federation_id params) (ws_coop_id params) (ws_community_id params)
                        then connected
                        else (Inl (403, ''Unauthorized: You do not have access to this organization scope''), hub)))))"

definition federation_websocket_handler ::
    "(AuthError \<Rightarrow> string) \<Rightarrow> 'v jwt \<Rightarrow> 'v JwtConfig \<Rightarrow> string \<Rightarrow> WebSocketParams \<Rightarrow> WebSocketState \<Rightarrow> (nat \<times> string + subscription) \<times> WebSocketState" where
  "federation_websocket_handler auth_text lib cfg f params = websocket_handler auth_text lib cfg (params\<lparr>ws_federation_id := Some f\<rparr>)"

definition coop_websocket_handler ::
    "(AuthError \<Rightarrow> string) \<Rightarrow> 'v jwt \<Rightarrow> 'v JwtConfig \<Rightarrow> string \<Rightarrow> string \<Rightarrow> WebSocketParams \<Rightarrow> WebSocketState \<Rightarrow> (nat \<times> string + subscription) \<times> WebSocketState" where
  "coop_websocket_handler auth_text lib cfg f c params =
     websocket_handler auth_text lib cfg (params\<lparr>ws_federation_id := Some f, ws_coop_id := Some c\<rparr>)"

definition community_websocket_handler ::
    "(AuthError \<Rightarrow> string) \<Rightarrow> 'v jwt \<Rightarrow> 'v JwtConfig \<Rightarrow> string \<Rightarrow> string \<Rightarrow> string \<Rightarrow> WebSocketParams \<Rightarrow> WebSocketState \<Rightarrow> (nat \<times> string + subscription) \<times> WebSocketState" where
  "community_websocket_handler auth_text lib cfg f c m params =
     websocket_handler auth_text lib cfg (params\<lparr>ws_federation_id := Some f, ws_coop_id := Some c, ws_community_id := Some m\<rparr>)"

section \<open>Names of scopes\<close>

text \<open>A scope that respects the hierarchy is a path of at most three names.\<close>

fun scope_path :: "string option \<Rightarrow> string option \<Rightarrow> string option \<Rightarrow> string list" where
  "scope_path (Some f) (Some c) (Some m) = [f, c, m]"
| "scope_path (Some f) (Some c) None = [f, c]"
| "scope_path (Some f) None None = [f]"
| "scope_path _ _ _ = []"

definition hierarchical :: "string option \<Rightarrow> string option \<Rightarrow> string option \<Rightarrow> bool" where
  "hierarchical f c m \<longleftrightarrow> (m \<noteq> None \<longrightarrow> c \<noteq> None) \<and> (c \<noteq> None \<longrightarrow> f \<noteq> None)"

lemma validate_hierarchical:
  "validate_org_scope_hierarchy params = None \<longleftrightarrow> hierarchical (ws_federation_id params) (ws_coop_id params) (ws_community_id params)"
  by (auto simp: validate_org_scope_hierarchy_def hierarchical_def)

definition colon_free :: "string list \<Rightarrow> bool" where
  "colon_free ids \<longleftrightarrow> (\<forall>i \<in> set ids. CHR '':'' \<notin> set i)"

fun name_parts :: "string list \<Rightarrow> string list" where
  "name_parts [f, c, m] = [''federation'', f, ''coop'', c, ''community'', m]"
| "name_parts [f, c] = [''federation'', f, ''coop'', c]"
| "name_parts [f] = [''federation'', f]"
| "name_parts _ = [''global'']"

lemma split_on_literal:
  "CHR '':'' \<notin> set s \<Longrightarrow> split_on CHR '':'' (s @ CHR '':'' # t) = s # split_on CHR '':'' t"
  by (simp add: split_on_append split_on_fresh)

lemma split_on_words:
  "split_on CHR '':'' (''federation:'' @ t) = ''federation'' # split_on CHR '':'' t"
  "split_on CHR '':'' (''coop:'' @ t) = ''coop'' # split_on CHR '':'' t"
  "split_on CHR '':'' (''community:'' @ t) = ''community'' # split_on CHR '':'' t"
  by simp_all

lemma channel_name_shape:
  "build_channel_name (Some f) (Some c) (Some m) =
     ''federation:'' @ (f @ CHR '':'' # (''coop:'' @ (c @ CHR '':'' # (''community:'' @ m))))"
  "build_channel_name (Some f) (Some c) None = ''federation:'' @ (f @ CHR '':'' # (''coop:'' @ c))"
  "build_channel_name (Some f) None None = ''federation:'' @ f"
  "build_channel_name None x y = ''global''" "build_channel_name x None (Some m) = ''global''"
  by (simp_all add: build_channel_name_def split: option.split)

lemma split_channel_name:
  assumes "colon_free (scope_path f c m)"
  shows "split_on CHR '':'' (build_channel_name f c m) = name_parts (scope_path f c m)"
proof -
  have free: "CHR '':'' \<notin> set i" if "i \<in> set (scope_path f c m)" for i using assms that by (simp add: colon_free_def)
  have glob: "split_on CHR '':'' ''global'' = [''global'']" by simp
  show ?thesis
  proof (cases f; cases c; cases m)
    fix f0 c0 m0 assume [simp]: "f = Some f0" "c = Some c0" "m = Some m0"
    from free have "CHR '':'' \<notin> set f0" "CHR '':'' \<notin> set c0" "CHR '':'' \<notin> set m0" by simp_all
    then show ?thesis
      by (simp only: \<open>f = _\<close> \<open>c = _\<close> \<open>m = _\<close> channel_name_shape split_on_words split_on_literal split_on_fresh scope_path.simps name_parts.simps not_False_eq_True)
  next
    fix f0 c0 assume [simp]: "f = Some f0" "c = Some c0" "m = None"
    from free have "CHR '':'' \<notin> set f0" "CHR '':'' \<notin> set c0" by simp_all
    then show ?thesis
      by (simp only: \<open>f = _\<close> \<open>c = _\<close> \<open>m = _\<close> channel_name_shape split_on_words split_on_literal split_on_fresh scope_path.simps name_parts.simps not_False_eq_True)
  next
    fix f0 assume [simp]: "f = Some f0" "c = None" "m = None"
    from free have "CHR '':'' \<notin> set f0" by simp
    then show ?thesis
      by (simp only: \<open>f = _\<close> \<open>c = _\<close> \<open>m = _\<close> channel_name_shape split_on_words split_on_fresh scope_path.simps name_parts.simps not_False_eq_True)
  qed (simp_all only: channel_name_shape scope_path.simps name_parts.simps glob)
qed

lemma name_parts_inject: "length p \<le> 3 \<Longrightarrow> length q \<le> 3 \<Longrightarrow> name_parts p = name_parts q \<longleftrightarrow> p = q"
  by (cases p rule: name_parts.cases; cases q rule: name_parts.cases) auto

lemma length_scope_path: "length (scope_path f c m) \<le> 3"
  by (cases f; cases c; cases m) simp_all

text \<open>Names without a colon name their scope uniquely.\<close>

lemma channel_name_inject:
  assumes "colon_free (scope_path f c m)" "colon_free (scope_path f' c' m')"
  shows "build_channel_name f c m = build_channel_name f' c' m' \<longleftrightarrow> scope_path f c m = scope_path f' c' m'"
proof
  assume "build_channel_name f c m = build_channel_name f' c' m'"
  then show "scope_path f c m = scope_path f' c' m'"
    using split_channel_name [OF assms(1)] split_channel_name [OF assms(2)]
      name_parts_inject [OF length_scope_path length_scope_path] by metis
next
  assume "scope_path f c m = scope_path f' c' m'"
  then show "build_channel_name f c m = build_channel_name f' c' m'"
    by (cases f; cases c; cases m; cases f'; cases c'; cases m') (simp_all add: build_channel_name_def)
qed

text \<open>With a colon they do not: access to a federation named like a cooperative's channel gives the cooperative's events.\<close>

lemma channel_name_ambiguous:
  "build_channel_name (Some (f @ '':coop:'' @ c)) None None = build_channel_name (Some f) (Some c) None"
  by (simp add: build_channel_name_def)

text \<open>The channels of single entities, to which transfers are announced, are open to no client: the name of every channel a
  client can ask for starts with \<open>federation:\<close> or is \<open>global\<close>.\<close>

lemma entity_channels_unreachable:
  assumes "websocket_handler auth_text lib cfg params hub = (Inr s, hub')" "entity_type e \<in> {User, CooperativeEntity, CommunityEntity}"
  shows "sub_channel s \<noteq> get_entity_channel e"
proof -
  from assms(1) have "sub_channel s = build_channel_name (ws_federation_id params) (ws_coop_id params) (ws_community_id params)"
    by (auto simp: websocket_handler_def websocket_connection_def Let_def split: option.splits sum.splits if_splits prod.splits)
  with assms(2) show ?thesis
    by (auto simp: build_channel_name_def get_entity_channel_def split: option.splits)
qed

section \<open>Delivery\<close>

lemma broadcast_to_channel_get:
  "hget_or [] (broadcast_to_channel n ev hub) c = hget_or [] hub c @ (if c = n then [ev] else [])"
  by (simp add: broadcast_to_channel_def get_or_create_channel_def hget_or_insert hget_or_def hm.get_insert split: option.split)

text \<open>One event goes to the channels of its scope and of the scopes above it, and to no other.  It goes there once, except that
  an event of the global scope is sent to the global channel twice.\<close>

lemma broadcast_delivery:
  assumes "hierarchical f c m" "hierarchical f' c' m'" "colon_free (scope_path f c m)" "colon_free (scope_path f' c' m')"
  shows "hget_or [] (broadcast_event f c m ev hub) (build_channel_name f' c' m') =
    hget_or [] hub (build_channel_name f' c' m') @
      replicate (if \<not> prefix (scope_path f' c' m') (scope_path f c m) then 0 else if scope_path f c m = [] then 2 else 1) ev"
proof -
  define n where "n = build_channel_name f' c' m'"
  define p where "p = scope_path f' c' m'"
  have inj: "n = build_channel_name a b d \<longleftrightarrow> p = scope_path a b d" if "set (scope_path a b d) \<subseteq> set (scope_path f c m)" for a b d
    using channel_name_inject [OF assms(4), of a b d] that assms(3) by (auto simp: n_def p_def colon_free_def)
  have glob: "n = ''global'' \<longleftrightarrow> p = []" using inj [of None None None] by (simp add: channel_name_shape)
  have "hget_or [] (broadcast_event f c m ev hub) n = hget_or [] hub n @
      replicate (if \<not> prefix p (scope_path f c m) then 0 else if scope_path f c m = [] then 2 else 1) ev"
    using assms(1)
  proof (cases f; cases c; cases m)
    fix f0 c0 m0 assume s: "f = Some f0" "c = Some c0" "m = Some m0"
    show ?thesis using inj [of f c m] inj [of f c None] inj [of f None None]
      by (auto simp: s broadcast_event_def broadcast_to_channel_get glob prefix_Cons)
  next
    fix f0 c0 assume s: "f = Some f0" "c = Some c0" "m = None"
    show ?thesis using inj [of f c None] inj [of f None None]
      by (auto simp: s broadcast_event_def broadcast_to_channel_get glob prefix_Cons)
  next
    fix f0 assume s: "f = Some f0" "c = None" "m = None"
    show ?thesis using inj [of f None None]
      by (auto simp: s broadcast_event_def broadcast_to_channel_get glob prefix_Cons)
  next
    assume s: "f = None" "c = None" "m = None"
    show ?thesis
      by (simp add: s broadcast_event_def broadcast_to_channel_get glob channel_name_shape numeral_2_eq_2)
  qed (simp_all add: hierarchical_def)
  then show ?thesis by (simp add: n_def p_def)
qed


text \<open>C36: A client that connected to a scope is sent a later broadcast exactly if its scope is the event's scope or one above
  it, once, or twice if the event belongs to the global scope; names of organisations have no colon.\<close>

theorem client_receives:
  assumes "websocket_handler auth_text lib cfg params hub = (Inr s, hub')"
    and "hierarchical f c m" "colon_free (scope_path f c m)"
    and "colon_free (scope_path (ws_federation_id params) (ws_coop_id params) (ws_community_id params))"
  shows "sent_to s (broadcast_event f c m ev hub') =
    (if prefix (scope_path (ws_federation_id params) (ws_coop_id params) (ws_community_id params)) (scope_path f c m)
     then replicate (if scope_path f c m = [] then 2 else 1) ev else [])"
proof -
  let ?n = "build_channel_name (ws_federation_id params) (ws_coop_id params) (ws_community_id params)"
  from assms(1) have conn: "websocket_connection ?n hub = (s, hub')"
      and hier: "hierarchical (ws_federation_id params) (ws_coop_id params) (ws_community_id params)"
    by (auto simp: websocket_handler_def validate_hierarchical [symmetric] Let_def split: option.splits sum.splits if_splits prod.splits)
  from conn have "sub_channel s = ?n" "sub_from s = length (hget_or [] hub' ?n)"
    by (auto simp: websocket_connection_def get_or_create_channel_def hget_or_def hm.get_insert split: option.splits)
  then show ?thesis
    by (simp add: sent_to_def broadcast_delivery [OF assms(2) hier assms(3,4)])
qed

theorem client_receives_witness:
  "sent_to \<lparr>sub_channel = ''federation:f'', sub_from = 0\<rparr>
     (broadcast_event (Some ''f'') (Some ''c'') None (Custom Null) [(''federation:f'', [])]) = [Custom Null]"
proof -
  let ?params = "\<lparr>ws_federation_id = Some ''f'', ws_coop_id = None, ws_community_id = None, ws_token = None\<rparr>"
  have "websocket_handler (\<lambda>_. []) (demo_jwt demo_claims) demo_config ?params [] =
      (Inr \<lparr>sub_channel = ''federation:f'', sub_from = 0\<rparr>, [(''federation:f'', [])])"
    by (simp add: websocket_handler_def validate_org_scope_hierarchy_def websocket_connection_def get_or_create_channel_def
        build_channel_name_def hget_def hinsert_def)
  from client_receives [OF this, of "Some ''f''" "Some ''c''" None "Custom Null"] show ?thesis
    by (simp add: hierarchical_def colon_free_def)
qed

end
