(* ===== verification/Mesh_Local.thy ===== *)
theory Mesh_Local
  imports Ccl_Dsl Resource_Policy Core_VM Receipts Mesh_Types Reputation_Client
begin

text \<open>
  The planetary mesh crate apart from its network node, \<open>crates/p2p/planetary-mesh/src/\<close>: the job data and the local
  node of \<open>lib.rs\<close>, the messages of \<open>protocol.rs\<close>, the topics of \<open>behaviour.rs\<close>, and the reputation client of
  \<open>reputation_integration.rs\<close>.

  The jobs the crate reads have fields that the workspace's \<open>MeshJob\<close> lacks (\<open>required_resources_json\<close>,
  \<open>output_location\<close> and others); \<open>NodeJob\<close> holds the fields the crate uses.
\<close>

section \<open>Jobs\<close>

datatype MeshError =
    MeshJobNotFound string
  | InvalidManifest string
  | MeshNodeNotFound string
  | MeshUnauthorized string
  | MeshExecutionFailed string
  | MeshNetworkError string

datatype JobPriority = Low | Medium | High | Critical

datatype NodeJobStatus =
    NjsCreated
  | NjsSubmitted
  | NjsAssigned string
  | NjsRunning string "u32 option" "string option" "u8 option" "string option"
  | NjsCompleted string string
  | NjsFailed "string option" string "u32 option" "string option"
  | NjsCancelled
  | NjsPendingUserInput string "u32 option" "string option" "string option"
  | NjsAwaitingNextStage string u32 "string option" u32 "string option"

record ComputeRequirements =
  min_memory_mb :: u32
  min_cpu_cores :: u32
  min_storage_mb :: u32
  max_execution_time_secs :: u64
  required_features :: "string list"

record JobManifest =
  mf_id :: string
  mf_submitter_did :: did
  mf_description :: string
  mf_created_at :: int
  mf_expires_at :: "int option"
  mf_wasm_cid :: string
  mf_ccl_cid :: "string option"
  mf_input_data_cid :: "string option"
  mf_output_location :: "string option"
  mf_requirements :: ComputeRequirements
  mf_priority :: JobPriority
  mf_resource_token :: ScopedResourceToken
  mf_trust_requirements :: "string list"
  mf_status :: NodeJobStatus

record LocalNodeCapability =
  lc_node_id :: string
  lc_node_did :: string
  lc_available_memory_mb :: u32
  lc_available_cpu_cores :: u32
  lc_available_storage_mb :: u32
  lc_cpu_architecture :: string
  lc_features :: "string list"
  lc_location :: "string option"
  lc_bandwidth_mbps :: u32
  lc_supported_job_types :: "string list"
  lc_updated_at :: int

record LocalBid =
  lb_job_id :: string
  lb_node_id :: string
  lb_node_did :: string
  lb_bid_amount :: u64
  lb_estimated_execution_time :: u64
  lb_timestamp :: int
  lb_expires_at :: int
  lb_node_capacity :: LocalNodeCapability
  lb_reputation_score :: u32
  lb_capability_proof :: "string option"

record NodeJob =
  nj_job_id :: string
  nj_originator_did :: did
  nj_originator_org_scope :: "OrgScopeIdentifier option"
  nj_required_resources_json :: string
  nj_resources_required :: "(ResourceType \<times> u64) list"
  nj_max_execution_time_secs :: "u64 option"
  nj_description :: "string option"
  nj_wasm_cid :: string
  nj_ccl_cid :: "string option"
  nj_input_data_cid :: "string option"
  nj_output_location :: "string option"
  nj_trust_requirements :: "string list"

section \<open>Messages and topics\<close>

record NodeCapability =
  nc_node_did :: did
  nc_available_resources :: "(ResourceType, u64) hmap"
  nc_supported_wasm_engines :: "string list"
  nc_current_load_factor :: real
  nc_reputation_score :: "u32 option"
  nc_geographical_region :: "string option"
  nc_custom_features :: "(string, string) hmap"

record ReputationRecordAvailable =
  ra_record_cid :: string
  ra_subject_did :: did
  ra_issuer_did :: did
  ra_job_id :: string
  ra_execution_receipt_cid :: string

text \<open>\<open>MeshProtocolMessage\<close> with its fields in the order of the source; a bid has the fields the handler reads, with the
  region of the declaration.\<close>

datatype NodeMessage =
    JobAnnouncementV1 NodeJob
  | CapabilityAdvertisementV1 NodeCapability
  | JobInterestV1 string did
  | ExecutionReceiptAvailableV1 string string did
  | JobStatusUpdateV1 string did NodeJobStatus
  | InteractiveInputV1 string did "did option" u64 "string option" "bytes option"
  | InteractiveOutputV1 string did did u64 "string option" "bytes option" bool "string option"
  | AssignJobV1 string did did NodeJob
  | JobBidV1 string did u64 "string option" "string option"
  | ReputationRecordAvailableV1 ReputationRecordAvailable

record MeshBid =
  mb_job_id :: string
  mb_bidder :: did
  mb_price :: u64
  mb_timestamp :: int
  mb_comment :: "string option"

definition CAPABILITY_TOPIC :: string where "CAPABILITY_TOPIC = ''/icn/mesh/capabilities/v1''"
definition JOB_ANNOUNCEMENT_TOPIC :: string where "JOB_ANNOUNCEMENT_TOPIC = ''/icn/mesh/jobs/announce/v1''"
definition RECEIPT_AVAILABILITY_TOPIC :: string where "RECEIPT_AVAILABILITY_TOPIC = ''/icn/mesh/receipts/available/v1''"

definition job_interest_topic_string :: "string \<Rightarrow> string" where
  "job_interest_topic_string job_id = ''/icn/mesh/jobs/'' @ job_id @ ''/interest/v1''"

section \<open>The local node\<close>

record PlanetaryMeshNode =
  pm_node_did :: did
  pm_node_id :: string
  pm_capabilities :: LocalNodeCapability
  pm_jobs :: "(string, JobManifest) hmap"
  pm_bids :: "(string, LocalBid list) hmap"
  pm_receipts :: "(string, MeshExecutionReceipt) hmap"

text \<open>\<open>str::replace\<close> of every occurrence of a nonempty pattern.\<close>

function str_replace :: "string \<Rightarrow> string \<Rightarrow> string \<Rightarrow> string" where
  "str_replace p r s =
     (if s = [] \<or> p = [] then s
      else if take (length p) s = p then r @ str_replace p r (drop (length p) s)
      else hd s # str_replace p r (tl s))"
  by pat_completeness auto
termination by (relation "measure (\<lambda>(p, r, s). length s)") auto

definition PlanetaryMeshNode_new :: "did \<Rightarrow> LocalNodeCapability \<Rightarrow> PlanetaryMeshNode" where
  "PlanetaryMeshNode_new d c = \<lparr>pm_node_did = d, pm_node_id = str_replace ''did:key:'' ''node:'' d, pm_capabilities = c,
     pm_jobs = [], pm_bids = [], pm_receipts = []\<rparr>"

text \<open>The virtual machine runs with its default limits.\<close>

definition mesh_execute_wasm ::
    "(u64 \<Rightarrow> bytes \<Rightarrow> guest) \<Rightarrow> (vm_error \<Rightarrow> string) \<Rightarrow> ResourceLimits \<Rightarrow> HostContext \<Rightarrow> bytes \<Rightarrow> MeshError + ExecutionMetrics" where
  "mesh_execute_wasm engine err_str limits ctx wasm_bytes =
     (case fst (execute engine limits wasm_bytes ctx) of
        Inl e \<Rightarrow> Inl (MeshExecutionFailed (err_str e))
      | Inr ctx' \<Rightarrow> Inr (metrics ctx'))"

definition mesh_execute_wasm_file ::
    "(u64 \<Rightarrow> bytes \<Rightarrow> guest) \<Rightarrow> (vm_error \<Rightarrow> string) \<Rightarrow> (string \<Rightarrow> string + bytes) \<Rightarrow> ResourceLimits \<Rightarrow> HostContext \<Rightarrow> string
      \<Rightarrow> MeshError + ExecutionMetrics" where
  "mesh_execute_wasm_file engine err_str read_file limits ctx path =
     bind_result (map_err (\<lambda>e. MeshExecutionFailed (''Failed to read WASM: '' @ e)) (read_file path))
       (mesh_execute_wasm engine err_str limits ctx)"

definition resource_key :: "string \<Rightarrow> ResourceType option" where
  "resource_key s =
     (let l = to_lowercase s in
      if l = ''cpu'' \<or> l = ''compute'' then Some Cpu
      else if l = ''memory'' \<or> l = ''mem'' then Some Memory
      else if l = ''io'' then Some Io
      else None)"

definition resource_usage_map :: "(string \<times> u64) list \<Rightarrow> (ResourceType, u64) hmap" where
  "resource_usage_map usage =
     fold (\<lambda>(s, n) m. case resource_key s of Some k \<Rightarrow> hinsert m k n | None \<Rightarrow> m) usage []"

definition create_execution_receipt ::
    "u64 \<Rightarrow> string \<Rightarrow> MeshJobStatus \<Rightarrow> (string \<times> u64) list \<Rightarrow> string option \<Rightarrow> string option \<Rightarrow> u64 \<Rightarrow> PlanetaryMeshNode
      \<Rightarrow> MeshExecutionReceipt \<times> PlanetaryMeshNode" where
  "create_execution_receipt now job_id job_status usage result_data_cid logs_cid start n =
     (let r = \<lparr>mr_job_id = job_id, mr_executor = pm_node_did n, mr_status = job_status, mr_result_data_cid = result_data_cid,
          mr_logs_cid = logs_cid, mr_resource_usage = resource_usage_map usage, mr_mana_cost = None,
          mr_execution_start_time = start, mr_execution_end_time = now, mr_execution_end_time_dt = now, mr_signature = [],
          mr_coop_id = None, mr_community_id = None\<rparr>
      in (r, n\<lparr>pm_receipts := hinsert (pm_receipts n) job_id r\<rparr>))"

definition local_submit_job :: "JobManifest \<Rightarrow> PlanetaryMeshNode \<Rightarrow> string \<times> PlanetaryMeshNode" where
  "local_submit_job manifest n = (mf_id manifest, n\<lparr>pm_jobs := hinsert (pm_jobs n) (mf_id manifest) manifest\<rparr>)"

definition get_job_status :: "PlanetaryMeshNode \<Rightarrow> string \<Rightarrow> MeshError + NodeJobStatus" where
  "get_job_status n job_id = (case hget (pm_jobs n) job_id of None \<Rightarrow> Inl (MeshJobNotFound job_id) | Some j \<Rightarrow> Inr (mf_status j))"

definition local_list_jobs :: "PlanetaryMeshNode \<Rightarrow> JobManifest list" where
  "local_list_jobs n = hvalues (pm_jobs n)"

definition get_bids :: "PlanetaryMeshNode \<Rightarrow> string \<Rightarrow> LocalBid list" where
  "get_bids n job_id = hget_or [] (pm_bids n) job_id"

definition set_job_status :: "NodeJobStatus \<Rightarrow> string \<Rightarrow> PlanetaryMeshNode \<Rightarrow> (MeshError + unit) \<times> PlanetaryMeshNode" where
  "set_job_status s job_id n =
     (case hget (pm_jobs n) job_id of
        None \<Rightarrow> (Inl (MeshJobNotFound job_id), n)
      | Some j \<Rightarrow> (Inr (), n\<lparr>pm_jobs := hinsert (pm_jobs n) job_id (j\<lparr>mf_status := s\<rparr>)\<rparr>))"

definition accept_bid :: "string \<Rightarrow> string \<Rightarrow> PlanetaryMeshNode \<Rightarrow> (MeshError + unit) \<times> PlanetaryMeshNode" where
  "accept_bid job_id nid n = set_job_status (NjsAssigned nid) job_id n"

definition local_submit_bid :: "string \<Rightarrow> LocalBid \<Rightarrow> PlanetaryMeshNode \<Rightarrow> PlanetaryMeshNode" where
  "local_submit_bid job_id b n = n\<lparr>pm_bids := hinsert (pm_bids n) job_id (get_bids n job_id @ [b])\<rparr>"

definition cancel_job :: "string \<Rightarrow> PlanetaryMeshNode \<Rightarrow> (MeshError + unit) \<times> PlanetaryMeshNode" where
  "cancel_job job_id n = set_job_status NjsCancelled job_id n"

definition get_job_receipt :: "PlanetaryMeshNode \<Rightarrow> string \<Rightarrow> MeshExecutionReceipt option" where
  "get_job_receipt n job_id = hget (pm_receipts n) job_id"

lemma job_status_after:
  "get_job_status (snd (set_job_status s j n)) k =
     (if k = j \<and> hget (pm_jobs n) j \<noteq> None then Inr s else get_job_status n k)"
  by (auto simp: get_job_status_def set_job_status_def hmap_simps split: option.split)

text \<open>A cancelled job can still be assigned, and to a node that has made no bid.\<close>

lemma cancelled_job_assigned:
  assumes "hget (pm_jobs n) j \<noteq> None"
  shows "get_job_status (snd (accept_bid j nid (snd (cancel_job j n)))) j = Inr (NjsAssigned nid)"
  using assms by (auto simp: accept_bid_def cancel_job_def get_job_status_def set_job_status_def hmap_simps)

lemma bids_in_order: "get_bids (local_submit_bid j b n) k = get_bids n k @ (if k = j then [b] else [])"
  by (simp add: get_bids_def local_submit_bid_def hmap_simps)

section \<open>The reputation client\<close>

record MeshEvaluatorConfig = BidEvaluatorConfig +
  reputation_api_endpoint :: string
  reputation_api_timeout_secs :: u64
  score_verification_tolerance :: real

definition MeshEvaluatorConfig_default :: "(real \<Rightarrow> real) \<Rightarrow> MeshEvaluatorConfig" where
  "MeshEvaluatorConfig_default fl =
     \<lparr>weight_price = fl (4 / 10), weight_resources = fl (2 / 10), weight_reputation = fl (3 / 10), weight_timeliness = fl (1 / 10),
      reputation_api_endpoint = ''http://localhost:8080/reputation/profiles'', reputation_api_timeout_secs = 5,
      score_verification_tolerance = fl (5 / 100)\<rparr>"

definition mesh_fetch_profile ::
    "('n, 'cid) rep_service \<Rightarrow> MeshEvaluatorConfig \<Rightarrow> 'n \<Rightarrow> did \<Rightarrow> (string + 'cid ReputationProfile) \<times> 'n" where
  "mesh_fetch_profile sv cfg n d =
     (case svc_get sv n (reputation_api_endpoint cfg @ ''/'' @ d @ ''/history/latest'') of
        (ClientFailure e, n') \<Rightarrow> (Inl (''Failed to fetch reputation profile: '' @ e), n')
      | (Reply status body, n') \<Rightarrow>
          (if \<not> is_success status then (Inl (''Failed to fetch reputation profile. Status: '' @ svc_status sv status), n')
           else (map_err (\<lambda>e. ''Failed to parse reputation profile: '' @ e) (svc_profile sv body), n')))"

definition verify_reported_score :: "(real \<Rightarrow> real) \<Rightarrow> MeshEvaluatorConfig \<Rightarrow> 'cid ReputationProfile \<Rightarrow> u32 \<Rightarrow> bool" where
  "verify_reported_score fl cfg profile reported \<longleftrightarrow>
     \<bar>fl (computed_score profile - real (unat reported))\<bar> \<le> fl (score_verification_tolerance cfg * computed_score profile)"

definition mesh_bid_score :: "(real \<Rightarrow> real) \<Rightarrow> MeshEvaluatorConfig \<Rightarrow> 'cid ReputationProfile \<Rightarrow> real \<Rightarrow> real \<Rightarrow> real" where
  "mesh_bid_score fl config profile normalized_price resource_match =
     (let reputation_score = fl (computed_score profile / 100);
          price_component = fl (weight_price config * fl (1 - normalized_price));
          resource_component = fl (weight_resources config * resource_match);
          reputation_component = fl (weight_reputation config * reputation_score);
          timeliness_component = fl (weight_timeliness config * timeliness_score fl profile)
      in fl (fl (fl (price_component + resource_component) + reputation_component) + timeliness_component))"

definition load_bid_evaluator_config_from_policy :: "(real \<Rightarrow> real) \<Rightarrow> string \<Rightarrow> MeshEvaluatorConfig" where
  "load_bid_evaluator_config_from_policy fl policy_id = MeshEvaluatorConfig_default fl"

end
