(* ===== verification/Mesh_Node.thy ===== *)
theory Mesh_Node
  imports Mesh_Local
begin

text \<open>
  The network node of the planetary mesh, \<open>crates/p2p/planetary-mesh/src/node.rs\<close>: announcing jobs, bids, the selection
  of an executor, assignment, receipts with their verification, and settlement.

  A node is a record with its tables, the topics it is subscribed to, and what it has produced: the messages it
  published, the tasks it spawned, the actions it sent to its own loop, the payments it requested and the reputation
  records it posted.  Spawned tasks run as events of their own, in any order.

  The environment \<open>mesh_env\<close> is the code outside the crate: whether a message can be encoded and published, parsers,
  the CBOR of a receipt and its identifier, signatures, the reputation service.  The code uses a set
  \<open>assigned_by_originator\<close> and pairs of manifest and job that its structure does not declare; the record has them.
  The method of the economics crate that settlement calls (\<open>transfer_balance_direct\<close>) is not in the repository: a payment
  is the request for it.
\<close>

section \<open>The node\<close>

datatype 'cid FetchError =
    KadRecordNotFound 'cid
  | KadQueryError 'cid string
  | KadQueryTimeout 'cid
  | CborDeserialization string
  | SignatureVerification string

datatype 'cid NodeInternalAction = AnnounceReceipt string 'cid did

datatype task =
    InterestTask NodeJob
  | ExecutionTask string
  | SettlementTask string MeshExecutionReceipt
  | ReputationTask string MeshExecutionReceipt

datatype 'cid NodeRepEvent =
    NodeJobCompleted 'cid u32 real bool "'cid option"
  | NodeJobFailed 'cid string "'cid option"

record 'cid NodeRepRecord =
  nr_timestamp :: int
  nr_issuer :: did
  nr_subject :: did
  nr_event :: "'cid NodeRepEvent"
  nr_anchor :: "'cid option"
  nr_signature :: "bytes option"

record payment =
  pay_job :: string
  pay_from :: did
  pay_to :: did
  pay_amount :: u64

record ('cid, 'node) MeshNode =
  local_node_did :: did
  subscriptions :: "string list"
  available_jobs_on_mesh :: "(string, NodeJob) hmap"
  runtime_job_queue :: "NodeJob list"
  job_interests_received :: "(string, did list) hmap"
  announced_originated_jobs :: "(string, JobManifest \<times> NodeJob) hmap"
  assigned_by_originator :: "string list"
  assigned_jobs :: "(string, NodeJob) hmap"
  completed_job_receipt_cids :: "(string, 'cid) hmap"
  local_receipt_store :: "('cid, 'node) hmap option"
  discovered_receipt_announcements :: "(string, 'cid \<times> did) hmap"
  node_bids :: "(string, MeshBid list) hmap"
  next_query :: nat
  receipt_queries :: "nat list"
  answered :: "(nat, 'cid FetchError + bytes) hmap"
  reputation_service_url :: "string option"
  published :: "(string \<times> NodeMessage) list"
  spawned :: "task list"
  actions :: "'cid NodeInternalAction list"
  payments :: "payment list"
  posted :: "(string \<times> 'cid NodeRepRecord) list"

text \<open>How a receipt reports its job: \<open>node.rs\<close> matches on statuses that \<open>icn-types\<close> does not declare, so that the view
  of a receipt is part of the environment.\<close>

datatype receipt_outcome = CompletedSuccess | FailedWith string | OtherStatus

record ('sk, 'cid, 'node) mesh_env =
  encodes :: "NodeMessage \<Rightarrow> bool"
  publishes :: "string \<Rightarrow> NodeMessage \<Rightarrow> bool"
  subscribes :: "string \<Rightarrow> bool"
  direct_topic :: "did \<Rightarrow> string"
  compute_requirements_json :: "string \<Rightarrow> ComputeRequirements option"
  resources_json :: "string \<Rightarrow> (string, u64) hmap option"
  parse_cid :: "string \<Rightarrow> 'cid option"
  cid_text :: "'cid \<Rightarrow> string"
  default_cid :: 'cid
  receipt_from_cbor :: "bytes \<Rightarrow> string + MeshExecutionReceipt"
  receipt_cid :: "MeshExecutionReceipt \<Rightarrow> string + 'cid"
  receipt_dag_node :: "MeshExecutionReceipt \<Rightarrow> 'node option"
  receipt_outcome_of :: "MeshExecutionReceipt \<Rightarrow> receipt_outcome"
  signatures :: "('sk, bytes) crypto_env"
  receipt_keys :: receipt_env
  receipt_cbor :: "MeshExecutionReceipt \<Rightarrow> string + bytes"
  record_cbor :: "'cid NodeRepRecord \<Rightarrow> string + bytes"
  bidder_profile :: "did \<Rightarrow> 'cid ReputationProfile option"
  rounding :: "real \<Rightarrow> real"

definition MeshNode_new :: "did \<Rightarrow> ('cid, 'node) hmap option \<Rightarrow> string option \<Rightarrow> ('cid, 'node) MeshNode" where
  "MeshNode_new d store url =
     \<lparr>local_node_did = d, subscriptions = [CAPABILITY_TOPIC, JOB_ANNOUNCEMENT_TOPIC, RECEIPT_AVAILABILITY_TOPIC],
      available_jobs_on_mesh = [], runtime_job_queue = [], job_interests_received = [], announced_originated_jobs = [],
      assigned_by_originator = [], assigned_jobs = [], completed_job_receipt_cids = [], local_receipt_store = store,
      discovered_receipt_announcements = [], node_bids = [], next_query = 0, receipt_queries = [], answered = [],
      reputation_service_url = url, published = [], spawned = [], actions = [], payments = [], posted = []\<rparr>"

definition construct_capability :: "('cid, 'node) MeshNode \<Rightarrow> NodeCapability" where
  "construct_capability nd =
     \<lparr>nc_node_did = local_node_did nd, nc_available_resources = [(Cpu, 4000), (Memory, 8192)],
      nc_supported_wasm_engines = [''wasmtime_v0.53''], nc_current_load_factor = 1 / 10, nc_reputation_score = Some 1000,
      nc_geographical_region = Some ''local-dev-machine'', nc_custom_features = []\<rparr>"

text \<open>Publishing: the message is encoded and handed to the gossip layer, which may refuse it.\<close>

definition publish ::
    "('sk, 'cid, 'node) mesh_env \<Rightarrow> string \<Rightarrow> NodeMessage \<Rightarrow> ('cid, 'node) MeshNode \<Rightarrow> bool \<times> ('cid, 'node) MeshNode" where
  "publish env topic msg nd =
     (if encodes env msg \<and> publishes env topic msg then (True, nd\<lparr>published := published nd @ [(topic, msg)]\<rparr>) else (False, nd))"

definition subscribe :: "('sk, 'cid, 'node) mesh_env \<Rightarrow> string \<Rightarrow> ('cid, 'node) MeshNode \<Rightarrow> ('cid, 'node) MeshNode" where
  "subscribe env topic nd =
     (if subscribes env topic \<and> topic \<notin> set (subscriptions nd) then nd\<lparr>subscriptions := topic # subscriptions nd\<rparr> else nd)"

definition spawn :: "task \<Rightarrow> ('cid, 'node) MeshNode \<Rightarrow> ('cid, 'node) MeshNode" where
  "spawn t nd = nd\<lparr>spawned := spawned nd @ [t]\<rparr>"

definition broadcast_capabilities :: "('sk, 'cid, 'node) mesh_env \<Rightarrow> ('cid, 'node) MeshNode \<Rightarrow> ('cid, 'node) MeshNode" where
  "broadcast_capabilities env nd = snd (publish env CAPABILITY_TOPIC (CapabilityAdvertisementV1 (construct_capability nd)) nd)"

section \<open>Announcing jobs and expressing interest\<close>

definition default_requirements :: "NodeJob \<Rightarrow> ComputeRequirements" where
  "default_requirements job =
     \<lparr>min_memory_mb = 0, min_cpu_cores = 0, min_storage_mb = 0,
      max_execution_time_secs = (case nj_max_execution_time_secs job of Some n \<Rightarrow> n | None \<Rightarrow> 300), required_features = []\<rparr>"

definition manifest_of :: "('sk, 'cid, 'node) mesh_env \<Rightarrow> ScopedResourceToken \<Rightarrow> int \<Rightarrow> NodeJob \<Rightarrow> JobManifest" where
  "manifest_of env token now job =
     \<lparr>mf_id = nj_job_id job, mf_submitter_did = nj_originator_did job,
      mf_description = (case nj_description job of Some d \<Rightarrow> d | None \<Rightarrow> ''N/A''), mf_created_at = now, mf_expires_at = None,
      mf_wasm_cid = nj_wasm_cid job, mf_ccl_cid = nj_ccl_cid job, mf_input_data_cid = nj_input_data_cid job,
      mf_output_location = nj_output_location job,
      mf_requirements = (case compute_requirements_json env (nj_required_resources_json job) of Some r \<Rightarrow> r | None \<Rightarrow> default_requirements job),
      mf_priority = Medium, mf_resource_token = token, mf_trust_requirements = nj_trust_requirements job, mf_status = NjsSubmitted\<rparr>"

definition announce_job ::
    "('sk, 'cid, 'node) mesh_env \<Rightarrow> ScopedResourceToken \<Rightarrow> int \<Rightarrow> NodeJob \<Rightarrow> ('cid, 'node) MeshNode \<Rightarrow> bool \<times> ('cid, 'node) MeshNode" where
  "announce_job env token now job nd =
     (case publish env JOB_ANNOUNCEMENT_TOPIC (JobAnnouncementV1 job) nd of
        (False, nd') \<Rightarrow> (False, nd')
      | (True, nd') \<Rightarrow>
          (let nd'' = subscribe env (job_interest_topic_string (nj_job_id job)) nd'
           in (True, nd''\<lparr>announced_originated_jobs :=
                 hinsert (announced_originated_jobs nd'') (nj_job_id job) (manifest_of env token now job, job)\<rparr>)))"

definition fits :: "(string, u64) hmap \<Rightarrow> string \<Rightarrow> (ResourceType, u64) hmap \<Rightarrow> ResourceType \<Rightarrow> bool" where
  "fits req key available rt =
     (case hget req key of
        None \<Rightarrow> True
      | Some needed \<Rightarrow> (case hget available rt of Some a \<Rightarrow> needed \<le> a | None \<Rightarrow> False))"

definition is_suitable :: "('sk, 'cid, 'node) mesh_env \<Rightarrow> NodeJob \<Rightarrow> NodeCapability \<Rightarrow> bool" where
  "is_suitable env job caps =
     (case resources_json env (nj_required_resources_json job) of
        None \<Rightarrow> False
      | Some req \<Rightarrow> fits req ''min_cpu_cores'' (nc_available_resources caps) Cpu \<and>
                    fits req ''min_memory_mb'' (nc_available_resources caps) Memory)"

definition evaluate_and_express_interest ::
    "('sk, 'cid, 'node) mesh_env \<Rightarrow> NodeJob \<Rightarrow> ('cid, 'node) MeshNode \<Rightarrow> ('cid, 'node) MeshNode" where
  "evaluate_and_express_interest env job nd =
     (if is_suitable env job (construct_capability nd)
      then snd (publish env (job_interest_topic_string (nj_job_id job)) (JobInterestV1 (nj_job_id job) (local_node_did nd)) nd)
      else nd)"

section \<open>Execution\<close>

definition simulated_receipt :: "u64 \<Rightarrow> NodeJob \<Rightarrow> did \<Rightarrow> MeshExecutionReceipt" where
  "simulated_receipt now_ms job executor =
     \<lparr>mr_job_id = nj_job_id job, mr_executor = executor, mr_status = MeshCompleted,
      mr_result_data_cid = Some ''bafybeigdeadbeefdeadbeefdeadbeefdeadbeefdeadbeefdeadbeefdeadbeefdeadbeef'',
      mr_logs_cid = Some ''bafybeigcafecafebeeffeedbeeffeedbeeffeedbeeffeedbeeffeedbeeffeed'',
      mr_resource_usage = [(Cpu, 500), (Memory, 128 * 1024 * 1024)],
      mr_mana_cost = Some (max (sum_list (map snd (nj_resources_required job))) 10),
      mr_execution_start_time = now_ms - 2000, mr_execution_end_time = now_ms, mr_execution_end_time_dt = now_ms,
      mr_signature = [],
      mr_coop_id = (case nj_originator_org_scope job of Some s \<Rightarrow> org_coop_id s | None \<Rightarrow> None),
      mr_community_id = (case nj_originator_org_scope job of Some s \<Rightarrow> org_community_id s | None \<Rightarrow> None)\<rparr>"

text \<open>\<open>anchors\<close> is the runtime's \<open>anchor_receipt\<close>.  Without a runtime context the receipt is neither recorded nor announced,
  and the execution still counts as a success.\<close>

definition simulate_execution_and_anchor_receipt ::
    "('sk, 'cid, 'node) mesh_env \<Rightarrow> ('sk, bytes) KeyPair \<Rightarrow> (MeshExecutionReceipt \<Rightarrow> bool) \<Rightarrow> u64 \<Rightarrow> NodeJob
      \<Rightarrow> ('cid, 'node) MeshNode \<Rightarrow> bool \<times> ('cid, 'node) MeshNode" where
  "simulate_execution_and_anchor_receipt env kp anchors now_ms job nd =
     (case sign_receipt_in_place (signatures env) (receipt_cbor env) (simulated_receipt now_ms job (local_node_did nd)) kp of
        (Inl e, _) \<Rightarrow> (False, nd)
      | (Inr _, receipt) \<Rightarrow>
          (case local_receipt_store nd of
             None \<Rightarrow> (True, nd)
           | Some _ \<Rightarrow>
               (case receipt_cid env receipt of
                  Inl e \<Rightarrow> (False, nd)
                | Inr cid \<Rightarrow>
                    (if anchors receipt
                     then (True, nd\<lparr>completed_job_receipt_cids := hinsert (completed_job_receipt_cids nd) (nj_job_id job) cid,
                                    actions := actions nd @ [AnnounceReceipt (nj_job_id job) cid (local_node_did nd)]\<rparr>)
                     else (False, nd)))))"

definition assign_job_to_executor ::
    "('sk, 'cid, 'node) mesh_env \<Rightarrow> string \<Rightarrow> did \<Rightarrow> NodeJob \<Rightarrow> did \<Rightarrow> ('cid, 'node) MeshNode \<Rightarrow> bool \<times> ('cid, 'node) MeshNode" where
  "assign_job_to_executor env job_id target job_details originator nd =
     (case publish env (direct_topic env target) (AssignJobV1 job_id originator target job_details) nd of
        (False, nd') \<Rightarrow> (False, nd')
      | (True, nd') \<Rightarrow> (True, spawn (ExecutionTask job_id) (subscribe env (job_interest_topic_string job_id) nd')))"

text \<open>The trigger finds the job and stops: the call of the execution is commented out in the source.\<close>

definition trigger_execution_for_job :: "string \<Rightarrow> ('cid, 'node) MeshNode \<Rightarrow> string + unit" where
  "trigger_execution_for_job job_id nd =
     (case hget (assigned_jobs nd) job_id of
        Some job_details \<Rightarrow> Inr ()
      | None \<Rightarrow> Inl (''Job details not found for '' @ job_id))"

section \<open>Fetching receipts\<close>

text \<open>What is on the one-shot channel of a query when the wait of at most thirty seconds ends.\<close>

datatype 'cid oneshot = Answer "'cid FetchError + bytes" | Dropped | TimedOut

definition fetch_receipt_cbor_via_kad ::
    "(nat \<Rightarrow> 'cid oneshot) \<Rightarrow> 'cid \<Rightarrow> ('cid, 'node) MeshNode \<Rightarrow> ('cid FetchError + bytes) \<times> ('cid, 'node) MeshNode" where
  "fetch_receipt_cbor_via_kad channel cid nd =
     (let q = next_query nd; nd' = nd\<lparr>next_query := Suc q\<rparr>; pending = nd'\<lparr>receipt_queries := q # receipt_queries nd'\<rparr>
      in case channel q of
           Answer (Inr data) \<Rightarrow> (Inr data, nd')
         | Answer (Inl e) \<Rightarrow> (Inl e, nd')
         | Dropped \<Rightarrow> (Inl (KadQueryError cid ''Oneshot channel receiver error''), pending)
         | TimedOut \<Rightarrow> (Inl (KadQueryTimeout cid), nd'))"

datatype kad_event = FoundRecord nat bytes | FinishedWithNoRecords nat | GetRecordFailed nat string

definition answer_query :: "nat \<Rightarrow> ('cid FetchError + bytes) \<Rightarrow> ('cid, 'node) MeshNode \<Rightarrow> ('cid, 'node) MeshNode" where
  "answer_query q a nd =
     (if q \<in> set (receipt_queries nd)
      then nd\<lparr>receipt_queries := filter (\<lambda>x. x \<noteq> q) (receipt_queries nd), answered := hinsert (answered nd) q a\<rparr> else nd)"

definition handle_kad :: "('sk, 'cid, 'node) mesh_env \<Rightarrow> kad_event \<Rightarrow> ('cid, 'node) MeshNode \<Rightarrow> ('cid, 'node) MeshNode" where
  "handle_kad env ev nd =
     (case ev of
        FoundRecord q data \<Rightarrow> answer_query q (Inr data) nd
      | FinishedWithNoRecords q \<Rightarrow> answer_query q (Inl (KadQueryError (default_cid env) ''FinishedWithNoRecords'')) nd
      | GetRecordFailed q e \<Rightarrow> answer_query q (Inl (KadQueryError (default_cid env) e)) nd)"

section \<open>Settlement and reputation\<close>

definition winning_bid :: "('cid, 'node) MeshNode \<Rightarrow> string \<Rightarrow> did \<Rightarrow> MeshBid option" where
  "winning_bid nd job_id executor =
     (case hget (node_bids nd) job_id of None \<Rightarrow> None | Some bs \<Rightarrow> List.find (\<lambda>b. mb_bidder b = executor) bs)"

definition trigger_economic_settlement :: "string \<Rightarrow> MeshExecutionReceipt \<Rightarrow> ('cid, 'node) MeshNode \<Rightarrow> ('cid, 'node) MeshNode" where
  "trigger_economic_settlement job_id receipt nd =
     (case winning_bid nd job_id (mr_executor receipt) of
        None \<Rightarrow> nd
      | Some b \<Rightarrow>
          (case hget (announced_originated_jobs nd) job_id of
             None \<Rightarrow> nd
           | Some (manifest, _) \<Rightarrow>
               (if mf_submitter_did manifest = mr_executor receipt \<or> local_receipt_store nd = None then nd
                else nd\<lparr>payments := payments nd @ [\<lparr>pay_job = job_id, pay_from = mf_submitter_did manifest,
                       pay_to = mr_executor receipt, pay_amount = mb_price b\<rparr>]\<rparr>)))"

definition get_reputation_record_signing_payload ::
    "('sk, 'cid, 'node) mesh_env \<Rightarrow> 'cid NodeRepRecord \<Rightarrow> string + bytes" where
  "get_reputation_record_signing_payload env r = record_cbor env (r\<lparr>nr_signature := None\<rparr>)"

definition reputation_event :: "('sk, 'cid, 'node) mesh_env \<Rightarrow> MeshExecutionReceipt \<Rightarrow> 'cid \<Rightarrow> 'cid NodeRepEvent option" where
  "reputation_event env receipt cid =
     (case receipt_outcome_of env receipt of
        CompletedSuccess \<Rightarrow>
          Some (NodeJobCompleted cid
            (ucast (saturating_sub (mr_execution_end_time receipt) (mr_execution_start_time receipt) * 1000)) 1 True (Some cid))
      | FailedWith e \<Rightarrow> Some (NodeJobFailed cid e (Some cid))
      | OtherStatus \<Rightarrow> None)"

definition signed_record ::
    "('sk, 'cid, 'node) mesh_env \<Rightarrow> ('sk, bytes) KeyPair \<Rightarrow> 'cid NodeRepRecord \<Rightarrow> 'cid NodeRepRecord" where
  "signed_record env kp r =
     (case get_reputation_record_signing_payload env r of
        Inr payload_bytes \<Rightarrow> r\<lparr>nr_signature := Some (kp_sign (signatures env) kp payload_bytes)\<rparr>
      | Inl e \<Rightarrow> r)"

definition trigger_reputation_update ::
    "('sk, 'cid, 'node) mesh_env \<Rightarrow> ('sk, bytes) KeyPair \<Rightarrow> int \<Rightarrow> MeshExecutionReceipt \<Rightarrow> ('cid, 'node) MeshNode \<Rightarrow> ('cid, 'node) MeshNode" where
  "trigger_reputation_update env kp now receipt nd =
     (case receipt_cid env receipt of
        Inl e \<Rightarrow> nd
      | Inr cid \<Rightarrow>
          (if local_receipt_store nd = None then nd
           else
             (case reputation_event env receipt cid of
                None \<Rightarrow> nd
              | Some ev \<Rightarrow>
                  (case reputation_service_url nd of
                     None \<Rightarrow> nd
                   | Some base_url \<Rightarrow>
                       nd\<lparr>posted := posted nd @ [(trim_end_matches CHR ''/'' base_url @ ''/reputation/records'',
                         signed_record env kp \<lparr>nr_timestamp = now, nr_issuer = local_node_did nd, nr_subject = mr_executor receipt,
                           nr_event = ev, nr_anchor = Some cid, nr_signature = None\<rparr>)]\<rparr>))))"

section \<open>Selection of an executor\<close>

definition neutral_profile :: "u64 \<Rightarrow> did \<Rightarrow> 'cid ReputationProfile" where
  "neutral_profile now d =
     \<lparr>node_id = d, last_updated = now, total_jobs = 0, successful_jobs = 0, failed_jobs = 0, jobs_on_time = 0, jobs_late = 0,
      average_execution_ms = None, average_bid_accuracy = None, dishonesty_events = 0, endorsements = [], current_stake = None,
      computed_score = 50, latest_anchor_cid = None, mana_state = None\<rparr>"

definition normalized_price :: "(real \<Rightarrow> real) \<Rightarrow> MeshBid list \<Rightarrow> MeshBid \<Rightarrow> real" where
  "normalized_price fl bs b =
     (let min_price = Min (mb_price ` set bs); max_price = Max (mb_price ` set bs);
          price_range = fl (real (unat (saturating_sub max_price min_price)))
      in if 0 < price_range then fl (fl (fl (real (unat (mb_price b))) - fl (real (unat min_price))) / price_range) else 0)"

definition bid_score :: "('sk, 'cid, 'node) mesh_env \<Rightarrow> u64 \<Rightarrow> MeshBid list \<Rightarrow> MeshBid \<Rightarrow> real" where
  "bid_score env now bs b =
     (let fl = rounding env;
          profile = (case bidder_profile env (mb_bidder b) of Some p \<Rightarrow> p | None \<Rightarrow> neutral_profile now (mb_bidder b))
      in mesh_bid_score fl (MeshEvaluatorConfig_default fl) profile (normalized_price fl bs b) (fl (8 / 10)))"

text \<open>\<open>f64::MIN\<close>, the least finite double, is where the search for the highest score starts.\<close>

definition F64_MIN :: real where "F64_MIN = - (2 ^ 1024 - 2 ^ 971)"

fun best_bid :: "('sk, 'cid, 'node) mesh_env \<Rightarrow> u64 \<Rightarrow> MeshBid list \<Rightarrow> real \<Rightarrow> MeshBid option \<Rightarrow> MeshBid list \<Rightarrow> MeshBid option" where
  "best_bid env now bs highest winner [] = winner"
| "best_bid env now bs highest winner (b # rest) =
     (if highest < bid_score env now bs b then best_bid env now bs (bid_score env now bs b) (Some b) rest
      else best_bid env now bs highest winner rest)"

definition select_bid_for :: "('sk, 'cid, 'node) mesh_env \<Rightarrow> u64 \<Rightarrow> ('cid, 'node) MeshNode \<Rightarrow> string \<Rightarrow> MeshBid option" where
  "select_bid_for env now nd job_id =
     (if job_id \<in> set (assigned_by_originator nd) then None
      else case hget (node_bids nd) job_id of None \<Rightarrow> None | Some bs \<Rightarrow> best_bid env now bs F64_MIN None bs)"

definition assignments_to_make :: "('sk, 'cid, 'node) mesh_env \<Rightarrow> u64 \<Rightarrow> ('cid, 'node) MeshNode \<Rightarrow> (string \<times> did \<times> NodeJob) list" where
  "assignments_to_make env now nd =
     concat (map (\<lambda>(job_id, manifest, job). case select_bid_for env now nd job_id of
         None \<Rightarrow> [] | Some b \<Rightarrow> [(job_id, mb_bidder b, job)]) (announced_originated_jobs nd))"

definition make_assignment :: "('sk, 'cid, 'node) mesh_env \<Rightarrow> string \<times> did \<times> NodeJob \<Rightarrow> ('cid, 'node) MeshNode \<Rightarrow> ('cid, 'node) MeshNode" where
  "make_assignment env a nd =
     (case a of (job_id, executor, job) \<Rightarrow>
        (case assign_job_to_executor env job_id executor job (local_node_did nd) nd of
           (False, nd') \<Rightarrow> nd'
         | (True, nd') \<Rightarrow> nd'\<lparr>assigned_by_originator := job_id # assigned_by_originator nd'\<rparr>))"

text \<open>The source fetches a bidder's profile with \<open>Handle::block_on\<close> inside the event loop, which is itself asynchronous; tokio
  panics there.  The definition is the tick for a handle that returns the profile; what is proved of all runs holds in particular
  of those that end in that panic, since a panic adds no state to them.\<close>

definition executor_selection_tick :: "('sk, 'cid, 'node) mesh_env \<Rightarrow> u64 \<Rightarrow> ('cid, 'node) MeshNode \<Rightarrow> ('cid, 'node) MeshNode" where
  "executor_selection_tick env now nd = fold (make_assignment env) (assignments_to_make env now nd) nd"

text \<open>The queue is emptied first; a job whose announcement fails is dropped.\<close>

definition job_queue_tick ::
    "('sk, 'cid, 'node) mesh_env \<Rightarrow> ScopedResourceToken \<Rightarrow> int \<Rightarrow> ('cid, 'node) MeshNode \<Rightarrow> ('cid, 'node) MeshNode" where
  "job_queue_tick env token now nd =
     fold (\<lambda>job n. snd (announce_job env token now job n)) (runtime_job_queue nd) (nd\<lparr>runtime_job_queue := []\<rparr>)"

section \<open>Messages\<close>

definition handle_announcement :: "NodeJob \<Rightarrow> ('cid, 'node) MeshNode \<Rightarrow> ('cid, 'node) MeshNode" where
  "handle_announcement job nd =
     spawn (InterestTask job)
       (if hget (available_jobs_on_mesh nd) (nj_job_id job) = None
        then nd\<lparr>available_jobs_on_mesh := hinsert (available_jobs_on_mesh nd) (nj_job_id job) job\<rparr> else nd)"

definition handle_interest :: "string \<Rightarrow> did \<Rightarrow> ('cid, 'node) MeshNode \<Rightarrow> ('cid, 'node) MeshNode" where
  "handle_interest job_id executor nd =
     (if hget (announced_originated_jobs nd) job_id = None then nd
      else nd\<lparr>job_interests_received :=
             hinsert (job_interests_received nd) job_id (hget_or [] (job_interests_received nd) job_id @ [executor])\<rparr>)"

definition handle_assignment :: "('sk, 'cid, 'node) mesh_env \<Rightarrow> string \<Rightarrow> did \<Rightarrow> NodeJob \<Rightarrow> ('cid, 'node) MeshNode \<Rightarrow> ('cid, 'node) MeshNode" where
  "handle_assignment env job_id target job_details nd =
     (if target \<noteq> local_node_did nd then nd
      else snd (publish env (job_interest_topic_string job_id)
             (JobStatusUpdateV1 job_id (local_node_did nd) (NjsAssigned (local_node_did nd)))
             (nd\<lparr>assigned_jobs := hinsert (assigned_jobs nd) job_id job_details\<rparr>)))"

text \<open>Storing the node of a verified receipt in the store of the runtime context.\<close>

definition anchor_verified ::
    "('sk, 'cid, 'node) mesh_env \<Rightarrow> MeshExecutionReceipt \<Rightarrow> 'cid \<Rightarrow> ('cid, 'node) MeshNode \<Rightarrow> ('cid, 'node) MeshNode" where
  "anchor_verified env receipt cid nd =
     (case (local_receipt_store nd, receipt_dag_node env receipt) of
        (Some store, Some dag_node) \<Rightarrow>
          (if hget store cid = None then nd\<lparr>local_receipt_store := Some (hinsert store cid dag_node)\<rparr> else nd)
      | _ \<Rightarrow> nd)"

text \<open>The originator's checks of a fetched receipt, in their order: it decodes, its identifier is the announced one, its
  executor is the announced one, its signature is that executor's.\<close>

definition receipt_checks ::
    "('sk, 'cid, 'node) mesh_env \<Rightarrow> 'cid \<Rightarrow> did \<Rightarrow> bytes \<Rightarrow> MeshExecutionReceipt option" where
  "receipt_checks env announced executor data =
     (case receipt_from_cbor env data of
        Inl e \<Rightarrow> None
      | Inr receipt \<Rightarrow>
          (if receipt_cid env receipt \<noteq> Inr announced then None
           else if mr_executor receipt \<noteq> executor then None
           else if verify_embedded_signature (signatures env) (receipt_keys env) (receipt_cbor env) receipt = Inr True then Some receipt
           else None))"

definition handle_receipt_available ::
    "('sk, 'cid, 'node) mesh_env \<Rightarrow> (nat \<Rightarrow> 'cid oneshot) \<Rightarrow> string \<Rightarrow> string \<Rightarrow> did \<Rightarrow> ('cid, 'node) MeshNode \<Rightarrow> ('cid, 'node) MeshNode" where
  "handle_receipt_available env channel job_id cid_str executor nd =
     (case parse_cid env cid_str of
        None \<Rightarrow> nd
      | Some cid \<Rightarrow>
          (let nd1 = nd\<lparr>discovered_receipt_announcements := hinsert (discovered_receipt_announcements nd) job_id (cid, executor)\<rparr> in
           if hget (announced_originated_jobs nd1) job_id = None then nd1
           else
             (case fetch_receipt_cbor_via_kad channel cid nd1 of
                (Inl e, nd2) \<Rightarrow> nd2
              | (Inr data, nd2) \<Rightarrow>
                  (case receipt_checks env cid executor data of
                     None \<Rightarrow> nd2
                   | Some receipt \<Rightarrow>
                       spawn (ReputationTask job_id receipt) (spawn (SettlementTask job_id receipt) (anchor_verified env receipt cid nd2))))))"

definition handle_status_update :: "string \<Rightarrow> NodeJobStatus \<Rightarrow> ('cid, 'node) MeshNode \<Rightarrow> ('cid, 'node) MeshNode" where
  "handle_status_update job_id status nd =
     (if hget (announced_originated_jobs nd) job_id = None then nd
      else case status of
        NjsCompleted _ _ \<Rightarrow> nd\<lparr>subscriptions := filter (\<lambda>t. t \<noteq> job_interest_topic_string job_id) (subscriptions nd),
                              job_interests_received := hremove (job_interests_received nd) job_id\<rparr>
      | NjsFailed _ _ _ _ \<Rightarrow> nd\<lparr>subscriptions := filter (\<lambda>t. t \<noteq> job_interest_topic_string job_id) (subscriptions nd),
                              job_interests_received := hremove (job_interests_received nd) job_id\<rparr>
      | _ \<Rightarrow> nd)"

definition handle_bid :: "int \<Rightarrow> string \<Rightarrow> did \<Rightarrow> u64 \<Rightarrow> string option \<Rightarrow> ('cid, 'node) MeshNode \<Rightarrow> ('cid, 'node) MeshNode" where
  "handle_bid now job_id bidder price comment nd =
     nd\<lparr>node_bids := hinsert (node_bids nd) job_id (hget_or [] (node_bids nd) job_id @
         [\<lparr>mb_job_id = job_id, mb_bidder = bidder, mb_price = price, mb_timestamp = now, mb_comment = comment\<rparr>])\<rparr>"

definition handle_message ::
    "('sk, 'cid, 'node) mesh_env \<Rightarrow> (nat \<Rightarrow> 'cid oneshot) \<Rightarrow> int \<Rightarrow> NodeMessage \<Rightarrow> ('cid, 'node) MeshNode \<Rightarrow> ('cid, 'node) MeshNode" where
  "handle_message env channel now msg nd =
     (case msg of
        JobAnnouncementV1 job \<Rightarrow> handle_announcement job nd
      | JobInterestV1 job_id executor \<Rightarrow> handle_interest job_id executor nd
      | AssignJobV1 job_id originator target job_details \<Rightarrow> handle_assignment env job_id target job_details nd
      | ExecutionReceiptAvailableV1 job_id cid_str executor \<Rightarrow> handle_receipt_available env channel job_id cid_str executor nd
      | JobStatusUpdateV1 job_id executor status \<Rightarrow> handle_status_update job_id status nd
      | JobBidV1 job_id bidder price comment region \<Rightarrow> handle_bid now job_id bidder price comment nd
      | _ \<Rightarrow> nd)"

definition handle_action :: "('sk, 'cid, 'node) mesh_env \<Rightarrow> 'cid NodeInternalAction \<Rightarrow> ('cid, 'node) MeshNode \<Rightarrow> ('cid, 'node) MeshNode" where
  "handle_action env a nd =
     (case a of AnnounceReceipt job_id cid executor \<Rightarrow>
        snd (publish env RECEIPT_AVAILABILITY_TOPIC (ExecutionReceiptAvailableV1 job_id (cid_text env cid) executor) nd))"

section \<open>The event loop\<close>

text \<open>What wakes the loop or a spawned task up.  \<open>Enqueue\<close> is the runtime putting a job into the shared queue, and
  \<open>RunTask i\<close> the completion of the \<open>i\<close>-th task still pending.\<close>

datatype event =
    Enqueue NodeJob
  | CapabilitiesTick
  | JobQueueTick
  | SelectionTick
  | Gossip NodeMessage
  | Kademlia kad_event
  | InternalAction
  | RunTask nat

definition run_task ::
    "('sk, 'cid, 'node) mesh_env \<Rightarrow> ('sk, bytes) KeyPair \<Rightarrow> int \<Rightarrow> task \<Rightarrow> ('cid, 'node) MeshNode \<Rightarrow> ('cid, 'node) MeshNode" where
  "run_task env kp now t nd =
     (case t of
        InterestTask job \<Rightarrow> evaluate_and_express_interest env job nd
      | ExecutionTask job_id \<Rightarrow> nd
      | SettlementTask job_id receipt \<Rightarrow> trigger_economic_settlement job_id receipt nd
      | ReputationTask job_id receipt \<Rightarrow> trigger_reputation_update env kp now receipt nd)"

definition take_task :: "nat \<Rightarrow> ('cid, 'node) MeshNode \<Rightarrow> ('cid, 'node) MeshNode" where
  "take_task i nd = nd\<lparr>spawned := take i (spawned nd) @ drop (Suc i) (spawned nd)\<rparr>"

record clock_time =
  seconds :: int
  unix_time :: u64

definition handle_event ::
    "('sk, 'cid, 'node) mesh_env \<Rightarrow> ('sk, bytes) KeyPair \<Rightarrow> ScopedResourceToken \<Rightarrow> (nat \<Rightarrow> 'cid oneshot) \<Rightarrow> clock_time \<Rightarrow> event
      \<Rightarrow> ('cid, 'node) MeshNode \<Rightarrow> ('cid, 'node) MeshNode" where
  "handle_event env kp token channel now ev nd =
     (case ev of
        Enqueue job \<Rightarrow> nd\<lparr>runtime_job_queue := runtime_job_queue nd @ [job]\<rparr>
      | CapabilitiesTick \<Rightarrow> broadcast_capabilities env nd
      | JobQueueTick \<Rightarrow> job_queue_tick env token (seconds now) nd
      | SelectionTick \<Rightarrow> executor_selection_tick env (unix_time now) nd
      | Gossip msg \<Rightarrow> handle_message env channel (seconds now) msg nd
      | Kademlia k \<Rightarrow> handle_kad env k nd
      | InternalAction \<Rightarrow> (case actions nd of [] \<Rightarrow> nd | a # rest \<Rightarrow> handle_action env a (nd\<lparr>actions := rest\<rparr>))
      | RunTask i \<Rightarrow> if i < length (spawned nd) then run_task env kp (seconds now) (spawned nd ! i) (take_task i nd) else nd)"

text \<open>\<open>run_event_loop\<close> handles one event after the other.  The wait for a receipt is inside the handler of the announcement, so
  that nothing is put on the channel of a query while the loop waits for it: it holds what was answered before.\<close>

definition awaited :: "('cid, 'node) MeshNode \<Rightarrow> nat \<Rightarrow> 'cid oneshot" where
  "awaited nd q = (case hget (answered nd) q of Some a \<Rightarrow> Answer a | None \<Rightarrow> TimedOut)"

definition run_event_loop ::
    "('sk, 'cid, 'node) mesh_env \<Rightarrow> ('sk, bytes) KeyPair \<Rightarrow> ScopedResourceToken \<Rightarrow> (clock_time \<times> event) list
      \<Rightarrow> ('cid, 'node) MeshNode \<Rightarrow> ('cid, 'node) MeshNode" where
  "run_event_loop env kp token evs nd = fold (\<lambda>(now, ev) n. handle_event env kp token (awaited n) now ev n) evs nd"

end
