(* ===== verification/Mesh_Settlement.thy ===== *)
theory Mesh_Settlement
  imports Mesh_Node
begin

text \<open>
  Properties of the network node of \<open>Mesh_Node\<close>: which payments and assignments it can make, over every interleaving of
  its timers, incoming messages and spawned tasks, and what its loop never gets to.

  \<open>mesh_run\<close> is the reachability of a node's states, with any answers on the channels of its receipt queries.  The locale
  \<open>mesh_invariant\<close> reduces an invariant to the few steps that touch jobs, bids, assignments or payments; all others are
  \<open>quiet\<close>.
\<close>

section \<open>Reachable states and quiet steps\<close>

inductive mesh_run ::
    "('sk, 'cid, 'node) mesh_env \<Rightarrow> ('sk, bytes) KeyPair \<Rightarrow> ScopedResourceToken \<Rightarrow> ('cid, 'node) MeshNode \<Rightarrow> bool"
  for env kp token where
    start: "mesh_run env kp token (MeshNode_new d store url)"
  | event: "mesh_run env kp token nd \<Longrightarrow> mesh_run env kp token (handle_event env kp token channel now ev nd)"
  | executed: "mesh_run env kp token nd \<Longrightarrow>
      mesh_run env kp token (snd (simulate_execution_and_anchor_receipt env kp anchors now_ms job nd))"

fun plain_msg :: "NodeMessage \<Rightarrow> bool" where
  "plain_msg (JobAnnouncementV1 _) = False"
| "plain_msg (AssignJobV1 _ _ _ _) = False"
| "plain_msg _ = True"

fun settles :: "task \<Rightarrow> bool" where
  "settles (SettlementTask _ _) = True"
| "settles _ = False"

definition quiet :: "('cid, 'node) MeshNode \<Rightarrow> ('cid, 'node) MeshNode \<Rightarrow> bool" where
  "quiet nd nd' \<longleftrightarrow>
     local_node_did nd' = local_node_did nd \<and> announced_originated_jobs nd' = announced_originated_jobs nd \<and>
     assigned_by_originator nd' = assigned_by_originator nd \<and> node_bids nd' = node_bids nd \<and> payments nd' = payments nd \<and>
     (\<forall>t \<in> set (spawned nd'). settles t \<longrightarrow> t \<in> set (spawned nd)) \<and>
     (\<exists>ms. published nd' = published nd @ ms \<and> list_all (\<lambda>m. plain_msg (snd m)) ms)"

lemma quiet_refl [simp, intro]: "quiet nd nd"
  by (simp add: quiet_def)

lemma quiet_trans: "quiet a b \<Longrightarrow> quiet b c \<Longrightarrow> quiet a c"
  by (fastforce simp: quiet_def)

lemma quiet_publish: "plain_msg m \<Longrightarrow> quiet nd (snd (publish env topic m nd))"
  by (simp add: publish_def quiet_def)

lemma quiet_spawn: "\<not> settles t \<Longrightarrow> quiet nd (spawn t nd)"
  by (auto simp: quiet_def spawn_def)

lemma quiet_announcement: "quiet nd (handle_announcement job nd)"
  by (auto simp: handle_announcement_def spawn_def quiet_def)

lemma quiet_interest: "quiet nd (handle_interest j e nd)"
  by (simp add: handle_interest_def quiet_def)

lemma quiet_assignment: "quiet nd (handle_assignment env j t job nd)"
  by (simp add: handle_assignment_def publish_def quiet_def)

lemma quiet_status: "quiet nd (handle_status_update j s nd)"
  by (simp add: handle_status_update_def quiet_def split: NodeJobStatus.split)

lemma quiet_kad: "quiet nd (handle_kad env k nd)"
  by (simp add: handle_kad_def answer_query_def quiet_def split: kad_event.split)

lemma quiet_action: "quiet nd (handle_action env a (nd\<lparr>actions := as\<rparr>))"
  by (simp add: handle_action_def publish_def quiet_def split: NodeInternalAction.split)

lemma quiet_interest_task: "quiet nd (evaluate_and_express_interest env job nd)"
  by (simp add: evaluate_and_express_interest_def quiet_publish)

lemma quiet_reputation: "quiet nd (trigger_reputation_update env kp now r nd)"
  by (simp add: trigger_reputation_update_def quiet_def split: sum.split option.split)

lemma quiet_take_task: "quiet nd (take_task i nd)"
  by (auto simp: take_task_def quiet_def dest: in_set_takeD in_set_dropD)

lemma quiet_fetch: "quiet nd (snd (fetch_receipt_cbor_via_kad channel cid nd))"
  by (simp add: fetch_receipt_cbor_via_kad_def quiet_def Let_def split: oneshot.split sum.split)

lemma quiet_anchor: "quiet nd (anchor_verified env r cid nd)"
  by (simp add: anchor_verified_def quiet_def split: option.split)

lemma quiet_simulate: "quiet nd (snd (simulate_execution_and_anchor_receipt env kp anchors now_ms job nd))"
  by (auto simp: simulate_execution_and_anchor_receipt_def quiet_def split: prod.split sum.split option.split)

abbreviation verified_receipt :: "('sk, 'cid, 'node) mesh_env \<Rightarrow> MeshExecutionReceipt \<Rightarrow> bool" where
  "verified_receipt env r \<equiv> verify_embedded_signature (signatures env) (receipt_keys env) (receipt_cbor env) r = Inr True"

lemma receipt_checks_Some:
  "receipt_checks env cid e data = Some r \<longleftrightarrow>
     receipt_from_cbor env data = Inr r \<and> receipt_cid env r = Inr cid \<and> mr_executor r = e \<and> verified_receipt env r"
  by (auto simp: receipt_checks_def split: sum.splits if_splits)

text \<open>An announced receipt is quiet, or it was verified and its settlement and its reputation update are spawned.\<close>

lemma receipt_available_cases:
  obtains "quiet nd (handle_receipt_available env channel j c e nd)"
  | nd2 r where "quiet nd nd2" "verified_receipt env r" "mr_executor r = e"
      "handle_receipt_available env channel j c e nd = spawn (ReputationTask j r) (spawn (SettlementTask j r) nd2)"
proof (cases "parse_cid env c")
  case None
  then show ?thesis using that(1) by (simp add: handle_receipt_available_def)
next
  case (Some cid)
  let ?nd1 = "nd\<lparr>discovered_receipt_announcements := hinsert (discovered_receipt_announcements nd) j (cid, e)\<rparr>"
  have q1: "quiet nd ?nd1" by (simp add: quiet_def)
  obtain res nd2 where f: "fetch_receipt_cbor_via_kad channel cid ?nd1 = (res, nd2)" by (cases "fetch_receipt_cbor_via_kad channel cid ?nd1")
  have q2: "quiet nd nd2" using quiet_trans [OF q1 quiet_fetch [of ?nd1 channel cid]] f by simp
  show ?thesis
  proof (cases "hget (announced_originated_jobs nd) j = None \<or> (\<forall>data. res = Inr data \<longrightarrow> receipt_checks env cid e data = None)")
    case True
    then have "quiet nd (handle_receipt_available env channel j c e nd)"
      using Some f q1 q2 by (auto simp: handle_receipt_available_def Let_def split: sum.split)
    then show ?thesis by (rule that(1))
  next
    case False
    then obtain data r where r: "res = Inr data" "receipt_checks env cid e data = Some r" "hget (announced_originated_jobs nd) j \<noteq> None" by auto
    then have "handle_receipt_available env channel j c e nd =
        spawn (ReputationTask j r) (spawn (SettlementTask j r) (anchor_verified env r cid nd2))"
      using Some f by (auto simp: handle_receipt_available_def Let_def)
    with r(2) that(2) [OF quiet_trans [OF q2 quiet_anchor [of nd2 env r cid]], of r] show ?thesis by (simp add: receipt_checks_Some)
  qed
qed

section \<open>Invariants\<close>

locale mesh_invariant =
  fixes env :: "('sk, 'cid, 'node) mesh_env" and I :: "('cid, 'node) MeshNode \<Rightarrow> bool"
  assumes I_new: "I (MeshNode_new d store url)"
    and I_quiet: "I nd \<Longrightarrow> quiet nd nd' \<Longrightarrow> I nd'"
    and I_announce: "I nd \<Longrightarrow> I (snd (announce_job env token now job nd))"
    and I_select: "I nd \<Longrightarrow> I (executor_selection_tick env t nd)"
    and I_bid: "I nd \<Longrightarrow> I (handle_bid now j bidder price comment nd)"
    and I_verified: "I nd \<Longrightarrow> verified_receipt env r \<Longrightarrow> I (spawn (SettlementTask j r) nd)"
    and I_settle: "I nd \<Longrightarrow> SettlementTask j r \<in> set (spawned nd) \<Longrightarrow> I (trigger_economic_settlement j r nd)"
begin

lemma I_queue: "I nd \<Longrightarrow> I (job_queue_tick env token now nd)"
proof -
  have "I n \<Longrightarrow> I (fold (\<lambda>job n. snd (announce_job env token now job n)) jobs n)" for jobs n
    by (induction jobs arbitrary: n) (auto intro: I_announce)
  moreover assume "I nd"
  then have "I (nd\<lparr>runtime_job_queue := []\<rparr>)" by (rule I_quiet) (simp add: quiet_def)
  ultimately show ?thesis by (simp add: job_queue_tick_def)
qed

lemma I_receipt: "I nd \<Longrightarrow> I (handle_receipt_available env channel j c e nd)"
proof (cases rule: receipt_available_cases [of nd env channel j c e])
  case 1
  then show "I nd \<Longrightarrow> ?thesis" by (blast intro: I_quiet)
next
  case (2 nd2 r)
  then show "I nd \<Longrightarrow> ?thesis" by (metis I_quiet I_verified quiet_spawn settles.simps(4))
qed

lemma I_message: "I nd \<Longrightarrow> I (handle_message env channel now msg nd)"
  by (cases msg) (auto simp: handle_message_def intro: I_receipt I_bid
      I_quiet [OF _ quiet_announcement] I_quiet [OF _ quiet_interest] I_quiet [OF _ quiet_assignment] I_quiet [OF _ quiet_status])

lemma settle_take_task: "trigger_economic_settlement j r (take_task i nd) = take_task i (trigger_economic_settlement j r nd)"
  by (simp add: trigger_economic_settlement_def take_task_def winning_bid_def split: option.split)

lemma I_task:
  assumes "I nd" "i < length (spawned nd)"
  shows "I (run_task env kp now (spawned nd ! i) (take_task i nd))"
proof (cases "spawned nd ! i")
  case (SettlementTask j r)
  then have "SettlementTask j r \<in> set (spawned nd)" using assms(2) by (metis nth_mem)
  from I_settle [OF assms(1) this] show ?thesis
    using SettlementTask by (simp add: run_task_def settle_take_task I_quiet [OF _ quiet_take_task])
qed (use assms(1) in \<open>auto simp: run_task_def intro: I_quiet quiet_take_task quiet_interest_task quiet_reputation
    quiet_trans [OF quiet_take_task quiet_interest_task] quiet_trans [OF quiet_take_task quiet_reputation]\<close>)

lemma I_event: "I nd \<Longrightarrow> I (handle_event env kp token channel now ev nd)"
proof (cases ev)
  case (Enqueue job)
  then show "I nd \<Longrightarrow> ?thesis" by (simp add: handle_event_def I_quiet quiet_def)
next
  case CapabilitiesTick
  then show "I nd \<Longrightarrow> ?thesis" by (simp add: handle_event_def broadcast_capabilities_def I_quiet quiet_publish)
next
  case (Kademlia k)
  then show "I nd \<Longrightarrow> ?thesis" using I_quiet [OF _ quiet_kad] by (simp add: handle_event_def)
next
  case InternalAction
  then show "I nd \<Longrightarrow> ?thesis" by (auto simp: handle_event_def intro: I_quiet [OF _ quiet_action] split: list.split)
qed (auto simp: handle_event_def I_queue I_select I_message I_task)

theorem reachable: "mesh_run env kp token nd \<Longrightarrow> I nd"
  by (induction rule: mesh_run.induct) (auto intro: I_new I_event I_quiet [OF _ quiet_simulate])

end

section \<open>Payments\<close>

lemma announce_cases:
  obtains "snd (announce_job env token now job nd) = nd"
  | nd' where "snd (announce_job env token now job nd) = nd'"
     "announced_originated_jobs nd' = hinsert (announced_originated_jobs nd) (nj_job_id job) (manifest_of env token now job, job)"
     "published nd' = published nd @ [(JOB_ANNOUNCEMENT_TOPIC, JobAnnouncementV1 job)]" "node_bids nd' = node_bids nd"
     "payments nd' = payments nd" "spawned nd' = spawned nd" "assigned_by_originator nd' = assigned_by_originator nd"
     "local_node_did nd' = local_node_did nd"
proof (cases "encodes env (JobAnnouncementV1 job) \<and> publishes env JOB_ANNOUNCEMENT_TOPIC (JobAnnouncementV1 job)")
  case True
  then show ?thesis by (intro that(2) [OF refl]) (simp_all add: announce_job_def publish_def subscribe_def Let_def)
next
  case False
  then show ?thesis by (intro that(1)) (auto simp: announce_job_def publish_def)
qed

text \<open>What backs a payment: a verified receipt of the payee, the announcement of the job by the payer, and a bid of the payee at
  that price.\<close>

definition backed :: "('sk, 'cid, 'node) mesh_env \<Rightarrow> ('cid, 'node) MeshNode \<Rightarrow> payment \<Rightarrow> bool" where
  "backed env nd p \<longleftrightarrow>
     pay_from p \<noteq> pay_to p \<and>
     (\<exists>r. verified_receipt env r \<and> mr_executor r = pay_to p) \<and>
     (\<exists>job. (JOB_ANNOUNCEMENT_TOPIC, JobAnnouncementV1 job) \<in> set (published nd) \<and>
        nj_job_id job = pay_job p \<and> nj_originator_did job = pay_from p) \<and>
     (\<exists>b \<in> set (hget_or [] (node_bids nd) (pay_job p)). mb_bidder b = pay_to p \<and> mb_price b = pay_amount p)"

definition settlement_inv :: "('sk, 'cid, 'node) mesh_env \<Rightarrow> ('cid, 'node) MeshNode \<Rightarrow> bool" where
  "settlement_inv env nd \<longleftrightarrow>
     (\<forall>j m job. hget (announced_originated_jobs nd) j = Some (m, job) \<longrightarrow>
        nj_job_id job = j \<and> mf_submitter_did m = nj_originator_did job \<and> (JOB_ANNOUNCEMENT_TOPIC, JobAnnouncementV1 job) \<in> set (published nd)) \<and>
     (\<forall>j r. SettlementTask j r \<in> set (spawned nd) \<longrightarrow> verified_receipt env r) \<and>
     (\<forall>p \<in> set (payments nd). backed env nd p)"

lemma backed_mono:
  assumes "backed env nd p" "set (published nd) \<subseteq> set (published nd')"
    and "\<And>j. set (hget_or [] (node_bids nd) j) \<subseteq> set (hget_or [] (node_bids nd') j)"
  shows "backed env nd' p"
  using assms by (auto simp: backed_def)

lemma settlement_inv_mono:
  assumes inv: "settlement_inv env nd" and pub: "set (published nd) \<subseteq> set (published nd')"
    and bids: "\<And>j. set (hget_or [] (node_bids nd) j) \<subseteq> set (hget_or [] (node_bids nd') j)"
    and pay: "payments nd' = payments nd" and ann: "announced_originated_jobs nd' = announced_originated_jobs nd"
    and sp: "\<And>t. t \<in> set (spawned nd') \<Longrightarrow> settles t \<Longrightarrow> t \<in> set (spawned nd)"
  shows "settlement_inv env nd'"
proof -
  have "backed env nd' p" if "p \<in> set (payments nd')" for p
    using that inv pay backed_mono [of env nd p nd', OF _ pub bids] by (simp add: settlement_inv_def)
  moreover have "verified_receipt env r" if "SettlementTask j r \<in> set (spawned nd')" for j r
    using inv sp [OF that] by (simp add: settlement_inv_def)
  ultimately show ?thesis
    using inv pub ann by (auto simp: settlement_inv_def)
qed

lemma make_assignment_fields:
  "announced_originated_jobs (make_assignment env a nd) = announced_originated_jobs nd"
  "node_bids (make_assignment env a nd) = node_bids nd" "payments (make_assignment env a nd) = payments nd"
  "local_node_did (make_assignment env a nd) = local_node_did nd"
  "set (published nd) \<subseteq> set (published (make_assignment env a nd))"
  "t \<in> set (spawned (make_assignment env a nd)) \<Longrightarrow> settles t \<Longrightarrow> t \<in> set (spawned nd)"
  by (auto simp: make_assignment_def assign_job_to_executor_def publish_def subscribe_def spawn_def split: prod.splits if_splits)

lemma settlement_inv_select:
  assumes "settlement_inv env nd" shows "settlement_inv env (executor_selection_tick env t nd)"
proof -
  have "settlement_inv env n \<Longrightarrow> settlement_inv env (fold (make_assignment env) as n)" for as n
  proof (induction as arbitrary: n)
    case (Cons a as)
    from Cons.prems have "settlement_inv env (make_assignment env a n)"
      by (rule settlement_inv_mono) (auto simp: make_assignment_fields dest: make_assignment_fields(5) [THEN subsetD] make_assignment_fields(6))
    with Cons.IH show ?case by simp
  qed simp
  with assms show ?thesis by (simp add: executor_selection_tick_def)
qed

lemma winning_bid_Some:
  "winning_bid nd j e = Some b \<Longrightarrow> b \<in> set (hget_or [] (node_bids nd) j) \<and> mb_bidder b = e"
  by (auto simp: winning_bid_def hget_or_def find_Some_iff split: option.splits)

lemma settlement_inv_settle:
  assumes inv: "settlement_inv env nd" and task: "SettlementTask j r \<in> set (spawned nd)"
  shows "settlement_inv env (trigger_economic_settlement j r nd)"
proof (cases "\<exists>b m job. winning_bid nd j (mr_executor r) = Some b \<and> hget (announced_originated_jobs nd) j = Some (m, job) \<and>
    mf_submitter_did m \<noteq> mr_executor r \<and> local_receipt_store nd \<noteq> None")
  case False
  then have "trigger_economic_settlement j r nd = nd"
    by (auto simp: trigger_economic_settlement_def split: option.split prod.split)
  with inv show ?thesis by simp
next
  case True
  then obtain b m job where w: "winning_bid nd j (mr_executor r) = Some b" "hget (announced_originated_jobs nd) j = Some (m, job)"
    "mf_submitter_did m \<noteq> mr_executor r" "local_receipt_store nd \<noteq> None" by auto
  define p where "p = \<lparr>pay_job = j, pay_from = mf_submitter_did m, pay_to = mr_executor r, pay_amount = mb_price b\<rparr>"
  have eq: "trigger_economic_settlement j r nd = nd\<lparr>payments := payments nd @ [p]\<rparr>"
    using w by (simp add: trigger_economic_settlement_def p_def)
  have "backed env nd p"
    unfolding backed_def p_def using inv task w winning_bid_Some [OF w(1)]
    by (auto simp: settlement_inv_def intro!: exI [of _ r] exI [of _ job] bexI [of _ b])
  then have "backed env (nd\<lparr>payments := payments nd @ [p]\<rparr>) q" if "q \<in> set (payments nd @ [p])" for q
    using that inv by (auto simp: settlement_inv_def backed_def)
  then show ?thesis using inv by (simp add: eq settlement_inv_def)
qed

interpretation settlement: mesh_invariant env "settlement_inv env" for env :: "('sk, 'cid, 'node) mesh_env"
proof unfold_locales
  fix d :: did and store url
  show "settlement_inv env (MeshNode_new d store url :: ('cid, 'node) MeshNode)"
    by (simp add: settlement_inv_def MeshNode_new_def)
next
  fix nd nd' :: "('cid, 'node) MeshNode"
  assume "settlement_inv env nd" "quiet nd nd'"
  then show "settlement_inv env nd'" by (auto simp: quiet_def elim!: settlement_inv_mono)
next
  fix nd :: "('cid, 'node) MeshNode" and token now job
  assume inv: "settlement_inv env nd"
  show "settlement_inv env (snd (announce_job env token now job nd))"
  proof (cases rule: announce_cases [of env token now job nd])
    case 1
    then show ?thesis using inv by simp
  next
    case n: (2 nd')
    have "backed env nd' p" if "p \<in> set (payments nd)" for p
      using that inv backed_mono [of env nd p nd'] n by (auto simp: settlement_inv_def)
    then show ?thesis using inv n by (auto simp: settlement_inv_def hmap_simps manifest_of_def)
  qed
next
  fix nd :: "('cid, 'node) MeshNode" and now j bidder price comment
  assume "settlement_inv env nd"
  then show "settlement_inv env (handle_bid now j bidder price comment nd)"
    by (rule settlement_inv_mono) (auto simp: handle_bid_def hmap_simps)
next
  fix nd :: "('cid, 'node) MeshNode" and r j
  assume "settlement_inv env nd" "verified_receipt env r"
  then show "settlement_inv env (spawn (SettlementTask j r) nd)" by (auto simp: settlement_inv_def spawn_def backed_def)
qed (auto intro: settlement_inv_select settlement_inv_settle)

text \<open>C11: what a node pays for.  Whatever messages, answers and timers a node gets, in whatever order its spawned tasks run,
  every payment it requests goes to the executor of a receipt whose signature it has verified, from the originator of
  a job the node itself announced, at the price of a bid the executor made for that job, and never from somebody to
  himself.\<close>

theorem payments_backed:
  assumes "mesh_run env kp token nd" "p \<in> set (payments nd)"
  shows "pay_from p \<noteq> pay_to p \<and>
    (\<exists>r. verify_embedded_signature (signatures env) (receipt_keys env) (receipt_cbor env) r = Inr True \<and> mr_executor r = pay_to p) \<and>
    (\<exists>job. (JOB_ANNOUNCEMENT_TOPIC, JobAnnouncementV1 job) \<in> set (published nd) \<and>
       nj_job_id job = pay_job p \<and> nj_originator_did job = pay_from p) \<and>
    (\<exists>b \<in> set (hget_or [] (node_bids nd) (pay_job p)). mb_bidder b = pay_to p \<and> mb_price b = pay_amount p)"
  using settlement.reachable [OF assms(1)] assms(2) unfolding settlement_inv_def backed_def by blast

section \<open>Assignments\<close>

definition assigns :: "string \<Rightarrow> string \<times> NodeMessage \<Rightarrow> bool" where
  "assigns j m = (case snd m of AssignJobV1 j' _ _ _ \<Rightarrow> j' = j | _ \<Rightarrow> False)"

definition assign_count :: "string \<Rightarrow> ('cid, 'node) MeshNode \<Rightarrow> nat" where
  "assign_count j nd = length (filter (assigns j) (published nd))"

definition announcement_published :: "('cid, 'node) MeshNode \<Rightarrow> NodeJob \<Rightarrow> bool" where
  "announcement_published nd job \<longleftrightarrow> (JOB_ANNOUNCEMENT_TOPIC, JobAnnouncementV1 job) \<in> set (published nd)"

definition has_bid :: "('cid, 'node) MeshNode \<Rightarrow> string \<Rightarrow> did \<Rightarrow> bool" where
  "has_bid nd j e \<longleftrightarrow> (\<exists>b \<in> set (hget_or [] (node_bids nd) j). mb_bidder b = e)"

definition assignment_inv :: "('cid, 'node) MeshNode \<Rightarrow> bool" where
  "assignment_inv nd \<longleftrightarrow>
     hwf (announced_originated_jobs nd) \<and>
     (\<forall>j m job. hget (announced_originated_jobs nd) j = Some (m, job) \<longrightarrow> announcement_published nd job) \<and>
     (\<forall>j. assign_count j nd = (if j \<in> set (assigned_by_originator nd) then 1 else 0)) \<and>
     (\<forall>t j orig e job. (t, AssignJobV1 j orig e job) \<in> set (published nd) \<longrightarrow>
        orig = local_node_did nd \<and> has_bid nd j e \<and> announcement_published nd job)"

lemma plain_assigns: "plain_msg (snd m) \<Longrightarrow> \<not> assigns j m"
  by (cases "snd m") (auto simp: assigns_def)

lemma plain_filter: "list_all (\<lambda>m. plain_msg (snd m)) ms \<Longrightarrow> filter (assigns j) ms = []"
  by (induction ms) (auto simp: plain_assigns)

lemma plain_not_assign: "list_all (\<lambda>m. plain_msg (snd m)) ms \<Longrightarrow> (t, AssignJobV1 j orig e job) \<notin> set ms"
  by (auto simp: list_all_iff)

lemma assign_count_quiet: "quiet nd nd' \<Longrightarrow> assign_count j nd' = assign_count j nd"
  by (auto simp: quiet_def assign_count_def plain_filter)

lemma assignment_inv_quiet:
  assumes "assignment_inv nd" "quiet nd nd'"
  shows "assignment_inv nd'"
  using assms(1) assign_count_quiet [OF assms(2)] assms(2)
  by (auto simp: assignment_inv_def quiet_def plain_not_assign announcement_published_def has_bid_def)

lemma make_assignment_cases:
  obtains "make_assignment env (j, e, job) nd = nd"
  | nd' where "make_assignment env (j, e, job) nd = nd'"
     "published nd' = published nd @ [(direct_topic env e, AssignJobV1 j (local_node_did nd) e job)]"
     "assigned_by_originator nd' = j # assigned_by_originator nd" "node_bids nd' = node_bids nd"
     "announced_originated_jobs nd' = announced_originated_jobs nd" "local_node_did nd' = local_node_did nd"
proof (cases "encodes env (AssignJobV1 j (local_node_did nd) e job) \<and>
    publishes env (direct_topic env e) (AssignJobV1 j (local_node_did nd) e job)")
  case True
  then show ?thesis
    by (intro that(2) [OF refl])
      (simp_all add: make_assignment_def assign_job_to_executor_def publish_def subscribe_def spawn_def)
next
  case False
  then show ?thesis by (intro that(1)) (auto simp: make_assignment_def assign_job_to_executor_def publish_def)
qed

text \<open>One assignment of a job not yet assigned keeps the invariant and adds at most that job to the assigned ones.\<close>

lemma make_assignment_inv:
  assumes "assignment_inv nd" "j \<notin> set (assigned_by_originator nd)" "has_bid nd j e" "announcement_published nd job"
  shows "assignment_inv (make_assignment env (j, e, job) nd) \<and>
    set (assigned_by_originator (make_assignment env (j, e, job) nd)) \<subseteq> insert j (set (assigned_by_originator nd)) \<and>
    has_bid (make_assignment env (j, e, job) nd) = has_bid nd \<and>
    (\<forall>job'. announcement_published nd job' \<longrightarrow> announcement_published (make_assignment env (j, e, job) nd) job')"
proof (cases rule: make_assignment_cases [of env j e job nd])
  case (2 nd')
  have "has_bid nd' = has_bid nd" by (simp add: has_bid_def fun_eq_iff 2)
  moreover have "assign_count j' nd' = assign_count j' nd + (if j' = j then 1 else 0)" for j'
    by (simp add: assign_count_def 2 assigns_def)
  ultimately show ?thesis
    using assms 2 by (auto simp: assignment_inv_def announcement_published_def)
qed (use assms in auto)

lemma fold_assignments_inv:
  assumes "assignment_inv nd" "distinct (map fst as)"
    and "\<And>j e job. (j, e, job) \<in> set as \<Longrightarrow> j \<notin> set (assigned_by_originator nd) \<and> has_bid nd j e \<and> announcement_published nd job"
  shows "assignment_inv (fold (make_assignment env) as nd)"
  using assms
proof (induction as arbitrary: nd)
  case (Cons a as)
  obtain j e job where a: "a = (j, e, job)" by (cases a)
  note m = make_assignment_inv [OF Cons.prems(1), of j e job env]
  from Cons.prems(3) [of j e job] a m
  have n: "assignment_inv (make_assignment env a nd)" "set (assigned_by_originator (make_assignment env a nd)) \<subseteq> insert j (set (assigned_by_originator nd))"
    "has_bid (make_assignment env a nd) = has_bid nd" "\<And>job'. announcement_published nd job' \<Longrightarrow> announcement_published (make_assignment env a nd) job'"
    by auto
  have "j' \<notin> set (assigned_by_originator (make_assignment env a nd)) \<and> has_bid (make_assignment env a nd) j' e' \<and>
      announcement_published (make_assignment env a nd) job'" if "(j', e', job') \<in> set as" for j' e' job'
  proof -
    have "j' \<noteq> j" using that Cons.prems(2) a by (auto simp: rev_image_eqI)
    with that Cons.prems(3) [of j' e' job'] n show ?thesis by auto
  qed
  from Cons.IH [OF n(1) _ this] Cons.prems(2) show ?case by simp
qed simp

lemma best_bid_member: "best_bid env now bs h w xs = Some b \<Longrightarrow> w = Some b \<or> b \<in> set xs"
  by (induction xs arbitrary: h w) (auto split: if_splits)

lemma select_bid_for_Some:
  assumes "select_bid_for env now nd j = Some b"
  shows "j \<notin> set (assigned_by_originator nd) \<and> has_bid nd j (mb_bidder b)"
  using assms best_bid_member [of env now _ F64_MIN None _ b]
  by (auto simp: select_bid_for_def has_bid_def hget_or_def split: if_splits option.splits)

definition assignment_for :: "('sk, 'cid, 'node) mesh_env \<Rightarrow> u64 \<Rightarrow> ('cid, 'node) MeshNode \<Rightarrow> string \<times> JobManifest \<times> NodeJob \<Rightarrow> (string \<times> did \<times> NodeJob) list" where
  "assignment_for env now nd = (\<lambda>(j, m, job). case select_bid_for env now nd j of None \<Rightarrow> [] | Some b \<Rightarrow> [(j, mb_bidder b, job)])"

lemma assignments_to_make_concat: "assignments_to_make env now nd = concat (map (assignment_for env now nd) (announced_originated_jobs nd))"
  by (simp add: assignments_to_make_def assignment_for_def)

lemma assignment_for_keys: "map fst (assignment_for env now nd x) = [] \<or> map fst (assignment_for env now nd x) = [fst x]"
  by (auto simp: assignment_for_def split: option.split prod.split)

lemma in_assignments:
  "(j, e, job) \<in> set (assignments_to_make env now nd) \<longleftrightarrow>
     (\<exists>m b. (j, m, job) \<in> set (announced_originated_jobs nd) \<and> select_bid_for env now nd j = Some b \<and> e = mb_bidder b)"
  by (force simp: assignments_to_make_def split: option.splits)

lemma assignments_to_make_sound:
  assumes "(j, e, job) \<in> set (assignments_to_make env now nd)" "hwf (announced_originated_jobs nd)"
  shows "j \<notin> set (assigned_by_originator nd) \<and> has_bid nd j e \<and> (\<exists>m. hget (announced_originated_jobs nd) j = Some (m, job))"
  using assms select_bid_for_Some [of env now nd j] by (auto simp: in_assignments hget_def hwf_def)

lemma assignments_to_make_distinct:
  assumes "hwf (announced_originated_jobs nd)"
  shows "distinct (map fst (assignments_to_make env now nd))"
proof -
  have "distinct (map fst xs) \<Longrightarrow> distinct (map fst (concat (map (assignment_for env now nd) xs))) \<and>
      set (map fst (concat (map (assignment_for env now nd) xs))) \<subseteq> set (map fst xs)" for xs
  proof (induction xs)
    case (Cons x xs)
    then have IH: "distinct (map fst (concat (map (assignment_for env now nd) xs)))"
      "set (map fst (concat (map (assignment_for env now nd) xs))) \<subseteq> set (map fst xs)" "fst x \<notin> set (map fst xs)" by auto
    have eq: "map fst (concat (map (assignment_for env now nd) (x # xs))) =
        map fst (assignment_for env now nd x) @ map fst (concat (map (assignment_for env now nd) xs))" by simp
    from assignment_for_keys [of env now nd x] show ?case
      unfolding eq using IH by (elim disjE) (simp_all del: set_map map_concat, blast+)
  qed simp
  with assms show ?thesis by (simp add: assignments_to_make_concat hwf_def)
qed

lemma assignment_inv_select: "assignment_inv nd \<Longrightarrow> assignment_inv (executor_selection_tick env now nd)"
  unfolding executor_selection_tick_def
proof (rule fold_assignments_inv)
  assume inv: "assignment_inv nd"
  then have wf: "hwf (announced_originated_jobs nd)" by (simp add: assignment_inv_def)
  then show "distinct (map fst (assignments_to_make env now nd))" by (rule assignments_to_make_distinct)
  show "j \<notin> set (assigned_by_originator nd) \<and> has_bid nd j e \<and> announcement_published nd job"
    if "(j, e, job) \<in> set (assignments_to_make env now nd)" for j e job
    using assignments_to_make_sound [OF that wf] inv by (auto simp: assignment_inv_def)
qed

interpretation assignment: mesh_invariant env assignment_inv for env :: "('sk, 'cid, 'node) mesh_env"
proof unfold_locales
  fix d :: did and store url
  show "assignment_inv (MeshNode_new d store url :: ('cid, 'node) MeshNode)"
    by (simp add: assignment_inv_def MeshNode_new_def assign_count_def)
next
  fix nd :: "('cid, 'node) MeshNode" and token now job
  assume inv: "assignment_inv nd"
  show "assignment_inv (snd (announce_job env token now job nd))"
  proof (cases rule: announce_cases [of env token now job nd])
    case n: (2 nd')
    have "assign_count j nd' = assign_count j nd" for j by (simp add: assign_count_def n assigns_def)
    with inv n show ?thesis
      by (auto simp: assignment_inv_def announcement_published_def has_bid_def hmap_simps)
  qed (use inv in simp)
next
  fix nd :: "('cid, 'node) MeshNode" and now j bidder price comment
  assume inv: "assignment_inv nd"
  have "assign_count j' (handle_bid now j bidder price comment nd) = assign_count j' nd" for j'
    by (simp add: assign_count_def handle_bid_def)
  with inv show "assignment_inv (handle_bid now j bidder price comment nd)"
    by (fastforce simp: assignment_inv_def handle_bid_def announcement_published_def has_bid_def hmap_simps)
next
  fix nd :: "('cid, 'node) MeshNode" and r j
  assume "assignment_inv nd"
  then show "assignment_inv (spawn (SettlementTask j r) nd)"
    by (simp add: assignment_inv_def spawn_def announcement_published_def has_bid_def assign_count_def)
next
  fix nd :: "('cid, 'node) MeshNode" and r j
  assume inv: "assignment_inv nd"
  have "assign_count j' (trigger_economic_settlement j r nd) = assign_count j' nd" for j'
    by (simp add: assign_count_def trigger_economic_settlement_def split: option.split)
  with inv show "assignment_inv (trigger_economic_settlement j r nd)"
    by (simp add: assignment_inv_def trigger_economic_settlement_def announcement_published_def has_bid_def split: option.split)
qed (auto intro: assignment_inv_quiet assignment_inv_select)

text \<open>C20: assignments.  Over every run a node sends at most one assignment for a job, and exactly when it has marked the job as
  assigned; the assignment names the node itself as originator, goes to somebody who has made a bid for the job, and
  carries a job the node has announced.\<close>

theorem jobs_assigned_once:
  assumes "mesh_run env kp token nd"
  shows "length (filter (\<lambda>m. case snd m of AssignJobV1 j' _ _ _ \<Rightarrow> j' = j | _ \<Rightarrow> False) (published nd)) =
      (if j \<in> set (assigned_by_originator nd) then 1 else 0) \<and>
    ((t, AssignJobV1 j orig e job) \<in> set (published nd) \<longrightarrow>
       orig = local_node_did nd \<and> (\<exists>b \<in> set (hget_or [] (node_bids nd) j). mb_bidder b = e) \<and>
       (JOB_ANNOUNCEMENT_TOPIC, JobAnnouncementV1 job) \<in> set (published nd))"
proof -
  have "assignment_inv nd" using assms by (rule assignment.reachable)
  moreover have "assigns j = (\<lambda>m. case snd m of AssignJobV1 j' _ _ _ \<Rightarrow> j' = j | _ \<Rightarrow> False)"
    by (simp add: assigns_def fun_eq_iff)
  ultimately show ?thesis
    unfolding assignment_inv_def assign_count_def has_bid_def announcement_published_def by metis
qed

lemma best_bid_first:
  "best_bid env now bs h w xs =
     (if list_all (\<lambda>x. bid_score env now bs x \<le> h) xs then w
      else best_bid env now bs h None xs) \<and>
   (\<not> list_all (\<lambda>x. bid_score env now bs x \<le> h) xs \<longrightarrow>
     (\<exists>ys b zs. xs = ys @ b # zs \<and> best_bid env now bs h None xs = Some b \<and> h < bid_score env now bs b \<and>
        list_all (\<lambda>y. bid_score env now bs y < bid_score env now bs b) ys \<and>
        list_all (\<lambda>z. bid_score env now bs z \<le> bid_score env now bs b) zs))"
proof (induction xs arbitrary: h w)
  case (Cons x xs)
  let ?s = "bid_score env now bs"
  show ?case
  proof (cases "h < ?s x")
    case x: False
    show ?thesis
    proof (cases "list_all (\<lambda>y. ?s y \<le> h) xs")
      case False
      with Cons.IH [of h w] obtain ys b zs where "xs = ys @ b # zs" "best_bid env now bs h None xs = Some b" "h < ?s b"
        "list_all (\<lambda>y. ?s y < ?s b) ys" "list_all (\<lambda>z. ?s z \<le> ?s b) zs" by blast
      with False x Cons.IH [of h w] show ?thesis
        by (intro conjI impI exI [of _ "x # ys"] exI [of _ b] exI [of _ zs]) auto
    qed (use x Cons.IH [of h w] in simp)
  next
    case True
    show ?thesis
    proof (cases "list_all (\<lambda>y. ?s y \<le> ?s x) xs")
      case le: True
      with True Cons.IH [of "?s x" "Some x"] show ?thesis
        by (intro conjI impI exI [of _ "[]"] exI [of _ x] exI [of _ xs]) auto
    next
      case False
      with Cons.IH [of "?s x" "Some x"] obtain ys b zs where "xs = ys @ b # zs" "best_bid env now bs (?s x) None xs = Some b" "?s x < ?s b"
        "list_all (\<lambda>y. ?s y < ?s b) ys" "list_all (\<lambda>z. ?s z \<le> ?s b) zs" by blast
      with False True Cons.IH [of "?s x" "Some x"] show ?thesis
        by (intro conjI impI exI [of _ "x # ys"] exI [of _ b] exI [of _ zs]) (auto simp: list_all_iff)
    qed
  qed
qed simp

text \<open>the selection of an executor.  For a job that is not assigned the node selects the first bid of highest score, provided
  that score exceeds the least double; it selects none only for an assigned job, without bids, or when no bid scores
  more than that.\<close>

lemma selection_picks_best:
  "case select_bid_for env now nd j of
     None \<Rightarrow> j \<in> set (assigned_by_originator nd) \<or>
       list_all (\<lambda>b. bid_score env now (hget_or [] (node_bids nd) j) b \<le> F64_MIN) (hget_or [] (node_bids nd) j)
   | Some b \<Rightarrow> j \<notin> set (assigned_by_originator nd) \<and>
       (\<exists>ys zs. hget (node_bids nd) j = Some (ys @ b # zs) \<and>
          list_all (\<lambda>y. bid_score env now (ys @ b # zs) y < bid_score env now (ys @ b # zs) b) ys \<and>
          list_all (\<lambda>z. bid_score env now (ys @ b # zs) z \<le> bid_score env now (ys @ b # zs) b) zs)"
proof (cases "j \<in> set (assigned_by_originator nd) \<or> hget (node_bids nd) j = None")
  case True
  then show ?thesis by (auto simp: select_bid_for_def hget_or_def)
next
  case False
  then obtain bs where bs: "j \<notin> set (assigned_by_originator nd)" "hget (node_bids nd) j = Some bs" by auto
  then have eq: "select_bid_for env now nd j = best_bid env now bs F64_MIN None bs" by (simp add: select_bid_for_def)
  show ?thesis
  proof (cases "list_all (\<lambda>x. bid_score env now bs x \<le> F64_MIN) bs")
    case True
    with best_bid_first [of env now bs F64_MIN None bs] bs show ?thesis by (simp add: eq hget_or_def)
  next
    case False
    with best_bid_first [of env now bs F64_MIN None bs] obtain ys b zs where
      "bs = ys @ b # zs" "best_bid env now bs F64_MIN None bs = Some b"
      "list_all (\<lambda>y. bid_score env now bs y < bid_score env now bs b) ys" "list_all (\<lambda>z. bid_score env now bs z \<le> bid_score env now bs b) zs"
      by blast
    with bs eq show ?thesis by auto
  qed
qed

section \<open>Replayed announcements\<close>

text \<open>A node that has announced the job, holds a bid of the executor and has a runtime context.\<close>

definition can_settle :: "string \<Rightarrow> did \<Rightarrow> did \<Rightarrow> u64 \<Rightarrow> ('cid, 'node) MeshNode \<Rightarrow> bool" where
  "can_settle j e payer price nd \<longleftrightarrow>
     (\<exists>m job. hget (announced_originated_jobs nd) j = Some (m, job) \<and> mf_submitter_did m = payer) \<and> payer \<noteq> e \<and>
     (\<exists>b. winning_bid nd j e = Some b \<and> mb_price b = price) \<and> local_receipt_store nd \<noteq> None"

text \<open>The announcement of a receipt arrives, and the two tasks it spawns run.\<close>

definition deliver_receipt ::
    "('sk, 'cid, 'node) mesh_env \<Rightarrow> ('sk, bytes) KeyPair \<Rightarrow> ScopedResourceToken \<Rightarrow> (nat \<Rightarrow> 'cid oneshot) \<Rightarrow> clock_time \<Rightarrow>
      string \<Rightarrow> string \<Rightarrow> did \<Rightarrow> ('cid, 'node) MeshNode \<Rightarrow> ('cid, 'node) MeshNode" where
  "deliver_receipt env kp token channel now j c e nd =
     fold (handle_event env kp token channel now) [Gossip (ExecutionReceiptAvailableV1 j c e), RunTask 0, RunTask 0] nd"

lemma can_settle_spawned [simp]: "can_settle j e payer price (nd\<lparr>spawned := ts\<rparr>) = can_settle j e payer price nd"
  by (simp add: can_settle_def winning_bid_def)

lemma settle_fields:
  assumes "can_settle j e payer price nd" "mr_executor r = e"
  shows "trigger_economic_settlement j r nd =
    nd\<lparr>payments := payments nd @ [\<lparr>pay_job = j, pay_from = payer, pay_to = e, pay_amount = price\<rparr>]\<rparr>"
  using assms by (auto simp: can_settle_def trigger_economic_settlement_def)

lemma reputation_fields:
  "\<exists>rs. trigger_reputation_update env kp now r nd = nd\<lparr>posted := rs\<rparr>"
  unfolding trigger_reputation_update_def
  by (auto split: sum.split option.split intro: exI [of _ "posted nd"])

lemma verified_fields:
  assumes "can_settle j e payer price nd" "parse_cid env c = Some cid" "receipt_checks env cid e data = Some r"
    "channel (next_query nd) = Answer (Inr data)" "spawned nd = []"
  shows "\<exists>n. handle_receipt_available env channel j c e nd = n\<lparr>spawned := [SettlementTask j r, ReputationTask j r]\<rparr> \<and>
    can_settle j e payer price n \<and> payments n = payments nd"
proof -
  let ?n = "anchor_verified env r cid (nd\<lparr>discovered_receipt_announcements := hinsert (discovered_receipt_announcements nd) j (cid, e),
      next_query := Suc (next_query nd)\<rparr>)"
  have "handle_receipt_available env channel j c e nd = ?n\<lparr>spawned := [SettlementTask j r, ReputationTask j r]\<rparr>"
    using assms by (auto simp: can_settle_def handle_receipt_available_def fetch_receipt_cbor_via_kad_def Let_def spawn_def
        anchor_verified_def split: option.split)
  moreover have "can_settle j e payer price ?n" "payments ?n = payments nd"
    using assms(1) by (auto simp: can_settle_def anchor_verified_def winning_bid_def split: option.split)
  ultimately show ?thesis by blast
qed

lemma deliver_receipt_pays:
  assumes c: "can_settle j e payer price nd" and "parse_cid env c = Some cid" "receipt_checks env cid e data = Some r"
    and "channel (next_query nd) = Answer (Inr data)" "spawned nd = []"
  shows "can_settle j e payer price (deliver_receipt env kp token channel now j c e nd) \<and>
    spawned (deliver_receipt env kp token channel now j c e nd) = [] \<and>
    payments (deliver_receipt env kp token channel now j c e nd) =
      payments nd @ [\<lparr>pay_job = j, pay_from = payer, pay_to = e, pay_amount = price\<rparr>]"
proof -
  let ?p = "\<lparr>pay_job = j, pay_from = payer, pay_to = e, pay_amount = price\<rparr>"
  obtain n where n: "handle_receipt_available env channel j c e nd = n\<lparr>spawned := [SettlementTask j r, ReputationTask j r]\<rparr>"
    "can_settle j e payer price n" "payments n = payments nd"
    using verified_fields [where channel = channel, OF assms] by blast
  have "mr_executor r = e" using assms(3) by (simp add: receipt_checks_Some)
  with n(2,3) have s: "trigger_economic_settlement j r (n\<lparr>spawned := [ReputationTask j r]\<rparr>) =
      n\<lparr>spawned := [ReputationTask j r], payments := payments nd @ [?p]\<rparr>"
    using settle_fields [of j e payer price "n\<lparr>spawned := [ReputationTask j r]\<rparr>" r] by simp
  obtain rs where rep: "trigger_reputation_update env kp (seconds now) r (n\<lparr>payments := payments nd @ [?p], spawned := []\<rparr>) =
      n\<lparr>payments := payments nd @ [?p], spawned := [], posted := rs\<rparr>"
    using reputation_fields [of env kp "seconds now" r "n\<lparr>payments := payments nd @ [?p], spawned := []\<rparr>"] by auto
  have "deliver_receipt env kp token channel now j c e nd = n\<lparr>payments := payments nd @ [?p], spawned := [], posted := rs\<rparr>"
    by (simp add: deliver_receipt_def handle_event_def handle_message_def n(1) take_task_def run_task_def s rep)
  then show ?thesis using n(2) by (simp add: can_settle_def winning_bid_def)
qed

text \<open>What would happen if the answer to the query arrived while the handler waits for it, which the loop as it
  is written prevents: receipts could then be presented again, and for any job.  Let an executor have made a bid for a job
  this node announced, and hold any receipt that carries his own signature.  Then every announcement of that receipt for this
  job makes the node pay his price once more: after \<open>n\<close> deliveries it has requested \<open>n\<close> payments.  Neither the job the
  receipt is about nor the executor the job was assigned to is looked at.\<close>

lemma replayed_receipt_pays_again:
  assumes "can_settle j e payer price nd" "spawned nd = []" and cid: "parse_cid env c = Some cid" and r: "receipt_from_cbor env data = Inr r"
    "receipt_cid env r = Inr cid" "mr_executor r = e"
    "verify_embedded_signature (signatures env) (receipt_keys env) (receipt_cbor env) r = Inr True"
    and chan: "\<forall>q. channel q = Answer (Inr data)"
  shows "payments ((deliver_receipt env kp token channel now j c e ^^ n) nd) =
    payments nd @ replicate n \<lparr>pay_job = j, pay_from = payer, pay_to = e, pay_amount = price\<rparr>"
proof -
  have rc: "receipt_checks env cid e data = Some r" using r by (simp add: receipt_checks_Some)
  have "can_settle j e payer price ((deliver_receipt env kp token channel now j c e ^^ n) nd) \<and>
    spawned ((deliver_receipt env kp token channel now j c e ^^ n) nd) = [] \<and>
    payments ((deliver_receipt env kp token channel now j c e ^^ n) nd) =
      payments nd @ replicate n \<lparr>pay_job = j, pay_from = payer, pay_to = e, pay_amount = price\<rparr>"
    by (induction n) (use assms(1,2) deliver_receipt_pays [OF _ cid rc] chan in \<open>auto simp: replicate_append_same\<close>)
  then show ?thesis by blast
qed

section \<open>A concrete node\<close>

text \<open>An environment in which everything can be published and one receipt, of job \<open>j\<close>, verifies; it is presented for job \<open>k\<close>.\<close>

definition demo_cbor :: "MeshExecutionReceipt \<Rightarrow> string + bytes" where
  "demo_cbor x = (if x = demo_mesh_receipt then Inr [1] else Inl ''no'')"

definition demo_signed :: MeshExecutionReceipt where
  "demo_signed = demo_mesh_receipt\<lparr>mr_signature := replicate 64 1\<rparr>"

definition demo_mesh_env :: "(bytes, nat, unit) mesh_env" where
  "demo_mesh_env =
     \<lparr>encodes = (\<lambda>_. True), publishes = (\<lambda>_ _. True), subscribes = (\<lambda>_. True), direct_topic = (\<lambda>d. d),
      compute_requirements_json = (\<lambda>_. None), resources_json = (\<lambda>_. None), parse_cid = (\<lambda>_. Some 7), cid_text = (\<lambda>_. []),
      default_cid = 0, receipt_from_cbor = (\<lambda>_. Inr demo_signed), receipt_cid = (\<lambda>_. Inr 7), receipt_dag_node = (\<lambda>_. Some ()),
      receipt_outcome_of = (\<lambda>_. CompletedSuccess), signatures = demo_sign_env, receipt_keys = demo_receipt_env,
      receipt_cbor = demo_cbor, record_cbor = (\<lambda>_. Inr []), bidder_profile = (\<lambda>_. None), rounding = (\<lambda>x. x)\<rparr>"

definition demo_mesh_job :: NodeJob where
  "demo_mesh_job = \<lparr>nj_job_id = ''k'', nj_originator_did = ''o'', nj_originator_org_scope = None, nj_required_resources_json = [],
     nj_resources_required = [], nj_max_execution_time_secs = None, nj_description = None, nj_wasm_cid = [], nj_ccl_cid = None,
     nj_input_data_cid = None, nj_output_location = None, nj_trust_requirements = []\<rparr>"

definition demo_keys :: "(bytes, bytes) KeyPair" where
  "demo_keys = \<lparr>kp_did = ''o'', kp_pk = [], kp_sk = []\<rparr>"

definition demo_token :: ScopedResourceToken where
  "demo_token = \<lparr>resource_type = [], amount = 0, scope = [], expires_at = None, issuer = None\<rparr>"

definition demo_now :: clock_time where "demo_now = \<lparr>seconds = 0, unix_time = 0\<rparr>"

text \<open>The node after announcing the job and receiving one bid.\<close>

definition demo_mesh_node :: "(nat, unit) MeshNode" where
  "demo_mesh_node = fold (handle_event demo_mesh_env demo_keys demo_token (\<lambda>_. TimedOut) demo_now)
     [Enqueue demo_mesh_job, JobQueueTick, Gossip (JobBidV1 ''k'' ''did:key:z'' 5 None None)] (MeshNode_new ''o'' (Some []) None)"

lemma demo_published [simp]: "encodes demo_mesh_env m" "publishes demo_mesh_env t m" "subscribes demo_mesh_env t"
  by (simp_all add: demo_mesh_env_def)

lemma demo_node_run: "mesh_run demo_mesh_env demo_keys demo_token demo_mesh_node"
  by (simp add: demo_mesh_node_def mesh_run.intros)

lemma demo_signed_verified:
  "verify_embedded_signature (signatures demo_mesh_env) (receipt_keys demo_mesh_env) (receipt_cbor demo_mesh_env) demo_signed = Inr True"
proof -
  have "demo_signed\<lparr>mr_signature := []\<rparr> = demo_mesh_receipt" by (simp add: demo_signed_def demo_mesh_receipt_def)
  then have "demo_cbor (demo_signed\<lparr>mr_signature := []\<rparr>) = Inr [1]" by (simp add: demo_cbor_def)
  moreover have "mr_executor demo_signed = ''did:key:z''" "mr_signature demo_signed = replicate 64 1"
    by (simp_all add: demo_signed_def demo_mesh_receipt_def)
  ultimately show ?thesis
    by (simp add: demo_mesh_env_def verify_embedded_signature_def get_receipt_signing_payload_def demo_executor_key)
      (simp add: demo_sign_env_def sum_list_replicate)
qed

lemma demo_node_settles: "can_settle ''k'' ''did:key:z'' ''o'' 5 demo_mesh_node" "spawned demo_mesh_node = []" "payments demo_mesh_node = []"
  by (simp_all add: demo_mesh_node_def can_settle_def handle_event_def job_queue_tick_def announce_job_def publish_def subscribe_def
      demo_mesh_env_def demo_mesh_job_def manifest_of_def handle_message_def handle_bid_def MeshNode_new_def winning_bid_def
      hget_or_def hget_def hinsert_def demo_now_def Let_def)

lemma replayed_receipt_pays_again_witness:
  "payments ((deliver_receipt demo_mesh_env demo_keys demo_token (\<lambda>_. Answer (Inr [])) demo_now ''k'' ''c'' ''did:key:z'' ^^ 3) demo_mesh_node) =
     replicate 3 \<lparr>pay_job = ''k'', pay_from = ''o'', pay_to = ''did:key:z'', pay_amount = 5\<rparr> \<and> mr_job_id demo_signed = ''j''"
  using replayed_receipt_pays_again [OF demo_node_settles(1,2), where env = demo_mesh_env and c = "''c''" and cid = 7 and data = "[]"
      and r = demo_signed and channel = "\<lambda>_. Answer (Inr [])" and kp = demo_keys and token = demo_token and now = demo_now and n = 3] demo_signed_verified demo_node_settles(3)
  by (simp add: demo_mesh_env_def demo_signed_def demo_mesh_receipt_def)

definition demo_paid :: "(nat, unit) MeshNode" where
  "demo_paid = deliver_receipt demo_mesh_env demo_keys demo_token (\<lambda>_. Answer (Inr [])) demo_now ''k'' ''c'' ''did:key:z'' demo_mesh_node"

theorem payments_backed_witness:
  "\<lparr>pay_job = ''k'', pay_from = ''o'', pay_to = ''did:key:z'', pay_amount = 5\<rparr> \<in> set (payments demo_paid) \<and>
   (\<exists>b \<in> set (hget_or [] (node_bids demo_paid) ''k''). mb_bidder b = ''did:key:z'' \<and> mb_price b = 5)"
proof -
  have run: "mesh_run demo_mesh_env demo_keys demo_token demo_paid"
    by (simp add: demo_paid_def deliver_receipt_def demo_node_run mesh_run.intros)
  have "receipt_checks demo_mesh_env 7 ''did:key:z'' [] = Some demo_signed"
    unfolding receipt_checks_Some using demo_signed_verified by (simp add: demo_mesh_env_def demo_signed_def demo_mesh_receipt_def)
  then have "payments demo_paid = [\<lparr>pay_job = ''k'', pay_from = ''o'', pay_to = ''did:key:z'', pay_amount = 5\<rparr>]"
    unfolding demo_paid_def
    using deliver_receipt_pays [OF demo_node_settles(1), where env = demo_mesh_env and cid = 7 and channel = "\<lambda>_. Answer (Inr [])"]
      demo_node_settles by (simp add: demo_mesh_env_def)
  with payments_backed [OF run, of "\<lparr>pay_job = ''k'', pay_from = ''o'', pay_to = ''did:key:z'', pay_amount = 5\<rparr>"]
  show ?thesis by simp
qed

lemma demo_selected:
  "''k'' \<in> set (assigned_by_originator (handle_event demo_mesh_env demo_keys demo_token (\<lambda>_. TimedOut) demo_now SelectionTick demo_mesh_node))"
proof -
  have "F64_MIN < bid_score demo_mesh_env 0 [b] b" if "mb_bidder b = ''did:key:z''" for b
    by (simp add: F64_MIN_def bid_score_def demo_mesh_env_def normalized_price_def saturating_sub_def mesh_bid_score_def
        MeshEvaluatorConfig_default_def neutral_profile_def timeliness_score_def Let_def)
  then show ?thesis
    by (simp add: demo_mesh_node_def handle_event_def job_queue_tick_def announce_job_def publish_def subscribe_def demo_mesh_job_def
        manifest_of_def handle_message_def handle_bid_def MeshNode_new_def hget_or_def hget_def hinsert_def demo_now_def Let_def
        executor_selection_tick_def assignments_to_make_def select_bid_for_def make_assignment_def assign_job_to_executor_def spawn_def)
qed

theorem jobs_assigned_once_witness:
  "length (filter (\<lambda>m. case snd m of AssignJobV1 j' _ _ _ \<Rightarrow> j' = ''k'' | _ \<Rightarrow> False)
     (published (handle_event demo_mesh_env demo_keys demo_token (\<lambda>_. TimedOut) demo_now SelectionTick demo_mesh_node))) = 1"
  using jobs_assigned_once [OF mesh_run.event [OF demo_node_run], of "''k''"] demo_selected by simp

section \<open>What the loop never does\<close>

fun follow_up :: "task \<Rightarrow> bool" where
  "follow_up (SettlementTask _ _) = True"
| "follow_up (ReputationTask _ _) = True"
| "follow_up _ = False"

definition is_bid :: "string \<times> NodeMessage \<Rightarrow> bool" where
  "is_bid m = (case snd m of JobBidV1 _ _ _ _ _ \<Rightarrow> True | _ \<Rightarrow> False)"

text \<open>No receipt has been fetched: nothing is on the channel of a query, and nothing that follows a verification has happened.\<close>

definition unfetched :: "('cid, 'node) hmap option \<Rightarrow> ('cid, 'node) MeshNode \<Rightarrow> bool" where
  "unfetched store nd \<longleftrightarrow>
     answered nd = [] \<and> receipt_queries nd = [] \<and> payments nd = [] \<and> posted nd = [] \<and> local_receipt_store nd = store \<and>
     completed_job_receipt_cids nd = [] \<and> actions nd = [] \<and> list_all (\<lambda>t. \<not> follow_up t) (spawned nd) \<and>
     list_all (\<lambda>m. \<not> is_bid m) (published nd)"

lemma unfetched_publish: "unfetched store nd \<Longrightarrow> \<not> is_bid (topic, m) \<Longrightarrow> unfetched store (snd (publish env topic m nd))"
  by (simp add: publish_def unfetched_def)

lemma unfetched_announce: "unfetched store nd \<Longrightarrow> unfetched store (snd (announce_job env token now job nd))"
  by (auto simp: announce_job_def publish_def subscribe_def unfetched_def is_bid_def Let_def)

lemma unfetched_queue: "unfetched store nd \<Longrightarrow> unfetched store (job_queue_tick env token now nd)"
proof -
  have "unfetched store n \<Longrightarrow> unfetched store (fold (\<lambda>job n. snd (announce_job env token now job n)) jobs n)" for jobs n
    by (induction jobs arbitrary: n) (auto intro: unfetched_announce)
  then show "unfetched store nd \<Longrightarrow> ?thesis" by (simp add: job_queue_tick_def unfetched_def)
qed

lemma unfetched_assign: "unfetched store nd \<Longrightarrow> unfetched store (make_assignment env a nd)"
  by (cases a) (simp add: make_assignment_def assign_job_to_executor_def publish_def subscribe_def spawn_def unfetched_def is_bid_def)

lemma unfetched_select: "unfetched store nd \<Longrightarrow> unfetched store (executor_selection_tick env now nd)"
proof -
  have "unfetched store n \<Longrightarrow> unfetched store (fold (make_assignment env) as n)" for as n
    by (induction as arbitrary: n) (auto intro: unfetched_assign)
  then show "unfetched store nd \<Longrightarrow> ?thesis" by (simp add: executor_selection_tick_def)
qed

lemma unfetched_receipt: "unfetched store nd \<Longrightarrow> unfetched store (handle_receipt_available env (awaited nd) j c e nd)"
  by (simp add: handle_receipt_available_def fetch_receipt_cbor_via_kad_def awaited_def unfetched_def Let_def split: option.split)

lemma unfetched_message:
  assumes "unfetched store nd" shows "unfetched store (handle_message env (awaited nd) now msg nd)"
proof (cases msg)
  case (ExecutionReceiptAvailableV1 j c e)
  with assms show ?thesis by (simp add: handle_message_def unfetched_receipt)
qed (use assms in \<open>auto simp: handle_message_def handle_announcement_def handle_interest_def handle_assignment_def handle_bid_def
      handle_status_update_def publish_def spawn_def unfetched_def is_bid_def split: NodeJobStatus.split\<close>)

lemma unfetched_task:
  assumes "unfetched store nd" "i < length (spawned nd)"
  shows "unfetched store (run_task env kp now (spawned nd ! i) (take_task i nd))"
proof -
  have "\<not> follow_up (spawned nd ! i)" using assms by (simp add: unfetched_def list_all_length)
  moreover have "unfetched store (take_task i nd)"
    using assms(1) by (auto simp: unfetched_def take_task_def list_all_iff dest: in_set_takeD in_set_dropD)
  ultimately show ?thesis
    by (cases "spawned nd ! i") (simp_all add: run_task_def evaluate_and_express_interest_def unfetched_publish is_bid_def)
qed

lemma unfetched_event:
  assumes "unfetched store nd" shows "unfetched store (handle_event env kp token (awaited nd) now ev nd)"
proof (cases ev)
  case (Kademlia k)
  with assms show ?thesis by (simp add: handle_event_def handle_kad_def answer_query_def unfetched_def split: kad_event.split)
next
  case InternalAction
  with assms show ?thesis by (simp add: handle_event_def unfetched_def)
next
  case CapabilitiesTick
  with assms show ?thesis by (simp add: handle_event_def broadcast_capabilities_def unfetched_publish is_bid_def)
next
  case (Enqueue job)
  with assms show ?thesis by (simp add: handle_event_def unfetched_def)
qed (use assms in \<open>auto simp: handle_event_def unfetched_queue unfetched_select unfetched_message unfetched_task\<close>)

text \<open>C37: the event loop never completes a job.  The handler of a receipt announcement waits for the answer to its query inside
  the loop that would have to deliver the answer, so that every fetch ends with a timeout.  Whatever events a node
  handles from its start on, it never stores a receipt, requests no payment, posts no reputation record and announces no
  receipt of its own; nor does it ever send a bid.\<close>

theorem loop_never_settles:
  "payments (run_event_loop env kp token evs (MeshNode_new d store url)) = [] \<and>
   posted (run_event_loop env kp token evs (MeshNode_new d store url)) = [] \<and>
   local_receipt_store (run_event_loop env kp token evs (MeshNode_new d store url)) = store \<and>
   completed_job_receipt_cids (run_event_loop env kp token evs (MeshNode_new d store url)) = [] \<and>
   (topic, JobBidV1 j bidder price comment region) \<notin> set (published (run_event_loop env kp token evs (MeshNode_new d store url)))"
proof -
  have "unfetched store n \<Longrightarrow> unfetched store (run_event_loop env kp token evs n)" for n
    by (induction evs arbitrary: n) (auto simp: run_event_loop_def unfetched_event)
  moreover have "unfetched store (MeshNode_new d store url)" by (simp add: unfetched_def MeshNode_new_def)
  ultimately have "unfetched store (run_event_loop env kp token evs (MeshNode_new d store url))" by blast
  then show ?thesis by (auto simp: unfetched_def list_all_iff is_bid_def)
qed

end
