(* ===== verification/Reputation_Service.thy ===== *)
theory Reputation_Service
  imports Reputation_Client "HOL-Library.Multiset" "HOL-Library.List_Lexorder" "HOL-Library.Char_ord"
begin

text \<open>
  The reputation service, \<open>crates/services/icn-reputation/src\<close>: the store of \<open>storage.rs\<close>, which keeps the records of every
  node and the profile they add up to, and the handlers of \<open>main.rs\<close> that list profiles and the history of a score.

  The records are those of \<open>Reputation_Client\<close>.  A record is applied at the time the service receives it (\<open>now\<close>), and its
  own time is what the handlers read as \<open>issued_at\<close>.  Requests overlap, and a submission takes its two locks one after the
  other, so that submissions are interleaved at that point.
\<close>

section \<open>The store\<close>

record 'cid InMemoryReputationStore =
  st_profiles :: "(did, 'cid ReputationProfile) hmap"
  st_records :: "(did, 'cid EventRecord list) hmap"

definition InMemoryReputationStore_new :: "'cid InMemoryReputationStore" where
  "InMemoryReputationStore_new = \<lparr>st_profiles = [], st_records = []\<rparr>"

definition initial_profile :: "(real \<Rightarrow> real) \<Rightarrow> (real \<Rightarrow> real) \<Rightarrow> 'cid EventRecord \<Rightarrow> 'cid ReputationProfile" where
  "initial_profile fl ln_f r =
     (let p = \<lparr>node_id = er_subject r, last_updated = er_timestamp r, total_jobs = 0, successful_jobs = 0, failed_jobs = 0,
          jobs_on_time = 0, jobs_late = 0, average_execution_ms = None, average_bid_accuracy = None, dishonesty_events = 0,
          endorsements = [], current_stake = None, computed_score = 0, latest_anchor_cid = None, mana_state = None\<rparr>
      in p\<lparr>computed_score := compute_score fl ln_f p\<rparr>)"

text \<open>Applying a record to a profile: the event, the new score, the anchor if there is one.\<close>

definition update_profile ::
    "(real \<Rightarrow> real) \<Rightarrow> (real \<Rightarrow> real) \<Rightarrow> (real \<Rightarrow> real) \<Rightarrow> u64 \<Rightarrow> 'cid EventRecord \<Rightarrow> 'cid ReputationProfile \<Rightarrow> 'cid ReputationProfile" where
  "update_profile fl fl32 ln_f now r p =
     (let p1 = apply_event fl32 now p (er_event r); p2 = p1\<lparr>computed_score := compute_score fl ln_f p1\<rparr>
      in if er_anchor r = None then p2 else p2\<lparr>latest_anchor_cid := er_anchor r\<rparr>)"

text \<open>\<open>submit_record\<close> takes two locks one after the other: the record is written to the log, the lock of the log is released, and
  then the profile is updated under its own lock.  Each part is one step; other submissions may come between them.\<close>

definition log_record :: "'cid EventRecord \<Rightarrow> 'cid InMemoryReputationStore \<Rightarrow> 'cid InMemoryReputationStore" where
  "log_record r st = st\<lparr>st_records := hinsert (st_records st) (er_subject r) (hget_or [] (st_records st) (er_subject r) @ [r])\<rparr>"

definition apply_record ::
    "(real \<Rightarrow> real) \<Rightarrow> (real \<Rightarrow> real) \<Rightarrow> (real \<Rightarrow> real) \<Rightarrow> u64 \<Rightarrow> 'cid EventRecord \<Rightarrow> 'cid InMemoryReputationStore \<Rightarrow> 'cid InMemoryReputationStore" where
  "apply_record fl fl32 ln_f now r st =
     (let p = hget_or (initial_profile fl ln_f r) (st_profiles st) (er_subject r)
      in st\<lparr>st_profiles := hinsert (st_profiles st) (er_subject r) (update_profile fl fl32 ln_f now r p)\<rparr>)"

definition store_submit_record ::
    "(real \<Rightarrow> real) \<Rightarrow> (real \<Rightarrow> real) \<Rightarrow> (real \<Rightarrow> real) \<Rightarrow> u64 \<Rightarrow> 'cid EventRecord \<Rightarrow> 'cid InMemoryReputationStore \<Rightarrow> 'cid InMemoryReputationStore" where
  "store_submit_record fl fl32 ln_f now r st = apply_record fl fl32 ln_f now r (log_record r st)"

definition get_profile :: "'cid InMemoryReputationStore \<Rightarrow> did \<Rightarrow> 'cid ReputationProfile option" where
  "get_profile st d = hget (st_profiles st) d"

definition list_records :: "'cid InMemoryReputationStore \<Rightarrow> did \<Rightarrow> 'cid EventRecord list" where
  "list_records st d = hget_or [] (st_records st) d"

definition list_all_records :: "'cid InMemoryReputationStore \<Rightarrow> 'cid EventRecord list" where
  "list_all_records st = concat (hvalues (st_records st))"

section \<open>Handlers\<close>

definition submit_record_handler ::
    "(real \<Rightarrow> real) \<Rightarrow> (real \<Rightarrow> real) \<Rightarrow> (real \<Rightarrow> real) \<Rightarrow> u64 \<Rightarrow> 'cid EventRecord \<Rightarrow> 'cid InMemoryReputationStore \<Rightarrow> nat \<times> 'cid InMemoryReputationStore" where
  "submit_record_handler fl fl32 ln_f now r st = (201, store_submit_record fl fl32 ln_f now r st)"

definition get_profile_handler :: "'cid InMemoryReputationStore \<Rightarrow> did \<Rightarrow> nat + 'cid ReputationProfile" where
  "get_profile_handler st d = (case get_profile st d of Some p \<Rightarrow> Inr p | None \<Rightarrow> Inl 404)"

definition get_records_handler :: "'cid InMemoryReputationStore \<Rightarrow> did \<Rightarrow> 'cid EventRecord list" where
  "get_records_handler st d = list_records st d"

record ReputationProfileParams =
  min_score :: "real option"
  max_score :: "real option"
  did_filter :: "string option"
  sort_by :: "string option"

record ReputationProfileSummary =
  sm_did :: did
  sm_score :: real
  sm_successful_jobs :: nat
  sm_failed_jobs :: nat
  sm_last_updated :: "u64 option"

definition group_records :: "'cid EventRecord list \<Rightarrow> (did, 'cid EventRecord list) hmap" where
  "group_records rs = fold (\<lambda>r m. hinsert m (er_subject r) (hget_or [] m (er_subject r) @ [r])) rs []"

definition is_success_event :: "'cid EventRecord \<Rightarrow> bool" where
  "is_success_event r \<longleftrightarrow> completed (er_event r) \<noteq> None"

definition is_failure_event :: "'cid EventRecord \<Rightarrow> bool" where
  "is_failure_event r \<longleftrightarrow> is_failure (er_event r)"

definition summary_of :: "(real \<Rightarrow> real) \<Rightarrow> did \<times> 'cid EventRecord list \<Rightarrow> ReputationProfileSummary" where
  "summary_of fl x =
     (case x of (d, rs) \<Rightarrow>
        (let successful = length (filter is_success_event rs); failed = length (filter is_failure_event rs);
             raw = fl (fl (50 + fl (fl (real successful) * 10)) - fl (fl (real failed) * 15));
             score = min (max raw 0) 100
         in \<lparr>sm_did = d, sm_score = (if successful = 0 \<and> failed = 0 then 50 else score), sm_successful_jobs = successful,
             sm_failed_jobs = failed, sm_last_updated = (if rs = [] then None else Some (Max (er_timestamp ` set rs)))\<rparr>))"

definition retain :: "('a \<Rightarrow> 'b \<Rightarrow> bool) \<Rightarrow> 'a option \<Rightarrow> 'b list \<Rightarrow> 'b list" where
  "retain P x ps = (case x of None \<Rightarrow> ps | Some v \<Rightarrow> filter (P v) ps)"

definition sort_profiles :: "string option \<Rightarrow> ReputationProfileSummary list \<Rightarrow> ReputationProfileSummary list" where
  "sort_profiles by_field ps =
     (if by_field = Some ''updated_at'' then
        sort_key (\<lambda>p. - int (unat (case sm_last_updated p of Some t \<Rightarrow> t | None \<Rightarrow> 0))) ps
      else if by_field = Some ''did'' then sort_key sm_did ps
      else sort_key (\<lambda>p. - sm_score p) ps)"

definition get_all_reputation_profiles_handler ::
    "(real \<Rightarrow> real) \<Rightarrow> 'cid InMemoryReputationStore \<Rightarrow> ReputationProfileParams \<Rightarrow> ReputationProfileSummary list" where
  "get_all_reputation_profiles_handler fl st params =
     sort_profiles (sort_by params)
       (retain (\<lambda>d p. sm_did p = d) (did_filter params)
         (retain (\<lambda>m p. sm_score p \<le> m) (max_score params)
           (retain (\<lambda>m p. m \<le> sm_score p) (min_score params) (map (summary_of fl) (group_records (list_all_records st))))))"

fun history_points :: "(real \<Rightarrow> real) \<Rightarrow> real \<Rightarrow> 'cid EventRecord list \<Rightarrow> (u64 \<times> real) list" where
  "history_points fl score [] = []"
| "history_points fl score (r # rs) =
     (let changed = (if is_success_event r then fl (score + 10) else if is_failure_event r then fl (score - 15) else score);
          score' = max 0 (min 100 changed)
      in (er_timestamp r, score') # history_points fl score' rs)"

definition get_reputation_profile_history_handler :: "(real \<Rightarrow> real) \<Rightarrow> 'cid InMemoryReputationStore \<Rightarrow> did \<Rightarrow> (u64 \<times> real) list" where
  "get_reputation_profile_history_handler fl st d = history_points fl 50 (sort_key er_timestamp (list_records st d))"

section \<open>Properties\<close>

type_synonym 'cid submission = "u64 \<times> 'cid EventRecord"

text \<open>Overlapping submissions: a record is logged, and any record that waits for the lock of the profiles may be the next to
  be applied.  The state holds the waiting records, the store and, for the statements only, what was applied so far.\<close>

datatype 'cid store_step = Logged "'cid EventRecord" | Applied nat u64

type_synonym 'cid submissions = "'cid EventRecord list \<times> 'cid submission list \<times> 'cid InMemoryReputationStore"

fun submission_step ::
    "(real \<Rightarrow> real) \<Rightarrow> (real \<Rightarrow> real) \<Rightarrow> (real \<Rightarrow> real) \<Rightarrow> 'cid store_step \<Rightarrow> 'cid submissions \<Rightarrow> 'cid submissions" where
  "submission_step fl fl32 ln_f (Logged r) (waiting, applied, st) = (waiting @ [r], applied, log_record r st)"
| "submission_step fl fl32 ln_f (Applied i now) (waiting, applied, st) =
     (if i < length waiting then
        (take i waiting @ drop (Suc i) waiting, applied @ [(now, waiting ! i)], apply_record fl fl32 ln_f now (waiting ! i) st)
      else (waiting, applied, st))"

definition submissions ::
    "(real \<Rightarrow> real) \<Rightarrow> (real \<Rightarrow> real) \<Rightarrow> (real \<Rightarrow> real) \<Rightarrow> 'cid store_step list \<Rightarrow> 'cid submissions" where
  "submissions fl fl32 ln_f steps = fold (submission_step fl fl32 ln_f) steps ([], [], InMemoryReputationStore_new)"

definition received :: "did \<Rightarrow> 'cid store_step list \<Rightarrow> 'cid EventRecord list" where
  "received d steps = concat (map (\<lambda>x. case x of Logged r \<Rightarrow> if er_subject r = d then [r] else [] | Applied _ _ \<Rightarrow> []) steps)"

lemma submit_alone:
  "submission_step fl fl32 ln_f (Applied (length w) now) (submission_step fl fl32 ln_f (Logged r) (w, a, st)) =
     (w, a @ [(now, r)], store_submit_record fl fl32 ln_f now r st)"
  by (simp add: store_submit_record_def)

definition about :: "did \<Rightarrow> 'cid submission list \<Rightarrow> 'cid submission list" where
  "about d ops = filter (\<lambda>(now, r). er_subject r = d) ops"

text \<open>The part of a profile that the events determine.\<close>

definition metrics_of :: "'cid ReputationProfile \<Rightarrow> 'cid ReputationProfile" where
  "metrics_of p = p\<lparr>computed_score := 0, latest_anchor_cid := None\<rparr>"

lemma metrics_apply_event: "metrics_of p = metrics_of q \<Longrightarrow> metrics_of (apply_event fl32 now p e) = metrics_of (apply_event fl32 now q e)"
  by (cases p; cases q; cases e) (simp_all add: metrics_of_def apply_event_def Let_def)

lemma compute_score_metrics: "metrics_of p = metrics_of q \<Longrightarrow> compute_score fl ln_f p = compute_score fl ln_f q"
  by (cases p; cases q) (simp add: metrics_of_def compute_score_def score_gains_def)

lemma update_profile_score: "computed_score (update_profile fl fl32 ln_f now r p) = compute_score fl ln_f (update_profile fl fl32 ln_f now r p)"
proof -
  let ?p1 = "apply_event fl32 now p (er_event r)"
  have "compute_score fl ln_f ?p1 = compute_score fl ln_f (update_profile fl fl32 ln_f now r p)"
    by (rule compute_score_metrics) (simp add: update_profile_def metrics_of_def Let_def)
  then show ?thesis by (simp add: update_profile_def Let_def split: if_splits)
qed

lemma update_profile_metrics: "metrics_of (update_profile fl fl32 ln_f now r p) = metrics_of (apply_event fl32 now p (er_event r))"
  by (simp add: update_profile_def metrics_of_def Let_def)

text \<open>The history of events in the form of \<open>Reputation\<close>, and the last anchor.\<close>

definition events_of :: "'cid submission list \<Rightarrow> 'cid history" where
  "events_of ops = map (\<lambda>(now, r). (er_event r, now)) ops"

fun last_anchor :: "'cid submission list \<Rightarrow> 'cid option" where
  "last_anchor [] = None"
| "last_anchor ((now, r) # ops) = (case last_anchor ops of Some c \<Rightarrow> Some c | None \<Rightarrow> er_anchor r)"

lemma last_anchor_snoc: "last_anchor (ops @ [(now, r)]) = (case er_anchor r of Some c \<Rightarrow> Some c | None \<Rightarrow> last_anchor ops)"
  by (induction ops rule: last_anchor.induct) (auto split: option.split)

definition profile_of_log ::
    "(real \<Rightarrow> real) \<Rightarrow> (real \<Rightarrow> real) \<Rightarrow> (real \<Rightarrow> real) \<Rightarrow> 'cid submission list \<Rightarrow> 'cid ReputationProfile \<Rightarrow> bool" where
  "profile_of_log fl fl32 ln_f ops p \<longleftrightarrow>
     metrics_of p = metrics_of (apply_events fl32 (initial_profile fl ln_f (snd (hd ops))) (events_of ops)) \<and>
     computed_score p = compute_score fl ln_f p \<and> latest_anchor_cid p = last_anchor ops"

lemma profile_of_log_step:
  assumes "ops = [] \<and> p = initial_profile fl ln_f r \<or> ops \<noteq> [] \<and> profile_of_log fl fl32 ln_f ops p"
  shows "profile_of_log fl fl32 ln_f (ops @ [(now, r)]) (update_profile fl fl32 ln_f now r p)"
proof -
  have hd: "snd (hd (ops @ [(now, r)])) = (if ops = [] then r else snd (hd ops))" by simp
  have m: "metrics_of p = metrics_of (apply_events fl32 (initial_profile fl ln_f (snd (hd (ops @ [(now, r)])))) (events_of ops))"
    using assms by (auto simp: profile_of_log_def events_of_def)
  have "latest_anchor_cid p = last_anchor ops"
    using assms by (auto simp: profile_of_log_def initial_profile_def Let_def)
  moreover have "latest_anchor_cid (apply_event fl32 now p e) = latest_anchor_cid p" for e
    by (cases e) (simp_all add: apply_event_def Let_def)
  ultimately have "latest_anchor_cid (update_profile fl fl32 ln_f now r p) = last_anchor (ops @ [(now, r)])"
    by (auto simp: update_profile_def last_anchor_snoc Let_def)
  moreover have "metrics_of (update_profile fl fl32 ln_f now r p) =
      metrics_of (apply_events fl32 (initial_profile fl ln_f (snd (hd (ops @ [(now, r)])))) (events_of (ops @ [(now, r)])))"
    using metrics_apply_event [OF m] by (simp add: update_profile_metrics apply_events_def events_of_def)
  ultimately show ?thesis by (simp add: profile_of_log_def update_profile_score)
qed

text \<open>The records of one node in a store.\<close>

lemma log_record_simps [simp]:
  "list_records (log_record r st) d = list_records st d @ (if er_subject r = d then [r] else [])"
  "get_profile (log_record r st) d = get_profile st d"
  by (simp_all add: log_record_def list_records_def get_profile_def hmap_simps)

lemma apply_record_simps [simp]:
  "list_records (apply_record fl fl32 ln_f now r st) d = list_records st d"
  "get_profile (apply_record fl fl32 ln_f now r st) d =
     (if er_subject r = d
      then Some (update_profile fl fl32 ln_f now r (case get_profile st d of Some p \<Rightarrow> p | None \<Rightarrow> initial_profile fl ln_f r))
      else get_profile st d)"
  by (simp_all add: apply_record_def list_records_def get_profile_def hmap_simps hget_or_def Let_def)

definition replays ::
    "(real \<Rightarrow> real) \<Rightarrow> (real \<Rightarrow> real) \<Rightarrow> (real \<Rightarrow> real) \<Rightarrow> 'cid submission list \<Rightarrow> 'cid ReputationProfile option \<Rightarrow> bool" where
  "replays fl fl32 ln_f ops x =
     (case x of None \<Rightarrow> ops = [] | Some p \<Rightarrow> ops \<noteq> [] \<and> profile_of_log fl fl32 ln_f ops p)"

lemma replays_step:
  assumes "replays fl fl32 ln_f ops x"
  shows "replays fl fl32 ln_f (ops @ [(now, r)])
    (Some (update_profile fl fl32 ln_f now r (case x of Some p \<Rightarrow> p | None \<Rightarrow> initial_profile fl ln_f r)))"
  using assms profile_of_log_step [of ops _ fl ln_f r fl32 now] by (auto simp: replays_def split: option.splits)

lemma about_snoc: "about d (ops @ [(now, r)]) = about d ops @ (if er_subject r = d then [(now, r)] else [])"
  by (simp add: about_def)

lemma received_snoc:
  "received d (steps @ [Logged r]) = received d steps @ (if er_subject r = d then [r] else [])"
  "received d (steps @ [Applied i now]) = received d steps"
  by (simp_all add: received_def)

lemma mset_take_drop:
  "i < length xs \<Longrightarrow> mset (filter P (take i xs @ drop (Suc i) xs)) + mset (if P (xs ! i) then [xs ! i] else []) = mset (filter P xs)"
  by (subst (5) id_take_nth_drop [of i xs]) simp_all

definition submissions_ok ::
    "(real \<Rightarrow> real) \<Rightarrow> (real \<Rightarrow> real) \<Rightarrow> (real \<Rightarrow> real) \<Rightarrow> did \<Rightarrow> 'cid store_step list \<Rightarrow> 'cid submissions \<Rightarrow> bool" where
  "submissions_ok fl fl32 ln_f d steps x =
     (case x of (waiting, applied, st) \<Rightarrow>
        list_records st d = received d steps \<and>
        mset (received d steps) = mset (map snd (about d applied)) + mset (filter (\<lambda>r. er_subject r = d) waiting) \<and>
        replays fl fl32 ln_f (about d applied) (get_profile st d))"

lemma submissions_ok_step:
  assumes "submissions_ok fl fl32 ln_f d steps x"
  shows "submissions_ok fl fl32 ln_f d (steps @ [e]) (submission_step fl fl32 ln_f e x)"
proof -
  obtain w a st where x: "x = (w, a, st)" by (cases x) auto
  note ok = assms [unfolded x submissions_ok_def prod.case]
  show ?thesis
  proof (cases e)
    case (Logged r)
    with ok show ?thesis by (simp add: x submissions_ok_def received_snoc)
  next
    case (Applied i now)
    show ?thesis
    proof (cases "i < length w")
      case True
      have "mset (filter (\<lambda>r. er_subject r = d) w) = mset (filter (\<lambda>r. er_subject r = d) (take i w @ drop (Suc i) w)) +
          mset (if er_subject (w ! i) = d then [w ! i] else [])"
        using mset_take_drop [OF True, of "\<lambda>r. er_subject r = d"] by simp
      with True ok replays_step [of fl fl32 ln_f "about d a" "get_profile st d" now "w ! i"] show ?thesis
        by (simp add: x Applied submissions_ok_def received_snoc about_snoc)
    next
      case False
      with ok show ?thesis by (simp add: x Applied submissions_ok_def received_snoc)
    qed
  qed
qed

lemma submissions_ok_always: "submissions_ok fl fl32 ln_f d steps (submissions fl fl32 ln_f steps)"
proof (induction steps rule: rev_induct)
  case Nil
  then show ?case
    by (simp add: submissions_def submissions_ok_def InMemoryReputationStore_new_def list_records_def get_profile_def about_def
        received_def replays_def hget_or_def)
next
  case (snoc e steps)
  from submissions_ok_step [OF this, of e] show ?case by (simp add: submissions_def)
qed

text \<open>C39: the stored profiles are what the records add up to, however submissions overlap.  After any interleaving of
  submissions, each of which writes its record to the log and later, under another lock, applies it: the records listed
  for a node are exactly those received about it, in the order in which they were written; each of them has been applied
  exactly once or still waits to be; a node has a profile exactly when a record about it has been applied; and its
  metrics are those of replaying the events of these records in the order in which they were applied, its score the score
  of these metrics, and its anchor the last one an applied record carried.\<close>

theorem profiles_replay_records:
  "case submissions fl fl32 ln_f steps of (waiting, applied, st) \<Rightarrow>
     list_records st d = received d steps \<and>
     mset (received d steps) = mset (map snd (about d applied)) + mset (filter (\<lambda>r. er_subject r = d) waiting) \<and>
     (case get_profile st d of
        None \<Rightarrow> about d applied = []
      | Some p \<Rightarrow> about d applied \<noteq> [] \<and>
          metrics_of p =
            metrics_of (apply_events fl32 (initial_profile fl ln_f (snd (hd (about d applied)))) (events_of (about d applied))) \<and>
          computed_score p = compute_score fl ln_f p \<and> latest_anchor_cid p = last_anchor (about d applied))"
  using submissions_ok_always [of fl fl32 ln_f d steps]
  by (simp add: submissions_ok_def replays_def profile_of_log_def split: prod.splits cong: option.case_cong)

text \<open>When no record about a node waits, the counters of its profile are those of the log: they do not depend on the order.\<close>

lemma count_events_of: "count_events P (events_of ops) = length (filter (\<lambda>r. P (er_event r)) (map snd ops))"
  by (induction ops) (auto simp: events_of_def)

lemma settled_counters:
  assumes "submissions fl fl32 ln_f steps = (waiting, applied, st)" "\<forall>r\<in>set waiting. er_subject r \<noteq> d"
    and "length (received d steps) < 2 ^ 64" "get_profile st d = Some p"
  shows "unat (total_jobs p) = length (filter (\<lambda>r. job_event (er_event r)) (list_records st d)) \<and>
    unat (successful_jobs p) = length (filter is_success_event (list_records st d)) \<and>
    unat (failed_jobs p) = length (filter is_failure_event (list_records st d))"
proof -
  let ?as = "about d applied" and ?i = "initial_profile fl ln_f (snd (hd (about d applied)))"
  have ok: "list_records st d = received d steps" "mset (received d steps) = mset (map snd ?as)"
    and m: "metrics_of p = metrics_of (apply_events fl32 ?i (events_of ?as))"
    using submissions_ok_always [of fl fl32 ln_f d steps] assms
    by (simp_all add: submissions_ok_def replays_def profile_of_log_def filter_empty_conv)
  have count: "length (filter P (list_records st d)) = length (filter P (map snd ?as))" for P
    using ok by (metis mset_filter size_mset)
  have "length ?as < 2 ^ 64" using assms(3) ok(2) by (metis length_map size_mset)
  then have "unat (total_jobs ?i) + length (events_of ?as) < 2 ^ 64" "counters_ok ?i"
    by (simp_all add: initial_profile_def counters_ok_def events_of_def Let_def)
  note c = apply_events_counters [OF this(2) this(1), of fl32]
  have "total_jobs p = total_jobs (metrics_of p)" "successful_jobs p = successful_jobs (metrics_of p)"
    "failed_jobs p = failed_jobs (metrics_of p)"
    by (simp_all add: metrics_of_def)
  moreover have e: "is_success_event = (\<lambda>r. completed (er_event r) \<noteq> None)" "is_failure_event = (\<lambda>r. is_failure (er_event r))"
    by (simp_all add: fun_eq_iff is_success_event_def is_failure_event_def)
  moreover have "total_jobs ?i = 0" "successful_jobs ?i = 0" "failed_jobs ?i = 0"
    by (simp_all add: initial_profile_def Let_def)
  ultimately show ?thesis
    using c unfolding count e by (simp only: m) (simp add: metrics_of_def count_events_of)
qed

text \<open>What does depend on the order need not follow the log.  Two submissions about one node that overlap can be logged in
  one order and applied in the other: the anchor of the profile is then that of the first record of the log.\<close>

lemma overlapping_submissions_reordered:
  assumes "er_subject r2 = er_subject r1" "er_anchor r1 = Some c"
  shows "case submissions fl fl32 ln_f [Logged r1, Logged r2, Applied 1 now, Applied 0 now'] of (waiting, applied, st) \<Rightarrow>
    waiting = [] \<and> list_records st (er_subject r1) = [r1, r2] \<and>
    map_option latest_anchor_cid (get_profile st (er_subject r1)) = Some (Some c)"
proof -
  have "list_records InMemoryReputationStore_new d = []" for d
    by (simp add: InMemoryReputationStore_new_def list_records_def hget_or_def)
  moreover have "latest_anchor_cid (update_profile fl fl32 ln_f now' r1 p) = Some c" for p
    using assms(2) by (simp add: update_profile_def Let_def)
  ultimately show ?thesis using assms(1) by (simp add: submissions_def)
qed

text \<open>The points of a history: one for each record, in the order of time, with scores within their range.\<close>

lemma history_points_times: "map fst (history_points fl s rs) = map er_timestamp rs"
  by (induction rs arbitrary: s) (simp_all add: Let_def)

lemma history_points_range: "(t, s') \<in> set (history_points fl s rs) \<Longrightarrow> 0 \<le> s' \<and> s' \<le> 100"
  by (induction rs arbitrary: s) (auto simp: Let_def)

lemma history_sorted: "sorted (map fst (get_reputation_profile_history_handler fl st d))"
  by (simp add: get_reputation_profile_history_handler_def history_points_times)

text \<open>The two scores the service reports for the same records differ: the history is clamped after every record, the summary
  once at the end.\<close>

definition demo_record :: "unit ReputationUpdateEvent \<Rightarrow> unit EventRecord" where
  "demo_record e = \<lparr>er_timestamp = 0, er_issuer = ''i'', er_subject = ''s'', er_event = e, er_anchor = None, er_signature = None\<rparr>"

definition demo_records :: "unit EventRecord list" where
  "demo_records = (let ok = demo_record (JobCompletedSuccessfully () 1 1 True None None True)
     in [ok, ok, ok, ok, ok, ok, demo_record (JobFailed () [] None False)])"

lemma history_success:
  "is_success_event r \<Longrightarrow> history_points (\<lambda>x. x) s (r # rs) = (er_timestamp r, max 0 (min 100 (s + 10))) # history_points (\<lambda>x. x) (max 0 (min 100 (s + 10))) rs"
  by (simp add: Let_def)

lemma reported_scores_disagree:
  "snd (last (history_points (\<lambda>x. x) 50 demo_records)) = 85" "sm_score (summary_of (\<lambda>x. x) (''s'', demo_records)) = 95"
proof -
  let ?ok = "demo_record (JobCompletedSuccessfully () 1 1 True None None True)" and ?f = "demo_record (JobFailed () [] None False)"
  have ok: "is_success_event ?ok" "\<not> is_failure_event ?ok" and f: "\<not> is_success_event ?f" "is_failure_event ?f"
    by (simp_all add: is_success_event_def is_failure_event_def demo_record_def)
  have "history_points (\<lambda>x. x) 100 [?f] = [(er_timestamp ?f, 85)]" using f by (simp add: Let_def)
  then show "snd (last (history_points (\<lambda>x. x) 50 demo_records)) = 85"
    by (simp add: demo_records_def history_success [OF ok(1)] Let_def del: history_points.simps)
  show "sm_score (summary_of (\<lambda>x. x) (''s'', demo_records)) = 95"
    using ok f by (simp add: demo_records_def summary_of_def Let_def)
qed

text \<open>A manual adjustment of a score has no effect: the score is computed again at once.\<close>

lemma manual_adjustment_lost:
  assumes "computed_score p = compute_score fl ln_f p" "er_event r = ProfileScoreManuallyAdjusted s t why"
  shows "computed_score (update_profile fl fl32 ln_f now r p) = computed_score p"
proof -
  have "compute_score fl ln_f (apply_event fl32 now p (er_event r)) = compute_score fl ln_f p"
    using assms(2) by (simp add: apply_event_def compute_score_def score_gains_def)
  then show ?thesis using assms(1) by (simp add: update_profile_def Let_def)
qed

end
