(* ===== verification/Policy_Mesh.thy ===== *)
theory Policy_Mesh
  imports Mesh_Local
begin

text \<open>
  The earlier mesh node, \<open>planetary-mesh/src/node.rs\<close>: reputation records that travel over the mesh and are verified by every
  node, scores computed from the verified ones, and the selection of an executor under the execution policy of a job.

  The file uses functions it does not contain (announcing and assigning a job, maintenance); assigning is an argument.
  The records of this node have a shape of their own.  Weights and scores are reals rounded by \<open>fl\<close>.
\<close>

section \<open>Records\<close>

datatype 'cid PolicyEvent =
    PolicyJobCompleted 'cid string did
  | PolicyJobFailed 'cid string did string

record 'cid PolicyRecord =
  po_version :: string
  po_issuer :: did
  po_subject :: did
  po_issued_at :: int
  po_event :: "'cid PolicyEvent"
  po_anchor :: "'cid option"
  po_expires_at :: "int option"
  po_signature :: "bytes option"

text \<open>The static table of public keys: every entry is commented out in the source.\<close>

definition TEST_PUBLIC_KEYS :: "(did, 'pk) hmap" where
  "TEST_PUBLIC_KEYS = []"

definition resolve_did_to_public_key :: "did \<Rightarrow> 'pk option" where
  "resolve_did_to_public_key d = hget TEST_PUBLIC_KEYS d"

definition verify_reputation_record_signature ::
    "('cid PolicyRecord \<Rightarrow> string + bytes) \<Rightarrow> ('pk \<Rightarrow> bytes \<Rightarrow> bytes \<Rightarrow> string + unit) \<Rightarrow> 'cid PolicyRecord \<Rightarrow> string + unit" where
  "verify_reputation_record_signature payload verify r =
     bind_result (map_err (\<lambda>e. ''Failed to get signing payload for reputation record: '' @ e) (payload (r\<lparr>po_signature := None\<rparr>))) (\<lambda>bs.
       case resolve_did_to_public_key (po_issuer r) of
         None \<Rightarrow> Inl (''Could not resolve public key for issuer DID: '' @ po_issuer r)
       | Some pk \<Rightarrow>
           (case po_signature r of
              None \<Rightarrow> Inl ''ReputationRecord is missing a signature to verify''
            | Some s \<Rightarrow> map_err (\<lambda>e. ''Signature verification failed for issuer '' @ po_issuer r @ '': '' @ e) (verify pk bs s)))"

section \<open>Bids under a policy\<close>

record PolicyBid =
  pb_job_id :: string
  pb_executor_did :: did
  pb_price :: u64
  pb_timestamp :: int
  pb_comment :: "string option"
  pb_region :: "string option"

record NodePolicy =
  np_rep_weight :: real
  np_price_weight :: real
  np_region_filter :: "string option"
  np_min_reputation :: "real option"
  np_max_price :: "u64 option"

record ScoredBid =
  scored_bid :: PolicyBid
  bid_total :: real

definition price_share :: "(real \<Rightarrow> real) \<Rightarrow> PolicyBid \<Rightarrow> NodePolicy \<Rightarrow> real" where
  "price_share fl b pol =
     (let m = (case np_max_price pol of Some mp \<Rightarrow> fl (real (unat mp)) | None \<Rightarrow> fl (fl (real (unat (pb_price b))) * 2))
      in if 0 < m then min (max (fl (1 - fl (fl (real (unat (pb_price b))) / m))) 0) 1 else 1)"

definition evaluate_bid_against_policy :: "(real \<Rightarrow> real) \<Rightarrow> PolicyBid \<Rightarrow> NodePolicy \<Rightarrow> real \<Rightarrow> ScoredBid option" where
  "evaluate_bid_against_policy fl b pol reputation =
     (if (case np_max_price pol of Some mp \<Rightarrow> mp < pb_price b | None \<Rightarrow> False) then None
      else if (case np_min_reputation pol of Some m \<Rightarrow> reputation < m | None \<Rightarrow> False) then None
      else
        (let rep_share = min (max (fl (reputation / 100)) 0) 1;
             total = fl (fl (np_price_weight pol * price_share fl b pol) + fl (np_rep_weight pol * rep_share))
         in if 0 < total then Some \<lparr>scored_bid = b, bid_total = total\<rparr> else None))"

fun succeeded :: "'cid PolicyEvent \<Rightarrow> bool" where
  "succeeded (PolicyJobCompleted _ _ _) = True"
| "succeeded (PolicyJobFailed _ _ _ _) = False"

definition calculate_reputation_score_for_did :: "(real \<Rightarrow> real) \<Rightarrow> ('cid, 'cid PolicyRecord) hmap \<Rightarrow> did \<Rightarrow> real" where
  "calculate_reputation_score_for_did fl records target =
     (let mine = filter (\<lambda>r. po_subject r = target) (hvalues records);
          successful = length (filter (\<lambda>r. succeeded (po_event r)) mine);
          failed = length (filter (\<lambda>r. \<not> succeeded (po_event r)) mine);
          score = fl (fl (50 + fl (real successful * 10)) - fl (real failed * 15))
      in if successful = 0 \<and> failed = 0 then 50 else min (max score 0) 100)"

definition region_ok :: "NodePolicy \<Rightarrow> PolicyBid \<Rightarrow> bool" where
  "region_ok pol b = (case np_region_filter pol of None \<Rightarrow> True | Some required \<Rightarrow> pb_region b = Some required)"

definition score_bid :: "(real \<Rightarrow> real) \<Rightarrow> ('cid, 'cid PolicyRecord) hmap \<Rightarrow> NodePolicy \<Rightarrow> PolicyBid \<Rightarrow> ScoredBid option" where
  "score_bid fl records pol b =
     (if region_ok pol b
      then evaluate_bid_against_policy fl b pol (calculate_reputation_score_for_did fl records (pb_executor_did b)) else None)"

text \<open>\<open>Iterator::max_by\<close> keeps the last of equal maxima, \<open>min_by_key\<close> the first of equal minima.\<close>

fun max_by_total :: "ScoredBid list \<Rightarrow> ScoredBid option" where
  "max_by_total [] = None"
| "max_by_total (x # xs) =
     (case max_by_total xs of None \<Rightarrow> Some x | Some y \<Rightarrow> if bid_total y < bid_total x then Some x else Some y)"

fun min_by_price :: "PolicyBid list \<Rightarrow> PolicyBid option" where
  "min_by_price [] = None"
| "min_by_price (x # xs) =
     (case min_by_price xs of None \<Rightarrow> Some x | Some y \<Rightarrow> if pb_price y < pb_price x then Some y else Some x)"

definition policy_winner :: "(real \<Rightarrow> real) \<Rightarrow> ('cid, 'cid PolicyRecord) hmap \<Rightarrow> NodePolicy option \<Rightarrow> PolicyBid list \<Rightarrow> PolicyBid option" where
  "policy_winner fl records pol bids =
     (case pol of
        Some p \<Rightarrow> map_option scored_bid (max_by_total (List.map_filter (score_bid fl records p) bids))
      | None \<Rightarrow> min_by_price bids)"

section \<open>The node\<close>

record 'cid PolicyNode =
  pn_did :: did
  pn_announced_originated_jobs :: "(string, JobManifest \<times> NodePolicy option) hmap"
  pn_bids :: "(string, PolicyBid list) hmap"
  pn_assigned_by_originator :: "string list"
  verified_reputation_records :: "('cid, 'cid PolicyRecord) hmap"
  pn_published :: "(string \<times> NodeMessage) list"
  pn_dag_store :: "('cid \<times> bytes) list option"
  pn_posted :: "'cid PolicyRecord list"

definition PolicyNode_new :: "did \<Rightarrow> ('cid \<times> bytes) list option \<Rightarrow> 'cid PolicyNode" where
  "PolicyNode_new d dag = \<lparr>pn_did = d, pn_announced_originated_jobs = [], pn_bids = [], pn_assigned_by_originator = [],
     verified_reputation_records = [], pn_published = [], pn_dag_store = dag, pn_posted = []\<rparr>"

definition publish_bid_message :: "(NodeMessage \<Rightarrow> bool) \<Rightarrow> PolicyBid \<Rightarrow> 'cid PolicyNode \<Rightarrow> bool \<times> 'cid PolicyNode" where
  "publish_bid_message sends b n =
     (let m = JobBidV1 (pb_job_id b) (pb_executor_did b) (pb_price b) (pb_comment b) (pb_region b)
      in if sends m then (True, n\<lparr>pn_published := pn_published n @ [(''job-bids/'' @ pb_job_id b, m)]\<rparr>) else (False, n))"

definition policy_handle_bid :: "int \<Rightarrow> string \<Rightarrow> did \<Rightarrow> u64 \<Rightarrow> string option \<Rightarrow> string option \<Rightarrow> 'cid PolicyNode \<Rightarrow> 'cid PolicyNode" where
  "policy_handle_bid now job_id executor price comment region n =
     n\<lparr>pn_bids := hinsert (pn_bids n) job_id (hget_or [] (pn_bids n) job_id @
        [\<lparr>pb_job_id = job_id, pb_executor_did = executor, pb_price = price, pb_timestamp = now, pb_comment = comment, pb_region = region\<rparr>])\<rparr>"

text \<open>The messages of the swarm: only bids are handled.\<close>

definition handle_swarm_event :: "int \<Rightarrow> NodeMessage \<Rightarrow> 'cid PolicyNode \<Rightarrow> 'cid PolicyNode" where
  "handle_swarm_event now m n =
     (case m of JobBidV1 job_id executor price comment region \<Rightarrow> policy_handle_bid now job_id executor price comment region n | _ \<Rightarrow> n)"

record ('pk, 'cid) policy_env =
  record_payload :: "'cid PolicyRecord \<Rightarrow> string + bytes"
  record_bytes :: "'cid PolicyRecord \<Rightarrow> string + bytes"
  record_of_bytes :: "bytes \<Rightarrow> string + 'cid PolicyRecord"
  dag_cbor_cid :: "bytes \<Rightarrow> 'cid"
  pe_cid_text :: "'cid \<Rightarrow> string"
  pk_verify :: "'pk \<Rightarrow> bytes \<Rightarrow> bytes \<Rightarrow> string + unit"
  pe_sign :: "bytes \<Rightarrow> bytes"
  adds_dag_node :: "'cid \<Rightarrow> bool"
  pe_sends :: "NodeMessage \<Rightarrow> bool"
  assigns_job :: "JobManifest \<Rightarrow> PolicyBid \<Rightarrow> bool"

text \<open>Fetching a record: what the wait of thirty seconds brought (\<open>fetched\<close>), then the checks of the source in their order.\<close>

definition handle_fetched_record :: "('pk, 'cid) policy_env \<Rightarrow> 'cid \<Rightarrow> string + bytes \<Rightarrow> 'cid PolicyNode \<Rightarrow> 'cid PolicyNode" where
  "handle_fetched_record env cid fetched n =
     (case fetched of
        Inl e \<Rightarrow> n
      | Inr bs \<Rightarrow>
          (case record_of_bytes env bs of
             Inl e \<Rightarrow> n
           | Inr r \<Rightarrow>
               (if dag_cbor_cid env bs \<noteq> cid then n
                else if is_ok (verify_reputation_record_signature (record_payload env) (pk_verify env) r)
                then n\<lparr>verified_reputation_records := hinsert (verified_reputation_records n) cid r\<rparr> else n)))"

text \<open>The reputation update after a receipt; a status other than completed and failed is skipped.\<close>

datatype receipt_result = ReceiptSucceeded | ReceiptFailed | ReceiptOther

definition receipt_record :: "did \<Rightarrow> int \<Rightarrow> string \<Rightarrow> did \<Rightarrow> 'cid \<Rightarrow> receipt_result \<Rightarrow> 'cid PolicyRecord option" where
  "receipt_record me now job_id executor receipt_cid status =
     map_option (\<lambda>ev. \<lparr>po_version = ''1.0'', po_issuer = me, po_subject = executor, po_issued_at = now, po_event = ev,
          po_anchor = Some receipt_cid, po_expires_at = None, po_signature = None\<rparr>)
       (case status of
          ReceiptSucceeded \<Rightarrow> Some (PolicyJobCompleted receipt_cid job_id executor)
        | ReceiptFailed \<Rightarrow> Some (PolicyJobFailed receipt_cid job_id executor ''Execution reported as failed'')
        | ReceiptOther \<Rightarrow> None)"

definition policy_reputation_update ::
    "('pk, 'cid) policy_env \<Rightarrow> bool \<Rightarrow> int \<Rightarrow> string \<Rightarrow> did \<Rightarrow> 'cid \<Rightarrow> receipt_result \<Rightarrow> 'cid PolicyNode \<Rightarrow> (string + unit) \<times> 'cid PolicyNode" where
  "policy_reputation_update env has_url now job_id executor receipt_cid status n =
     (case receipt_record (pn_did n) now job_id executor receipt_cid status of
        None \<Rightarrow> (Inr (), n)
      | Some r \<Rightarrow>
          (case record_payload env r of
             Inl e \<Rightarrow> (Inl e, n)
           | Inr payload_bytes \<Rightarrow>
               (let signed = r\<lparr>po_signature := Some (pe_sign env payload_bytes)\<rparr> in
                case record_bytes env signed of
                  Inl e \<Rightarrow> (Inl e, n)
                | Inr bs \<Rightarrow>
                    (let cid = dag_cbor_cid env bs;
                         n1 = (case pn_dag_store n of
                             Some dag \<Rightarrow> if adds_dag_node env cid then n\<lparr>pn_dag_store := Some (dag @ [(cid, bs)])\<rparr> else n
                           | None \<Rightarrow> n);
                         anchored = (pn_dag_store n \<noteq> None \<and> adds_dag_node env cid);
                         n2 = (if has_url then n1\<lparr>pn_posted := pn_posted n1 @ [signed]\<rparr> else n1);
                         m = ReputationRecordAvailableV1 \<lparr>ra_record_cid = pe_cid_text env cid, ra_subject_did = executor,
                               ra_issuer_did = pn_did n, ra_job_id = job_id, ra_execution_receipt_cid = pe_cid_text env receipt_cid\<rparr>
                     in (Inr (), if anchored \<and> pe_sends env m
                           then n2\<lparr>pn_published := pn_published n2 @ [(''reputation-records-v1'', m)]\<rparr> else n2)))))"

definition jobs_to_assign :: "(real \<Rightarrow> real) \<Rightarrow> 'cid PolicyNode \<Rightarrow> (string \<times> JobManifest \<times> PolicyBid) list" where
  "jobs_to_assign fl n =
     List.map_filter (\<lambda>(job_id, manifest, pol).
       if job_id \<in> set (pn_assigned_by_originator n) then None
       else case hget (pn_bids n) job_id of
           None \<Rightarrow> None
         | Some bids \<Rightarrow> map_option (\<lambda>b. (job_id, manifest, b)) (policy_winner fl (verified_reputation_records n) pol bids))
       (pn_announced_originated_jobs n)"

definition select_executor_for_originated_jobs :: "(real \<Rightarrow> real) \<Rightarrow> ('pk, 'cid) policy_env \<Rightarrow> 'cid PolicyNode \<Rightarrow> 'cid PolicyNode" where
  "select_executor_for_originated_jobs fl env n =
     fold (\<lambda>(job_id, manifest, b) n. if assigns_job env manifest b
        then n\<lparr>pn_assigned_by_originator := job_id # pn_assigned_by_originator n\<rparr> else n) (jobs_to_assign fl n) n"

section \<open>Properties\<close>

lemma score_bid_Some:
  assumes "score_bid fl records p b = Some s"
  shows "scored_bid s = b \<and> region_ok p b \<and> 0 < bid_total s \<and>
    (\<forall>mp. np_max_price p = Some mp \<longrightarrow> pb_price b \<le> mp) \<and>
    (\<forall>m. np_min_reputation p = Some m \<longrightarrow> m \<le> calculate_reputation_score_for_did fl records (pb_executor_did b))"
  using assms by (auto simp: score_bid_def evaluate_bid_against_policy_def Let_def split: if_splits option.splits)

lemma max_by_total_None: "max_by_total xs = None \<longleftrightarrow> xs = []"
  by (cases xs) (auto split: option.split)

lemma max_by_total_spec: "max_by_total xs = Some m \<Longrightarrow> m \<in> set xs \<and> (\<forall>x \<in> set xs. bid_total x \<le> bid_total m)"
proof (induction xs arbitrary: m)
  case (Cons x xs)
  show ?case
  proof (cases "max_by_total xs")
    case None
    with Cons.prems show ?thesis by (simp add: max_by_total_None)
  next
    case (Some y)
    with Cons.IH [OF Some] Cons.prems show ?thesis by (auto split: if_splits)
  qed
qed simp

lemma min_by_price_spec: "min_by_price xs = Some m \<Longrightarrow> m \<in> set xs \<and> (\<forall>x \<in> set xs. pb_price m \<le> pb_price x)"
proof (induction xs arbitrary: m)
  case (Cons x xs)
  show ?case
  proof (cases "min_by_price xs")
    case None
    then have "xs = []" by (cases xs) (auto split: option.splits if_splits)
    with Cons.prems show ?thesis by simp
  next
    case (Some y)
    with Cons.IH [OF Some] Cons.prems show ?thesis by (auto split: if_splits)
  qed
qed simp

lemma set_map_filter: "y \<in> set (List.map_filter f xs) \<longleftrightarrow> (\<exists>x \<in> set xs. f x = Some y)"
  by (induction xs) (auto simp: List.map_filter_simps split: option.split)

lemma map_filter_empty: "List.map_filter f xs = [] \<longleftrightarrow> (\<forall>x \<in> set xs. f x = None)"
  by (induction xs) (auto simp: List.map_filter_simps split: option.split)

text \<open>The winner under a policy is one of the bids, keeps to the region, the price limit and the reputation the policy asks for,
  and no admissible bid has a higher score; there is a winner whenever a bid is admissible.  Without a policy a cheapest
  bid wins.\<close>

lemma policy_winner_respects_policy:
  assumes "policy_winner fl records (Some p) bids = Some b"
  shows "b \<in> set bids \<and> region_ok p b \<and> (\<forall>mp. np_max_price p = Some mp \<longrightarrow> pb_price b \<le> mp) \<and>
    (\<forall>m. np_min_reputation p = Some m \<longrightarrow> m \<le> calculate_reputation_score_for_did fl records (pb_executor_did b)) \<and>
    (\<exists>s. score_bid fl records p b = Some s \<and> (\<forall>x \<in> set bids. \<forall>t. score_bid fl records p x = Some t \<longrightarrow> bid_total t \<le> bid_total s))"
proof -
  from assms obtain s where s: "max_by_total (List.map_filter (score_bid fl records p) bids) = Some s" "b = scored_bid s"
    by (auto simp: policy_winner_def)
  with max_by_total_spec [OF s(1)] obtain x where "x \<in> set bids" "score_bid fl records p x = Some s" by (auto simp: set_map_filter)
  with s max_by_total_spec [OF s(1)] score_bid_Some [of fl records p x s] show ?thesis
    by (auto simp: set_map_filter)
qed

lemma policy_winner_None: "policy_winner fl records (Some p) bids = None \<longleftrightarrow> (\<forall>b \<in> set bids. score_bid fl records p b = None)"
  by (simp add: policy_winner_def max_by_total_None map_filter_empty)

text \<open>No key is known, so that no record is ever verified: whatever the node fetches, every score stays at the neutral 50, and
  a policy that asks for more than that assigns nothing.\<close>

lemma no_record_verified: "\<not> is_ok (verify_reputation_record_signature payload verify r)"
  by (cases "payload (r\<lparr>po_signature := None\<rparr>)")
    (simp_all add: verify_reputation_record_signature_def resolve_did_to_public_key_def TEST_PUBLIC_KEYS_def)

lemma handle_fetched_record_ignored: "handle_fetched_record env cid fetched n = n"
  by (simp add: handle_fetched_record_def no_record_verified split: sum.split)

lemma score_neutral: "calculate_reputation_score_for_did fl [] d = 50"
  by (simp add: calculate_reputation_score_for_did_def hvalues_def)

lemma policy_never_met:
  assumes "np_min_reputation p = Some m" "50 < m"
  shows "policy_winner fl [] (Some p) bids = None"
  using assms by (simp add: policy_winner_None score_bid_def evaluate_bid_against_policy_def score_neutral)

end
