(* ===== verification/Spec2Isabelle.thy ===== *)
theory Spec2Isabelle
  imports Prelude Identity_Index Did_Key Mana_Pool Mana_Ledger Resource_Policy Economics Dag_Store Quorum
    Json Jws Credentials Receipts Jobs Reputation Core_VM Mesh_Types
    Ccl_Dsl Ccl_Lower Ccl_Codegen Wasm_Emit Ccl_Compiler Ccl_Document Runtime_Reputation
    Distribution Runtime_Context Runtime_Storage Runtime Job_Context Host_Env
    Reputation_Client Bid_Selection Job_Store Job_Service Job_Concurrency Agora_Ledger Agora_Auth Agora_Forum Agora_Transfers Agora_Hub
    Mesh_Local Mesh_Node Mesh_Settlement Reputation_Service Policy_Mesh
begin

text \<open>
  A verification library for the InterCooperative Network (icn-v3), a Rust workspace: cooperatives run
  WebAssembly contracts on a cooperative virtual machine and dispatch jobs over a mesh of nodes; identities
  are \<open>did:key\<close> names of Ed25519 keys; work is paid for in mana and tokens; trust is established by quorums
  of signatures; what happened is recorded as signed receipts anchored in a graph of events.

  \<^bold>\<open>The parts of the program and their theories.\<close>  Paths are under \<open>src/crates\<close>.

  \<^item> \<open>Prelude\<close>: machine integers as words with the wrap-around of a release build, \<open>Result\<close> as a sum, hash
    maps as association lists behind the locale \<open>hash_map\<close>, strings as UTF-8 bytes.
  \<^item> \<open>Identity_Index\<close> (\<open>common/icn-economics/src/mana.rs\<close>, \<open>ScopeKey\<close> and \<open>IdentityIndex\<close>): which account an
    identity's mana is drawn from; the step relation \<open>scope_of\<close> is its specification.
  \<^item> \<open>Mana_Pool\<close> (\<open>mana.rs\<close>, \<open>ManaPool\<close> and \<open>ManaManager\<close>): regenerating balances, spending, crediting and
    transfers, with the metrics hook's calls as outputs.
  \<^item> \<open>Mana_Ledger\<close> (\<open>mana.rs\<close>, \<open>sled_mana_ledger.rs\<close>, \<open>mana_metrics.rs\<close>, \<open>common/icn-types/src/mana.rs\<close>): the
    \<open>ManaLedger\<close> trait as the locale \<open>mana_ledger\<close>, its in-memory and its Sled implementation, and the
    regenerator's tick, which runs over any ledger.
  \<^item> \<open>Resource_Policy\<close> (\<open>common/icn-economics/src/lib.rs\<close>): policies, tokens, the enforcer's decision, the usage
    repository (locale \<open>resource_repository\<close>) and the adapter that puts the enforcer on a mana ledger.
  \<^item> \<open>Economics\<close> (\<open>economics.rs\<close>, \<open>policy.rs\<close>, \<open>resource.rs\<close>): the shared usage ledger with record, mint,
    transfer and the three aggregates; \<open>econ_step\<close> is one call by anybody.
  \<^item> \<open>Did_Key\<close> (\<open>common/icn-identity/src/did.rs\<close>, \<open>icn-types/src/crypto.rs\<close>): making, parsing and resolving DIDs.
  \<^item> \<open>Quorum\<close> (\<open>quorum.rs\<close>, \<open>trust_bundle.rs\<close>, \<open>trust_validator.rs\<close>): quorum proofs and their serialised form,
    trust bundles and the validator's state machine; the locale \<open>weighted_majority\<close> carries the intersection
    arguments for both majority rules.
  \<^item> \<open>Json\<close>, \<open>Jws\<close>, \<open>Credentials\<close> (\<open>icn-types/src/identity.rs\<close>, \<open>trust.rs\<close>, \<open>icn-crypto/src/jws.rs\<close>,
    \<open>icn-identity/src/vc.rs\<close>): canonical JSON, detached signatures, credentials, bundles of credentials and
    quorum configurations.
  \<^item> \<open>Receipts\<close> (\<open>icn-types/src/receipt_verification.rs\<close>, \<open>runtime_receipt.rs\<close>, \<open>icn-mesh-receipts/src\<close>): the trait
    \<open>VerifiableReceipt\<close> as the locale \<open>verifiable_receipt\<close>, interpreted on the runtime's and the mesh's receipt,
    and the mesh receipt's embedded signature.
  \<^item> \<open>Dag_Store\<close> (\<open>icn-types/src/dag/mod.rs\<close>, \<open>dag_store.rs\<close>): event nodes, their builder, the store (locale
    \<open>dag_store\<close>) and its write batches; \<open>dag_step\<close> interleaves the calls of any number of clients.
  \<^item> \<open>Jobs\<close> (\<open>icn-types/src/jobs\<close>): job status and its database columns.
  \<^item> \<open>Reputation\<close> (\<open>icn-types/src/reputation.rs\<close>): the event-driven profile and its score.
  \<^item> \<open>Core_VM\<close> (\<open>runtime/icn-core-vm/src/lib.rs\<close>): host context, host functions over guest memory, one execution.
  \<^item> \<open>Mesh_Types\<close> (\<open>icn-types/src/mesh.rs\<close>): the jobs, workflows and messages the compiler, the runtime and the mesh share.
  \<^item> The contract compiler (\<open>ccl\<close>): \<open>Ccl_Dsl\<close> (modules, rules, steps), \<open>Ccl_Lower\<close> (\<open>lower.rs\<close>: parse trees to modules),
    \<open>Ccl_Codegen\<close> (modules to opcodes), \<open>Wasm_Emit\<close> (opcodes to a WebAssembly module), \<open>Ccl_Compiler\<close> (the three in sequence) and
    \<open>Ccl_Document\<close> (the parser's document interface).
  \<^item> The runtime (\<open>runtime/icn-runtime\<close>, \<open>host-abi\<close>): \<open>Runtime_Context\<close> (shared state and builder), \<open>Runtime_Storage\<close> (the trait as
    the locale \<open>runtime_storage\<close>, in memory and on Sled), \<open>Runtime_Reputation\<close> (score changes of receipts), \<open>Distribution\<close> (the periodic
    payout), \<open>Runtime\<close> (proposals, jobs, receipts, anchoring), \<open>Job_Context\<close> (the state of one executing job) and \<open>Host_Env\<close> (the
    functions a guest can import, over its memory and the mana ledger).
  \<^item> The mesh job service (\<open>services/icn-mesh-jobs\<close>): \<open>Reputation_Client\<close> (both caching clients are instances of the locale
    \<open>ttl_cache\<close>), \<open>Bid_Selection\<close> (scores and the locale \<open>executor_selector\<close>), \<open>Job_Store\<close> (the locale \<open>mesh_job_store\<close>, on SQLite tables and
    in memory), \<open>Job_Service\<close> (the handlers, with the life cycle of a job as the relation \<open>life\<close>) and \<open>Job_Concurrency\<close> (the handlers
    split where they wait, with overlapping requests as turns of the service).
  \<^item> AgoraNet (\<open>services/icn-agoranet\<close>): \<open>Agora_Ledger\<close> (the locales \<open>token_ledger\<close> and \<open>open_ledger\<close>, on two in-memory ledgers and the
    PostgreSQL store), \<open>Agora_Auth\<close> (tokens, roles, the locale \<open>revocation_list\<close>), \<open>Agora_Forum\<close> (threads, proposals and votes),
    \<open>Agora_Transfers\<close> (transfer endpoints and fees) and \<open>Agora_Hub\<close> (the websocket channels).
  \<^item> The planetary mesh (\<open>p2p/planetary-mesh\<close>): \<open>Mesh_Local\<close> (data, the local node and the protocol), \<open>Mesh_Node\<close> (\<open>node.rs\<close>: the event
    loop with every message, timer and spawned task) and \<open>Mesh_Settlement\<close> (reachable states \<open>mesh_run\<close> and their invariants, through
    the locale \<open>mesh_invariant\<close>).  \<open>Policy_Mesh\<close> is the earlier node of \<open>src/planetary-mesh\<close>.
  \<^item> \<open>Reputation_Service\<close> (\<open>services/icn-reputation\<close>): the log of reputation records, the profiles and the reports on them.

  \<^bold>\<open>How the parts interact.\<close>  The compiler's output is a guest of the host environment, whose resource calls debit the mana
  ledger.  The runtime executes proposals and jobs, issues receipts, anchors them in storage and reports them to the reputation
  service; the payout reads the anchored receipts.  The job service and the mesh node select executors with reputation profiles; the
  mesh node verifies receipts and requests payments.  AgoraNet's handlers authenticate with \<open>Agora_Auth\<close>, move tokens in
  \<open>Agora_Ledger\<close> and announce the result on the channels of \<open>Agora_Hub\<close>.

  \<^bold>\<open>How state and operations correspond.\<close>  A struct is a record, an enum a datatype, an operation one
  definition of the same name (prefixed where two modules share a name).  A method with \<open>&mut self\<close>, or one
  that works behind a lock, returns its result with the new state; a panic is the result \<open>None\<close>.  Where an
  operation holds its lock, or its exclusive reference, from its first read to its last write (the mana manager, the event store
  and its batches, the token ledgers, the revocation store, AgoraNet's store, the distribution tick), it is one step and
  concurrency is interleaving of steps.  Where it does not, the steps are smaller or the statement says so: the handlers of the
  job service are single steps in \<open>Job_Service\<close>, whose statements are about one request handled on its own, and are split at
  their reads, waits and writes in \<open>Job_Concurrency\<close>; the reputation store's \<open>submit_record\<close> takes two locks in turn and is
  two steps in \<open>Reputation_Service\<close>; the mesh node's spawned tasks are steps of their own in \<open>Mesh_Node\<close>; the
  regenerator's tick reads and writes the ledger in separate calls, is one step in \<open>Mana_Ledger\<close>, and what happens to a
  write in between is stated there.  Clocks, randomness, codecs, Ed25519, hashing, the storage engine, serialisers and the WebAssembly engine are
  arguments; the laws a property needs of them are named hypotheses (\<open>sled_laws\<close>, \<open>b64_laws\<close>, \<open>key_pair\<close>, the
  injectivity of an encoder), each shown satisfiable by a concrete instance in the witness.

  \<^bold>\<open>What the lemmas show.\<close>
  \<^item> Invariants of every reachable state: pool balances stay within their maximum and agree with what the metrics
    hook reported; token usage of minted and transferred accounts stays within 100; every stored node is filed under its own
    identifier; the validator's bundle was certified; reputation counters fit together; votes are counted once per voter; transfers
    conserve the supply; a job is assigned once, to a bidder.
  \<^item> Safety: quotas hold; proposals execute once; every payment of the mesh node is backed by a verified receipt, an announced job and a
    bid; transfers are made by those who may; a websocket client is sent the events of its scope and those below it.
  \<^item> Exact functional behaviour, errors included: spending, transfers, the tick over either ledger, quorum
    verification and configuration, an execution's effect, guest memory reads, authentication, the assignment to the best bid.
  \<^item> Refinement and equivalence: the Sled ledger and the Sled storage keep their contracts, batches equal sequential calls, the
    PostgreSQL ledger agrees with the one in memory, the job handlers implement the life cycle of a job, the revocation store implements a
    list of revocations, a contract's actions are the host calls of its module, profiles are the replay of the records applied to them, overlapping submissions included,
    canonical bytes determine a credential.
  \<^item> Termination and liveness: a job changes its status a bounded number of times, overlapping requests included; the payout pays
    the originator of every receipt its share.
  \<^item> Round trips: DIDs, signatures, receipts, quorum proofs, lowered blocks, database columns.
  \<^item> Flaws, each proved: regeneration, quota, weight and fee sums wrap; a bundle with \<open>Threshold(0)\<close> is accepted without a
    signature; credential bundles are accepted with forged proofs; signed receipts do not cover what they charge;
    limits of the virtual machine are not enforced; \<open>did_to_key\<close> fails on every key; the event store cannot be
    filled; one key has many accepted DIDs; an assignment that was overtaken overwrites a running job; overlapping
    reputation records are applied out of order; a write during a regeneration tick is lost; a replayed receipt would be paid again
    if the answer to the node's query ever arrived, but the mesh loop waits for an answer only it
    could deliver and never settles; rotated tokens and tokens of the service's own issuer are refused; no reputation record of the earlier
    mesh node is ever verified.

  \<^bold>\<open>Bounds.\<close>  No definition of the model uses fuel: every loop of the modelled code runs over a finite list, and the endless server loops are
  relations or folds over the events they handle.  (\<open>run_alone\<close>, which resumes a request without interruption, counts the at most three
  parts of a handler.)  Where a statement has a size
  hypothesis (sums below \<open>2 ^ 64\<close>, weights below \<open>2 ^ 15\<close> in total, fewer than \<open>2 ^ 32\<close> events) it is what the
  machine arithmetic needs, and where the code does not ensure it a separate lemma shows the failure.  Doubles are bit patterns where
  they are only carried and compared, and reals with a rounding function where they are computed with.

  \<^bold>\<open>What is not modelled.\<close>  Debug output and the registration of metrics, which no operation reads; key generation; the wire formats of
  serde, CBOR and bincode; the transports (libp2p swarms and peer discovery, HTTP and websocket servers, database connections), of which
  the operations see only the results, and these are arguments; the command line tools, which parse arguments, read files and call
  the services; the guest side of the host interface (\<open>ccl_std_env\<close>), which only forwards; statistics computed by the
  database; dashboards; tests.  Modules the sources declare and the repository does not contain are arguments where
  modelled code calls them.
\<close>

end
